(* ===== verification/Prelude.thy ===== *)
theory Prelude
  imports Main "HOL-Library.Word" "HOL-Library.Monad_Syntax"
begin

text \<open>
  Shared vocabulary of the development: the machine integers of the firmware, the status
  codes its functions return, byte buffers with checked access, the overflow macros of the
  boot loader, and the automation collections the component theories extend.

  A buffer is a list of bytes. A C access beyond the end of a buffer is undefined behaviour;
  the checked accessors return \<open>None\<close> there, so that an out-of-range access is visible in
  every function that performs one and its absence is a theorem.
\<close>

unbundle bit_operations_syntax

section \<open>Integers and status codes\<close>

type_synonym u8 = "8 word"
type_synonym u16 = "16 word"
type_synonym u32 = "32 word"
type_synonym u64 = "64 word"
type_synonym bytes = "u8 list"

datatype efi_status =
    EFI_SUCCESS
  | EFI_LOAD_ERROR
  | EFI_INVALID_PARAMETER
  | EFI_UNSUPPORTED
  | EFI_BAD_BUFFER_SIZE
  | EFI_BUFFER_TOO_SMALL
  | EFI_NOT_READY
  | EFI_DEVICE_ERROR
  | EFI_OUT_OF_RESOURCES
  | EFI_VOLUME_CORRUPTED
  | EFI_VOLUME_FULL
  | EFI_NO_MEDIA
  | EFI_NOT_FOUND
  | EFI_NOT_STARTED
  | EFI_PROTOCOL_ERROR
  | EFI_SECURITY_VIOLATION
  | EFI_ABORTED

text \<open>
  The services the modelled code calls return a success or an error code, never a warning,
  so the macro \<open>EFI_ERROR\<close> is a comparison with the success code.
\<close>

definition EFI_ERROR :: "efi_status \<Rightarrow> bool" where
  "EFI_ERROR s \<longleftrightarrow> s \<noteq> EFI_SUCCESS"

lemma EFI_ERROR_simps [simp]:
  "\<not> EFI_ERROR EFI_SUCCESS" "s \<noteq> EFI_SUCCESS \<Longrightarrow> EFI_ERROR s"
  by (simp_all add: EFI_ERROR_def)

lemma not_EFI_ERROR [simp]: "\<not> EFI_ERROR s \<longleftrightarrow> s = EFI_SUCCESS"
  by (simp add: EFI_ERROR_def)

abbreviation (input) MAX_UINT32 :: "u32" where "MAX_UINT32 \<equiv> 0xFFFFFFFF"
abbreviation (input) MAX_UINT64 :: "u64" where "MAX_UINT64 \<equiv> 0xFFFFFFFFFFFFFFFF"

section \<open>Automation collections\<close>

named_theorems buf_simps \<open>lengths and reads of updated buffers\<close>
named_theorems attr_simps \<open>fields of partition attributes after an update\<close>

section \<open>Words read as naturals\<close>

lemma unat_plus_bound:
  "unat (x :: 'a::len word) + unat y < 2 ^ LENGTH('a) \<Longrightarrow> unat (x + y) = unat x + unat y"
  by (simp add: unat_word_ariths)

lemma unat_mult_bound:
  "unat (x :: 'a::len word) * unat y < 2 ^ LENGTH('a) \<Longrightarrow> unat (x * y) = unat x * unat y"
  by (simp add: unat_word_ariths)

lemma unat_minus_bound: "(y :: 'a::len word) \<le> x \<Longrightarrow> unat (x - y) = unat x - unat y"
  by (rule unat_sub)

lemma unat_u32_bound: "unat (x :: u32) < 4294967296"
  using unsigned_less [of x] by simp

lemma unat_u64_bound: "unat (x :: u64) < 18446744073709551616"
  using unsigned_less [of x] by simp

lemma unat_ucast_u32_u64 [simp]: "unat (ucast (x :: u32) :: u64) = unat x"
proof -
  have "unat (ucast x :: u64) = unat x mod 18446744073709551616"
    by (simp add: unsigned_ucast_eq take_bit_eq_mod)
  also have "\<dots> = unat x"
    by (rule mod_less, rule order.strict_trans [OF unat_u32_bound]) simp
  finally show ?thesis .
qed

text \<open>Clearing low bits is rounding down.\<close>

lemma and_not_mask_nat: "unat ((x :: 'a::len word) AND NOT (mask k)) = unat x div 2 ^ k * 2 ^ k"
proof -
  have "x AND NOT (mask k) = push_bit k (drop_bit k x)"
    by (rule bit_eqI) (auto simp: bit_simps)
  then have "unat (x AND NOT (mask k)) = unat (push_bit k (drop_bit k x))" by simp
  also have "\<dots> = take_bit LENGTH('a) (push_bit k (unat (drop_bit k x)))"
    by (simp add: unsigned_push_bit_eq)
  also have "unat (drop_bit k x) = unat x div 2 ^ k" by (simp only: unat_drop_bit_eq) (simp add: drop_bit_eq_div)
  also have "take_bit LENGTH('a) (push_bit k (unat x div 2 ^ k)) = unat x div 2 ^ k * 2 ^ k"
    unfolding push_bit_eq_mult
    by (rule take_bit_nat_eq_self) (meson div_times_less_eq_dividend le_less_trans unsigned_less)
  finally show ?thesis .
qed

section \<open>Overflow macros\<close>

text \<open>
  \<open>CHECK_ADD64(a, b)\<close> is \<open>MAX_UINT64 - b < a\<close>: true when the 64-bit sum wraps.
\<close>

definition CHECK_ADD64 :: "u64 \<Rightarrow> u64 \<Rightarrow> bool" where
  "CHECK_ADD64 a b \<longleftrightarrow> MAX_UINT64 - b < a"

lemma CHECK_ADD64_iff: "CHECK_ADD64 a b \<longleftrightarrow> unat a + unat b \<ge> 2 ^ 64"
proof -
  have "unat (MAX_UINT64 - b) = 18446744073709551615 - unat b"
  proof -
    have "unat b \<le> 18446744073709551615"
      using unat_u64_bound [of b] by linarith
    then have "b \<le> MAX_UINT64"
      by (simp add: word_le_nat_alt)
    then show ?thesis by (subst unat_minus_bound) simp_all
  qed
  then show ?thesis
    using unat_u64_bound [of b] by (auto simp: CHECK_ADD64_def word_less_nat_alt)
qed

lemma not_CHECK_ADD64_unat: "\<not> CHECK_ADD64 a b \<Longrightarrow> unat (a + b) = unat a + unat b"
  by (rule unat_plus_bound) (simp add: CHECK_ADD64_iff)

section \<open>Sub-ranges and updates of buffers\<close>

definition slice :: "nat \<Rightarrow> nat \<Rightarrow> 'a list \<Rightarrow> 'a list" where
  "slice i n b = take n (drop i b)"

definition splice :: "nat \<Rightarrow> 'a list \<Rightarrow> 'a list \<Rightarrow> 'a list" where
  "splice i v b = take i b @ v @ drop (i + length v) b"

lemma length_slice [buf_simps]: "length (slice i n b) = min n (length b - i)"
  by (simp add: slice_def)

lemma length_splice [buf_simps]: "i + length v \<le> length b \<Longrightarrow> length (splice i v b) = length b"
  by (simp add: splice_def)

lemma slice_splice_same: "i + length v \<le> length b \<Longrightarrow> slice i (length v) (splice i v b) = v"
  by (simp add: slice_def splice_def)

lemma nth_splice:
  assumes "i + length v \<le> length b" "k < length b"
  shows "splice i v b ! k = (if i \<le> k \<and> k < i + length v then v ! (k - i) else b ! k)"
  using assms by (auto simp: splice_def nth_append)

lemma slice_splice_disjoint:
  assumes "i + length v \<le> length b" "j + n \<le> i \<or> i + length v \<le> j"
  shows "slice j n (splice i v b) = slice j n b"
proof (rule nth_equalityI)
  show "length (slice j n (splice i v b)) = length (slice j n b)"
    using assms(1) by (simp add: buf_simps)
  fix k assume "k < length (slice j n (splice i v b))"
  with assms(1) have "k < n" "j + k < length b" by (auto simp: buf_simps)
  with assms show "slice j n (splice i v b) ! k = slice j n b ! k"
    by (auto simp: slice_def nth_splice length_splice)
qed

lemma slice_slice: "j + m \<le> n \<Longrightarrow> slice j m (slice i n b) = slice (i + j) m b"
  by (simp add: slice_def take_drop min_def add.commute add.left_commute)

text \<open>
  Updating at an offset inside a window is updating the window. The law lets a proof move
  between a structure and the image that contains it.
\<close>

lemma slice_splice_inside:
  assumes "j \<le> i" "i + length v \<le> j + n" "j + n \<le> length b"
  shows "slice j n (splice i v b) = splice (i - j) v (slice j n b)"
proof (rule nth_equalityI)
  have b: "i + length v \<le> length b" using assms by simp
  show len: "length (slice j n (splice i v b)) = length (splice (i - j) v (slice j n b))"
    using assms b by (simp add: buf_simps)
  fix k assume "k < length (slice j n (splice i v b))"
  with assms b have k: "k < n" "j + k < length b" by (auto simp: buf_simps)
  have "slice j n (splice i v b) ! k = splice i v b ! (j + k)"
    using k b by (simp add: slice_def buf_simps)
  also have "\<dots> = splice (i - j) v (slice j n b) ! k"
    using assms b k by (auto simp: nth_splice buf_simps slice_def add.commute)
  finally show "slice j n (splice i v b) ! k = splice (i - j) v (slice j n b) ! k" .
qed

text \<open>Consecutive sub-ranges and consecutive updates compose.\<close>

lemma slice_append: "slice i (m + n) b = slice i m b @ slice (i + m) n b"
  by (simp add: slice_def take_add add.commute)

lemma slice_zero [simp]: "slice i 0 b = []"
  by (simp add: slice_def)

lemma splice_nil [simp]: "splice i [] b = b"
  by (simp add: splice_def)

lemma splice_append:
  assumes "i + length v + length w \<le> length b"
  shows "splice (i + length v) w (splice i v b) = splice i (v @ w) b"
  using assms by (simp add: splice_def add.assoc add.commute add.left_commute)

lemma length_slice_in [simp]: "i + n \<le> length b \<Longrightarrow> length (slice i n b) = n"
  by (simp add: length_slice)

text \<open>A read-modify-write of a window is an update of the buffer.\<close>

lemma splice_window:
  assumes "length w \<le> n" "i + n \<le> length b"
  shows "splice i (splice 0 w (slice i n b)) b = splice i w b"
proof -
  have "drop (i + length w) b = take (n - length w) (drop (i + length w) b) @ drop (i + n) b"
    using assms append_take_drop_id [of "n - length w" "drop (i + length w) b"]
    by (simp add: add.commute)
  then show ?thesis
    using assms by (simp add: splice_def slice_def drop_take add.commute)
qed

lemma unat_u64_to_u32: "unat x < 2 ^ 32 \<Longrightarrow> unat (ucast (x :: u64) :: u32) = unat x"
  by (simp add: unsigned_ucast_eq take_bit_eq_mod)

lemma splice_twice:
  "length v = length w \<Longrightarrow> i + length v \<le> length b \<Longrightarrow> splice i v (splice i w b) = splice i v b"
  by (simp add: splice_def)

lemma splice_slice_self: "i + n \<le> length b \<Longrightarrow> splice i (slice i n b) b = b"
proof -
  assume "i + n \<le> length b"
  then have "take i b @ take n (drop i b) @ drop (i + n) b = b"
    by (metis append_take_drop_id drop_drop add.commute)
  then show ?thesis using \<open>i + n \<le> length b\<close> by (simp add: splice_def slice_def)
qed

section \<open>Frames: what an update leaves alone\<close>

text \<open>\<open>frame R b b'\<close>: the buffers have the same length and differ only inside the ranges of
  \<open>R\<close>, given as offset and length.\<close>

definition frame :: "(nat \<times> nat) list \<Rightarrow> 'a list \<Rightarrow> 'a list \<Rightarrow> bool" where
  "frame R b b' \<longleftrightarrow> length b' = length b \<and>
     (\<forall>k<length b. (\<forall>(lo, n)\<in>set R. k < lo \<or> lo + n \<le> k) \<longrightarrow> b' ! k = b ! k)"

lemma frame_length: "frame R b b' \<Longrightarrow> length b' = length b"
  by (simp add: frame_def)

lemma frame_refl [simp]: "frame R b b"
  by (simp add: frame_def)

lemma frame_splice: "i + length v \<le> length b \<Longrightarrow> frame [(i, length v)] b (splice i v b)"
  by (auto simp: frame_def length_splice nth_splice)

lemma frame_trans: "frame R a b \<Longrightarrow> frame R' b c \<Longrightarrow> frame (R @ R') a c"
  by (auto simp: frame_def)

lemma frame_widen:
  assumes f: "frame R a b"
    and w: "\<And>lo n. (lo, n) \<in> set R \<Longrightarrow> \<exists>(l, m)\<in>set R'. l \<le> lo \<and> lo + n \<le> l + m"
  shows "frame R' a b"
  unfolding frame_def
proof (intro conjI allI impI)
  show "length b = length a" using f by (rule frame_length)
  fix k assume k: "k < length a" "\<forall>(lo, n)\<in>set R'. k < lo \<or> lo + n \<le> k"
  have "\<forall>(lo, n)\<in>set R. k < lo \<or> lo + n \<le> k"
    using w k(2) by fastforce
  then show "b ! k = a ! k" using f k(1) by (simp add: frame_def)
qed

definition covered :: "(nat \<times> nat) list \<Rightarrow> (nat \<times> nat) list \<Rightarrow> bool" where
  "covered R R' \<longleftrightarrow> list_all (\<lambda>(lo, n). list_ex (\<lambda>(l, m). l \<le> lo \<and> lo + n \<le> l + m) R') R"

lemma frame_covered: "frame R a b \<Longrightarrow> covered R R' \<Longrightarrow> frame R' a b"
  by (rule frame_widen) (fastforce simp: covered_def list_all_iff list_ex_iff)+

definition clear_of :: "nat \<Rightarrow> nat \<Rightarrow> (nat \<times> nat) list \<Rightarrow> bool" where
  "clear_of i n R \<longleftrightarrow> (\<forall>(lo, m)\<in>set R. i + n \<le> lo \<or> lo + m \<le> i)"

lemma clear_of_simps [simp]:
  "clear_of i n []"
  "clear_of i n ((lo, m) # R) \<longleftrightarrow> (i + n \<le> lo \<or> lo + m \<le> i) \<and> clear_of i n R"
  "clear_of i n (R @ R') \<longleftrightarrow> clear_of i n R \<and> clear_of i n R'"
  by (auto simp: clear_of_def)

lemma frame_slice: "frame R b b' \<Longrightarrow> clear_of i n R \<Longrightarrow> slice i n b' = slice i n b"
proof (rule nth_equalityI)
  assume f: "frame R b b'" and c: "clear_of i n R"
  show "length (slice i n b') = length (slice i n b)" using f by (simp add: length_slice frame_def)
  fix k assume "k < length (slice i n b')"
  then have k: "k < n" "i + k < length b" using f by (auto simp: length_slice frame_def)
  then have "b' ! (i + k) = b ! (i + k)"
    using f c by (fastforce simp: frame_def clear_of_def)
  then show "slice i n b' ! k = slice i n b ! k" using k f by (simp add: slice_def frame_def)
qed

section \<open>Numbers in texts\<close>

text \<open>Decimal and hexadecimal numbers as the print library writes them.\<close>

fun digits :: "nat \<Rightarrow> nat \<Rightarrow> string" where
  "digits base n =
     (let d = char_of (if n mod base < 10 then 48 + n mod base else 55 + n mod base)
      in if base \<le> 1 \<or> n < base then [d] else digits base (n div base) @ [d])"

declare digits.simps [simp del]

end
