(* ===== verification/LittleEndian.thy ===== *)
theory LittleEndian
  imports Prelude
begin

text \<open>
  The field accessors of the partition table code (macros of
  \<open>Include/Library/PartitionTableUpdate.h\<close>): a 32-bit and a 64-bit little-endian read and
  write at a byte offset of a buffer, each refused (\<open>None\<close>) when the field leaves the buffer.
  The locale \<open>le_field\<close> is their contract; the partition table theories use only its laws.
\<close>

section \<open>The macros\<close>

definition GET_LWORD_FROM_BYTE :: "bytes \<Rightarrow> u32" where
  "GET_LWORD_FROM_BYTE x =
     (ucast (x ! 0) OR push_bit 8 (ucast (x ! 1)) OR push_bit 16 (ucast (x ! 2)) OR
      push_bit 24 (ucast (x ! 3)))"

definition GET_LLWORD_FROM_BYTE :: "bytes \<Rightarrow> u64" where
  "GET_LLWORD_FROM_BYTE x =
     (ucast (x ! 0) OR push_bit 8 (ucast (x ! 1)) OR push_bit 16 (ucast (x ! 2)) OR
      push_bit 24 (ucast (x ! 3)) OR push_bit 32 (ucast (x ! 4)) OR
      push_bit 40 (ucast (x ! 5)) OR push_bit 48 (ucast (x ! 6)) OR
      push_bit 56 (ucast (x ! 7)))"

definition PUT_LONG :: "u32 \<Rightarrow> bytes" where
  "PUT_LONG y =
     [ucast (y AND 0xff), ucast (drop_bit 8 y AND 0xff), ucast (drop_bit 16 y AND 0xff),
      ucast (drop_bit 24 y AND 0xff)]"

definition PUT_LONG_LONG :: "u64 \<Rightarrow> bytes" where
  "PUT_LONG_LONG y =
     [ucast (y AND 0xff), ucast (drop_bit 8 y AND 0xff), ucast (drop_bit 16 y AND 0xff),
      ucast (drop_bit 24 y AND 0xff), ucast (drop_bit 32 y AND 0xff),
      ucast (drop_bit 40 y AND 0xff), ucast (drop_bit 48 y AND 0xff),
      ucast (drop_bit 56 y AND 0xff)]"

text \<open>The macros applied at an address of a buffer.\<close>

definition get32 :: "bytes \<Rightarrow> nat \<Rightarrow> u32 option" where
  "get32 b i = (if i + 4 \<le> length b then Some (GET_LWORD_FROM_BYTE (slice i 4 b)) else None)"

definition get64 :: "bytes \<Rightarrow> nat \<Rightarrow> u64 option" where
  "get64 b i = (if i + 8 \<le> length b then Some (GET_LLWORD_FROM_BYTE (slice i 8 b)) else None)"

definition put32 :: "bytes \<Rightarrow> nat \<Rightarrow> u32 \<Rightarrow> bytes option" where
  "put32 b i v = (if i + 4 \<le> length b then Some (splice i (PUT_LONG v) b) else None)"

definition put64 :: "bytes \<Rightarrow> nat \<Rightarrow> u64 \<Rightarrow> bytes option" where
  "put64 b i v = (if i + 8 \<le> length b then Some (splice i (PUT_LONG_LONG v) b) else None)"

section \<open>The contract of a field\<close>

locale le_field =
  fixes getf :: "bytes \<Rightarrow> nat \<Rightarrow> 'a option"
    and putf :: "bytes \<Rightarrow> nat \<Rightarrow> 'a \<Rightarrow> bytes option"
    and enc :: "'a \<Rightarrow> bytes"
    and dec :: "bytes \<Rightarrow> 'a"
    and width :: nat
  assumes get_eq: "getf b i = (if i + width \<le> length b then Some (dec (slice i width b)) else None)"
    and put_eq: "putf b i v = (if i + width \<le> length b then Some (splice i (enc v) b) else None)"
    and length_enc: "length (enc v) = width"
    and dec_enc: "dec (enc v) = v"
    and enc_dec: "length x = width \<Longrightarrow> enc (dec x) = x"
begin

lemma put_in: "i + width \<le> length b \<Longrightarrow> putf b i v = Some (splice i (enc v) b)"
  by (simp add: put_eq)

lemma put_out: "\<not> i + width \<le> length b \<Longrightarrow> putf b i v = None"
  by (simp add: put_eq)

lemma get_in: "i + width \<le> length b \<Longrightarrow> \<exists>v. getf b i = Some v"
  by (simp add: get_eq)

lemma get_out: "\<not> i + width \<le> length b \<Longrightarrow> getf b i = None"
  by (simp add: get_eq)

lemma put_length: "putf b i v = Some b' \<Longrightarrow> length b' = length b"
  by (auto simp: put_eq length_enc length_splice split: if_splits)

lemma get_splice_same: "i + width \<le> length b \<Longrightarrow> getf (splice i (enc v) b) i = Some v"
  using slice_splice_same [of i "enc v" b] by (simp add: get_eq length_splice length_enc dec_enc)

lemma get_splice_other:
  "j + length v \<le> length b \<Longrightarrow> i + width \<le> j \<or> j + length v \<le> i \<Longrightarrow>
   getf (splice j v b) i = getf b i"
  by (simp add: get_eq length_splice slice_splice_disjoint)

lemma get_put_same: "putf b i v = Some b' \<Longrightarrow> getf b' i = Some v"
  by (auto simp: put_eq get_splice_same split: if_splits)

lemma get_put_other:
  "putf b j v = Some b' \<Longrightarrow> i + width \<le> j \<or> j + width \<le> i \<Longrightarrow> getf b' i = getf b i"
  by (auto simp: put_eq get_splice_other length_enc split: if_splits)

lemma get_frame: "frame R b b' \<Longrightarrow> clear_of i width R \<Longrightarrow> getf b' i = getf b i"
  by (simp add: get_eq frame_slice frame_length)

lemma put_frame: "putf b i v = Some b' \<Longrightarrow> frame [(i, width)] b b'"
  using frame_splice [of i "enc v" b] by (auto simp: put_eq length_enc split: if_splits)

text \<open>Writing back the value that was read undoes an intermediate write.\<close>

lemma put_restores:
  "getf b i = Some w \<Longrightarrow> putf b i v = Some b' \<Longrightarrow> putf b' i w = Some b"
  by (auto simp: get_eq put_eq length_enc length_splice splice_twice enc_dec splice_slice_self
    split: if_splits)

text \<open>A field of a structure is read at the same place through a window of the image.\<close>

lemma get_window: "i + width \<le> n \<Longrightarrow> j + n \<le> length b \<Longrightarrow> getf (slice j n b) i = getf b (j + i)"
  by (simp add: get_eq slice_slice length_slice)

end

section \<open>The macros keep the contract\<close>

lemma low_byte: "(ucast (y AND 0xff :: 'a::len word) :: u8) = ucast y"
proof -
  have m: "(0xff :: 'a word) = mask 8" by (simp add: mask_eq_exp_minus_1)
  show ?thesis unfolding m by (rule bit_word_eqI) (auto simp: bit_simps dest: bit_imp_le_length)
qed

lemma bit_u8_high: "8 \<le> n \<Longrightarrow> \<not> bit (x :: u8) n"
  using bit_imp_le_length [of x n] by auto

lemma GET_PUT_LONG: "GET_LWORD_FROM_BYTE (PUT_LONG y) = y"
proof (rule bit_word_eqI)
  fix n assume "n < LENGTH(32)"
  then consider "n < 8" | "8 \<le> n" "n < 16" | "16 \<le> n" "n < 24" | "24 \<le> n" "n < 32"
    by fastforce
  then show "bit (GET_LWORD_FROM_BYTE (PUT_LONG y)) n = bit y n"
    by cases (simp_all add: less_diff_conv2 GET_LWORD_FROM_BYTE_def PUT_LONG_def low_byte bit_simps)
qed

lemma GET_PUT_LONG_LONG: "GET_LLWORD_FROM_BYTE (PUT_LONG_LONG y) = y"
proof (rule bit_word_eqI)
  fix n assume "n < LENGTH(64)"
  then consider "n < 8" | "8 \<le> n" "n < 16" | "16 \<le> n" "n < 24" | "24 \<le> n" "n < 32"
    | "32 \<le> n" "n < 40" | "40 \<le> n" "n < 48" | "48 \<le> n" "n < 56" | "56 \<le> n" "n < 64"
    by fastforce
  then show "bit (GET_LLWORD_FROM_BYTE (PUT_LONG_LONG y)) n = bit y n"
    by cases (simp_all add: less_diff_conv2 GET_LLWORD_FROM_BYTE_def PUT_LONG_LONG_def low_byte bit_simps)
qed

lemma length_4_cases: "length x = 4 \<Longrightarrow> \<exists>a b c d. x = [a, b, c, d]"
  by (auto simp: length_Suc_conv eval_nat_numeral)

lemma length_8_cases: "length x = 8 \<Longrightarrow> \<exists>a b c d e f g h. x = [a, b, c, d, e, f, g, h]"
  by (auto simp: length_Suc_conv eval_nat_numeral)

lemma PUT_GET_LONG: "length x = 4 \<Longrightarrow> PUT_LONG (GET_LWORD_FROM_BYTE x) = x"
proof -
  assume "length x = 4"
  then obtain a b c d where x: "x = [a, b, c, d]" using length_4_cases by blast
  show ?thesis
    unfolding x PUT_LONG_def GET_LWORD_FROM_BYTE_def low_byte list.inject
    by (intro conjI refl; rule bit_word_eqI) (simp_all add: bit_simps bit_u8_high)
qed

lemma PUT_GET_LONG_LONG: "length x = 8 \<Longrightarrow> PUT_LONG_LONG (GET_LLWORD_FROM_BYTE x) = x"
proof -
  assume "length x = 8"
  then obtain a b c d e f g h where x: "x = [a, b, c, d, e, f, g, h]" using length_8_cases by blast
  show ?thesis
    unfolding x PUT_LONG_LONG_def GET_LLWORD_FROM_BYTE_def low_byte list.inject
    by (intro conjI refl; rule bit_word_eqI) (simp_all add: bit_simps bit_u8_high)
qed

interpretation f32: le_field get32 put32 PUT_LONG GET_LWORD_FROM_BYTE 4
  by unfold_locales
    (simp_all add: get32_def put32_def GET_PUT_LONG PUT_GET_LONG, simp add: PUT_LONG_def)

interpretation f64: le_field get64 put64 PUT_LONG_LONG GET_LLWORD_FROM_BYTE 8
  by unfold_locales
    (simp_all add: get64_def put64_def GET_PUT_LONG_LONG PUT_GET_LONG_LONG, simp add: PUT_LONG_LONG_def)

lemmas field_len [simp] = f32.length_enc f64.length_enc
lemmas field_put = f32.put_in f64.put_in
lemmas field_get_same = f32.get_splice_same f64.get_splice_same
lemmas field_get_other = f32.get_splice_other f64.get_splice_other
lemmas field_put_length = f32.put_length f64.put_length

declare length_splice [simp]

end
