(* ===== verification/BlockIo.thy ===== *)
theory BlockIo
  imports LittleEndian
begin

text \<open>
  Block devices as the boot loader uses them: the geometry a block device protocol instance
  reports, the operations the loader issues on it, and the helper routines of
  \<open>BootLib/LinuxLoaderLib.c\<close> and \<open>PartitionTableUpdate.c\<close> that write, erase and size a
  partition. The device itself is outside the source tree: its answers are the functions of
  the record \<open>io_env\<close>, and a routine returns the log of operations it issued.
\<close>

section \<open>Devices and environments\<close>

record block_io =
  bio_id :: nat
  BlockSize :: u32
  LastBlock :: u64

datatype root_device = UNKNOWN | EMMC | UFS | NAND

datatype disk_op =
    EraseBlocks nat u64 u64
  | WriteBlocks nat u64 bytes

record io_env =
  root_type :: root_device
  flash_split :: bool
  erase_prot :: "efi_status \<times> u32"
  op_status :: "disk_op list \<Rightarrow> disk_op \<Rightarrow> efi_status"
  read_blocks :: "disk_op list \<Rightarrow> nat \<Rightarrow> u64 \<Rightarrow> nat \<Rightarrow> efi_status \<times> bytes"
  alloc_pool :: "nat \<Rightarrow> bool"
  calc_crc32 :: "bytes \<Rightarrow> efi_status \<times> u32"

text \<open>
  One call of \<open>WriteBlocks\<close> or \<open>EraseBlocks\<close>: the device decides the status from the operations
  issued so far, and the log records the call.
\<close>

definition issue :: "io_env \<Rightarrow> disk_op \<Rightarrow> disk_op list \<Rightarrow> efi_status \<times> disk_op list" where
  "issue env op log = (op_status env log op, log @ [op])"

lemma issue_simps [simp]:
  "fst (issue env op log) = op_status env log op" "snd (issue env op log) = log @ [op]"
  by (simp_all add: issue_def)

section \<open>Page rounding\<close>

text \<open>The overflow-safe rounding macros of \<open>LinuxLoaderLib.h\<close> and \<open>BootLinux.h\<close>, at both widths of
  their first argument.\<close>

definition ADD_OF :: "u32 \<Rightarrow> u32 \<Rightarrow> u32" where
  "ADD_OF a b = (if MAX_UINT32 - b > a then a + b else 0)"

definition ADD_OF64 :: "u64 \<Rightarrow> u32 \<Rightarrow> u64" where
  "ADD_OF64 a b = (if ucast (MAX_UINT32 - b) > a then a + ucast b else 0)"

definition ROUND_TO_PAGE :: "u32 \<Rightarrow> u32 \<Rightarrow> u32" where
  "ROUND_TO_PAGE x y = ADD_OF x y AND NOT y"

definition ROUND_TO_PAGE64 :: "u64 \<Rightarrow> u32 \<Rightarrow> u64" where
  "ROUND_TO_PAGE64 x y = ADD_OF64 x y AND ucast (NOT y)"

section \<open>Partition size\<close>

text \<open>\<open>GetPartitionSize\<close>; \<open>None\<close> is the null protocol pointer.\<close>

definition GetPartitionSize :: "block_io option \<Rightarrow> u64" where
  "GetPartitionSize bo = (case bo of
     None \<Rightarrow> 0
   | Some b \<Rightarrow>
       if CHECK_ADD64 (LastBlock b) 1 then 0
       else if MAX_UINT64 div (LastBlock b + 1) < ucast (BlockSize b) then 0
       else (LastBlock b + 1) * ucast (BlockSize b))"

lemma GetPartitionSize_exact:
  assumes "GetPartitionSize (Some b) \<noteq> 0"
  shows "unat (GetPartitionSize (Some b)) = (unat (LastBlock b) + 1) * unat (BlockSize b)"
proof -
  have c: "\<not> CHECK_ADD64 (LastBlock b) 1"
    and d: "\<not> MAX_UINT64 div (LastBlock b + 1) < ucast (BlockSize b)"
    using assms by (auto simp: GetPartitionSize_def split: if_splits)
  have n: "unat (LastBlock b + 1) = unat (LastBlock b) + 1"
    using not_CHECK_ADD64_unat [OF c] by simp
  have "unat (BlockSize b) \<le> 18446744073709551615 div (unat (LastBlock b) + 1)"
    using d by (simp add: word_less_nat_alt unat_div n)
  then have "unat (BlockSize b) * (unat (LastBlock b) + 1) \<le> 18446744073709551615"
    using less_eq_div_iff_mult_less_eq by simp
  then have "unat (LastBlock b + 1) * unat (ucast (BlockSize b) :: u64) < 2 ^ LENGTH(64)"
    by (simp add: n mult.commute)
  then have "unat ((LastBlock b + 1) * ucast (BlockSize b)) =
      unat (LastBlock b + 1) * unat (ucast (BlockSize b) :: u64)"
    by (rule unat_mult_bound)
  then show ?thesis using c d by (simp add: GetPartitionSize_def n)
qed

lemma GetPartitionSize_BlockSize: "GetPartitionSize (Some b) \<noteq> 0 \<Longrightarrow> 0 < unat (BlockSize b)"
  by (auto simp: GetPartitionSize_def unat_gt_0 split: if_splits)

section \<open>Erasing a partition\<close>

definition ErasePartition ::
    "io_env \<Rightarrow> block_io \<Rightarrow> disk_op list \<Rightarrow> efi_status \<times> disk_op list" where
  "ErasePartition env b log =
     (let PartitionSize = GetPartitionSize (Some b) in
      if PartitionSize = 0 then (EFI_BAD_BUFFER_SIZE, log)
      else if fst (erase_prot env) \<noteq> EFI_SUCCESS then (fst (erase_prot env), log)
      else
        let (Status, log') = issue env (EraseBlocks (bio_id b) 0 PartitionSize) log in
        if Status \<noteq> EFI_SUCCESS then (Status, log') else (EFI_SUCCESS, log'))"

section \<open>Writing a buffer of any length\<close>

definition MAX_WRITE_SIZE :: u64 where
  "MAX_WRITE_SIZE = 1024 * 1024"

text \<open>
  The write loop of \<open>WriteBlockToPartition\<close>. The image is read at \<open>DivMsgBufSize - LeftSize\<close>;
  reading past its end, dividing by a zero block size and looping forever on a zero write
  unit have no value.
\<close>

partial_function (option) write_units ::
    "io_env \<Rightarrow> block_io \<Rightarrow> bytes \<Rightarrow> u32 \<Rightarrow> u64 \<Rightarrow> u64 \<Rightarrow> nat \<Rightarrow> disk_op list \<Rightarrow>
     (efi_status \<times> u64 \<times> disk_op list) option" where
  "write_units env b Img DivMsgBufSize WriteUnitSize Offset LeftSize log =
     (if LeftSize = 0 then Some (EFI_SUCCESS, Offset, log)
      else
        let WriteSize = (if LeftSize > unat WriteUnitSize then ucast WriteUnitSize
                         else of_nat LeftSize :: u32);
            pos = unat DivMsgBufSize - LeftSize
        in if pos + unat WriteSize > length Img \<or> BlockSize b = 0 then None
           else
             let (Status, log') =
               issue env (WriteBlocks (bio_id b) Offset (slice pos (unat WriteSize) Img)) log
             in if Status \<noteq> EFI_SUCCESS then Some (Status, Offset, log')
                else write_units env b Img DivMsgBufSize WriteUnitSize
                       (Offset + ucast (WriteSize div BlockSize b))
                       (LeftSize - unat WriteSize) log')"

text \<open>The block that holds the tail of an image whose length is not a block multiple: read,
  patched and written back.\<close>

definition write_tail ::
    "io_env \<Rightarrow> block_io \<Rightarrow> bytes \<Rightarrow> u32 \<Rightarrow> u64 \<Rightarrow> u32 \<Rightarrow> u64 \<Rightarrow> disk_op list \<Rightarrow>
     (efi_status \<times> disk_op list) option" where
  "write_tail env b Img WriteBlockSize Size DivMsgBufSize Offset log =
     (if \<not> alloc_pool env (unat WriteBlockSize) then Some (EFI_OUT_OF_RESOURCES, log)
      else
        let (Status, ImageBuffer) = read_blocks env log (bio_id b) Offset (unat WriteBlockSize)
        in if Status \<noteq> EFI_SUCCESS then Some (Status, log)
           else
             let n = unat (Size - ucast DivMsgBufSize)
             in if n > length ImageBuffer \<or> unat DivMsgBufSize + n > length Img then None
                else Some (issue env (WriteBlocks (bio_id b) Offset
                       (splice 0 (slice (unat DivMsgBufSize) n Img) ImageBuffer)) log))"

definition WriteBlockToPartition ::
    "io_env \<Rightarrow> block_io option \<Rightarrow> u64 \<Rightarrow> u64 \<Rightarrow> bytes option \<Rightarrow> disk_op list \<Rightarrow>
     (efi_status \<times> disk_op list) option" where
  "WriteBlockToPartition env BlkIo Offset Size ImgPtr log =
     (case (BlkIo, ImgPtr) of
        (Some b, Some Img) \<Rightarrow>
          if root_type env = NAND \<and> fst (erase_prot env) \<noteq> EFI_SUCCESS
          then Some (fst (erase_prot env), log)
          else
            let WriteBlockSize = (if root_type env = NAND then snd (erase_prot env)
                                  else BlockSize b)
            in if WriteBlockSize = 0 then None
               else
                 let DivMsgBufSize = ucast (Size div ucast WriteBlockSize
                                            * ucast WriteBlockSize) :: u32;
                     unit = ROUND_TO_PAGE64 MAX_WRITE_SIZE (WriteBlockSize - 1);
                     WriteUnitSize = (if flash_split env then unit else ucast DivMsgBufSize)
                 in do {
                      (Status, Offset', log') \<leftarrow>
                        (if DivMsgBufSize \<noteq> 0
                         then write_units env b Img DivMsgBufSize WriteUnitSize Offset
                                (unat DivMsgBufSize) log
                         else Some (EFI_SUCCESS, Offset, log));
                      if Status \<noteq> EFI_SUCCESS then Some (Status, log')
                      else if Size - ucast DivMsgBufSize > 0
                      then write_tail env b Img WriteBlockSize Size DivMsgBufSize Offset' log'
                      else Some (Status, log')
                    }
      | _ \<Rightarrow> Some (EFI_INVALID_PARAMETER, log))"

section \<open>What the device holds afterwards\<close>

text \<open>
  The documented effect of \<open>WriteBlocks\<close> on a medium read as a byte array: the data replaces
  the bytes from block \<open>lba\<close> on. \<open>replay\<close> applies the writes of a log in order (the contents
  after an erase are unspecified, and the logs it is applied to hold writes only).
\<close>

fun apply_op :: "nat \<Rightarrow> disk_op \<Rightarrow> bytes \<Rightarrow> bytes" where
  "apply_op B (WriteBlocks i lba d) disk = splice (unat lba * B) d disk"
| "apply_op B (EraseBlocks i lba n) disk = disk"

definition replay :: "nat \<Rightarrow> disk_op list \<Rightarrow> bytes \<Rightarrow> bytes" where
  "replay B ops disk = fold (apply_op B) ops disk"

lemma replay_simps [simp]:
  "replay B [] disk = disk"
  "replay B (op # ops) disk = replay B ops (apply_op B op disk)"
  "replay B (ops @ ops') disk = replay B ops' (replay B ops disk)"
  by (simp_all add: replay_def)

text \<open>The byte range of a write, and a log that stays inside a range of one device.\<close>

fun op_inside :: "nat \<Rightarrow> nat \<Rightarrow> nat \<Rightarrow> nat \<Rightarrow> disk_op \<Rightarrow> bool" where
  "op_inside dev B lo hi (WriteBlocks i lba d) \<longleftrightarrow>
     i = dev \<and> lo \<le> unat lba * B \<and> unat lba * B + length d \<le> hi"
| "op_inside dev B lo hi (EraseBlocks i lba n) \<longleftrightarrow> False"

lemma op_inside_mono:
  "op_inside dev B lo hi op \<Longrightarrow> lo' \<le> lo \<Longrightarrow> hi \<le> hi' \<Longrightarrow> op_inside dev B lo' hi' op"
  by (cases op) auto

lemma replay_length:
  "\<forall>op\<in>set ops. op_inside dev B lo hi op \<Longrightarrow> hi \<le> length d \<Longrightarrow> length (replay B ops d) = length d"
proof (induction ops arbitrary: d)
  case (Cons op ops)
  then show ?case by (cases op) (auto simp: length_splice)
qed simp

section \<open>Correctness of the write loop\<close>

text \<open>
  Whatever the device answers, the loop returns, its writes stay inside the block range of the
  part still to be written, and when it succeeds the medium holds that part of the image.
\<close>

lemma write_units_spec:
  assumes B: "0 < unat (BlockSize b)" and unit: "0 < unat U" "unat (BlockSize b) dvd unat U"
    and len: "unat D \<le> length Img"
  shows "left \<le> unat D \<Longrightarrow> unat (BlockSize b) dvd left \<Longrightarrow>
    unat Off + left div unat (BlockSize b) < 2 ^ 64 \<Longrightarrow>
    \<exists>st Off' ws. write_units env b Img D U Off left log = Some (st, Off', log @ ws) \<and>
      (\<forall>op\<in>set ws. op_inside (bio_id b) (unat (BlockSize b)) (unat Off * unat (BlockSize b))
         (unat Off * unat (BlockSize b) + left) op) \<and>
      ((\<forall>l op. op_status env l op = EFI_SUCCESS) \<longrightarrow> st = EFI_SUCCESS) \<and>
      (st = EFI_SUCCESS \<longrightarrow>
         unat Off' = unat Off + left div unat (BlockSize b) \<and>
         (\<forall>d. unat Off * unat (BlockSize b) + left \<le> length d \<longrightarrow>
            replay (unat (BlockSize b)) ws d =
            splice (unat Off * unat (BlockSize b)) (slice (unat D - left) left Img) d))"
    (is "_ \<Longrightarrow> _ \<Longrightarrow> _ \<Longrightarrow> ?P Off left log")
proof (induction left arbitrary: Off log rule: less_induct)
  case (less left)
  let ?B = "unat (BlockSize b)"
  show ?case
  proof (cases "left = 0")
    case True
    then show ?thesis by (subst write_units.simps) simp
  next
    case False
    define W :: u32 where "W = (if left > unat U then ucast U else of_nat left)"
    define pos where "pos = unat D - left"
    have l32: "left < 2 ^ 32" using less.prems(1) unat_u32_bound [of D] by simp
    have W: "unat W = (if left > unat U then unat U else left)"
    proof (cases "left > unat U")
      case True
      then have "unat U < 2 ^ 32" using l32 by simp
      then show ?thesis using True by (simp add: W_def unsigned_ucast_eq take_bit_eq_mod)
    next
      case False
      then show ?thesis using l32 by (simp add: W_def unat_of_nat)
    qed
    have Wd: "?B dvd unat W" "0 < unat W" "unat W \<le> left"
      using unit less.prems(2) False by (auto simp: W)
    have pos: "pos + unat W \<le> length Img" "pos + left = unat D"
      using Wd less.prems(1) len by (auto simp: pos_def)
    have Bn: "BlockSize b \<noteq> 0" using B by auto
    obtain q where q: "unat W = ?B * q" using Wd(1) by (rule dvdE)
    obtain m where m: "left = ?B * m" using less.prems(2) by (rule dvdE)
    have qm: "q \<le> m" using Wd(3) B by (simp add: q m)
    define Off1 :: u64 where "Off1 = Off + ucast (W div BlockSize b)"
    have "unat (ucast (W div BlockSize b) :: u64) = q" using B by (simp add: unat_div q)
    then have Off1: "unat Off1 = unat Off + q"
      unfolding Off1_def using less.prems(3) qm B
      by (subst unat_plus_bound) (auto simp: m)
    define op where "op = WriteBlocks (bio_id b) Off (slice pos (unat W) Img)"
    define st where "st = op_status env log op"
    have step: "write_units env b Img D U Off left log =
        (if st \<noteq> EFI_SUCCESS then Some (st, Off, log @ [op])
         else write_units env b Img D U Off1 (left - unat W) (log @ [op]))"
      using False pos(1) Bn
      by (subst write_units.simps)
        (simp add: Let_def issue_def st_def op_def Off1_def flip: W_def pos_def)
    have inside: "op_inside (bio_id b) ?B (unat Off * ?B) (unat Off * ?B + left) op"
      using pos(1) Wd(3) by (simp add: op_def)
    show ?thesis
    proof (cases "st = EFI_SUCCESS")
      case False
      then show ?thesis using step inside by (auto simp: st_def)
    next
      case True
      have "?P Off1 (left - unat W) (log @ [op])"
      proof (rule less.IH)
        show "unat Off1 + (left - unat W) div ?B < 2 ^ 64"
          using less.prems(3) B qm by (simp add: Off1 q m flip: diff_mult_distrib2)
      qed (use Wd False less.prems in auto)
      then obtain st' Off' ws where IH:
        "write_units env b Img D U Off1 (left - unat W) (log @ [op]) = Some (st', Off', (log @ [op]) @ ws)"
        "\<forall>op\<in>set ws. op_inside (bio_id b) ?B (unat Off1 * ?B) (unat Off1 * ?B + (left - unat W)) op"
        "(\<forall>l op. op_status env l op = EFI_SUCCESS) \<longrightarrow> st' = EFI_SUCCESS"
        "st' = EFI_SUCCESS \<longrightarrow> unat Off' = unat Off1 + (left - unat W) div ?B \<and>
         (\<forall>d. unat Off1 * ?B + (left - unat W) \<le> length d \<longrightarrow> replay ?B ws d =
            splice (unat Off1 * ?B) (slice (unat D - (left - unat W)) (left - unat W) Img) d)"
        by blast
      have o1: "unat Off1 * ?B = unat Off * ?B + unat W"
        by (simp add: Off1 q algebra_simps)
      have "\<forall>op\<in>set (op # ws). op_inside (bio_id b) ?B (unat Off * ?B) (unat Off * ?B + left) op"
        using inside IH(2) Wd(3) by (auto simp: o1 elim!: op_inside_mono)
      moreover have "unat Off1 + (left - unat W) div ?B = unat Off + left div ?B"
        using B qm by (simp add: Off1 q m flip: diff_mult_distrib2)
      moreover have "replay ?B (op # ws) d = splice (unat Off * ?B) (slice (unat D - left) left Img) d"
        if "st' = EFI_SUCCESS" and fit: "unat Off * ?B + left \<le> length d" for d
      proof -
        let ?v = "slice pos (unat W) Img" and ?w = "slice (pos + unat W) (left - unat W) Img"
        have lw: "length ?v = unat W" "length ?w = left - unat W"
          using pos Wd len by auto
        have "replay ?B (op # ws) d = splice (unat Off * ?B + unat W) ?w (splice (unat Off * ?B) ?v d)"
          using IH(4) that Wd(3) pos lw by (simp add: op_def o1 pos_def length_splice)
        also have "\<dots> = splice (unat Off * ?B) (?v @ ?w) d"
          using splice_append [of "unat Off * ?B" ?v ?w d] fit lw Wd(3) by simp
        also have "?v @ ?w = slice pos left Img"
          using slice_append [of pos "unat W" "left - unat W" Img] Wd(3) by simp
        finally show ?thesis by (simp add: pos_def)
      qed
      ultimately show ?thesis
        using step True IH(1,3,4) by auto
    qed
  qed
qed

section \<open>Correctness of \<open>WriteBlockToPartition\<close>\<close>

lemma write_unit_1M:
  assumes "9 \<le> k" "k \<le> 20"
  shows "unat (ROUND_TO_PAGE64 MAX_WRITE_SIZE (2 ^ k - 1)) = 1048576"
proof -
  have "k = 9 \<or> k = 10 \<or> k = 11 \<or> k = 12 \<or> k = 13 \<or> k = 14 \<or> k = 15 \<or> k = 16 \<or>
      k = 17 \<or> k = 18 \<or> k = 19 \<or> k = 20"
    using assms by presburger
  then show ?thesis
    by (elim disjE) (simp_all add: ROUND_TO_PAGE64_def ADD_OF64_def MAX_WRITE_SIZE_def)
qed

lemma div_msg_size:
  assumes "unat (Size :: u64) < 2 ^ 32" "0 < unat (W :: u32)"
  shows "unat (ucast (Size div ucast W * ucast W) :: u32) = unat Size div unat W * unat W"
    and "unat (ucast (ucast (Size div ucast W * ucast W) :: u32) :: u64) = unat Size div unat W * unat W"
proof -
  have le: "unat Size div unat W * unat W < 2 ^ 32"
    using div_times_less_eq_dividend assms(1) by (rule order.strict_trans1)
  have "unat (Size div ucast W * ucast W) = unat Size div unat W * unat W"
    using order.strict_trans [OF le] by (subst unat_mult_bound) (simp_all add: unat_div)
  then show "unat (ucast (Size div ucast W * ucast W) :: u32) = unat Size div unat W * unat W"
    using le by (subst unat_u64_to_u32) simp_all
  then show "unat (ucast (ucast (Size div ucast W * ucast W) :: u32) :: u64) =
      unat Size div unat W * unat W" by simp
qed

lemma unat_two_power_u32: "k < 32 \<Longrightarrow> unat (2 ^ k :: u32) = 2 ^ k"
proof -
  assume "k < 32"
  then have "(2 :: nat) ^ k < 2 ^ 32" by (rule power_strict_increasing) simp
  then have "unat (of_nat (2 ^ k) :: u32) = 2 ^ k"
    by (subst unat_of_nat) simp
  then show ?thesis by simp
qed

definition blocks_up :: "nat \<Rightarrow> nat \<Rightarrow> nat" where
  "blocks_up B n = (n + (B - 1)) div B * B"

lemma blocks_up_eq: "0 < B \<Longrightarrow> 0 < r \<Longrightarrow> r \<le> B \<Longrightarrow> blocks_up B (q * B + r) = q * B + B"
proof -
  assume "0 < B" "0 < r" "r \<le> B"
  then have "(q * B + r + (B - 1)) div B = Suc q"
    by (intro div_nat_eqI) (auto simp: algebra_simps)
  then show ?thesis by (simp add: blocks_up_def)
qed

lemma blocks_up_tail: "0 < B \<Longrightarrow> 0 < n mod B \<Longrightarrow> blocks_up B n = n div B * B + B"
  using blocks_up_eq [of B "n mod B" "n div B"] by (simp add: less_imp_le)

lemma blocks_up_exact: "0 < B \<Longrightarrow> n mod B = 0 \<Longrightarrow> blocks_up B n = n"
  by (auto simp: blocks_up_def div_nat_eqI algebra_simps elim!: dvdE)

text \<open>
  A device whose block size is a power of two between 512 bytes and 1 MiB, as eMMC and UFS
  report, and an image smaller than 4 GiB.
\<close>

definition writable_size :: "block_io \<Rightarrow> u64 \<Rightarrow> u64 \<Rightarrow> bytes \<Rightarrow> bool" where
  "writable_size b Offset Size Img \<longleftrightarrow>
     (\<exists>k\<in>{9..20}. BlockSize b = 2 ^ k) \<and> unat Size < 2 ^ 32 \<and> unat Size \<le> length Img \<and>
     unat Offset + unat Size div unat (BlockSize b) + 1 < 2 ^ 64"

text \<open>The block loop as \<open>WriteBlockToPartition\<close> calls it, for both settings of the split.\<close>

lemma write_blocks_part:
  assumes sz: "writable_size b Offset Size Img"
    and D: "D = ucast (Size div ucast (BlockSize b) * ucast (BlockSize b))"
    and U: "U = (if flash_split env then ROUND_TO_PAGE64 MAX_WRITE_SIZE (BlockSize b - 1)
                 else ucast D)"
    and nz: "D \<noteq> 0"
  obtains st Off' ws where
    "write_units env b Img D U Offset (unat D) log = Some (st, Off', log @ ws)"
    "\<forall>op\<in>set ws. op_inside (bio_id b) (unat (BlockSize b)) (unat Offset * unat (BlockSize b))
       (unat Offset * unat (BlockSize b) + unat D) op"
    "(\<forall>l op. op_status env l op = EFI_SUCCESS) \<longrightarrow> st = EFI_SUCCESS"
    "st = EFI_SUCCESS \<longrightarrow> unat Off' = unat Offset + unat D div unat (BlockSize b) \<and>
       (\<forall>d. unat Offset * unat (BlockSize b) + unat D \<le> length d \<longrightarrow>
          replay (unat (BlockSize b)) ws d =
          splice (unat Offset * unat (BlockSize b)) (slice 0 (unat D) Img) d)"
proof -
  let ?B = "unat (BlockSize b)"
  obtain k where k: "9 \<le> k" "k \<le> 20" "BlockSize b = 2 ^ k"
    using sz by (auto simp: writable_size_def)
  have B: "?B = 2 ^ k" using k by (simp add: unat_two_power_u32)
  then have B0: "0 < ?B" by simp
  have Du: "unat D = unat Size div ?B * ?B"
    using div_msg_size(1) [of Size "BlockSize b"] sz B0 by (simp add: D writable_size_def)
  have "(2 :: nat) ^ k dvd 2 ^ 20" using k(2) by (rule le_imp_power_dvd)
  moreover have "unat U = (if flash_split env then 1048576 else unat D)"
    using write_unit_1M [OF k(1,2)] by (simp add: U k(3))
  moreover have "0 < unat D" using nz by (simp add: unat_gt_0)
  ultimately have U: "0 < unat U" "?B dvd unat U"
    by (simp_all add: B Du)
  have "unat Size div ?B * ?B \<le> length Img"
    using div_times_less_eq_dividend by (rule order.trans) (use sz in \<open>simp add: writable_size_def\<close>)
  then have len: "unat D \<le> length Img" by (simp only: Du)
  have off: "unat Offset + unat D div ?B < 2 ^ 64"
    using sz B0 by (simp add: Du writable_size_def)
  have "?B dvd unat D" by (simp add: Du)
  from write_units_spec [OF B0 U len order.refl this off, of env log, unfolded diff_self_eq_0]
  show thesis using that by blast
qed

text \<open>
  The read answers of the device while the routine runs: a block read returns as many bytes as
  asked, and, for the contents, the bytes the medium holds after the writes issued so far.
\<close>

definition reads_whole_blocks :: "io_env \<Rightarrow> bool" where
  "reads_whole_blocks env \<longleftrightarrow>
     (\<forall>log dev lba n. fst (read_blocks env log dev lba n) = EFI_SUCCESS \<longrightarrow>
        length (snd (read_blocks env log dev lba n)) = n)"

definition reads_medium :: "io_env \<Rightarrow> block_io \<Rightarrow> disk_op list \<Rightarrow> bytes \<Rightarrow> bool" where
  "reads_medium env b log d \<longleftrightarrow>
     (\<forall>ws lba n. read_blocks env (log @ ws) (bio_id b) lba n =
        (EFI_SUCCESS, slice (unat lba * unat (BlockSize b)) n (replay (unat (BlockSize b)) ws d)))"

text \<open>The tail block, with the arithmetic of its sizes resolved.\<close>

definition tail_of :: "block_io \<Rightarrow> u64 \<Rightarrow> bytes \<Rightarrow> bytes" where
  "tail_of b Size Img = slice (unat Size div unat (BlockSize b) * unat (BlockSize b))
     (unat Size mod unat (BlockSize b)) Img"

lemma write_tail_cases:
  assumes D: "unat D = unat Size div unat (BlockSize b) * unat (BlockSize b)"
    and len: "unat Size \<le> length Img"
    and rd: "read_blocks env log (bio_id b) Off (unat (BlockSize b)) = (st, buf)"
    and buf: "st = EFI_SUCCESS \<Longrightarrow> length buf = unat (BlockSize b)" and B: "0 < unat (BlockSize b)"
  shows "write_tail env b Img (BlockSize b) Size D Off log =
    Some (if \<not> alloc_pool env (unat (BlockSize b)) then (EFI_OUT_OF_RESOURCES, log)
          else if st \<noteq> EFI_SUCCESS then (st, log)
          else issue env (WriteBlocks (bio_id b) Off (splice 0 (tail_of b Size Img) buf)) log)"
proof -
  have "ucast D \<le> Size"
    using D div_times_less_eq_dividend by (simp add: word_le_nat_alt)
  then have t: "unat (Size - ucast D) = unat Size mod unat (BlockSize b)"
    by (simp add: unat_minus_bound D minus_div_mult_eq_mod)
  have "unat Size mod unat (BlockSize b) < unat (BlockSize b)" using B by simp
  then show ?thesis using len rd buf by (auto simp: write_tail_def t D tail_of_def Let_def)
qed

lemma tail_length:
  "0 < unat (BlockSize b) \<Longrightarrow> unat Size \<le> length Img \<Longrightarrow>
   length (tail_of b Size Img) = unat Size mod unat (BlockSize b)"
  by (simp add: tail_of_def)

text \<open>\<open>WriteBlockToPartition\<close> on eMMC and UFS, with its size arithmetic resolved.\<close>

lemma WriteBlockToPartition_eq:
  assumes sz: "writable_size b Offset Size Img" and nand: "root_type env \<noteq> NAND"
    and D: "D = ucast (Size div ucast (BlockSize b) * ucast (BlockSize b))"
    and U: "U = (if flash_split env then ROUND_TO_PAGE64 MAX_WRITE_SIZE (BlockSize b - 1)
                 else ucast D)"
  shows "WriteBlockToPartition env (Some b) Offset Size (Some Img) log =
    do {
      (Status, Offset', log') \<leftarrow>
        (if D \<noteq> 0 then write_units env b Img D U Offset (unat D) log
         else Some (EFI_SUCCESS, Offset, log));
      if Status \<noteq> EFI_SUCCESS then Some (Status, log')
      else if unat Size mod unat (BlockSize b) \<noteq> 0
      then write_tail env b Img (BlockSize b) Size D Offset' log'
      else Some (Status, log')
    }"
    and "unat D = unat Size div unat (BlockSize b) * unat (BlockSize b)"
    and "0 < unat (BlockSize b)"
proof -
  obtain k where "9 \<le> k" "k \<le> 20" "BlockSize b = 2 ^ k"
    using sz by (auto simp: writable_size_def)
  then show B: "0 < unat (BlockSize b)" by (simp add: unat_two_power_u32)
  then have Bn: "BlockSize b \<noteq> 0" by auto
  show Du: "unat D = unat Size div unat (BlockSize b) * unat (BlockSize b)"
    using div_msg_size(1) [of Size "BlockSize b"] sz B by (simp add: D writable_size_def)
  have "ucast D \<le> Size"
    using Du div_times_less_eq_dividend by (simp add: word_le_nat_alt)
  then have "unat (Size - ucast D) = unat Size mod unat (BlockSize b)"
    by (simp add: unat_minus_bound Du minus_div_mult_eq_mod)
  then have t: "Size - ucast D > 0 \<longleftrightarrow> unat Size mod unat (BlockSize b) \<noteq> 0"
    by (simp add: word_less_nat_alt)
  show "WriteBlockToPartition env (Some b) Offset Size (Some Img) log =
    do {
      (Status, Offset', log') \<leftarrow>
        (if D \<noteq> 0 then write_units env b Img D U Offset (unat D) log
         else Some (EFI_SUCCESS, Offset, log));
      if Status \<noteq> EFI_SUCCESS then Some (Status, log')
      else if unat Size mod unat (BlockSize b) \<noteq> 0
      then write_tail env b Img (BlockSize b) Size D Offset' log'
      else Some (Status, log')
    }"
    by (simp only: WriteBlockToPartition_def Let_def option.case prod.case nand Bn simp_thms
      if_False D [symmetric] U [symmetric] t)
qed

lemma write_first_phase:
  assumes sz: "writable_size b Offset Size Img"
    and D: "D = ucast (Size div ucast (BlockSize b) * ucast (BlockSize b))"
    and U: "U = (if flash_split env then ROUND_TO_PAGE64 MAX_WRITE_SIZE (BlockSize b - 1)
                 else ucast D)"
    and Du: "unat D = unat Size div unat (BlockSize b) * unat (BlockSize b)"
    and B0: "0 < unat (BlockSize b)"
  obtains st Off' ws where
    "(if D \<noteq> 0 then write_units env b Img D U Offset (unat D) log
      else Some (EFI_SUCCESS, Offset, log)) = Some (st, Off', log @ ws)"
    "\<forall>op\<in>set ws. op_inside (bio_id b) (unat (BlockSize b)) (unat Offset * unat (BlockSize b))
       (unat Offset * unat (BlockSize b) + unat D) op"
    "(\<forall>l op. op_status env l op = EFI_SUCCESS) \<longrightarrow> st = EFI_SUCCESS"
    "st = EFI_SUCCESS \<longrightarrow> unat Off' = unat Offset + unat Size div unat (BlockSize b)"
    "st = EFI_SUCCESS \<longrightarrow> (\<forall>d. unat Offset * unat (BlockSize b) + unat D \<le> length d \<longrightarrow>
       replay (unat (BlockSize b)) ws d =
       splice (unat Offset * unat (BlockSize b)) (slice 0 (unat D) Img) d)"
proof (cases "D = 0")
  case True
  then show thesis using that [of EFI_SUCCESS Offset "[]"] Du B0 by simp
next
  case False
  obtain st Off' ws where
    w: "write_units env b Img D U Offset (unat D) log = Some (st, Off', log @ ws)" and
    u: "\<forall>op\<in>set ws. op_inside (bio_id b) (unat (BlockSize b)) (unat Offset * unat (BlockSize b))
       (unat Offset * unat (BlockSize b) + unat D) op" and
    s: "(\<forall>l op. op_status env l op = EFI_SUCCESS) \<longrightarrow> st = EFI_SUCCESS" and
    m: "st = EFI_SUCCESS \<longrightarrow> unat Off' = unat Offset + unat D div unat (BlockSize b) \<and>
       (\<forall>d. unat Offset * unat (BlockSize b) + unat D \<le> length d \<longrightarrow>
          replay (unat (BlockSize b)) ws d =
          splice (unat Offset * unat (BlockSize b)) (slice 0 (unat D) Img) d)"
    by (rule write_blocks_part [OF sz D U False, of log])
  show thesis
  proof (rule that)
    show "(if D \<noteq> 0 then write_units env b Img D U Offset (unat D) log
      else Some (EFI_SUCCESS, Offset, log)) = Some (st, Off', log @ ws)"
      using w False by simp
    show "st = EFI_SUCCESS \<longrightarrow> unat Off' = unat Offset + unat Size div unat (BlockSize b)"
      using m Du B0 by simp
  qed (use u s m in blast)+
qed

section \<open>A memory-backed device\<close>

text \<open>
  The environment of the witnesses: an eMMC device with 512-byte blocks whose medium is a byte
  list, which accepts every operation and answers reads from the replayed log.
\<close>

definition ram_env :: "root_device \<Rightarrow> bytes \<Rightarrow> io_env" where
  "ram_env t disk = \<lparr>root_type = t, flash_split = True, erase_prot = (EFI_SUCCESS, 512),
     op_status = (\<lambda>_ _. EFI_SUCCESS),
     read_blocks = (\<lambda>log dev lba n.
       (EFI_SUCCESS, take n (slice (unat lba * 512) n (replay 512 log disk) @ replicate n 0))),
     alloc_pool = (\<lambda>_. True), calc_crc32 = (\<lambda>b. (EFI_SUCCESS, 0))\<rparr>"

definition ram_dev :: "u64 \<Rightarrow> block_io" where
  "ram_dev lb = \<lparr>bio_id = 0, BlockSize = 512, LastBlock = lb\<rparr>"

lemma ram_env_simps [simp]:
  "root_type (ram_env t d) = t" "flash_split (ram_env t d)"
  "erase_prot (ram_env t d) = (EFI_SUCCESS, 512)"
  "op_status (ram_env t d) l op = EFI_SUCCESS"
  "alloc_pool (ram_env t d) n"
  "calc_crc32 (ram_env t d) b = (EFI_SUCCESS, 0)"
  by (simp_all add: ram_env_def)

lemma ram_dev_simps [simp]:
  "bio_id (ram_dev l) = 0" "BlockSize (ram_dev l) = 512" "LastBlock (ram_dev l) = l"
  by (simp_all add: ram_dev_def)

lemma ram_env_reads_whole: "reads_whole_blocks (ram_env t d)"
  by (simp add: reads_whole_blocks_def ram_env_def min_def)

lemma ram_dev_writable:
  "unat Size < 2 ^ 32 \<Longrightarrow> unat Size \<le> length Img \<Longrightarrow> unat Off < 2 ^ 63 \<Longrightarrow>
   writable_size (ram_dev l) Off Size Img"
proof -
  assume a: "unat Size < 2 ^ 32" "unat Size \<le> length Img" "unat Off < 2 ^ 63"
  have "(\<exists>k\<in>{9..20}. BlockSize (ram_dev l) = 2 ^ k)" by (rule bexI [of _ 9]) simp_all
  with a show ?thesis by (simp add: writable_size_def)
qed

lemma write_block_inside:
  assumes sz: "writable_size b Offset Size Img" and nand: "root_type env \<noteq> NAND"
    and rd: "reads_whole_blocks env"
  shows "\<exists>st ws. WriteBlockToPartition env (Some b) Offset Size (Some Img) log = Some (st, log @ ws) \<and>
    (\<forall>op\<in>set ws. op_inside (bio_id b) (unat (BlockSize b)) (unat Offset * unat (BlockSize b))
       (unat Offset * unat (BlockSize b) + blocks_up (unat (BlockSize b)) (unat Size)) op)"
proof -
  let ?B = "unat (BlockSize b)" and ?lo = "unat Offset * unat (BlockSize b)"
  define D :: u32 where "D = ucast (Size div ucast (BlockSize b) * ucast (BlockSize b))"
  define U :: u64 where "U = (if flash_split env
    then ROUND_TO_PAGE64 MAX_WRITE_SIZE (BlockSize b - 1) else ucast D)"
  note eq = WriteBlockToPartition_eq [OF sz nand D_def U_def]
  obtain st Off ws where first:
    "(if D \<noteq> 0 then write_units env b Img D U Offset (unat D) log
      else Some (EFI_SUCCESS, Offset, log)) = Some (st, Off, log @ ws)"
    "\<forall>op\<in>set ws. op_inside (bio_id b) ?B ?lo (?lo + unat D) op"
    "(\<forall>l op. op_status env l op = EFI_SUCCESS) \<longrightarrow> st = EFI_SUCCESS"
    "st = EFI_SUCCESS \<longrightarrow> unat Off = unat Offset + unat Size div ?B"
    "st = EFI_SUCCESS \<longrightarrow> (\<forall>d. ?lo + unat D \<le> length d \<longrightarrow>
       replay ?B ws d = splice ?lo (slice 0 (unat D) Img) d)"
    by (rule write_first_phase [OF sz D_def U_def eq(2,3), where log = log])
  have up: "unat D \<le> blocks_up ?B (unat Size)"
    using eq(2,3) blocks_up_tail [of ?B "unat Size"] blocks_up_exact [of ?B "unat Size"]
    by (cases "unat Size mod ?B = 0") (simp_all add: div_mult_mod_eq mod_0_imp_dvd)
  then have ws: "\<forall>op\<in>set ws. op_inside (bio_id b) ?B ?lo (?lo + blocks_up ?B (unat Size)) op"
    using first(2) by (meson add_le_cancel_left op_inside_mono order_refl)
  show ?thesis
  proof (cases "st = EFI_SUCCESS \<and> unat Size mod ?B \<noteq> 0")
    case False
    then show ?thesis using first(1) eq(1) ws by auto
  next
    case True
    obtain st' buf where r: "read_blocks env (log @ ws) (bio_id b) Off ?B = (st', buf)" by fastforce
    have buf: "st' = EFI_SUCCESS \<Longrightarrow> length buf = ?B"
      using rd [unfolded reads_whole_blocks_def, rule_format, of "log @ ws" "bio_id b" Off ?B] r by simp
    have len: "unat Size \<le> length Img" using sz by (simp add: writable_size_def)
    note tail = write_tail_cases [OF eq(2) len r buf eq(3)]
    let ?op = "WriteBlocks (bio_id b) Off (splice 0 (tail_of b Size Img) buf)"
    have "op_inside (bio_id b) ?B ?lo (?lo + blocks_up ?B (unat Size)) ?op" if "st' = EFI_SUCCESS"
      using buf [OF that] first(4) True eq(3) len
      by (simp add: blocks_up_tail tail_length length_splice algebra_simps)
    then show ?thesis
      using True first(1) eq(1) tail ws by (auto simp: issue_def)
  qed
qed

text \<open>Every write \<open>WriteBlockToPartition\<close> issues on eMMC or UFS, whatever the device answers,
  stays inside the blocks that hold the \<open>Size\<close> bytes from block \<open>Offset\<close> on, and the routine
  returns.\<close>

theorem WriteBlockToPartition_inside:
  assumes sz: "writable_size b Offset Size Img" and nand: "root_type env \<noteq> NAND"
    and rd: "reads_whole_blocks env"
  shows "\<exists>st ws. WriteBlockToPartition env (Some b) Offset Size (Some Img) log = Some (st, log @ ws) \<and>
    (\<forall>op\<in>set ws. op_inside (bio_id b) (unat (BlockSize b)) (unat Offset * unat (BlockSize b))
       (unat Offset * unat (BlockSize b) + blocks_up (unat (BlockSize b)) (unat Size)) op)"
  by (rule write_block_inside [OF sz nand rd])

lemma write_block_refines:
  assumes sz: "writable_size b Offset Size Img" and nand: "root_type env \<noteq> NAND"
    and rd: "reads_medium env b log d" and al: "alloc_pool env (unat (BlockSize b))"
    and ok: "\<forall>l op. op_status env l op = EFI_SUCCESS"
    and fit: "unat Offset * unat (BlockSize b) + blocks_up (unat (BlockSize b)) (unat Size) \<le> length d"
  shows "\<exists>ws. WriteBlockToPartition env (Some b) Offset Size (Some Img) log =
      Some (EFI_SUCCESS, log @ ws) \<and>
    replay (unat (BlockSize b)) ws d =
      splice (unat Offset * unat (BlockSize b)) (take (unat Size) Img) d"
proof -
  let ?B = "unat (BlockSize b)" and ?lo = "unat Offset * unat (BlockSize b)"
  define D :: u32 where "D = ucast (Size div ucast (BlockSize b) * ucast (BlockSize b))"
  define U :: u64 where "U = (if flash_split env
    then ROUND_TO_PAGE64 MAX_WRITE_SIZE (BlockSize b - 1) else ucast D)"
  note eq = WriteBlockToPartition_eq [OF sz nand D_def U_def]
  obtain st Off ws where first:
    "(if D \<noteq> 0 then write_units env b Img D U Offset (unat D) log
      else Some (EFI_SUCCESS, Offset, log)) = Some (st, Off, log @ ws)"
    "\<forall>op\<in>set ws. op_inside (bio_id b) ?B ?lo (?lo + unat D) op"
    "(\<forall>l op. op_status env l op = EFI_SUCCESS) \<longrightarrow> st = EFI_SUCCESS"
    "st = EFI_SUCCESS \<longrightarrow> unat Off = unat Offset + unat Size div ?B"
    "st = EFI_SUCCESS \<longrightarrow> (\<forall>d. ?lo + unat D \<le> length d \<longrightarrow>
       replay ?B ws d = splice ?lo (slice 0 (unat D) Img) d)"
    by (rule write_first_phase [OF sz D_def U_def eq(2,3), where log = log])
  have st: "st = EFI_SUCCESS" using first(3) ok by blast
  have len: "unat Size \<le> length Img" using sz by (simp add: writable_size_def)
  have img: "take (unat Size) Img = slice 0 (unat D) Img @ tail_of b Size Img"
    using slice_append [of 0 "unat D" "unat Size mod ?B" Img]
    by (simp add: eq(2) tail_of_def div_mult_mod_eq) (simp add: slice_def)
  show ?thesis
  proof (cases "unat Size mod ?B = 0")
    case True
    then have "?lo + unat D \<le> length d"
      using fit eq(2,3) by (simp add: blocks_up_exact mod_0_imp_dvd)
    then show ?thesis
      using True first(1) first(5) eq(1) st img by (simp add: tail_of_def)
  next
    case False
    then have up: "?lo + unat D + ?B \<le> length d"
      using fit eq(2,3) by (simp add: blocks_up_tail)
    let ?d = "replay ?B ws d"
    have d: "?d = splice ?lo (slice 0 (unat D) Img) d" using first(5) st up by simp
    have Dl: "unat D \<le> length Img"
      unfolding eq(2) using div_times_less_eq_dividend len by (rule order.trans)
    have off: "unat Off * ?B = ?lo + unat D" using first(4) st by (simp add: eq(2) algebra_simps)
    have ld: "length ?d = length d" using up Dl by (simp add: d length_splice)
    define buf where "buf = slice (?lo + unat D) ?B ?d"
    have r: "read_blocks env (log @ ws) (bio_id b) Off ?B = (EFI_SUCCESS, buf)"
      using rd by (simp add: reads_medium_def buf_def off)
    have lb: "length buf = ?B" using up by (simp add: buf_def ld)
    define op where "op = WriteBlocks (bio_id b) Off (splice 0 (tail_of b Size Img) buf)"
    have tail: "write_tail env b Img (BlockSize b) Size D Off (log @ ws) =
        Some (EFI_SUCCESS, (log @ ws) @ [op])"
      using write_tail_cases [OF eq(2) len r lb eq(3)] al ok by (simp add: op_def issue_def)
    have tl: "length (tail_of b Size Img) < ?B" using eq(3) len by (simp add: tail_length)
    have "replay ?B (ws @ [op]) d = splice (?lo + unat D) (splice 0 (tail_of b Size Img) buf) ?d"
      by (simp add: op_def off)
    also have "\<dots> = splice (?lo + unat D) (tail_of b Size Img) ?d"
      unfolding buf_def by (rule splice_window) (use up tl ld in simp_all)
    also have "\<dots> = splice ?lo (take (unat Size) Img) d"
      using splice_append [of ?lo "slice 0 (unat D) Img" "tail_of b Size Img" d] up tl Dl
      by (simp add: d img)
    finally show ?thesis using False first(1) eq(1) st tail by simp
  qed
qed

text \<open>C4. When the device accepts every operation, \<open>WriteBlockToPartition\<close> on eMMC or UFS leaves
  the medium with the image at block \<open>Offset\<close> and every other byte unchanged, whether or not
  the write is split and whether or not the image fills its last block.\<close>

theorem WriteBlockToPartition_refines:
  assumes sz: "writable_size b Offset Size Img" and nand: "root_type env \<noteq> NAND"
    and rd: "reads_medium env b log d" and al: "alloc_pool env (unat (BlockSize b))"
    and ok: "\<forall>l op. op_status env l op = EFI_SUCCESS"
    and fit: "unat Offset * unat (BlockSize b) + blocks_up (unat (BlockSize b)) (unat Size) \<le> length d"
  shows "\<exists>ws. WriteBlockToPartition env (Some b) Offset Size (Some Img) log =
      Some (EFI_SUCCESS, log @ ws) \<and>
    replay (unat (BlockSize b)) ws d =
      splice (unat Offset * unat (BlockSize b)) (take (unat Size) Img) d"
  by (rule write_block_refines [OF sz nand rd al ok fit])

text \<open>A medium of four blocks and an image of 600 bytes written at block 1.\<close>

definition demo_medium :: bytes where
  "demo_medium = replicate 2048 0"

definition demo_read :: "disk_op list \<Rightarrow> nat \<Rightarrow> u64 \<Rightarrow> nat \<Rightarrow> efi_status \<times> bytes" where
  "demo_read log dev lba n = (EFI_SUCCESS, slice (unat lba * 512) n (replay 512 log demo_medium))"

lemma WriteBlockToPartition_inside_example:
  "\<exists>st ws. WriteBlockToPartition (ram_env EMMC demo_medium) (Some (ram_dev 3)) 1 600
      (Some (replicate 600 7)) [] = Some (st, [] @ ws) \<and>
    (\<forall>op\<in>set ws. op_inside 0 512 512 1536 op)"
  using WriteBlockToPartition_inside [OF ram_dev_writable [of 600 "replicate 600 7" 1 3] _
      ram_env_reads_whole [of EMMC demo_medium], of "[]"]
  by (simp add: blocks_up_def)

lemma WriteBlockToPartition_refines_witness:
  "\<exists>ws. WriteBlockToPartition (ram_env EMMC demo_medium\<lparr>read_blocks := demo_read\<rparr>)
      (Some (ram_dev 3)) 1 600 (Some (replicate 600 7)) [] = Some (EFI_SUCCESS, [] @ ws) \<and>
    replay 512 ws demo_medium = splice 512 (replicate 600 7) demo_medium"
  using WriteBlockToPartition_refines [OF ram_dev_writable [of 600 "replicate 600 7" 1 3],
      of "ram_env EMMC demo_medium\<lparr>read_blocks := demo_read\<rparr>" "[]" demo_medium]
  by (simp add: blocks_up_def reads_medium_def demo_read_def demo_medium_def)

end
