(* ===== verification/HandleSearch.thy ===== *)
theory HandleSearch
  imports BlockIo
begin

text \<open>
  The search for block device handles (\<open>GetBlkIOHandles\<close> of \<open>BootLib/LinuxLoaderLib.c\<close>) over
  the handle database of the firmware. The database is outside the source tree: it is a list
  of \<open>handle_desc\<close>, one per handle of the searched protocol, which holds what the protocol
  lookups of the routine return for that handle.
\<close>

section \<open>Strings\<close>

text \<open>
  A NUL-terminated string is the list of its characters without the terminator. \<open>StrnCmp\<close> of
  the EDK II base library answers zero when the strings agree on their first \<open>n\<close> characters.
\<close>

definition StrnCmp :: "string \<Rightarrow> string \<Rightarrow> nat \<Rightarrow> bool" where
  "StrnCmp a b n \<longleftrightarrow> take n a \<noteq> take n b"

lemma StrnCmp_all: "length a \<le> n \<Longrightarrow> length b \<le> n \<Longrightarrow> \<not> StrnCmp a b n \<longleftrightarrow> a = b"
  by (simp add: StrnCmp_def)

section \<open>Handles, device paths and filters\<close>

record EFI_GUID =
  Data1 :: u32
  Data2 :: u16
  Data3 :: u16
  Data4 :: "u8 list"

record dp_node =
  dp_type :: u8
  dp_subtype :: u8
  dp_len0 :: u8
  dp_len1 :: u8
  dp_guid :: EFI_GUID
  dp_mbrtype :: u8

record handle_desc =
  h_id :: nat
  h_blkio :: efi_status
  h_dev :: block_io
  h_removable :: bool
  h_devpath :: "dp_node list option"
  h_iface :: "EFI_GUID \<Rightarrow> bool"
  h_ptype :: "EFI_GUID option"
  h_fs :: "string option option"
  h_pname :: "string option"

record PartiSelectFilter =
  RootDeviceType :: "EFI_GUID option"
  PartitionType :: "EFI_GUID option"
  VolumeName :: "string option"
  PartitionLabel :: "string option"

record HandleInfo =
  Handle :: nat
  BlkIo :: block_io
  PartitionInfo :: "dp_node option"

text \<open>The handle database: the status and handles of a protocol search for the simple file
  system (\<open>True\<close>) and for block I/O (\<open>False\<close>).\<close>

type_synonym handle_db = "bool \<Rightarrow> efi_status \<times> handle_desc list"

abbreviation (input) BLK_IO_SEL_MEDIA_TYPE_REMOVABLE :: u32 where "BLK_IO_SEL_MEDIA_TYPE_REMOVABLE \<equiv> 0x0001"
abbreviation (input) BLK_IO_SEL_MEDIA_TYPE_NON_REMOVABLE :: u32 where
  "BLK_IO_SEL_MEDIA_TYPE_NON_REMOVABLE \<equiv> 0x0002"
abbreviation (input) BLK_IO_SEL_PARTITIONED_GPT :: u32 where "BLK_IO_SEL_PARTITIONED_GPT \<equiv> 0x0004"
abbreviation (input) BLK_IO_SEL_PARTITIONED_MBR :: u32 where "BLK_IO_SEL_PARTITIONED_MBR \<equiv> 0x0008"
abbreviation (input) BLK_IO_SEL_MATCH_PARTITION_TYPE_GUID :: u32 where
  "BLK_IO_SEL_MATCH_PARTITION_TYPE_GUID \<equiv> 0x0010"
abbreviation (input) BLK_IO_SEL_SELECT_MOUNTED_FILESYSTEM :: u32 where
  "BLK_IO_SEL_SELECT_MOUNTED_FILESYSTEM \<equiv> 0x0020"
abbreviation (input) BLK_IO_SEL_SELECT_BY_VOLUME_NAME :: u32 where "BLK_IO_SEL_SELECT_BY_VOLUME_NAME \<equiv> 0x0040"
abbreviation (input) BLK_IO_SEL_SELECT_ROOT_DEVICE_ONLY :: u32 where
  "BLK_IO_SEL_SELECT_ROOT_DEVICE_ONLY \<equiv> 0x0080"
abbreviation (input) BLK_IO_SEL_MATCH_ROOT_DEVICE :: u32 where "BLK_IO_SEL_MATCH_ROOT_DEVICE \<equiv> 0x0100"
abbreviation (input) BLK_IO_SEL_MATCH_PARTITION_LABEL :: u32 where "BLK_IO_SEL_MATCH_PARTITION_LABEL \<equiv> 0x0200"

definition FILTERS_NEEDING_DEVICEPATH :: u32 where
  "FILTERS_NEEDING_DEVICEPATH =
     (BLK_IO_SEL_PARTITIONED_MBR OR BLK_IO_SEL_PARTITIONED_GPT OR
      BLK_IO_SEL_MATCH_PARTITION_TYPE_GUID OR BLK_IO_SEL_SELECT_ROOT_DEVICE_ONLY OR
      BLK_IO_SEL_MATCH_ROOT_DEVICE)"

section \<open>Volume labels\<close>

definition VOLUME_LABEL_SIZE :: nat where "VOLUME_LABEL_SIZE = 16"

definition upper :: "char \<Rightarrow> char" where
  "upper c = (if of_char c \<ge> (97::nat) \<and> of_char c \<le> (122::nat)
              then char_of (of_char c - (32::nat)) else c)"

text \<open>\<open>CompareVolumeLabel\<close>: \<open>False\<close> is a zero result. The argument \<open>None\<close> is a volume that cannot
  be opened or described.\<close>

definition CompareVolumeLabel :: "string option \<Rightarrow> string \<Rightarrow> bool" where
  "CompareVolumeLabel Fs ReqVolumeName = (case Fs of
     None \<Rightarrow> True
   | Some label \<Rightarrow>
       StrnCmp (List.map upper (take (VOLUME_LABEL_SIZE - 1) label) @ drop (VOLUME_LABEL_SIZE - 1) label)
               (List.map upper (take (VOLUME_LABEL_SIZE - 1) ReqVolumeName)) VOLUME_LABEL_SIZE)"

section \<open>One handle\<close>

text \<open>What the loop body decides about a handle: take it (with its partition node), skip it, or
  leave the routine with a status.\<close>

datatype verdict = Take "dp_node option" | Skip | Fail efi_status

definition sel :: "u32 \<Rightarrow> u32 \<Rightarrow> bool" where
  "sel attribs m \<longleftrightarrow> attribs AND m \<noteq> 0"

definition is_root_of :: "EFI_GUID option \<Rightarrow> dp_node list \<Rightarrow> bool" where
  "is_root_of want path = (case path of
     [] \<Rightarrow> False
   | root # _ \<Rightarrow>
       dp_type root = 0x01 \<and> dp_subtype root = 0x04 \<and>
       (ucast (dp_len0 root) OR push_bit 8 (ucast (dp_len1 root)) :: u32) = 20 \<and>
       (case want of None \<Rightarrow> True | Some g \<Rightarrow> g = dp_guid root))"

definition hard_drive_node :: "dp_node list \<Rightarrow> dp_node option" where
  "hard_drive_node path =
     (if path = [] then None
      else let p = last path in
           if dp_type p = 0x04 \<and> dp_subtype p = 0x01 \<and>
              (ucast (dp_len0 p) OR push_bit 8 (ucast (dp_len1 p)) :: u32) = 42
           then Some p else None)"

text \<open>The checks on the device path of the handle.\<close>

definition check_devpath :: "u32 \<Rightarrow> PartiSelectFilter option \<Rightarrow> handle_desc \<Rightarrow> verdict" where
  "check_devpath attribs flt h =
     (if \<not> sel attribs FILTERS_NEEDING_DEVICEPATH then Take None
      else case h_devpath h of
        None \<Rightarrow> Skip
      | Some path \<Rightarrow>
          let wants_root = sel attribs (BLK_IO_SEL_SELECT_ROOT_DEVICE_ONLY OR BLK_IO_SEL_MATCH_ROOT_DEVICE)
          in if wants_root \<and> flt = None then Fail EFI_INVALID_PARAMETER
          else if wants_root \<and> \<not> is_root_of (RootDeviceType (the flt)) path then Skip
          else if sel attribs BLK_IO_SEL_SELECT_ROOT_DEVICE_ONLY \<and> length path > 1 then Skip
          else (case hard_drive_node path of
              None \<Rightarrow> if sel attribs BLK_IO_SEL_MATCH_PARTITION_TYPE_GUID then Skip else Take None
            | Some p \<Rightarrow>
                if \<not> sel attribs BLK_IO_SEL_PARTITIONED_GPT \<and> dp_mbrtype p = 0x02 then Skip
                else if \<not> sel attribs BLK_IO_SEL_PARTITIONED_MBR \<and> dp_mbrtype p = 0x01 then Skip
                else if sel attribs BLK_IO_SEL_MATCH_PARTITION_TYPE_GUID
                then (case flt of
                    None \<Rightarrow> Fail EFI_INVALID_PARAMETER
                  | Some f \<Rightarrow> (case PartitionType f of
                      None \<Rightarrow> Fail EFI_INVALID_PARAMETER
                    | Some g \<Rightarrow>
                        if h_iface h g then Take (Some p)
                        else (case h_ptype h of
                            None \<Rightarrow> Skip
                          | Some t \<Rightarrow> if t = g then Take (Some p) else Skip)))
                else Take (Some p)))"

text \<open>The file system and label checks; \<open>None\<close> is the null dereference of a label search without a
  filter or without a label.\<close>

definition check_fs :: "u32 \<Rightarrow> PartiSelectFilter option \<Rightarrow> handle_desc \<Rightarrow> verdict" where
  "check_fs attribs flt h =
     (if \<not> sel attribs BLK_IO_SEL_SELECT_MOUNTED_FILESYSTEM then Take None
      else case h_fs h of
        None \<Rightarrow> Skip
      | Some Fs \<Rightarrow>
          if \<not> sel attribs BLK_IO_SEL_SELECT_BY_VOLUME_NAME then Take None
          else (case flt of
              None \<Rightarrow> Fail EFI_INVALID_PARAMETER
            | Some f \<Rightarrow> (case VolumeName f of
                None \<Rightarrow> Fail EFI_INVALID_PARAMETER
              | Some v \<Rightarrow> if CompareVolumeLabel Fs v then Skip else Take None)))"

definition check_label :: "u32 \<Rightarrow> PartiSelectFilter option \<Rightarrow> handle_desc \<Rightarrow> verdict option" where
  "check_label attribs flt h =
     (if \<not> sel attribs BLK_IO_SEL_MATCH_PARTITION_LABEL then Some (Take None)
      else case h_pname h of
        None \<Rightarrow> Some Skip
      | Some nm \<Rightarrow> do {
          f \<leftarrow> flt;
          l \<leftarrow> PartitionLabel f;
          Some (if StrnCmp nm l (max (length nm) (length l)) then Skip else Take None)
        })"

definition check_handle :: "u32 \<Rightarrow> PartiSelectFilter option \<Rightarrow> handle_desc \<Rightarrow> verdict option" where
  "check_handle attribs flt h =
     (if h_blkio h = EFI_UNSUPPORTED then Some Skip
      else if h_blkio h \<noteq> EFI_SUCCESS then Some (Fail (h_blkio h))
      else if h_removable h \<and> \<not> sel attribs BLK_IO_SEL_MEDIA_TYPE_REMOVABLE then Some Skip
      else if \<not> h_removable h \<and> \<not> sel attribs BLK_IO_SEL_MEDIA_TYPE_NON_REMOVABLE then Some Skip
      else case check_devpath attribs flt h of
        Skip \<Rightarrow> Some Skip
      | Fail s \<Rightarrow> Some (Fail s)
      | Take p \<Rightarrow> (case check_fs attribs flt h of
          Skip \<Rightarrow> Some Skip
        | Fail s \<Rightarrow> Some (Fail s)
        | Take _ \<Rightarrow> (case check_label attribs flt h of
            None \<Rightarrow> None
          | Some Skip \<Rightarrow> Some Skip
          | Some (Fail s) \<Rightarrow> Some (Fail s)
          | Some (Take _) \<Rightarrow> Some (Take p))))"

section \<open>The search\<close>

definition handle_info :: "handle_desc \<Rightarrow> dp_node option \<Rightarrow> HandleInfo" where
  "handle_info h p = \<lparr>Handle = h_id h, BlkIo = h_dev h, PartitionInfo = p\<rparr>"

text \<open>The loop over the handles, with the entries found so far and the capacity of the caller's
  array. The result is a status and the entries written.\<close>

fun search_handles :: "u32 \<Rightarrow> PartiSelectFilter option \<Rightarrow> nat \<Rightarrow> HandleInfo list \<Rightarrow> handle_desc list \<Rightarrow>
    (efi_status \<times> HandleInfo list) option" where
  "search_handles attribs flt cap found [] = Some (EFI_SUCCESS, found)"
| "search_handles attribs flt cap found (h # hs) =
     (case check_handle attribs flt h of
        None \<Rightarrow> None
      | Some Skip \<Rightarrow> search_handles attribs flt cap found hs
      | Some (Fail s) \<Rightarrow> Some (s, found)
      | Some (Take p) \<Rightarrow>
          let found' = found @ [handle_info h p] in
          if length found' \<ge> cap then Some (EFI_SUCCESS, found')
          else search_handles attribs flt cap found' hs)"

definition adjust_attribs :: "u32 \<Rightarrow> u32" where
  "adjust_attribs a0 =
     (let a1 = (if \<not> sel a0 (BLK_IO_SEL_MEDIA_TYPE_REMOVABLE OR BLK_IO_SEL_MEDIA_TYPE_NON_REMOVABLE)
                then a0 OR (BLK_IO_SEL_MEDIA_TYPE_REMOVABLE OR BLK_IO_SEL_MEDIA_TYPE_NON_REMOVABLE)
                else a0)
      in if \<not> sel a1 (BLK_IO_SEL_PARTITIONED_GPT OR BLK_IO_SEL_PARTITIONED_MBR)
         then a1 OR (BLK_IO_SEL_PARTITIONED_GPT OR BLK_IO_SEL_PARTITIONED_MBR)
         else a1)"

text \<open>\<open>GetBlkIOHandles\<close>: status, handles, and the count left in \<open>*MaxBlkIopCnt\<close>, which keeps the
  caller's capacity on every early return.\<close>

definition GetBlkIOHandles :: "handle_db \<Rightarrow> u32 \<Rightarrow> PartiSelectFilter option \<Rightarrow> nat \<Rightarrow>
    (efi_status \<times> HandleInfo list \<times> nat) option" where
  "GetBlkIOHandles db SelectionAttrib FilterData MaxBlkIopCnt =
     (let attribs = adjust_attribs SelectionAttrib;
          (st, hs) = db (sel attribs (BLK_IO_SEL_SELECT_MOUNTED_FILESYSTEM OR
                                      BLK_IO_SEL_SELECT_BY_VOLUME_NAME))
      in if st \<noteq> EFI_SUCCESS then Some (st, [], MaxBlkIopCnt)
         else do {
           (st', found) \<leftarrow> search_handles attribs FilterData MaxBlkIopCnt [] hs;
           Some (st', found, if st' = EFI_SUCCESS then length found else MaxBlkIopCnt)
         })"

section \<open>The root device of a logical unit\<close>

definition GUID :: "u32 \<Rightarrow> u16 \<Rightarrow> u16 \<Rightarrow> u8 list \<Rightarrow> EFI_GUID" where
  "GUID a b c d = \<lparr>Data1 = a, Data2 = b, Data3 = c, Data4 = d\<rparr>"

definition gEfiEmmcUserPartitionGuid :: EFI_GUID where
  "gEfiEmmcUserPartitionGuid = GUID 0xb615f1f5 0x5088 0x43cd [0x80, 0x9c, 0xa1, 0x6e, 0x52, 0x48, 0x7d, 0x00]"

definition gEfiNandUserPartitionGuid :: EFI_GUID where
  "gEfiNandUserPartitionGuid = GUID 0x03ef84a9 0x60ce 0x4371 [0x97, 0xcf, 0x04, 0x84, 0x5a, 0x86, 0x5b, 0x79]"

definition LunGuids :: "EFI_GUID list" where
  "LunGuids =
    [GUID 0x860845c1 0xbe09 0x4355 [0x8b, 0xc1, 0x30, 0xd6, 0x4f, 0xf8, 0xe6, 0x3a],
     GUID 0x8d90d477 0x39a3 0x4a38 [0xab, 0x9e, 0x58, 0x6f, 0xf6, 0x9e, 0xd0, 0x51],
     GUID 0xedf85868 0x87ec 0x4f77 [0x9c, 0xda, 0x5f, 0x10, 0xdf, 0x2f, 0xe6, 0x01],
     GUID 0x1ae69024 0x8aeb 0x4df8 [0xbc, 0x98, 0x00, 0x32, 0xdb, 0xdf, 0x50, 0x24],
     GUID 0xd33f1985 0xf107 0x4a85 [0xbe, 0x38, 0x68, 0xdc, 0x7a, 0xd3, 0x2c, 0xea],
     GUID 0x4ba1d05f 0x088e 0x483f [0xa9, 0x7e, 0xb1, 0x9b, 0x9c, 0xcf, 0x59, 0xb0],
     GUID 0x4acf98f6 0x26fa 0x44d2 [0x81, 0x32, 0x28, 0x2f, 0x2d, 0x19, 0xa4, 0xc5],
     GUID 0x8598155f 0x34de 0x415c [0x8b, 0x55, 0x84, 0x3e, 0x33, 0x22, 0xd3, 0x6f]]"

definition root_filter :: "EFI_GUID \<Rightarrow> PartiSelectFilter" where
  "root_filter g = \<lparr>RootDeviceType = Some g, PartitionType = None, VolumeName = None,
     PartitionLabel = None\<rparr>"

abbreviation (input) NO_LUN :: int where "NO_LUN \<equiv> -1"

definition GetStorageHandle :: "handle_db \<Rightarrow> int \<Rightarrow> nat \<Rightarrow> (efi_status \<times> HandleInfo list \<times> nat) option" where
  "GetStorageHandle db Lun MaxHandles =
     (if Lun = NO_LUN
      then GetBlkIOHandles db BLK_IO_SEL_SELECT_ROOT_DEVICE_ONLY
             (Some (root_filter gEfiEmmcUserPartitionGuid)) MaxHandles
      else if Lun < 0 \<or> nat Lun \<ge> length LunGuids then None
      else GetBlkIOHandles db BLK_IO_SEL_SELECT_ROOT_DEVICE_ONLY
             (Some (root_filter (LunGuids ! nat Lun))) MaxHandles)"

section \<open>The search as a filter\<close>

text \<open>The handles the loop takes when it never leaves early, in database order.\<close>

definition chosen :: "u32 \<Rightarrow> PartiSelectFilter option \<Rightarrow> handle_desc \<Rightarrow> HandleInfo list" where
  "chosen attribs flt h = (case check_handle attribs flt h of
     Some (Take p) \<Rightarrow> [handle_info h p] | _ \<Rightarrow> [])"

definition decidable :: "u32 \<Rightarrow> PartiSelectFilter option \<Rightarrow> handle_desc \<Rightarrow> bool" where
  "decidable attribs flt h = (case check_handle attribs flt h of
     None \<Rightarrow> False | Some (Fail _) \<Rightarrow> False | Some _ \<Rightarrow> True)"

lemma search_handles_filter:
  "\<forall>h\<in>set hs. decidable attribs flt h \<Longrightarrow> length found < cap \<Longrightarrow>
   search_handles attribs flt cap found hs =
     Some (EFI_SUCCESS, take cap (found @ concat (List.map (chosen attribs flt) hs)))"
proof (induction hs arbitrary: found)
  case (Cons h hs)
  then show ?case
    by (cases "check_handle attribs flt h" rule: option.exhaust; cases "the (check_handle attribs flt h)")
      (auto simp: decidable_def chosen_def Let_def take_Cons')
qed simp

text \<open>Every entry the loop writes, on every path, comes from a handle it took.\<close>

lemma search_handles_sound:
  "search_handles attribs flt cap found hs = Some (st, out) \<Longrightarrow> i \<in> set out \<Longrightarrow>
   i \<in> set found \<or> (\<exists>h p. h \<in> set hs \<and> check_handle attribs flt h = Some (Take p) \<and> i = handle_info h p)"
proof (induction hs arbitrary: found)
  case (Cons h hs)
  show ?case
  proof (cases "check_handle attribs flt h")
    case None
    then show ?thesis using Cons.prems by simp
  next
    case (Some v)
    show ?thesis
    proof (cases v)
      case (Take p)
      show ?thesis
        using Cons.prems Cons.IH [of "found @ [handle_info h p]"] Some Take
        by (fastforce simp: Let_def split: if_splits)
    qed (use Cons.prems Cons.IH [of found] Some in auto)
  qed
qed simp

lemma search_handles_cap:
  "search_handles attribs flt cap found hs = Some (st, out) \<Longrightarrow> length found < cap \<Longrightarrow> length out \<le> cap"
  by (induction hs arbitrary: found)
    (auto simp: Let_def split: option.splits verdict.splits if_splits)

lemma GetBlkIOHandles_eq:
  assumes "db (sel (adjust_attribs a) (BLK_IO_SEL_SELECT_MOUNTED_FILESYSTEM OR
               BLK_IO_SEL_SELECT_BY_VOLUME_NAME)) = (EFI_SUCCESS, hs)"
    and "\<forall>h\<in>set hs. decidable (adjust_attribs a) flt h" and "0 < cap"
  shows "GetBlkIOHandles db a flt cap =
    (let out = take cap (concat (List.map (chosen (adjust_attribs a) flt) hs))
     in Some (EFI_SUCCESS, out, length out))"
  using search_handles_filter [of hs "adjust_attribs a" flt "[]" cap] assms
  by (simp add: GetBlkIOHandles_def Let_def)


text \<open>The selection bits of a root device search survive the defaulting of the others.\<close>

lemma adjust_root_only:
  "adjust_attribs BLK_IO_SEL_SELECT_ROOT_DEVICE_ONLY = 0x8F"
  by (simp add: adjust_attribs_def sel_def)

lemma adjust_match_root:
  "adjust_attribs BLK_IO_SEL_MATCH_ROOT_DEVICE = 0x10F"
  by (simp add: adjust_attribs_def sel_def)

lemma check_handle_root_only:
  assumes "check_handle 0x8F (Some (root_filter g)) h = Some (Take p)"
  shows "h_blkio h = EFI_SUCCESS \<and>
    (\<exists>root. h_devpath h = Some [root] \<and> dp_type root = 0x01 \<and> dp_subtype root = 0x04 \<and>
       dp_guid root = g)"
proof -
  obtain p' where d: "check_devpath 0x8F (Some (root_filter g)) h = Take p'" and b: "h_blkio h = EFI_SUCCESS"
    using assms by (auto simp: check_handle_def split: if_splits verdict.splits)
  obtain path where path: "h_devpath h = Some path" "is_root_of (Some g) path" "length path \<le> 1"
    using d by (auto simp: check_devpath_def sel_def FILTERS_NEEDING_DEVICEPATH_def root_filter_def
      split: if_splits option.splits)
  then show ?thesis using b by (cases path) (auto simp: is_root_of_def)
qed

lemma GetStorageHandle_guid:
  "GetStorageHandle db Lun cap = Some r \<Longrightarrow>
   \<exists>g\<in>set (gEfiEmmcUserPartitionGuid # LunGuids).
     (if Lun = NO_LUN then g = gEfiEmmcUserPartitionGuid else g = LunGuids ! nat Lun) \<and>
     GetBlkIOHandles db BLK_IO_SEL_SELECT_ROOT_DEVICE_ONLY (Some (root_filter g)) cap = Some r"
  by (auto simp: GetStorageHandle_def split: if_splits intro: exI [of _ "LunGuids ! nat Lun"])

text \<open>\<open>GetStorageHandle\<close> hands out whole devices only: every handle it writes has a block I/O
  protocol and a device path that is the single root node of the requested logical unit.\<close>

theorem GetStorageHandle_root:
  assumes "GetStorageHandle db Lun cap = Some (st, out, n)" and "i \<in> set out"
  shows "\<exists>h\<in>set (snd (db False)). i = handle_info h (PartitionInfo i) \<and> h_blkio h = EFI_SUCCESS \<and>
    (\<exists>root. h_devpath h = Some [root] \<and>
       dp_guid root = (if Lun = NO_LUN then gEfiEmmcUserPartitionGuid else LunGuids ! nat Lun))"
proof -
  obtain g where g: "g = (if Lun = NO_LUN then gEfiEmmcUserPartitionGuid else LunGuids ! nat Lun)"
    and blk: "GetBlkIOHandles db BLK_IO_SEL_SELECT_ROOT_DEVICE_ONLY (Some (root_filter g)) cap =
      Some (st, out, n)"
    using GetStorageHandle_guid [OF assms(1)] by (auto split: if_splits)
  have "sel 0x8F 0x60 = False" by (simp add: sel_def)
  then obtain st' where s: "search_handles 0x8F (Some (root_filter g)) cap [] (snd (db False)) = Some (st', out)"
    using blk assms(2) by (auto simp: GetBlkIOHandles_def adjust_root_only Let_def split: if_splits
      prod.splits bind_splits)
  then obtain h p where "h \<in> set (snd (db False))"
    "check_handle 0x8F (Some (root_filter g)) h = Some (Take p)" "i = handle_info h p"
    using search_handles_sound [OF s assms(2)] by auto
  then show ?thesis
    using check_handle_root_only [of g h p] g by (auto simp: handle_info_def)
qed

section \<open>A small handle database\<close>

text \<open>An eMMC device with its root handle and one GPT partition, the database of the witnesses.\<close>

definition demo_root_node :: "EFI_GUID \<Rightarrow> dp_node" where
  "demo_root_node g = \<lparr>dp_type = 0x01, dp_subtype = 0x04, dp_len0 = 20, dp_len1 = 0, dp_guid = g,
     dp_mbrtype = 0\<rparr>"

definition demo_hd_node :: dp_node where
  "demo_hd_node = \<lparr>dp_type = 0x04, dp_subtype = 0x01, dp_len0 = 42, dp_len1 = 0,
     dp_guid = gEfiEmmcUserPartitionGuid, dp_mbrtype = 2\<rparr>"

definition demo_root :: handle_desc where
  "demo_root = \<lparr>h_id = 10, h_blkio = EFI_SUCCESS, h_dev = ram_dev 200, h_removable = False,
     h_devpath = Some [demo_root_node gEfiEmmcUserPartitionGuid], h_iface = (\<lambda>_. False),
     h_ptype = None, h_fs = None, h_pname = None\<rparr>"

definition demo_part :: handle_desc where
  "demo_part = \<lparr>h_id = 11, h_blkio = EFI_SUCCESS, h_dev = (ram_dev 7)\<lparr>bio_id := 1\<rparr>, h_removable = False,
     h_devpath = Some [demo_root_node gEfiEmmcUserPartitionGuid, demo_hd_node], h_iface = (\<lambda>_. False),
     h_ptype = None, h_fs = None, h_pname = Some ''boot_a''\<rparr>"

definition demo_db :: handle_db where
  "demo_db fs = (EFI_SUCCESS, [demo_part, demo_root])"

lemmas demo_db_simps = demo_db_def demo_root_def demo_part_def demo_root_node_def demo_hd_node_def

lemma demo_check:
  "check_handle 0x8F (Some (root_filter gEfiEmmcUserPartitionGuid)) demo_part = Some Skip"
  "check_handle 0x8F (Some (root_filter gEfiEmmcUserPartitionGuid)) demo_root = Some (Take None)"
  by (simp_all add: check_handle_def check_devpath_def check_fs_def check_label_def sel_def
    FILTERS_NEEDING_DEVICEPATH_def root_filter_def is_root_of_def hard_drive_node_def demo_db_simps Let_def)

lemma demo_storage:
  "0 < cap \<Longrightarrow> GetStorageHandle demo_db NO_LUN cap = Some (EFI_SUCCESS, [handle_info demo_root None], 1)"
  by (simp add: GetStorageHandle_def GetBlkIOHandles_def adjust_root_only sel_def demo_db_def
    demo_check Let_def)


lemma GetStorageHandle_root_example:
  "\<exists>h\<in>{demo_part, demo_root}. handle_info demo_root None = handle_info h None \<and> h_blkio h = EFI_SUCCESS \<and>
    (\<exists>root. h_devpath h = Some [root] \<and> dp_guid root = gEfiEmmcUserPartitionGuid)"
  using GetStorageHandle_root [OF demo_storage [of 4], of "handle_info demo_root None"]
  by (simp add: demo_db_def handle_info_def)

end
