(* ===== verification/GptImage.thy ===== *)
theory GptImage
  imports HandleSearch
begin

text \<open>
  Flashing a GPT image: \<open>PartitionGetType\<close>, \<open>ParseGptHeader\<close>, \<open>PatchGpt\<close>, \<open>WriteGpt\<close> and
  \<open>UpdatePartitionTable\<close> of \<open>BootLib/PartitionTableUpdate.c\<close>. The image is the downloaded
  buffer; every read and write of it is checked, so a result other than \<open>None\<close> is a proof that
  the code stayed inside the buffer.
\<close>

section \<open>Constants\<close>

abbreviation (input) SUCCESS :: u32 where "SUCCESS \<equiv> 0"
abbreviation (input) FAILURE :: u32 where "FAILURE \<equiv> 1"
abbreviation (input) MBR_SIGNATURE :: nat where "MBR_SIGNATURE \<equiv> 510"
abbreviation (input) MBR_PARTITION_RECORD :: u32 where "MBR_PARTITION_RECORD \<equiv> 446"
abbreviation (input) OS_TYPE :: u32 where "OS_TYPE \<equiv> 4"
abbreviation (input) PARTITION_TYPE_MBR :: u32 where "PARTITION_TYPE_MBR \<equiv> 0"
abbreviation (input) PARTITION_TYPE_GPT :: u32 where "PARTITION_TYPE_GPT \<equiv> 1"
abbreviation (input) PARTITION_TYPE_GPT_BACKUP :: u32 where "PARTITION_TYPE_GPT_BACKUP \<equiv> 2"
abbreviation (input) GPT_PROTECTIVE :: u32 where "GPT_PROTECTIVE \<equiv> 0xEE"
abbreviation (input) MIBIB_MAGIC1 :: u32 where "MIBIB_MAGIC1 \<equiv> 0xFE569FAC"
abbreviation (input) MIBIB_MAGIC2 :: u32 where "MIBIB_MAGIC2 \<equiv> 0xCD7F127A"
abbreviation (input) GPT_SIGNATURE_1 :: u32 where "GPT_SIGNATURE_1 \<equiv> 0x54524150"
abbreviation (input) GPT_SIGNATURE_2 :: u32 where "GPT_SIGNATURE_2 \<equiv> 0x20494645"
abbreviation (input) GPT_HEADER_SIZE :: u32 where "GPT_HEADER_SIZE \<equiv> 92"
abbreviation (input) GPT_LBA :: u32 where "GPT_LBA \<equiv> 1"
abbreviation (input) GPT_PART_ENTRY_SIZE :: u32 where "GPT_PART_ENTRY_SIZE \<equiv> 128"
abbreviation (input) PARTITION_ENTRY_SIZE :: u32 where "PARTITION_ENTRY_SIZE \<equiv> 128"
abbreviation (input) MAX_NUM_PARTITIONS :: nat where "MAX_NUM_PARTITIONS \<equiv> 128"
abbreviation (input) MIN_PARTITION_ARRAY_SIZE :: u32 where "MIN_PARTITION_ARRAY_SIZE \<equiv> 0x4000"
abbreviation (input) MAX_PARTITION_ENTRIES_SZ :: u32 where "MAX_PARTITION_ENTRIES_SZ \<equiv> 128 * PARTITION_ENTRY_SIZE"
abbreviation (input) GPT_HDR_BLOCKS :: u32 where "GPT_HDR_BLOCKS \<equiv> 1"
abbreviation (input) MAX_HANDLEINF_LST_SIZE :: nat where "MAX_HANDLEINF_LST_SIZE \<equiv> 128"

abbreviation (input) HEADER_SIZE_OFFSET :: nat where "HEADER_SIZE_OFFSET \<equiv> 12"
abbreviation (input) HEADER_CRC_OFFSET :: nat where "HEADER_CRC_OFFSET \<equiv> 16"
abbreviation (input) PRIMARY_HEADER_OFFSET :: nat where "PRIMARY_HEADER_OFFSET \<equiv> 24"
abbreviation (input) BACKUP_HEADER_OFFSET :: nat where "BACKUP_HEADER_OFFSET \<equiv> 32"
abbreviation (input) FIRST_USABLE_LBA_OFFSET :: nat where "FIRST_USABLE_LBA_OFFSET \<equiv> 40"
abbreviation (input) LAST_USABLE_LBA_OFFSET :: nat where "LAST_USABLE_LBA_OFFSET \<equiv> 48"
abbreviation (input) PARTITION_ENTRIES_OFFSET :: nat where "PARTITION_ENTRIES_OFFSET \<equiv> 72"
abbreviation (input) PARTITION_COUNT_OFFSET :: nat where "PARTITION_COUNT_OFFSET \<equiv> 80"
abbreviation (input) PENTRY_SIZE_OFFSET :: nat where "PENTRY_SIZE_OFFSET \<equiv> 84"
abbreviation (input) PARTITION_CRC_OFFSET :: nat where "PARTITION_CRC_OFFSET \<equiv> 88"
abbreviation (input) PARTITION_ENTRY_LAST_LBA :: u32 where "PARTITION_ENTRY_LAST_LBA \<equiv> 40"

section \<open>The kind of an image\<close>

text \<open>A byte of the buffer.\<close>

definition byte_at :: "bytes \<Rightarrow> nat \<Rightarrow> u8 option" where
  "byte_at b i = (if i < length b then Some (b ! i) else None)"

definition PartitionVerifyMbrSignature :: "u32 \<Rightarrow> bytes \<Rightarrow> u32 option" where
  "PartitionVerifyMbrSignature Sz Gpt =
     (if MBR_SIGNATURE + 1 \<ge> unat Sz then Some FAILURE
      else do {
        s0 \<leftarrow> byte_at Gpt MBR_SIGNATURE;
        if s0 \<noteq> 0x55 then Some FAILURE
        else do {
          s1 \<leftarrow> byte_at Gpt (MBR_SIGNATURE + 1);
          Some (if s1 \<noteq> 0xAA then FAILURE else SUCCESS)
        }
      })"

definition PartitionVerifyMibibImage :: "bytes \<Rightarrow> u32 option" where
  "PartitionVerifyMibibImage Image' = do {
     m1 \<leftarrow> get32 Image' 0;
     if m1 \<noteq> MIBIB_MAGIC1 then Some FAILURE
     else do {
       m2 \<leftarrow> get32 Image' 4;
       Some (if m2 \<noteq> MIBIB_MAGIC2 then FAILURE else SUCCESS)
     }
   }"

text \<open>The result and the partition type; the type is meaningful on success.\<close>

definition MbrGetPartitionType :: "u32 \<Rightarrow> bytes \<Rightarrow> u32 \<Rightarrow> (u32 \<times> u32) option" where
  "MbrGetPartitionType Sz Gpt Ptype =
     (let PtypeOffset = MBR_PARTITION_RECORD + OS_TYPE in
      if Sz \<le> PtypeOffset then Some (FAILURE, Ptype)
      else do { t \<leftarrow> byte_at Gpt (unat PtypeOffset); Some (SUCCESS, ucast t) })"

definition PartitionGetType :: "u32 \<Rightarrow> bytes \<Rightarrow> u32 \<Rightarrow> (u32 \<times> u32) option" where
  "PartitionGetType Sz Gpt Ptype = do {
     Ret \<leftarrow> PartitionVerifyMbrSignature Sz Gpt;
     if Ret = SUCCESS then do {
       (Ret', t) \<leftarrow> MbrGetPartitionType Sz Gpt Ptype;
       if Ret' = SUCCESS
       then Some (Ret', if t = GPT_PROTECTIVE then PARTITION_TYPE_GPT else PARTITION_TYPE_MBR)
       else Some (Ret', t)
     }
     else Some (SUCCESS, PARTITION_TYPE_GPT_BACKUP)
   }"

section \<open>Parsing a header\<close>

record GptHeaderData =
  FirstUsableLba :: u64
  PartEntrySz :: u32
  HeaderSz :: u32
  MaxPtCnt :: u32
  LastUsableLba :: u64

text \<open>The CRC service on a range of the buffer.\<close>

definition crc_range :: "io_env \<Rightarrow> bytes \<Rightarrow> nat \<Rightarrow> nat \<Rightarrow> (efi_status \<times> u32) option" where
  "crc_range env Gpt off n =
     (if off + n \<le> length Gpt then Some (calc_crc32 env (slice off n Gpt)) else None)"

text \<open>
  \<open>ParseGptHeader\<close> on the header at offset \<open>h\<close>, with the flag \<open>ParseSecondaryGpt\<close>: the return
  value, the parsed structure and the buffer, whose CRC field the routine clears and restores.
\<close>

definition ParseGptHeader :: "io_env \<Rightarrow> bool \<Rightarrow> GptHeaderData \<Rightarrow> bytes \<Rightarrow> nat \<Rightarrow> u64 \<Rightarrow> u32 \<Rightarrow>
    (u32 \<times> GptHeaderData \<times> bytes) option" where
  "ParseGptHeader env secondary H0 Gpt h DeviceDensity BlkSz = do {
     s2 \<leftarrow> get32 Gpt h;
     signed \<leftarrow> (if s2 \<noteq> GPT_SIGNATURE_2 then Some False
               else do { s1 \<leftarrow> get32 Gpt (h + 4); Some (s1 = GPT_SIGNATURE_1) });
     if \<not> signed then Some (FAILURE, H0, Gpt)
     else do {
       hsz \<leftarrow> get32 Gpt (h + HEADER_SIZE_OFFSET);
       let H1 = H0\<lparr>HeaderSz := hsz\<rparr>;
       if HeaderSz H1 < GPT_HEADER_SIZE then Some (FAILURE, H1, Gpt)
       else if HeaderSz H1 > BlkSz then Some (FAILURE, H1, Gpt)
       else do {
         CrcOrig \<leftarrow> get32 Gpt (h + HEADER_CRC_OFFSET);
         Gpt1 \<leftarrow> put32 Gpt (h + HEADER_CRC_OFFSET) 0;
         (Status, CrcVal) \<leftarrow> crc_range env Gpt1 h (unat (HeaderSz H1));
         if Status \<noteq> EFI_SUCCESS then Some (FAILURE, H1, Gpt1)
         else if CrcVal \<noteq> CrcOrig then Some (FAILURE, H1, Gpt1)
         else do {
           Gpt2 \<leftarrow> put32 Gpt1 (h + HEADER_CRC_OFFSET) CrcVal;
           cur \<leftarrow> get64 Gpt2 (h + PRIMARY_HEADER_OFFSET);
           first \<leftarrow> get64 Gpt2 (h + FIRST_USABLE_LBA_OFFSET);
           cnt \<leftarrow> get32 Gpt2 (h + PARTITION_COUNT_OFFSET);
           esz \<leftarrow> get32 Gpt2 (h + PENTRY_SIZE_OFFSET);
           final \<leftarrow> get64 Gpt2 (h + LAST_USABLE_LBA_OFFSET);
           let H2 = H1\<lparr>FirstUsableLba := first, MaxPtCnt := cnt, PartEntrySz := esz,
                       LastUsableLba := final\<rparr>;
           if \<not> secondary \<and> (ucast cur :: u32) \<noteq> GPT_LBA then Some (FAILURE, H2, Gpt2)
           else if BlkSz = 0 then None
           else if FirstUsableLba H2 > DeviceDensity div ucast BlkSz then Some (FAILURE, H2, Gpt2)
           else if LastUsableLba H2 > DeviceDensity div ucast BlkSz then Some (FAILURE, H2, Gpt2)
           else if PartEntrySz H2 \<noteq> GPT_PART_ENTRY_SIZE then Some (FAILURE, H2, Gpt2)
           else if MaxPtCnt H2 > MIN_PARTITION_ARRAY_SIZE div PartEntrySz H2
           then Some (FAILURE, H2, Gpt2)
           else Some (SUCCESS, H2, Gpt2)
         }
       }
     }
   }"

section \<open>Patching the image for the device\<close>

text \<open>The scan for the end of the partition entries: \<open>n\<close> is the number of entries the loop
  condition \<open>TotalPart < MaxPtCnt\<close> still allows.\<close>

fun count_entries :: "bytes \<Rightarrow> nat \<Rightarrow> u32 \<Rightarrow> nat \<Rightarrow> u32 option" where
  "count_entries Gpt base TotalPart 0 = Some TotalPart"
| "count_entries Gpt base TotalPart (Suc n) = do {
     e0 \<leftarrow> get64 Gpt (base + unat (TotalPart * PARTITION_ENTRY_SIZE));
     used \<leftarrow> (if e0 \<noteq> 0 then Some True
             else do { e1 \<leftarrow> get64 Gpt (base + unat (TotalPart * PARTITION_ENTRY_SIZE) + 8);
                       Some (e1 \<noteq> 0) });
     if used then count_entries Gpt base (TotalPart + 1) n else Some TotalPart
   }"

text \<open>The geometry fields of both headers.\<close>

definition patch_headers :: "bytes \<Rightarrow> nat \<Rightarrow> nat \<Rightarrow> u64 \<Rightarrow> u32 \<Rightarrow> bytes option" where
  "patch_headers Gpt PrimaryGptHeader SecondaryGptHeader NumSectors PtnEntryBlks = do {
     Gpt \<leftarrow> put64 Gpt (PrimaryGptHeader + BACKUP_HEADER_OFFSET) (NumSectors - 1);
     Gpt \<leftarrow> put64 Gpt (PrimaryGptHeader + LAST_USABLE_LBA_OFFSET)
              (NumSectors - ucast (PtnEntryBlks + 1));
     Gpt \<leftarrow> put64 Gpt (SecondaryGptHeader + PRIMARY_HEADER_OFFSET) 1;
     Gpt \<leftarrow> put64 Gpt (SecondaryGptHeader + LAST_USABLE_LBA_OFFSET)
              (NumSectors - ucast (PtnEntryBlks + 1));
     put64 Gpt (SecondaryGptHeader + PARTITION_ENTRIES_OFFSET) (NumSectors - ucast PtnEntryBlks)
   }"

text \<open>The last used entry of both entry arrays is stretched to the end of the device.\<close>

definition patch_last_entry :: "bytes \<Rightarrow> nat \<Rightarrow> u32 \<Rightarrow> u32 \<Rightarrow> u64 \<Rightarrow> bytes option" where
  "patch_last_entry Gpt entries MaxPt PartEntryArrSz LastLba = do {
     TotalPart \<leftarrow> count_entries Gpt entries 0 (unat MaxPt);
     let LastPartOffset = (TotalPart - 1) * PARTITION_ENTRY_SIZE + PARTITION_ENTRY_LAST_LBA;
     Gpt \<leftarrow> put64 Gpt (entries + unat LastPartOffset) LastLba;
     put64 Gpt (entries + unat LastPartOffset + unat PartEntryArrSz) LastLba
   }"

text \<open>A CRC of a range stored in a field; the flag is false when the CRC service fails.\<close>

definition patch_crc :: "io_env \<Rightarrow> bytes \<Rightarrow> nat \<Rightarrow> nat \<Rightarrow> nat \<Rightarrow> (bool \<times> bytes) option" where
  "patch_crc env Gpt from n field = do {
     (Status, CrcVal) \<leftarrow> crc_range env Gpt from n;
     if EFI_ERROR Status then Some (False, Gpt)
     else do { Gpt' \<leftarrow> put32 Gpt field CrcVal; Some (True, Gpt') }
   }"

definition PatchGpt :: "io_env \<Rightarrow> bytes \<Rightarrow> u64 \<Rightarrow> u32 \<Rightarrow> GptHeaderData \<Rightarrow> u32 \<Rightarrow> (u32 \<times> bytes) option" where
  "PatchGpt env Gpt DeviceDensity PartEntryArrSz GptHeader BlkSz =
     (if BlkSz = 0 then None
      else
        let PtnEntryBlks = MAX_PARTITION_ENTRIES_SZ div BlkSz + GPT_HDR_BLOCKS;
            NumSectors = DeviceDensity div ucast BlkSz;
            PrimaryGptHeader = unat BlkSz;
            Offset = 2 * PartEntryArrSz;
            SecondaryGptHeader = unat (Offset + BlkSz) + PrimaryGptHeader;
            PartitionEntryArrStart = PrimaryGptHeader + unat BlkSz;
            ArrBytes = unat (MaxPtCnt GptHeader * PartEntrySz GptHeader)
        in do {
          Gpt1 \<leftarrow> patch_headers Gpt PrimaryGptHeader SecondaryGptHeader NumSectors PtnEntryBlks;
          Gpt2 \<leftarrow> patch_last_entry Gpt1 PartitionEntryArrStart (MaxPtCnt GptHeader) PartEntryArrSz
                    (NumSectors - ucast (PtnEntryBlks + 1));
          (ok1, Gpt3) \<leftarrow> patch_crc env Gpt2 PartitionEntryArrStart ArrBytes
                    (PrimaryGptHeader + PARTITION_CRC_OFFSET);
          if \<not> ok1 then Some (FAILURE, Gpt3)
          else do {
            (ok2, Gpt4) \<leftarrow> patch_crc env Gpt3 (PartitionEntryArrStart + unat PartEntryArrSz) ArrBytes
                    (SecondaryGptHeader + PARTITION_CRC_OFFSET);
            if \<not> ok2 then Some (FAILURE, Gpt4)
            else do {
              Gpt5 \<leftarrow> put32 Gpt4 (PrimaryGptHeader + HEADER_CRC_OFFSET) 0;
              (ok3, Gpt6) \<leftarrow> patch_crc env Gpt5 PrimaryGptHeader (unat GPT_HEADER_SIZE)
                    (PrimaryGptHeader + HEADER_CRC_OFFSET);
              if \<not> ok3 then Some (FAILURE, Gpt6)
              else do {
                Gpt7 \<leftarrow> put32 Gpt6 (SecondaryGptHeader + HEADER_CRC_OFFSET) 0;
                (ok4, Gpt8) \<leftarrow> patch_crc env Gpt7 SecondaryGptHeader (unat GPT_HEADER_SIZE)
                    (SecondaryGptHeader + HEADER_CRC_OFFSET);
                Some (if ok4 then SUCCESS else FAILURE, Gpt8)
              }
            }
          }
        })"

section \<open>Writing the image\<close>

text \<open>The statics of the file.\<close>

record gpt_globals =
  FlashingGpt :: bool
  ParseSecondaryGpt :: bool

text \<open>An EFI status stored in a 32-bit integer keeps the low half of its code.\<close>

fun status_u32 :: "efi_status \<Rightarrow> u32" where
  "status_u32 EFI_SUCCESS = 0"
| "status_u32 EFI_LOAD_ERROR = 1"
| "status_u32 EFI_INVALID_PARAMETER = 2"
| "status_u32 EFI_UNSUPPORTED = 3"
| "status_u32 EFI_BAD_BUFFER_SIZE = 4"
| "status_u32 EFI_BUFFER_TOO_SMALL = 5"
| "status_u32 EFI_NOT_READY = 6"
| "status_u32 EFI_DEVICE_ERROR = 7"
| "status_u32 EFI_OUT_OF_RESOURCES = 9"
| "status_u32 EFI_VOLUME_CORRUPTED = 10"
| "status_u32 EFI_VOLUME_FULL = 11"
| "status_u32 EFI_NO_MEDIA = 12"
| "status_u32 EFI_NOT_FOUND = 14"
| "status_u32 EFI_NOT_STARTED = 19"
| "status_u32 EFI_PROTOCOL_ERROR = 24"
| "status_u32 EFI_SECURITY_VIOLATION = 26"
| "status_u32 EFI_ABORTED = 21"

lemma status_u32_eq_0 [simp]: "status_u32 s = 0 \<longleftrightarrow> s = EFI_SUCCESS"
  by (cases s) simp_all

record gpt_result =
  g_ret :: u32
  g_glob :: gpt_globals
  g_buf :: bytes
  g_log :: "disk_op list"

text \<open>The writes of \<open>WriteGpt\<close> in order, stopping at the first failure: each is a block number,
  an offset in the buffer and a length.\<close>

fun write_seq :: "io_env \<Rightarrow> block_io \<Rightarrow> bytes \<Rightarrow> (u64 \<times> nat \<times> nat) list \<Rightarrow> disk_op list \<Rightarrow>
    (bool \<times> disk_op list) option" where
  "write_seq env b Gpt [] log = Some (True, log)"
| "write_seq env b Gpt ((lba, off, n) # ws) log =
     (if off + n > length Gpt then None
      else let (Status, log') = issue env (WriteBlocks (bio_id b) lba (slice off n Gpt)) log
           in if EFI_ERROR Status then Some (False, log') else write_seq env b Gpt ws log')"

text \<open>The part of \<open>WriteGpt\<close> after both headers parsed: patch, erase the device, write the five
  pieces, clear the buffer.\<close>

definition commit_gpt :: "io_env \<Rightarrow> HandleInfo \<Rightarrow> gpt_globals \<Rightarrow> u32 \<Rightarrow> bytes \<Rightarrow> u64 \<Rightarrow> u32 \<Rightarrow>
    GptHeaderData \<Rightarrow> disk_op list \<Rightarrow> gpt_result option" where
  "commit_gpt env hi gl Sz Gpt DeviceDensity PartEntryArrSz GptHeader log =
     (let b = BlkIo hi; BlkSz = BlockSize b;
          PrimaryGptHdr = unat BlkSz;
          SecondaryGptHdr = unat (2 * PartEntryArrSz + BlkSz) + PrimaryGptHdr
      in do {
        (Ret, Gpt1) \<leftarrow> PatchGpt env Gpt DeviceDensity PartEntryArrSz GptHeader BlkSz;
        if Ret \<noteq> SUCCESS then Some \<lparr>g_ret = Ret, g_glob = gl, g_buf = Gpt1, g_log = log\<rparr>
        else
          let (Status, log1) = ErasePartition env b log in
          if Status \<noteq> EFI_SUCCESS
          then Some \<lparr>g_ret = FAILURE, g_glob = gl, g_buf = Gpt1, g_log = log1\<rparr>
          else do {
            BackUpGptLba \<leftarrow> get64 Gpt1 (PrimaryGptHdr + BACKUP_HEADER_OFFSET);
            PrimaryEntryLba \<leftarrow> get64 Gpt1 (PrimaryGptHdr + PARTITION_ENTRIES_OFFSET);
            SecondaryEntryLba \<leftarrow> get64 Gpt1 (SecondaryGptHdr + PARTITION_ENTRIES_OFFSET);
            (ok, log2) \<leftarrow> write_seq env b Gpt1
              [(0, 0, unat BlkSz),
               (1, PrimaryGptHdr, unat BlkSz),
               (BackUpGptLba, SecondaryGptHdr, unat BlkSz),
               (PrimaryEntryLba, PrimaryGptHdr + unat BlkSz, unat PartEntryArrSz),
               (SecondaryEntryLba, PrimaryGptHdr + unat BlkSz + unat PartEntryArrSz,
                  unat PartEntryArrSz)] log1;
            if \<not> ok then Some \<lparr>g_ret = FAILURE, g_glob = gl, g_buf = Gpt1, g_log = log2\<rparr>
            else if unat Sz > length Gpt1 then None
            else Some \<lparr>g_ret = SUCCESS, g_glob = gl\<lparr>FlashingGpt := False\<rparr>,
                       g_buf = splice 0 (replicate (unat Sz) 0) Gpt1, g_log = log2\<rparr>
          }
      })"

definition blank_header :: GptHeaderData where
  "blank_header = \<lparr>FirstUsableLba = 0, PartEntrySz = 0, HeaderSz = 0, MaxPtCnt = 0, LastUsableLba = 0\<rparr>"

definition WriteGpt :: "io_env \<Rightarrow> handle_db \<Rightarrow> gpt_globals \<Rightarrow> int \<Rightarrow> u32 \<Rightarrow> bytes \<Rightarrow> disk_op list \<Rightarrow>
    gpt_result option" where
  "WriteGpt env db gl Lun Sz Gpt log = do {
     (st, BlockIoHandle, MaxHandles) \<leftarrow> GetStorageHandle db Lun MAX_HANDLEINF_LST_SIZE;
     let stop = (\<lambda>ret gl buf. Some \<lparr>g_ret = ret, g_glob = gl, g_buf = buf, g_log = log\<rparr>);
     if status_u32 st \<noteq> 0 \<or> MaxHandles \<noteq> 1 then stop (status_u32 st) gl Gpt
     else
       let hi = BlockIoHandle ! 0;
           DeviceDensity = GetPartitionSize (Some (BlkIo hi));
           BlkSz = BlockSize (BlkIo hi)
       in if DeviceDensity = 0 then stop FAILURE gl Gpt
          else if Sz \<le> BlkSz * 2 then stop FAILURE gl Gpt
          else do {
            (Ret, H, Gpt1) \<leftarrow> ParseGptHeader env (ParseSecondaryGpt gl) blank_header Gpt (unat BlkSz)
                                DeviceDensity BlkSz;
            if Ret \<noteq> SUCCESS then stop Ret gl Gpt1
            else
              let Arr = PartEntrySz H * MaxPtCnt H;
                  PartEntryArrSz = (if Arr < MIN_PARTITION_ARRAY_SIZE then MIN_PARTITION_ARRAY_SIZE else Arr);
                  Offset = 2 * PartEntryArrSz
              in if Sz < Offset + BlkSz * 3 then stop FAILURE gl Gpt1
                 else do {
                   let gl' = gl\<lparr>ParseSecondaryGpt := True\<rparr>;
                   (Ret', H', Gpt2) \<leftarrow> ParseGptHeader env True H Gpt1
                     (unat (Offset + BlkSz) + unat BlkSz) DeviceDensity BlkSz;
                   if Ret' \<noteq> SUCCESS then stop Ret' gl' Gpt2
                   else commit_gpt env hi gl' Sz Gpt2 DeviceDensity PartEntryArrSz H' log
                 }
          }
   }"

definition UpdatePartitionTable :: "io_env \<Rightarrow> handle_db \<Rightarrow> gpt_globals \<Rightarrow> bytes \<Rightarrow> u32 \<Rightarrow> int \<Rightarrow>
    disk_op list \<Rightarrow> (efi_status \<times> gpt_globals \<times> bytes \<times> disk_op list) option" where
  "UpdatePartitionTable env db gl GptImage Sz Lun log = do {
     (Ret, Ptype) \<leftarrow> PartitionGetType Sz GptImage 0;
     if Ret \<noteq> 0 then Some (EFI_NOT_FOUND, gl, GptImage, log)
     else if Ptype = PARTITION_TYPE_GPT then do {
       r \<leftarrow> WriteGpt env db (gl\<lparr>FlashingGpt := True\<rparr>) Lun Sz GptImage log;
       Some (if g_ret r \<noteq> 0 then EFI_VOLUME_CORRUPTED else EFI_SUCCESS,
             g_glob r, g_buf r, g_log r)
     }
     else Some (EFI_UNSUPPORTED, gl, GptImage, log)
   }"

section \<open>What a valid header is\<close>

text \<open>
  The specification of \<open>ParseGptHeader\<close>: the header at \<open>h\<close> is signed, its size lies between 92
  and one block, its CRC (taken with the CRC field cleared) matches, a primary header sits at
  block 1, the usable range lies on the device, and the entry array fits the supported size.
\<close>

definition gpt_header_ok :: "io_env \<Rightarrow> bool \<Rightarrow> bytes \<Rightarrow> nat \<Rightarrow> u64 \<Rightarrow> u32 \<Rightarrow> GptHeaderData \<Rightarrow> bool" where
  "gpt_header_ok env secondary Gpt h density BlkSz H \<longleftrightarrow>
     get32 Gpt h = Some GPT_SIGNATURE_2 \<and> get32 Gpt (h + 4) = Some GPT_SIGNATURE_1 \<and>
     get32 Gpt (h + HEADER_SIZE_OFFSET) = Some (HeaderSz H) \<and>
     GPT_HEADER_SIZE \<le> HeaderSz H \<and> HeaderSz H \<le> BlkSz \<and>
     (case get32 Gpt (h + HEADER_CRC_OFFSET) of None \<Rightarrow> False | Some crc \<Rightarrow>
        crc_range env (splice (h + HEADER_CRC_OFFSET) (PUT_LONG 0) Gpt) h (unat (HeaderSz H)) =
          Some (EFI_SUCCESS, crc)) \<and>
     get64 Gpt (h + FIRST_USABLE_LBA_OFFSET) = Some (FirstUsableLba H) \<and>
     get32 Gpt (h + PARTITION_COUNT_OFFSET) = Some (MaxPtCnt H) \<and>
     get32 Gpt (h + PENTRY_SIZE_OFFSET) = Some (PartEntrySz H) \<and>
     get64 Gpt (h + LAST_USABLE_LBA_OFFSET) = Some (LastUsableLba H) \<and>
     (secondary \<or> (case get64 Gpt (h + PRIMARY_HEADER_OFFSET) of None \<Rightarrow> False
        | Some cur \<Rightarrow> (ucast cur :: u32) = GPT_LBA)) \<and>
     FirstUsableLba H \<le> density div ucast BlkSz \<and> LastUsableLba H \<le> density div ucast BlkSz \<and>
     PartEntrySz H = GPT_PART_ENTRY_SIZE \<and> MaxPtCnt H \<le> 128"

lemma get32_some: "i + 4 \<le> length b \<Longrightarrow> \<exists>v. get32 b i = Some v"
  by (rule f32.get_in)

lemma get64_some: "i + 8 \<le> length b \<Longrightarrow> \<exists>v. get64 b i = Some v"
  by (rule f64.get_in)

text \<open>The fields of a header that lies inside the buffer.\<close>

lemma header_fields:
  assumes "h + 512 \<le> length Gpt"
  obtains s2 s1 hsz crc cur first cnt esz fin where
    "get32 Gpt h = Some s2" "get32 Gpt (h + 4) = Some s1"
    "get32 Gpt (h + HEADER_SIZE_OFFSET) = Some hsz" "get32 Gpt (h + HEADER_CRC_OFFSET) = Some crc"
    "get64 Gpt (h + PRIMARY_HEADER_OFFSET) = Some cur"
    "get64 Gpt (h + FIRST_USABLE_LBA_OFFSET) = Some first"
    "get32 Gpt (h + PARTITION_COUNT_OFFSET) = Some cnt"
    "get32 Gpt (h + PENTRY_SIZE_OFFSET) = Some esz"
    "get64 Gpt (h + LAST_USABLE_LBA_OFFSET) = Some fin"
  using assms get32_some [of h Gpt] get32_some [of "h + 4" Gpt] get32_some [of "h + 12" Gpt]
    get32_some [of "h + 16" Gpt] get64_some [of "h + 24" Gpt] get64_some [of "h + 40" Gpt]
    get32_some [of "h + 80" Gpt] get32_some [of "h + 84" Gpt] get64_some [of "h + 48" Gpt]
  by auto

lemma ParseGptHeader_spec:
  assumes "h + unat BlkSz \<le> length Gpt" "512 \<le> unat BlkSz"
  shows "\<exists>ret H Gpt'. ParseGptHeader env sec H0 Gpt h density BlkSz = Some (ret, H, Gpt') \<and>
    length Gpt' = length Gpt \<and>
    (ret = SUCCESS \<longrightarrow> Gpt' = Gpt \<and> gpt_header_ok env sec Gpt h density BlkSz H) \<and>
    (ret \<noteq> SUCCESS \<longrightarrow> (\<forall>H. \<not> gpt_header_ok env sec Gpt h density BlkSz H))"
proof -
  have h: "h + 512 \<le> length Gpt" using assms by simp
  then obtain s2 s1 hsz crc cur first cnt esz fin where
    f: "get32 Gpt h = Some s2" "get32 Gpt (h + 4) = Some s1"
    "get32 Gpt (h + 12) = Some hsz" "get32 Gpt (h + 16) = Some crc"
    "get64 Gpt (h + 24) = Some cur" "get64 Gpt (h + 40) = Some first"
    "get32 Gpt (h + 80) = Some cnt" "get32 Gpt (h + 84) = Some esz"
    "get64 Gpt (h + 48) = Some fin" by (rule header_fields)
  have B0: "BlkSz \<noteq> 0" using assms(2) by auto
  define Gpt1 where "Gpt1 = splice (h + 16) (PUT_LONG 0) Gpt"
  have p1: "put32 Gpt (h + 16) 0 = Some Gpt1" using h by (simp add: Gpt1_def f32.put_in)
  have l1: "length Gpt1 = length Gpt" using h by (simp add: Gpt1_def)
  have p2: "put32 Gpt1 (h + 16) crc = Some Gpt" using f32.put_restores [OF f(4) p1] .
  obtain st cv where c: "calc_crc32 env (slice h (unat hsz) Gpt1) = (st, cv)" by fastforce
  have rng: "hsz \<le> BlkSz \<Longrightarrow> crc_range env Gpt1 h (unat hsz) = Some (st, cv)"
    using assms by (simp add: crc_range_def l1 word_le_nat_alt c)
  show ?thesis
  proof (cases "s2 = GPT_SIGNATURE_2 \<and> s1 = GPT_SIGNATURE_1 \<and> GPT_HEADER_SIZE \<le> hsz \<and> hsz \<le> BlkSz \<and>
      st = EFI_SUCCESS \<and> cv = crc")
    case True
    then show ?thesis
      using B0 by (auto simp: ParseGptHeader_def f p1 p2 rng gpt_header_ok_def Let_def not_less not_le
        simp flip: Gpt1_def)
  next
    case False
    then have "\<not> gpt_header_ok env sec Gpt h density BlkSz H" for H
      using rng by (auto simp: gpt_header_ok_def f simp flip: Gpt1_def)
    with False show ?thesis
      by (auto simp: ParseGptHeader_def f p1 rng l1 Let_def not_less not_le simp flip: Gpt1_def)
  qed
qed

section \<open>What patching does\<close>

lemma put64_step:
  assumes "i + 8 \<le> length b"
  obtains b' where "put64 b i v = Some b'" "frame [(i, 8)] b b'" "get64 b' i = Some v" "length b' = length b"
  using f64.put_in [OF assms] f64.put_frame f64.get_put_same f64.put_length by meson

lemma put32_step:
  assumes "i + 4 \<le> length b"
  obtains b' where "put32 b i v = Some b'" "frame [(i, 4)] b b'" "get32 b' i = Some v" "length b' = length b"
  using f32.put_in [OF assms] f32.put_frame f32.get_put_same f32.put_length by meson

lemma patch_headers_spec:
  assumes "P + 56 \<le> S" "S + 80 \<le> length Gpt"
  obtains G where "patch_headers Gpt P S ns pb = Some G"
    "frame [(P + 32, 8), (P + 48, 8), (S + 24, 8), (S + 48, 8), (S + 72, 8)] Gpt G"
    "get64 G (P + BACKUP_HEADER_OFFSET) = Some (ns - 1)"
    "get64 G (P + LAST_USABLE_LBA_OFFSET) = Some (ns - ucast (pb + 1))"
    "get64 G (S + PRIMARY_HEADER_OFFSET) = Some 1"
    "get64 G (S + LAST_USABLE_LBA_OFFSET) = Some (ns - ucast (pb + 1))"
    "get64 G (S + PARTITION_ENTRIES_OFFSET) = Some (ns - ucast pb)"
proof -
  obtain G1 where 1: "put64 Gpt (P + 32) (ns - 1) = Some G1" "frame [(P + 32, 8)] Gpt G1"
    "get64 G1 (P + 32) = Some (ns - 1)" "length G1 = length Gpt"
    by (rule put64_step [of "P + 32" Gpt "ns - 1"]) (use assms in auto)
  obtain G2 where 2: "put64 G1 (P + 48) (ns - ucast (pb + 1)) = Some G2" "frame [(P + 48, 8)] G1 G2"
    "get64 G2 (P + 48) = Some (ns - ucast (pb + 1))" "length G2 = length Gpt"
    by (rule put64_step [of "P + 48" G1 "ns - ucast (pb + 1)"]) (use assms 1 in auto)
  obtain G3 where 3: "put64 G2 (S + 24) 1 = Some G3" "frame [(S + 24, 8)] G2 G3"
    "get64 G3 (S + 24) = Some 1" "length G3 = length Gpt"
    by (rule put64_step [of "S + 24" G2 1]) (use assms 2 in auto)
  obtain G4 where 4: "put64 G3 (S + 48) (ns - ucast (pb + 1)) = Some G4" "frame [(S + 48, 8)] G3 G4"
    "get64 G4 (S + 48) = Some (ns - ucast (pb + 1))" "length G4 = length Gpt"
    by (rule put64_step [of "S + 48" G3 "ns - ucast (pb + 1)"]) (use assms 3 in auto)
  obtain G5 where 5: "put64 G4 (S + 72) (ns - ucast pb) = Some G5" "frame [(S + 72, 8)] G4 G5"
    "get64 G5 (S + 72) = Some (ns - ucast pb)" "length G5 = length Gpt"
    by (rule put64_step [of "S + 72" G4 "ns - ucast pb"]) (use assms 4 in auto)
  note f45 = 5(2) and f35 = frame_trans [OF 4(2) 5(2)]
  note f25 = frame_trans [OF 3(2) f35]
  note f15 = frame_trans [OF 2(2) f25]
  show thesis
  proof (rule that [of G5])
    show "patch_headers Gpt P S ns pb = Some G5"
      by (simp add: patch_headers_def 1(1) 2(1) 3(1) 4(1) 5(1))
    show "frame [(P + 32, 8), (P + 48, 8), (S + 24, 8), (S + 48, 8), (S + 72, 8)] Gpt G5"
      using frame_trans [OF 1(2) f15] by simp
  qed (use assms 1 2 3 4 5 f64.get_frame [OF f45] f64.get_frame [OF f35] f64.get_frame [OF f25]
        f64.get_frame [OF f15] in auto)
qed

definition entry_used :: "bytes \<Rightarrow> nat \<Rightarrow> bool" where
  "entry_used Gpt e \<longleftrightarrow> get64 Gpt e \<noteq> Some 0 \<or> get64 Gpt (e + 8) \<noteq> Some 0"

lemma count_entries_spec:
  "unat T + n \<le> 128 \<Longrightarrow> E + 128 * (unat T + n) \<le> length G \<Longrightarrow>
   \<exists>c. count_entries G E T n = Some c \<and> unat T \<le> unat c \<and> unat c \<le> unat T + n \<and>
     (0 < n \<longrightarrow> entry_used G (E + 128 * unat T) \<longrightarrow> unat T < unat c)"
proof (induction n arbitrary: T)
  case (Suc n)
  have T: "unat (T * 128) = 128 * unat T" using Suc.prems(1) by (simp add: unat_mult_bound)
  have T1: "unat (T + 1) = unat T + 1" using Suc.prems(1) by (subst unat_plus_bound) auto
  obtain e0 where e0: "get64 G (E + 128 * unat T) = Some e0"
    using get64_some [of "E + 128 * unat T" G] Suc.prems by auto
  obtain e1 where e1: "get64 G (E + 128 * unat T + 8) = Some e1"
    using get64_some [of "E + 128 * unat T + 8" G] Suc.prems by auto
  have step: "count_entries G E T (Suc n) =
      (if e0 \<noteq> 0 \<or> e1 \<noteq> 0 then count_entries G E (T + 1) n else Some T)"
    by (simp add: T e0 e1)
  obtain c where "count_entries G E (T + 1) n = Some c" "unat T < unat c" "unat c \<le> unat T + Suc n"
    using Suc.IH [of "T + 1"] Suc.prems T1 by auto
  then show ?case using step e0 e1 by (auto simp: entry_used_def)
qed simp

lemma patch_last_entry_spec:
  assumes M: "0 < unat M" "unat M \<le> 128" and len: "E + 0x8000 \<le> length G" and used: "entry_used G E"
  obtains G' c where "patch_last_entry G E M 0x4000 v = Some G'" "frame [(E, 0x8000)] G G'"
    "length G' = length G" "c < unat M" "get64 G' (E + c * 128 + 40) = Some v"
    "get64 G' (E + 0x4000 + c * 128 + 40) = Some v"
proof -
  obtain t where t: "count_entries G E 0 (unat M) = Some t" "0 < unat t" "unat t \<le> unat M"
    using count_entries_spec [of 0 "unat M" E G] M len used by auto
  define off :: u32 where "off = (t - 1) * 128 + 40"
  have t1: "unat (t - 1) = unat t - 1" using t(2) by (subst unat_minus_bound) (auto simp: word_le_nat_alt)
  have "unat ((t - 1) * 128) = (unat t - 1) * 128"
    using t M by (subst unat_mult_bound) (auto simp: t1)
  then have off: "unat off = (unat t - 1) * 128 + 40"
    unfolding off_def using t M by (subst unat_plus_bound) auto
  obtain G1 where 1: "put64 G (E + unat off) v = Some G1" "frame [(E + unat off, 8)] G G1"
    "get64 G1 (E + unat off) = Some v" "length G1 = length G"
    by (rule put64_step [of "E + unat off" G v]) (use off t M len in auto)
  obtain G2 where 2: "put64 G1 (E + unat off + 0x4000) v = Some G2"
    "frame [(E + unat off + 0x4000, 8)] G1 G2" "get64 G2 (E + unat off + 0x4000) = Some v"
    "length G2 = length G"
    by (rule put64_step [of "E + unat off + 0x4000" G1 v]) (use off t M len 1 in auto)
  show thesis
  proof (rule that [of G2 "unat t - 1"])
    show "patch_last_entry G E M 0x4000 v = Some G2"
      using 1(1) 2(1) t(1) by (simp add: patch_last_entry_def Let_def off_def)
    show "frame [(E, 0x8000)] G G2"
      by (rule frame_widen [OF frame_trans [OF 1(2) 2(2)]]) (use off t M in auto)
    show "get64 G2 (E + (unat t - 1) * 128 + 40) = Some v"
      using f64.get_frame [OF 2(2), of "E + unat off"] 1(3) by (simp add: off add.assoc)
    show "get64 G2 (E + 0x4000 + (unat t - 1) * 128 + 40) = Some v"
      using 2(3) by (simp add: off algebra_simps)
  qed (use 2(4) t in auto)
qed

lemma patch_crc_spec:
  assumes "from + n \<le> length G" "field + 4 \<le> length G"
  obtains ok G' where "patch_crc env G from n field = Some (ok, G')" "frame [(field, 4)] G G'"
    "length G' = length G"
    "ok \<Longrightarrow> \<exists>crc. calc_crc32 env (slice from n G) = (EFI_SUCCESS, crc) \<and> get32 G' field = Some crc \<and>
       put32 G field crc = Some G'"
proof -
  obtain st crc where c: "calc_crc32 env (slice from n G) = (st, crc)" by fastforce
  obtain G1 where 1: "put32 G field crc = Some G1" "frame [(field, 4)] G G1"
    "get32 G1 field = Some crc" "length G1 = length G"
    by (rule put32_step [of field G crc]) (use assms in auto)
  show thesis
    using that [of False G] that [of True G1] assms(1) c 1
    by (cases "st = EFI_SUCCESS") (auto simp: patch_crc_def crc_range_def)
qed

text \<open>A header whose CRC field holds the CRC of its first 92 bytes taken with the field cleared.\<close>

definition crc_ok :: "io_env \<Rightarrow> bytes \<Rightarrow> nat \<Rightarrow> bool" where
  "crc_ok env G h \<longleftrightarrow> h + 92 \<le> length G \<and>
     (\<exists>crc. get32 G (h + 16) = Some crc \<and>
        calc_crc32 env (slice h 92 (splice (h + 16) (PUT_LONG 0) G)) = (EFI_SUCCESS, crc))"

lemma crc_ok_frame:
  assumes "frame R G G'" "clear_of h 92 R"
  shows "crc_ok env G' h \<longleftrightarrow> crc_ok env G h"
proof -
  have "clear_of (h + 16) 4 R" using assms(2) by (fastforce simp: clear_of_def)
  then have "get32 G' (h + 16) = get32 G (h + 16)" using f32.get_frame [OF assms(1)] by simp
  moreover have "slice h 92 (splice (h + 16) (PUT_LONG 0) G') = slice h 92 (splice (h + 16) (PUT_LONG 0) G)"
    if "h + 92 \<le> length G"
    using that assms frame_length [OF assms(1)] frame_slice [OF assms]
    by (simp add: slice_splice_inside)
  ultimately show ?thesis using frame_length [OF assms(1)] by (auto simp: crc_ok_def)
qed

lemma header_crc_spec:
  assumes "h + 92 \<le> length G"
  obtains G1 ok G2 where "put32 G (h + 16) 0 = Some G1" "length G1 = length G"
    "patch_crc env G1 h 92 (h + 16) = Some (ok, G2)" "frame [(h + 16, 4)] G G2" "length G2 = length G"
    "ok \<Longrightarrow> crc_ok env G2 h"
proof -
  obtain G1 where 1: "put32 G (h + 16) 0 = Some G1" "frame [(h + 16, 4)] G G1" "length G1 = length G"
    by (rule put32_step [of "h + 16" G 0]) (use assms in auto)
  obtain ok G2 where 2: "patch_crc env G1 h 92 (h + 16) = Some (ok, G2)" "frame [(h + 16, 4)] G1 G2"
    "length G2 = length G1" "ok \<Longrightarrow> \<exists>crc. calc_crc32 env (slice h 92 G1) = (EFI_SUCCESS, crc) \<and>
       get32 G2 (h + 16) = Some crc \<and> put32 G1 (h + 16) crc = Some G2"
    by (rule patch_crc_spec [of h 92 G1 "h + 16" env]) (use assms 1 in auto)
  have G1: "G1 = splice (h + 16) (PUT_LONG 0) G" using 1(1) assms by (simp add: f32.put_in)
  have "crc_ok env G2 h" if o: ok
  proof -
    obtain crc where crc: "calc_crc32 env (slice h 92 G1) = (EFI_SUCCESS, crc)"
      "get32 G2 (h + 16) = Some crc" "put32 G1 (h + 16) crc = Some G2" using 2(4) [OF o] by blast
    have "G2 = splice (h + 16) (PUT_LONG crc) G1" using crc(3) assms 1(3) by (simp add: f32.put_in)
    then have "splice (h + 16) (PUT_LONG 0) G2 = G1"
      using assms by (simp add: G1 splice_twice)
    then show ?thesis using crc assms 1 2 by (auto simp: crc_ok_def)
  qed
  moreover have "frame [(h + 16, 4)] G G2"
    by (rule frame_widen [OF frame_trans [OF 1(2) 2(2)]]) auto
  ultimately show thesis using that 1 2 by auto
qed

text \<open>The geometry under which the image is patched: a block size between 512 bytes and 1 MiB, the
  16 KiB entry arrays, at least one partition entry, and a buffer that holds both headers and
  both arrays.\<close>

definition patchable :: "u32 \<Rightarrow> GptHeaderData \<Rightarrow> bytes \<Rightarrow> bool" where
  "patchable BlkSz H Gpt \<longleftrightarrow>
     512 \<le> unat BlkSz \<and> unat BlkSz \<le> 0x100000 \<and> PartEntrySz H = GPT_PART_ENTRY_SIZE \<and>
     0 < unat (MaxPtCnt H) \<and> unat (MaxPtCnt H) \<le> 128 \<and>
     0x8000 + 3 * unat BlkSz \<le> length Gpt \<and> entry_used Gpt (2 * unat BlkSz)"

text \<open>The places \<open>PatchGpt\<close> writes: CRC, LBA and array fields of both headers and the arrays.\<close>

definition gpt_touched :: "nat \<Rightarrow> (nat \<times> nat) list" where
  "gpt_touched B = (let S = 0x8000 + 2 * B in
     [(B + 16, 4), (B + 32, 8), (B + 48, 8), (B + 88, 4), (2 * B, 0x8000),
      (S + 16, 4), (S + 24, 8), (S + 48, 8), (S + 72, 8), (S + 88, 4)])"

text \<open>The image after a successful patch: geometry fields for a device of \<open>ns\<close> sectors, CRCs of
  the arrays and of both headers.\<close>

definition gpt_patched :: "io_env \<Rightarrow> u64 \<Rightarrow> u32 \<Rightarrow> nat \<Rightarrow> nat \<Rightarrow> bytes \<Rightarrow> bool" where
  "gpt_patched env ns pb B n G \<longleftrightarrow> (let S = 0x8000 + 2 * B in
     get64 G (B + BACKUP_HEADER_OFFSET) = Some (ns - 1) \<and>
     get64 G (B + LAST_USABLE_LBA_OFFSET) = Some (ns - ucast (pb + 1)) \<and>
     get64 G (S + PRIMARY_HEADER_OFFSET) = Some 1 \<and>
     get64 G (S + LAST_USABLE_LBA_OFFSET) = Some (ns - ucast (pb + 1)) \<and>
     get64 G (S + PARTITION_ENTRIES_OFFSET) = Some (ns - ucast pb) \<and>
     (\<exists>crc. get32 G (B + PARTITION_CRC_OFFSET) = Some crc \<and>
        calc_crc32 env (slice (2 * B) n G) = (EFI_SUCCESS, crc)) \<and>
     (\<exists>crc. get32 G (S + PARTITION_CRC_OFFSET) = Some crc \<and>
        calc_crc32 env (slice (2 * B + 0x4000) n G) = (EFI_SUCCESS, crc)) \<and>
     crc_ok env G B \<and> crc_ok env G S)"

lemma PatchGpt_spec:
  assumes p: "patchable BlkSz H Gpt"
  obtains ret G where "PatchGpt env Gpt density 0x4000 H BlkSz = Some (ret, G)"
    "length G = length Gpt" "frame (gpt_touched (unat BlkSz)) Gpt G"
    "ret = SUCCESS \<Longrightarrow> gpt_patched env (density div ucast BlkSz) (0x4000 div BlkSz + 1) (unat BlkSz)
       (unat (MaxPtCnt H) * 128) G"
proof -
  let ?B = "unat BlkSz" and ?S = "0x8000 + 2 * unat BlkSz" and ?n = "unat (MaxPtCnt H) * 128"
  let ?ns = "density div ucast BlkSz" and ?pb = "0x4000 div BlkSz + 1 :: u32"
  have B: "512 \<le> ?B" "?B \<le> 0x100000" "BlkSz \<noteq> 0" and len: "0x8000 + 3 * ?B \<le> length Gpt"
    and M: "0 < unat (MaxPtCnt H)" "unat (MaxPtCnt H) \<le> 128" and esz: "PartEntrySz H = 128"
    using p by (auto simp: patchable_def)
  have h1: "?B + 56 \<le> ?S" and h2: "?S + 80 \<le> length Gpt" using B len by auto
  have S: "unat (0x8000 + BlkSz) + ?B = ?S" using B by (subst unat_plus_bound) auto
  have n: "unat (MaxPtCnt H * 128) = ?n" using M by (subst unat_mult_bound) auto
  obtain G1 where 1: "patch_headers Gpt ?B ?S ?ns ?pb = Some G1"
    "frame [(?B + 32, 8), (?B + 48, 8), (?S + 24, 8), (?S + 48, 8), (?S + 72, 8)] Gpt G1"
    "get64 G1 (?B + 32) = Some (?ns - 1)" "get64 G1 (?B + 48) = Some (?ns - ucast (?pb + 1))"
    "get64 G1 (?S + 24) = Some 1" "get64 G1 (?S + 48) = Some (?ns - ucast (?pb + 1))"
    "get64 G1 (?S + 72) = Some (?ns - ucast ?pb)"
    by (rule patch_headers_spec [of ?B ?S Gpt ?ns ?pb, OF h1 h2])
  have used: "entry_used G1 (2 * ?B)"
    using p f64.get_frame [OF 1(2), of "2 * ?B"] f64.get_frame [OF 1(2), of "2 * ?B + 8"] B
    by (simp add: patchable_def entry_used_def)
  have e1: "2 * ?B + 0x8000 \<le> length G1" using B len frame_length [OF 1(2)] by auto
  obtain G2 c where 2: "patch_last_entry G1 (2 * ?B) (MaxPtCnt H) 0x4000 (?ns - ucast (?pb + 1)) = Some G2"
    "frame [(2 * ?B, 0x8000)] G1 G2" "length G2 = length G1"
    by (rule patch_last_entry_spec [OF M e1 used])
  have l2: "length G2 = length Gpt" using 2(3) frame_length [OF 1(2)] by simp
  have c3: "2 * ?B + ?n \<le> length G2" "?B + 88 + 4 \<le> length G2" using B M len l2 by auto
  obtain ok3 G3 where 3: "patch_crc env G2 (2 * ?B) ?n (?B + 88) = Some (ok3, G3)"
    "frame [(?B + 88, 4)] G2 G3" "length G3 = length G2"
    "ok3 \<Longrightarrow> \<exists>crc. calc_crc32 env (slice (2 * ?B) ?n G2) = (EFI_SUCCESS, crc) \<and>
       get32 G3 (?B + 88) = Some crc \<and> put32 G2 (?B + 88) crc = Some G3"
    by (rule patch_crc_spec [OF c3, of env]) blast
  have c4: "2 * ?B + 0x4000 + ?n \<le> length G3" "?S + 88 + 4 \<le> length G3" using B M len l2 3(3) by auto
  obtain ok4 G4 where 4: "patch_crc env G3 (2 * ?B + 0x4000) ?n (?S + 88) = Some (ok4, G4)"
    "frame [(?S + 88, 4)] G3 G4" "length G4 = length G3"
    "ok4 \<Longrightarrow> \<exists>crc. calc_crc32 env (slice (2 * ?B + 0x4000) ?n G3) = (EFI_SUCCESS, crc) \<and>
       get32 G4 (?S + 88) = Some crc \<and> put32 G3 (?S + 88) crc = Some G4"
    by (rule patch_crc_spec [OF c4, of env]) blast
  have l4: "length G4 = length Gpt" using 3(3) 4(3) l2 by simp
  have c6: "?B + 92 \<le> length G4" and c8: "?S + 92 \<le> length G4" using B len l4 by auto
  obtain G5 ok6 G6 where 6: "put32 G4 (?B + 16) 0 = Some G5" "length G5 = length G4"
    "patch_crc env G5 ?B 92 (?B + 16) = Some (ok6, G6)" "frame [(?B + 16, 4)] G4 G6"
    "length G6 = length G4" "ok6 \<Longrightarrow> crc_ok env G6 ?B"
    by (rule header_crc_spec [OF c6, of env]) blast
  have c8': "?S + 92 \<le> length G6" using c8 6(5) by simp
  obtain G7 ok8 G8 where 8: "put32 G6 (?S + 16) 0 = Some G7" "length G7 = length G6"
    "patch_crc env G7 ?S 92 (?S + 16) = Some (ok8, G8)" "frame [(?S + 16, 4)] G6 G8"
    "length G8 = length G6" "ok8 \<Longrightarrow> crc_ok env G8 ?S"
    by (rule header_crc_spec [OF c8', of env]) blast
  note f68 = 8(4) and f48 = frame_trans [OF 6(4) 8(4)]
  note f38 = frame_trans [OF 4(2) f48]
  note f28 = frame_trans [OF 3(2) f38]
  note f18 = frame_trans [OF 2(2) f28]
  note g2 = frame_trans [OF 1(2) 2(2)]
  note g3 = frame_trans [OF g2 3(2)]
  note g4 = frame_trans [OF g3 4(2)]
  note g6 = frame_trans [OF g4 6(4)]
  note g8 = frame_trans [OF g6 8(4)]
  have touched: "frame (gpt_touched ?B) Gpt G3" "frame (gpt_touched ?B) Gpt G4"
    "frame (gpt_touched ?B) Gpt G6" "frame (gpt_touched ?B) Gpt G8"
    by (rule frame_covered [OF g3] frame_covered [OF g4] frame_covered [OF g6] frame_covered [OF g8],
        simp add: gpt_touched_def covered_def Let_def)+
  have patched: "gpt_patched env ?ns ?pb ?B ?n G8" if ok: "ok3" "ok4" "ok6" "ok8"
  proof -
    obtain crc where a: "calc_crc32 env (slice (2 * ?B) ?n G2) = (EFI_SUCCESS, crc)"
      "get32 G3 (?B + 88) = Some crc" using 3(4) [OF ok(1)] by blast
    obtain crc' where b: "calc_crc32 env (slice (2 * ?B + 0x4000) ?n G3) = (EFI_SUCCESS, crc')"
      "get32 G4 (?S + 88) = Some crc'" using 4(4) [OF ok(2)] by blast
    have "slice (2 * ?B) ?n G8 = slice (2 * ?B) ?n G2"
      "slice (2 * ?B + 0x4000) ?n G8 = slice (2 * ?B + 0x4000) ?n G3"
      by (rule frame_slice [OF f28] frame_slice [OF f38], use B M in simp)+
    moreover have "get32 G8 (?B + 88) = get32 G3 (?B + 88)" "get32 G8 (?S + 88) = get32 G4 (?S + 88)"
      by (rule f32.get_frame [OF f38] f32.get_frame [OF f48], use B in simp)+
    moreover have "get64 G8 (?B + 32) = get64 G1 (?B + 32)" "get64 G8 (?B + 48) = get64 G1 (?B + 48)"
      "get64 G8 (?S + 24) = get64 G1 (?S + 24)" "get64 G8 (?S + 48) = get64 G1 (?S + 48)"
      "get64 G8 (?S + 72) = get64 G1 (?S + 72)"
      by (rule f64.get_frame [OF f18], use B in simp)+
    moreover have "crc_ok env G8 ?B" "crc_ok env G8 ?S"
      using crc_ok_frame [OF f68, of ?B env] 6(6) [OF ok(3)] 8(6) [OF ok(4)] B by simp_all
    ultimately show ?thesis
      using a b 1(3-7) unfolding gpt_patched_def Let_def by auto
  qed
  let ?ret = "if ok3 \<and> ok4 \<and> ok6 \<and> ok8 then SUCCESS else FAILURE"
  let ?G = "if \<not> ok3 then G3 else if \<not> ok4 then G4 else if \<not> ok6 then G6 else G8"
  show thesis
  proof (rule that [of ?ret ?G])
    show "PatchGpt env Gpt density 0x4000 H BlkSz = Some (?ret, ?G)"
      using B(3) 1(1) 2(1) 3(1) 4(1) 6(1,3) 8(1,3) by (simp add: PatchGpt_def Let_def S n esz flip: mult_2)
    show "length ?G = length Gpt" using l2 3(3) 4(3) 6(5) 8(5) by simp
    show "frame (gpt_touched ?B) Gpt ?G" using touched by simp
    show "gpt_patched env ?ns ?pb ?B ?n ?G" if "?ret = SUCCESS"
      using that patched by (auto split: if_splits)
  qed
qed

section \<open>Properties of parsing and patching\<close>

lemma gpt_header_ok_unique:
  "gpt_header_ok env sec G h d B H \<Longrightarrow> gpt_header_ok env sec' G h d B H' \<Longrightarrow> H = H'"
  by (auto simp: gpt_header_ok_def)

text \<open>C5. On a header that lies in the buffer \<open>ParseGptHeader\<close> never leaves it, and it succeeds
  exactly on the valid headers, with their fields and with the buffer as it was (the cleared CRC
  field is restored).\<close>

theorem ParseGptHeader_validates:
  assumes "h + unat BlkSz \<le> length Gpt" "512 \<le> unat BlkSz"
  shows "ParseGptHeader env sec H0 Gpt h density BlkSz \<noteq> None \<and>
    (\<forall>H Gpt'. ParseGptHeader env sec H0 Gpt h density BlkSz = Some (SUCCESS, H, Gpt') \<longleftrightarrow>
       gpt_header_ok env sec Gpt h density BlkSz H \<and> Gpt' = Gpt)"
  using ParseGptHeader_spec [OF assms, of env sec H0 density]
  by (auto dest: gpt_header_ok_unique)

text \<open>The header fields \<open>PatchGpt\<close> does not touch.\<close>

lemma touched_fields:
  assumes "frame (gpt_touched B) Gpt G" "512 \<le> B" "h = B \<or> h = 0x8000 + 2 * B"
  shows "get32 G h = get32 Gpt h" "get32 G (h + 4) = get32 Gpt (h + 4)"
    "get32 G (h + HEADER_SIZE_OFFSET) = get32 Gpt (h + HEADER_SIZE_OFFSET)"
    "get64 G (h + FIRST_USABLE_LBA_OFFSET) = get64 Gpt (h + FIRST_USABLE_LBA_OFFSET)"
    "get32 G (h + PARTITION_COUNT_OFFSET) = get32 Gpt (h + PARTITION_COUNT_OFFSET)"
    "get32 G (h + PENTRY_SIZE_OFFSET) = get32 Gpt (h + PENTRY_SIZE_OFFSET)"
    "h = B \<Longrightarrow> get64 G (h + PRIMARY_HEADER_OFFSET) = get64 Gpt (h + PRIMARY_HEADER_OFFSET)"
    "h = B \<Longrightarrow> get64 G (h + PARTITION_ENTRIES_OFFSET) = get64 Gpt (h + PARTITION_ENTRIES_OFFSET)"
  using assms(2,3)
  by (auto intro!: f32.get_frame [OF assms(1)] f64.get_frame [OF assms(1)] simp: gpt_touched_def Let_def)

lemma gpt_header_ok_patched:
  assumes ok: "gpt_header_ok env sec Gpt h density BlkSz H" and hsz: "HeaderSz H = GPT_HEADER_SIZE"
    and f: "frame (gpt_touched (unat BlkSz)) Gpt G" and B: "512 \<le> unat BlkSz"
    and h: "h = unat BlkSz \<or> h = 0x8000 + 2 * unat BlkSz \<and> sec"
    and crc: "crc_ok env G h" and fin: "get64 G (h + LAST_USABLE_LBA_OFFSET) = Some l"
    and l: "l \<le> density div ucast BlkSz"
  shows "gpt_header_ok env sec G h density BlkSz (H\<lparr>LastUsableLba := l\<rparr>)"
proof -
  have h': "h = unat BlkSz \<or> h = 0x8000 + 2 * unat BlkSz" using h by auto
  note t = touched_fields [OF f B h']
  obtain c where "get32 G (h + 16) = Some c" "h + 92 \<le> length G"
    "crc_range env (splice (h + 16) (PUT_LONG 0) G) h 92 = Some (EFI_SUCCESS, c)"
    using crc by (auto simp: crc_ok_def crc_range_def)
  then show ?thesis
    using ok t(1-6) t(7) h fin l hsz by (auto simp: gpt_header_ok_def)
qed

text \<open>C6. Patching keeps an image flashable: when \<open>PatchGpt\<close> succeeds on two valid 92-byte headers,
  both headers of the result are valid again, with the last usable block moved to the device.\<close>

theorem PatchGpt_revalidates:
  assumes p: "patchable BlkSz H' Gpt"
    and prim: "gpt_header_ok env sec Gpt (unat BlkSz) density BlkSz H"
    and snd: "gpt_header_ok env True Gpt (0x8000 + 2 * unat BlkSz) density BlkSz H'"
    and hsz: "HeaderSz H = GPT_HEADER_SIZE" "HeaderSz H' = GPT_HEADER_SIZE"
    and room: "ucast (0x4000 div BlkSz + 2 :: u32) \<le> density div ucast BlkSz"
    and run: "PatchGpt env Gpt density 0x4000 H' BlkSz = Some (SUCCESS, G)"
  shows "gpt_header_ok env sec G (unat BlkSz) density BlkSz
      (H\<lparr>LastUsableLba := density div ucast BlkSz - ucast (0x4000 div BlkSz + 2 :: u32)\<rparr>) \<and>
    gpt_header_ok env True G (0x8000 + 2 * unat BlkSz) density BlkSz
      (H'\<lparr>LastUsableLba := density div ucast BlkSz - ucast (0x4000 div BlkSz + 2 :: u32)\<rparr>)"
proof -
  have B: "512 \<le> unat BlkSz" using p by (simp add: patchable_def)
  obtain ret G0 where "PatchGpt env Gpt density 0x4000 H' BlkSz = Some (ret, G0)"
    "length G0 = length Gpt" "frame (gpt_touched (unat BlkSz)) Gpt G0"
    "ret = SUCCESS \<Longrightarrow> gpt_patched env (density div ucast BlkSz) (0x4000 div BlkSz + 1) (unat BlkSz)
       (unat (MaxPtCnt H') * 128) G0"
    by (rule PatchGpt_spec [OF p, of env density]) blast
  then have f: "frame (gpt_touched (unat BlkSz)) Gpt G"
    and g: "gpt_patched env (density div ucast BlkSz) (0x4000 div BlkSz + 1) (unat BlkSz)
       (unat (MaxPtCnt H') * 128) G" using run by auto
  have le: "density div ucast BlkSz - ucast (0x4000 div BlkSz + 2 :: u32) \<le> density div ucast BlkSz"
    using room by (simp add: word_le_nat_alt unat_minus_bound)
  have two: "0x4000 div BlkSz + 1 + 1 = (0x4000 div BlkSz + 2 :: u32)" by simp
  show ?thesis
    using g unfolding gpt_patched_def Let_def two
    by (intro conjI gpt_header_ok_patched [OF prim hsz(1) f B _ _ _ le]
        gpt_header_ok_patched [OF snd hsz(2) f B _ _ _ le]) auto
qed

text \<open>An entry array without a used entry makes \<open>PatchGpt\<close> write outside the image: the index
  of the last entry wraps to the top of the 32-bit range.\<close>

theorem PatchGpt_empty_table_overruns:
  assumes B: "512 \<le> unat BlkSz" "unat BlkSz \<le> 0x100000"
    and len: "0x8000 + 3 * unat BlkSz \<le> length Gpt" "length Gpt < 2 ^ 32 - 88"
    and empty: "\<not> entry_used Gpt (2 * unat BlkSz)"
  shows "PatchGpt env Gpt density 0x4000 H BlkSz = None"
proof -
  let ?B = "unat BlkSz" and ?S = "0x8000 + 2 * unat BlkSz"
  let ?ns = "density div ucast BlkSz" and ?pb = "0x4000 div BlkSz + 1 :: u32"
  have h: "?B + 56 \<le> ?S" "?S + 80 \<le> length Gpt" using B len by auto
  have S: "unat (0x8000 + BlkSz) + ?B = ?S" using B by (subst unat_plus_bound) auto
  have Bn: "BlkSz \<noteq> 0" using B by auto
  obtain G1 where 1: "patch_headers Gpt ?B ?S ?ns ?pb = Some G1"
    "frame [(?B + 32, 8), (?B + 48, 8), (?S + 24, 8), (?S + 48, 8), (?S + 72, 8)] Gpt G1"
    by (rule patch_headers_spec [OF h, of ?ns ?pb]) blast
  have "\<not> entry_used G1 (2 * ?B)"
    using empty f64.get_frame [OF 1(2), of "2 * ?B"] f64.get_frame [OF 1(2), of "2 * ?B + 8"] B
    by (simp add: entry_used_def)
  then have "count_entries G1 (2 * ?B) 0 (unat (MaxPtCnt H)) = Some 0"
    by (cases "unat (MaxPtCnt H)") (simp_all add: entry_used_def)
  moreover have "put64 G1 (2 * ?B + unat (4294967208 :: u32)) v = None" for v
    using len frame_length [OF 1(2)] by (simp add: f64.put_out)
  ultimately have "patch_last_entry G1 (2 * ?B) (MaxPtCnt H) 0x4000 v = None" for v
    by (simp add: patch_last_entry_def Let_def)
  then show ?thesis
    using 1(1) Bn by (simp add: PatchGpt_def Let_def S flip: mult_2)
qed

section \<open>Properties of writing\<close>

lemma write_seq_log:
  "write_seq env b G ws log = Some (ok, log') \<Longrightarrow> \<exists>rest. log' = log @ rest"
  by (induction env b G ws log rule: write_seq.induct)
    (force simp: issue_def Let_def split: if_splits)+

lemma write_seq_ok:
  "(\<forall>l op. op_status env l op = EFI_SUCCESS) \<Longrightarrow>
   (\<forall>(lba, off, n)\<in>set ws. off + n \<le> length G) \<Longrightarrow>
   write_seq env b G ws log =
     Some (True, log @ List.map (\<lambda>(lba, off, n). WriteBlocks (bio_id b) lba (slice off n G)) ws)"
  by (induction env b G ws log rule: write_seq.induct) (auto simp: issue_def Let_def)

lemma ErasePartition_log:
  "snd (ErasePartition env b log) = log \<or>
   snd (ErasePartition env b log) = log @ [EraseBlocks (bio_id b) 0 (GetPartitionSize (Some b))]"
  by (auto simp: ErasePartition_def issue_def Let_def)

lemma commit_gpt_log:
  assumes "commit_gpt env hi gl Sz Gpt d arr H log = Some r"
  shows "\<exists>rest. g_log r = log @ rest \<and>
    (rest \<noteq> [] \<longrightarrow> hd rest = EraseBlocks (bio_id (BlkIo hi)) 0 (GetPartitionSize (Some (BlkIo hi))))"
proof -
  obtain Ret G where p: "PatchGpt env Gpt d arr H (BlockSize (BlkIo hi)) = Some (Ret, G)"
    using assms by (auto simp: commit_gpt_def Let_def split: bind_splits)
  obtain st log1 where e: "ErasePartition env (BlkIo hi) log = (st, log1)" by fastforce
  show ?thesis
  proof (cases "Ret = SUCCESS \<and> st = EFI_SUCCESS")
    case False
    then show ?thesis
      using assms p e ErasePartition_log [of env "BlkIo hi" log]
      by (auto simp: commit_gpt_def Let_def split: if_splits)
  next
    case True
    then have l1: "log1 = log @ [EraseBlocks (bio_id (BlkIo hi)) 0 (GetPartitionSize (Some (BlkIo hi)))]"
      using e by (auto simp: ErasePartition_def issue_def Let_def split: if_splits)
    have "\<exists>rest. g_log r = log1 @ rest"
      using assms p e True
      by (auto simp: commit_gpt_def Let_def Option.bind_eq_Some_conv simp del: write_seq.simps
        split: if_splits dest!: write_seq_log)
    then show ?thesis using l1 by auto
  qed
qed

text \<open>The array size \<open>WriteGpt\<close> computes from a valid header is the minimum, 16 KiB.\<close>

lemma valid_array_size:
  assumes "gpt_header_ok env sec Gpt h d B H"
  shows "(if PartEntrySz H * MaxPtCnt H < MIN_PARTITION_ARRAY_SIZE then MIN_PARTITION_ARRAY_SIZE
          else PartEntrySz H * MaxPtCnt H) = 0x4000"
proof -
  have e: "PartEntrySz H = 128" and m: "unat (MaxPtCnt H) \<le> 128"
    using assms by (auto simp: gpt_header_ok_def word_le_nat_alt)
  then have "unat (128 * MaxPtCnt H) = 128 * unat (MaxPtCnt H)"
    by (subst unat_mult_bound) auto
  then have "128 * MaxPtCnt H \<le> 0x4000" using m by (simp add: word_le_nat_alt)
  then show ?thesis by (auto simp: e)
qed

text \<open>\<open>WriteGpt\<close> on a storage device that was found, reduced to its three stages.\<close>

definition gpt_storage :: "handle_db \<Rightarrow> int \<Rightarrow> HandleInfo \<Rightarrow> bool" where
  "gpt_storage db Lun hi \<longleftrightarrow>
     GetStorageHandle db Lun MAX_HANDLEINF_LST_SIZE = Some (EFI_SUCCESS, [hi], 1) \<and>
     GetPartitionSize (Some (BlkIo hi)) \<noteq> 0 \<and>
     512 \<le> unat (BlockSize (BlkIo hi)) \<and> unat (BlockSize (BlkIo hi)) \<le> 0x100000"

lemma WriteGpt_stages:
  assumes dev: "gpt_storage db Lun hi" and Sz: "unat Sz \<le> length Gpt"
  defines "B \<equiv> BlockSize (BlkIo hi)" and "d \<equiv> GetPartitionSize (Some (BlkIo hi))"
  shows "(\<exists>ret gl' G. WriteGpt env db gl Lun Sz Gpt log =
        Some \<lparr>g_ret = ret, g_glob = gl', g_buf = G, g_log = log\<rparr> \<and> ret \<noteq> SUCCESS \<and>
        \<not> (0x8000 + 3 * unat B \<le> unat Sz \<and>
           (\<exists>H. gpt_header_ok env (ParseSecondaryGpt gl) Gpt (unat B) d B H) \<and>
           (\<exists>H. gpt_header_ok env True Gpt (0x8000 + 2 * unat B) d B H))) \<or>
    (\<exists>H H'. 0x8000 + 3 * unat B \<le> unat Sz \<and>
       gpt_header_ok env (ParseSecondaryGpt gl) Gpt (unat B) d B H \<and>
       gpt_header_ok env True Gpt (0x8000 + 2 * unat B) d B H' \<and>
       WriteGpt env db gl Lun Sz Gpt log =
         commit_gpt env hi (gl\<lparr>ParseSecondaryGpt := True\<rparr>) Sz Gpt d 0x4000 H' log)"
proof -
  have Bb: "512 \<le> unat B" "unat B \<le> 0x100000" and d0: "d \<noteq> 0"
    and g: "GetStorageHandle db Lun MAX_HANDLEINF_LST_SIZE = Some (EFI_SUCCESS, [hi], 1)"
    using dev by (auto simp: gpt_storage_def B_def d_def)
  have b2: "unat (B * 2) = 2 * unat B" "unat (B * 3) = 3 * unat B"
    using Bb by (subst unat_mult_bound; simp)+
  have b3: "unat (0x8000 + B * 3) = 0x8000 + 3 * unat B" using Bb b2 by (subst unat_plus_bound) auto
  have b4: "unat (0x8000 + B) + unat B = 0x8000 + 2 * unat B" using Bb by (subst unat_plus_bound) auto
  note W = WriteGpt_def [of env db gl Lun Sz Gpt log]
  show ?thesis
  proof (cases "Sz \<le> B * 2")
    case True
    then have "\<not> 0x8000 + 3 * unat B \<le> unat Sz" by (simp add: word_le_nat_alt b2)
    then show ?thesis using True d0 by (intro disjI1) (simp add: W g Let_def flip: B_def d_def)
  next
    case False
    then have in1: "unat B + unat B \<le> length Gpt" using Sz by (simp add: word_le_nat_alt b2)
    obtain ret H G1 where p1: "ParseGptHeader env (ParseSecondaryGpt gl) blank_header Gpt (unat B) d B =
        Some (ret, H, G1)" and p1': "ret = SUCCESS \<longrightarrow> G1 = Gpt \<and>
        gpt_header_ok env (ParseSecondaryGpt gl) Gpt (unat B) d B H"
      "ret \<noteq> SUCCESS \<longrightarrow> (\<forall>H. \<not> gpt_header_ok env (ParseSecondaryGpt gl) Gpt (unat B) d B H)"
      using ParseGptHeader_spec [OF in1 Bb(1), of env "ParseSecondaryGpt gl" blank_header d] by blast
    show ?thesis
    proof (cases "ret = SUCCESS")
      case False
      then show ?thesis using p1 p1' \<open>\<not> Sz \<le> B * 2\<close> d0
        by (intro disjI1) (simp add: W g Let_def flip: B_def d_def)
    next
      case True
      then have ok: "G1 = Gpt" "gpt_header_ok env (ParseSecondaryGpt gl) Gpt (unat B) d B H"
        using p1' by auto
      note arr = valid_array_size [OF ok(2)]
      show ?thesis
      proof (cases "Sz < 0x8000 + B * 3")
        case True
        then have "\<not> 0x8000 + 3 * unat B \<le> unat Sz" by (simp add: word_less_nat_alt b3)
        then show ?thesis using True p1 ok \<open>\<not> Sz \<le> B * 2\<close> \<open>ret = SUCCESS\<close> d0
          by (intro disjI1) (simp add: W g Let_def arr flip: B_def d_def)
      next
        case False
        then have sz: "0x8000 + 3 * unat B \<le> unat Sz" by (simp add: word_less_nat_alt b3)
        then have in2: "0x8000 + 2 * unat B + unat B \<le> length Gpt" using Sz by simp
        obtain ret' H' G2 where p2: "ParseGptHeader env True H Gpt (0x8000 + 2 * unat B) d B = Some (ret', H', G2)"
          and p2': "ret' = SUCCESS \<longrightarrow> G2 = Gpt \<and> gpt_header_ok env True Gpt (0x8000 + 2 * unat B) d B H'"
          "ret' \<noteq> SUCCESS \<longrightarrow> (\<forall>H. \<not> gpt_header_ok env True Gpt (0x8000 + 2 * unat B) d B H)"
          using ParseGptHeader_spec [OF in2 Bb(1), of env True H d] by blast
        have eq: "WriteGpt env db gl Lun Sz Gpt log =
          (if ret' \<noteq> SUCCESS then Some \<lparr>g_ret = ret', g_glob = gl\<lparr>ParseSecondaryGpt := True\<rparr>,
             g_buf = G2, g_log = log\<rparr>
           else commit_gpt env hi (gl\<lparr>ParseSecondaryGpt := True\<rparr>) Sz G2 d 0x4000 H' log)"
          using False p1 p2 ok \<open>\<not> Sz \<le> B * 2\<close> \<open>ret = SUCCESS\<close> d0
          by (simp add: W g Let_def arr b4 flip: B_def d_def)
        show ?thesis using eq p2' ok(2) sz by (cases "ret' = SUCCESS") auto
      qed
    qed
  qed
qed

text \<open>C1. \<open>WriteGpt\<close> touches the device only after both headers of the image have proved valid for
  it, and the first thing it does then is to erase the whole device.\<close>

theorem WriteGpt_erases_only_for_valid_image:
  assumes run: "WriteGpt env db gl Lun Sz Gpt log = Some r" and dirty: "g_log r \<noteq> log"
    and dev: "gpt_storage db Lun hi" and Sz: "unat Sz \<le> length Gpt"
  shows "\<exists>H H' rest.
    gpt_header_ok env (ParseSecondaryGpt gl) Gpt (unat (BlockSize (BlkIo hi)))
      (GetPartitionSize (Some (BlkIo hi))) (BlockSize (BlkIo hi)) H \<and>
    gpt_header_ok env True Gpt (0x8000 + 2 * unat (BlockSize (BlkIo hi)))
      (GetPartitionSize (Some (BlkIo hi))) (BlockSize (BlkIo hi)) H' \<and>
    g_log r = log @ EraseBlocks (bio_id (BlkIo hi)) 0 (GetPartitionSize (Some (BlkIo hi))) # rest"
  using WriteGpt_stages [OF dev Sz, of env gl log]
proof (elim disjE exE conjE)
  fix H H'
  assume v: "gpt_header_ok env (ParseSecondaryGpt gl) Gpt (unat (BlockSize (BlkIo hi)))
      (GetPartitionSize (Some (BlkIo hi))) (BlockSize (BlkIo hi)) H"
    "gpt_header_ok env True Gpt (0x8000 + 2 * unat (BlockSize (BlkIo hi)))
      (GetPartitionSize (Some (BlkIo hi))) (BlockSize (BlkIo hi)) H'"
    and w: "WriteGpt env db gl Lun Sz Gpt log = commit_gpt env hi (gl\<lparr>ParseSecondaryGpt := True\<rparr>) Sz Gpt
      (GetPartitionSize (Some (BlkIo hi))) 0x4000 H' log"
  obtain rest where "g_log r = log @ rest" "rest \<noteq> [] \<Longrightarrow>
      hd rest = EraseBlocks (bio_id (BlkIo hi)) 0 (GetPartitionSize (Some (BlkIo hi)))"
    using commit_gpt_log run w by metis
  then show ?thesis using v dirty by (cases rest) auto
qed (use run dirty in auto)

text \<open>The image written to the device, piece by piece.\<close>

definition gpt_writes :: "nat \<Rightarrow> nat \<Rightarrow> u64 \<Rightarrow> u64 \<Rightarrow> u64 \<Rightarrow> bytes \<Rightarrow> disk_op list" where
  "gpt_writes dev B backup entries1 entries2 G =
     [WriteBlocks dev 0 (slice 0 B G), WriteBlocks dev 1 (slice B B G),
      WriteBlocks dev backup (slice (0x8000 + 2 * B) B G),
      WriteBlocks dev entries1 (slice (2 * B) 0x4000 G),
      WriteBlocks dev entries2 (slice (2 * B + 0x4000) 0x4000 G)]"

lemma write_seq_defined:
  "(\<forall>(lba, off, n)\<in>set ws. off + n \<le> length G) \<Longrightarrow> \<exists>ok log'. write_seq env b G ws log = Some (ok, log')"
  by (induction env b G ws log rule: write_seq.induct) (auto simp: issue_def Let_def)

lemma patch_crc_ok:
  "patch_crc env G i n f = Some (ok, G') \<Longrightarrow> \<forall>b. fst (calc_crc32 env b) = EFI_SUCCESS \<Longrightarrow> ok"
  by (auto simp: patch_crc_def crc_range_def Option.bind_eq_Some_conv split: if_splits prod.splits)
    (metis fst_conv)

lemma PatchGpt_success:
  "PatchGpt env Gpt d a H B = Some (ret, G) \<Longrightarrow> \<forall>b. fst (calc_crc32 env b) = EFI_SUCCESS \<Longrightarrow> ret = SUCCESS"
  by (auto simp: PatchGpt_def Let_def Option.bind_eq_Some_conv split: if_splits dest: patch_crc_ok)

lemma commit_gpt_run:
  fixes hi :: HandleInfo
  defines "B \<equiv> unat (BlockSize (BlkIo hi))"
  assumes p: "patchable (BlockSize (BlkIo hi)) H Gpt" and Sz: "unat Sz \<le> length Gpt"
  shows "\<exists>r. commit_gpt env hi gl Sz Gpt d 0x4000 H log = Some r"
    and "\<lbrakk>\<forall>l op. op_status env l op = EFI_SUCCESS; fst (erase_prot env) = EFI_SUCCESS;
      \<forall>b. fst (calc_crc32 env b) = EFI_SUCCESS; GetPartitionSize (Some (BlkIo hi)) \<noteq> 0\<rbrakk> \<Longrightarrow>
      \<exists>G e1. gpt_patched env (d div ucast (BlockSize (BlkIo hi))) (0x4000 div BlockSize (BlkIo hi) + 1) B
          (unat (MaxPtCnt H) * 128) G \<and> get64 Gpt (B + PARTITION_ENTRIES_OFFSET) = Some e1 \<and>
        frame (gpt_touched B) Gpt G \<and>
        commit_gpt env hi gl Sz Gpt d 0x4000 H log = Some \<lparr>g_ret = SUCCESS, g_glob = gl\<lparr>FlashingGpt := False\<rparr>,
          g_buf = splice 0 (replicate (unat Sz) 0) G,
          g_log = log @ EraseBlocks (bio_id (BlkIo hi)) 0 (GetPartitionSize (Some (BlkIo hi))) #
            gpt_writes (bio_id (BlkIo hi)) B (d div ucast (BlockSize (BlkIo hi)) - 1) e1
              (d div ucast (BlockSize (BlkIo hi)) - ucast (0x4000 div BlockSize (BlkIo hi) + 1)) G\<rparr>"
proof -
  let ?b = "BlkIo hi" and ?S = "0x8000 + 2 * B"
  let ?ns = "d div ucast (BlockSize (BlkIo hi))" and ?pb = "0x4000 div BlockSize (BlkIo hi) + 1 :: u32"
  have Bb: "512 \<le> B" "B \<le> 0x100000" and len: "0x8000 + 3 * B \<le> length Gpt"
    using p by (auto simp: patchable_def B_def)
  have S: "unat (0x8000 + BlockSize ?b) + B = ?S"
    using Bb by (subst unat_plus_bound) (auto simp: B_def)
  obtain ret G where patch: "PatchGpt env Gpt d 0x4000 H (BlockSize ?b) = Some (ret, G)"
    "length G = length Gpt" "frame (gpt_touched B) Gpt G"
    and done_: "ret = SUCCESS \<Longrightarrow> gpt_patched env ?ns ?pb B (unat (MaxPtCnt H) * 128) G"
    unfolding B_def by (rule PatchGpt_spec [OF p, of env d]) blast
  obtain bk where bk: "get64 G (B + 32) = Some bk" using get64_some [of "B + 32" G] patch(2) len Bb by auto
  obtain e1 where e1: "get64 G (B + 72) = Some e1" using get64_some [of "B + 72" G] patch(2) len Bb by auto
  obtain e2 where e2: "get64 G (?S + 72) = Some e2" using get64_some [of "?S + 72" G] patch(2) len Bb by auto
  let ?ws = "[(0, 0, B), (1, B, B), (bk, ?S, B), (e1, 2 * B, 0x4000), (e2, 2 * B + 0x4000, 0x4000)]"
  have ws: "\<forall>(lba, off, n)\<in>set ?ws. off + n \<le> length G" using patch(2) len by auto
  have run: "commit_gpt env hi gl Sz Gpt d 0x4000 H log =
    (if ret \<noteq> SUCCESS then Some \<lparr>g_ret = ret, g_glob = gl, g_buf = G, g_log = log\<rparr>
     else let (Status, log1) = ErasePartition env ?b log in
       if Status \<noteq> EFI_SUCCESS then Some \<lparr>g_ret = FAILURE, g_glob = gl, g_buf = G, g_log = log1\<rparr>
       else do {
         (ok, log2) \<leftarrow> write_seq env ?b G ?ws log1;
         if \<not> ok then Some \<lparr>g_ret = FAILURE, g_glob = gl, g_buf = G, g_log = log2\<rparr>
         else if unat Sz > length G then None
         else Some \<lparr>g_ret = SUCCESS, g_glob = gl\<lparr>FlashingGpt := False\<rparr>,
                    g_buf = splice 0 (replicate (unat Sz) 0) G, g_log = log2\<rparr>
       })"
    using patch(1,2) bk e1 e2 Sz
    by (cases "ErasePartition env ?b log")
      (simp add: commit_gpt_def Let_def S B_def [symmetric] del: write_seq.simps flip: mult_2)
  show "\<exists>r. commit_gpt env hi gl Sz Gpt d 0x4000 H log = Some r"
  proof -
    obtain st l1 where e: "ErasePartition env ?b log = (st, l1)" by fastforce
    obtain ok l2 where w: "write_seq env ?b G ?ws l1 = Some (ok, l2)"
      using write_seq_defined [OF ws, of env ?b l1] by blast
    show ?thesis using Sz patch(2) unfolding run e Let_def prod.case w by simp
  qed
  assume ok: "\<forall>l op. op_status env l op = EFI_SUCCESS" and er: "fst (erase_prot env) = EFI_SUCCESS"
    and crc: "\<forall>b. fst (calc_crc32 env b) = EFI_SUCCESS" and size: "GetPartitionSize (Some ?b) \<noteq> 0"
  have r0: "ret = SUCCESS" using PatchGpt_success [OF patch(1) crc] .
  note g = done_ [OF r0]
  have "bk = ?ns - 1" "e2 = ?ns - ucast ?pb" using g bk e2 by (auto simp: gpt_patched_def Let_def)
  moreover have "get64 Gpt (B + 72) = Some e1"
    using touched_fields(8) [OF patch(3) Bb(1), of B] e1 by simp
  moreover have "ErasePartition env ?b log = (EFI_SUCCESS, log @ [EraseBlocks (bio_id ?b) 0 (GetPartitionSize (Some ?b))])"
    using size er ok by (simp add: ErasePartition_def issue_def)
  ultimately show "\<exists>G e1. gpt_patched env ?ns ?pb B (unat (MaxPtCnt H) * 128) G \<and>
      get64 Gpt (B + PARTITION_ENTRIES_OFFSET) = Some e1 \<and> frame (gpt_touched B) Gpt G \<and>
      commit_gpt env hi gl Sz Gpt d 0x4000 H log = Some \<lparr>g_ret = SUCCESS, g_glob = gl\<lparr>FlashingGpt := False\<rparr>,
        g_buf = splice 0 (replicate (unat Sz) 0) G,
        g_log = log @ EraseBlocks (bio_id ?b) 0 (GetPartitionSize (Some ?b)) #
          gpt_writes (bio_id ?b) B (?ns - 1) e1 (?ns - ucast ?pb) G\<rparr>"
    using g patch(2,3) Sz write_seq_ok [OF ok ws] run r0
    by (intro exI [of _ G] exI [of _ e1]) (simp add: gpt_writes_def Let_def del: write_seq.simps)
qed

text \<open>A valid backup header with a used entry makes the image patchable.\<close>

lemma patchable_valid:
  assumes "gpt_header_ok env sec Gpt h d BlkSz H" "0 < unat (MaxPtCnt H)" "entry_used Gpt (2 * unat BlkSz)"
    "512 \<le> unat BlkSz" "unat BlkSz \<le> 0x100000" "0x8000 + 3 * unat BlkSz \<le> length Gpt"
  shows "patchable BlkSz H Gpt"
  using assms by (auto simp: patchable_def gpt_header_ok_def word_le_nat_alt)

text \<open>C3. Memory safety of the flashing path: on a device that was found, for an image whose entry
  array has a used first entry and whose backup header declares at least one entry, \<open>WriteGpt\<close>
  never reads or writes outside the downloaded buffer, whatever else the image holds and whatever
  the device and the CRC service answer.\<close>

theorem WriteGpt_stays_in_buffer:
  assumes dev: "gpt_storage db Lun hi" and Sz: "unat Sz \<le> length Gpt"
    and used: "entry_used Gpt (2 * unat (BlockSize (BlkIo hi)))"
    and cnt: "\<forall>H. gpt_header_ok env True Gpt (0x8000 + 2 * unat (BlockSize (BlkIo hi)))
      (GetPartitionSize (Some (BlkIo hi))) (BlockSize (BlkIo hi)) H \<longrightarrow> 0 < unat (MaxPtCnt H)"
  shows "WriteGpt env db gl Lun Sz Gpt log \<noteq> None"
  using WriteGpt_stages [OF dev Sz, of env gl log]
proof (elim disjE exE conjE)
  fix H H'
  assume sz: "0x8000 + 3 * unat (BlockSize (BlkIo hi)) \<le> unat Sz"
    and v: "gpt_header_ok env True Gpt (0x8000 + 2 * unat (BlockSize (BlkIo hi)))
      (GetPartitionSize (Some (BlkIo hi))) (BlockSize (BlkIo hi)) H'"
    and w: "WriteGpt env db gl Lun Sz Gpt log = commit_gpt env hi (gl\<lparr>ParseSecondaryGpt := True\<rparr>) Sz Gpt
      (GetPartitionSize (Some (BlkIo hi))) 0x4000 H' log"
  have "patchable (BlockSize (BlkIo hi)) H' Gpt"
    by (rule patchable_valid [OF v _ used]) (use dev sz Sz cnt v in \<open>auto simp: gpt_storage_def\<close>)
  from commit_gpt_run(1) [OF this Sz] show ?thesis unfolding w by force
qed auto

text \<open>The geometry of a storage handle: block size, size, sectors, blocks of an entry array and its
  header.\<close>

abbreviation hi_B :: "HandleInfo \<Rightarrow> nat" where "hi_B hi \<equiv> unat (BlockSize (BlkIo hi))"
abbreviation hi_size :: "HandleInfo \<Rightarrow> u64" where "hi_size hi \<equiv> GetPartitionSize (Some (BlkIo hi))"
abbreviation hi_ns :: "HandleInfo \<Rightarrow> u64" where "hi_ns hi \<equiv> hi_size hi div ucast (BlockSize (BlkIo hi))"
abbreviation hi_pb :: "HandleInfo \<Rightarrow> u32" where "hi_pb hi \<equiv> 0x4000 div BlockSize (BlkIo hi) + 1"

lemma WriteGpt_run:
  assumes dev: "gpt_storage db Lun hi" and Sz: "unat Sz \<le> length Gpt" "0x8000 + 3 * hi_B hi \<le> unat Sz"
    and primary: "gpt_header_ok env (ParseSecondaryGpt gl) Gpt (hi_B hi) (hi_size hi) (BlockSize (BlkIo hi)) H"
    and backup: "gpt_header_ok env True Gpt (0x8000 + 2 * hi_B hi) (hi_size hi) (BlockSize (BlkIo hi)) H'"
    and used: "0 < unat (MaxPtCnt H')" "entry_used Gpt (2 * hi_B hi)"
    and io: "\<forall>l op. op_status env l op = EFI_SUCCESS" "fst (erase_prot env) = EFI_SUCCESS"
      "\<forall>b. fst (calc_crc32 env b) = EFI_SUCCESS"
  shows "\<exists>G e1. gpt_patched env (hi_ns hi) (hi_pb hi) (hi_B hi) (unat (MaxPtCnt H') * 128) G \<and>
    frame (gpt_touched (hi_B hi)) Gpt G \<and> get64 Gpt (hi_B hi + PARTITION_ENTRIES_OFFSET) = Some e1 \<and>
    WriteGpt env db gl Lun Sz Gpt log = Some \<lparr>g_ret = SUCCESS,
      g_glob = gl\<lparr>FlashingGpt := False, ParseSecondaryGpt := True\<rparr>,
      g_buf = splice 0 (replicate (unat Sz) 0) G,
      g_log = log @ EraseBlocks (bio_id (BlkIo hi)) 0 (hi_size hi) #
        gpt_writes (bio_id (BlkIo hi)) (hi_B hi) (hi_ns hi - 1) e1 (hi_ns hi - ucast (hi_pb hi)) G\<rparr>"
proof -
  have p: "patchable (BlockSize (BlkIo hi)) H' Gpt"
    using dev Sz by (intro patchable_valid [OF backup used]) (auto simp: gpt_storage_def)
  have size: "hi_size hi \<noteq> 0" using dev by (simp add: gpt_storage_def)
  have w: "WriteGpt env db gl Lun Sz Gpt log =
      commit_gpt env hi (gl\<lparr>ParseSecondaryGpt := True\<rparr>) Sz Gpt (hi_size hi) 0x4000 H' log"
    using WriteGpt_stages [OF dev Sz(1), of env gl log]
  proof (elim disjE exE conjE)
    fix K K' assume "gpt_header_ok env True Gpt (0x8000 + 2 * hi_B hi) (hi_size hi) (BlockSize (BlkIo hi)) K'"
      and "WriteGpt env db gl Lun Sz Gpt log =
        commit_gpt env hi (gl\<lparr>ParseSecondaryGpt := True\<rparr>) Sz Gpt (hi_size hi) 0x4000 K' log"
    then show ?thesis using gpt_header_ok_unique [OF backup] by blast
  qed (use Sz(2) primary backup in blast)
  from commit_gpt_run(2) [OF p Sz(1) io size,
    where gl = "gl\<lparr>ParseSecondaryGpt := True\<rparr>" and d = "hi_size hi" and log = log]
  obtain G e1 where g: "gpt_patched env (hi_ns hi) (hi_pb hi) (hi_B hi) (unat (MaxPtCnt H') * 128) G"
    "get64 Gpt (hi_B hi + PARTITION_ENTRIES_OFFSET) = Some e1" "frame (gpt_touched (hi_B hi)) Gpt G"
    and r: "commit_gpt env hi (gl\<lparr>ParseSecondaryGpt := True\<rparr>) Sz Gpt (hi_size hi) 0x4000 H' log =
      Some \<lparr>g_ret = SUCCESS, g_glob = gl\<lparr>ParseSecondaryGpt := True, FlashingGpt := False\<rparr>,
        g_buf = splice 0 (replicate (unat Sz) 0) G,
        g_log = log @ EraseBlocks (bio_id (BlkIo hi)) 0 (hi_size hi) #
          gpt_writes (bio_id (BlkIo hi)) (hi_B hi) (hi_ns hi - 1) e1 (hi_ns hi - ucast (hi_pb hi)) G\<rparr>"
    by blast
  show ?thesis
    by (rule exI [of _ G], rule exI [of _ e1]) (simp add: g r w)
qed

text \<open>C2. A valid image on a device that accepts every operation is flashed: the device is erased,
  then receives the protective MBR at block 0, the patched primary header at block 1, the patched
  backup header at the last block and both entry arrays at the blocks their headers name; the
  download buffer is cleared and the flag \<open>FlashingGpt\<close> reset.\<close>

theorem WriteGpt_flashes:
  assumes dev: "gpt_storage db Lun hi" and Sz: "unat Sz \<le> length Gpt" "0x8000 + 3 * hi_B hi \<le> unat Sz"
    and primary: "gpt_header_ok env (ParseSecondaryGpt gl) Gpt (hi_B hi) (hi_size hi) (BlockSize (BlkIo hi)) H"
    and backup: "gpt_header_ok env True Gpt (0x8000 + 2 * hi_B hi) (hi_size hi) (BlockSize (BlkIo hi)) H'"
    and used: "0 < unat (MaxPtCnt H')" "entry_used Gpt (2 * hi_B hi)"
    and io: "\<forall>l op. op_status env l op = EFI_SUCCESS" "fst (erase_prot env) = EFI_SUCCESS"
      "\<forall>b. fst (calc_crc32 env b) = EFI_SUCCESS"
  shows "\<exists>G e1. gpt_patched env (hi_ns hi) (hi_pb hi) (hi_B hi) (unat (MaxPtCnt H') * 128) G \<and>
    frame (gpt_touched (hi_B hi)) Gpt G \<and> get64 Gpt (hi_B hi + PARTITION_ENTRIES_OFFSET) = Some e1 \<and>
    WriteGpt env db gl Lun Sz Gpt log = Some \<lparr>g_ret = SUCCESS,
      g_glob = gl\<lparr>FlashingGpt := False, ParseSecondaryGpt := True\<rparr>,
      g_buf = splice 0 (replicate (unat Sz) 0) G,
      g_log = log @ EraseBlocks (bio_id (BlkIo hi)) 0 (hi_size hi) #
        gpt_writes (bio_id (BlkIo hi)) (hi_B hi) (hi_ns hi - 1) e1 (hi_ns hi - ucast (hi_pb hi)) G\<rparr>"
  by (rule WriteGpt_run [OF assms])

text \<open>When the search for the storage device succeeds but does not find exactly one device,
  \<open>UpdatePartitionTable\<close> reports success for a GPT image without a single device operation: the
  status of the search is returned in place of an error.\<close>

theorem UpdatePartitionTable_reports_success_without_device:
  assumes "PartitionGetType Sz Gpt 0 = Some (SUCCESS, PARTITION_TYPE_GPT)"
    and "GetStorageHandle db Lun MAX_HANDLEINF_LST_SIZE = Some (EFI_SUCCESS, out, n)" "n \<noteq> 1"
  shows "UpdatePartitionTable env db gl Gpt Sz Lun log =
    Some (EFI_SUCCESS, gl\<lparr>FlashingGpt := True\<rparr>, Gpt, log)"
  using assms by (simp add: UpdatePartitionTable_def WriteGpt_def Let_def)

section \<open>A concrete image\<close>

text \<open>A GPT image for 512-byte blocks: protective MBR, two 92-byte headers, one used entry. Its CRC
  fields are zero, the CRC the memory-backed environment computes.\<close>

definition demo_header :: "u64 \<Rightarrow> bytes" where
  "demo_header cur = PUT_LONG GPT_SIGNATURE_2 @ PUT_LONG GPT_SIGNATURE_1 @ PUT_LONG 0x10000 @
     PUT_LONG 92 @ PUT_LONG 0 @ PUT_LONG 0 @ PUT_LONG_LONG cur @ PUT_LONG_LONG 0 @
     PUT_LONG_LONG 34 @ PUT_LONG_LONG 100 @ PUT_LONG_LONG 0 @ PUT_LONG_LONG 0 @ PUT_LONG_LONG 2 @
     PUT_LONG 128 @ PUT_LONG 128 @ PUT_LONG 0"

definition demo_parsed :: GptHeaderData where
  "demo_parsed = \<lparr>FirstUsableLba = 34, PartEntrySz = 128, HeaderSz = 92, MaxPtCnt = 128, LastUsableLba = 100\<rparr>"

definition demo_blank :: bytes where
  "demo_blank = splice 510 [0x55, 0xAA] (splice 450 [0xEE] (replicate 34304 0))"

definition demo_gpt :: bytes where
  "demo_gpt = splice 33792 (demo_header 200) (splice 512 (demo_header 1)
     (splice 1024 (PUT_LONG_LONG 7) demo_blank))"

definition demo_empty_gpt :: bytes where
  "demo_empty_gpt = splice 33792 (demo_header 200) (splice 512 (demo_header 1) demo_blank)"

abbreviation demo_hi :: HandleInfo where "demo_hi \<equiv> handle_info demo_root None"

lemma demo_header_length [simp]: "length (demo_header c) = 92"
  by (simp add: demo_header_def)

lemma demo_blank_length [simp]: "length demo_blank = 34304"
  by (simp add: demo_blank_def)

lemma demo_gpt_length [simp]: "length demo_gpt = 34304" "length demo_empty_gpt = 34304"
  by (simp_all add: demo_gpt_def demo_empty_gpt_def)

lemma demo_windows:
  "slice 512 92 demo_gpt = demo_header 1" "slice 33792 92 demo_gpt = demo_header 200"
  using slice_splice_same [of 512 "demo_header 1" "splice 1024 (PUT_LONG_LONG 7) demo_blank"]
    slice_splice_same [of 33792 "demo_header 200"
      "splice 512 (demo_header 1) (splice 1024 (PUT_LONG_LONG 7) demo_blank)"]
  by (simp_all add: demo_gpt_def slice_splice_disjoint)

lemma demo_fields:
  "k + 4 \<le> 92 \<Longrightarrow> get32 demo_gpt (512 + k) = get32 (demo_header 1) k"
  "k + 8 \<le> 92 \<Longrightarrow> get64 demo_gpt (512 + k) = get64 (demo_header 1) k"
  "k + 4 \<le> 92 \<Longrightarrow> get32 demo_gpt (33792 + k) = get32 (demo_header 200) k"
  "k + 8 \<le> 92 \<Longrightarrow> get64 demo_gpt (33792 + k) = get64 (demo_header 200) k"
  using f32.get_window [of k 92 512 demo_gpt] f64.get_window [of k 92 512 demo_gpt]
    f32.get_window [of k 92 33792 demo_gpt] f64.get_window [of k 92 33792 demo_gpt]
  by (simp_all add: demo_windows)

lemma demo_header_fields:
  "get32 (demo_header c) 0 = Some GPT_SIGNATURE_2" "get32 (demo_header c) 4 = Some GPT_SIGNATURE_1"
  "get32 (demo_header c) 12 = Some 92" "get32 (demo_header c) 16 = Some 0"
  "get64 (demo_header c) 24 = Some c" "get64 (demo_header c) 40 = Some 34"
  "get64 (demo_header c) 48 = Some 100" "get64 (demo_header c) 72 = Some 2"
  "get32 (demo_header c) 80 = Some 128" "get32 (demo_header c) 84 = Some 128"
  by (simp_all add: get32_def get64_def demo_header_def slice_def GET_PUT_LONG GET_PUT_LONG_LONG)

lemma demo_headers_ok:
  "gpt_header_ok (ram_env EMMC d) False demo_gpt 512 102912 512 demo_parsed"
  "gpt_header_ok (ram_env EMMC d) True demo_gpt 33792 102912 512 demo_parsed"
  using demo_fields(1) [of 0] demo_fields(1) [of 4] demo_fields(1) [of 12] demo_fields(1) [of 16]
    demo_fields(2) [of 24] demo_fields(2) [of 40] demo_fields(2) [of 48] demo_fields(1) [of 80]
    demo_fields(1) [of 84] demo_fields(3) [of 0] demo_fields(3) [of 4] demo_fields(3) [of 12]
    demo_fields(3) [of 16] demo_fields(4) [of 24] demo_fields(4) [of 40] demo_fields(4) [of 48]
    demo_fields(3) [of 80] demo_fields(3) [of 84]
  by (simp_all add: gpt_header_ok_def demo_header_fields crc_range_def demo_parsed_def)

lemma demo_entry: "entry_used demo_gpt 1024"
proof -
  have "get64 demo_gpt 1024 = Some 7"
    unfolding demo_gpt_def by (simp add: f64.get_splice_other f64.get_splice_same)
  then show ?thesis by (simp add: entry_used_def)
qed

lemma ram_size [simp]: "GetPartitionSize (Some (ram_dev 200)) = 102912"
  by (simp add: GetPartitionSize_def CHECK_ADD64_def)

lemma demo_hi_dev [simp]: "BlkIo demo_hi = ram_dev 200"
  by (simp add: handle_info_def demo_root_def)

lemma demo_storage_ok: "gpt_storage demo_db NO_LUN demo_hi" "hi_B demo_hi = 512" "hi_size demo_hi = 102912"
  by (simp_all add: gpt_storage_def demo_storage handle_info_def demo_root_def GetPartitionSize_def CHECK_ADD64_def)

section \<open>Witnesses\<close>

lemma ParseGptHeader_validates_witness:
  "ParseGptHeader (ram_env EMMC []) False blank_header demo_gpt 512 102912 512 \<noteq> None \<and>
   ParseGptHeader (ram_env EMMC []) False blank_header demo_gpt 512 102912 512 =
     Some (SUCCESS, demo_parsed, demo_gpt)"
  using ParseGptHeader_validates [of 512 512 demo_gpt "ram_env EMMC []" False blank_header 102912]
    demo_headers_ok(1) by auto

lemma demo_patchable: "patchable 512 demo_parsed demo_gpt"
  by (simp add: patchable_def demo_parsed_def demo_entry)

lemma PatchGpt_revalidates_witness:
  "\<exists>G. PatchGpt (ram_env EMMC []) demo_gpt 102912 0x4000 demo_parsed 512 = Some (SUCCESS, G) \<and>
    gpt_header_ok (ram_env EMMC []) False G 512 102912 512 (demo_parsed\<lparr>LastUsableLba := 167\<rparr>) \<and>
    gpt_header_ok (ram_env EMMC []) True G 33792 102912 512 (demo_parsed\<lparr>LastUsableLba := 167\<rparr>)"
proof -
  obtain ret G where r: "PatchGpt (ram_env EMMC []) demo_gpt 102912 0x4000 demo_parsed 512 = Some (ret, G)"
    by (rule PatchGpt_spec [OF demo_patchable, of "ram_env EMMC []" 102912]) blast
  then have "ret = SUCCESS" by (rule PatchGpt_success) simp
  then show ?thesis
    using PatchGpt_revalidates [OF demo_patchable, of "ram_env EMMC []" False 102912 demo_parsed G]
      demo_headers_ok r by (simp add: demo_parsed_def)
qed

lemma demo_empty_entry: "\<not> entry_used demo_empty_gpt 1024"
proof -
  have e: "get64 demo_empty_gpt (1024 + k) = get64 (replicate 34304 (0 :: u8)) (1024 + k)" if "k \<le> 8" for k
    unfolding demo_empty_gpt_def demo_blank_def using that by (simp add: f64.get_splice_other)
  have "get64 (replicate 34304 (0 :: u8)) (1024 + k) = Some 0" if "k \<le> 8" for k
    using that by (simp add: get64_def slice_def GET_LLWORD_FROM_BYTE_def)
  from this [of 0] this [of 8] show ?thesis using e [of 0] e [of 8] by (simp add: entry_used_def)
qed

lemma PatchGpt_empty_table_overruns_example:
  "PatchGpt (ram_env EMMC []) demo_empty_gpt 102912 0x4000 demo_parsed 512 = None"
  using PatchGpt_empty_table_overruns [of 512 demo_empty_gpt "ram_env EMMC []" 102912 demo_parsed]
    demo_empty_entry by simp

abbreviation demo_globals :: gpt_globals where
  "demo_globals \<equiv> \<lparr>FlashingGpt = True, ParseSecondaryGpt = False\<rparr>"

lemma WriteGpt_stays_in_buffer_witness:
  "WriteGpt (ram_env EMMC []) demo_db demo_globals NO_LUN 34304 demo_gpt [] \<noteq> None"
proof (rule WriteGpt_stays_in_buffer [OF demo_storage_ok(1)])
  show "\<forall>H. gpt_header_ok (ram_env EMMC []) True demo_gpt (0x8000 + 2 * hi_B demo_hi) (hi_size demo_hi)
      (BlockSize (BlkIo demo_hi)) H \<longrightarrow> 0 < unat (MaxPtCnt H)"
    using gpt_header_ok_unique [OF demo_headers_ok(2)]
    by (force simp: demo_parsed_def)
qed (simp_all add: demo_storage_ok demo_entry)

lemma WriteGpt_flashes_witness:
  "\<exists>G e1. gpt_patched (ram_env EMMC []) 201 33 512 16384 G \<and> frame (gpt_touched 512) demo_gpt G \<and>
    get64 demo_gpt 584 = Some e1 \<and>
    WriteGpt (ram_env EMMC []) demo_db demo_globals NO_LUN 34304 demo_gpt [] = Some \<lparr>g_ret = SUCCESS,
      g_glob = \<lparr>FlashingGpt = False, ParseSecondaryGpt = True\<rparr>,
      g_buf = splice 0 (replicate 34304 0) G,
      g_log = EraseBlocks 0 0 102912 # gpt_writes 0 512 200 e1 168 G\<rparr>"
  using WriteGpt_flashes [OF demo_storage_ok(1), of 34304 demo_gpt "ram_env EMMC []" demo_globals demo_parsed
      demo_parsed "[]"] demo_headers_ok demo_entry
  by (simp add: demo_parsed_def)

lemma WriteGpt_erases_only_for_valid_image_witness:
  "\<exists>r H H' rest. WriteGpt (ram_env EMMC []) demo_db demo_globals NO_LUN 34304 demo_gpt [] = Some r \<and>
    gpt_header_ok (ram_env EMMC []) False demo_gpt 512 102912 512 H \<and>
    gpt_header_ok (ram_env EMMC []) True demo_gpt 33792 102912 512 H' \<and>
    g_log r = EraseBlocks 0 0 102912 # rest"
proof -
  obtain r where r: "WriteGpt (ram_env EMMC []) demo_db demo_globals NO_LUN 34304 demo_gpt [] = Some r"
    "g_log r \<noteq> []"
    using WriteGpt_run [OF demo_storage_ok(1), of 34304 demo_gpt "ram_env EMMC []" demo_globals demo_parsed
        demo_parsed "[]"] demo_headers_ok demo_entry
    by (auto simp: demo_parsed_def)
  then show ?thesis
    using WriteGpt_erases_only_for_valid_image [OF r demo_storage_ok(1)]
    by simp
qed

lemma demo_type: "PartitionGetType 34304 demo_gpt 0 = Some (SUCCESS, PARTITION_TYPE_GPT)"
proof -
  have "demo_gpt ! 510 = 0x55" "demo_gpt ! 511 = 0xAA" "demo_gpt ! 450 = 0xEE"
    by (simp_all add: demo_gpt_def demo_blank_def nth_splice)
  then show ?thesis
    by (simp add: PartitionGetType_def PartitionVerifyMbrSignature_def MbrGetPartitionType_def byte_at_def)
qed

lemma UpdatePartitionTable_reports_success_without_device_example:
  "UpdatePartitionTable (ram_env EMMC []) (\<lambda>_. (EFI_SUCCESS, [])) demo_globals demo_gpt 34304 NO_LUN [] =
    Some (EFI_SUCCESS, demo_globals, demo_gpt, [])"
  using UpdatePartitionTable_reports_success_without_device [OF demo_type,
      of "\<lambda>_. (EFI_SUCCESS, [])" NO_LUN "[]" 0 "ram_env EMMC []" demo_globals "[]"]
  by (simp add: GetStorageHandle_def GetBlkIOHandles_def)

end
