(* ===== verification/PartitionTable.thy ===== *)
theory PartitionTable
  imports HandleSearch "HOL-Library.Sublist" "HOL-Library.Multiset"
begin

text \<open>
  The in-memory partition table of \<open>BootLib/PartitionTableUpdate.c\<close>: the arrays
  \<open>PtnEntries\<close> and \<open>PtnEntriesBak\<close>, their construction from the partition handles, the lookups
  by name, the exchange of type GUIDs between the two slots, and the boot LUN of a UFS device
  (\<open>UfsGetSetBootLun\<close> of \<open>Board.c\<close>).

  The list \<open>PtnEntries\<close> holds the first \<open>PartitionCount\<close> elements of the array; the rest of the
  array is zero and no loop of the file reads it.
\<close>

section \<open>The table\<close>

record ptn_entry =
  PartitionTypeGUID :: EFI_GUID
  UniquePartitionGUID :: EFI_GUID
  StartingLBA :: u64
  EndingLBA :: u64
  Attributes :: u64
  PartitionName :: string
  lun :: nat

definition zero_guid :: EFI_GUID where
  "zero_guid = GUID 0 0 0 [0, 0, 0, 0, 0, 0, 0, 0]"

definition zero_entry :: ptn_entry where
  "zero_entry = \<lparr>PartitionTypeGUID = zero_guid, UniquePartitionGUID = zero_guid, StartingLBA = 0,
     EndingLBA = 0, Attributes = 0, PartitionName = '''', lun = 0\<rparr>"

record ptn_state =
  PtnEntries :: "ptn_entry list"
  PtnEntriesBak :: "ptn_entry list"
  Ptable :: "HandleInfo list list"
  MaxLuns :: nat
  HeadNode :: "string list"
  FirstBoot :: bool
  lun_sets :: "u32 list"
  misc_writes :: "(u8 \<times> string) list list"
  reset_requested :: bool

text \<open>What the file asks of the firmware around it.\<close>

record ptn_env =
  dev_type :: root_device
  handles :: handle_db
  part_record :: "nat \<Rightarrow> ptn_entry option"
  card_proto :: "nat \<Rightarrow> efi_status \<times> bool"
  get_boot_lu :: "u32 list \<Rightarrow> efi_status \<times> u32"
  set_boot_lu :: "u32 list \<Rightarrow> u32 \<Rightarrow> efi_status"
  alloc_node :: "string \<Rightarrow> bool"
  nand_guid :: efi_status
  nand_read :: "efi_status \<times> (u8 \<times> string) list option"
  variant_user :: bool
  retry_disabled :: bool
  bootdev_image :: bool
  retry_update :: bool

abbreviation MAX_LUNS :: nat where "MAX_LUNS \<equiv> 8"
abbreviation NAME_CHARS :: nat where "NAME_CHARS \<equiv> 36"
abbreviation BOOT_PART_SIZE :: nat where "BOOT_PART_SIZE \<equiv> 32"
abbreviation MAX_PTN :: nat where "MAX_PTN \<equiv> 128"

section \<open>Attribute fields\<close>

abbreviation PART_ATT_PRIORITY_BIT :: nat where "PART_ATT_PRIORITY_BIT \<equiv> 48"
abbreviation PART_ATT_ACTIVE_BIT :: nat where "PART_ATT_ACTIVE_BIT \<equiv> 50"
abbreviation PART_ATT_MAX_RETRY_CNT_BIT :: nat where "PART_ATT_MAX_RETRY_CNT_BIT \<equiv> 51"
abbreviation PART_ATT_SUCCESS_BIT :: nat where "PART_ATT_SUCCESS_BIT \<equiv> 54"
abbreviation PART_ATT_UNBOOTABLE_BIT :: nat where "PART_ATT_UNBOOTABLE_BIT \<equiv> 55"

definition PART_ATT_PRIORITY_VAL :: u64 where
  "PART_ATT_PRIORITY_VAL = push_bit PART_ATT_PRIORITY_BIT 0x3"
definition PART_ATT_ACTIVE_VAL :: u64 where
  "PART_ATT_ACTIVE_VAL = push_bit PART_ATT_ACTIVE_BIT 0x1"
definition PART_ATT_MAX_RETRY_COUNT_VAL :: u64 where
  "PART_ATT_MAX_RETRY_COUNT_VAL = push_bit PART_ATT_MAX_RETRY_CNT_BIT 0x7"
definition PART_ATT_SUCCESSFUL_VAL :: u64 where
  "PART_ATT_SUCCESSFUL_VAL = push_bit PART_ATT_SUCCESS_BIT 0x1"
definition PART_ATT_UNBOOTABLE_VAL :: u64 where
  "PART_ATT_UNBOOTABLE_VAL = push_bit PART_ATT_UNBOOTABLE_BIT 0x1"

abbreviation MAX_PRIORITY :: u64 where "MAX_PRIORITY \<equiv> 3"

lemmas att_vals = PART_ATT_PRIORITY_VAL_def PART_ATT_ACTIVE_VAL_def PART_ATT_MAX_RETRY_COUNT_VAL_def
  PART_ATT_SUCCESSFUL_VAL_def PART_ATT_UNBOOTABLE_VAL_def

text \<open>The value of a field: the masked word shifted down.\<close>

definition att_field :: "u64 \<Rightarrow> nat \<Rightarrow> u64 \<Rightarrow> u64" where
  "att_field val pos a = drop_bit pos (a AND val)"

text \<open>What the code relies on when it reads, sets, clears and stores a field: the mask covers
  \<open>width\<close> adjacent bits.\<close>

locale attr_field =
  fixes val :: u64 and pos :: nat and width :: nat
  assumes val_bits: "bit val n \<longleftrightarrow> pos \<le> n \<and> n < pos + width"
    and fits: "pos + width \<le> 64"
begin

lemma field_set: "att_field val pos (a OR val) = mask width"
  by (rule bit_word_eqI) (use fits in \<open>auto simp: att_field_def bit_simps val_bits\<close>)

lemma field_clear: "att_field val pos (a AND NOT val) = 0"
  by (rule bit_word_eqI) (auto simp: att_field_def bit_simps)

lemma disjoint_bits: "x AND val = 0 \<Longrightarrow> pos \<le> n \<Longrightarrow> n < pos + width \<Longrightarrow> \<not> bit x n"
  using val_bits by (metis bit_and_iff bit_0_eq bot_apply bot_bool_def)

lemma disjoint_shift: "x AND val = 0 \<Longrightarrow> n < width \<Longrightarrow> \<not> bit x (pos + n)"
  using disjoint_bits [of x "pos + n"] by simp

lemma field_set_other: "x AND val = 0 \<Longrightarrow> att_field val pos (a OR x) = att_field val pos a"
  by (rule bit_word_eqI) (auto simp: att_field_def bit_simps val_bits disjoint_shift)

lemma field_clear_other: "x AND val = 0 \<Longrightarrow> att_field val pos (a AND NOT x) = att_field val pos a"
  by (rule bit_word_eqI) (use fits in \<open>auto simp: att_field_def bit_simps val_bits disjoint_shift\<close>)

lemma field_store:
  "take_bit width v = v \<Longrightarrow> att_field val pos ((a AND NOT val) OR push_bit pos v) = v"
proof (rule bit_word_eqI)
  fix n assume v: "take_bit width v = v" and n: "n < LENGTH(64)"
  have "bit v n \<longleftrightarrow> n < width \<and> bit v n" by (subst v [symmetric]) (simp add: bit_simps)
  then show "bit (att_field val pos ((a AND NOT val) OR push_bit pos v)) n = bit v n"
    using fits n by (auto simp: att_field_def bit_simps val_bits)
qed

lemma field_nonzero: "att_field val pos a = 0 \<longleftrightarrow> a AND val = 0"
proof
  assume z: "att_field val pos a = 0"
  show "a AND val = 0"
  proof (rule bit_word_eqI)
    fix n assume "n < LENGTH(64)"
    have "\<not> bit (att_field val pos a) (n - pos)" using z by simp
    then show "bit (a AND val) n = bit 0 n" by (auto simp: att_field_def bit_simps val_bits)
  qed
qed (simp add: att_field_def)

end

lemma mask_literals: "(1 :: u64) = mask 1" "(3 :: u64) = mask 2" "(7 :: u64) = mask 3"
  by (simp_all add: mask_eq_exp_minus_1)

lemma bit_push_mask:
  "p + w \<le> 64 \<Longrightarrow> bit (push_bit p (mask w) :: u64) n \<longleftrightarrow> p \<le> n \<and> n < p + w"
  by (auto simp: bit_simps)

lemma att_val_bits:
  "bit PART_ATT_PRIORITY_VAL n \<longleftrightarrow> 48 \<le> n \<and> n < 50"
  "bit PART_ATT_ACTIVE_VAL n \<longleftrightarrow> 50 \<le> n \<and> n < 51"
  "bit PART_ATT_MAX_RETRY_COUNT_VAL n \<longleftrightarrow> 51 \<le> n \<and> n < 54"
  "bit PART_ATT_SUCCESSFUL_VAL n \<longleftrightarrow> 54 \<le> n \<and> n < 55"
  "bit PART_ATT_UNBOOTABLE_VAL n \<longleftrightarrow> 55 \<le> n \<and> n < 56"
  unfolding att_vals mask_literals by (subst bit_push_mask; simp)+

interpretation att_priority: attr_field PART_ATT_PRIORITY_VAL PART_ATT_PRIORITY_BIT 2
  by unfold_locales (simp_all add: att_val_bits)

interpretation att_active: attr_field PART_ATT_ACTIVE_VAL PART_ATT_ACTIVE_BIT 1
  by unfold_locales (simp_all add: att_val_bits)

interpretation att_retry: attr_field PART_ATT_MAX_RETRY_COUNT_VAL PART_ATT_MAX_RETRY_CNT_BIT 3
  by unfold_locales (simp_all add: att_val_bits)

interpretation att_success: attr_field PART_ATT_SUCCESSFUL_VAL PART_ATT_SUCCESS_BIT 1
  by unfold_locales (simp_all add: att_val_bits)

interpretation att_unbootable: attr_field PART_ATT_UNBOOTABLE_VAL PART_ATT_UNBOOTABLE_BIT 1
  by unfold_locales (simp_all add: att_val_bits)

section \<open>Lookups\<close>

text \<open>\<open>GetPartitionIndex\<close>: the first entry of that name; \<open>None\<close> is \<open>INVALID_PTN\<close>.\<close>

fun ptn_search :: "ptn_entry list \<Rightarrow> string \<Rightarrow> nat \<Rightarrow> nat option" where
  "ptn_search [] Pname i = None"
| "ptn_search (e # es) Pname i =
     (if \<not> StrnCmp (PartitionName e) Pname NAME_CHARS then Some i else ptn_search es Pname (i + 1))"

definition GetPartitionIndex :: "ptn_state \<Rightarrow> string \<Rightarrow> nat option" where
  "GetPartitionIndex st Pname = ptn_search (PtnEntries st) Pname 0"

fun idx_in_lun :: "ptn_entry list \<Rightarrow> string \<Rightarrow> nat \<Rightarrow> nat \<Rightarrow> nat option" where
  "idx_in_lun [] Pname Lun RelativeIndex = None"
| "idx_in_lun (e # es) Pname Lun RelativeIndex =
     (if Lun = lun e then
        if \<not> StrnCmp Pname (PartitionName e) NAME_CHARS then Some RelativeIndex
        else idx_in_lun es Pname Lun (RelativeIndex + 1)
      else idx_in_lun es Pname Lun RelativeIndex)"

definition GetPartitionIdxInLun :: "ptn_state \<Rightarrow> string \<Rightarrow> nat \<Rightarrow> nat option" where
  "GetPartitionIdxInLun st Pname Lun = idx_in_lun (PtnEntries st) Pname Lun 0"

text \<open>An index outside the table is read from the zeroed rest of the array.\<close>

definition GetPartitionLunFromIndex :: "ptn_state \<Rightarrow> nat \<Rightarrow> nat option" where
  "GetPartitionLunFromIndex st Index =
     (if Index < length (PtnEntries st) then Some (lun (PtnEntries st ! Index))
      else if Index < MAX_PTN then Some 0 else None)"

text \<open>\<open>PartitionHasMultiSlot\<close>: more than one entry is the name followed by \<open>_a\<close> or \<open>_b\<close>. A
  character past the end of a name is its terminator or the zero fill.\<close>

definition char_at :: "string \<Rightarrow> nat \<Rightarrow> char option" where
  "char_at s i = (if i < length s then Some (s ! i) else None)"

definition slot_entry :: "string \<Rightarrow> ptn_entry \<Rightarrow> bool" where
  "slot_entry Pname e \<longleftrightarrow> (let Len = length Pname in
     \<not> StrnCmp (PartitionName e) Pname Len \<and>
     char_at (PartitionName e) Len = Some (CHR ''_'') \<and>
     (char_at (PartitionName e) (Len + 1) = Some (CHR ''a'') \<or>
      char_at (PartitionName e) (Len + 1) = Some (CHR ''b'')))"

fun has_multi_slot :: "ptn_entry list \<Rightarrow> string \<Rightarrow> nat \<Rightarrow> bool" where
  "has_multi_slot [] Pname SlotCount = False"
| "has_multi_slot (e # es) Pname SlotCount =
     (if slot_entry Pname e then
        if SlotCount + 1 > 1 then True else has_multi_slot es Pname (SlotCount + 1)
      else has_multi_slot es Pname SlotCount)"

definition PartitionHasMultiSlot :: "ptn_state \<Rightarrow> string \<Rightarrow> bool" where
  "PartitionHasMultiSlot st Pname = has_multi_slot (PtnEntries st) Pname 0"

section \<open>Building the table\<close>

text \<open>\<open>EnumeratePartitions\<close> looks for NAND, then eMMC, then the eight UFS logical units. Each search
  fills one element of \<open>Ptable\<close>; \<open>None\<close> stands for an undefined search.\<close>

definition root_search :: "ptn_env \<Rightarrow> EFI_GUID \<Rightarrow> (efi_status \<times> HandleInfo list \<times> nat) option" where
  "root_search env g = GetBlkIOHandles (handles env) BLK_IO_SEL_MATCH_ROOT_DEVICE (Some (root_filter g)) MAX_PTN"

fun search_luns :: "ptn_env \<Rightarrow> EFI_GUID list \<Rightarrow> efi_status \<Rightarrow>
    (efi_status \<times> (HandleInfo list \<times> nat) list) option" where
  "search_luns env [] last_st = Some (last_st, [])"
| "search_luns env (g # gs) last_st = do {
     (st, found, n) \<leftarrow> root_search env g;
     (st', rest) \<leftarrow> search_luns env gs st;
     Some (st', (found, n) # rest)
   }"

record ptn_table =
  tab_handles :: "(HandleInfo list \<times> nat) list"
  tab_luns :: nat

definition EnumeratePartitions :: "ptn_env \<Rightarrow> nat \<Rightarrow> (efi_status \<times> ptn_table) option" where
  "EnumeratePartitions env luns0 = do {
     (st, found, n) \<leftarrow> root_search env gEfiNandUserPartitionGuid;
     if st = EFI_SUCCESS \<and> n > 0
     then Some (st, \<lparr>tab_handles = [(found, n)], tab_luns = 1\<rparr>)
     else do {
       (st, found, n) \<leftarrow> root_search env gEfiEmmcUserPartitionGuid;
       if st = EFI_SUCCESS \<and> n > 0
       then Some (st, \<lparr>tab_handles = [(found, n)], tab_luns = 1\<rparr>)
       else if EFI_ERROR st \<or> n = 0 then do {
         (st', tabs) \<leftarrow> search_luns env LunGuids st;
         Some (st', \<lparr>tab_handles = tabs, tab_luns = MAX_LUNS\<rparr>)
       }
       else Some (EFI_NOT_FOUND, \<lparr>tab_handles = [(found, n)], tab_luns = luns0\<rparr>)
     }
   }"

text \<open>The entries of one logical unit: a copy of each partition record, or an empty entry for a
  handle without one (the handle of the unit itself). The copies stop at the array size.\<close>

fun lun_entries :: "ptn_env \<Rightarrow> nat \<Rightarrow> HandleInfo option list \<Rightarrow> ptn_entry list \<Rightarrow> ptn_entry list" where
  "lun_entries env i [] acc = acc"
| "lun_entries env i (h # hs) acc =
     (if length acc < MAX_PTN then
        let e = (case h of
                   None \<Rightarrow> zero_entry
                 | Some hi \<Rightarrow> (case part_record env (Handle hi) of
                     None \<Rightarrow> zero_entry
                   | Some PartEntry \<Rightarrow> PartEntry))
        in lun_entries env i hs (acc @ [e\<lparr>lun := i\<rparr>])
      else acc)"

fun table_entries :: "ptn_env \<Rightarrow> nat \<Rightarrow> (HandleInfo list \<times> nat) list \<Rightarrow> ptn_entry list \<Rightarrow> ptn_entry list" where
  "table_entries env i [] acc = acc"
| "table_entries env i ((found, n) # tabs) acc =
     table_entries env (i + 1) tabs
       (lun_entries env i
          (List.map (\<lambda>j. if j < length found then Some (found ! j) else None) [0..<n]) acc)"

section \<open>The boot partition of a slot\<close>

text \<open>\<open>GetBootPartitionEntry\<close>: the index of the entry, \<open>None\<close> for a null pointer. The comparison
  length is that of the suffix, so the empty suffix names slot \<open>_a\<close>.\<close>

definition GetBootPartitionEntry :: "ptn_state \<Rightarrow> string \<Rightarrow> nat option" where
  "GetBootPartitionEntry st Suffix =
     (if \<not> StrnCmp ''_a'' Suffix (length Suffix) then GetPartitionIndex st ''boot_a''
      else if \<not> StrnCmp ''_b'' Suffix (length Suffix) then GetPartitionIndex st ''boot_b''
      else None)"

text \<open>An update of the attribute word of one entry.\<close>

definition upd_attr :: "nat \<Rightarrow> (u64 \<Rightarrow> u64) \<Rightarrow> ptn_state \<Rightarrow> ptn_state" where
  "upd_attr i f st = st\<lparr>PtnEntries := (PtnEntries st)[i := (PtnEntries st ! i)
     \<lparr>Attributes := f (Attributes (PtnEntries st ! i))\<rparr>]\<rparr>"

abbreviation attr_at :: "ptn_state \<Rightarrow> nat \<Rightarrow> u64" where
  "attr_at st i \<equiv> Attributes (PtnEntries st ! i)"

section \<open>Slot attributes of NAND devices\<close>

datatype nand_dir = PTN_ENTRIES_TO_MISC | PTN_ENTRIES_FROM_MISC

text \<open>\<open>StrnCpyS\<close> of a name into the seven-character slot name of the record, with the size passed
  in bytes: a name of 7 to 13 characters overruns the array, a longer one is refused.\<close>

definition copy_slot_name :: "string \<Rightarrow> string \<Rightarrow> string option" where
  "copy_slot_name old nm = (if length nm < 7 then Some nm else if length nm \<ge> 14 then Some old else None)"

fun nand_slots :: "nand_dir \<Rightarrow> string list \<Rightarrow> nat \<Rightarrow> (u8 \<times> string) list \<Rightarrow> ptn_state \<Rightarrow>
    (efi_status \<times> (u8 \<times> string) list \<times> ptn_state) option" where
  "nand_slots dir [] k attrs st = Some (EFI_SUCCESS, attrs, st)"
| "nand_slots dir (sfx # sfxs) k attrs st =
     (case GetBootPartitionEntry st sfx of
        None \<Rightarrow> Some (EFI_NOT_FOUND, attrs, st)
      | Some i \<Rightarrow>
          if k \<ge> length attrs then None
          else case dir of
            PTN_ENTRIES_TO_MISC \<Rightarrow> do {
              nm \<leftarrow> copy_slot_name (snd (attrs ! k)) (PartitionName (PtnEntries st ! i));
              nand_slots dir sfxs (k + 1)
                (attrs[k := (ucast (drop_bit PART_ATT_PRIORITY_BIT (attr_at st i) AND 0xff), nm)]) st
            }
          | PTN_ENTRIES_FROM_MISC \<Rightarrow>
              let (a, nm) = attrs ! k in
              if \<not> StrnCmp (PartitionName (PtnEntries st ! i)) nm 14
              then nand_slots dir sfxs (k + 1) attrs
                     (upd_attr i (\<lambda>_. push_bit PART_ATT_PRIORITY_BIT (ucast (a AND 0xff))) st)
              else nand_slots dir sfxs (k + 1) attrs st)"

definition NandABUpdatePartition :: "ptn_env \<Rightarrow> nand_dir \<Rightarrow> ptn_state \<Rightarrow> (efi_status \<times> ptn_state) option" where
  "NandABUpdatePartition env dir st =
     (if nand_guid env \<noteq> EFI_SUCCESS then Some (nand_guid env, st)
      else if fst (nand_read env) \<noteq> EFI_SUCCESS then Some (fst (nand_read env), st)
      else case snd (nand_read env) of
        None \<Rightarrow> Some (EFI_INVALID_PARAMETER, st)
      | Some attrs \<Rightarrow> do {
          (s, attrs', st') \<leftarrow> nand_slots dir [''_a'', ''_b''] 0 attrs st;
          if s \<noteq> EFI_SUCCESS then Some (s, st')
          else Some (s, if dir = PTN_ENTRIES_TO_MISC
                        then st'\<lparr>misc_writes := misc_writes st' @ [attrs']\<rparr> else st')
        })"

text \<open>\<open>UpdatePartitionEntries\<close>: rebuild the table from the handles found, take the slot attributes
  of a NAND device from its misc partition and back the table up.\<close>

definition UpdatePartitionEntries :: "ptn_env \<Rightarrow> ptn_table \<Rightarrow> ptn_state \<Rightarrow> ptn_state option" where
  "UpdatePartitionEntries env tab st =
     (let st1 = st\<lparr>PtnEntries := table_entries env 0 (take (tab_luns tab) (tab_handles tab)) []\<rparr>
      in do {
        st2 \<leftarrow> (if dev_type env = NAND
                then do { (s, st') \<leftarrow> NandABUpdatePartition env PTN_ENTRIES_FROM_MISC st1; Some st' }
                else Some st1);
        Some (st2\<lparr>PtnEntriesBak := PtnEntries st2\<rparr>)
      })"

section \<open>Persisting attributes\<close>

text \<open>The comparison with the backup is commented out in the source, which returns \<open>FALSE\<close>; the
  first test of \<open>UpdatePartitionAttributes\<close> then always leaves the routine, and nothing is written
  back to the device. The rest of the routine is unreachable and is not modelled.\<close>

definition IsUpdatePartitionAttributes :: "ptn_state \<Rightarrow> bool" where
  "IsUpdatePartitionAttributes st = False"

definition UpdatePartitionAttributes :: "ptn_state \<Rightarrow> ptn_state" where
  "UpdatePartitionAttributes st = st"

section \<open>The boot logical unit\<close>

text \<open>\<open>UfsGetSetBootLun\<close>: the status, the LUN left in the caller's variable and the state. The
  first handle is used without a check that one was found.\<close>

definition UfsGetSetBootLun :: "ptn_env \<Rightarrow> ptn_state \<Rightarrow> u32 \<Rightarrow> bool \<Rightarrow> (efi_status \<times> u32 \<times> ptn_state) option" where
  "UfsGetSetBootLun env st UfsBootlun IsGet = do {
     (s, hs, n) \<leftarrow> root_search env (LunGuids ! 0);
     if EFI_ERROR s then Some (EFI_NOT_FOUND, UfsBootlun, st)
     else if hs = [] then None
     else
       let (s', current) = card_proto env (Handle (hs ! 0)) in
       if s' \<noteq> EFI_SUCCESS then Some (s', UfsBootlun, st)
       else if \<not> current then Some (EFI_NOT_FOUND, UfsBootlun, st)
       else if IsGet then
         Some (s', if fst (get_boot_lu env (lun_sets st)) = EFI_SUCCESS
                   then snd (get_boot_lu env (lun_sets st)) else UfsBootlun, st)
       else Some (s', UfsBootlun, st\<lparr>lun_sets := lun_sets st @ [UfsBootlun]\<rparr>)
   }"

section \<open>Lookups depend on the names only\<close>

definition names_of :: "ptn_state \<Rightarrow> string list" where
  "names_of st = List.map PartitionName (PtnEntries st)"

lemma ptn_search_names:
  "List.map PartitionName es = List.map PartitionName es' \<Longrightarrow> ptn_search es nm i = ptn_search es' nm i"
proof (induction es arbitrary: es' i)
  case (Cons e es)
  then show ?case by (cases es') auto
qed simp

lemma GetPartitionIndex_names: "names_of st = names_of st' \<Longrightarrow> GetPartitionIndex st nm = GetPartitionIndex st' nm"
  unfolding names_of_def GetPartitionIndex_def by (rule ptn_search_names)

lemma GetBootPartitionEntry_names:
  "names_of st = names_of st' \<Longrightarrow> GetBootPartitionEntry st sfx = GetBootPartitionEntry st' sfx"
  using GetPartitionIndex_names [of st st'] by (simp only: GetBootPartitionEntry_def)

lemma ptn_search_sound:
  "ptn_search es nm i = Some k \<Longrightarrow> i \<le> k \<and> k < i + length es \<and> \<not> StrnCmp (PartitionName (es ! (k - i))) nm NAME_CHARS"
proof (induction es arbitrary: i)
  case (Cons e es)
  show ?case
  proof (cases "StrnCmp (PartitionName e) nm NAME_CHARS")
    case True
    then have k: "ptn_search es nm (i + 1) = Some k" using Cons.prems by simp
    from Cons.IH [OF this] have "k - i = Suc (k - (i + 1))" by linarith
    then show ?thesis using Cons.IH [OF k] by simp
  qed (use Cons.prems in auto)
qed simp

lemma GetPartitionIndex_sound:
  assumes "GetPartitionIndex st nm = Some k"
  shows "k < length (PtnEntries st)" "\<not> StrnCmp (PartitionName (PtnEntries st ! k)) nm NAME_CHARS"
  using ptn_search_sound [OF assms [unfolded GetPartitionIndex_def]] by auto

text \<open>Names fit the 36 characters of the record, and both boot partitions exist.\<close>

definition two_slots :: "ptn_state \<Rightarrow> nat \<Rightarrow> nat \<Rightarrow> bool" where
  "two_slots st a b \<longleftrightarrow> (\<forall>nm\<in>set (names_of st). length nm \<le> NAME_CHARS) \<and>
     GetPartitionIndex st ''boot_a'' = Some a \<and> GetPartitionIndex st ''boot_b'' = Some b"

lemma boot_entry_simps [simp]:
  "GetBootPartitionEntry st ''_a'' = GetPartitionIndex st ''boot_a''"
  "GetBootPartitionEntry st ''_b'' = GetPartitionIndex st ''boot_b''"
  by (simp_all add: GetBootPartitionEntry_def StrnCmp_def)

lemma two_slots_names: "names_of st = names_of st' \<Longrightarrow> two_slots st a b \<longleftrightarrow> two_slots st' a b"
  using GetPartitionIndex_names [of st st'] by (simp only: two_slots_def)

lemma two_slots_facts:
  assumes "two_slots st a b"
  shows "a < length (PtnEntries st)" "b < length (PtnEntries st)" "a \<noteq> b"
    "PartitionName (PtnEntries st ! a) = ''boot_a''" "PartitionName (PtnEntries st ! b) = ''boot_b''"
proof -
  have l: "length (PartitionName (PtnEntries st ! k)) \<le> NAME_CHARS" if "k < length (PtnEntries st)" for k
    using assms that by (auto simp: two_slots_def names_of_def)
  note a = GetPartitionIndex_sound [of st "''boot_a''" a] and b = GetPartitionIndex_sound [of st "''boot_b''" b]
  show "a < length (PtnEntries st)" "b < length (PtnEntries st)" using assms a(1) b(1) by (auto simp: two_slots_def)
  then show n: "PartitionName (PtnEntries st ! a) = ''boot_a''" "PartitionName (PtnEntries st ! b) = ''boot_b''"
    using assms a(2) b(2) l [of a] l [of b] StrnCmp_all by (auto simp: two_slots_def)
  then show "a \<noteq> b" by auto
qed

lemma names_upd_attr [simp]: "names_of (upd_attr i f st) = names_of st"
  by (simp add: names_of_def upd_attr_def map_update list_update_same_conv
    del: list_update_id) (metis list_update_id map_update nth_map list_update_beyond length_map not_le)

lemma length_upd_attr [simp]: "length (PtnEntries (upd_attr i f st)) = length (PtnEntries st)"
  by (simp add: upd_attr_def)

lemma attr_upd_attr:
  "k < length (PtnEntries st) \<Longrightarrow> attr_at (upd_attr i f st) k = (if i = k then f (attr_at st k) else attr_at st k)"
  by (simp add: upd_attr_def nth_list_update)

lemma names_irrelevant [simp]:
  "names_of (st\<lparr>FirstBoot := x\<rparr>) = names_of st" "names_of (st\<lparr>lun_sets := y\<rparr>) = names_of st"
  "names_of (st\<lparr>HeadNode := z\<rparr>) = names_of st" "names_of (st\<lparr>reset_requested := w\<rparr>) = names_of st"
  by (simp_all add: names_of_def)

section \<open>The table is a bounded, ordered copy of the handles\<close>

lemma lun_entries_spec:
  "\<exists>new. lun_entries env i hs acc = acc @ new \<and> (\<forall>e\<in>set new. lun e = i) \<and>
     (length acc \<le> MAX_PTN \<longrightarrow> length (acc @ new) \<le> MAX_PTN)"
proof (induction env i hs acc rule: lun_entries.induct)
  case (2 env i h hs acc)
  show ?case
  proof (cases "length acc < MAX_PTN")
    case True
    from 2 [OF True refl] show ?thesis using True by (fastforce simp: Let_def)
  qed simp
qed simp

lemma all_lun_sorted: "\<forall>e\<in>set es. lun e = i \<Longrightarrow> sorted (List.map lun es)"
  by (induction es) auto

lemma table_entries_spec:
  "sorted (List.map lun acc) \<Longrightarrow> (\<forall>e\<in>set acc. lun e \<le> i) \<Longrightarrow> length acc \<le> MAX_PTN \<Longrightarrow>
   sorted (List.map lun (table_entries env i tabs acc)) \<and> length (table_entries env i tabs acc) \<le> MAX_PTN"
proof (induction env i tabs acc rule: table_entries.induct)
  case (2 env i found n tabs acc)
  obtain new where new: "lun_entries env i
      (List.map (\<lambda>j. if j < length found then Some (found ! j) else None) [0..<n]) acc = acc @ new"
    "\<forall>e\<in>set new. lun e = i" "length (acc @ new) \<le> MAX_PTN"
    using lun_entries_spec 2(4) by blast
  have "sorted (List.map lun (acc @ new))"
    using 2(2,3) new(2) all_lun_sorted [OF new(2)] by (simp add: sorted_append)
  moreover have "\<forall>e\<in>set (acc @ new). lun e \<le> i + 1" using 2(3) new(2) by auto
  ultimately show ?case using 2(1) new by simp
qed simp

text \<open>The partition table never exceeds its 128 entries and lists the partitions by logical unit,
  which the routines that stop at the first entry of a later unit rely on.\<close>

theorem UpdatePartitionEntries_bounded:
  assumes "UpdatePartitionEntries env tab st = Some st'" and "dev_type env \<noteq> NAND"
  shows "length (PtnEntries st') \<le> 128 \<and> sorted (List.map lun (PtnEntries st')) \<and>
    PtnEntriesBak st' = PtnEntries st'"
  using assms table_entries_spec [of "[]" 0 env "take (tab_luns tab) (tab_handles tab)"]
  by (auto simp: UpdatePartitionEntries_def Let_def)

end
