(* ===== verification/SlotManager.thy ===== *)
theory SlotManager
  imports PartitionTable
begin

text \<open>
  The A/B slot manager of \<open>BootLib/PartitionTableUpdate.c\<close>: which slot is active, making a slot
  active, falling back when the active slot cannot boot, and finding the slot to boot. Every
  routine is a function of the environment and the partition state; a status, the slot suffix it
  leaves in the caller's structure and the new state are its result.
\<close>

section \<open>Library routines on names\<close>

text \<open>\<open>StrStr\<close> is non-null when the second string occurs in the first.\<close>

fun StrStr :: "string \<Rightarrow> string \<Rightarrow> bool" where
  "StrStr [] pat \<longleftrightarrow> pat = []"
| "StrStr (c # cs) pat \<longleftrightarrow> take (length pat) (c # cs) = pat \<or> StrStr cs pat"

lemma StrStr_iff: "StrStr s pat \<longleftrightarrow> (\<exists>u v. s = u @ pat @ v)"
proof (induction s)
  case (Cons c cs)
  have "take (length pat) (c # cs) = pat \<longleftrightarrow> (\<exists>v. c # cs = pat @ v)"
    by (metis append_eq_conv_conj append_take_drop_id)
  then show ?case
    using Cons by (auto simp: Cons_eq_append_conv)
qed auto

text \<open>\<open>StrnCpyS\<close> and \<open>StrnCatS\<close> into a buffer of \<open>m\<close> characters: a source that does not fit is
  refused and the buffer kept.\<close>

definition StrnCpyS :: "string \<Rightarrow> nat \<Rightarrow> string \<Rightarrow> nat \<Rightarrow> string" where
  "StrnCpyS dest m source n = (if min (length source) n < m then take n source else dest)"

definition StrnCatS :: "string \<Rightarrow> nat \<Rightarrow> string \<Rightarrow> nat \<Rightarrow> string" where
  "StrnCatS dest m source n =
     (if length dest + min (length source) n < m then dest @ take n source else dest)"

section \<open>Marking and exchanging partitions\<close>

definition mark_active :: "string \<Rightarrow> ptn_entry \<Rightarrow> ptn_entry" where
  "mark_active ActiveSlot e =
     (if StrStr (PartitionName e) ActiveSlot
      then e\<lparr>Attributes := Attributes e OR PART_ATT_ACTIVE_VAL\<rparr>
      else e\<lparr>Attributes := Attributes e AND NOT PART_ATT_ACTIVE_VAL\<rparr>)"

definition MarkPtnActive :: "string \<Rightarrow> ptn_state \<Rightarrow> ptn_state" where
  "MarkPtnActive ActiveSlot st =
     UpdatePartitionAttributes (st\<lparr>PtnEntries := List.map (mark_active ActiveSlot) (PtnEntries st)\<rparr>)"

text \<open>\<open>SwapPtnGuid\<close> on two table indices, \<open>None\<close> for a null pointer.\<close>

definition SwapPtnGuid :: "nat option \<Rightarrow> nat option \<Rightarrow> ptn_entry list \<Rightarrow> ptn_entry list" where
  "SwapPtnGuid p1 p2 es = (case (p1, p2) of
     (Some i, Some j) \<Rightarrow>
       let Temp = PartitionTypeGUID (es ! i);
           es1 = es[i := (es ! i)\<lparr>PartitionTypeGUID := PartitionTypeGUID (es ! j)\<rparr>]
       in es1[j := (es1 ! j)\<lparr>PartitionTypeGUID := Temp\<rparr>]
   | _ \<Rightarrow> es)"

section \<open>The partitions with two slots\<close>

text \<open>The inner loop of \<open>GetMultiSlotPartsList\<close>: a later entry whose name differs in the last
  character only.\<close>

definition slot_pair :: "string \<Rightarrow> ptn_entry \<Rightarrow> bool" where
  "slot_pair SearchString e \<longleftrightarrow>
     PartitionName e \<noteq> '''' \<and> length (PartitionName e) = length SearchString \<and>
     \<not> StrnCmp (PartitionName e) SearchString (length SearchString - 1) \<and>
     (StrStr SearchString ''_a'' \<or> StrStr SearchString ''_b'')"

text \<open>The outer loop, with the list built so far. A node name of 32 or more characters would
  overrun the node (the size is passed in bytes); allocation failure ends the routine.\<close>

fun multi_slot_list :: "(string \<Rightarrow> bool) \<Rightarrow> ptn_entry list \<Rightarrow> string list \<Rightarrow> (efi_status \<times> string list) option" where
  "multi_slot_list alloc [] Head = Some (EFI_SUCCESS, Head)"
| "multi_slot_list alloc (e # es) Head =
     (let SearchString = PartitionName e; Len = length SearchString in
      if SearchString = '''' then multi_slot_list alloc es Head
      else if list_ex (slot_pair SearchString) es then
        if \<not> alloc SearchString then Some (EFI_OUT_OF_RESOURCES, Head)
        else if Len - 2 \<ge> BOOT_PART_SIZE then None
        else multi_slot_list alloc es (take (Len - 2) SearchString # Head)
      else multi_slot_list alloc es Head)"

definition GetMultiSlotPartsList :: "(string \<Rightarrow> bool) \<Rightarrow> ptn_state \<Rightarrow> (efi_status \<times> ptn_state) option" where
  "GetMultiSlotPartsList alloc st = do {
     (s, Head) \<leftarrow> multi_slot_list alloc (PtnEntries st) (HeadNode st);
     Some (s, st\<lparr>HeadNode := Head\<rparr>)
   }"

text \<open>The search for the entries of the two names: the last match wins, and an entry that matches
  the first name is not considered for the second.\<close>

fun find_pair :: "string \<Rightarrow> string \<Rightarrow> ptn_entry list \<Rightarrow> nat \<Rightarrow> nat option \<Rightarrow> nat option \<Rightarrow>
    nat option \<times> nat option" where
  "find_pair CurSlot NewSlot [] i cur new = (cur, new)"
| "find_pair CurSlot NewSlot (e # es) i cur new =
     (if \<not> StrnCmp (PartitionName e) CurSlot (length CurSlot)
      then find_pair CurSlot NewSlot es (i + 1) (Some i) new
      else if \<not> StrnCmp (PartitionName e) NewSlot (length NewSlot)
      then find_pair CurSlot NewSlot es (i + 1) cur (Some i)
      else find_pair CurSlot NewSlot es (i + 1) cur new)"

definition switch_node :: "string \<Rightarrow> string \<Rightarrow> string \<Rightarrow> ptn_entry list \<Rightarrow> ptn_entry list" where
  "switch_node SetActive SetInactive node es =
     (let CurSlot = StrnCatS (StrnCpyS '''' BOOT_PART_SIZE node (length node)) BOOT_PART_SIZE
                      SetInactive (length SetInactive);
          NewSlot = StrnCatS (StrnCpyS '''' BOOT_PART_SIZE node (length node)) BOOT_PART_SIZE
                      SetActive (length SetActive);
          (PtnCurrent, PtnNew) = find_pair CurSlot NewSlot es 0 None None
      in SwapPtnGuid PtnCurrent PtnNew es)"

text \<open>The boot LUN follows the slot: 1 for \<open>_a\<close>, 2 for \<open>_b\<close>.\<close>

definition lun_for :: "string \<Rightarrow> u32 \<Rightarrow> u32" where
  "lun_for SetActive UfsBootLun =
     (if UfsBootLun = 1 \<and> \<not> StrnCmp SetActive ''_b'' 2 then 2
      else if UfsBootLun = 2 \<and> \<not> StrnCmp SetActive ''_a'' 2 then 1
      else UfsBootLun)"

definition SwitchPtnSlots :: "ptn_env \<Rightarrow> string \<Rightarrow> ptn_state \<Rightarrow> ptn_state option" where
  "SwitchPtnSlots env SetActive st = do {
     let SetInactive = (if \<not> StrnCmp SetActive ''_a'' 2 then ''_b'' else ''_a'');
     (s, st1) \<leftarrow> (if HeadNode st = [] then GetMultiSlotPartsList (alloc_node env) st else Some (EFI_SUCCESS, st));
     if s \<noteq> EFI_SUCCESS then Some st1
     else
       let st2 = st1\<lparr>PtnEntries := fold (switch_node SetActive SetInactive) (HeadNode st1) (PtnEntries st1)\<rparr>
       in if dev_type env = UFS then do {
            (_, l, st3) \<leftarrow> UfsGetSetBootLun env st2 0 True;
            (_, _, st4) \<leftarrow> UfsGetSetBootLun env st3 (lun_for SetActive l) False;
            Some (UpdatePartitionAttributes st4)
          }
          else Some (UpdatePartitionAttributes st2)
   }"

section \<open>The active slot\<close>

definition IsSuffixEmpty :: "string option \<Rightarrow> bool" where
  "IsSuffixEmpty CheckSlot = (case CheckSlot of None \<Rightarrow> True | Some s \<Rightarrow> length s = 0)"

text \<open>The loop over the slots: the status and the suffix of the best active slot so far.\<close>

fun active_scan :: "ptn_state \<Rightarrow> string list \<Rightarrow> u64 \<Rightarrow> string \<Rightarrow> efi_status \<times> string" where
  "active_scan st [] Priority ActiveSlot = (EFI_SUCCESS, ActiveSlot)"
| "active_scan st (slot # slots) Priority ActiveSlot =
     (case GetBootPartitionEntry st slot of
        None \<Rightarrow> (EFI_NOT_FOUND, ActiveSlot)
      | Some i \<Rightarrow>
          let BootPriority = att_field PART_ATT_PRIORITY_VAL PART_ATT_PRIORITY_BIT (attr_at st i) in
          if attr_at st i AND PART_ATT_ACTIVE_VAL \<noteq> 0 \<and> BootPriority > Priority
          then active_scan st slots BootPriority (StrnCpyS ActiveSlot 3 slot (length slot))
          else active_scan st slots Priority ActiveSlot)"

text \<open>\<open>GetActiveSlot\<close>, given the content of the caller's structure: status, suffix and state. On the
  first boot, with all slot attributes of \<open>boot_a\<close> clear, slot \<open>_a\<close> becomes the default.\<close>

definition GetActiveSlot :: "ptn_state \<Rightarrow> string \<Rightarrow> efi_status \<times> string \<times> ptn_state" where
  "GetActiveSlot st ActiveSlot =
     (case active_scan st [''_a'', ''_b''] 0 ActiveSlot of (s, found) \<Rightarrow>
        if s \<noteq> EFI_SUCCESS then (s, found, st)
        else if IsSuffixEmpty (Some found) then
          (case GetBootPartitionEntry st ''_a'' of
             None \<Rightarrow> (EFI_NOT_FOUND, found, st)
           | Some i \<Rightarrow>
               let BootPriority = att_field PART_ATT_PRIORITY_VAL PART_ATT_PRIORITY_BIT (attr_at st i) in
               if attr_at st i AND PART_ATT_ACTIVE_VAL = 0 \<and>
                  attr_at st i AND PART_ATT_SUCCESSFUL_VAL = 0 \<and>
                  attr_at st i AND PART_ATT_UNBOOTABLE_VAL = 0 \<and> BootPriority = 0
               then
                 let st1 = upd_attr i (\<lambda>a. (a AND (NOT PART_ATT_SUCCESSFUL_VAL AND NOT PART_ATT_UNBOOTABLE_VAL))
                             OR (PART_ATT_PRIORITY_VAL OR PART_ATT_ACTIVE_VAL OR
                                 PART_ATT_MAX_RETRY_COUNT_VAL)) st
                 in (EFI_SUCCESS, StrnCpyS found 3 ''_a'' 2,
                     (UpdatePartitionAttributes st1)\<lparr>FirstBoot := True\<rparr>)
               else (EFI_NOT_FOUND, found, st))
        else (EFI_SUCCESS, found, st))"

definition GetCurrentSlotSuffix :: "ptn_state \<Rightarrow> string \<times> ptn_state" where
  "GetCurrentSlotSuffix st =
     (if \<not> PartitionHasMultiSlot st ''boot'' then ('''', st)
      else let (_, sfx, st') = GetActiveSlot st '''' in (sfx, st'))"

definition IsCurrentSlotBootable :: "ptn_state \<Rightarrow> bool \<times> ptn_state" where
  "IsCurrentSlotBootable st =
     (let (s, sfx, st') = GetActiveSlot st '''' in
      if s \<noteq> EFI_SUCCESS then (False, st')
      else case GetBootPartitionEntry st' sfx of
        None \<Rightarrow> (False, st')
      | Some i \<Rightarrow> (attr_at st' i AND PART_ATT_UNBOOTABLE_VAL = 0 \<and>
                   attr_at st' i AND PART_ATT_SUCCESSFUL_VAL \<noteq> 0, st'))"

section \<open>Making a slot active\<close>

text \<open>The boot LUN of a UFS device whose active slot was not changed.\<close>

definition fix_boot_lun :: "ptn_env \<Rightarrow> string \<Rightarrow> ptn_state \<Rightarrow> ptn_state option" where
  "fix_boot_lun env CurrentSlot st =
     (if dev_type env = UFS then do {
        (_, l, st1) \<leftarrow> UfsGetSetBootLun env st 0 True;
        if l = 1 \<and> \<not> StrnCmp CurrentSlot ''_b'' 2 then do {
          (_, _, st2) \<leftarrow> UfsGetSetBootLun env st1 2 False; Some st2
        }
        else if l = 2 \<and> \<not> StrnCmp CurrentSlot ''_a'' 2 then do {
          (_, _, st2) \<leftarrow> UfsGetSetBootLun env st1 1 False; Some st2
        }
        else Some st1
      }
      else Some st)"

definition promote :: "bool \<Rightarrow> u64 \<Rightarrow> u64" where
  "promote ResetSuccessBit a =
     (let a1 = (a OR (PART_ATT_PRIORITY_VAL OR PART_ATT_ACTIVE_VAL OR PART_ATT_MAX_RETRY_COUNT_VAL))
                 AND NOT PART_ATT_UNBOOTABLE_VAL
      in if ResetSuccessBit \<and> a1 AND PART_ATT_SUCCESSFUL_VAL \<noteq> 0
         then a1 AND NOT PART_ATT_SUCCESSFUL_VAL else a1)"

definition demote :: "u64 \<Rightarrow> u64" where
  "demote a = (a AND (NOT PART_ATT_PRIORITY_VAL AND NOT PART_ATT_ACTIVE_VAL))
     OR push_bit PART_ATT_PRIORITY_BIT (MAX_PRIORITY - 1)"

definition SetActiveSlot :: "ptn_env \<Rightarrow> string option \<Rightarrow> bool \<Rightarrow> ptn_state \<Rightarrow> (efi_status \<times> ptn_state) option" where
  "SetActiveSlot env NewSlotPtr ResetSuccessBit st =
     (case NewSlotPtr of
        None \<Rightarrow> Some (EFI_INVALID_PARAMETER, st)
      | Some NewSlot \<Rightarrow>
          let (s, CurrentSlot, st1) = GetActiveSlot st '''' in
          if s \<noteq> EFI_SUCCESS then Some (s, st1)
          else
            let AlternateSlot = (if \<not> StrnCmp NewSlot ''_a'' 2 then ''_b'' else ''_a'') in
            case GetBootPartitionEntry st1 NewSlot of
              None \<Rightarrow> Some (EFI_NOT_FOUND, st1)
            | Some i \<Rightarrow>
                let st2 = upd_attr i (promote ResetSuccessBit) st1 in
                case GetBootPartitionEntry st2 AlternateSlot of
                  None \<Rightarrow> Some (EFI_NOT_FOUND, st2)
                | Some j \<Rightarrow>
                    let st3 = UpdatePartitionAttributes (upd_attr j demote st2) in
                    if \<not> StrnCmp CurrentSlot NewSlot (length CurrentSlot) then do {
                      st4 \<leftarrow> fix_boot_lun env CurrentSlot st3;
                      Some (EFI_SUCCESS, st4)
                    }
                    else do {
                      st4 \<leftarrow> SwitchPtnSlots env NewSlot st3;
                      Some (EFI_SUCCESS, MarkPtnActive NewSlot st4)
                    })"

section \<open>Falling back and booting\<close>

definition HandleActiveSlotUnbootable :: "ptn_env \<Rightarrow> ptn_state \<Rightarrow> (efi_status \<times> ptn_state) option" where
  "HandleActiveSlotUnbootable env st =
     (let (s, ActiveSlot, st1) = GetActiveSlot st '''' in
      if s \<noteq> EFI_SUCCESS then Some (s, st1)
      else case GetBootPartitionEntry st1 ActiveSlot of
        None \<Rightarrow> Some (EFI_NOT_FOUND, st1)
      | Some i \<Rightarrow>
          let st2 = (if FirstBoot st1 \<and> \<not> variant_user env then st1\<lparr>FirstBoot := False\<rparr>
                     else UpdatePartitionAttributes
                       (upd_attr i (\<lambda>a. a OR (PART_ATT_UNBOOTABLE_VAL AND NOT PART_ATT_SUCCESSFUL_VAL)) st1));
              AlternateSlot = (if \<not> StrnCmp ActiveSlot ''_a'' 2 then ''_b'' else ''_a'')
          in case GetBootPartitionEntry st2 AlternateSlot of
               None \<Rightarrow> Some (EFI_NOT_FOUND, st2)
             | Some j \<Rightarrow>
                 let Unbootable = att_field PART_ATT_UNBOOTABLE_VAL PART_ATT_UNBOOTABLE_BIT (attr_at st2 j);
                     BootSuccess = att_field PART_ATT_SUCCESSFUL_VAL PART_ATT_SUCCESS_BIT (attr_at st2 j)
                 in if Unbootable = 0 \<and> BootSuccess = 1 then do {
                      (s, st3) \<leftarrow> SetActiveSlot env (Some AlternateSlot) False st2;
                      if s \<noteq> EFI_SUCCESS then Some (s, st3)
                      else Some (EFI_LOAD_ERROR, st3\<lparr>reset_requested := True\<rparr>)
                    }
                    else Some (EFI_LOAD_ERROR, st2))"

definition ClearUnbootable :: "ptn_state \<Rightarrow> efi_status \<times> ptn_state" where
  "ClearUnbootable st =
     (let (s, ActiveSlot, st1) = GetActiveSlot st '''' in
      if s \<noteq> EFI_SUCCESS then (s, st1)
      else case GetBootPartitionEntry st1 ActiveSlot of
        None \<Rightarrow> (EFI_NOT_FOUND, st1)
      | Some i \<Rightarrow> (EFI_SUCCESS,
          UpdatePartitionAttributes (upd_attr i (\<lambda>a. a AND NOT PART_ATT_UNBOOTABLE_VAL) st1)))"

text \<open>\<open>ValidateSlotGuids\<close>: the boot partition and the \<open>abl\<close> partition of the slot must not share
  their type GUID, and the boot LUN of a UFS device must belong to the slot.\<close>

definition ValidateSlotGuids :: "ptn_env \<Rightarrow> string \<Rightarrow> ptn_state \<Rightarrow> efi_status option" where
  "ValidateSlotGuids env BootableSlot st =
     (case GetBootPartitionEntry st BootableSlot of
        None \<Rightarrow> Some EFI_NOT_FOUND
      | Some i \<Rightarrow>
          if BootableSlot = '''' then None
          else case GetPartitionIndex st (''abl_'' @ [last BootableSlot]) of
            None \<Rightarrow> Some EFI_NOT_FOUND
          | Some j \<Rightarrow>
              if PartitionTypeGUID (PtnEntries st ! i) = PartitionTypeGUID (PtnEntries st ! j)
              then Some EFI_DEVICE_ERROR
              else if dev_type env = UFS then do {
                (s, l, _) \<leftarrow> UfsGetSetBootLun env st 0 True;
                Some (if s \<noteq> EFI_SUCCESS then s
                      else if l = 1 \<and> BootableSlot = ''_a'' then EFI_SUCCESS
                      else if l = 2 \<and> BootableSlot = ''_b'' then EFI_SUCCESS
                      else EFI_DEVICE_ERROR)
              }
              else if dev_type env = EMMC then Some EFI_SUCCESS
              else Some EFI_DEVICE_ERROR)"

text \<open>The retry bookkeeping of the boot entry at index \<open>i\<close>: the status and the state.\<close>

definition boot_attempt :: "ptn_env \<Rightarrow> nat \<Rightarrow> ptn_state \<Rightarrow> (efi_status \<times> ptn_state) option" where
  "boot_attempt env i st =
     (let Unbootable = att_field PART_ATT_UNBOOTABLE_VAL PART_ATT_UNBOOTABLE_BIT (attr_at st i);
          BootSuccess = att_field PART_ATT_SUCCESSFUL_VAL PART_ATT_SUCCESS_BIT (attr_at st i);
          RetryCount = att_field PART_ATT_MAX_RETRY_COUNT_VAL PART_ATT_MAX_RETRY_CNT_BIT (attr_at st i)
      in if Unbootable = 0 \<and> BootSuccess = 1 then Some (EFI_SUCCESS, st)
         else if Unbootable = 0 \<and> BootSuccess = 0 \<and> RetryCount > 0 then
           if (\<not> retry_disabled env \<and> \<not> bootdev_image env) \<and> retry_update env
           then Some (EFI_SUCCESS, UpdatePartitionAttributes
             (upd_attr i (\<lambda>a. (a AND NOT PART_ATT_MAX_RETRY_COUNT_VAL)
                OR push_bit PART_ATT_MAX_RETRY_CNT_BIT (RetryCount - 1)) st))
           else Some (EFI_SUCCESS, st)
         else HandleActiveSlotUnbootable env st)"

text \<open>\<open>FindBootableSlot\<close>: status, the suffix left in the caller's structure and the state.\<close>

definition FindBootableSlot :: "ptn_env \<Rightarrow> string option \<Rightarrow> ptn_state \<Rightarrow>
    (efi_status \<times> string \<times> ptn_state) option" where
  "FindBootableSlot env BootablePtr st =
     (case BootablePtr of
        None \<Rightarrow> Some (EFI_INVALID_PARAMETER, '''', st)
      | Some Suffix0 \<Rightarrow>
          let (s, BootableSlot, st1) = GetActiveSlot st Suffix0 in
          if s \<noteq> EFI_SUCCESS then Some (s, BootableSlot, st1)
          else case GetBootPartitionEntry st1 BootableSlot of
            None \<Rightarrow> Some (EFI_NOT_FOUND, BootableSlot, st1)
          | Some i \<Rightarrow> do {
              (s2, st2) \<leftarrow> boot_attempt env i st1;
              if s2 \<noteq> EFI_SUCCESS then Some (s2, '''', st2)
              else do {
                s3 \<leftarrow> (if dev_type env \<noteq> NAND then ValidateSlotGuids env BootableSlot st2
                       else Some EFI_SUCCESS);
                if s3 \<noteq> EFI_SUCCESS then Some (s3, '''', st2)
                else Some (EFI_SUCCESS, BootableSlot, MarkPtnActive BootableSlot st2)
              }
            })"

section \<open>Fields after the updates\<close>

abbreviation prio :: "u64 \<Rightarrow> u64" where "prio \<equiv> att_field PART_ATT_PRIORITY_VAL PART_ATT_PRIORITY_BIT"
abbreviation active :: "u64 \<Rightarrow> u64" where "active \<equiv> att_field PART_ATT_ACTIVE_VAL PART_ATT_ACTIVE_BIT"
abbreviation retries :: "u64 \<Rightarrow> u64" where
  "retries \<equiv> att_field PART_ATT_MAX_RETRY_COUNT_VAL PART_ATT_MAX_RETRY_CNT_BIT"
abbreviation successful :: "u64 \<Rightarrow> u64" where
  "successful \<equiv> att_field PART_ATT_SUCCESSFUL_VAL PART_ATT_SUCCESS_BIT"
abbreviation unbootable :: "u64 \<Rightarrow> u64" where
  "unbootable \<equiv> att_field PART_ATT_UNBOOTABLE_VAL PART_ATT_UNBOOTABLE_BIT"

text \<open>The masks do not overlap, so the laws of \<open>attr_field\<close> for the other fields apply.\<close>

lemma masks_disjoint:
  "x \<in> {PART_ATT_PRIORITY_VAL, PART_ATT_ACTIVE_VAL, PART_ATT_MAX_RETRY_COUNT_VAL, PART_ATT_SUCCESSFUL_VAL,
        PART_ATT_UNBOOTABLE_VAL} \<Longrightarrow>
   y \<in> {PART_ATT_PRIORITY_VAL, PART_ATT_ACTIVE_VAL, PART_ATT_MAX_RETRY_COUNT_VAL, PART_ATT_SUCCESSFUL_VAL,
        PART_ATT_UNBOOTABLE_VAL} \<Longrightarrow> x \<noteq> y \<Longrightarrow> x AND y = 0"
  by (auto simp: att_vals)

lemmas att_laws [attr_simps] =
  att_priority.field_set att_active.field_set att_retry.field_set att_success.field_set att_unbootable.field_set
  att_priority.field_clear att_active.field_clear att_retry.field_clear att_success.field_clear
  att_unbootable.field_clear

lemma att_other [attr_simps]:
  "prio (a OR PART_ATT_ACTIVE_VAL) = prio a" "prio (a AND NOT PART_ATT_ACTIVE_VAL) = prio a"
  "prio (a AND NOT PART_ATT_UNBOOTABLE_VAL) = prio a" "prio (a AND NOT PART_ATT_SUCCESSFUL_VAL) = prio a"
  "retries (a OR PART_ATT_ACTIVE_VAL) = retries a" "retries (a AND NOT PART_ATT_ACTIVE_VAL) = retries a"
  "retries (a AND NOT PART_ATT_UNBOOTABLE_VAL) = retries a"
  "retries (a AND NOT PART_ATT_SUCCESSFUL_VAL) = retries a"
  "successful (a OR PART_ATT_ACTIVE_VAL) = successful a"
  "successful (a AND NOT PART_ATT_ACTIVE_VAL) = successful a"
  "successful (a OR PART_ATT_UNBOOTABLE_VAL) = successful a"
  "unbootable (a OR PART_ATT_ACTIVE_VAL) = unbootable a"
  "unbootable (a AND NOT PART_ATT_ACTIVE_VAL) = unbootable a"
  "unbootable (a AND NOT PART_ATT_SUCCESSFUL_VAL) = unbootable a"
  "active (a AND NOT PART_ATT_UNBOOTABLE_VAL) = active a" "active (a AND NOT PART_ATT_SUCCESSFUL_VAL) = active a"
  by (rule att_priority.field_set_other att_priority.field_clear_other att_retry.field_set_other
      att_retry.field_clear_other att_success.field_set_other att_success.field_clear_other
      att_unbootable.field_set_other att_unbootable.field_clear_other att_active.field_clear_other,
      simp add: att_vals)+

lemma promote_fields:
  "prio (promote r a) = 3" "active (promote r a) = 1" "retries (promote r a) = 7"
  "unbootable (promote r a) = 0" "r \<Longrightarrow> successful (promote r a) = 0"
  "\<not> r \<Longrightarrow> successful (promote r a) = successful a"
proof -
  let ?m = "PART_ATT_PRIORITY_VAL OR PART_ATT_ACTIVE_VAL OR PART_ATT_MAX_RETRY_COUNT_VAL"
  have p: "prio (a OR ?m) = 3"
    using att_priority.field_set_other [of "PART_ATT_ACTIVE_VAL OR PART_ATT_MAX_RETRY_COUNT_VAL"
        "a OR PART_ATT_PRIORITY_VAL"] att_priority.field_set [of a]
    by (simp add: att_vals or.assoc mask_eq_exp_minus_1)
  have ac: "active (a OR ?m) = 1"
    using att_active.field_set_other [of "PART_ATT_PRIORITY_VAL OR PART_ATT_MAX_RETRY_COUNT_VAL"
        "a OR PART_ATT_ACTIVE_VAL"] att_active.field_set [of a]
    by (simp add: att_vals or.assoc mask_eq_exp_minus_1)
  have re: "retries (a OR ?m) = 7"
    using att_retry.field_set_other [of "PART_ATT_PRIORITY_VAL OR PART_ATT_ACTIVE_VAL"
        "a OR PART_ATT_MAX_RETRY_COUNT_VAL"] att_retry.field_set [of a]
    by (simp add: att_vals or.assoc mask_eq_exp_minus_1)
  have su: "successful (a OR ?m) = successful a"
    by (rule att_success.field_set_other) (simp add: att_vals)
  have su2: "successful ((a OR ?m) AND NOT PART_ATT_UNBOOTABLE_VAL) = successful (a OR ?m)"
    by (rule att_success.field_clear_other) (simp add: att_vals)
  show "prio (promote r a) = 3" using p by (simp add: promote_def Let_def attr_simps)
  show "active (promote r a) = 1" using ac by (simp add: promote_def Let_def attr_simps)
  show "retries (promote r a) = 7" using re by (simp add: promote_def Let_def attr_simps)
  show "unbootable (promote r a) = 0" by (simp add: promote_def Let_def attr_simps)
  show "r \<Longrightarrow> successful (promote r a) = 0"
    by (simp add: promote_def Let_def att_success.field_clear)
      (simp add: att_success.field_nonzero)
  show "\<not> r \<Longrightarrow> successful (promote r a) = successful a"
    using su su2 by (simp add: promote_def Let_def)
qed

lemma demote_fields: "prio (demote a) = 2" "active (demote a) = 0"
proof -
  have "demote a = ((a AND NOT PART_ATT_ACTIVE_VAL) AND NOT PART_ATT_PRIORITY_VAL) OR push_bit 48 2"
    by (simp add: demote_def ac_simps)
  then show "prio (demote a) = 2"
    using att_priority.field_store [of 2 "a AND NOT PART_ATT_ACTIVE_VAL"] by (simp add: take_bit_eq_mod)
  have "push_bit 48 2 AND PART_ATT_ACTIVE_VAL = 0" by (simp add: att_vals)
  from att_active.field_set_other [OF this]
  have "active (demote a) = active ((a AND NOT PART_ATT_PRIORITY_VAL) AND NOT PART_ATT_ACTIVE_VAL)"
    by (simp add: demote_def ac_simps)
  then show "active (demote a) = 0" by (simp add: attr_simps)
qed

section \<open>The active slot is the best eligible one\<close>

definition eligible :: "u64 \<Rightarrow> bool" where
  "eligible a \<longleftrightarrow> a AND PART_ATT_ACTIVE_VAL \<noteq> 0 \<and> prio a > 0"

text \<open>No slot attribute was ever written.\<close>

definition pristine :: "u64 \<Rightarrow> bool" where
  "pristine a \<longleftrightarrow> a AND PART_ATT_ACTIVE_VAL = 0 \<and> a AND PART_ATT_SUCCESSFUL_VAL = 0 \<and>
     a AND PART_ATT_UNBOOTABLE_VAL = 0 \<and> prio a = 0"

text \<open>The reference: an eligible slot of the highest priority, slot \<open>_a\<close> on a tie.\<close>

definition best_slot :: "u64 \<Rightarrow> u64 \<Rightarrow> string option" where
  "best_slot aa ab = (if eligible aa \<and> (eligible ab \<longrightarrow> prio ab \<le> prio aa) then Some ''_a''
     else if eligible ab then Some ''_b'' else None)"

definition first_boot_attr :: "u64 \<Rightarrow> u64" where
  "first_boot_attr a = (a AND (NOT PART_ATT_SUCCESSFUL_VAL AND NOT PART_ATT_UNBOOTABLE_VAL))
     OR (PART_ATT_PRIORITY_VAL OR PART_ATT_ACTIVE_VAL OR PART_ATT_MAX_RETRY_COUNT_VAL)"

lemma slot_copies [simp]: "StrnCpyS s 3 ''_a'' 2 = ''_a''" "StrnCpyS s 3 ''_b'' 2 = ''_b''"
  by (simp_all add: StrnCpyS_def)

lemma UpdatePartitionAttributes_simp [simp]: "UpdatePartitionAttributes st = st"
  by (simp add: UpdatePartitionAttributes_def)

lemma active_scan_best:
  assumes "GetPartitionIndex st ''boot_a'' = Some a" "GetPartitionIndex st ''boot_b'' = Some b"
  shows "active_scan st [''_a'', ''_b''] 0 '''' =
    (EFI_SUCCESS, case best_slot (attr_at st a) (attr_at st b) of None \<Rightarrow> '''' | Some sl \<Rightarrow> sl)"
proof -
  define pa pb where "pa = prio (attr_at st a)" and "pb = prio (attr_at st b)"
  define aa ab where "aa = (attr_at st a AND PART_ATT_ACTIVE_VAL \<noteq> 0)" and
    "ab = (attr_at st b AND PART_ATT_ACTIVE_VAL \<noteq> 0)"
  have scan: "active_scan st [''_a'', ''_b''] 0 '''' =
    (if aa \<and> pa > 0 then (EFI_SUCCESS, if ab \<and> pb > pa then ''_b'' else ''_a'')
     else (EFI_SUCCESS, if ab \<and> pb > 0 then ''_b'' else ''''))"
    by (simp add: assms pa_def [symmetric] pb_def [symmetric] aa_def [symmetric] ab_def [symmetric]
        StrnCpyS_def del: word_gt_0)
  have best: "best_slot (attr_at st a) (attr_at st b) =
    (if (aa \<and> pa > 0) \<and> (ab \<and> pb > 0 \<longrightarrow> \<not> pb > pa) then Some ''_a''
     else if ab \<and> pb > 0 then Some ''_b'' else None)"
    by (simp add: best_slot_def eligible_def pa_def pb_def aa_def ab_def not_less)
  have "pb > pa \<Longrightarrow> pb > 0" using order_le_less_trans [OF word_zero_le] .
  then show ?thesis unfolding scan best by (cases "aa \<and> pa > 0"; cases "ab \<and> pb > 0") auto
qed

lemma GetActiveSlot_eq:
  assumes "two_slots st a b"
  shows "GetActiveSlot st '''' = (case best_slot (attr_at st a) (attr_at st b) of
     Some sl \<Rightarrow> (EFI_SUCCESS, sl, st)
   | None \<Rightarrow> if pristine (attr_at st a)
             then (EFI_SUCCESS, ''_a'', (upd_attr a first_boot_attr st)\<lparr>FirstBoot := True\<rparr>)
             else (EFI_NOT_FOUND, '''', st))"
proof -
  have ab: "GetPartitionIndex st ''boot_a'' = Some a" "GetPartitionIndex st ''boot_b'' = Some b"
    using assms by (simp_all add: two_slots_def)
  have sl: "best_slot x y = Some sl \<Longrightarrow> sl \<noteq> ''''" for x y sl
    by (auto simp: best_slot_def split: if_splits)
  show ?thesis
    unfolding GetActiveSlot_def active_scan_best [OF ab]
    by (cases "best_slot (attr_at st a) (attr_at st b)")
      (simp_all add: sl IsSuffixEmpty_def ab pristine_def first_boot_attr_def [abs_def])
qed

lemma best_slot_suffix: "best_slot x y = Some sl \<Longrightarrow> sl = ''_a'' \<or> sl = ''_b''"
  by (auto simp: best_slot_def split: if_splits)

lemma GetActiveSlot_cases:
  assumes "two_slots st a b" and "GetActiveSlot st '''' = (s, sl, st1)"
  obtains "s = EFI_SUCCESS" "sl = ''_a'' \<or> sl = ''_b''" "best_slot (attr_at st a) (attr_at st b) = Some sl" "st1 = st"
  | "s = EFI_SUCCESS" "sl = ''_a''" "best_slot (attr_at st a) (attr_at st b) = None"
    "st1 = (upd_attr a first_boot_attr st)\<lparr>FirstBoot := True\<rparr>"
  | "s = EFI_NOT_FOUND" "sl = ''''" "st1 = st"
proof (cases "best_slot (attr_at st a) (attr_at st b)")
  case None
  note eq = assms(2) [unfolded GetActiveSlot_eq [OF assms(1)] None option.case]
  show ?thesis
  proof (cases "pristine (attr_at st a)")
    case True
    then show ?thesis using eq None by (intro that(2)) simp_all
  next
    case False
    then show ?thesis using eq by (intro that(3)) simp_all
  qed
next
  case (Some sl')
  note eq = assms(2) [unfolded GetActiveSlot_eq [OF assms(1)] Some option.case]
  show ?thesis using eq Some best_slot_suffix [OF Some] by (intro that(1)) simp_all
qed

lemma GetActiveSlot_names: "names_of (snd (snd (GetActiveSlot st sl))) = names_of st"
proof -
  obtain s f where "active_scan st [''_a'', ''_b''] 0 sl = (s, f)" by fastforce
  then show ?thesis
    by (simp add: GetActiveSlot_def Let_def split: option.split)
qed

lemma GetActiveSlot_two_slots:
  "GetActiveSlot st sl = (s, f, st1) \<Longrightarrow> two_slots st1 a b \<longleftrightarrow> two_slots st a b"
  by (rule two_slots_names) (metis GetActiveSlot_names snd_conv)

section \<open>Exchanging type GUIDs\<close>

text \<open>What the exchange may change: the type GUIDs, as a permutation, and nothing else.\<close>

definition guid_shuffle :: "ptn_entry list \<Rightarrow> ptn_entry list \<Rightarrow> bool" where
  "guid_shuffle es es' \<longleftrightarrow>
     List.map (\<lambda>e. e\<lparr>PartitionTypeGUID := zero_guid\<rparr>) es' =
     List.map (\<lambda>e. e\<lparr>PartitionTypeGUID := zero_guid\<rparr>) es \<and>
     mset (List.map PartitionTypeGUID es') = mset (List.map PartitionTypeGUID es)"

lemma guid_shuffle_refl [simp]: "guid_shuffle es es"
  by (simp add: guid_shuffle_def)

lemma guid_shuffle_trans: "guid_shuffle a b \<Longrightarrow> guid_shuffle b c \<Longrightarrow> guid_shuffle a c"
  by (simp add: guid_shuffle_def)

lemma guid_shuffle_fields:
  assumes "guid_shuffle es es'"
  shows "List.map PartitionName es' = List.map PartitionName es"
    "List.map Attributes es' = List.map Attributes es" "List.map lun es' = List.map lun es"
proof -
  have "List.map (f \<circ> (\<lambda>e. e\<lparr>PartitionTypeGUID := zero_guid\<rparr>)) es' =
      List.map (f \<circ> (\<lambda>e. e\<lparr>PartitionTypeGUID := zero_guid\<rparr>)) es" for f :: "ptn_entry \<Rightarrow> 'x"
    using assms unfolding guid_shuffle_def by (metis List.map.compositionality)
  from this [of PartitionName] this [of Attributes] this [of lun]
  show "List.map PartitionName es' = List.map PartitionName es"
    "List.map Attributes es' = List.map Attributes es" "List.map lun es' = List.map lun es"
    by (simp_all add: comp_def)
qed

lemma find_pair_bounds:
  "find_pair c n es i cur new = (c', n') \<Longrightarrow>
   (\<forall>k. cur = Some k \<longrightarrow> k < i) \<Longrightarrow> (\<forall>k. new = Some k \<longrightarrow> k < i) \<Longrightarrow>
   (\<forall>k. c' = Some k \<longrightarrow> k < i + length es) \<and> (\<forall>k. n' = Some k \<longrightarrow> k < i + length es)"
proof (induction es arbitrary: i cur new)
  case (Cons e es)
  show ?case
  proof (cases "\<not> StrnCmp (PartitionName e) c (length c)")
    case True
    with Cons.IH [of "i + 1" "Some i" new] Cons.prems show ?thesis
      by (simp add: less_SucI)
  next
    case False
    with Cons.IH [of "i + 1" cur "Some i"] Cons.IH [of "i + 1" cur new] Cons.prems show ?thesis
      by (simp add: less_SucI split: if_splits)
  qed
qed simp

lemma list_update_image:
  "i < length xs \<Longrightarrow> f y = f (xs ! i) \<Longrightarrow> List.map f (xs[i := y]) = List.map f xs"
  by (simp add: map_update list_update_same_conv)

lemma SwapPtnGuid_shuffle:
  assumes "\<forall>k. p = Some k \<longrightarrow> k < length es" "\<forall>k. q = Some k \<longrightarrow> k < length es"
  shows "guid_shuffle es (SwapPtnGuid p q es)"
proof (cases "p = None \<or> q = None")
  case True
  then show ?thesis by (auto simp: SwapPtnGuid_def split: option.splits)
next
  case False
  then obtain i j where pq: "p = Some i" "q = Some j" by auto
  with assms have ij: "i < length es" "j < length es" by auto
  let ?g = "PartitionTypeGUID"
  define es1 where "es1 = es[i := (es ! i)\<lparr>PartitionTypeGUID := ?g (es ! j)\<rparr>]"
  have swap: "SwapPtnGuid p q es = es1[j := (es1 ! j)\<lparr>PartitionTypeGUID := ?g (es ! i)\<rparr>]"
    by (simp add: SwapPtnGuid_def pq es1_def Let_def)
  have l1: "length es1 = length es" by (simp add: es1_def)
  have "List.map ?g (SwapPtnGuid p q es) = (List.map ?g es)[i := List.map ?g es ! j, j := List.map ?g es ! i]"
    using ij by (simp add: swap es1_def map_update)
  then have "mset (List.map ?g (SwapPtnGuid p q es)) = mset (List.map ?g es)"
    using ij by (metis length_map mset_swap)
  moreover have "List.map (\<lambda>e. e\<lparr>PartitionTypeGUID := zero_guid\<rparr>) (SwapPtnGuid p q es) =
      List.map (\<lambda>e. e\<lparr>PartitionTypeGUID := zero_guid\<rparr>) es"
    unfolding swap es1_def using ij by (simp add: list_update_image)
  ultimately show ?thesis by (simp add: guid_shuffle_def)
qed

lemma switch_node_shuffle: "guid_shuffle es (switch_node SetActive SetInactive node es)"
proof -
  obtain c n where "find_pair
      (StrnCatS (StrnCpyS '''' BOOT_PART_SIZE node (length node)) BOOT_PART_SIZE SetInactive (length SetInactive))
      (StrnCatS (StrnCpyS '''' BOOT_PART_SIZE node (length node)) BOOT_PART_SIZE SetActive (length SetActive))
      es 0 None None = (c, n)" by fastforce
  with find_pair_bounds [OF this] show ?thesis
    by (simp add: switch_node_def SwapPtnGuid_shuffle)
qed

lemma fold_shuffle: "guid_shuffle es (fold (switch_node SetActive SetInactive) nodes es)"
  by (induction nodes arbitrary: es)
    (auto intro: guid_shuffle_trans switch_node_shuffle)

lemma UfsGetSetBootLun_frame:
  "UfsGetSetBootLun env st l g = Some (s, l', st') \<Longrightarrow> st' = st\<lparr>lun_sets := lun_sets st'\<rparr>"
  by (auto simp: UfsGetSetBootLun_def Let_def split: Option.bind_splits prod.splits if_splits)

lemma UfsGetSetBootLun_entries:
  "UfsGetSetBootLun env st l g = Some (s, l', st') \<Longrightarrow> PtnEntries st' = PtnEntries st"
  by (auto simp: UfsGetSetBootLun_def Let_def split: Option.bind_splits prod.splits if_splits)

lemma GetMultiSlotPartsList_entries:
  "GetMultiSlotPartsList al st = Some (s, st') \<Longrightarrow> PtnEntries st' = PtnEntries st"
  by (auto simp: GetMultiSlotPartsList_def split: Option.bind_splits)

lemma SwitchPtnSlots_shuffle:
  assumes "SwitchPtnSlots env SetActive st = Some st'"
  shows "guid_shuffle (PtnEntries st) (PtnEntries st')"
proof -
  obtain s st1 where h: "(if HeadNode st = [] then GetMultiSlotPartsList (alloc_node env) st
      else Some (EFI_SUCCESS, st)) = Some (s, st1)"
    using assms by (auto simp: SwitchPtnSlots_def split: Option.bind_splits)
  have e: "PtnEntries st1 = PtnEntries st"
    using h GetMultiSlotPartsList_entries by (auto split: if_splits)
  show ?thesis
    using assms fold_shuffle [of "PtnEntries st1"] e unfolding SwitchPtnSlots_def Let_def h
    by (auto dest!: UfsGetSetBootLun_entries split: Option.bind_splits if_splits)
qed

lemma fix_boot_lun_entries: "fix_boot_lun env sl st = Some st' \<Longrightarrow> PtnEntries st' = PtnEntries st"
  by (auto simp: fix_boot_lun_def dest!: UfsGetSetBootLun_entries split: Option.bind_splits if_splits)

lemma names_MarkPtnActive [simp]: "names_of (MarkPtnActive sl st) = names_of st"
  by (simp add: MarkPtnActive_def names_of_def mark_active_def)

lemma attr_MarkPtnActive:
  "k < length (PtnEntries st) \<Longrightarrow> attr_at (MarkPtnActive sl st) k =
     (if StrStr (PartitionName (PtnEntries st ! k)) sl then attr_at st k OR PART_ATT_ACTIVE_VAL
      else attr_at st k AND NOT PART_ATT_ACTIVE_VAL)"
  by (simp add: MarkPtnActive_def mark_active_def)

lemma shuffle_names: "guid_shuffle (PtnEntries st) (PtnEntries st') \<Longrightarrow> names_of st' = names_of st"
  by (simp add: names_of_def guid_shuffle_fields)

lemma shuffle_attr:
  assumes s: "guid_shuffle (PtnEntries st) (PtnEntries st')" and k: "k < length (PtnEntries st)"
  shows "attr_at st' k = attr_at st k"
proof -
  note m = guid_shuffle_fields(2) [OF s]
  have "length (PtnEntries st') = length (PtnEntries st)" using arg_cong [OF m, of length] by simp
  then show ?thesis using arg_cong [OF m, of "\<lambda>l. l ! k"] k by simp
qed

text \<open>The index of a slot's boot entry, and of the other one.\<close>

definition slot_idx :: "string \<Rightarrow> nat \<Rightarrow> nat \<Rightarrow> nat" where
  "slot_idx sl a b = (if sl = ''_a'' then a else b)"

definition other_slot :: "string \<Rightarrow> string" where
  "other_slot sl = (if sl = ''_a'' then ''_b'' else ''_a'')"

lemma slot_boot_entry:
  assumes "two_slots st a b" "sl = ''_a'' \<or> sl = ''_b''"
  shows "GetBootPartitionEntry st sl = Some (slot_idx sl a b)"
    "GetBootPartitionEntry st (other_slot sl) = Some (slot_idx (other_slot sl) a b)"
  using assms by (auto simp: two_slots_def slot_idx_def other_slot_def)

lemma alternate_slot:
  "sl = ''_a'' \<or> sl = ''_b'' \<Longrightarrow> (if \<not> StrnCmp sl ''_a'' 2 then ''_b'' else ''_a'') = other_slot sl"
  by (auto simp: other_slot_def StrnCmp_def)

lemma boot_names_StrStr:
  assumes "two_slots st a b" "sl = ''_a'' \<or> sl = ''_b''"
  shows "StrStr (PartitionName (PtnEntries st ! slot_idx sl a b)) sl"
    "\<not> StrStr (PartitionName (PtnEntries st ! slot_idx (other_slot sl) a b)) sl"
  using two_slots_facts [OF assms(1)] assms(2) by (auto simp: slot_idx_def other_slot_def)

lemma slot_idx_facts:
  assumes "two_slots st a b"
  shows "slot_idx sl a b < length (PtnEntries st)" "slot_idx sl a b \<noteq> slot_idx (other_slot sl) a b"
  using two_slots_facts [OF assms] by (auto simp: slot_idx_def other_slot_def)

lemma active_eligible: "active a = 1 \<Longrightarrow> prio a > 0 \<Longrightarrow> eligible a"
  using att_active.field_nonzero [of a] by (auto simp: eligible_def)

lemma inactive_ineligible: "active a = 0 \<Longrightarrow> \<not> eligible a"
  using att_active.field_nonzero [of a] by (auto simp: eligible_def)

lemma only_slot_active:
  assumes t: "two_slots st a b" and sl: "sl = ''_a'' \<or> sl = ''_b''"
    and e: "eligible (attr_at st (slot_idx sl a b))"
    and n: "\<not> eligible (attr_at st (slot_idx (other_slot sl) a b))"
  shows "GetActiveSlot st '''' = (EFI_SUCCESS, sl, st)"
  using sl e n unfolding GetActiveSlot_eq [OF t] by (auto simp: best_slot_def slot_idx_def other_slot_def)

section \<open>Properties of the slot manager\<close>

text \<open>C10. The active slot is the eligible slot (active bit set, priority above zero) of the highest
  priority, slot \<open>_a\<close> on a tie; with no eligible slot it is the default slot \<open>_a\<close> when its
  attributes were never written, and not found otherwise.\<close>

theorem GetActiveSlot_selects:
  assumes "two_slots st a b"
  shows "GetActiveSlot st '''' = (case best_slot (attr_at st a) (attr_at st b) of
     Some sl \<Rightarrow> (EFI_SUCCESS, sl, st)
   | None \<Rightarrow> if pristine (attr_at st a)
             then (EFI_SUCCESS, ''_a'', (upd_attr a first_boot_attr st)\<lparr>FirstBoot := True\<rparr>)
             else (EFI_NOT_FOUND, '''', st))"
  by (rule GetActiveSlot_eq [OF assms])

text \<open>What \<open>SetActiveSlot\<close> leaves behind, in terms of the state it found active.\<close>

lemma SetActiveSlot_run:
  assumes t: "two_slots st a b" and sl: "NewSlot = ''_a'' \<or> NewSlot = ''_b''"
    and run: "SetActiveSlot env (Some NewSlot) r st = Some (EFI_SUCCESS, st')"
  obtains st1 cs where "GetActiveSlot st '''' = (EFI_SUCCESS, cs, st1)" "two_slots st' a b"
    "length (PtnEntries st') = length (PtnEntries st1)"
    "let x = promote r (attr_at st1 (slot_idx NewSlot a b)) in
     attr_at st' (slot_idx NewSlot a b) = x \<or>
     attr_at st' (slot_idx NewSlot a b) = x OR PART_ATT_ACTIVE_VAL"
    "let y = demote (attr_at st1 (slot_idx (other_slot NewSlot) a b)) in
     attr_at st' (slot_idx (other_slot NewSlot) a b) = y \<or>
     attr_at st' (slot_idx (other_slot NewSlot) a b) = y AND NOT PART_ATT_ACTIVE_VAL"
proof -
  let ?i = "slot_idx NewSlot a b" and ?j = "slot_idx (other_slot NewSlot) a b"
  obtain s cs st1 where g: "GetActiveSlot st '''' = (s, cs, st1)" by (metis prod_cases3)
  have t1: "two_slots st1 a b" using GetActiveSlot_two_slots [OF g] t by simp
  define st2 where "st2 = upd_attr ?i (promote r) st1"
  have t2: "two_slots st2 a b" using t1 two_slots_names [of st2 st1] by (simp add: st2_def)
  define st3 where "st3 = upd_attr ?j demote st2"
  have t3: "two_slots st3 a b" using t2 two_slots_names [of st3 st2] by (simp add: st3_def)
  have s: "s = EFI_SUCCESS" using run by (auto simp: SetActiveSlot_def g split: if_splits)
  have run3: "(if \<not> StrnCmp cs NewSlot (length cs)
      then do { st4 \<leftarrow> fix_boot_lun env cs st3; Some (EFI_SUCCESS, st4) }
      else do { st4 \<leftarrow> SwitchPtnSlots env NewSlot st3; Some (EFI_SUCCESS, MarkPtnActive NewSlot st4) })
      = Some (EFI_SUCCESS, st')"
    using run unfolding SetActiveSlot_def option.case g prod.case Let_def alternate_slot [OF sl] s
      slot_boot_entry(1) [OF t1 sl] st2_def [symmetric] slot_boot_entry(2) [OF t2 sl]
      UpdatePartitionAttributes_simp st3_def [symmetric] by simp
  have ij: "?i < length (PtnEntries st1)" "?j < length (PtnEntries st1)" "?i \<noteq> ?j"
    using slot_idx_facts [OF t1] by auto
  have at3: "attr_at st3 ?i = promote r (attr_at st1 ?i)" "attr_at st3 ?j = demote (attr_at st1 ?j)"
    using ij by (simp_all add: st3_def st2_def attr_upd_attr)
  have l3: "length (PtnEntries st3) = length (PtnEntries st1)" by (simp add: st3_def st2_def)
  show thesis
  proof (cases "\<not> StrnCmp cs NewSlot (length cs)")
    case True
    then have "PtnEntries st' = PtnEntries st3"
      using run3 by (auto dest: fix_boot_lun_entries split: Option.bind_splits)
    then show thesis
      using that [of cs st1] g s at3 t3 l3 two_slots_names [of st' st3] by (simp add: names_of_def)
  next
    case False
    then obtain st4 where st4: "SwitchPtnSlots env NewSlot st3 = Some st4" "st' = MarkPtnActive NewSlot st4"
      using run3 by (auto split: Option.bind_splits)
    note sh = SwitchPtnSlots_shuffle [OF st4(1)]
    have t4: "two_slots st4 a b" using t3 two_slots_names [OF shuffle_names [OF sh]] by simp
    have l4: "length (PtnEntries st4) = length (PtnEntries st3)"
      using arg_cong [OF guid_shuffle_fields(2) [OF sh], of length] by simp
    have at4: "attr_at st4 ?i = attr_at st3 ?i" "attr_at st4 ?j = attr_at st3 ?j"
      using shuffle_attr [OF sh] ij by (simp_all add: l3)
    have "attr_at st' ?i = attr_at st3 ?i OR PART_ATT_ACTIVE_VAL"
      "attr_at st' ?j = attr_at st3 ?j AND NOT PART_ATT_ACTIVE_VAL"
      using ij by (simp_all add: st4(2) attr_MarkPtnActive l3 l4 boot_names_StrStr [OF t4 sl] at4)
    moreover have "two_slots st' a b" using t4 two_slots_names [of st' st4] by (simp add: st4(2))
    moreover have "length (PtnEntries st') = length (PtnEntries st1)"
      using l3 l4 by (simp add: st4(2) MarkPtnActive_def)
    ultimately show thesis using that [of cs st1] g s at3 by simp
  qed
qed

text \<open>C8. When \<open>SetActiveSlot\<close> succeeds, the requested slot is the active one: highest priority,
  active, seven retries, bootable; the other slot is inactive with priority two; and the success
  bit is cleared when the caller asks for it.\<close>

theorem SetActiveSlot_activates:
  assumes t: "two_slots st a b" and sl: "NewSlot = ''_a'' \<or> NewSlot = ''_b''"
    and run: "SetActiveSlot env (Some NewSlot) r st = Some (EFI_SUCCESS, st')"
  shows "GetActiveSlot st' '''' = (EFI_SUCCESS, NewSlot, st') \<and>
    (let x = attr_at st' (slot_idx NewSlot a b); y = attr_at st' (slot_idx (other_slot NewSlot) a b)
     in prio x = 3 \<and> active x = 1 \<and> retries x = 7 \<and> unbootable x = 0 \<and> (r \<longrightarrow> successful x = 0) \<and>
        prio y = 2 \<and> active y = 0)"
proof -
  let ?x = "attr_at st' (slot_idx NewSlot a b)" and ?y = "attr_at st' (slot_idx (other_slot NewSlot) a b)"
  obtain st1 cs where t': "two_slots st' a b" and
    x: "let x = promote r (attr_at st1 (slot_idx NewSlot a b)) in ?x = x \<or> ?x = x OR PART_ATT_ACTIVE_VAL" and
    y: "let y = demote (attr_at st1 (slot_idx (other_slot NewSlot) a b)) in
        ?y = y \<or> ?y = y AND NOT PART_ATT_ACTIVE_VAL"
    by (rule SetActiveSlot_run [OF t sl run])
  have xf: "prio ?x = 3" "active ?x = 1" "retries ?x = 7" "unbootable ?x = 0" "r \<longrightarrow> successful ?x = 0"
    using x by (auto simp: Let_def attr_simps promote_fields mask_eq_exp_minus_1)
  have yf: "prio ?y = 2" "active ?y = 0" using y by (auto simp: Let_def attr_simps demote_fields)
  have "eligible ?x" using xf by (simp add: active_eligible)
  moreover have "\<not> eligible ?y" by (rule inactive_ineligible [OF yf(2)])
  ultimately show ?thesis
    using only_slot_active [OF t' sl] xf yf by (simp add: Let_def)
qed

lemma HandleActiveSlotUnbootable_status:
  "HandleActiveSlotUnbootable env st = Some (s, st') \<Longrightarrow> s \<noteq> EFI_SUCCESS"
  by (auto simp: HandleActiveSlotUnbootable_def Let_def split: prod.splits option.splits if_splits Option.bind_splits)

lemma SetActiveSlot_status:
  assumes t: "two_slots st a b" and sl: "NewSlot = ''_a'' \<or> NewSlot = ''_b''"
    and run: "SetActiveSlot env (Some NewSlot) r st = Some (s, st')"
  shows "s = fst (GetActiveSlot st '''')"
proof -
  obtain s1 cs st1 where g: "GetActiveSlot st '''' = (s1, cs, st1)" by (metis prod_cases3)
  have t1: "two_slots st1 a b" using GetActiveSlot_two_slots [OF g] t by simp
  let ?st2 = "upd_attr (slot_idx NewSlot a b) (promote r) st1"
  have t2: "two_slots ?st2 a b" using t1 two_slots_names [of ?st2 st1] by simp
  show ?thesis
    using run unfolding SetActiveSlot_def option.case g prod.case Let_def alternate_slot [OF sl]
      slot_boot_entry(1) [OF t1 sl] slot_boot_entry(2) [OF t2 sl]
    by (auto split: if_splits Option.bind_splits)
qed

lemma demote_other: "successful (demote a) = successful a" "unbootable (demote a) = unbootable a"
proof -
  have z: "push_bit 48 2 AND PART_ATT_SUCCESSFUL_VAL = 0" "push_bit 48 2 AND PART_ATT_UNBOOTABLE_VAL = 0"
    "PART_ATT_PRIORITY_VAL AND PART_ATT_SUCCESSFUL_VAL = 0" "PART_ATT_PRIORITY_VAL AND PART_ATT_UNBOOTABLE_VAL = 0"
    by (simp_all add: att_vals)
  have "demote a = ((a AND NOT PART_ATT_ACTIVE_VAL) AND NOT PART_ATT_PRIORITY_VAL) OR push_bit 48 2"
    by (simp add: demote_def ac_simps)
  then show "successful (demote a) = successful a" "unbootable (demote a) = unbootable a"
    by (simp_all only: att_success.field_set_other [OF z(1)] att_unbootable.field_set_other [OF z(2)]
      att_success.field_clear_other [OF z(3)] att_unbootable.field_clear_other [OF z(4)] att_other)
qed

definition mark_unbootable :: "u64 \<Rightarrow> u64" where
  "mark_unbootable a = a OR (PART_ATT_UNBOOTABLE_VAL AND NOT PART_ATT_SUCCESSFUL_VAL)"

lemma mark_unbootable_fields:
  "unbootable (mark_unbootable a) = 1" "successful (mark_unbootable a) = successful a"
  "prio (mark_unbootable a) = prio a" "active (mark_unbootable a) = active a"
proof -
  have m: "mark_unbootable a = a OR PART_ATT_UNBOOTABLE_VAL" by (simp add: mark_unbootable_def att_vals)
  have z: "PART_ATT_UNBOOTABLE_VAL AND PART_ATT_PRIORITY_VAL = 0" "PART_ATT_UNBOOTABLE_VAL AND PART_ATT_ACTIVE_VAL = 0"
    by (simp_all add: att_vals)
  show "unbootable (mark_unbootable a) = 1" "successful (mark_unbootable a) = successful a"
    by (simp_all add: m attr_simps mask_eq_exp_minus_1)
  show "prio (mark_unbootable a) = prio a" "active (mark_unbootable a) = active a"
    by (simp_all only: m att_priority.field_set_other [OF z(1)] att_active.field_set_other [OF z(2)])
qed

lemma eligible_fields: "eligible x \<longleftrightarrow> active x \<noteq> 0 \<and> prio x > 0"
  by (simp add: eligible_def att_active.field_nonzero)

lemma eligible_mark_unbootable [simp]: "eligible (mark_unbootable a) = eligible a"
  by (simp add: eligible_fields mark_unbootable_fields)

text \<open>A failed active slot falls back: when the other slot booted before, the routine makes it the
  active one, requests a reset and reports an error, and the failed slot is marked unbootable. Its
  success bit survives, although the update is written to clear it.\<close>

theorem HandleActiveSlotUnbootable_falls_back:
  assumes t: "two_slots st a b" and best: "best_slot (attr_at st a) (attr_at st b) = Some sl"
    and first: "\<not> FirstBoot st"
    and alt: "let y = attr_at st (slot_idx (other_slot sl) a b) in unbootable y = 0 \<and> successful y = 1"
    and run: "HandleActiveSlotUnbootable env st = Some (s, st')"
  shows "s = EFI_LOAD_ERROR \<and> reset_requested st' \<and> fst (snd (GetActiveSlot st' '''')) = other_slot sl \<and>
    (let x = attr_at st' (slot_idx sl a b)
     in unbootable x = 1 \<and> active x = 0 \<and> successful x = successful (attr_at st (slot_idx sl a b)))"
proof -
  let ?i = "slot_idx sl a b" and ?j = "slot_idx (other_slot sl) a b"
  note sfx = best_slot_suffix [OF best]
  have osfx: "other_slot sl = ''_a'' \<or> other_slot sl = ''_b''" by (auto simp: other_slot_def)
  have oo: "other_slot (other_slot sl) = sl" using sfx by (auto simp: other_slot_def)
  have g: "GetActiveSlot st '''' = (EFI_SUCCESS, sl, st)" by (simp add: GetActiveSlot_eq [OF t] best)
  define st2 where "st2 = upd_attr ?i mark_unbootable st"
  have t2: "two_slots st2 a b" using t two_slots_names [of st2 st] by (simp add: st2_def)
  note ij = slot_idx_facts [OF t, of sl] slot_idx_facts(1) [OF t, of "other_slot sl"]
  have at2: "attr_at st2 ?i = mark_unbootable (attr_at st ?i)" "attr_at st2 ?j = attr_at st ?j"
    using ij by (simp_all add: st2_def attr_upd_attr)
  have best2: "best_slot (attr_at st2 a) (attr_at st2 b) = Some sl"
    using sfx best at2 by (auto simp: best_slot_def slot_idx_def other_slot_def mark_unbootable_fields split: if_splits)
  have g2: "GetActiveSlot st2 '''' = (EFI_SUCCESS, sl, st2)" by (simp add: GetActiveSlot_eq [OF t2] best2)
  have run2: "do { (s, st3) \<leftarrow> SetActiveSlot env (Some (other_slot sl)) False st2;
      if s \<noteq> EFI_SUCCESS then Some (s, st3)
      else Some (EFI_LOAD_ERROR, st3\<lparr>reset_requested := True\<rparr>) } = Some (s, st')"
    using run alt first
    unfolding HandleActiveSlotUnbootable_def g prod.case Let_def alternate_slot [OF sfx] slot_boot_entry(1) [OF t sfx]
      UpdatePartitionAttributes_simp option.case mark_unbootable_def [symmetric]
    by (simp add: st2_def [symmetric] slot_boot_entry(2) [OF t2 sfx] at2)
  then obtain s3 st3 where set: "SetActiveSlot env (Some (other_slot sl)) False st2 = Some (s3, st3)"
    by (auto split: Option.bind_splits)
  have s3: "s3 = EFI_SUCCESS" using SetActiveSlot_status [OF t2 osfx set] g2 by simp
  then have res: "s = EFI_LOAD_ERROR" "st' = st3\<lparr>reset_requested := True\<rparr>" using run2 set by simp_all
  obtain st1 cs where r: "GetActiveSlot st2 '''' = (EFI_SUCCESS, cs, st1)" "two_slots st3 a b"
    and x: "let x = promote False (attr_at st1 ?j) in attr_at st3 ?j = x \<or> attr_at st3 ?j = x OR PART_ATT_ACTIVE_VAL"
    and y: "let y = demote (attr_at st1 ?i) in attr_at st3 ?i = y \<or> attr_at st3 ?i = y AND NOT PART_ATT_ACTIVE_VAL"
    by (rule SetActiveSlot_run [OF t2 osfx set [unfolded s3]]) (simp add: oo)
  have st1: "st1 = st2" using r(1) g2 by simp
  have xf: "prio (attr_at st3 ?j) = 3" "active (attr_at st3 ?j) = 1"
    using x by (auto simp: Let_def attr_simps promote_fields mask_eq_exp_minus_1)
  have yf: "active (attr_at st3 ?i) = 0" "unbootable (attr_at st3 ?i) = 1"
    "successful (attr_at st3 ?i) = successful (attr_at st ?i)"
    using y by (auto simp: Let_def attr_simps demote_fields demote_other st1 at2 mark_unbootable_fields)
  have t': "two_slots st' a b" using r(2) two_slots_names [of st' st3] by (simp add: res)
  have "GetActiveSlot st' '''' = (EFI_SUCCESS, other_slot sl, st')"
    using only_slot_active [OF t' osfx] xf inactive_ineligible [OF yf(1)]
    by (simp add: res active_eligible oo)
  then show ?thesis using res yf by (simp add: Let_def)
qed

text \<open>C9. \<open>FindBootableSlot\<close> only reports a slot that may boot: it is the active slot, it is not
  marked unbootable, and it booted before or has attempts left; an attempt of a slot that never
  booted costs one retry; and outside NAND its boot partition does not share the type GUID of the
  slot's \<open>abl\<close> partition.\<close>

theorem FindBootableSlot_bootable:
  assumes t: "two_slots st a b" and run: "FindBootableSlot env (Some '''') st = Some (EFI_SUCCESS, sl, st')"
  shows "\<exists>st1. GetActiveSlot st '''' = (EFI_SUCCESS, sl, st1) \<and> (sl = ''_a'' \<or> sl = ''_b'') \<and>
    (let x = attr_at st1 (slot_idx sl a b); y = attr_at st' (slot_idx sl a b)
     in unbootable x = 0 \<and> (successful x = 1 \<or> retries x > 0) \<and> active y = 1 \<and>
        retries y = (if successful x = 0 \<and> \<not> retry_disabled env \<and> \<not> bootdev_image env \<and> retry_update env
                     then retries x - 1 else retries x))"
proof -
  obtain s sl' st1 where g: "GetActiveSlot st '''' = (s, sl', st1)" by (metis prod_cases3)
  let ?i = "slot_idx sl' a b"
  have s: "s = EFI_SUCCESS" using run by (auto simp: FindBootableSlot_def g split: if_splits)
  have sfx: "sl' = ''_a'' \<or> sl' = ''_b''" by (rule GetActiveSlot_cases [OF t g]) (auto simp: s)
  have t1: "two_slots st1 a b" using GetActiveSlot_two_slots [OF g] t by simp
  obtain st2 where att: "boot_attempt env ?i st1 = Some (EFI_SUCCESS, st2)" and
    st': "sl = sl'" "st' = MarkPtnActive sl' st2"
    using run unfolding FindBootableSlot_def option.case g prod.case Let_def slot_boot_entry(1) [OF t1 sfx] s
    by (auto split: Option.bind_splits if_splits)
  let ?x = "attr_at st1 ?i"
  let ?upd = "\<lambda>a. (a AND NOT PART_ATT_MAX_RETRY_COUNT_VAL) OR push_bit PART_ATT_MAX_RETRY_CNT_BIT (retries ?x - 1)"
  have cases: "(unbootable ?x = 0 \<and> successful ?x = 1 \<and> st2 = st1) \<or>
    (unbootable ?x = 0 \<and> successful ?x = 0 \<and> retries ?x > 0 \<and>
     st2 = (if (\<not> retry_disabled env \<and> \<not> bootdev_image env) \<and> retry_update env then upd_attr ?i ?upd st1 else st1))"
    using att HandleActiveSlotUnbootable_status
    by (auto simp: boot_attempt_def Let_def simp del: word_gt_0 split: if_splits)
  have i: "?i < length (PtnEntries st1)" using slot_idx_facts [OF t1] by simp
  have t2: "two_slots st2 a b" and l2: "length (PtnEntries st2) = length (PtnEntries st1)"
    using cases t1 two_slots_names [of "upd_attr ?i ?upd st1" st1] by (auto split: if_splits)
  have y: "attr_at st' ?i = attr_at st2 ?i OR PART_ATT_ACTIVE_VAL"
    using i l2 boot_names_StrStr [OF t2 sfx] by (simp add: st' attr_MarkPtnActive)
  have "take_bit 3 (retries ?x - 1) = retries ?x - 1" if "retries ?x > 0"
  proof -
    have "retries ?x \<le> 7"
      unfolding att_field_def using word_and_le1 [of "drop_bit 51 ?x" 7]
      by (simp add: PART_ATT_MAX_RETRY_COUNT_VAL_def drop_bit_and push_bit_eq_mult)
    then have "retries ?x - 1 < 8" using that by (simp add: word_le_nat_alt word_less_nat_alt unat_minus_bound)
    then have "unat (retries ?x - 1) < 2 ^ 3" by (simp add: word_less_nat_alt)
    then show ?thesis by (simp only: word_unat_eq_iff unsigned_take_bit_eq take_bit_nat_eq_self)
  qed
  then have "retries (attr_at st2 ?i) = (if successful ?x = 0 \<and> \<not> retry_disabled env \<and> \<not> bootdev_image env \<and> retry_update env
                     then retries ?x - 1 else retries ?x)"
    using cases i att_retry.field_store [of "retries ?x - 1" ?x] by (auto simp: attr_upd_attr)
  then show ?thesis
    using cases g s sfx y by (auto simp: st' Let_def attr_simps mask_eq_exp_minus_1)
qed


text \<open>\<open>MarkPtnActive\<close> sets the active bit of exactly the partitions whose name contains the
  suffix anywhere, and clears it on every other one; only the attribute word changes. A partition
  such as \<open>vendor_boot_backup\<close> is therefore marked active with slot \<open>_b\<close>.\<close>

theorem MarkPtnActive_by_substring:
  "k < length (PtnEntries st) \<Longrightarrow>
   (active (attr_at (MarkPtnActive sl st) k) = 1 \<longleftrightarrow>
     (\<exists>u v. PartitionName (PtnEntries st ! k) = u @ sl @ v)) \<and>
   (PtnEntries (MarkPtnActive sl st) ! k)\<lparr>Attributes := attr_at st k\<rparr> = PtnEntries st ! k"
  by (cases "StrStr (PartitionName (PtnEntries st ! k)) sl")
    (simp_all add: attr_MarkPtnActive attr_simps StrStr_iff [symmetric] mask_eq_exp_minus_1 MarkPtnActive_def
      mark_active_def)

section \<open>An eMMC device with two slots\<close>

definition demo_entry :: "string \<Rightarrow> u32 \<Rightarrow> u64 \<Rightarrow> ptn_entry" where
  "demo_entry nm g a = zero_entry\<lparr>PartitionName := nm, PartitionTypeGUID := GUID g 0 0 [], Attributes := a\<rparr>"

definition demo_slots :: ptn_state where
  "demo_slots = \<lparr>PtnEntries = [demo_entry ''boot_a'' 1 0x001F000000000000, demo_entry ''boot_b'' 2 0x004A000000000000,
       demo_entry ''abl_a'' 3 0, demo_entry ''abl_b'' 4 0],
     PtnEntriesBak = [], Ptable = [], MaxLuns = 1, HeadNode = [''boot''], FirstBoot = False, lun_sets = [],
     misc_writes = [], reset_requested = False\<rparr>"

definition demo_env :: ptn_env where
  "demo_env = \<lparr>dev_type = EMMC, handles = demo_db, part_record = (\<lambda>_. None),
     card_proto = (\<lambda>_. (EFI_SUCCESS, True)), get_boot_lu = (\<lambda>_. (EFI_SUCCESS, 1)),
     set_boot_lu = (\<lambda>_ _. EFI_SUCCESS), alloc_node = (\<lambda>_. True), nand_guid = EFI_NOT_FOUND,
     nand_read = (EFI_NOT_FOUND, None), variant_user = False, retry_disabled = False, bootdev_image = False,
     retry_update = True\<rparr>"

lemmas demo_slot_defs = demo_slots_def demo_env_def demo_entry_def zero_entry_def GUID_def

lemma demo_two_slots: "two_slots demo_slots 0 1"
  by (simp add: two_slots_def names_of_def demo_slot_defs GetPartitionIndex_def StrnCmp_def)

lemma demo_best: "best_slot (attr_at demo_slots 0) (attr_at demo_slots 1) = Some ''_a''"
  by (simp add: best_slot_def eligible_def att_field_def att_vals demo_slot_defs)

lemma demo_active: "GetActiveSlot demo_slots '''' = (EFI_SUCCESS, ''_a'', demo_slots)"
  by (simp only: GetActiveSlot_eq [OF demo_two_slots] demo_best option.case)

lemma GetActiveSlot_selects_witness:
  "GetActiveSlot demo_slots '''' = (EFI_SUCCESS, ''_a'', demo_slots)"
  by (simp only: GetActiveSlot_selects [OF demo_two_slots] demo_best option.case)

lemma demo_switch: "\<exists>st'. SwitchPtnSlots demo_env sl (st\<lparr>HeadNode := [''boot'']\<rparr>) = Some st'"
  by (simp add: SwitchPtnSlots_def demo_env_def Let_def)


lemma MarkPtnActive_by_substring_example:
  "active (attr_at (MarkPtnActive ''_b'' demo_slots) 1) = 1"
proof -
  have "\<exists>u v. PartitionName (PtnEntries demo_slots ! 1) = u @ ''_b'' @ v"
    by (rule exI [of _ "''boot''"], rule exI [of _ "''''"]) (simp add: demo_slot_defs)
  then show ?thesis using MarkPtnActive_by_substring [of 1 demo_slots "''_b''"] by (simp add: demo_slots_def)
qed

lemma HeadNode_upd_attr [simp]: "HeadNode (upd_attr i f st) = HeadNode st"
  by (simp add: upd_attr_def)

lemma SetActiveSlot_emmc_returns:
  assumes t: "two_slots st a b" and g: "GetActiveSlot st '''' = (EFI_SUCCESS, cs, st1)"
    and sl: "NewSlot = ''_a'' \<or> NewSlot = ''_b''" and e: "dev_type env = EMMC" and h: "HeadNode st1 \<noteq> []"
  shows "\<exists>st'. SetActiveSlot env (Some NewSlot) r st = Some (EFI_SUCCESS, st')"
proof -
  have t1: "two_slots st1 a b" using GetActiveSlot_two_slots [OF g] t by simp
  let ?st2 = "upd_attr (slot_idx NewSlot a b) (promote r) st1"
  have t2: "two_slots ?st2 a b" using t1 two_slots_names [of ?st2 st1] by simp
  show ?thesis
    unfolding SetActiveSlot_def option.case g prod.case Let_def alternate_slot [OF sl]
      slot_boot_entry(1) [OF t1 sl] slot_boot_entry(2) [OF t2 sl]
    by (simp add: fix_boot_lun_def SwitchPtnSlots_def e h Let_def split: prod.split)
qed

lemma demo_set_b: "\<exists>st'. SetActiveSlot demo_env (Some ''_b'') True demo_slots = Some (EFI_SUCCESS, st')"
  by (rule SetActiveSlot_emmc_returns [OF demo_two_slots demo_active])
    (simp_all add: demo_env_def demo_slots_def)

lemma SetActiveSlot_activates_witness:
  "\<exists>st'. SetActiveSlot demo_env (Some ''_b'') True demo_slots = Some (EFI_SUCCESS, st') \<and>
     GetActiveSlot st' '''' = (EFI_SUCCESS, ''_b'', st') \<and> prio (attr_at st' 1) = 3 \<and> active (attr_at st' 0) = 0"
proof -
  obtain st' where "SetActiveSlot demo_env (Some ''_b'') True demo_slots = Some (EFI_SUCCESS, st')"
    using demo_set_b by blast
  with SetActiveSlot_activates [OF demo_two_slots _ this] show ?thesis
    by (auto simp: Let_def slot_idx_def other_slot_def)
qed

text \<open>Slot \<open>_b\<close> of the demo device booted before, so a failing slot \<open>_a\<close> falls back to it.\<close>

lemma demo_fallback_runs: "\<exists>s st'. HandleActiveSlotUnbootable demo_env demo_slots = Some (s, st')"
proof -
  let ?st2 = "upd_attr 0 mark_unbootable demo_slots"
  have t2: "two_slots ?st2 0 1" using demo_two_slots two_slots_names [of ?st2 demo_slots] by simp
  have at2: "attr_at ?st2 0 = mark_unbootable (attr_at demo_slots 0)" "attr_at ?st2 1 = attr_at demo_slots 1"
    using two_slots_facts [OF demo_two_slots] by (simp_all add: attr_upd_attr)
  have b2: "best_slot (attr_at ?st2 0) (attr_at ?st2 1) = Some ''_a''"
    using demo_best unfolding at2 best_slot_def by (simp add: mark_unbootable_fields)
  have g2: "GetActiveSlot ?st2 '''' = (EFI_SUCCESS, ''_a'', ?st2)"
    by (simp only: GetActiveSlot_eq [OF t2] b2 option.case)
  obtain st3 where st3: "SetActiveSlot demo_env (Some ''_b'') False ?st2 = Some (EFI_SUCCESS, st3)"
    using SetActiveSlot_emmc_returns [OF t2 g2, of "''_b''" demo_env False]
    by (auto simp: demo_env_def demo_slots_def)
  have ab: "GetPartitionIndex demo_slots ''boot_a'' = Some 0" "GetPartitionIndex ?st2 ''boot_b'' = Some 1"
    using demo_two_slots t2 by (simp_all add: two_slots_def)
  have "FirstBoot demo_slots = False" by (simp add: demo_slots_def)
  then show ?thesis
    unfolding HandleActiveSlotUnbootable_def demo_active prod.case Let_def
    by (simp add: ab mark_unbootable_def [symmetric, abs_def] StrnCmp_def st3)
qed

lemma HandleActiveSlotUnbootable_falls_back_example:
  "\<exists>st'. HandleActiveSlotUnbootable demo_env demo_slots = Some (EFI_LOAD_ERROR, st') \<and>
     reset_requested st' \<and> fst (snd (GetActiveSlot st' '''')) = ''_b'' \<and> successful (attr_at st' 0) = 0"
proof -
  obtain s st' where run: "HandleActiveSlotUnbootable demo_env demo_slots = Some (s, st')"
    using demo_fallback_runs by blast
  have "let y = attr_at demo_slots (slot_idx (other_slot ''_a'') 0 1) in unbootable y = 0 \<and> successful y = 1"
    "\<not> FirstBoot demo_slots" "successful (attr_at demo_slots 0) = 0"
    by (simp_all add: slot_idx_def other_slot_def demo_slot_defs att_field_def att_vals)
  with HandleActiveSlotUnbootable_falls_back [OF demo_two_slots demo_best _ _ run] show ?thesis
    using run by (auto simp: Let_def slot_idx_def other_slot_def)
qed

lemma demo_find: "\<exists>st'. FindBootableSlot demo_env (Some '''') demo_slots = Some (EFI_SUCCESS, ''_a'', st')"
proof -
  let ?upd = "\<lambda>a. (a AND NOT PART_ATT_MAX_RETRY_COUNT_VAL) OR push_bit PART_ATT_MAX_RETRY_CNT_BIT (3 - 1)"
  let ?st2 = "upd_attr 0 ?upd demo_slots"
  have f: "unbootable (attr_at demo_slots 0) = 0" "successful (attr_at demo_slots 0) = 0"
    "retries (attr_at demo_slots 0) = 3"
    by (simp_all add: demo_slot_defs att_field_def att_vals)
  have b: "boot_attempt demo_env 0 demo_slots = Some (EFI_SUCCESS, ?st2)"
    unfolding boot_attempt_def Let_def f by (simp add: demo_env_def)
  have v: "ValidateSlotGuids demo_env ''_a'' (upd_attr 0 f demo_slots) = Some EFI_SUCCESS" for f
    by (simp add: ValidateSlotGuids_def upd_attr_def demo_slot_defs GetPartitionIndex_def StrnCmp_def)
  have a: "GetPartitionIndex demo_slots ''boot_a'' = Some 0"
    using demo_two_slots by (simp add: two_slots_def)
  show ?thesis
    unfolding FindBootableSlot_def option.case demo_active prod.case Let_def
    by (simp add: a b v)
qed

lemma FindBootableSlot_bootable_witness:
  "\<exists>st'. FindBootableSlot demo_env (Some '''') demo_slots = Some (EFI_SUCCESS, ''_a'', st') \<and>
     retries (attr_at st' 0) = 2 \<and> active (attr_at st' 0) = 1"
proof -
  obtain st' where run: "FindBootableSlot demo_env (Some '''') demo_slots = Some (EFI_SUCCESS, ''_a'', st')"
    using demo_find by blast
  have "unbootable (attr_at demo_slots 0) = 0" "successful (attr_at demo_slots 0) = 0"
    "retries (attr_at demo_slots 0) = 3" "\<not> retry_disabled demo_env \<and> \<not> bootdev_image demo_env \<and> retry_update demo_env"
    by (simp_all add: demo_slot_defs att_field_def att_vals)
  with FindBootableSlot_bootable [OF demo_two_slots run] show ?thesis
    using run by (auto simp: demo_active Let_def slot_idx_def)
qed

text \<open>The table of the demo device, built from the handle of the device itself.\<close>

lemma UpdatePartitionEntries_bounded_witness:
  "\<exists>st'. UpdatePartitionEntries demo_env \<lparr>tab_handles = [([], 2)], tab_luns = 1\<rparr> demo_slots = Some st' \<and>
     length (PtnEntries st') \<le> 128"
proof -
  obtain st' where run: "UpdatePartitionEntries demo_env \<lparr>tab_handles = [([], 2)], tab_luns = 1\<rparr> demo_slots = Some st'"
    by (simp add: UpdatePartitionEntries_def demo_env_def Let_def)
  with UpdatePartitionEntries_bounded [OF this] show ?thesis by (auto simp: demo_env_def)
qed

end
