(* ===== verification/SparseFlash.thy ===== *)
theory SparseFlash
  imports SlotManager LittleEndian
begin

text \<open>
  The sparse image decoder of \<open>FastbootLib/FastbootCmds.c\<close> (\<open>HandleSparseImgFlash\<close> and its chunk
  handlers), with the formats of \<open>SparseFormat.h\<close>, on the device the caller found.

  The downloaded image is a buffer at an address: pointers into it stay 64-bit addresses, as in
  the code, because the overflow checks are made on addresses. A read outside the buffer has no
  value.
\<close>

section \<open>The image formats\<close>

record sparse_header =
  magic :: u32
  major_version :: u16
  minor_version :: u16
  file_hdr_sz :: u16
  chunk_hdr_sz :: u16
  blk_sz :: u32
  total_blks :: u32
  total_chunks :: u32
  image_checksum :: u32

record chunk_header =
  chunk_type :: u16
  reserved1 :: u16
  chunk_sz :: u32
  total_sz :: u32

abbreviation (input) CHUNK_TYPE_RAW :: u16 where "CHUNK_TYPE_RAW \<equiv> 0xCAC1"
abbreviation (input) CHUNK_TYPE_FILL :: u16 where "CHUNK_TYPE_FILL \<equiv> 0xCAC2"
abbreviation (input) CHUNK_TYPE_DONT_CARE :: u16 where "CHUNK_TYPE_DONT_CARE \<equiv> 0xCAC3"
abbreviation (input) CHUNK_TYPE_CRC :: u16 where "CHUNK_TYPE_CRC \<equiv> 0xCAC4"

abbreviation SPARSE_HDR :: nat where "SPARSE_HDR \<equiv> 28"
abbreviation CHUNK_HDR :: nat where "CHUNK_HDR \<equiv> 12"

text \<open>A buffer of the firmware's memory: its address and its bytes. \<open>mem_at\<close> is the rest of the
  buffer from an address on, \<open>mem_read\<close> a checked read.\<close>

record mem_buf =
  mem_base :: u64
  mem_bytes :: bytes

definition mem_at :: "mem_buf \<Rightarrow> u64 \<Rightarrow> bytes" where
  "mem_at m p = drop (unat (p - mem_base m)) (mem_bytes m)"

definition mem_read :: "mem_buf \<Rightarrow> u64 \<Rightarrow> nat \<Rightarrow> bytes option" where
  "mem_read m p n = (if n \<le> length (mem_at m p) then Some (take n (mem_at m p)) else None)"

definition le16 :: "bytes \<Rightarrow> nat \<Rightarrow> u16" where
  "le16 b i = ucast (b ! i) OR push_bit 8 (ucast (b ! (i + 1)))"

definition le32 :: "bytes \<Rightarrow> nat \<Rightarrow> u32" where
  "le32 b i = GET_LWORD_FROM_BYTE (slice i 4 b)"

definition read_sparse_header :: "mem_buf \<Rightarrow> u64 \<Rightarrow> sparse_header option" where
  "read_sparse_header m p = map_option (\<lambda>b.
     \<lparr>magic = le32 b 0, major_version = le16 b 4, minor_version = le16 b 6, file_hdr_sz = le16 b 8,
      chunk_hdr_sz = le16 b 10, blk_sz = le32 b 12, total_blks = le32 b 16, total_chunks = le32 b 20,
      image_checksum = le32 b 24\<rparr>) (mem_read m p SPARSE_HDR)"

definition read_chunk_header :: "mem_buf \<Rightarrow> u64 \<Rightarrow> chunk_header option" where
  "read_chunk_header m p = map_option (\<lambda>b.
     \<lparr>chunk_type = le16 b 0, reserved1 = le16 b 2, chunk_sz = le32 b 4, total_sz = le32 b 8\<rparr>)
     (mem_read m p CHUNK_HDR)"

section \<open>Writing chunks\<close>

record SparseImgParam =
  TotalBlocks :: u32
  ChunkDataSz :: u64
  ImageEnd :: u64
  WrittenBlockCount :: u64
  BlockCountFactor :: u64
  PartitionSize :: u64
  SparseBlockIo :: block_io

definition WriteToDisk :: "io_env \<Rightarrow> block_io \<Rightarrow> bytes \<Rightarrow> u64 \<Rightarrow> u64 \<Rightarrow> disk_op list \<Rightarrow>
    (efi_status \<times> disk_op list) option" where
  "WriteToDisk env b Img Size offset log = WriteBlockToPartition env (Some b) offset Size (Some Img) log"

type_synonym chunk_result = "(efi_status \<times> u64 \<times> SparseImgParam \<times> disk_op list) option"

text \<open>\<open>HandleChunkTypeRaw\<close>: the status, the advanced image pointer and parameters, and the log.\<close>

definition HandleChunkTypeRaw :: "io_env \<Rightarrow> mem_buf \<Rightarrow> sparse_header \<Rightarrow> chunk_header \<Rightarrow> u64 \<Rightarrow>
    SparseImgParam \<Rightarrow> disk_op list \<Rightarrow> chunk_result" where
  "HandleChunkTypeRaw env m sh ch Img sp log =
     (if Img = 0 then Some (EFI_INVALID_PARAMETER, Img, sp, log)
      else if (ucast (total_sz ch) :: u64) \<noteq> ucast (chunk_hdr_sz sh) + ChunkDataSz sp
      then Some (EFI_INVALID_PARAMETER, Img, sp, log)
      else if CHECK_ADD64 Img (ChunkDataSz sp) then Some (EFI_INVALID_PARAMETER, Img, sp, log)
      else if ImageEnd sp < Img + ChunkDataSz sp then Some (EFI_INVALID_PARAMETER, Img, sp, log)
      else
        let sp1 = sp\<lparr>WrittenBlockCount := ucast (TotalBlocks sp) * BlockCountFactor sp\<rparr>
        in do {
          (Status, log') \<leftarrow> WriteToDisk env (SparseBlockIo sp1) (mem_at m Img) (ChunkDataSz sp1)
                              (WrittenBlockCount sp1) log;
          if EFI_ERROR Status then Some (Status, Img, sp1, log')
          else if TotalBlocks sp1 > MAX_UINT32 - chunk_sz ch
          then Some (EFI_INVALID_PARAMETER, Img, sp1, log')
          else Some (EFI_SUCCESS, Img + ChunkDataSz sp1,
                     sp1\<lparr>TotalBlocks := TotalBlocks sp1 + chunk_sz ch\<rparr>, log')
        })"

text \<open>The block loop of \<open>HandleChunkTypeFill\<close>, over the blocks still to write.\<close>

fun fill_blocks :: "io_env \<Rightarrow> bytes \<Rightarrow> sparse_header \<Rightarrow> nat \<Rightarrow> SparseImgParam \<Rightarrow> disk_op list \<Rightarrow>
    (efi_status \<times> SparseImgParam \<times> disk_op list) option" where
  "fill_blocks env FillBuf sh 0 sp log = Some (EFI_SUCCESS, sp, log)"
| "fill_blocks env FillBuf sh (Suc n) sp log =
     (if ucast (TotalBlocks sp) * ucast (blk_sz sh) + ucast (blk_sz sh) > PartitionSize sp
      then Some (EFI_VOLUME_FULL, sp, log)
      else
        let sp1 = sp\<lparr>WrittenBlockCount := ucast (TotalBlocks sp) * BlockCountFactor sp\<rparr>
        in do {
          (Status, log') \<leftarrow> WriteToDisk env (SparseBlockIo sp1) FillBuf (ucast (blk_sz sh))
                              (WrittenBlockCount sp1) log;
          if EFI_ERROR Status then Some (Status, sp1, log')
          else fill_blocks env FillBuf sh n (sp1\<lparr>TotalBlocks := TotalBlocks sp1 + 1\<rparr>) log'
        })"

text \<open>The zeroed pool buffer with the fill value stored in each whole word.\<close>

definition fill_buffer :: "u32 \<Rightarrow> u32 \<Rightarrow> bytes" where
  "fill_buffer sz FillVal = concat (replicate (unat (sz div 4)) (PUT_LONG FillVal)) @
     replicate (unat sz - 4 * unat (sz div 4)) 0"

definition HandleChunkTypeFill :: "io_env \<Rightarrow> mem_buf \<Rightarrow> sparse_header \<Rightarrow> chunk_header \<Rightarrow> u64 \<Rightarrow>
    SparseImgParam \<Rightarrow> disk_op list \<Rightarrow> chunk_result" where
  "HandleChunkTypeFill env m sh ch Img sp log =
     (if Img = 0 then Some (EFI_INVALID_PARAMETER, Img, sp, log)
      else if (ucast (total_sz ch) :: u64) \<noteq> ucast (chunk_hdr_sz sh) + 4
      then Some (EFI_INVALID_PARAMETER, Img, sp, log)
      else if \<not> alloc_pool env (unat (blk_sz sh)) then Some (EFI_OUT_OF_RESOURCES, Img, sp, log)
      else if CHECK_ADD64 Img 4 then Some (EFI_INVALID_PARAMETER, Img, sp, log)
      else if ImageEnd sp < Img + 4 then Some (EFI_INVALID_PARAMETER, Img, sp, log)
      else do {
        w \<leftarrow> mem_read m Img 4;
        (Status, sp', log') \<leftarrow> fill_blocks env (fill_buffer (blk_sz sh) (GET_LWORD_FROM_BYTE w)) sh
                                (unat (chunk_sz ch)) sp log;
        Some (Status, Img + 4, sp', log')
      })"

definition ValidateChunkDataAndFlash :: "io_env \<Rightarrow> mem_buf \<Rightarrow> sparse_header \<Rightarrow> chunk_header \<Rightarrow> u64 \<Rightarrow>
    SparseImgParam \<Rightarrow> disk_op list \<Rightarrow> chunk_result" where
  "ValidateChunkDataAndFlash env m sh ch Img sp log =
     (if Img = 0 then Some (EFI_INVALID_PARAMETER, Img, sp, log)
      else if chunk_type ch = CHUNK_TYPE_RAW then HandleChunkTypeRaw env m sh ch Img sp log
      else if chunk_type ch = CHUNK_TYPE_FILL then HandleChunkTypeFill env m sh ch Img sp log
      else if chunk_type ch = CHUNK_TYPE_DONT_CARE then
        if TotalBlocks sp > MAX_UINT32 - chunk_sz ch then Some (EFI_INVALID_PARAMETER, Img, sp, log)
        else Some (EFI_SUCCESS, Img, sp\<lparr>TotalBlocks := TotalBlocks sp + chunk_sz ch\<rparr>, log)
      else if chunk_type ch = CHUNK_TYPE_CRC then
        if total_sz ch \<noteq> ucast (chunk_hdr_sz sh) then Some (EFI_INVALID_PARAMETER, Img, sp, log)
        else if TotalBlocks sp > MAX_UINT32 - chunk_sz ch then Some (EFI_INVALID_PARAMETER, Img, sp, log)
        else
          let sp1 = sp\<lparr>TotalBlocks := TotalBlocks sp + chunk_sz ch\<rparr>
          in if CHECK_ADD64 Img (ChunkDataSz sp1) then Some (EFI_INVALID_PARAMETER, Img, sp1, log)
             else
               let Img1 = Img + ucast (ucast (ChunkDataSz sp1) :: u32)
               in if ImageEnd sp1 < Img1 then Some (EFI_INVALID_PARAMETER, Img1, sp1, log)
                  else Some (EFI_SUCCESS, Img1, sp1, log)
      else Some (EFI_INVALID_PARAMETER, Img, sp, log))"

text \<open>The chunk loop of \<open>HandleSparseImgFlash\<close>, over the chunks still to process.\<close>

fun sparse_chunks :: "io_env \<Rightarrow> mem_buf \<Rightarrow> sparse_header \<Rightarrow> nat \<Rightarrow> u64 \<Rightarrow> SparseImgParam \<Rightarrow> disk_op list \<Rightarrow>
    (efi_status \<times> SparseImgParam \<times> disk_op list) option" where
  "sparse_chunks env m sh 0 Img sp log = Some (EFI_SUCCESS, sp, log)"
| "sparse_chunks env m sh (Suc n) Img sp log =
     (if ucast (TotalBlocks sp) * ucast (blk_sz sh) \<ge> PartitionSize sp then Some (EFI_VOLUME_FULL, sp, log)
      else if CHECK_ADD64 Img 12 then Some (EFI_INVALID_PARAMETER, sp, log)
      else
        let Img1 = Img + 12
        in if ImageEnd sp < Img1 then Some (EFI_BAD_BUFFER_SIZE, sp, log)
           else if chunk_hdr_sz sh \<noteq> 12 then Some (EFI_INVALID_PARAMETER, sp, log)
           else do {
             ch \<leftarrow> read_chunk_header m Img;
             let sp1 = sp\<lparr>ChunkDataSz := ucast (blk_sz sh) * ucast (chunk_sz ch)\<rparr>;
             if ucast (TotalBlocks sp1) * ucast (blk_sz sh) + ChunkDataSz sp1 > PartitionSize sp1
             then Some (EFI_VOLUME_FULL, sp1, log)
             else do {
               (Status, Img2, sp2, log2) \<leftarrow> ValidateChunkDataAndFlash env m sh ch Img1 sp1 log;
               if EFI_ERROR Status then Some (Status, sp2, log2)
               else sparse_chunks env m sh n Img2 sp2 log2
             }
           })"

text \<open>\<open>HandleSparseImgFlash\<close> after \<open>PartitionGetInfo\<close> found the device \<open>b\<close>, on an image of \<open>sz\<close>
  bytes at address \<open>Img\<close>.\<close>

definition sparse_to_device :: "io_env \<Rightarrow> mem_buf \<Rightarrow> block_io \<Rightarrow> u64 \<Rightarrow> u64 \<Rightarrow> disk_op list \<Rightarrow>
    (efi_status \<times> disk_op list) option" where
  "sparse_to_device env m b Img sz log =
     (let psize = GetPartitionSize (Some b) in
      if psize = 0 then Some (EFI_BAD_BUFFER_SIZE, log)
      else if sz < 28 then Some (EFI_INVALID_PARAMETER, log)
      else do {
        sh \<leftarrow> read_sparse_header m Img;
        if (ucast (total_blks sh) :: u64) * ucast (blk_sz sh) > psize then Some (EFI_VOLUME_FULL, log)
        else if file_hdr_sz sh \<noteq> 28 then Some (EFI_BAD_BUFFER_SIZE, log)
        else if blk_sz sh = 0 then Some (EFI_INVALID_PARAMETER, log)
        else if BlockSize b = 0 then None
        else if blk_sz sh mod BlockSize b \<noteq> 0 then Some (EFI_INVALID_PARAMETER, log)
        else do {
          (Status, sp, log') \<leftarrow> sparse_chunks env m sh (unat (total_chunks sh)) (Img + 28)
            \<lparr>TotalBlocks = 0, ChunkDataSz = 0, ImageEnd = Img + sz, WrittenBlockCount = 0,
             BlockCountFactor = ucast (blk_sz sh div BlockSize b), PartitionSize = psize,
             SparseBlockIo = b\<rparr> log;
          Some (if Status = EFI_SUCCESS \<and> TotalBlocks sp \<noteq> total_blks sh
                then EFI_VOLUME_CORRUPTED else Status, log')
        }
      })"

section \<open>Flashing stays inside the image and the partition\<close>

text \<open>The setting: a device with an ordinary block size that is not NAND, an image smaller than
  4 GiB in a buffer that does not wrap around the address space, a partition below 2^63 bytes.\<close>

definition flash_ctx :: "io_env \<Rightarrow> mem_buf \<Rightarrow> block_io \<Rightarrow> u64 \<Rightarrow> bool" where
  "flash_ctx env m b sz \<longleftrightarrow> (\<exists>k\<in>{9..20}. BlockSize b = 2 ^ k) \<and> root_type env \<noteq> NAND \<and>
     reads_whole_blocks env \<and> unat sz \<le> length (mem_bytes m) \<and> unat sz < 2 ^ 32 \<and>
     0 < unat (mem_base m) \<and> unat (mem_base m) + unat sz < 2 ^ 64 \<and>
     unat (GetPartitionSize (Some b)) < 2 ^ 63"

definition sp_inv :: "mem_buf \<Rightarrow> block_io \<Rightarrow> u64 \<Rightarrow> sparse_header \<Rightarrow> SparseImgParam \<Rightarrow> bool" where
  "sp_inv m b sz sh sp \<longleftrightarrow> ImageEnd sp = mem_base m + sz \<and> PartitionSize sp = GetPartitionSize (Some b) \<and>
     SparseBlockIo sp = b \<and> BlockCountFactor sp = ucast (blk_sz sh div BlockSize b)"

definition img_inv :: "mem_buf \<Rightarrow> u64 \<Rightarrow> u64 \<Rightarrow> bool" where
  "img_inv m sz Img \<longleftrightarrow> unat (mem_base m) \<le> unat Img \<and> unat Img \<le> unat (mem_base m) + unat sz"

definition in_partition :: "block_io \<Rightarrow> disk_op list \<Rightarrow> bool" where
  "in_partition b ws \<longleftrightarrow>
     (\<forall>op\<in>set ws. op_inside (bio_id b) (unat (BlockSize b)) 0 (unat (GetPartitionSize (Some b))) op)"

lemma in_partition_simps [simp]: "in_partition b []" "in_partition b (xs @ ys) \<longleftrightarrow> in_partition b xs \<and> in_partition b ys"
  by (auto simp: in_partition_def)

lemma sp_inv_update [simp]:
  "sp_inv m b sz sh (sp\<lparr>TotalBlocks := x\<rparr>) = sp_inv m b sz sh sp"
  "sp_inv m b sz sh (sp\<lparr>ChunkDataSz := y\<rparr>) = sp_inv m b sz sh sp"
  "sp_inv m b sz sh (sp\<lparr>WrittenBlockCount := z\<rparr>) = sp_inv m b sz sh sp"
  by (simp_all add: sp_inv_def)

lemma u32_product: "unat (ucast (x :: u32) * ucast (y :: u32) :: u64) = unat x * unat y"
proof -
  have "unat x * unat y \<le> 4294967295 * 4294967295"
    using unat_u32_bound [of x] unat_u32_bound [of y] by (intro mult_le_mono) simp_all
  then show ?thesis by (subst unat_mult_lem [THEN iffD1]) simp_all
qed

lemma image_end:
  "flash_ctx env m b sz \<Longrightarrow> unat (mem_base m + sz) = unat (mem_base m) + unat sz"
  by (rule unat_plus_bound) (simp add: flash_ctx_def)

lemma length_mem_at:
  assumes "flash_ctx env m b sz" "img_inv m sz Img"
  shows "unat (mem_base m) + unat sz - unat Img \<le> length (mem_at m Img)"
proof -
  have "unat (Img - mem_base m) = unat Img - unat (mem_base m)"
    by (rule unat_minus_bound) (use assms(2) in \<open>simp add: img_inv_def word_le_nat_alt\<close>)
  moreover have "unat sz \<le> length (mem_bytes m)" "unat (mem_base m) \<le> unat Img"
    using assms by (simp_all add: flash_ctx_def img_inv_def)
  ultimately show ?thesis by (simp add: mem_at_def)
qed

text \<open>A write of whole blocks at a block offset below the partition's end.\<close>

lemma WriteToDisk_inside:
  assumes c: "flash_ctx env m b sz" and off: "unat offset * unat (BlockSize b) + unat Size \<le> unat (GetPartitionSize (Some b))"
    and dv: "unat (BlockSize b) dvd unat Size" and sz: "unat Size < 2 ^ 32" "unat Size \<le> length Img"
  shows "\<exists>st ws. WriteToDisk env b Img Size offset log = Some (st, log @ ws) \<and> in_partition b ws"
proof -
  obtain k where k: "9 \<le> k" "k \<le> 20" "BlockSize b = 2 ^ k" using c by (auto simp: flash_ctx_def)
  then have B: "0 < unat (BlockSize b)" by (simp add: unat_two_power_u32)
  have "unat offset \<le> unat offset * unat (BlockSize b)" using B by simp
  then have "unat offset + unat Size div unat (BlockSize b) \<le> unat (GetPartitionSize (Some b))"
    using off div_le_dividend [of "unat Size" "unat (BlockSize b)"] by linarith
  then have "unat offset + unat Size div unat (BlockSize b) + 1 < 2 ^ 64" using c by (simp add: flash_ctx_def)
  then have w: "writable_size b offset Size Img" using sz k by (auto simp: writable_size_def)
  have up: "blocks_up (unat (BlockSize b)) (unat Size) = unat Size"
    using B dv by (intro blocks_up_exact) (simp_all add: dvd_imp_mod_0)
  obtain st ws where "WriteBlockToPartition env (Some b) offset Size (Some Img) log = Some (st, log @ ws)"
    "\<forall>op\<in>set ws. op_inside (bio_id b) (unat (BlockSize b)) (unat offset * unat (BlockSize b))
       (unat offset * unat (BlockSize b) + unat Size) op"
    using write_block_inside [OF w, of env log] c up by (auto simp: flash_ctx_def)
  moreover have "op_inside (bio_id b) (unat (BlockSize b)) 0 (unat (GetPartitionSize (Some b))) op"
    if "op_inside (bio_id b) (unat (BlockSize b)) (unat offset * unat (BlockSize b))
       (unat offset * unat (BlockSize b) + unat Size) op" for op
    using op_inside_mono [OF that] off by simp
  ultimately show ?thesis by (auto simp: WriteToDisk_def in_partition_def)
qed

text \<open>The block offset of the running block count, in bytes.\<close>

lemma sparse_offset:
  assumes i: "sp_inv m b sz sh sp" and dv: "blk_sz sh mod BlockSize b = 0"
  shows "unat (ucast (TotalBlocks sp) * BlockCountFactor sp) * unat (BlockSize b) =
    unat (TotalBlocks sp) * unat (blk_sz sh)"
proof -
  have "unat (blk_sz sh) mod unat (BlockSize b) = 0" using dv by (metis unat_0 unat_mod)
  then have "unat (blk_sz sh div BlockSize b) * unat (BlockSize b) = unat (blk_sz sh)"
    by (simp add: unat_div mod_0_imp_dvd)
  then show ?thesis using i by (simp add: sp_inv_def u32_product mult.assoc)
qed

section \<open>The chunk handlers\<close>

text \<open>What every chunk handler guarantees: it returns, its writes stay in the partition, the
  parameters keep their invariant, and on success the image pointer is still in the image.\<close>

definition chunk_safe :: "mem_buf \<Rightarrow> block_io \<Rightarrow> u64 \<Rightarrow> sparse_header \<Rightarrow> disk_op list \<Rightarrow> chunk_result \<Rightarrow> bool" where
  "chunk_safe m b sz sh log r \<longleftrightarrow> (\<exists>st Img sp ws. r = Some (st, Img, sp, log @ ws) \<and> in_partition b ws \<and>
     sp_inv m b sz sh sp \<and> (st = EFI_SUCCESS \<longrightarrow> img_inv m sz Img))"

lemma chunk_safe_leave:
  "in_partition b ws \<Longrightarrow> sp_inv m b sz sh sp \<Longrightarrow> (st = EFI_SUCCESS \<Longrightarrow> img_inv m sz Img) \<Longrightarrow>
   chunk_safe m b sz sh log (Some (st, Img, sp, log @ ws))"
  by (auto simp: chunk_safe_def)

lemmas chunk_safe_stop = chunk_safe_leave [where ws = "[]", simplified]

text \<open>The pointer advanced inside the image.\<close>

lemma image_advance:
  assumes c: "flash_ctx env m b sz" and i: "img_inv m sz Img" and e: "ImageEnd sp = mem_base m + sz"
    and o1: "\<not> CHECK_ADD64 Img n" and o2: "\<not> ImageEnd sp < Img + n"
  shows "unat (Img + n) = unat Img + unat n" "unat Img + unat n \<le> unat (mem_base m) + unat sz" "img_inv m sz (Img + n)"
proof -
  show a: "unat (Img + n) = unat Img + unat n" using o1 by (rule not_CHECK_ADD64_unat)
  show b: "unat Img + unat n \<le> unat (mem_base m) + unat sz"
    using o2 a image_end [OF c] by (simp add: e not_less word_le_nat_alt)
  show "img_inv m sz (Img + n)" using i a b by (simp add: img_inv_def)
qed

lemma raw_chunk_safe:
  assumes c: "flash_ctx env m b sz" and i: "img_inv m sz Img" and s: "sp_inv m b sz sh sp"
    and dv: "blk_sz sh mod BlockSize b = 0" and cd: "ChunkDataSz sp = ucast (blk_sz sh) * ucast (chunk_sz ch)"
    and g1: "\<not> ucast (TotalBlocks sp) * ucast (blk_sz sh) \<ge> PartitionSize sp"
    and g2: "\<not> ucast (TotalBlocks sp) * ucast (blk_sz sh) + ChunkDataSz sp > PartitionSize sp"
  shows "chunk_safe m b sz sh log (HandleChunkTypeRaw env m sh ch Img sp log)"
proof (cases "Img = 0 \<or> (ucast (total_sz ch) :: u64) \<noteq> ucast (chunk_hdr_sz sh) + ChunkDataSz sp \<or>
    CHECK_ADD64 Img (ChunkDataSz sp) \<or> ImageEnd sp < Img + ChunkDataSz sp")
  case True
  then have "\<exists>st. st \<noteq> EFI_SUCCESS \<and> HandleChunkTypeRaw env m sh ch Img sp log = Some (st, Img, sp, log)"
    unfolding HandleChunkTypeRaw_def by (auto simp del: not_less)
  then show ?thesis using s chunk_safe_stop by force
next
  case False
  define sp1 where "sp1 = sp\<lparr>WrittenBlockCount := ucast (TotalBlocks sp) * BlockCountFactor sp\<rparr>"
  have e: "ImageEnd sp = mem_base m + sz" and p: "PartitionSize sp = GetPartitionSize (Some b)"
    and bb: "SparseBlockIo sp = b" using s by (simp_all add: sp_inv_def)
  note adv = image_advance [OF c i e, of "ChunkDataSz sp"]
  have len: "unat (ChunkDataSz sp) \<le> length (mem_at m Img)"
    using adv(2) False i length_mem_at [OF c i] by (simp add: img_inv_def)
  have small: "unat (ChunkDataSz sp) < 2 ^ 32"
    using adv(2) False i c by (simp add: img_inv_def flash_ctx_def)
  have "unat (ucast (TotalBlocks sp) * ucast (blk_sz sh) :: u64) < unat (GetPartitionSize (Some b))"
    using g1 p by (simp add: not_le word_less_nat_alt)
  then have "unat (ucast (TotalBlocks sp) * ucast (blk_sz sh) + ChunkDataSz sp) =
      unat (ucast (TotalBlocks sp) * ucast (blk_sz sh) :: u64) + unat (ChunkDataSz sp)"
    using small c by (intro unat_plus_bound) (simp add: flash_ctx_def)
  then have fits: "unat (TotalBlocks sp) * unat (blk_sz sh) + unat (ChunkDataSz sp) \<le> unat (GetPartitionSize (Some b))"
    using g2 p by (simp add: not_less word_le_nat_alt u32_product)
  have "unat (blk_sz sh) mod unat (BlockSize b) = 0" using dv by (metis unat_0 unat_mod)
  then have dvd: "unat (BlockSize b) dvd unat (ChunkDataSz sp)"
    by (simp add: cd u32_product mod_0_imp_dvd)
  obtain st ws where w: "WriteToDisk env b (mem_at m Img) (ChunkDataSz sp)
      (ucast (TotalBlocks sp) * BlockCountFactor sp) log = Some (st, log @ ws)" "in_partition b ws"
    using WriteToDisk_inside [OF c _ dvd small len, of "ucast (TotalBlocks sp) * BlockCountFactor sp" log]
      fits sparse_offset [OF s dv] by auto
  have s1: "sp_inv m b sz sh sp1" using s by (simp add: sp1_def)
  have "HandleChunkTypeRaw env m sh ch Img sp log =
    (if EFI_ERROR st then Some (st, Img, sp1, log @ ws)
     else if TotalBlocks sp1 > MAX_UINT32 - chunk_sz ch then Some (EFI_INVALID_PARAMETER, Img, sp1, log @ ws)
     else Some (EFI_SUCCESS, Img + ChunkDataSz sp1, sp1\<lparr>TotalBlocks := TotalBlocks sp1 + chunk_sz ch\<rparr>, log @ ws))"
    using False w(1) by (simp add: HandleChunkTypeRaw_def sp1_def bb Let_def)
  moreover have "img_inv m sz (Img + ChunkDataSz sp1)" using adv(3) False by (simp add: sp1_def)
  ultimately show ?thesis using w(2) s1 i by (auto intro!: chunk_safe_leave)
qed

lemma fill_blocks_safe:
  assumes c: "flash_ctx env m b sz" and dv: "blk_sz sh mod BlockSize b = 0"
    and l: "length FillBuf = unat (blk_sz sh)"
  shows "sp_inv m b sz sh sp \<Longrightarrow> \<exists>st sp' ws. fill_blocks env FillBuf sh n sp log = Some (st, sp', log @ ws) \<and>
    in_partition b ws \<and> sp_inv m b sz sh sp'"
proof (induction n arbitrary: sp log)
  case 0
  then show ?case by auto
next
  case (Suc n)
  note s = Suc.prems
  have p: "PartitionSize sp = GetPartitionSize (Some b)" and bb: "SparseBlockIo sp = b"
    using s by (simp_all add: sp_inv_def)
  let ?X = "ucast (TotalBlocks sp) * ucast (blk_sz sh) :: u64"
  show ?case
  proof (cases "?X + ucast (blk_sz sh) > PartitionSize sp")
    case True
    then have "fill_blocks env FillBuf sh (Suc n) sp log = Some (EFI_VOLUME_FULL, sp, log @ [])" by simp
    then show ?thesis using s in_partition_simps(1) by blast
  next
    case False
    have "unat ?X + unat (blk_sz sh) < 2 ^ 64"
    proof -
      have "unat (TotalBlocks sp) * unat (blk_sz sh) \<le> 4294967295 * 4294967295"
        using unat_u32_bound [of "TotalBlocks sp"] unat_u32_bound [of "blk_sz sh"] by (intro mult_le_mono) simp_all
      then show ?thesis using unat_u32_bound [of "blk_sz sh"] by (simp add: u32_product)
    qed
    then have "unat (?X + ucast (blk_sz sh)) = unat ?X + unat (blk_sz sh)"
      by (subst unat_plus_bound) simp_all
    then have fits: "unat (TotalBlocks sp) * unat (blk_sz sh) + unat (blk_sz sh) \<le> unat (GetPartitionSize (Some b))"
      using False p by (simp add: not_less word_le_nat_alt u32_product)
    have "unat (blk_sz sh) mod unat (BlockSize b) = 0" using dv by (metis unat_0 unat_mod)
    then have dvd: "unat (BlockSize b) dvd unat (ucast (blk_sz sh) :: u64)" by (simp add: mod_0_imp_dvd)
    obtain st ws where w: "WriteToDisk env b FillBuf (ucast (blk_sz sh))
        (ucast (TotalBlocks sp) * BlockCountFactor sp) log = Some (st, log @ ws)" "in_partition b ws"
      using WriteToDisk_inside [OF c _ dvd, of "ucast (TotalBlocks sp) * BlockCountFactor sp" FillBuf log]
        fits sparse_offset [OF s dv] l unat_u32_bound [of "blk_sz sh"] by auto
    define sp1 where "sp1 = sp\<lparr>WrittenBlockCount := ucast (TotalBlocks sp) * BlockCountFactor sp\<rparr>"
    define sp2 where "sp2 = sp1\<lparr>TotalBlocks := TotalBlocks sp1 + 1\<rparr>"
    have s2: "sp_inv m b sz sh sp1" "sp_inv m b sz sh sp2" using s by (simp_all add: sp1_def sp2_def)
    have eq: "fill_blocks env FillBuf sh (Suc n) sp log =
        (if EFI_ERROR st then Some (st, sp1, log @ ws) else fill_blocks env FillBuf sh n sp2 (log @ ws))"
      using False w(1) by (simp add: sp1_def sp2_def bb Let_def)
    obtain st' sp' ws' where r: "fill_blocks env FillBuf sh n sp2 (log @ ws) = Some (st', sp', (log @ ws) @ ws')"
      "in_partition b ws'" "sp_inv m b sz sh sp'" using Suc.IH [OF s2(2)] by blast
    show ?thesis
    proof (cases "EFI_ERROR st")
      case False
      then have "fill_blocks env FillBuf sh (Suc n) sp log = Some (st', sp', log @ (ws @ ws'))"
        using r(1) eq by simp
      then show ?thesis using w(2) r(2,3) by (meson in_partition_simps(2))
    qed (use eq w(2) s2(1) in auto)
  qed
qed

lemma length_fill_buffer: "length (fill_buffer n v) = unat n"
proof -
  have "4 * unat (n div 4) \<le> unat n" by (simp add: unat_div mult.commute)
  then show ?thesis by (simp add: fill_buffer_def length_concat sum_list_replicate comp_def)
qed

lemma mem_read_image:
  assumes "flash_ctx env m b sz" "img_inv m sz Img" "unat Img + n \<le> unat (mem_base m) + unat sz"
  shows "mem_read m Img n = Some (take n (mem_at m Img))"
  using assms(3) length_mem_at [OF assms(1,2)] by (simp add: mem_read_def)

lemma fill_chunk_safe:
  assumes c: "flash_ctx env m b sz" and i: "img_inv m sz Img" and s: "sp_inv m b sz sh sp"
    and dv: "blk_sz sh mod BlockSize b = 0"
  shows "chunk_safe m b sz sh log (HandleChunkTypeFill env m sh ch Img sp log)"
proof (cases "Img = 0 \<or> (ucast (total_sz ch) :: u64) \<noteq> ucast (chunk_hdr_sz sh) + 4 \<or>
    \<not> alloc_pool env (unat (blk_sz sh)) \<or> CHECK_ADD64 Img 4 \<or> ImageEnd sp < Img + 4")
  case True
  then have "\<exists>st. st \<noteq> EFI_SUCCESS \<and> HandleChunkTypeFill env m sh ch Img sp log = Some (st, Img, sp, log)"
    unfolding HandleChunkTypeFill_def by (auto simp del: not_less)
  then show ?thesis using s chunk_safe_stop by force
next
  case False
  have e: "ImageEnd sp = mem_base m + sz" using s by (simp add: sp_inv_def)
  have adv: "unat Img + 4 \<le> unat (mem_base m) + unat sz" "img_inv m sz (Img + 4)"
    using image_advance [OF c i e, of 4] False by simp_all
  let ?w = "take 4 (mem_at m Img)"
  obtain st sp' ws where "fill_blocks env (fill_buffer (blk_sz sh) (GET_LWORD_FROM_BYTE ?w)) sh
      (unat (chunk_sz ch)) sp log = Some (st, sp', log @ ws)" "in_partition b ws" "sp_inv m b sz sh sp'"
    using fill_blocks_safe [OF c dv length_fill_buffer s] by blast
  moreover have "mem_read m Img 4 = Some ?w" by (rule mem_read_image [OF c i adv(1)])
  ultimately show ?thesis
    using False adv(2) by (auto simp: HandleChunkTypeFill_def intro!: chunk_safe_leave)
qed

lemma crc_chunk_safe:
  assumes c: "flash_ctx env m b sz" and i: "img_inv m sz Img" and s: "sp_inv m b sz sh sp"
    and o1: "\<not> CHECK_ADD64 Img (ChunkDataSz sp)"
  shows "\<not> ImageEnd sp < Img + ucast (ucast (ChunkDataSz sp) :: u32) \<Longrightarrow>
    img_inv m sz (Img + ucast (ucast (ChunkDataSz sp) :: u32))"
proof -
  assume e: "\<not> ImageEnd sp < Img + ucast (ucast (ChunkDataSz sp) :: u32)"
  let ?n = "ucast (ucast (ChunkDataSz sp) :: u32) :: u64"
  have "unat ?n \<le> unat (ChunkDataSz sp)"
    by (simp add: unsigned_ucast_eq take_bit_eq_mod unat_mod)
  then have "\<not> CHECK_ADD64 Img ?n" using o1 by (simp add: CHECK_ADD64_iff)
  then show ?thesis using image_advance(3) [OF c i, of sp] s e by (simp add: sp_inv_def)
qed

lemma chunk_handler_safe:
  assumes c: "flash_ctx env m b sz" and i: "img_inv m sz Img" and s: "sp_inv m b sz sh sp"
    and dv: "blk_sz sh mod BlockSize b = 0" and cd: "ChunkDataSz sp = ucast (blk_sz sh) * ucast (chunk_sz ch)"
    and g1: "\<not> ucast (TotalBlocks sp) * ucast (blk_sz sh) \<ge> PartitionSize sp"
    and g2: "\<not> ucast (TotalBlocks sp) * ucast (blk_sz sh) + ChunkDataSz sp > PartitionSize sp"
  shows "chunk_safe m b sz sh log (ValidateChunkDataAndFlash env m sh ch Img sp log)"
proof -
  have stop: "chunk_safe m b sz sh log (Some (st, Img', sp, log))" if "st \<noteq> EFI_SUCCESS \<or> Img' = Img" for st Img'
    using chunk_safe_stop [OF s] that i by auto
  have stop': "chunk_safe m b sz sh log (Some (st, Img', sp\<lparr>TotalBlocks := t\<rparr>, log))"
    if "st \<noteq> EFI_SUCCESS \<or> Img' = Img \<or> img_inv m sz Img'" for st Img' t
    using chunk_safe_stop [of m b sz sh "sp\<lparr>TotalBlocks := t\<rparr>" st Img' log] that i s by auto
  note raw = raw_chunk_safe [OF c i s dv cd g1 g2, of log] and fill = fill_chunk_safe [OF c i s dv, of log ch]
  show ?thesis
    unfolding ValidateChunkDataAndFlash_def Let_def
    using raw fill stop stop' crc_chunk_safe [OF c i s] by (simp del: not_less)
qed

lemma sparse_chunks_safe:
  assumes c: "flash_ctx env m b sz" and dv: "blk_sz sh mod BlockSize b = 0"
  shows "img_inv m sz Img \<Longrightarrow> sp_inv m b sz sh sp \<Longrightarrow>
    \<exists>st sp' ws. sparse_chunks env m sh n Img sp log = Some (st, sp', log @ ws) \<and> in_partition b ws"
proof (induction n arbitrary: Img sp log)
  case 0
  then show ?case by (auto intro: exI [of _ "[]"])
next
  case (Suc n)
  note i = Suc.prems(1) and s = Suc.prems(2)
  let ?X = "ucast (TotalBlocks sp) * ucast (blk_sz sh) :: u64"
  show ?case
  proof (cases "?X \<ge> PartitionSize sp \<or> CHECK_ADD64 Img 12 \<or> ImageEnd sp < Img + 12 \<or> chunk_hdr_sz sh \<noteq> 12")
    case True
    then have "\<exists>st. sparse_chunks env m sh (Suc n) Img sp log = Some (st, sp, log @ [])"
      by (auto simp: Let_def simp del: not_less not_le)
    then show ?thesis using in_partition_simps(1) by blast
  next
    case False
    have e: "ImageEnd sp = mem_base m + sz" using s by (simp add: sp_inv_def)
    have adv: "unat Img + 12 \<le> unat (mem_base m) + unat sz" "img_inv m sz (Img + 12)"
      using image_advance [OF c i e, of 12] False by simp_all
    obtain ch where ch: "read_chunk_header m Img = Some ch"
      using mem_read_image [OF c i adv(1)] by (simp add: read_chunk_header_def)
    define sp1 where "sp1 = sp\<lparr>ChunkDataSz := ucast (blk_sz sh) * ucast (chunk_sz ch)\<rparr>"
    have s1: "sp_inv m b sz sh sp1" using s by (simp add: sp1_def)
    have eq: "sparse_chunks env m sh (Suc n) Img sp log =
      (if ?X + ChunkDataSz sp1 > PartitionSize sp1 then Some (EFI_VOLUME_FULL, sp1, log)
       else do {
         (Status, Img2, sp2, log2) \<leftarrow> ValidateChunkDataAndFlash env m sh ch (Img + 12) sp1 log;
         if EFI_ERROR Status then Some (Status, sp2, log2) else sparse_chunks env m sh n Img2 sp2 log2 })"
      using False ch by (simp add: Let_def sp1_def del: not_less not_le)
    show ?thesis
    proof (cases "?X + ChunkDataSz sp1 > PartitionSize sp1")
      case True
      then have "sparse_chunks env m sh (Suc n) Img sp log = Some (EFI_VOLUME_FULL, sp1, log @ [])"
        using eq by simp
      then show ?thesis using in_partition_simps(1) by blast
    next
      case False2: False
      have "chunk_safe m b sz sh log (ValidateChunkDataAndFlash env m sh ch (Img + 12) sp1 log)"
        by (rule chunk_handler_safe [OF c adv(2) s1 dv]) (use False False2 in \<open>simp_all add: sp1_def del: not_less not_le\<close>)
      then obtain st2 Img2 sp2 ws where v:
        "ValidateChunkDataAndFlash env m sh ch (Img + 12) sp1 log = Some (st2, Img2, sp2, log @ ws)"
        "in_partition b ws" "sp_inv m b sz sh sp2" "st2 = EFI_SUCCESS \<longrightarrow> img_inv m sz Img2"
        by (auto simp: chunk_safe_def)
      show ?thesis
      proof (cases "EFI_ERROR st2")
        case True
        then show ?thesis using eq False2 v by auto
      next
        case ok: False
        obtain st3 sp3 ws3 where r: "sparse_chunks env m sh n Img2 sp2 (log @ ws) = Some (st3, sp3, (log @ ws) @ ws3)"
          "in_partition b ws3" using Suc.IH [OF _ v(3), of Img2 "log @ ws"] v(4) ok by (simp only: not_EFI_ERROR) blast
        have "sparse_chunks env m sh (Suc n) Img sp log = Some (st3, sp3, log @ (ws @ ws3))"
          using eq False2 v(1) ok r(1) by simp
        then show ?thesis using v(2) r(2) by (meson in_partition_simps(2))
      qed
    qed
  qed
qed

lemma sparse_to_device_safe:
  assumes c: "flash_ctx env m b sz"
  shows "\<exists>st ws. sparse_to_device env m b (mem_base m) sz log = Some (st, log @ ws) \<and> in_partition b ws"
proof -
  have stop: "\<exists>st' ws. Some (st, log) = Some (st', log @ ws) \<and> in_partition b ws" for st
    by (rule exI [of _ st], rule exI [of _ "[]"]) simp
  obtain k where k: "9 \<le> k" "k \<le> 20" "BlockSize b = 2 ^ k" using c by (auto simp: flash_ctx_def)
  then have "0 < unat (BlockSize b)" by (simp add: unat_two_power_u32)
  then have B: "BlockSize b \<noteq> 0" by auto
  have i0: "img_inv m sz (mem_base m)" by (simp add: img_inv_def)
  show ?thesis
  proof (cases "GetPartitionSize (Some b) = 0 \<or> sz < 28")
    case True
    then have "\<exists>st. sparse_to_device env m b (mem_base m) sz log = Some (st, log)"
      by (auto simp: sparse_to_device_def Let_def simp del: not_less)
    then show ?thesis using stop by force
  next
    case False
    then have sz: "28 \<le> unat sz" by (simp add: not_less word_le_nat_alt)
    obtain sh where sh: "read_sparse_header m (mem_base m) = Some sh"
      using mem_read_image [OF c i0, of 28] sz by (simp add: read_sparse_header_def)
    show ?thesis
    proof (cases "(ucast (total_blks sh) :: u64) * ucast (blk_sz sh) > GetPartitionSize (Some b) \<or>
        file_hdr_sz sh \<noteq> 28 \<or> blk_sz sh = 0 \<or> blk_sz sh mod BlockSize b \<noteq> 0")
      case True
      then have "\<exists>st. sparse_to_device env m b (mem_base m) sz log = Some (st, log)"
        using False sh B by (auto simp: sparse_to_device_def Let_def simp del: not_less del: mod_0_imp_dvd)
      then show ?thesis using stop by force
    next
      case F2: False
      have "unat (mem_base m + 28) = unat (mem_base m) + 28"
        by (subst unat_plus_bound) (use c sz in \<open>simp_all add: flash_ctx_def\<close>)
      then have i: "img_inv m sz (mem_base m + 28)" using sz by (simp add: img_inv_def)
      let ?sp = "\<lparr>TotalBlocks = 0, ChunkDataSz = 0, ImageEnd = mem_base m + sz, WrittenBlockCount = 0,
        BlockCountFactor = ucast (blk_sz sh div BlockSize b), PartitionSize = GetPartitionSize (Some b),
        SparseBlockIo = b\<rparr>"
      have dv: "blk_sz sh mod BlockSize b = 0" using F2 by blast
      obtain st sp' ws where "sparse_chunks env m sh (unat (total_chunks sh)) (mem_base m + 28) ?sp log =
          Some (st, sp', log @ ws)" "in_partition b ws"
        using sparse_chunks_safe [OF c dv i, of ?sp "unat (total_chunks sh)" log] by (auto simp: sp_inv_def)
      then show ?thesis
        using F2 False sh B dv by (simp add: sparse_to_device_def Let_def del: not_less)
    qed
  qed
qed

end
