(* ===== verification/MiscPartition.thy ===== *)
theory MiscPartition
  imports HandleSearch
begin

text \<open>
  The root device and the misc partition: \<open>CheckRootDeviceType\<close> and its helpers (\<open>Board.c\<close>),
  \<open>WriteToPartition\<close>, \<open>LoadImageFromPartition\<close> and \<open>GetNandMiscPartiGuid\<close>
  (\<open>LinuxLoaderLib.c\<close>), and the recovery and snapshot messages of \<open>Recovery.c\<close>.

  The state is the log of device operations and, for the snapshot message, the cached copy of
  \<open>VirtualAbMsg\<close>.
\<close>

section \<open>The root device\<close>

text \<open>What the firmware answers: block I/O, the handle database, the card type reported by the
  card information protocol, and the GUID of the NAND misc partition.\<close>

record misc_env =
  mi_io :: io_env
  mi_db :: handle_db
  mi_card :: "string option"
  mi_nand_guid :: "efi_status \<times> EFI_GUID"
  mi_dynamic :: bool

abbreviation HANDLE_MAX_INFO_LIST :: nat where "HANDLE_MAX_INFO_LIST \<equiv> 128"

definition GetDeviceHandleInfo :: "handle_db \<Rightarrow> nat \<Rightarrow> root_device \<Rightarrow>
    (efi_status \<times> HandleInfo list) option" where
  "GetDeviceHandleInfo db MaxHandles Type =
     (let search = \<lambda>g. do {
            (st, hs, n) \<leftarrow> GetBlkIOHandles db BLK_IO_SEL_MATCH_ROOT_DEVICE (Some (root_filter g)) MaxHandles;
            Some (st, hs)
          }
      in case Type of
        UFS \<Rightarrow> search (LunGuids ! 0)
      | EMMC \<Rightarrow> search gEfiEmmcUserPartitionGuid
      | NAND \<Rightarrow> search gEfiNandUserPartitionGuid
      | UNKNOWN \<Rightarrow> Some (EFI_INVALID_PARAMETER, []))"

text \<open>The loop of \<open>GetCompatibleRootDeviceType\<close> over the device types in the order of the
  enumeration.\<close>

fun first_device :: "handle_db \<Rightarrow> root_device list \<Rightarrow> root_device option" where
  "first_device db [] = Some UNKNOWN"
| "first_device db (t # ts) = do {
     (st, hs) \<leftarrow> GetDeviceHandleInfo db HANDLE_MAX_INFO_LIST t;
     if st = EFI_SUCCESS then Some t else first_device db ts
   }"

definition GetCompatibleRootDeviceType :: "handle_db \<Rightarrow> root_device option" where
  "GetCompatibleRootDeviceType db = first_device db [EMMC, UFS, NAND]"

text \<open>\<open>AsciiStrnCmp\<close> is zero when the first \<open>n\<close> characters agree.\<close>

definition AsciiStrnCmp :: "string \<Rightarrow> string \<Rightarrow> nat \<Rightarrow> bool" where
  "AsciiStrnCmp a b n \<longleftrightarrow> take n a \<noteq> take n b"

text \<open>\<open>CheckRootDeviceType\<close>, with the value cached by earlier calls.\<close>

definition CheckRootDeviceType :: "misc_env \<Rightarrow> root_device \<Rightarrow> root_device option" where
  "CheckRootDeviceType env Type =
     (if Type = UNKNOWN then
        (case mi_card env of
           None \<Rightarrow> Some Type
         | Some card_type \<Rightarrow>
             if \<not> AsciiStrnCmp card_type ''UFS'' 3 then Some UFS
             else if \<not> AsciiStrnCmp card_type ''EMMC'' 4 then Some EMMC
             else if \<not> AsciiStrnCmp card_type ''NAND'' 4 then Some NAND
             else GetCompatibleRootDeviceType (mi_db env))
      else Some Type)"

text \<open>\<open>GetPageSize\<close>: the block size of the first handle of the root device, 4096 when the search
  fails. A successful search without handles leaves the handle list uninitialised.\<close>

definition GetPageSize :: "misc_env \<Rightarrow> u32 option" where
  "GetPageSize env = do {
     t \<leftarrow> CheckRootDeviceType env UNKNOWN;
     (st, hs) \<leftarrow> GetDeviceHandleInfo (mi_db env) HANDLE_MAX_INFO_LIST t;
     if st = EFI_SUCCESS then (if hs = [] then None else Some (BlockSize (BlkIo (hs ! 0))))
     else Some 4096
   }"

section \<open>A partition by its type GUID\<close>

definition gEfiMiscPartitionGuid :: EFI_GUID where
  "gEfiMiscPartitionGuid = GUID 0x82ACC91F 0x357C 0x4A68 [0x9C, 0x8F, 0x68, 0x9E, 0x1B, 0x1A, 0x23, 0xA1]"

definition type_filter :: "EFI_GUID \<Rightarrow> PartiSelectFilter" where
  "type_filter g = \<lparr>RootDeviceType = None, PartitionType = Some g, VolumeName = None, PartitionLabel = None\<rparr>"

text \<open>The search all routines of this theory share: a list of one element, and the three outcomes
  of the count.\<close>

definition single_handle :: "handle_db \<Rightarrow> u32 \<Rightarrow> PartiSelectFilter \<Rightarrow> (efi_status \<times> HandleInfo option) option" where
  "single_handle db BlkIOAttrib flt = do {
     (st, hs, MaxHandles) \<leftarrow> GetBlkIOHandles db BlkIOAttrib (Some flt) 1;
     if st = EFI_SUCCESS then
       if MaxHandles = 0 then Some (EFI_NO_MEDIA, None)
       else if MaxHandles \<noteq> 1 then Some (EFI_LOAD_ERROR, None)
       else if hs = [] then None
       else Some (EFI_SUCCESS, Some (hs ! 0))
     else Some (st, None)
   }"

abbreviation by_type :: u32 where
  "by_type \<equiv> BLK_IO_SEL_PARTITIONED_GPT OR BLK_IO_SEL_MEDIA_TYPE_NON_REMOVABLE OR
     BLK_IO_SEL_MATCH_PARTITION_TYPE_GUID"

definition WriteToPartition :: "misc_env \<Rightarrow> EFI_GUID \<Rightarrow> bytes option \<Rightarrow> u32 \<Rightarrow> disk_op list \<Rightarrow>
    (efi_status \<times> disk_op list) option" where
  "WriteToPartition env Ptype Msg MsgSize log =
     (case Msg of
        None \<Rightarrow> Some (EFI_INVALID_PARAMETER, log)
      | Some msg \<Rightarrow> do {
          (st, h) \<leftarrow> single_handle (mi_db env) by_type (type_filter Ptype);
          case h of
            None \<Rightarrow> Some (st, log)
          | Some hi \<Rightarrow> WriteBlockToPartition (mi_io env) (Some (BlkIo hi)) 0 (ucast MsgSize) (Some msg) log
        })"

text \<open>\<open>LoadImageFromPartition\<close>: the status and the data read, by partition label.\<close>

definition label_filter :: "string \<Rightarrow> PartiSelectFilter" where
  "label_filter Pname = \<lparr>RootDeviceType = None, PartitionType = None, VolumeName = None,
     PartitionLabel = Some Pname\<rparr>"

definition LoadImageFromPartition :: "misc_env \<Rightarrow> u32 \<Rightarrow> string \<Rightarrow> disk_op list \<Rightarrow>
    (efi_status \<times> bytes) option" where
  "LoadImageFromPartition env ImageSize Pname log = do {
     (st, h) \<leftarrow> single_handle (mi_db env)
       (BLK_IO_SEL_PARTITIONED_MBR OR BLK_IO_SEL_PARTITIONED_GPT OR BLK_IO_SEL_MEDIA_TYPE_NON_REMOVABLE OR
        BLK_IO_SEL_MATCH_PARTITION_LABEL) (label_filter Pname);
     case h of
       None \<Rightarrow> Some (st, [])
     | Some hi \<Rightarrow>
         let b = BlkIo hi
         in Some (read_blocks (mi_io env) log (bio_id b) 0 (unat (ROUND_TO_PAGE ImageSize (BlockSize b - 1))))
   }"

text \<open>\<open>ReadFromPartitionOffset\<close>: the status and the buffer, when one is left to the caller.\<close>

definition ReadFromPartitionOffset :: "misc_env \<Rightarrow> EFI_GUID \<Rightarrow> u32 \<Rightarrow> u32 \<Rightarrow> disk_op list \<Rightarrow>
    (efi_status \<times> bytes option) option" where
  "ReadFromPartitionOffset env Ptype Size Offset log = do {
     (st, h) \<leftarrow> single_handle (mi_db env) by_type (type_filter Ptype);
     case h of
       None \<Rightarrow> Some (st, None)
     | Some hi \<Rightarrow>
         let b = BlkIo hi;
             MsgSize = ucast (ROUND_TO_PAGE Size (BlockSize b - 1)) :: u64;
             psize = GetPartitionSize (Some b)
         in if MsgSize > psize \<or> psize = 0 then Some (EFI_OUT_OF_RESOURCES, None)
            else if \<not> alloc_pool (mi_io env) (unat MsgSize) then Some (EFI_OUT_OF_RESOURCES, None)
            else if BlockSize b = 0 then None
            else if Offset mod BlockSize b \<noteq> 0
            then Some (EFI_INVALID_PARAMETER, Some (replicate (unat MsgSize) 0))
            else (case read_blocks (mi_io env) log (bio_id b) (ucast (Offset div BlockSize b)) (unat MsgSize) of
              (st', buf) \<Rightarrow> if st' \<noteq> EFI_SUCCESS then Some (st', None) else Some (EFI_SUCCESS, Some buf))
   }"

definition ReadFromPartition :: "misc_env \<Rightarrow> EFI_GUID \<Rightarrow> u32 \<Rightarrow> disk_op list \<Rightarrow>
    (efi_status \<times> bytes option) option" where
  "ReadFromPartition env Ptype Size log = ReadFromPartitionOffset env Ptype Size 0 log"

text \<open>The misc partition's GUID: fixed, or asked from the NAND protocol.\<close>

definition GetNandMiscPartiGuid :: "misc_env \<Rightarrow> efi_status \<times> EFI_GUID" where
  "GetNandMiscPartiGuid env = mi_nand_guid env"

definition misc_guid :: "misc_env \<Rightarrow> root_device \<Rightarrow> efi_status \<times> EFI_GUID" where
  "misc_guid env CardType =
     (if CardType = NAND then GetNandMiscPartiGuid env else (EFI_SUCCESS, gEfiMiscPartitionGuid))"

section \<open>Recovery messages\<close>

abbreviation COMMAND_SIZE :: nat where "COMMAND_SIZE \<equiv> 32"
abbreviation RECOVERY_MESSAGE_SIZE :: u32 where "RECOVERY_MESSAGE_SIZE \<equiv> 1088"

definition ascii :: "string \<Rightarrow> bytes" where
  "ascii = List.map of_char"

text \<open>\<open>AsciiStrnCpyS\<close> into an array of \<open>m\<close> bytes at \<open>off\<close>; the rest of the array is kept.\<close>

definition AsciiStrnCpyS :: "bytes \<Rightarrow> nat \<Rightarrow> nat \<Rightarrow> string \<Rightarrow> nat \<Rightarrow> efi_status \<times> bytes" where
  "AsciiStrnCpyS b off m source n =
     (if length (take n source) < m then (EFI_SUCCESS, splice off (ascii (take n source) @ [0]) b)
      else (EFI_BUFFER_TOO_SMALL, b))"

definition WriteRecoveryMessage :: "misc_env \<Rightarrow> string \<Rightarrow> disk_op list \<Rightarrow> (efi_status \<times> disk_op list) option" where
  "WriteRecoveryMessage env Command log = do {
     CardType \<leftarrow> CheckRootDeviceType env UNKNOWN;
     let (s, Ptype) = misc_guid env CardType;
     if s \<noteq> EFI_SUCCESS then Some (s, log)
     else do {
       PageSize \<leftarrow> GetPageSize env;
       (st, data) \<leftarrow> ReadFromPartition env Ptype (PageSize * 2) log;
       if st \<noteq> EFI_SUCCESS then Some (st, log)
       else case data of
         None \<Rightarrow> Some (EFI_INVALID_PARAMETER, log)
       | Some d \<Rightarrow>
           let off = (if CardType = NAND then unat PageSize else 0) in
           if off + COMMAND_SIZE > length d then None
           else
             let (st', d') = AsciiStrnCpyS d off COMMAND_SIZE Command (length Command)
             in if st' = EFI_SUCCESS
                then WriteToPartition env Ptype (Some (drop off d')) RECOVERY_MESSAGE_SIZE log
                else Some (st', log)
     }
   }"

text \<open>The command of a message begins with the given text, after its last byte is cleared.\<close>

definition command_is :: "bytes \<Rightarrow> nat \<Rightarrow> string \<Rightarrow> bool" where
  "command_is d off cmd \<longleftrightarrow> take (length cmd) (drop off (d[off + COMMAND_SIZE - 1 := 0])) = ascii cmd"

definition RecoveryInit :: "misc_env \<Rightarrow> bool \<Rightarrow> disk_op list \<Rightarrow> (efi_status \<times> bool) option" where
  "RecoveryInit env BootIntoRecovery log = do {
     CardType \<leftarrow> CheckRootDeviceType env UNKNOWN;
     let (s, Ptype) = misc_guid env CardType;
     if s \<noteq> EFI_SUCCESS then Some (s, BootIntoRecovery)
     else do {
       PageSize \<leftarrow> GetPageSize env;
       (st, data) \<leftarrow> ReadFromPartition env Ptype (PageSize * 2) log;
       if st \<noteq> EFI_SUCCESS then Some (st, BootIntoRecovery)
       else case data of
         None \<Rightarrow> Some (EFI_INVALID_PARAMETER, BootIntoRecovery)
       | Some d \<Rightarrow>
           let off = (if CardType = NAND then unat PageSize else 0) in
           if off + COMMAND_SIZE > length d then None
           else Some (st, BootIntoRecovery \<or> command_is d off ''boot-recovery'' \<or>
                  (mi_dynamic env \<and> command_is d off ''boot-fastboot''))
     }
   }"

section \<open>Factory test mode\<close>

text \<open>\<open>GetFfbmCommand\<close>: the status and the content of the caller's string of \<open>Sz\<close> bytes. A copy
  that does not fit leaves the string as it was.\<close>

definition GetFfbmCommand :: "misc_env \<Rightarrow> bytes \<Rightarrow> u32 \<Rightarrow> disk_op list \<Rightarrow> (efi_status \<times> bytes) option" where
  "GetFfbmCommand env FfbmString Sz log = do {
     CardType \<leftarrow> CheckRootDeviceType env UNKNOWN;
     let (s, Ptype) = misc_guid env CardType;
     if s \<noteq> EFI_SUCCESS then Some (s, FfbmString)
     else do {
       (st, data) \<leftarrow> ReadFromPartition env Ptype Sz log;
       if st \<noteq> EFI_SUCCESS then Some (st, FfbmString)
       else case data of
         None \<Rightarrow> None
       | Some d0 \<Rightarrow>
           if Sz = 0 \<or> unat Sz > length d0 then None
           else
             let d = d0[unat Sz - 1 := 0];
                 starts = \<lambda>cmd. take (length cmd) d = ascii cmd
             in if starts ''qmmi'' \<or> starts ''ffbm-02''
                then Some (st, if 4 < unat Sz then splice 0 (ascii ''qmmi'' @ [0]) FfbmString else FfbmString)
                else if starts ''ffbm-''
                then Some (st, let t = takeWhile (\<lambda>c. c \<noteq> 0) d in
                               if length t < unat Sz then splice 0 (t @ [0]) FfbmString else FfbmString)
                else Some (EFI_NOT_FOUND, FfbmString)
     }
   }"

section \<open>The snapshot merge status\<close>

datatype VirtualAbMergeStatus = NONE_MERGE_STATUS | UNKNOWN_MERGE_STATUS | SNAPSHOTTED | MERGING | CANCELLED

text \<open>The cached message is the page read from the misc partition: version, magic and merge status
  at bytes 0, 1 and 5 of the packed structure.\<close>

definition merge_code :: "VirtualAbMergeStatus \<Rightarrow> u8" where
  "merge_code s = (case s of NONE_MERGE_STATUS \<Rightarrow> 0 | UNKNOWN_MERGE_STATUS \<Rightarrow> 1 | SNAPSHOTTED \<Rightarrow> 2
     | MERGING \<Rightarrow> 3 | CANCELLED \<Rightarrow> 4)"

abbreviation MISC_VIRTUALAB_OFFSET :: u32 where "MISC_VIRTUALAB_OFFSET \<equiv> 32768"

definition vab_valid :: "bytes \<Rightarrow> bool" where
  "vab_valid m \<longleftrightarrow> slice 1 4 m = [0xB0, 0x0A, 0x74, 0x56] \<and> m ! 0 = 2"

definition WriteVirtualABMessage :: "misc_env \<Rightarrow> bytes \<Rightarrow> disk_op list \<Rightarrow> (efi_status \<times> disk_op list) option" where
  "WriteVirtualABMessage env VirtualAbMsg log = do {
     CardType \<leftarrow> CheckRootDeviceType env UNKNOWN;
     if CardType = NAND then Some (EFI_UNSUPPORTED, log)
     else do {
       PageSize \<leftarrow> GetPageSize env;
       (st, h) \<leftarrow> single_handle (mi_db env) by_type (type_filter gEfiMiscPartitionGuid);
       case h of
         None \<Rightarrow> Some (st, log)
       | Some hi \<Rightarrow>
           if BlockSize (BlkIo hi) = 0 then None
           else WriteBlockToPartition (mi_io env) (Some (BlkIo hi))
                  (ucast (MISC_VIRTUALAB_OFFSET div BlockSize (BlkIo hi))) (ucast PageSize) (Some VirtualAbMsg) log
     }
   }"

text \<open>\<open>SetSnapshotMergeStatus\<close> and \<open>GetSnapshotMergeStatus\<close>, with the cached message.\<close>

definition SetSnapshotMergeStatus :: "misc_env \<Rightarrow> VirtualAbMergeStatus \<Rightarrow> bytes option \<Rightarrow> disk_op list \<Rightarrow>
    (efi_status \<times> bytes option \<times> disk_op list) option" where
  "SetSnapshotMergeStatus env MergeStatus VirtualAbMsg log =
     (case VirtualAbMsg of
        None \<Rightarrow> Some (EFI_NOT_FOUND, None, log)
      | Some m \<Rightarrow>
          let OldMergeStatus = m ! 5; m1 = m[5 := merge_code MergeStatus]
          in do {
            (st, log') \<leftarrow> WriteVirtualABMessage env m1 log;
            Some (st, Some (if st \<noteq> EFI_SUCCESS then m1[5 := OldMergeStatus] else m1), log')
          })"

definition GetSnapshotMergeStatus :: "misc_env \<Rightarrow> bytes option \<Rightarrow> disk_op list \<Rightarrow> (u8 \<times> bytes option) option" where
  "GetSnapshotMergeStatus env VirtualAbMsg log =
     (case VirtualAbMsg of
        Some m \<Rightarrow> Some (m ! 5, VirtualAbMsg)
      | None \<Rightarrow> do {
          CardType \<leftarrow> CheckRootDeviceType env UNKNOWN;
          if CardType = NAND then Some (merge_code NONE_MERGE_STATUS, None)
          else do {
            PageSize \<leftarrow> GetPageSize env;
            (st, data) \<leftarrow> ReadFromPartitionOffset env gEfiMiscPartitionGuid PageSize MISC_VIRTUALAB_OFFSET log;
            case data of
              None \<Rightarrow> Some (merge_code NONE_MERGE_STATUS, None)
            | Some m \<Rightarrow>
                if st \<noteq> EFI_SUCCESS then Some (merge_code NONE_MERGE_STATUS, Some m)
                else if \<not> vab_valid m then Some (merge_code NONE_MERGE_STATUS, None)
                else Some (m ! 5, Some m)
          }
        })"

section \<open>The searched partition\<close>

lemma single_handle_first:
  assumes "db (sel (adjust_attribs a) (BLK_IO_SEL_SELECT_MOUNTED_FILESYSTEM OR
               BLK_IO_SEL_SELECT_BY_VOLUME_NAME)) = (EFI_SUCCESS, hs)"
    and "\<forall>h\<in>set hs. decidable (adjust_attribs a) (Some flt) h"
    and "concat (List.map (chosen (adjust_attribs a) (Some flt)) hs) = hi # his"
  shows "single_handle db a flt = Some (EFI_SUCCESS, Some hi)"
proof -
  have "GetBlkIOHandles db a (Some flt) 1 = Some (EFI_SUCCESS, [hi], 1)"
    using GetBlkIOHandles_eq [of db a hs "Some flt" 1] assms by simp
  then show ?thesis by (simp add: single_handle_def)
qed

text \<open>With several partitions of the requested type, \<open>WriteToPartition\<close> writes to the first one:
  its search holds a single handle, so the check that reports multiple partitions never applies.\<close>

theorem WriteToPartition_takes_first:
  assumes "mi_db env (sel (adjust_attribs by_type) (BLK_IO_SEL_SELECT_MOUNTED_FILESYSTEM OR
               BLK_IO_SEL_SELECT_BY_VOLUME_NAME)) = (EFI_SUCCESS, hs)"
    and "\<forall>h\<in>set hs. decidable (adjust_attribs by_type) (Some (type_filter g)) h"
    and "concat (List.map (chosen (adjust_attribs by_type) (Some (type_filter g))) hs) = hi # hi2 # his"
  shows "WriteToPartition env g (Some msg) n log =
    WriteBlockToPartition (mi_io env) (Some (BlkIo hi)) 0 (ucast n) (Some msg) log"
  using single_handle_first [of "mi_db env" by_type hs "type_filter g" hi "hi2 # his"] assms
  by (simp add: WriteToPartition_def)

section \<open>Recovery messages survive\<close>

text \<open>The setting: an eMMC or UFS device whose page size is the block size of the misc partition,
  with the medium \<open>d\<close> after the operations of \<open>log\<close>, accepting every operation.\<close>

definition misc_medium :: "misc_env \<Rightarrow> HandleInfo \<Rightarrow> disk_op list \<Rightarrow> bytes \<Rightarrow> bool" where
  "misc_medium env hi log d \<longleftrightarrow> (\<exists>t. CheckRootDeviceType env UNKNOWN = Some t \<and> t \<noteq> NAND) \<and>
     root_type (mi_io env) \<noteq> NAND \<and> GetPageSize env = Some (BlockSize (BlkIo hi)) \<and>
     single_handle (mi_db env) by_type (type_filter gEfiMiscPartitionGuid) = Some (EFI_SUCCESS, Some hi) \<and>
     unat (GetPartitionSize (Some (BlkIo hi))) = length d \<and> 2 * unat (BlockSize (BlkIo hi)) \<le> length d \<and>
     reads_medium (mi_io env) (BlkIo hi) log d \<and> (\<forall>n. alloc_pool (mi_io env) n) \<and>
     (\<forall>l op. op_status (mi_io env) l op = EFI_SUCCESS)"

lemma round_two_pages:
  "k \<in> {9..20} \<Longrightarrow> ROUND_TO_PAGE (2 ^ k * 2) (2 ^ k - 1) = 2 ^ k * 2"
proof -
  assume "k \<in> {9..20}"
  then have "k \<in> {9, 10, 11, 12, 13, 14, 15, 16, 17, 18, 19, 20}"
    by (simp only: atLeastAtMost_iff insert_iff empty_iff) presburger
  then show ?thesis by (elim insertE emptyE) (simp_all add: ROUND_TO_PAGE_def ADD_OF_def)
qed

lemma two_pages_size:
  assumes "k \<in> {9..20}" "BlockSize b = 2 ^ k"
  shows "unat (ROUND_TO_PAGE (BlockSize b * 2) (BlockSize b - 1)) = 2 * unat (BlockSize b)"
    "unat (BlockSize b) = 2 ^ k"
proof -
  have "k \<in> {9, 10, 11, 12, 13, 14, 15, 16, 17, 18, 19, 20}"
    using assms(1) by (simp only: atLeastAtMost_iff insert_iff empty_iff) presburger
  then show "unat (ROUND_TO_PAGE (BlockSize b * 2) (BlockSize b - 1)) = 2 * unat (BlockSize b)"
    unfolding assms(2) round_two_pages [OF assms(1)] by (elim insertE emptyE) simp_all
  show "unat (BlockSize b) = 2 ^ k" using assms by (simp add: unat_two_power_u32)
qed

text \<open>Reading the first two pages of the medium.\<close>

lemma read_two_pages:
  assumes m: "misc_medium env hi log d" and k: "k \<in> {9..20}" "BlockSize (BlkIo hi) = 2 ^ k"
  shows "ReadFromPartition env gEfiMiscPartitionGuid (BlockSize (BlkIo hi) * 2) (log @ ws) =
    Some (EFI_SUCCESS, Some (slice 0 (2 * unat (BlockSize (BlkIo hi))) (replay (unat (BlockSize (BlkIo hi))) ws d)))"
proof -
  let ?b = "BlkIo hi"
  note n = two_pages_size [OF k]
  have n64: "unat (ucast (ROUND_TO_PAGE (BlockSize ?b * 2) (BlockSize ?b - 1)) :: u64) = 2 * unat (BlockSize ?b)"
    by (simp add: n(1))
  have B: "BlockSize ?b \<noteq> 0" using n(2) by auto
  have "\<not> (ucast (ROUND_TO_PAGE (BlockSize ?b * 2) (BlockSize ?b - 1)) :: u64) > GetPartitionSize (Some ?b)"
    "GetPartitionSize (Some ?b) \<noteq> 0"
    using m n64 n(2) by (auto simp: misc_medium_def word_less_nat_alt)
  then show ?thesis
    using m B n64 n(1) unfolding ReadFromPartition_def ReadFromPartitionOffset_def
    by (simp add: misc_medium_def reads_medium_def Let_def)
qed

lemma misc_guid_fixed: "t \<noteq> NAND \<Longrightarrow> misc_guid env t = (EFI_SUCCESS, gEfiMiscPartitionGuid)"
  by (simp add: misc_guid_def)


text \<open>With 512-byte blocks the two pages \<open>WriteRecoveryMessage\<close> reads are shorter than the
  message it writes back: the write reads past the end of the buffer.\<close>

theorem WriteRecoveryMessage_overreads:
  assumes m: "misc_medium env hi log d" and k: "BlockSize (BlkIo hi) = 512" and c: "length cmd < 32"
  shows "WriteRecoveryMessage env cmd log = None"
proof -
  let ?b = "BlkIo hi"
  have k2: "9 \<in> {9..20::nat}" "BlockSize ?b = 2 ^ 9" using k by simp_all
  obtain t where t: "CheckRootDeviceType env UNKNOWN = Some t" "t \<noteq> NAND" using m by (auto simp: misc_medium_def)
  have d: "1024 \<le> length d" and ps: "GetPageSize env = Some (BlockSize ?b)"
    and sh: "single_handle (mi_db env) by_type (type_filter gEfiMiscPartitionGuid) = Some (EFI_SUCCESS, Some hi)"
    and rt: "root_type (mi_io env) \<noteq> NAND" using m k by (simp_all add: misc_medium_def)
  define pg where "pg = slice 0 1024 d"
  have lp: "length pg = 1024" using d by (simp add: pg_def)
  define msg where "msg = splice 0 (ascii cmd @ [0]) pg"
  have lm: "length msg = 1024" using lp c by (simp add: msg_def length_splice ascii_def)
  have cpy: "AsciiStrnCpyS pg 0 COMMAND_SIZE cmd (length cmd) = (EFI_SUCCESS, msg)"
    using c by (simp add: AsciiStrnCpyS_def msg_def)
  obtain buf where rd: "read_blocks (mi_io env) (log @ [WriteBlocks (bio_id ?b) 0 (slice 0 1024 msg)]) (bio_id ?b) 2 512 =
      (EFI_SUCCESS, buf)" using m by (auto simp: misc_medium_def reads_medium_def)
  have ok: "op_status (mi_io env) l op = EFI_SUCCESS" "alloc_pool (mi_io env) n" for l op n
    using m by (simp_all add: misc_medium_def)
  have u: "write_units (mi_io env) ?b msg 1024 w 0 1024 log =
      Some (EFI_SUCCESS, 2, log @ [WriteBlocks (bio_id ?b) 0 (slice 0 1024 msg)])" if "1024 \<le> unat w" for w
    using that lm k ok
    by (simp add: write_units.simps [of _ _ _ _ _ _ 1024] write_units.simps [of _ _ _ _ _ _ 0] issue_def)
  have "1024 \<le> unat (ROUND_TO_PAGE64 MAX_WRITE_SIZE 511)"
    by (simp add: ROUND_TO_PAGE64_def ADD_OF64_def MAX_WRITE_SIZE_def)
  then have "WriteBlockToPartition (mi_io env) (Some ?b) 0 1088 (Some msg) log = None"
    using rt k rd ok lm u by (simp add: WriteBlockToPartition_def write_tail_def Let_def)
  then show ?thesis
    using t sh lp cpy read_two_pages [OF m k2, of "[]"] k
    by (simp add: WriteRecoveryMessage_def misc_guid_fixed ps pg_def [symmetric] WriteToPartition_def)
qed

section \<open>The detected root device\<close>

text \<open>A card type the firmware does not recognise is resolved by searching the root devices in the
  order of the enumeration, and a search that finds nothing still succeeds: the device is reported
  as eMMC although no eMMC handle exists.\<close>

theorem GetCompatibleRootDeviceType_reports_emmc:
  assumes "db False = (EFI_SUCCESS, hs)"
    and "\<forall>h\<in>set hs. check_handle (adjust_attribs BLK_IO_SEL_MATCH_ROOT_DEVICE)
           (Some (root_filter gEfiEmmcUserPartitionGuid)) h = Some Skip"
  shows "GetCompatibleRootDeviceType db = Some EMMC"
proof -
  let ?a = "adjust_attribs BLK_IO_SEL_MATCH_ROOT_DEVICE" and ?f = "Some (root_filter gEfiEmmcUserPartitionGuid)"
  have none: "concat (List.map (chosen ?a ?f) hs) = []"
    using assms(2) by (simp add: chosen_def)
  have dec: "\<forall>h\<in>set hs. decidable ?a ?f h"
    using assms(2) by (simp add: decidable_def)
  have "sel ?a (BLK_IO_SEL_SELECT_MOUNTED_FILESYSTEM OR BLK_IO_SEL_SELECT_BY_VOLUME_NAME) = False"
    by (simp add: adjust_match_root sel_def)
  then have "GetBlkIOHandles db BLK_IO_SEL_MATCH_ROOT_DEVICE ?f 128 = Some (EFI_SUCCESS, [], 0)"
    using GetBlkIOHandles_eq [of db BLK_IO_SEL_MATCH_ROOT_DEVICE hs ?f 128] assms(1) dec none
    by simp
  then show ?thesis
    by (simp add: GetCompatibleRootDeviceType_def GetDeviceHandleInfo_def)
qed

section \<open>A UFS device with a misc partition\<close>

definition demo_dev :: "u32 \<Rightarrow> u64 \<Rightarrow> block_io" where
  "demo_dev sz l = \<lparr>bio_id = 5, BlockSize = sz, LastBlock = l\<rparr>"

definition demo_ufs_root :: "block_io \<Rightarrow> handle_desc" where
  "demo_ufs_root b = demo_root\<lparr>h_dev := b, h_devpath := Some [demo_root_node (LunGuids ! 0)]\<rparr>"

definition demo_misc_part :: "block_io \<Rightarrow> handle_desc" where
  "demo_misc_part b = demo_part\<lparr>h_dev := b, h_ptype := Some gEfiMiscPartitionGuid,
     h_devpath := Some [demo_root_node (LunGuids ! 0), demo_hd_node]\<rparr>"

definition demo_misc_hi :: "block_io \<Rightarrow> HandleInfo" where
  "demo_misc_hi b = handle_info (demo_misc_part b) (Some demo_hd_node)"

definition demo_disk :: bytes where "demo_disk = replicate 16384 0"

definition demo_misc_env :: "block_io \<Rightarrow> handle_desc list \<Rightarrow> misc_env" where
  "demo_misc_env b others = \<lparr>mi_io = (ram_env UFS [])\<lparr>read_blocks := (\<lambda>log dev lba n.
       (EFI_SUCCESS, slice (unat lba * unat (BlockSize b)) n (replay (unat (BlockSize b)) log demo_disk)))\<rparr>,
     mi_db = (\<lambda>fs. (EFI_SUCCESS, [demo_ufs_root b, demo_misc_part b] @ others)),
     mi_card = Some ''UFS'', mi_nand_guid = (EFI_NOT_FOUND, gEfiMiscPartitionGuid), mi_dynamic = False\<rparr>"

lemmas demo_misc_simps = demo_ufs_root_def demo_misc_part_def demo_root_def demo_part_def demo_root_node_def
  demo_hd_node_def LunGuids_def

lemma demo_misc_checks:
  "check_handle 22 (Some (type_filter gEfiMiscPartitionGuid)) (demo_ufs_root b) = Some Skip"
  "check_handle 22 (Some (type_filter gEfiMiscPartitionGuid)) (demo_misc_part b) = Some (Take (Some demo_hd_node))"
  "check_handle (adjust_attribs BLK_IO_SEL_MATCH_ROOT_DEVICE) (Some (root_filter (LunGuids ! 0))) (demo_ufs_root b) =
     Some (Take None)"
  "check_handle (adjust_attribs BLK_IO_SEL_MATCH_ROOT_DEVICE) (Some (root_filter (LunGuids ! 0))) (demo_misc_part b) =
     Some (Take (Some demo_hd_node))"
  by (simp_all add: check_handle_def check_devpath_def check_fs_def check_label_def sel_def
    FILTERS_NEEDING_DEVICEPATH_def root_filter_def type_filter_def is_root_of_def hard_drive_node_def
    demo_misc_simps Let_def adjust_match_root)

lemma adjust_by_type: "adjust_attribs by_type = 22"
  by (simp add: adjust_attribs_def sel_def)

lemma demo_single_handle:
  "single_handle (mi_db (demo_misc_env b others)) by_type (type_filter gEfiMiscPartitionGuid) =
     Some (EFI_SUCCESS, Some (demo_misc_hi b))"
  by (simp add: single_handle_def GetBlkIOHandles_def adjust_by_type [simplified] sel_def demo_misc_env_def
    demo_misc_checks Let_def demo_misc_hi_def)

lemma demo_root_search:
  "GetDeviceHandleInfo (mi_db (demo_misc_env b [])) HANDLE_MAX_INFO_LIST UFS =
     Some (EFI_SUCCESS, [handle_info (demo_ufs_root b) None, demo_misc_hi b])"
  by (simp add: GetDeviceHandleInfo_def GetBlkIOHandles_def demo_misc_checks demo_misc_env_def Let_def
    demo_misc_hi_def)

lemma demo_card: "CheckRootDeviceType (demo_misc_env b others) UNKNOWN = Some UFS"
  by (simp add: CheckRootDeviceType_def demo_misc_env_def AsciiStrnCmp_def)

lemma demo_misc_medium:
  assumes "b = demo_dev sz l" "unat (GetPartitionSize (Some b)) = 16384" "unat sz \<le> 8192"
  shows "misc_medium (demo_misc_env b []) (demo_misc_hi b) [] demo_disk"
proof -
  have "BlkIo (demo_misc_hi b) = b" by (simp add: demo_misc_hi_def handle_info_def demo_misc_simps)
  moreover have "GetPageSize (demo_misc_env b []) = Some (BlockSize b)"
    by (simp add: GetPageSize_def demo_card demo_root_search)
      (simp add: handle_info_def demo_misc_simps)
  ultimately show ?thesis
    using assms demo_single_handle [of b "[]"]
    by (simp add: misc_medium_def demo_card reads_medium_def demo_disk_def demo_dev_def)
      (simp add: demo_misc_env_def demo_disk_def ram_env_def)
qed


lemma WriteRecoveryMessage_overreads_example:
  "WriteRecoveryMessage (demo_misc_env (demo_dev 512 31) []) ''boot-recovery'' [] = None"
proof -
  have "unat (GetPartitionSize (Some (demo_dev 512 31))) = 16384"
    by (simp add: GetPartitionSize_def demo_dev_def CHECK_ADD64_def)
  note m = demo_misc_medium [OF refl this]
  have "BlockSize (BlkIo (demo_misc_hi (demo_dev 512 31))) = 512"
    by (simp add: demo_misc_hi_def handle_info_def demo_misc_simps demo_dev_def)
  with WriteRecoveryMessage_overreads [OF m] show ?thesis by simp
qed

lemma WriteToPartition_takes_first_example:
  "WriteToPartition (demo_misc_env (demo_dev 4096 3) [demo_misc_part (ram_dev 3)]) gEfiMiscPartitionGuid (Some [1]) 1 [] =
   WriteBlockToPartition (mi_io (demo_misc_env (demo_dev 4096 3) [demo_misc_part (ram_dev 3)]))
     (Some (demo_dev 4096 3)) 0 1 (Some [1]) []"
proof -
  let ?env = "demo_misc_env (demo_dev 4096 3) [demo_misc_part (ram_dev 3)]"
  let ?hs = "[demo_ufs_root (demo_dev 4096 3), demo_misc_part (demo_dev 4096 3), demo_misc_part (ram_dev 3)]"
  have "mi_db ?env x = (EFI_SUCCESS, ?hs)" for x by (simp add: demo_misc_env_def)
  moreover have "\<forall>h\<in>set ?hs. decidable 22 (Some (type_filter gEfiMiscPartitionGuid)) h"
    by (simp add: decidable_def demo_misc_checks)
  moreover have "concat (List.map (chosen 22 (Some (type_filter gEfiMiscPartitionGuid))) ?hs) =
      [demo_misc_hi (demo_dev 4096 3), demo_misc_hi (ram_dev 3)]"
    by (simp add: chosen_def demo_misc_checks demo_misc_hi_def)
  ultimately have "WriteToPartition ?env gEfiMiscPartitionGuid (Some [1]) 1 [] =
    WriteBlockToPartition (mi_io ?env) (Some (BlkIo (demo_misc_hi (demo_dev 4096 3)))) 0 (ucast (1::u32)) (Some [1]) []"
    using WriteToPartition_takes_first [of ?env ?hs gEfiMiscPartitionGuid] by (simp add: adjust_by_type [simplified])
  then show ?thesis by (simp add: demo_misc_hi_def handle_info_def demo_misc_simps)
qed

lemma GetCompatibleRootDeviceType_emmc_example:
  "GetCompatibleRootDeviceType (\<lambda>fs. (EFI_SUCCESS, [demo_ufs_root (demo_dev 4096 3)])) = Some EMMC"
  by (rule GetCompatibleRootDeviceType_reports_emmc [where hs = "[demo_ufs_root (demo_dev 4096 3)]"])
    (simp_all add: check_handle_def check_devpath_def sel_def FILTERS_NEEDING_DEVICEPATH_def root_filter_def
      is_root_of_def demo_misc_simps Let_def adjust_match_root gEfiEmmcUserPartitionGuid_def GUID_def)

end
