(* ===== verification/DeviceState.thy ===== *)
theory DeviceState
  imports MiscPartition
begin

text \<open>
  The device state of \<open>BootLib/DeviceInfo.c\<close>: the lock flags, the version strings, the rollback
  indices, the user key and the display command line, with \<open>ResetDeviceState\<close> and
  \<open>IsSecureBootEnabled\<close> of \<open>LinuxLoaderLib.c\<close>. Character arrays are byte lists of the declared
  length. The calls that would persist the structure are commented out in the source, so the
  state lives in memory only.
\<close>

section \<open>The structure\<close>

abbreviation MAX_VERSION_LEN :: nat where "MAX_VERSION_LEN \<equiv> 64"
abbreviation MAX_VB_PARTITIONS :: nat where "MAX_VB_PARTITIONS \<equiv> 32"
abbreviation MAX_USER_KEY_SIZE :: nat where "MAX_USER_KEY_SIZE \<equiv> 2048"
abbreviation MAX_DISPLAY_CMDLINE_LEN :: nat where "MAX_DISPLAY_CMDLINE_LEN \<equiv> 128"

definition DEVICE_MAGIC :: string where "DEVICE_MAGIC = ''ANDROID-BOOT!''"

record DeviceInfo =
  dev_magic :: bytes
  is_unlocked :: bool
  is_unlock_critical :: bool
  is_charger_screen_enabled :: bool
  bootloader_version :: bytes
  radio_version :: bytes
  verity_mode :: bool
  user_public_key_length :: u32
  user_public_key :: bytes
  rollback_index :: "u64 list"
  Display_Cmdline :: bytes

record dev_state =
  DevInfo :: DeviceInfo
  FirstReadDevInfo :: bool

definition zero_DeviceInfo :: DeviceInfo where
  "zero_DeviceInfo = \<lparr>dev_magic = replicate 13 0, is_unlocked = False, is_unlock_critical = False,
     is_charger_screen_enabled = False, bootloader_version = replicate MAX_VERSION_LEN 0,
     radio_version = replicate MAX_VERSION_LEN 0, verity_mode = False, user_public_key_length = 0,
     user_public_key = replicate MAX_USER_KEY_SIZE 0, rollback_index = replicate MAX_VB_PARTITIONS 0,
     Display_Cmdline = replicate MAX_DISPLAY_CMDLINE_LEN 0\<rparr>"

definition dev_start :: dev_state where
  "dev_start = \<lparr>DevInfo = zero_DeviceInfo, FirstReadDevInfo = True\<rparr>"

section \<open>Reading and writing the fields\<close>

definition IsUnlocked :: "dev_state \<Rightarrow> bool" where "IsUnlocked st = is_unlocked (DevInfo st)"
definition IsUnlockCritical :: "dev_state \<Rightarrow> bool" where "IsUnlockCritical st = is_unlock_critical (DevInfo st)"
definition IsEnforcing :: "dev_state \<Rightarrow> bool" where "IsEnforcing st = verity_mode (DevInfo st)"
definition IsChargingScreenEnable :: "dev_state \<Rightarrow> bool" where
  "IsChargingScreenEnable st = is_charger_screen_enabled (DevInfo st)"

definition upd_dev :: "(DeviceInfo \<Rightarrow> DeviceInfo) \<Rightarrow> dev_state \<Rightarrow> dev_state" where
  "upd_dev f st = st\<lparr>DevInfo := f (DevInfo st)\<rparr>"

definition EnableChargingScreen :: "bool \<Rightarrow> dev_state \<Rightarrow> efi_status \<times> dev_state" where
  "EnableChargingScreen IsEnabled st =
     (EFI_SUCCESS, if IsChargingScreenEnable st \<noteq> IsEnabled
                   then upd_dev (\<lambda>d. d\<lparr>is_charger_screen_enabled := IsEnabled\<rparr>) st else st)"

text \<open>A command line shorter than the given length would be read past its end.\<close>

definition StoreDisplayCmdLine :: "bytes \<Rightarrow> u32 \<Rightarrow> dev_state \<Rightarrow> (efi_status \<times> dev_state) option" where
  "StoreDisplayCmdLine CmdLine CmdLineLen st =
     (if unat CmdLineLen > MAX_DISPLAY_CMDLINE_LEN then Some (EFI_OUT_OF_RESOURCES, st)
      else if unat CmdLineLen > length CmdLine then None
      else Some (EFI_SUCCESS, upd_dev (\<lambda>d. d\<lparr>Display_Cmdline :=
        splice 0 (take (unat CmdLineLen) CmdLine) (replicate MAX_DISPLAY_CMDLINE_LEN 0)\<rparr>) st))"

definition ReadDisplayCmdLine :: "dev_state \<Rightarrow> efi_status \<times> bytes \<times> u32" where
  "ReadDisplayCmdLine st = (EFI_SUCCESS, Display_Cmdline (DevInfo st), 128)"

definition EnableEnforcingMode :: "bool \<Rightarrow> dev_state \<Rightarrow> efi_status \<times> dev_state" where
  "EnableEnforcingMode IsEnabled st =
     (EFI_SUCCESS, if IsEnforcing st \<noteq> IsEnabled then upd_dev (\<lambda>d. d\<lparr>verity_mode := IsEnabled\<rparr>) st else st)"

section \<open>The lock state\<close>

definition SetUnlockValue :: "bool \<Rightarrow> dev_state \<Rightarrow> efi_status \<times> dev_state" where
  "SetUnlockValue State st =
     (EFI_SUCCESS, if IsUnlocked st \<noteq> State then upd_dev (\<lambda>d. d\<lparr>is_unlocked := State\<rparr>) st else st)"

definition SetUnlockCriticalValue :: "bool \<Rightarrow> dev_state \<Rightarrow> efi_status \<times> dev_state" where
  "SetUnlockCriticalValue State st =
     (EFI_SUCCESS, if IsUnlockCritical st \<noteq> State
                   then upd_dev (\<lambda>d. d\<lparr>is_unlock_critical := State\<rparr>) st else st)"

text \<open>The verified boot services: whether the build enables them, the AVB version test, and the
  answers of the protocol.\<close>

record vb_env =
  vb_enabled :: bool
  vb_avb_le :: bool
  vb_locate :: efi_status
  vb_reset :: efi_status

definition ResetDeviceState :: "vb_env \<Rightarrow> efi_status" where
  "ResetDeviceState vb =
     (if \<not> vb_enabled vb \<or> vb_avb_le vb then EFI_SUCCESS
      else if vb_locate vb \<noteq> EFI_SUCCESS then vb_locate vb
      else if vb_reset vb \<noteq> EFI_SUCCESS then vb_reset vb
      else EFI_SUCCESS)"

abbreviation (input) UNLOCK :: u32 where "UNLOCK \<equiv> 0"
abbreviation (input) UNLOCK_CRITICAL :: u32 where "UNLOCK_CRITICAL \<equiv> 1"

definition RECOVERY_WIPE_DATA :: string where
  "RECOVERY_WIPE_DATA = ''recovery'' @ [CHR 0x0A] @ ''--wipe_data'' @ [CHR 0x0A] @
     ''--reason=MasterClearConfirm'' @ [CHR 0x0A] @ ''--locale=en_US'' @ [CHR 0x0A]"

text \<open>The wipe request is copied into the \<open>recovery\<close> array of a cleared message, at byte 64.\<close>

definition SetDeviceUnlockValue :: "misc_env \<Rightarrow> vb_env \<Rightarrow> u32 \<Rightarrow> bool \<Rightarrow> dev_state \<Rightarrow> disk_op list \<Rightarrow>
    (efi_status \<times> dev_state \<times> disk_op list) option" where
  "SetDeviceUnlockValue env vb Type State st log =
     (let (s, st1) = (if Type = UNLOCK then SetUnlockValue State st
                      else if Type = UNLOCK_CRITICAL then SetUnlockCriticalValue State st
                      else (EFI_UNSUPPORTED, st))
      in if s \<noteq> EFI_SUCCESS then Some (s, st1, log)
         else
           let s2 = ResetDeviceState vb
           in if s2 \<noteq> EFI_SUCCESS then
                Some (s2, snd (if Type = UNLOCK then SetUnlockValue (\<not> State) st1
                               else SetUnlockCriticalValue (\<not> State) st1), log)
              else
                let (s3, Msg) = AsciiStrnCpyS (replicate 1088 0) 64 1024 RECOVERY_WIPE_DATA
                                  (length RECOVERY_WIPE_DATA)
                in if s3 = EFI_SUCCESS then do {
                     CardType \<leftarrow> CheckRootDeviceType env UNKNOWN;
                     let (s4, Ptype) = misc_guid env CardType;
                     if s4 \<noteq> EFI_SUCCESS then Some (s4, st1, log)
                     else do {
                       (s5, log') \<leftarrow> WriteToPartition env Ptype (Some Msg) 1088 log;
                       Some (s5, st1, log')
                     }
                   }
                   else Some (s3, st1, log))"

section \<open>Versions\<close>

definition cstr :: "bytes \<Rightarrow> bytes" where
  "cstr b = takeWhile (\<lambda>c. c \<noteq> 0) b"

text \<open>\<open>AsciiStrnCatS\<close> into an array of \<open>m\<close> bytes.\<close>

definition AsciiStrnCatS :: "bytes \<Rightarrow> nat \<Rightarrow> string \<Rightarrow> nat \<Rightarrow> bytes" where
  "AsciiStrnCatS b m source n =
     (if length (cstr b) + length (take n source) < m
      then splice (length (cstr b)) (ascii (take n source) @ [0]) b else b)"

definition make_version :: "string \<Rightarrow> string \<Rightarrow> bytes \<Rightarrow> bytes" where
  "make_version PcdABLProduct ImgVersion b =
     (let b1 = snd (AsciiStrnCpyS b 0 MAX_VERSION_LEN PcdABLProduct (length PcdABLProduct));
          b2 = AsciiStrnCatS b1 MAX_VERSION_LEN ''-'' 1
      in AsciiStrnCatS b2 MAX_VERSION_LEN ImgVersion (length ImgVersion))"

definition UpdateDevInfo :: "string \<Rightarrow> string \<Rightarrow> string \<Rightarrow> dev_state \<Rightarrow> efi_status \<times> dev_state" where
  "UpdateDevInfo PcdABLProduct Pname ImgVersion st =
     (EFI_SUCCESS,
      if Pname = ''bootloader''
      then upd_dev (\<lambda>d. d\<lparr>bootloader_version := make_version PcdABLProduct ImgVersion (bootloader_version d)\<rparr>) st
      else upd_dev (\<lambda>d. d\<lparr>radio_version := make_version PcdABLProduct ImgVersion (radio_version d)\<rparr>) st)"

section \<open>Initialisation\<close>

text \<open>The body of \<open>IsSecureBootEnabled\<close> is commented out in the source.\<close>

definition IsSecureBootEnabled :: bool where "IsSecureBootEnabled = False"

definition first_init :: "DeviceInfo \<Rightarrow> DeviceInfo" where
  "first_init d = d\<lparr>dev_magic := ascii DEVICE_MAGIC, is_unlocked := True, is_unlock_critical := True,
     is_charger_screen_enabled := False,
     bootloader_version := splice 0 (ascii ''1.0.0.0'') (bootloader_version d),
     radio_version := splice 0 (ascii ''1.0.0.0'') (radio_version d),
     verity_mode := False, user_public_key_length := 0\<rparr>"

definition reset_info :: DeviceInfo where
  "reset_info = zero_DeviceInfo\<lparr>dev_magic := ascii DEVICE_MAGIC,
     is_unlocked := \<not> IsSecureBootEnabled, is_unlock_critical := \<not> IsSecureBootEnabled,
     is_charger_screen_enabled := False, verity_mode := True\<rparr>"

definition DeviceInfoInit :: "dev_state \<Rightarrow> efi_status \<times> dev_state" where
  "DeviceInfoInit st =
     (let st1 = (if FirstReadDevInfo st
                 then \<lparr>DevInfo = first_init (DevInfo st), FirstReadDevInfo = False\<rparr> else st)
      in (EFI_SUCCESS, if dev_magic (DevInfo st1) \<noteq> ascii DEVICE_MAGIC
                       then st1\<lparr>DevInfo := reset_info\<rparr> else st1))"

section \<open>Rollback indices and the user key\<close>

text \<open>The value left in the caller's variable is \<open>None\<close> when the routine does not write it.\<close>

definition ReadRollbackIndex :: "u32 \<Rightarrow> dev_state \<Rightarrow> efi_status \<times> u64 option" where
  "ReadRollbackIndex Loc st =
     (if FirstReadDevInfo st then (EFI_NOT_STARTED, None)
      else if unat Loc \<ge> MAX_VB_PARTITIONS then (EFI_INVALID_PARAMETER, None)
      else (EFI_SUCCESS, Some (rollback_index (DevInfo st) ! unat Loc)))"

definition WriteRollbackIndex :: "u32 \<Rightarrow> u64 \<Rightarrow> dev_state \<Rightarrow> efi_status \<times> dev_state" where
  "WriteRollbackIndex Loc RollbackIndex st =
     (if FirstReadDevInfo st then (EFI_NOT_STARTED, st)
      else if unat Loc \<ge> MAX_VB_PARTITIONS then (EFI_INVALID_PARAMETER, st)
      else (EFI_SUCCESS, upd_dev (\<lambda>d. d\<lparr>rollback_index := (rollback_index d)[unat Loc := RollbackIndex]\<rparr>) st))"

definition StoreUserKey :: "bytes \<Rightarrow> u32 \<Rightarrow> dev_state \<Rightarrow> (efi_status \<times> dev_state) option" where
  "StoreUserKey UserKey UserKeySize st =
     (if FirstReadDevInfo st then Some (EFI_NOT_STARTED, st)
      else if unat UserKeySize > MAX_USER_KEY_SIZE then Some (EFI_OUT_OF_RESOURCES, st)
      else if unat UserKeySize > length UserKey then None
      else Some (EFI_SUCCESS, upd_dev (\<lambda>d. d\<lparr>
        user_public_key := splice 0 (take (unat UserKeySize) UserKey) (user_public_key d),
        user_public_key_length := UserKeySize\<rparr>) st))"

definition EraseUserKey :: "dev_state \<Rightarrow> efi_status \<times> dev_state" where
  "EraseUserKey st =
     (if FirstReadDevInfo st then (EFI_NOT_STARTED, st)
      else (EFI_SUCCESS, upd_dev (\<lambda>d. d\<lparr>user_public_key := replicate MAX_USER_KEY_SIZE 0,
              user_public_key_length := 0\<rparr>) st))"

definition GetUserKey :: "dev_state \<Rightarrow> efi_status \<times> (bytes \<times> u32) option" where
  "GetUserKey st =
     (if FirstReadDevInfo st then (EFI_NOT_STARTED, None)
      else (EFI_SUCCESS, Some (user_public_key (DevInfo st), user_public_key_length (DevInfo st))))"

section \<open>The structure stays well formed\<close>

text \<open>One step is one call of an operation, with any arguments and any answers of the firmware.\<close>

inductive dev_step :: "dev_state \<Rightarrow> dev_state \<Rightarrow> bool" where
  charging: "dev_step st (snd (EnableChargingScreen e st))"
| display: "StoreDisplayCmdLine c n st = Some (s, st') \<Longrightarrow> dev_step st st'"
| enforcing: "dev_step st (snd (EnableEnforcingMode e st))"
| unlock: "SetDeviceUnlockValue env vb t v st log = Some (s, st', log') \<Longrightarrow> dev_step st st'"
| version: "dev_step st (snd (UpdateDevInfo abl pname img st))"
| init: "dev_step st (snd (DeviceInfoInit st))"
| rollback: "dev_step st (snd (WriteRollbackIndex loc i st))"
| user_key: "StoreUserKey k n st = Some (s, st') \<Longrightarrow> dev_step st st'"
| erase_key: "dev_step st (snd (EraseUserKey st))"

inductive dev_reachable :: "dev_state \<Rightarrow> bool" where
  start: "dev_reachable dev_start"
| step: "dev_reachable st \<Longrightarrow> dev_step st st' \<Longrightarrow> dev_reachable st'"

text \<open>Every array keeps its length, the version arrays stay terminated in their last byte, and the
  key length fits the key array.\<close>

definition terminated :: "nat \<Rightarrow> bytes \<Rightarrow> bool" where
  "terminated m b \<longleftrightarrow> length b = m \<and> 0 < m \<and> b ! (m - 1) = 0"

definition info_wf :: "DeviceInfo \<Rightarrow> bool" where
  "info_wf d \<longleftrightarrow> length (dev_magic d) = 13 \<and> terminated MAX_VERSION_LEN (bootloader_version d) \<and>
     terminated MAX_VERSION_LEN (radio_version d) \<and> length (user_public_key d) = MAX_USER_KEY_SIZE \<and>
     unat (user_public_key_length d) \<le> MAX_USER_KEY_SIZE \<and> length (rollback_index d) = MAX_VB_PARTITIONS \<and>
     length (Display_Cmdline d) = MAX_DISPLAY_CMDLINE_LEN"

definition dev_wf :: "dev_state \<Rightarrow> bool" where
  "dev_wf st \<longleftrightarrow> info_wf (DevInfo st) \<and> (\<not> FirstReadDevInfo st \<longrightarrow> dev_magic (DevInfo st) = ascii DEVICE_MAGIC)"

lemma terminated_splice:
  assumes "terminated m b" "i + length v < m"
  shows "terminated m (splice i (v @ [0]) b)"
  using assms by (auto simp: terminated_def length_splice nth_splice nth_append)

lemma terminated_splice_prefix: "terminated m b \<Longrightarrow> length v < m \<Longrightarrow> terminated m (splice 0 v b)"
  by (auto simp: terminated_def length_splice nth_splice)

lemma length_ascii [simp]: "length (ascii s) = length s"
  by (simp add: ascii_def)

lemma terminated_copy: "terminated m b \<Longrightarrow> terminated m (snd (AsciiStrnCpyS b 0 m s n))"
  by (simp add: AsciiStrnCpyS_def terminated_splice)

lemma terminated_cat: "terminated m b \<Longrightarrow> terminated m (AsciiStrnCatS b m s n)"
  by (simp add: AsciiStrnCatS_def terminated_splice)

lemma terminated_version: "terminated MAX_VERSION_LEN b \<Longrightarrow> terminated MAX_VERSION_LEN (make_version p i b)"
  by (simp add: make_version_def Let_def terminated_copy terminated_cat)

lemma DEVICE_MAGIC_length [simp]: "length DEVICE_MAGIC = 13"
  by (simp add: DEVICE_MAGIC_def)

lemma zero_wf: "info_wf zero_DeviceInfo"
  by (simp add: info_wf_def zero_DeviceInfo_def terminated_def)

lemma first_init_wf: "info_wf d \<Longrightarrow> info_wf (first_init d)"
  by (simp add: info_wf_def first_init_def terminated_splice_prefix DEVICE_MAGIC_length)

lemma reset_info_wf: "info_wf reset_info"
  using zero_wf by (simp add: info_wf_def reset_info_def DEVICE_MAGIC_length)

lemmas unlock_simps = SetUnlockValue_def SetUnlockCriticalValue_def IsUnlocked_def IsUnlockCritical_def upd_dev_def

text \<open>\<open>SetDeviceUnlockValue\<close> changes the two flags only.\<close>

definition flags_only :: "dev_state \<Rightarrow> dev_state \<Rightarrow> bool" where
  "flags_only st st' \<longleftrightarrow> (\<exists>u c. st' = upd_dev (\<lambda>d. d\<lparr>is_unlocked := u, is_unlock_critical := c\<rparr>) st)"

lemma flags_only_set:
  "flags_only st st" "flags_only st (snd (SetUnlockValue v st))" "flags_only st (snd (SetUnlockCriticalValue v st))"
  unfolding flags_only_def
  by (rule exI [of _ "is_unlocked (DevInfo st)"] exI [of _ "is_unlocked (DevInfo (snd (SetUnlockValue v st)))"],
      rule exI [of _ "is_unlock_critical (DevInfo st)"]
        exI [of _ "is_unlock_critical (DevInfo (snd (SetUnlockCriticalValue v st)))"],
      simp add: unlock_simps)+

lemma flags_only_trans:
  assumes "flags_only x y" "flags_only y z"
  shows "flags_only x z"
proof -
  obtain u c u' c' where "y = upd_dev (\<lambda>d. d\<lparr>is_unlocked := u, is_unlock_critical := c\<rparr>) x"
    "z = upd_dev (\<lambda>d. d\<lparr>is_unlocked := u', is_unlock_critical := c'\<rparr>) y"
    using assms by (auto simp: flags_only_def)
  then show ?thesis
    unfolding flags_only_def by (intro exI [of _ u'] exI [of _ c']) (simp add: upd_dev_def)
qed

lemma SetDeviceUnlockValue_flags:
  assumes "SetDeviceUnlockValue env vb t v st log = Some (s, st', log')"
  shows "flags_only st st'"
proof -
  define r where "r = (if t = UNLOCK then SetUnlockValue v st
    else if t = UNLOCK_CRITICAL then SetUnlockCriticalValue v st else (EFI_UNSUPPORTED, st))"
  have f: "flags_only st (snd r)" by (simp add: r_def flags_only_set)
  have "st' = snd r \<or> st' = snd (SetUnlockValue (\<not> v) (snd r)) \<or> st' = snd (SetUnlockCriticalValue (\<not> v) (snd r))"
    using assms unfolding SetDeviceUnlockValue_def r_def [symmetric] Let_def
    by (auto split: prod.splits if_splits Option.bind_splits)
  then show ?thesis using f flags_only_set flags_only_trans by blast
qed

lemma flags_only_wf: "flags_only st st' \<Longrightarrow> dev_wf st \<Longrightarrow> dev_wf st'"
  by (auto simp: flags_only_def dev_wf_def info_wf_def upd_dev_def DEVICE_MAGIC_length)

lemma dev_step_wf: "dev_step st st' \<Longrightarrow> dev_wf st \<Longrightarrow> dev_wf st'"
proof (induction rule: dev_step.induct)
  case (display c n st s st')
  then show ?case
    by (auto simp: StoreDisplayCmdLine_def dev_wf_def info_wf_def upd_dev_def length_splice split: if_splits)
next
  case (unlock env vb t v st log s st' log')
  then show ?case using SetDeviceUnlockValue_flags flags_only_wf by blast
next
  case (version st abl pname img)
  then show ?case by (simp add: UpdateDevInfo_def dev_wf_def info_wf_def upd_dev_def terminated_version)
next
  case (init st)
  then show ?case
    by (auto simp: DeviceInfoInit_def dev_wf_def first_init_wf reset_info_wf Let_def)
      (simp_all add: first_init_def reset_info_def)
next
  case (rollback st loc i)
  then show ?case by (simp add: WriteRollbackIndex_def dev_wf_def info_wf_def upd_dev_def)
next
  case (user_key k n st s st')
  then show ?case
    by (auto simp: StoreUserKey_def dev_wf_def info_wf_def upd_dev_def length_splice split: if_splits)
qed (simp_all add: EnableChargingScreen_def EnableEnforcingMode_def EraseUserKey_def dev_wf_def info_wf_def upd_dev_def)

lemma dev_start_wf: "dev_wf dev_start"
  by (simp add: dev_wf_def dev_start_def zero_wf)

text \<open>C13. Whatever sequence of operations ran, every array of the device state has its declared
  length, the version strings are terminated, the stored key length fits the key array, and once
  initialised the magic is in place.\<close>

theorem dev_reachable_wf: "dev_reachable st \<Longrightarrow> dev_wf st"
  by (induction rule: dev_reachable.induct) (auto intro: dev_step_wf dev_start_wf)

text \<open>After the first initialisation the device is unlocked, critical partitions included, and
  verity is off, whatever was stored before: secure boot is never consulted, because the magic the
  check compares with was just written.\<close>

theorem DeviceInfoInit_unlocks:
  assumes "FirstReadDevInfo st"
  shows "let st' = snd (DeviceInfoInit st)
    in IsUnlocked st' \<and> IsUnlockCritical st' \<and> \<not> IsEnforcing st' \<and> \<not> FirstReadDevInfo st' \<and>
       snd (DeviceInfoInit st') = st'"
  using assms
  by (simp add: DeviceInfoInit_def first_init_def IsUnlocked_def IsUnlockCritical_def IsEnforcing_def Let_def)

text \<open>When the verified boot service cannot reset its state, \<open>SetDeviceUnlockValue\<close> fails and
  leaves the opposite of the requested value. A request that changes the flag is undone; a request
  to lock a device that is already locked unlocks it.\<close>

theorem SetDeviceUnlockValue_reset_failure:
  assumes "ResetDeviceState vb \<noteq> EFI_SUCCESS"
  shows "SetDeviceUnlockValue env vb UNLOCK State st log =
    Some (ResetDeviceState vb, upd_dev (\<lambda>d. d\<lparr>is_unlocked := \<not> State\<rparr>) st, log)"
  using assms
  by (cases "is_unlocked (DevInfo st)"; cases State) (auto simp: SetDeviceUnlockValue_def unlock_simps Let_def)

text \<open>A rollback index that was written is read back, the other locations keep theirs, and a
  location outside the array is refused by both operations.\<close>

theorem RollbackIndex_roundtrip:
  assumes w: "dev_wf st" and i: "\<not> FirstReadDevInfo st"
  shows "ReadRollbackIndex Loc' (snd (WriteRollbackIndex Loc v st)) =
    (if unat Loc' \<ge> 32 then (EFI_INVALID_PARAMETER, None)
     else (EFI_SUCCESS, Some (if Loc' = Loc then v else rollback_index (DevInfo st) ! unat Loc')))"
proof (cases "unat Loc < 32 \<and> unat Loc' < 32")
  case True
  have "Loc' = Loc \<longleftrightarrow> unat Loc' = unat Loc" by (simp add: word_unat_eq_iff)
  then show ?thesis
    using True w i
    by (simp add: ReadRollbackIndex_def WriteRollbackIndex_def upd_dev_def dev_wf_def info_wf_def nth_list_update)
qed (use i in \<open>auto simp: ReadRollbackIndex_def WriteRollbackIndex_def upd_dev_def\<close>)

text \<open>A user key that was stored is returned: the first bytes of the array, as many as the
  returned length says, are the key; after it is erased the length is zero.\<close>

theorem UserKey_roundtrip:
  assumes w: "dev_wf st" and i: "\<not> FirstReadDevInfo st" and n: "unat n \<le> 2048" "unat n \<le> length key"
  shows "\<exists>st'. StoreUserKey key n st = Some (EFI_SUCCESS, st') \<and>
    (\<exists>k. GetUserKey st' = (EFI_SUCCESS, Some (k, n)) \<and> take (unat n) k = take (unat n) key) \<and>
    (\<exists>k. GetUserKey (snd (EraseUserKey st')) = (EFI_SUCCESS, Some (k, 0)))"
  using assms
  by (simp add: StoreUserKey_def GetUserKey_def EraseUserKey_def upd_dev_def dev_wf_def info_wf_def splice_def)

section \<open>Witnesses\<close>

definition demo_inited :: dev_state where
  "demo_inited = snd (DeviceInfoInit dev_start)"

lemma demo_inited_reachable: "dev_reachable demo_inited"
  unfolding demo_inited_def by (rule dev_reachable.step [OF dev_reachable.start dev_step.init])

lemma demo_inited_facts: "dev_wf demo_inited" "\<not> FirstReadDevInfo demo_inited" "FirstReadDevInfo dev_start"
proof -
  show "dev_wf demo_inited"
    unfolding demo_inited_def by (rule dev_step_wf [OF dev_step.init dev_start_wf])
qed (simp_all add: demo_inited_def DeviceInfoInit_def dev_start_def Let_def)

lemma dev_reachable_wf_witness: "dev_wf demo_inited"
  by (rule dev_reachable_wf [OF demo_inited_reachable])

lemma DeviceInfoInit_unlocks_example: "IsUnlocked demo_inited \<and> snd (DeviceInfoInit demo_inited) = demo_inited"
  using DeviceInfoInit_unlocks [OF demo_inited_facts(3)] by (simp add: demo_inited_def Let_def)

lemma SetDeviceUnlockValue_reset_failure_example:
  "SetDeviceUnlockValue (demo_misc_env (demo_dev 4096 3) [])
     \<lparr>vb_enabled = True, vb_avb_le = False, vb_locate = EFI_NOT_FOUND, vb_reset = EFI_SUCCESS\<rparr> UNLOCK False dev_start [] =
   Some (EFI_NOT_FOUND, upd_dev (\<lambda>d. d\<lparr>is_unlocked := True\<rparr>) dev_start, []) \<and> \<not> IsUnlocked dev_start"
  using SetDeviceUnlockValue_reset_failure [of "\<lparr>vb_enabled = True, vb_avb_le = False, vb_locate = EFI_NOT_FOUND,
      vb_reset = EFI_SUCCESS\<rparr>" "demo_misc_env (demo_dev 4096 3) []" False dev_start "[]"]
  by (simp add: ResetDeviceState_def IsUnlocked_def dev_start_def zero_DeviceInfo_def)

lemma RollbackIndex_roundtrip_example:
  "ReadRollbackIndex 3 (snd (WriteRollbackIndex 3 7 demo_inited)) = (EFI_SUCCESS, Some 7)"
  using RollbackIndex_roundtrip [OF demo_inited_facts(1,2), of 3 3 7] by simp

lemma UserKey_roundtrip_example:
  "\<exists>st'. StoreUserKey [1, 2, 3] 2 demo_inited = Some (EFI_SUCCESS, st') \<and>
     (\<exists>k. GetUserKey st' = (EFI_SUCCESS, Some (k, 2)) \<and> take 2 k = [1, 2])"
  using UserKey_roundtrip [OF demo_inited_facts(1,2), of 2 "[1, 2, 3]"] by auto

end
