(* ===== verification/FlashPartition.thy ===== *)
theory FlashPartition
  imports SparseFlash DeviceState
begin

text \<open>
  Flashing and erasing one partition in \<open>FastbootLib/FastbootCmds.c\<close>: finding the partition by
  name in the table of handles (\<open>PartitionGetInfo\<close>, \<open>GetPartitionHasSlot\<close>), the image handlers for
  sparse, raw, UBI and meta images, erasing (\<open>FastbootErasePartition\<close>), the slot attributes a flash
  resets (\<open>FastbootUpdateAttr\<close>) and the list of critical partitions.

  The state holds what these routines share: the partition table, the device state, the log of
  device operations, the data handed to the UBI flasher, the replies sent to the host and the
  slot information the host can query.
\<close>

section \<open>The state of the flashing routines\<close>

record slot_info =
  SlotSuffix :: string
  SlotSuccessfulVar :: string
  SlotUnbootableVar :: string
  SlotRetryCountVar :: string
  SlotSuccessfulVal :: string
  SlotUnbootableVal :: string
  SlotRetryCountVal :: string

record flash_state =
  fs_ptn :: ptn_state
  fs_dev :: dev_state
  fs_log :: "disk_op list"
  fs_ubi :: "(string \<times> bytes) list"
  fs_replies :: "string list"
  BootSlotInfo :: "slot_info list option"
  SlotCount :: nat
  Lun :: u32
  LunSet :: bool

text \<open>What is asked of the firmware: block I/O, the partition records, the misc partition, the
  verified boot services, the UBI flasher, and the product name of the build.\<close>

record flash_env =
  fl_io :: io_env
  fl_ptn :: ptn_env
  fl_misc :: misc_env
  fl_vb :: vb_env
  ubi_locate :: efi_status
  ubi_open :: "string \<Rightarrow> efi_status"
  ubi_write :: "string \<Rightarrow> bytes \<Rightarrow> efi_status"
  ubi_close :: efi_status
  PcdABLProduct :: string

abbreviation (input) MAX_RSP_SIZE :: nat where "MAX_RSP_SIZE \<equiv> 64"
abbreviation (input) MAX_GPT_NAME_SIZE :: nat where "MAX_GPT_NAME_SIZE \<equiv> 72"
abbreviation (input) MAX_SLOT_SUFFIX_SZ :: nat where "MAX_SLOT_SUFFIX_SZ \<equiv> 3"

text \<open>A reply is the code and the reason, cut to the response buffer.\<close>

definition FastbootAck :: "string \<Rightarrow> string \<Rightarrow> flash_state \<Rightarrow> flash_state" where
  "FastbootAck code Reason st = st\<lparr>fs_replies := fs_replies st @ [take (MAX_RSP_SIZE - 1) (code @ Reason)]\<rparr>"

definition FastbootFail :: "string \<Rightarrow> flash_state \<Rightarrow> flash_state" where
  "FastbootFail Reason st = FastbootAck ''FAIL'' Reason st"

definition FastbootInfo :: "string \<Rightarrow> flash_state \<Rightarrow> flash_state" where
  "FastbootInfo Info st = FastbootAck ''INFO'' Info st"

definition FastbootOkay :: "string \<Rightarrow> flash_state \<Rightarrow> flash_state" where
  "FastbootOkay info st = FastbootAck ''OKAY'' info st"

section \<open>Finding a partition\<close>

text \<open>The first handle of a logical unit whose partition record has the name.\<close>

fun find_ptn :: "ptn_env \<Rightarrow> string \<Rightarrow> HandleInfo list \<Rightarrow> HandleInfo option" where
  "find_ptn env Name [] = None"
| "find_ptn env Name (hi # his) =
     (case part_record env (Handle hi) of
        None \<Rightarrow> find_ptn env Name his
      | Some PartEntry \<Rightarrow> if PartitionName PartEntry = Name then Some hi else find_ptn env Name his)"

definition lun_handles :: "ptn_state \<Rightarrow> nat \<Rightarrow> HandleInfo list" where
  "lun_handles st i = (if i < length (Ptable st) then Ptable st ! i else [])"

text \<open>The loop over the logical units, from \<open>i\<close> for \<open>n\<close> units: reading past the eight elements of
  \<open>Ptable\<close> has no value.\<close>

fun find_in_luns :: "ptn_env \<Rightarrow> ptn_state \<Rightarrow> string \<Rightarrow> nat \<Rightarrow> nat \<Rightarrow> HandleInfo option option" where
  "find_in_luns env st Name i 0 = Some None"
| "find_in_luns env st Name i (Suc n) =
     (if i \<ge> MAX_LUNS then None
      else case find_ptn env Name (lun_handles st i) of
        Some hi \<Rightarrow> Some (Some hi)
      | None \<Rightarrow> find_in_luns env st Name (i + 1) n)"

text \<open>\<open>PartitionGetInfo\<close>: the handle found, \<open>Some None\<close> for \<open>EFI_NOT_FOUND\<close>. The loop counter has
  16 bits.\<close>

definition PartitionGetInfo :: "flash_env \<Rightarrow> string \<Rightarrow> flash_state \<Rightarrow> HandleInfo option option" where
  "PartitionGetInfo env Name st =
     (let (LunStart, LunEnd) = (if LunSet st then (Lun st, Lun st + 1)
                                else (0, of_nat (MaxLuns (fs_ptn st)) :: u32));
          i = unat (ucast LunStart :: u16)
      in find_in_luns (fl_ptn env) (fs_ptn st) Name i (unat LunEnd - i))"

text \<open>\<open>GetPartitionHasSlot\<close>: whether the name has a slot, the name with the current suffix appended
  when the partition itself is not in the table, and the suffix.\<close>

definition GetPartitionHasSlot :: "string \<Rightarrow> flash_state \<Rightarrow> bool \<times> string \<times> string \<times> flash_state" where
  "GetPartitionHasSlot Name st =
     (case GetPartitionIndex (fs_ptn st) Name of
        None \<Rightarrow>
          let (Suffix, ptn') = GetCurrentSlotSuffix (fs_ptn st)
          in (True, StrnCatS Name MAX_GPT_NAME_SIZE Suffix (length Suffix),
              StrnCpyS '''' MAX_SLOT_SUFFIX_SZ Suffix (length Suffix), st\<lparr>fs_ptn := ptn'\<rparr>)
      | Some Index \<Rightarrow>
          if StrStr Name ''_a'' \<or> StrStr Name ''_b''
          then (True, Name, StrnCpyS '''' MAX_SLOT_SUFFIX_SZ (drop (length Name - 2) Name) 2, st)
          else (False, Name, '''', st))"

text \<open>The slot a flashing routine works on, when the device has two boot slots.\<close>

definition resolve_slot :: "string \<Rightarrow> flash_state \<Rightarrow> bool \<times> string \<times> string \<times> flash_state" where
  "resolve_slot Name st =
     (if PartitionHasMultiSlot (fs_ptn st) ''boot'' then GetPartitionHasSlot Name st else (False, Name, '''', st))"

section \<open>Slot attributes after a flash\<close>

definition reset_slot_info :: "slot_info \<Rightarrow> slot_info" where
  "reset_slot_info s = s\<lparr>SlotSuccessfulVal := ''no'', SlotUnbootableVal := ''no'', SlotRetryCountVal := ''7''\<rparr>"

text \<open>The loop over the \<open>SlotCount\<close> elements of \<open>BootSlotInfo\<close>; a null array has no elements to
  read.\<close>

definition reset_slot_infos :: "(slot_info \<Rightarrow> bool) \<Rightarrow> flash_state \<Rightarrow> flash_state option" where
  "reset_slot_infos P st =
     (if SlotCount st = 0 then Some st
      else case BootSlotInfo st of
        None \<Rightarrow> None
      | Some infos \<Rightarrow>
          if SlotCount st > length infos then None
          else Some (st\<lparr>BootSlotInfo := Some
            (List.map (\<lambda>s. if P s then reset_slot_info s else s) (take (SlotCount st) infos) @
             drop (SlotCount st) infos)\<rparr>))"

definition flash_attr :: "u64 \<Rightarrow> u64" where
  "flash_attr a = (a AND (NOT PART_ATT_SUCCESSFUL_VAL AND NOT PART_ATT_UNBOOTABLE_VAL))
     OR (PART_ATT_PRIORITY_VAL OR PART_ATT_MAX_RETRY_COUNT_VAL)"

definition FastbootUpdateAttr :: "string \<Rightarrow> flash_state \<Rightarrow> flash_state option" where
  "FastbootUpdateAttr Suffix st =
     (let PartName = StrnCatS (StrnCpyS '''' 5 ''boot'' 4) (MAX_GPT_NAME_SIZE - 1) Suffix (length Suffix) in
      case GetPartitionIndex (fs_ptn st) PartName of
        None \<Rightarrow> Some st
      | Some Index \<Rightarrow>
          reset_slot_infos (\<lambda>s. StrStr Suffix (SlotSuffix s))
            (st\<lparr>fs_ptn := UpdatePartitionAttributes
               (upd_attr Index flash_attr (fs_ptn st))\<rparr>))"

section \<open>The image handlers\<close>

definition HandleSparseImgFlash :: "flash_env \<Rightarrow> string \<Rightarrow> mem_buf \<Rightarrow> u64 \<Rightarrow> u64 \<Rightarrow> flash_state \<Rightarrow>
    (efi_status \<times> flash_state) option" where
  "HandleSparseImgFlash env Name m Img sz st =
     (if CHECK_ADD64 Img sz then Some (EFI_INVALID_PARAMETER, st)
      else do {
        found \<leftarrow> PartitionGetInfo env Name st;
        case found of
          None \<Rightarrow> Some (EFI_NOT_FOUND, st)
        | Some hi \<Rightarrow> do {
            (Status, log') \<leftarrow> sparse_to_device (fl_io env) m (BlkIo hi) Img sz (fs_log st);
            Some (Status, st\<lparr>fs_log := log'\<rparr>)
          }
      })"

text \<open>The status, the name with its suffix (the array of the caller) and the state.\<close>

definition HandleRawImgFlash :: "flash_env \<Rightarrow> string \<Rightarrow> mem_buf \<Rightarrow> u64 \<Rightarrow> u64 \<Rightarrow> flash_state \<Rightarrow>
    (efi_status \<times> string \<times> flash_state) option" where
  "HandleRawImgFlash env Name0 m Img Size st0 =
     (let MultiSlotBoot = PartitionHasMultiSlot (fs_ptn st0) ''boot'';
          (HasSlot, Name, Suffix, st) = resolve_slot Name0 st0
      in do {
        found \<leftarrow> PartitionGetInfo env Name st;
        case found of
          None \<Rightarrow> Some (EFI_NOT_FOUND, Name, st)
        | Some hi \<Rightarrow>
            let psize = GetPartitionSize (Some (BlkIo hi)) in
            if psize < Size \<or> psize = 0 then Some (EFI_VOLUME_FULL, Name, st)
            else do {
              (Status, log') \<leftarrow> WriteBlockToPartition (fl_io env) (Some (BlkIo hi)) 0 Size
                                  (Some (mem_at m Img)) (fs_log st);
              let st1 = st\<lparr>fs_log := log'\<rparr>;
              if MultiSlotBoot \<and> HasSlot \<and> \<not> StrnCmp Name ''boot'' 4 then do {
                st2 \<leftarrow> FastbootUpdateAttr Suffix st1;
                Some (Status, Name, st2)
              }
              else Some (Status, Name, st1)
            }
      })"

definition HandleUbiImgFlash :: "flash_env \<Rightarrow> string \<Rightarrow> mem_buf \<Rightarrow> u64 \<Rightarrow> u64 \<Rightarrow> flash_state \<Rightarrow>
    (efi_status \<times> string \<times> flash_state) option" where
  "HandleUbiImgFlash env Name0 m Img Size st0 =
     (let (HasSlot, Name, Suffix, st) = resolve_slot Name0 st0 in do {
        found \<leftarrow> PartitionGetInfo env Name st;
        case found of
          None \<Rightarrow> Some (EFI_NOT_FOUND, Name, st)
        | Some hi \<Rightarrow>
            let psize = GetPartitionSize (Some (BlkIo hi)) in
            if Size > psize \<or> psize = 0 then Some (EFI_INVALID_PARAMETER, Name, st)
            else if EFI_ERROR (ubi_locate env) then Some (ubi_locate env, Name, st)
            else if EFI_ERROR (ubi_open env Name) then Some (ubi_open env Name, Name, st)
            else do {
              data \<leftarrow> mem_read m Img (unat Size);
              let st1 = st\<lparr>fs_ubi := fs_ubi st @ [(Name, data)]\<rparr>;
              if EFI_ERROR (ubi_write env Name data) then Some (ubi_write env Name data, Name, st1)
              else Some (ubi_close env, Name, st1)
            }
      })"

section \<open>Critical partitions\<close>

definition CriticalPartitions :: "string list" where
  "CriticalPartitions =
     [''abl'', ''rpm'', ''tz'', ''sdi'', ''xbl'', ''hyp'', ''pmic'', ''bootloader'', ''devinfo'',
      ''partition'', ''devcfg'', ''ddr'', ''frp'', ''cdt'', ''cmnlib'', ''cmnlib64'', ''keymaster'',
      ''mdtp'', ''aop'', ''multiimgoem'', ''secdata'', ''imagefv'', ''qupfw'', ''uefisecapp'']"

definition IsCriticalPartition :: "string \<Rightarrow> bool" where
  "IsCriticalPartition Name \<longleftrightarrow> list_ex (\<lambda>c. \<not> StrnCmp Name c (length c)) CriticalPartitions"

section \<open>Meta images\<close>

abbreviation (input) META_HDR :: nat where "META_HDR \<equiv> 76"
abbreviation (input) META_ENTRY :: nat where "META_ENTRY \<equiv> 80"
abbreviation (input) META_PARTITION_NAME_SZ :: nat where "META_PARTITION_NAME_SZ \<equiv> 72"
abbreviation (input) MAX_IMAGES_IN_METAIMG :: nat where "MAX_IMAGES_IN_METAIMG \<equiv> 32"

record img_header_entry =
  me_name :: bytes
  start_offset :: u32
  img_size :: u32

definition read_meta_entry :: "mem_buf \<Rightarrow> u64 \<Rightarrow> nat \<Rightarrow> img_header_entry option" where
  "read_meta_entry m Img i = map_option (\<lambda>b.
     \<lparr>me_name = take META_PARTITION_NAME_SZ b, start_offset = le32 b 72, img_size = le32 b 76\<rparr>)
     (mem_read m (Img + of_nat (META_HDR + META_ENTRY * i)) META_ENTRY)"

text \<open>The text of a terminated byte array.\<close>

definition text_of :: "bytes \<Rightarrow> string" where
  "text_of b = List.map (\<lambda>c. char_of (unat c)) (cstr b)"

text \<open>The loop over the images, from entry \<open>i\<close> for \<open>n\<close> entries. The flag tells whether the loop
  was left normally or the routine returned.\<close>

fun meta_images :: "flash_env \<Rightarrow> mem_buf \<Rightarrow> u64 \<Rightarrow> u64 \<Rightarrow> nat \<Rightarrow> nat \<Rightarrow> efi_status \<Rightarrow> flash_state \<Rightarrow>
    (bool \<times> efi_status \<times> flash_state) option" where
  "meta_images env m Img endp i 0 Status st = Some (True, Status, st)"
| "meta_images env m Img endp i (Suc n) Status st = do {
     e \<leftarrow> read_meta_entry m Img i;
     let off = (ucast (start_offset e) :: u64);
     let len = (ucast (img_size e) :: u64);
     if start_offset e = 0 \<or> img_size e = 0 then Some (True, Status, st)
     else if CHECK_ADD64 Img off then Some (False, EFI_BAD_BUFFER_SIZE, st)
     else if CHECK_ADD64 (Img + off) len then Some (False, EFI_BAD_BUFFER_SIZE, st)
     else if endp < Img + off + len then Some (False, EFI_INVALID_PARAMETER, st)
     else if 0 \<notin> set (me_name e) then Some (False, EFI_INVALID_PARAMETER, st)
     else if \<not> IsUnlockCritical (fs_dev st) \<and> IsCriticalPartition (text_of (me_name e))
     then Some (False, EFI_INVALID_PARAMETER,
       FastbootFail (''Flashing is not allowed for Critical Partitions'' @ [CHR 0x0A]) st)
     else do {
       (s, _, st') \<leftarrow> HandleRawImgFlash env (text_of (me_name e)) m (Img + off) len st;
       if s \<noteq> EFI_SUCCESS then Some (False, s, st')
       else meta_images env m Img endp (i + 1) n s st'
     }
   }"

text \<open>The version string of the header is read up to its terminator, which may lie beyond its
  array.\<close>

definition HandleMetaImgFlash :: "flash_env \<Rightarrow> string \<Rightarrow> mem_buf \<Rightarrow> u64 \<Rightarrow> u64 \<Rightarrow> flash_state \<Rightarrow>
    (efi_status \<times> flash_state) option" where
  "HandleMetaImgFlash env Name m Img Size st =
     (if Size < of_nat META_HDR then Some (EFI_INVALID_PARAMETER, st)
      else do {
        h \<leftarrow> mem_read m Img META_HDR;
        let img_hdr_sz = le16 h 74;
        let images = unat img_hdr_sz div META_ENTRY;
        if images > MAX_IMAGES_IN_METAIMG then Some (EFI_INVALID_PARAMETER, st)
        else if Size \<le> of_nat META_HDR + ucast img_hdr_sz then Some (EFI_INVALID_PARAMETER, st)
        else if CHECK_ADD64 Img Size then Some (EFI_BAD_BUFFER_SIZE, st)
        else do {
          (normal, s, st') \<leftarrow> meta_images env m Img (Img + Size) 0 images EFI_DEVICE_ERROR st;
          if \<not> normal then Some (s, st')
          else if 0 \<notin> set (mem_at m (Img + 8)) then None
          else
            let (s', d) = UpdateDevInfo (PcdABLProduct env) Name (text_of (mem_at m (Img + 8))) (fs_dev st')
            in Some (s', st'\<lparr>fs_dev := d\<rparr>)
        }
      })"

section \<open>Erasing\<close>

definition FastbootErasePartition :: "flash_env \<Rightarrow> string \<Rightarrow> flash_state \<Rightarrow> (efi_status \<times> flash_state) option" where
  "FastbootErasePartition env Name st = do {
     found \<leftarrow> PartitionGetInfo env Name st;
     case found of
       None \<Rightarrow> Some (EFI_NOT_FOUND, st)
     | Some hi \<Rightarrow>
         let (Status, log') = ErasePartition (fl_io env) (BlkIo hi) (fs_log st);
             st1 = st\<lparr>fs_log := log'\<rparr>
         in if Status \<noteq> EFI_SUCCESS then Some (Status, st1)
            else Some (if Name = ''userdata'' then ResetDeviceState (fl_vb env) else Status, st1)
   }"

section \<open>The operations of a log\<close>

text \<open>A log that only grew, by operations that all satisfy \<open>P\<close>.\<close>

definition grows :: "(disk_op \<Rightarrow> bool) \<Rightarrow> disk_op list \<Rightarrow> disk_op list \<Rightarrow> bool" where
  "grows P log log' \<longleftrightarrow> (\<exists>ws. log' = log @ ws \<and> (\<forall>op\<in>set ws. P op))"

lemma grows_refl [simp, intro]: "grows P log log"
  by (simp add: grows_def)

lemma grows_trans: "grows P a b \<Longrightarrow> grows P b c \<Longrightarrow> grows P a c"
  by (auto simp: grows_def)

lemma grows_mono: "grows P a b \<Longrightarrow> (\<And>op. P op \<Longrightarrow> Q op) \<Longrightarrow> grows Q a b"
  by (auto simp: grows_def)

lemma grows_snoc: "grows P (log @ [op]) log' \<Longrightarrow> P op \<Longrightarrow> grows P log log'"
  by (auto simp: grows_def)

lemma grows_one [simp]: "grows P log (log @ [op]) \<longleftrightarrow> P op"
  by (simp add: grows_def)

fun op_dev :: "disk_op \<Rightarrow> nat" where
  "op_dev (EraseBlocks i lba n) = i"
| "op_dev (WriteBlocks i lba d) = i"

abbreviation on_device :: "nat \<Rightarrow> disk_op \<Rightarrow> bool" where
  "on_device i \<equiv> \<lambda>op. op_dev op = i"

lemma bind_SomeE:
  assumes "x \<bind> f = Some y" obtains a where "x = Some a" "f a = Some y"
  using assms by (auto simp: bind_eq_Some_conv)

lemma bind2_SomeE:
  assumes "x \<bind> (\<lambda>(a, b). g a b) = Some y" obtains a b where "x = Some (a, b)" "g a b = Some y"
  using assms by (auto simp: bind_eq_Some_conv)

lemma bind3_SomeE:
  assumes "x \<bind> (\<lambda>(a, b, c). g a b c) = Some y" obtains a b c where "x = Some (a, b, c)" "g a b c = Some y"
  using assms by (auto simp: bind_eq_Some_conv)

text \<open>The write routines issue operations on the device they are given only.\<close>

lemma write_units_device:
  assumes "write_units env b Img D U Off left log = Some r"
  shows "grows (on_device (bio_id b)) log (snd (snd r))"
proof (rule write_units.raw_induct [OF _ assms])
  fix f env b Img D U Off left log r
  assume IH: "\<And>env b Img D U Off left log r. f env b Img D U Off left log = Some r \<Longrightarrow>
      grows (on_device (bio_id b)) log (snd (snd r))"
    and body: "(if left = 0 then Some (EFI_SUCCESS, Off, log)
      else
        let WriteSize = (if left > unat U then ucast U else of_nat left :: u32);
            pos = unat D - left
        in if pos + unat WriteSize > length Img \<or> BlockSize b = 0 then None
           else
             let (Status, log') = issue env (WriteBlocks (bio_id b) Off (slice pos (unat WriteSize) Img)) log
             in if Status \<noteq> EFI_SUCCESS then Some (Status, Off, log')
                else f env b Img D U (Off + ucast (WriteSize div BlockSize b)) (left - unat WriteSize) log') = Some r"
  show "grows (on_device (bio_id b)) log (snd (snd r))"
  proof (cases "left = 0")
    case True
    then show ?thesis using body by auto
  next
    case False
    let ?W = "if left > unat U then ucast U else of_nat left :: u32"
    let ?op = "WriteBlocks (bio_id b) Off (slice (unat D - left) (unat ?W) Img)"
    consider "r = (op_status env log ?op, Off, log @ [?op])"
      | "f env b Img D U (Off + ucast (?W div BlockSize b)) (left - unat ?W) (log @ [?op]) = Some r"
      using body False by (simp add: Let_def issue_def split: if_split_asm)
    then show ?thesis
    proof cases
      case 2
      show ?thesis by (rule grows_snoc [OF IH [OF 2]]) simp
    qed simp
  qed
qed

lemma write_tail_device:
  "write_tail env b Img B Size D Off log = Some r \<Longrightarrow> grows (on_device (bio_id b)) log (snd r)"
  by (auto simp: write_tail_def Let_def issue_def split: prod.splits if_splits)

lemma WriteBlockToPartition_device:
  assumes "WriteBlockToPartition env (Some b) Off Size (Some Img) log = Some (s, log')"
  shows "grows (on_device (bio_id b)) log log'"
proof -
  define B where "B = (if root_type env = NAND then snd (erase_prot env) else BlockSize b)"
  define D :: u32 where "D = ucast (Size div ucast B * ucast B)"
  define U :: u64 where "U = (if flash_split env then ROUND_TO_PAGE64 MAX_WRITE_SIZE (B - 1) else ucast D)"
  show ?thesis
  proof (cases "(root_type env = NAND \<and> fst (erase_prot env) \<noteq> EFI_SUCCESS) \<or> B = 0")
    case True
    then show ?thesis using assms by (auto simp: WriteBlockToPartition_def Let_def B_def split: if_splits)
  next
    case False
    have eq: "WriteBlockToPartition env (Some b) Off Size (Some Img) log =
      (if D \<noteq> 0 then write_units env b Img D U Off (unat D) log else Some (EFI_SUCCESS, Off, log)) \<bind>
      (\<lambda>(st, Off', l). if st \<noteq> EFI_SUCCESS then Some (st, l)
         else if Size - ucast D > 0 then write_tail env b Img B Size D Off' l else Some (st, l))"
      unfolding WriteBlockToPartition_def Let_def prod.case option.case B_def [symmetric] D_def [symmetric]
        U_def [symmetric]
      using False by (simp only: de_Morgan_disj if_False simp_thms)
    obtain st Off' l where first:
      "(if D \<noteq> 0 then write_units env b Img D U Off (unat D) log else Some (EFI_SUCCESS, Off, log)) = Some (st, Off', l)"
      and rest: "(if st \<noteq> EFI_SUCCESS then Some (st, l)
         else if Size - ucast D > 0 then write_tail env b Img B Size D Off' l else Some (st, l)) = Some (s, log')"
      using assms unfolding eq by (rule bind3_SomeE)
    have "grows (on_device (bio_id b)) log l"
      using first write_units_device [of env b Img D U Off "unat D" log "(st, Off', l)"] by (auto split: if_splits)
    moreover have "grows (on_device (bio_id b)) l log'"
      using rest write_tail_device [of env b Img B Size D Off' l "(s, log')"] by (auto split: if_splits)
    ultimately show ?thesis by (rule grows_trans)
  qed
qed

lemma WriteToDisk_device:
  "WriteToDisk env b Img Size off log = Some (s, log') \<Longrightarrow> grows (on_device (bio_id b)) log log'"
  by (simp add: WriteToDisk_def WriteBlockToPartition_device)

text \<open>What the sparse decoder keeps: the device in its parameters, and the log confined to it.\<close>

definition sparse_confined :: "SparseImgParam \<Rightarrow> SparseImgParam \<Rightarrow> disk_op list \<Rightarrow> disk_op list \<Rightarrow> bool" where
  "sparse_confined sp sp' log log' \<longleftrightarrow> SparseBlockIo sp' = SparseBlockIo sp \<and>
     grows (on_device (bio_id (SparseBlockIo sp))) log log'"

lemma sparse_confined_refl [simp]:
  "sparse_confined sp sp log log"
  "sparse_confined sp (sp\<lparr>TotalBlocks := x\<rparr>) log log"
  "sparse_confined sp (sp\<lparr>WrittenBlockCount := y\<rparr>) log log"
  by (simp_all add: sparse_confined_def)

lemma sparse_confined_trans:
  "sparse_confined a b l l' \<Longrightarrow> sparse_confined b c l' l'' \<Longrightarrow> sparse_confined a c l l''"
  by (auto simp: sparse_confined_def intro: grows_trans)

lemma sparse_confined_update:
  "sparse_confined (sp\<lparr>ChunkDataSz := x\<rparr>) sp' l l' = sparse_confined sp sp' l l'"
  "sparse_confined (sp\<lparr>WrittenBlockCount := x\<rparr>) sp' l l' = sparse_confined sp sp' l l'"
  "sparse_confined (sp\<lparr>TotalBlocks := y\<rparr>) sp' l l' = sparse_confined sp sp' l l'"
  "sparse_confined sp (sp'\<lparr>ChunkDataSz := x\<rparr>) l l' = sparse_confined sp sp' l l'"
  "sparse_confined sp (sp'\<lparr>WrittenBlockCount := x\<rparr>) l l' = sparse_confined sp sp' l l'"
  "sparse_confined sp (sp'\<lparr>TotalBlocks := y\<rparr>) l l' = sparse_confined sp sp' l l'"
  by (simp_all add: sparse_confined_def)

lemma sparse_confined_write:
  "WriteToDisk env (SparseBlockIo sp) Img Size off log = Some (s, log') \<Longrightarrow> sparse_confined sp sp log log'"
  by (simp add: sparse_confined_def WriteToDisk_device)

lemma raw_chunk_confined:
  "HandleChunkTypeRaw env m sh ch Img sp log = Some (s, Img', sp', log') \<Longrightarrow> sparse_confined sp sp' log log'"
  by (auto simp: HandleChunkTypeRaw_def Let_def sparse_confined_def WriteToDisk_device elim!: bind2_SomeE
      split: if_splits)

lemma fill_blocks_confined:
  "fill_blocks env buf sh n sp log = Some (s, sp', log') \<Longrightarrow> sparse_confined sp sp' log log'"
proof (induction n arbitrary: sp log)
  case (Suc n)
  show ?case
  proof (cases "ucast (TotalBlocks sp) * ucast (blk_sz sh) + ucast (blk_sz sh) > SparseImgParam.PartitionSize sp")
    case True
    then show ?thesis using Suc.prems by simp
  next
    case False
    let ?sp1 = "sp\<lparr>WrittenBlockCount := ucast (TotalBlocks sp) * BlockCountFactor sp\<rparr>"
    from False Suc.prems obtain s1 log1 where w:
      "WriteToDisk env (SparseBlockIo ?sp1) buf (ucast (blk_sz sh)) (WrittenBlockCount ?sp1) log = Some (s1, log1)"
      and r: "(if EFI_ERROR s1 then Some (s1, ?sp1, log1)
        else fill_blocks env buf sh n (?sp1\<lparr>TotalBlocks := TotalBlocks ?sp1 + 1\<rparr>) log1) = Some (s, sp', log')"
      by (auto simp: Let_def elim!: bind2_SomeE)
    have c: "sparse_confined sp ?sp1 log log1" using sparse_confined_write [OF w] by (simp add: sparse_confined_update)
    show ?thesis
    proof (cases "EFI_ERROR s1")
      case True
      then show ?thesis using r c by simp
    next
      case False
      then have "sparse_confined sp sp' log1 log'"
        using r Suc.IH [of "?sp1\<lparr>TotalBlocks := TotalBlocks ?sp1 + 1\<rparr>" log1] by (simp add: sparse_confined_update)
      with c show ?thesis using sparse_confined_trans [of sp sp log log1 sp' log'] by (simp add: sparse_confined_update)
    qed
  qed
qed simp

lemma fill_chunk_confined:
  "HandleChunkTypeFill env m sh ch Img sp log = Some (s, Img', sp', log') \<Longrightarrow> sparse_confined sp sp' log log'"
  by (auto simp: HandleChunkTypeFill_def bind_eq_Some_conv split: if_splits dest: fill_blocks_confined)

lemma chunk_confined:
  "ValidateChunkDataAndFlash env m sh ch Img sp log = Some (s, Img', sp', log') \<Longrightarrow> sparse_confined sp sp' log log'"
  by (auto simp: ValidateChunkDataAndFlash_def Let_def sparse_confined_update split: if_splits
      dest: raw_chunk_confined fill_chunk_confined)

lemma sparse_chunks_confined:
  "sparse_chunks env m sh n Img sp log = Some (s, sp', log') \<Longrightarrow> sparse_confined sp sp' log log'"
proof (induction n arbitrary: Img sp log)
  case (Suc n)
  from Suc.prems show ?case
    by (auto simp: Let_def sparse_confined_update bind_eq_Some_conv split: if_splits
        dest!: chunk_confined Suc.IH intro: sparse_confined_trans)
qed simp

lemma sparse_to_device_confined:
  "sparse_to_device env m b Img sz log = Some (s, log') \<Longrightarrow> grows (on_device (bio_id b)) log log'"
  by (auto simp: sparse_to_device_def Let_def bind_eq_Some_conv sparse_confined_def split: if_splits
      dest!: sparse_chunks_confined)

section \<open>What the slot lookups keep\<close>

lemma GetActiveSlot_keeps:
  assumes "GetActiveSlot st sl = (s, sl', st')"
  shows "Ptable st' = Ptable st \<and> MaxLuns st' = MaxLuns st"
  using assms
  by (auto simp: GetActiveSlot_def Let_def upd_attr_def UpdatePartitionAttributes_def split: prod.splits option.splits if_splits)

lemma active_scan_suffix:
  "active_scan st slots p sl = (s, sl') \<Longrightarrow> sl \<in> S \<Longrightarrow> set slots \<subseteq> S \<Longrightarrow> sl' \<in> S"
proof (induction slots arbitrary: p sl)
  case (Cons slot slots)
  then show ?case
    by (auto simp: Let_def StrnCpyS_def split: option.splits if_splits)
qed simp

lemma GetActiveSlot_suffix:
  assumes "GetActiveSlot st '''' = (s, sl, st')"
  shows "sl \<in> {'''', ''_a'', ''_b''}"
proof -
  obtain s0 found where a: "active_scan st [''_a'', ''_b''] 0 '''' = (s0, found)" by fastforce
  have "found \<in> {'''', ''_a'', ''_b''}" by (rule active_scan_suffix [OF a]) auto
  then show ?thesis
    using assms a by (auto simp: GetActiveSlot_def Let_def StrnCpyS_def split: option.splits if_splits)
qed

lemma GetCurrentSlotSuffix_facts:
  assumes "GetCurrentSlotSuffix st = (sl, st')"
  shows "sl \<in> {'''', ''_a'', ''_b''}" "Ptable st' = Ptable st" "MaxLuns st' = MaxLuns st"
  using assms GetActiveSlot_suffix GetActiveSlot_keeps
  by (auto simp: GetCurrentSlotSuffix_def split: if_splits prod.splits)

text \<open>The parts of the state no image handler changes.\<close>

definition flash_frame :: "flash_state \<Rightarrow> flash_state \<Rightarrow> bool" where
  "flash_frame st st' \<longleftrightarrow> Ptable (fs_ptn st') = Ptable (fs_ptn st) \<and>
     MaxLuns (fs_ptn st') = MaxLuns (fs_ptn st) \<and> fs_dev st' = fs_dev st \<and> LunSet st' = LunSet st \<and> Lun st' = Lun st"

lemma flash_frame_refl [simp, intro]: "flash_frame st st"
  by (simp add: flash_frame_def)

lemma flash_frame_trans: "flash_frame a b \<Longrightarrow> flash_frame b c \<Longrightarrow> flash_frame a c"
  by (simp add: flash_frame_def)

lemma flash_frame_log [simp]: "flash_frame st (st'\<lparr>fs_log := l\<rparr>) = flash_frame st st'"
  "flash_frame st (st'\<lparr>fs_ubi := u\<rparr>) = flash_frame st st'"
  "flash_frame st (FastbootFail r st') = flash_frame st st'"
  by (simp_all add: flash_frame_def FastbootFail_def FastbootAck_def)

lemma resolve_slot_facts:
  assumes "resolve_slot Name st = (h, Name', sfx, st')"
  shows "\<exists>s\<in>{'''', ''_a'', ''_b''}. Name' = Name @ s" "flash_frame st st'" "fs_log st' = fs_log st"
    "fs_ubi st' = fs_ubi st"
proof -
  have "(\<exists>s\<in>{'''', ''_a'', ''_b''}. Name' = Name @ s) \<and> flash_frame st st' \<and> fs_log st' = fs_log st \<and> fs_ubi st' = fs_ubi st"
    using assms
    by (auto simp: resolve_slot_def GetPartitionHasSlot_def StrnCatS_def flash_frame_def
        split: if_splits option.splits prod.splits dest: GetCurrentSlotSuffix_facts)
  then show "\<exists>s\<in>{'''', ''_a'', ''_b''}. Name' = Name @ s" "flash_frame st st'" "fs_log st' = fs_log st"
    "fs_ubi st' = fs_ubi st" by auto
qed

lemma FastbootUpdateAttr_facts:
  assumes "FastbootUpdateAttr sfx st = Some st'"
  shows "flash_frame st st'" "fs_log st' = fs_log st" "fs_ubi st' = fs_ubi st"
  using assms
  by (auto simp: FastbootUpdateAttr_def reset_slot_infos_def Let_def flash_frame_def upd_attr_def
      UpdatePartitionAttributes_def split: option.splits if_splits)

section \<open>Critical partitions are protected\<close>

lemma CriticalPartitions_no_suffix: "c \<in> set CriticalPartitions \<Longrightarrow> CHR ''_'' \<notin> set c"
  by (auto simp: CriticalPartitions_def)

text \<open>A slot suffix does not change whether a name is critical.\<close>

lemma critical_suffix:
  assumes "s \<in> {'''', ''_a'', ''_b''}"
  shows "IsCriticalPartition (Name @ s) \<longleftrightarrow> IsCriticalPartition Name"
proof -
  have "take (length c) (Name @ s) = c \<longleftrightarrow> take (length c) Name = c" if c: "CHR ''_'' \<notin> set c" for c
  proof (cases "length c \<le> length Name \<or> s = ''''")
    case False
    then obtain x where s: "s = CHR ''_'' # x" using assms by auto
    have "take (length c) (Name @ s) \<noteq> c"
    proof
      assume e: "take (length c) (Name @ s) = c"
      have "take (length c) (Name @ s) ! length Name = CHR ''_''" using False s by (simp add: nth_append)
      then show False using e c False by (metis not_le nth_mem)
    qed
    moreover have "take (length c) Name \<noteq> c" using False by (metis length_take min.cobounded1 min_def not_le)
    ultimately show ?thesis by blast
  qed auto
  then show ?thesis
    using CriticalPartitions_no_suffix by (auto simp: IsCriticalPartition_def StrnCmp_def list_ex_iff)
qed

text \<open>An operation on a partition of the table that is not critical.\<close>

definition noncritical_op :: "flash_env \<Rightarrow> HandleInfo list list \<Rightarrow> disk_op \<Rightarrow> bool" where
  "noncritical_op env tab op \<longleftrightarrow> (\<exists>his\<in>set tab. \<exists>hi\<in>set his. \<exists>e.
     part_record (fl_ptn env) (Handle hi) = Some e \<and> \<not> IsCriticalPartition (PartitionName e) \<and>
     op_dev op = bio_id (BlkIo hi))"

abbreviation spares_critical :: "flash_env \<Rightarrow> flash_state \<Rightarrow> flash_state \<Rightarrow> bool" where
  "spares_critical env st st' \<equiv>
     grows (noncritical_op env (Ptable (fs_ptn st))) (fs_log st) (fs_log st')"

lemma find_ptn_Some:
  "find_ptn env Name his = Some hi \<Longrightarrow>
   hi \<in> set his \<and> (\<exists>e. part_record env (Handle hi) = Some e \<and> PartitionName e = Name)"
  by (induction his) (auto split: option.splits if_splits)

lemma find_in_luns_Some:
  "find_in_luns env st Name i n = Some (Some hi) \<Longrightarrow> \<exists>j. find_ptn env Name (lun_handles st j) = Some hi"
  by (induction n arbitrary: i) (auto split: option.splits if_splits)

lemma PartitionGetInfo_Some:
  assumes "PartitionGetInfo env Name st = Some (Some hi)"
  shows "\<exists>his\<in>set (Ptable (fs_ptn st)). \<exists>e. hi \<in> set his \<and>
    part_record (fl_ptn env) (Handle hi) = Some e \<and> PartitionName e = Name"
proof -
  obtain j where "find_ptn (fl_ptn env) Name (lun_handles (fs_ptn st) j) = Some hi"
    using assms by (auto simp: PartitionGetInfo_def Let_def split: if_splits dest!: find_in_luns_Some)
  then show ?thesis
    using find_ptn_Some [of "fl_ptn env" Name "lun_handles (fs_ptn st) j" hi]
    by (auto simp: lun_handles_def split: if_splits intro: bexI [where x = "Ptable (fs_ptn st) ! j"])
qed

lemma device_noncritical:
  assumes "PartitionGetInfo env Name st = Some (Some hi)" "\<not> IsCriticalPartition Name"
    and "grows (on_device (bio_id (BlkIo hi))) log log'"
  shows "grows (noncritical_op env (Ptable (fs_ptn st))) log log'"
  using assms(3) by (rule grows_mono) (use PartitionGetInfo_Some [OF assms(1)] assms(2) in
      \<open>auto simp: noncritical_op_def\<close>)

lemma raw_flash_noncritical:
  assumes run: "HandleRawImgFlash env Name m Img Size st = Some (s, Name', st')" and nc: "\<not> IsCriticalPartition Name"
  shows "spares_critical env st st' \<and> flash_frame st st'"
proof -
  obtain h Name1 sfx st1 where r: "resolve_slot Name st = (h, Name1, sfx, st1)" by (cases "resolve_slot Name st") auto
  note f = resolve_slot_facts [OF r]
  have nc1: "\<not> IsCriticalPartition Name1" using f(1) nc critical_suffix by blast
  from run r obtain found where g: "PartitionGetInfo env Name1 st1 = Some found"
    by (auto simp: HandleRawImgFlash_def bind_eq_Some_conv)
  show ?thesis
  proof (cases found)
    case None
    then show ?thesis using run r g f by (auto simp: HandleRawImgFlash_def)
  next
    case (Some hi)
    note g = g [unfolded Some]
    show ?thesis
    proof (cases "GetPartitionSize (Some (BlkIo hi)) < Size \<or> GetPartitionSize (Some (BlkIo hi)) = 0")
      case True
      then have "st' = st1" using run r g by (auto simp: HandleRawImgFlash_def)
      then show ?thesis using f by simp
    next
      case False
      then obtain st2 log' where w: "WriteBlockToPartition (fl_io env) (Some (BlkIo hi)) 0 Size
          (Some (mem_at m Img)) (fs_log st1) = Some (s, log')"
        and t: "st' = st1\<lparr>fs_log := log'\<rparr> \<or> FastbootUpdateAttr sfx (st1\<lparr>fs_log := log'\<rparr>) = Some st'"
        using run r g by (auto simp: HandleRawImgFlash_def Let_def bind_eq_Some_conv split: if_splits)
      have "fs_log st' = log' \<and> flash_frame st1 st'"
        using t FastbootUpdateAttr_facts(1,2) [of sfx "st1\<lparr>fs_log := log'\<rparr>" st'] by (auto simp: flash_frame_def)
      moreover have "grows (noncritical_op env (Ptable (fs_ptn st1))) (fs_log st1) log'"
        by (rule device_noncritical [OF g nc1 WriteBlockToPartition_device [OF w]])
      ultimately show ?thesis using f by (auto simp: flash_frame_def)
    qed
  qed
qed

lemma meta_images_noncritical:
  "meta_images env m Img endp i n s st = Some (b, s', st') \<Longrightarrow> \<not> IsUnlockCritical (fs_dev st) \<Longrightarrow>
   spares_critical env st st' \<and> flash_frame st st'"
proof (induction n arbitrary: i s st)
  case (Suc n)
  from Suc.prems(1) obtain e where e: "read_meta_entry m Img i = Some e" by (auto simp: bind_eq_Some_conv)
  let ?off = "ucast (start_offset e) :: u64" and ?len = "ucast (img_size e) :: u64"
  let ?nm = "text_of (me_name e)"
  have fail: "fs_log (FastbootFail r st) = fs_log st" for r by (simp add: FastbootFail_def FastbootAck_def)
  show ?case
  proof (cases "fs_log st' = fs_log st \<and> flash_frame st st'")
    case True
    then show ?thesis by simp
  next
    case False
    then obtain s1 nm1 st1 where r: "HandleRawImgFlash env ?nm m (Img + ?off) ?len st = Some (s1, nm1, st1)"
      and nc: "\<not> IsCriticalPartition ?nm"
      and t: "(if s1 \<noteq> EFI_SUCCESS then Some (False, s1, st1)
        else meta_images env m Img endp (i + 1) n s1 st1) = Some (b, s', st')"
      using Suc.prems e by (auto simp: Let_def fail bind_eq_Some_conv split: if_splits)
    note a = raw_flash_noncritical [OF r nc]
    show ?thesis
    proof (cases "s1 = EFI_SUCCESS")
      case True
      then have "meta_images env m Img endp (i + 1) n s1 st1 = Some (b, s', st')" using t by simp
      moreover have "\<not> IsUnlockCritical (fs_dev st1)" using a Suc.prems(2) by (simp add: flash_frame_def)
      ultimately have "spares_critical env st1 st' \<and> flash_frame st1 st'" by (rule Suc.IH)
      then show ?thesis using a by (auto simp: flash_frame_def intro: grows_trans)
    next
      case False
      then show ?thesis using t a by simp
    qed
  qed
qed auto

lemma meta_flash_noncritical:
  assumes "HandleMetaImgFlash env Name m Img Size st = Some (s, st')" "\<not> IsUnlockCritical (fs_dev st)"
  shows "spares_critical env st st' \<and> Ptable (fs_ptn st') = Ptable (fs_ptn st)"
  using assms(1)
  by (auto simp: HandleMetaImgFlash_def Let_def bind_eq_Some_conv split: if_splits prod.splits
      dest!: meta_images_noncritical [OF _ assms(2)] simp: flash_frame_def)

text \<open>While the critical partitions are locked, flashing a meta image issues no operation on a
  partition whose name begins with a critical name, whatever the image holds and wherever the
  flashing stops.\<close>

theorem HandleMetaImgFlash_spares_critical:
  assumes "HandleMetaImgFlash env Name m Img Size st = Some (s, st')" "\<not> IsUnlockCritical (fs_dev st)"
  shows "\<exists>ws. fs_log st' = fs_log st @ ws \<and> (\<forall>op\<in>set ws. \<exists>his\<in>set (Ptable (fs_ptn st)). \<exists>hi\<in>set his. \<exists>e.
    part_record (fl_ptn env) (Handle hi) = Some e \<and> \<not> IsCriticalPartition (PartitionName e) \<and>
    op_dev op = bio_id (BlkIo hi))"
  using meta_flash_noncritical [OF assms] by (simp add: grows_def noncritical_op_def)

section \<open>Sparse and raw images\<close>

text \<open>C21. Flashing a sparse image, well formed or not, returns, and every write lies inside the
  partition found for the name.\<close>

theorem HandleSparseImgFlash_inside:
  assumes "PartitionGetInfo env Name st = Some (Some hi)" and c: "flash_ctx (fl_io env) m (BlkIo hi) sz"
  shows "\<exists>s ws. HandleSparseImgFlash env Name m (mem_base m) sz st = Some (s, st\<lparr>fs_log := fs_log st @ ws\<rparr>) \<and>
    (\<forall>op\<in>set ws. op_inside (bio_id (BlkIo hi)) (unat (BlockSize (BlkIo hi))) 0
       (unat (GetPartitionSize (Some (BlkIo hi)))) op)"
proof -
  obtain s ws where r: "sparse_to_device (fl_io env) m (BlkIo hi) (mem_base m) sz (fs_log st) = Some (s, fs_log st @ ws)"
    "in_partition (BlkIo hi) ws" using sparse_to_device_safe [OF c, of "fs_log st"] by blast
  have "\<not> CHECK_ADD64 (mem_base m) sz" using c by (simp add: CHECK_ADD64_iff flash_ctx_def)
  then have "HandleSparseImgFlash env Name m (mem_base m) sz st = Some (s, st\<lparr>fs_log := fs_log st @ ws\<rparr>)"
    using assms(1) r(1) by (simp add: HandleSparseImgFlash_def)
  then show ?thesis using r(2) by (auto simp: in_partition_def)
qed

text \<open>The slot information exists when slots are counted.\<close>

definition slot_infos_ready :: "flash_state \<Rightarrow> bool" where
  "slot_infos_ready st \<longleftrightarrow>
     SlotCount st = 0 \<or> (\<exists>infos. BootSlotInfo st = Some infos \<and> SlotCount st \<le> length infos)"

lemma FastbootUpdateAttr_returns: "slot_infos_ready st \<Longrightarrow> \<exists>st'. FastbootUpdateAttr sfx st = Some st'"
  by (auto simp: FastbootUpdateAttr_def reset_slot_infos_def slot_infos_ready_def Let_def split: option.splits)

lemma resolve_slot_infos:
  "resolve_slot Name st = (h, Name', sfx, st') \<Longrightarrow> slot_infos_ready st' = slot_infos_ready st"
  by (auto simp: resolve_slot_def GetPartitionHasSlot_def slot_infos_ready_def split: if_splits option.splits prod.splits)

text \<open>A raw image that fits is written to the partition of the name, with the current slot's
  suffix when the table has no partition of the bare name: the medium then begins with the image,
  and the rest of it is unchanged.\<close>

theorem HandleRawImgFlash_writes:
  assumes r: "resolve_slot Name st = (h, Name', sfx, st1)" and g: "PartitionGetInfo env Name' st1 = Some (Some hi)"
    and b: "b = BlkIo hi" and sz: "writable_size b 0 Size (mem_at m Img)" "Size \<le> GetPartitionSize (Some b)" "GetPartitionSize (Some b) \<noteq> 0"
    and nand: "root_type (fl_io env) \<noteq> NAND" and rd: "reads_medium (fl_io env) b (fs_log st) d"
    and al: "alloc_pool (fl_io env) (unat (BlockSize b))" and ok: "\<forall>l op. op_status (fl_io env) l op = EFI_SUCCESS"
    and fit: "blocks_up (unat (BlockSize b)) (unat Size) \<le> length d" and sl: "slot_infos_ready st"
  shows "\<exists>st' ws. HandleRawImgFlash env Name m Img Size st = Some (EFI_SUCCESS, Name', st') \<and>
    fs_log st' = fs_log st @ ws \<and>
    replay (unat (BlockSize b)) ws d = splice 0 (take (unat Size) (mem_at m Img)) d"
proof -
  note f = resolve_slot_facts [OF r]
  obtain ws where w: "WriteBlockToPartition (fl_io env) (Some b) 0 Size (Some (mem_at m Img)) (fs_log st) =
      Some (EFI_SUCCESS, fs_log st @ ws)"
    and d: "replay (unat (BlockSize b)) ws d = splice 0 (take (unat Size) (mem_at m Img)) d"
    using write_block_refines [OF sz(1) nand rd al ok] fit by auto
  let ?st2 = "st1\<lparr>fs_log := fs_log st @ ws\<rparr>"
  have "slot_infos_ready ?st2" using sl resolve_slot_infos [OF r] by (simp add: slot_infos_ready_def)
  then obtain st3 where u: "FastbootUpdateAttr sfx ?st2 = Some st3" using FastbootUpdateAttr_returns by blast
  have "HandleRawImgFlash env Name m Img Size st = Some (EFI_SUCCESS, Name',
      if PartitionHasMultiSlot (fs_ptn st) ''boot'' \<and> h \<and> \<not> StrnCmp Name' ''boot'' 4 then st3 else ?st2)"
    using r g sz(2,3) w f(3) u by (auto simp: HandleRawImgFlash_def Let_def b not_less)
  then show ?thesis using FastbootUpdateAttr_facts(2) [OF u] d by auto
qed

lemma flash_attr_fields:
  "prio (flash_attr a) = 3" "retries (flash_attr a) = 7" "successful (flash_attr a) = 0"
  "unbootable (flash_attr a) = 0" "active (flash_attr a) = active a"
proof -
  let ?m = "PART_ATT_PRIORITY_VAL OR PART_ATT_MAX_RETRY_COUNT_VAL"
  let ?c = "a AND (NOT PART_ATT_SUCCESSFUL_VAL AND NOT PART_ATT_UNBOOTABLE_VAL)"
  have c: "?c = (a AND NOT PART_ATT_SUCCESSFUL_VAL) AND NOT PART_ATT_UNBOOTABLE_VAL"
    "?c = (a AND NOT PART_ATT_UNBOOTABLE_VAL) AND NOT PART_ATT_SUCCESSFUL_VAL"
    by (simp_all only: and.assoc and.left_commute and.commute)
  show "prio (flash_attr a) = 3"
    using att_priority.field_set_other [of PART_ATT_MAX_RETRY_COUNT_VAL "?c OR PART_ATT_PRIORITY_VAL"]
      att_priority.field_set [of ?c] by (simp add: flash_attr_def att_vals or.assoc mask_eq_exp_minus_1)
  have "retries ((?c OR PART_ATT_MAX_RETRY_COUNT_VAL) OR PART_ATT_PRIORITY_VAL) = 7"
    by (subst att_retry.field_set_other, simp add: att_vals, subst att_retry.field_set)
      (simp add: mask_eq_exp_minus_1)
  then show "retries (flash_attr a) = 7"
    by (simp only: flash_attr_def or.assoc or.commute [of PART_ATT_PRIORITY_VAL])
  have "successful (flash_attr a) = successful ?c"
    unfolding flash_attr_def by (rule att_success.field_set_other) (simp add: att_vals)
  then show "successful (flash_attr a) = 0" unfolding c(2) by (simp add: att_success.field_clear)
  have "unbootable (flash_attr a) = unbootable ?c"
    unfolding flash_attr_def by (rule att_unbootable.field_set_other) (simp add: att_vals)
  then show "unbootable (flash_attr a) = 0" unfolding c(1) by (simp add: att_unbootable.field_clear)
  have "active (flash_attr a) = active ?c"
    unfolding flash_attr_def by (rule att_active.field_set_other) (simp add: att_vals)
  then show "active (flash_attr a) = active a" unfolding c(1) by (simp add: attr_simps)
qed

text \<open>After a boot image was flashed to a slot, that slot has the highest priority, all its
  retries, and is neither marked successful nor unbootable; no other attribute changes, and the
  host reads the same from the slot variables.\<close>

theorem FastbootUpdateAttr_resets:
  assumes t: "two_slots (fs_ptn st) a b" and sfx: "(sfx, i) \<in> {(''_a'', a), (''_b'', b)}"
    and infos: "BootSlotInfo st = Some infos" "SlotCount st = length infos"
  shows "\<exists>st' infos'. FastbootUpdateAttr sfx st = Some st' \<and>
    prio (attr_at (fs_ptn st') i) = 3 \<and> retries (attr_at (fs_ptn st') i) = 7 \<and>
    successful (attr_at (fs_ptn st') i) = 0 \<and> unbootable (attr_at (fs_ptn st') i) = 0 \<and>
    active (attr_at (fs_ptn st') i) = active (attr_at (fs_ptn st) i) \<and>
    (\<forall>j. j \<noteq> i \<longrightarrow> PtnEntries (fs_ptn st') ! j = PtnEntries (fs_ptn st) ! j) \<and>
    BootSlotInfo st' = Some infos' \<and> length infos' = length infos \<and>
    (\<forall>k < length infos. StrStr sfx (SlotSuffix (infos ! k)) \<longrightarrow>
       SlotSuccessfulVal (infos' ! k) = ''no'' \<and> SlotUnbootableVal (infos' ! k) = ''no'' \<and>
       SlotRetryCountVal (infos' ! k) = ''7'')"
proof -
  have idx: "GetPartitionIndex (fs_ptn st) (''boot'' @ sfx) = Some i" using t sfx by (auto simp: two_slots_def)
  have nm: "StrnCatS (StrnCpyS '''' 5 ''boot'' 4) (MAX_GPT_NAME_SIZE - 1) sfx (length sfx) = ''boot'' @ sfx"
    using sfx by (auto simp: StrnCatS_def StrnCpyS_def)
  have i: "i < length (PtnEntries (fs_ptn st))" using two_slots_facts [OF t] sfx by auto
  let ?g = "\<lambda>s. if StrStr sfx (SlotSuffix s) then reset_slot_info s else s"
  let ?st = "st\<lparr>fs_ptn := upd_attr i flash_attr (fs_ptn st), BootSlotInfo := Some (List.map ?g infos)\<rparr>"
  have run: "FastbootUpdateAttr sfx st = Some ?st"
    unfolding FastbootUpdateAttr_def Let_def nm idx option.case
    using infos by (cases st; cases infos) (simp_all add: UpdatePartitionAttributes_def reset_slot_infos_def)
  have at: "attr_at (fs_ptn ?st) i = flash_attr (attr_at (fs_ptn st) i)" using i by (simp add: upd_attr_def)
  show ?thesis
    using run at flash_attr_fields by (intro exI [of _ ?st] exI [of _ "List.map ?g infos"])
      (simp add: upd_attr_def reset_slot_info_def)
qed

section \<open>An eMMC device with a boot and a system partition\<close>

text \<open>The handles 1 and 2 carry the partitions \<open>boot_a\<close> and \<open>system\<close>, four blocks each.\<close>

definition demo_handle :: "nat \<Rightarrow> HandleInfo" where
  "demo_handle n = \<lparr>Handle = n, BlkIo = (ram_dev 3)\<lparr>bio_id := n\<rparr>, PartitionInfo = None\<rparr>"

definition demo_records :: "nat \<Rightarrow> ptn_entry option" where
  "demo_records h = (if h = 1 then Some (demo_entry ''boot_a'' 1 0)
     else if h = 2 then Some (demo_entry ''system'' 5 0) else None)"

definition demo_flash_env :: flash_env where
  "demo_flash_env = \<lparr>fl_io = ram_env EMMC demo_medium,
     fl_ptn = demo_env\<lparr>part_record := demo_records\<rparr>, fl_misc = demo_misc_env (demo_dev 4096 3) [],
     fl_vb = \<lparr>vb_enabled = False, vb_avb_le = False, vb_locate = EFI_NOT_FOUND, vb_reset = EFI_NOT_FOUND\<rparr>,
     ubi_locate = EFI_NOT_FOUND, ubi_open = (\<lambda>_. EFI_NOT_FOUND), ubi_write = (\<lambda>_ _. EFI_NOT_FOUND),
     ubi_close = EFI_NOT_FOUND, PcdABLProduct = ''ABL''\<rparr>"

definition demo_slot_info :: "string \<Rightarrow> slot_info" where
  "demo_slot_info s = \<lparr>SlotSuffix = s, SlotSuccessfulVar = ''slot-successful:'' @ s,
     SlotUnbootableVar = ''slot-unbootable:'' @ s, SlotRetryCountVar = ''slot-retry-count:'' @ s,
     SlotSuccessfulVal = ''yes'', SlotUnbootableVal = ''no'', SlotRetryCountVal = ''3''\<rparr>"

definition demo_flash_state :: flash_state where
  "demo_flash_state = \<lparr>fs_ptn = demo_slots\<lparr>Ptable := [[demo_handle 1, demo_handle 2]]\<rparr>,
     fs_dev = demo_inited, fs_log = [], fs_ubi = [], fs_replies = [],
     BootSlotInfo = Some [demo_slot_info ''a'', demo_slot_info ''b''], SlotCount = 2, Lun = 0, LunSet = False\<rparr>"

definition demo_mem :: "bytes \<Rightarrow> mem_buf" where
  "demo_mem b = \<lparr>mem_base = 0x1000, mem_bytes = b\<rparr>"

lemmas demo_flash_defs = demo_flash_state_def demo_flash_env_def demo_records_def demo_handle_def demo_entry_def
  zero_entry_def demo_mem_def

lemma demo_get_info:
  "PartitionGetInfo demo_flash_env ''boot_a'' demo_flash_state = Some (Some (demo_handle 1))"
  "PartitionGetInfo demo_flash_env ''system'' demo_flash_state = Some (Some (demo_handle 2))"
  by (simp_all add: PartitionGetInfo_def demo_flash_defs demo_slots_def lun_handles_def)

lemma HandleSparseImgFlash_inside_witness:
  "\<exists>s ws. HandleSparseImgFlash demo_flash_env ''system'' (demo_mem (replicate 40 1)) 0x1000 40 demo_flash_state =
      Some (s, demo_flash_state\<lparr>fs_log := fs_log demo_flash_state @ ws\<rparr>) \<and>
    (\<forall>op\<in>set ws. op_inside 2 512 0 2048 op)"
proof -
  have s: "GetPartitionSize (Some ((ram_dev 3)\<lparr>bio_id := 2\<rparr>)) = 2048"
    by (simp add: GetPartitionSize_def CHECK_ADD64_def)
  have "flash_ctx (fl_io demo_flash_env) (demo_mem (replicate 40 1)) (BlkIo (demo_handle 2)) 40"
    by (simp add: flash_ctx_def demo_flash_env_def demo_mem_def demo_handle_def s bexI [where x = 9]
        ram_env_reads_whole)
  from HandleSparseImgFlash_inside [OF demo_get_info(2) this]
  show ?thesis by (simp add: demo_mem_def demo_handle_def s)
qed

lemma demo_resolve:
  "resolve_slot ''system'' demo_flash_state = (True, ''system_a'', ''_a'', demo_flash_state)"
  "resolve_slot ''boot_a'' demo_flash_state = (True, ''boot_a'', ''_a'', demo_flash_state)"
proof -
  define p where "p = demo_slots\<lparr>Ptable := [[demo_handle 1, demo_handle 2]]\<rparr>"
  have e: "PtnEntries p = PtnEntries demo_slots" by (simp add: p_def)
  have m: "PartitionHasMultiSlot p ''boot''"
    unfolding PartitionHasMultiSlot_def e
    by (simp add: demo_slots_def demo_entry_def slot_entry_def StrnCmp_def char_at_def)
  have "GetActiveSlot p '''' = (EFI_SUCCESS, ''_a'', p)"
    using GetActiveSlot_eq [of p 0 1] demo_two_slots demo_best two_slots_names [of p demo_slots]
    by (simp add: names_of_def e)
  then have c: "GetCurrentSlotSuffix p = (''_a'', p)" using m by (simp add: GetCurrentSlotSuffix_def)
  have i: "GetPartitionIndex p ''system'' = None" "GetPartitionIndex p ''boot_a'' = Some 0"
    by (simp_all add: GetPartitionIndex_def e demo_slots_def demo_entry_def StrnCmp_def)
  have s: "fs_ptn demo_flash_state = p" by (simp add: demo_flash_state_def p_def)
  have u: "demo_flash_state\<lparr>fs_ptn := p\<rparr> = demo_flash_state" by (simp add: demo_flash_state_def p_def)
  show "resolve_slot ''system'' demo_flash_state = (True, ''system_a'', ''_a'', demo_flash_state)"
    by (simp add: resolve_slot_def GetPartitionHasSlot_def s m i c u StrnCatS_def StrnCpyS_def)
  show "resolve_slot ''boot_a'' demo_flash_state = (True, ''boot_a'', ''_a'', demo_flash_state)"
    by (simp add: resolve_slot_def GetPartitionHasSlot_def s m i StrnCpyS_def)
qed

lemma HandleRawImgFlash_writes_example:
  "\<exists>st' ws. HandleRawImgFlash (demo_flash_env\<lparr>fl_io := (ram_env EMMC demo_medium)\<lparr>read_blocks := demo_read\<rparr>\<rparr>)
      ''boot_a'' (demo_mem (replicate 600 7)) 0x1000 600 demo_flash_state = Some (EFI_SUCCESS, ''boot_a'', st') \<and>
    fs_log st' = fs_log demo_flash_state @ ws \<and> replay 512 ws demo_medium = splice 0 (replicate 600 7) demo_medium"
proof -
  let ?env = "demo_flash_env\<lparr>fl_io := (ram_env EMMC demo_medium)\<lparr>read_blocks := demo_read\<rparr>\<rparr>"
  let ?m = "demo_mem (replicate 600 7)"
  have g: "PartitionGetInfo ?env ''boot_a'' demo_flash_state = Some (Some (demo_handle 1))"
    using demo_get_info(1) by (simp add: PartitionGetInfo_def demo_flash_env_def)
  have s: "GetPartitionSize (Some ((ram_dev 3)\<lparr>bio_id := 1\<rparr>)) = 2048"
    by (simp add: GetPartitionSize_def CHECK_ADD64_def)
  have w: "writable_size ((ram_dev 3)\<lparr>bio_id := 1\<rparr>) 0 600 (mem_at ?m 0x1000)"
    using ram_dev_writable [of 600 "replicate 600 7" 0 3] by (simp add: writable_size_def mem_at_def demo_mem_def)
  have sl: "slot_infos_ready demo_flash_state" by (simp add: slot_infos_ready_def demo_flash_state_def)
  show ?thesis
    using HandleRawImgFlash_writes [OF demo_resolve(2) g, of "(ram_dev 3)\<lparr>bio_id := 1\<rparr>" 600 ?m "0x1000" demo_medium]
      w s sl by (simp add: reads_medium_def demo_read_def demo_handle_def blocks_up_def demo_medium_def demo_flash_state_def)
        (simp add: demo_mem_def mem_at_def)
qed

lemma FastbootUpdateAttr_resets_example:
  "\<exists>st'. FastbootUpdateAttr ''_a'' demo_flash_state = Some st' \<and> retries (attr_at (fs_ptn st') 0) = 7"
proof -
  have "two_slots (fs_ptn demo_flash_state) 0 1"
    using demo_two_slots two_slots_names [of "fs_ptn demo_flash_state" demo_slots]
    by (simp add: demo_flash_state_def names_of_def)
  from FastbootUpdateAttr_resets [OF this, of "''_a''" 0 "[demo_slot_info ''a'', demo_slot_info ''b'']"]
  show ?thesis by (auto simp: demo_flash_state_def)
qed

lemma char_of_byte [simp]: "char_of (unat (of_char c :: u8)) = c"
proof -
  have "unat (of_char c :: u8) = of_char c mod 256"
    using unat_of_nat [of "of_char c", where 'a = 8] by (simp only: of_nat_of_char) simp
  then show ?thesis by simp
qed

lemma of_char_0: "(of_char c :: u8) = 0 \<longleftrightarrow> c = CHR 0x00"
proof
  assume "(of_char c :: u8) = 0"
  then have "char_of (unat (0 :: u8)) = c" using char_of_byte [of c] by argo
  then show "c = CHR 0x00" by (simp add: char_of_def)
qed simp

text \<open>The text of a stored string is the string.\<close>

lemma text_of_ascii:
  assumes "CHR 0x00 \<notin> set s" shows "text_of (ascii s @ 0 # r) = s"
proof -
  have "takeWhile (\<lambda>c. c \<noteq> 0) (ascii s @ 0 # r) = ascii s"
    using assms by (subst takeWhile_append2) (auto simp: ascii_def of_char_0)
  then show ?thesis by (simp add: text_of_def cstr_def ascii_def comp_def)
qed

text \<open>A meta image with one entry, for the critical partition \<open>xbl\<close>.\<close>

definition demo_meta_entry :: bytes where
  "demo_meta_entry = ascii ''xbl'' @ replicate 69 0 @ [156, 0, 0, 0, 4, 0, 0, 0]"

definition demo_meta :: bytes where
  "demo_meta = replicate 74 0 @ [80, 0] @ demo_meta_entry @ [7, 7, 7, 7]"

definition demo_locked :: flash_state where
  "demo_locked = demo_flash_state\<lparr>fs_dev := dev_start\<rparr>"

lemma demo_meta_reads:
  "mem_read (demo_mem demo_meta) 0x1000 76 = Some (replicate 74 0 @ [80, 0])"
  "read_meta_entry (demo_mem demo_meta) 0x1000 0 =
     Some \<lparr>me_name = ascii ''xbl'' @ replicate 69 0, start_offset = 156, img_size = 4\<rparr>"
proof -
  have l: "length demo_meta_entry = 80" by (simp add: demo_meta_entry_def)
  show "mem_read (demo_mem demo_meta) 0x1000 76 = Some (replicate 74 0 @ [80, 0])"
    by (simp add: mem_read_def mem_at_def demo_mem_def demo_meta_def l)
  have "mem_read (demo_mem demo_meta) (0x1000 + 76) 80 = Some demo_meta_entry"
    by (simp add: mem_read_def mem_at_def demo_mem_def demo_meta_def l)
  moreover have "take 72 demo_meta_entry = ascii ''xbl'' @ replicate 69 0"
    "le32 demo_meta_entry 72 = 156" "le32 demo_meta_entry 76 = 4"
    by (simp_all add: demo_meta_entry_def le32_def slice_def GET_LWORD_FROM_BYTE_def)
  ultimately show "read_meta_entry (demo_mem demo_meta) 0x1000 0 =
     Some \<lparr>me_name = ascii ''xbl'' @ replicate 69 0, start_offset = 156, img_size = 4\<rparr>"
    by (simp add: read_meta_entry_def)
qed

lemma demo_meta_run:
  "\<exists>st'. HandleMetaImgFlash demo_flash_env ''modem'' (demo_mem demo_meta) 0x1000 160 demo_locked =
     Some (EFI_INVALID_PARAMETER, st')"
proof -
  have "text_of (ascii ''xbl'' @ 0 # replicate 68 0) = ''xbl''" by (rule text_of_ascii) simp
  then have c: "text_of (ascii ''xbl'' @ replicate 69 0) = ''xbl''" by (simp add: numeral_eq_Suc)
  have x: "IsCriticalPartition ''xbl''"
    by (simp add: IsCriticalPartition_def CriticalPartitions_def StrnCmp_def)
  show ?thesis
    by (simp add: HandleMetaImgFlash_def demo_meta_reads le16_def nth_append c x demo_locked_def CHECK_ADD64_def
        dev_start_def zero_DeviceInfo_def IsUnlockCritical_def Let_def)
qed

lemma HandleMetaImgFlash_spares_critical_example:
  "\<exists>s st' ws. HandleMetaImgFlash demo_flash_env ''modem'' (demo_mem demo_meta) 0x1000 160 demo_locked = Some (s, st') \<and>
    fs_log st' = fs_log demo_locked @ ws"
proof -
  obtain st' where r: "HandleMetaImgFlash demo_flash_env ''modem'' (demo_mem demo_meta) 0x1000 160 demo_locked =
     Some (EFI_INVALID_PARAMETER, st')" using demo_meta_run by blast
  have "\<not> IsUnlockCritical (fs_dev demo_locked)"
    by (simp add: demo_locked_def IsUnlockCritical_def dev_start_def zero_DeviceInfo_def)
  from HandleMetaImgFlash_spares_critical [OF r this] show ?thesis using r by blast
qed

end
