(* ===== verification/FastbootVars.thy ===== *)
theory FastbootVars
  imports FlashPartition GptImage
begin

text \<open>
  The state of the fastboot application (\<open>FastbootLib/FastbootCmds.c\<close>) and the variables a host
  reads with \<open>getvar\<close>: publishing and looking them up, the slot variables
  (\<open>PopulateMultislotMetadata\<close>, \<open>FastbootPublishSlotVars\<close>, \<open>ClearFastbootVarsofAB\<close>), and the size
  and type of each partition (\<open>PublishGetVarPartitionInfo\<close>).

  A variable holds a pointer in the code. Here it names what it points to: a constant text, one
  of the static character arrays of the file, or a field of the slot information.
\<close>

section \<open>The state of the application\<close>

datatype slot_attr = Successful | Unbootable | RetryCount

datatype var_value = Const string | Static string | SlotVal nat slot_attr | BootloaderVersion | BasebandVersion

datatype ANDROID_FASTBOOT_STATE = ExpectCmdState | ExpectDataState

record fastboot =
  fb_flash :: flash_state
  Varlist :: "(string \<times> var_value) list"
  fb_static :: "string \<Rightarrow> string"
  SlotSuffixArray :: string
  InitialPopulate :: bool
  VirtualAbMsg :: "bytes option"
  mState :: ANDROID_FASTBOOT_STATE
  mUsbDataBuffer :: "mem_buf option"
  mFlashDataBuffer :: "mem_buf option"
  mNumDataBytes :: u64
  mFlashNumDataBytes :: u64
  mBytesReceivedSoFar :: u64
  MaxDownLoadSize :: u64
  IsFlashComplete :: bool
  UsbTimerStarted :: bool
  FlashResult :: efi_status
  IsAllowUnlock :: bool
  IsFirstEraseFlash :: bool
  fb_pending :: "(string \<times> mem_buf \<times> u64) option"
  fb_reboots :: "string list"
  fb_panel :: "string list"
  Finished :: bool
  gpt_glob :: gpt_globals

text \<open>The rest of the environment: build switches and the answers of the firmware.\<close>

record fastboot_env =
  fe_flash :: flash_env
  avb_le :: bool
  virtual_ab :: bool
  mt_flash :: bool
  parallel_disabled :: bool
  battery_check :: bool
  battery :: "bool \<times> nat"
  alloc_var :: "string \<Rightarrow> bool"
  alloc_slots :: "nat \<Rightarrow> bool"
  alloc_thread :: bool
  thread_create :: efi_status
  usb_timer :: efi_status
  cmd_timer :: efi_status
  refresh_create :: efi_status
  refresh_signal :: efi_status
  display_supported :: bool
  menu_flag :: bool
  unlock_menu :: efi_status
  stale_name :: string
  status_str :: "efi_status \<Rightarrow> string"

abbreviation fb_ptn :: "fastboot \<Rightarrow> ptn_state" where "fb_ptn fb \<equiv> fs_ptn (fb_flash fb)"

definition upd_flash :: "(flash_state \<Rightarrow> flash_state) \<Rightarrow> fastboot \<Rightarrow> fastboot" where
  "upd_flash f fb = fb\<lparr>fb_flash := f (fb_flash fb)\<rparr>"

definition reply_fail :: "string \<Rightarrow> fastboot \<Rightarrow> fastboot" where
  "reply_fail Reason = upd_flash (FastbootFail Reason)"

definition reply_info :: "string \<Rightarrow> fastboot \<Rightarrow> fastboot" where
  "reply_info Info = upd_flash (FastbootInfo Info)"

definition reply_okay :: "string \<Rightarrow> fastboot \<Rightarrow> fastboot" where
  "reply_okay info = upd_flash (FastbootOkay info)"

definition set_static :: "string \<Rightarrow> string \<Rightarrow> fastboot \<Rightarrow> fastboot" where
  "set_static buf txt fb = fb\<lparr>fb_static := (fb_static fb)(buf := txt)\<rparr>"

definition upd_ptn :: "(ptn_state \<Rightarrow> ptn_state) \<Rightarrow> fastboot \<Rightarrow> fastboot" where
  "upd_ptn f fb = upd_flash (\<lambda>st. st\<lparr>fs_ptn := f (fs_ptn st)\<rparr>) fb"

section \<open>Publishing and looking up\<close>

definition FastbootPublishVar :: "fastboot_env \<Rightarrow> string \<Rightarrow> var_value \<Rightarrow> fastboot \<Rightarrow> fastboot" where
  "FastbootPublishVar env Name Value fb =
     (if alloc_var env Name then fb\<lparr>Varlist := (Name, Value) # Varlist fb\<rparr> else fb)"

text \<open>The text a variable points to; \<open>None\<close> for a slot that is no longer there.\<close>

definition slot_field :: "slot_attr \<Rightarrow> slot_info \<Rightarrow> string" where
  "slot_field a s = (case a of Successful \<Rightarrow> SlotSuccessfulVal s | Unbootable \<Rightarrow> SlotUnbootableVal s
     | RetryCount \<Rightarrow> SlotRetryCountVal s)"

definition var_text :: "fastboot \<Rightarrow> var_value \<Rightarrow> string option" where
  "var_text fb v = (case v of
     Const s \<Rightarrow> Some s
   | Static buf \<Rightarrow> Some (fb_static fb buf)
   | SlotVal j a \<Rightarrow> (case BootSlotInfo (fb_flash fb) of
       None \<Rightarrow> None
     | Some infos \<Rightarrow> if j < length infos then Some (slot_field a (infos ! j)) else None)
   | BootloaderVersion \<Rightarrow> Some (text_of (bootloader_version (DevInfo (fs_dev (fb_flash fb)))))
   | BasebandVersion \<Rightarrow> Some (text_of (radio_version (DevInfo (fs_dev (fb_flash fb))))))"

definition UpdateGetVarVariable :: "fastboot_env \<Rightarrow> fastboot \<Rightarrow> fastboot" where
  "UpdateGetVarVariable env fb =
     (let (BatterySocOk, BatteryVoltage) = battery env;
          c = (if IsChargingScreenEnable (fs_dev (fb_flash fb)) then ''1'' else ''0'')
      in set_static ''OffModeCharge'' c (set_static ''ChargeScreenEnable'' c
           (set_static ''StrBatterySocOk'' (if BatterySocOk then ''yes'' else ''no'')
              (set_static ''StrBatteryVoltage'' (digits 10 BatteryVoltage) fb))))"

text \<open>One line of \<open>getvar all\<close>, in a buffer of \<open>MAX_RSP_SIZE\<close> characters.\<close>

definition var_line :: "string \<Rightarrow> string \<Rightarrow> string" where
  "var_line Name Value =
     StrnCatS (StrnCatS (StrnCpyS '''' MAX_RSP_SIZE Name MAX_RSP_SIZE) MAX_RSP_SIZE '':'' 1) MAX_RSP_SIZE Value
       MAX_RSP_SIZE"

fun info_lines :: "(string \<times> var_value) list \<Rightarrow> fastboot \<Rightarrow> fastboot option" where
  "info_lines [] fb = Some fb"
| "info_lines ((Name, v) # vars) fb = do {
     Value \<leftarrow> var_text fb v;
     info_lines vars (reply_info (var_line Name Value) fb)
   }"

definition CmdGetVarAll :: "fastboot \<Rightarrow> fastboot option" where
  "CmdGetVarAll fb =
     (if Varlist fb = [] then None
      else do { fb' \<leftarrow> info_lines (Varlist fb) fb; Some (reply_okay '''' fb') })"

text \<open>The rest of a text after the first occurrence of a character, as \<open>AsciiStrStr\<close> and an
  increment give it.\<close>

definition after_char :: "char \<Rightarrow> string \<Rightarrow> string option" where
  "after_char c s = (if c \<in> set s then Some (tl (dropWhile (\<lambda>x. x \<noteq> c) s)) else None)"

text \<open>The partition name is converted into an array with room for two characters; a longer name is
  refused, and the array keeps what the stack held. The slot suffix is then appended with a
  destination size of at most two, which is refused as well: the argument never changes.\<close>

definition getvar_slot :: "fastboot_env \<Rightarrow> string \<Rightarrow> fastboot \<Rightarrow> fastboot" where
  "getvar_slot env Token fb =
     (let PartName = (if length Token < MAX_SLOT_SUFFIX_SZ then Token else stale_name env)
      in if PartitionHasMultiSlot (fb_ptn fb) PartName
         then upd_ptn (\<lambda>p. snd (GetCurrentSlotSuffix p)) fb else fb)"

definition CmdGetVar :: "fastboot_env \<Rightarrow> string \<Rightarrow> fastboot \<Rightarrow> fastboot option" where
  "CmdGetVar env Arg fb0 =
     (let fb = UpdateGetVarVariable env fb0 in
      if Arg = ''all'' then CmdGetVarAll fb
      else
        let Token = (if StrStr Arg ''partition-'' then after_char (CHR '':'') Arg else None)
        in case Token of
             Some t \<Rightarrow>
               if length t \<ge> MAX_GPT_NAME_SIZE then Some (reply_fail ''Invalid partition name'' fb)
               else
                 let fb1 = getvar_slot env t fb
                 in (case map_of (Varlist fb1) Arg of
                       Some v \<Rightarrow> map_option (\<lambda>txt. reply_okay txt fb1) (var_text fb1 v)
                     | None \<Rightarrow> Some (reply_fail ''GetVar Variable Not found'' fb1))
           | None \<Rightarrow>
               (case map_of (Varlist fb) Arg of
                  Some v \<Rightarrow> map_option (\<lambda>txt. reply_okay txt fb) (var_text fb v)
                | None \<Rightarrow> Some (reply_fail ''GetVar Variable Not found'' fb)))"

section \<open>Slot variables\<close>

definition yes_no :: "bool \<Rightarrow> string" where
  "yes_no b = (if b then ''yes'' else ''no'')"

text \<open>The slot information of a boot partition, from its attributes. The suffix begins after
  \<open>boot_\<close>.\<close>

definition slot_info_of :: "string \<Rightarrow> u64 \<Rightarrow> slot_info \<Rightarrow> slot_info" where
  "slot_info_of Suffix a s =
     \<lparr>SlotSuffix = StrnCpyS (SlotSuffix s) MAX_SLOT_SUFFIX_SZ Suffix (length Suffix),
      SlotSuccessfulVar = StrnCatS ''slot-successful:'' 32 Suffix (length Suffix),
      SlotUnbootableVar = StrnCatS ''slot-unbootable:'' 32 Suffix (length Suffix),
      SlotRetryCountVar = StrnCatS ''slot-retry-count:'' 32 Suffix (length Suffix),
      SlotSuccessfulVal = yes_no (a AND PART_ATT_SUCCESSFUL_VAL \<noteq> 0),
      SlotUnbootableVal = yes_no (a AND PART_ATT_UNBOOTABLE_VAL \<noteq> 0),
      SlotRetryCountVal = digits 10 (unat (att_field PART_ATT_MAX_RETRY_COUNT_VAL PART_ATT_MAX_RETRY_CNT_BIT a))\<rparr>"

text \<open>The loop of \<open>FastbootPublishSlotVars\<close> over the table, with the index \<open>j\<close> of the next slot. A
  name of four characters has no suffix to point to.\<close>

fun publish_slots :: "fastboot_env \<Rightarrow> ptn_entry list \<Rightarrow> nat \<Rightarrow> fastboot \<Rightarrow> fastboot option" where
  "publish_slots env [] j fb = Some fb"
| "publish_slots env (e # es) j fb =
     (if j \<ge> SlotCount (fb_flash fb) then Some fb
      else if \<not> StrnCmp (PartitionName e) ''boot'' 4 then
        (case BootSlotInfo (fb_flash fb) of
           None \<Rightarrow> None
         | Some infos \<Rightarrow>
             if length (PartitionName e) < 5 \<or> j \<ge> length infos then None
             else
               let Suffix = drop 5 (PartitionName e);
                   s = slot_info_of Suffix (Attributes e) (infos ! j);
                   fb1 = upd_flash (\<lambda>st. st\<lparr>BootSlotInfo := Some (infos[j := s])\<rparr>) fb
               in publish_slots env es (j + 1)
                    (FastbootPublishVar env (SlotRetryCountVar s) (SlotVal j RetryCount)
                      (FastbootPublishVar env (SlotUnbootableVar s) (SlotVal j Unbootable)
                        (FastbootPublishVar env (SlotSuccessfulVar s) (SlotVal j Successful) fb1))))
      else publish_slots env es j fb)"

definition FastbootPublishSlotVars :: "fastboot_env \<Rightarrow> fastboot \<Rightarrow> fastboot option" where
  "FastbootPublishSlotVars env fb = do {
     fb1 \<leftarrow> publish_slots env (PtnEntries (fb_ptn fb)) 0 fb;
     let fb2 = FastbootPublishVar env ''has-slot:boot'' (Const ''yes'') fb1;
     let (Suffix, ptn') = GetCurrentSlotSuffix (fb_ptn fb2);
     let fb3 = set_static ''CurrentSlotFB'' (drop 1 Suffix) (upd_ptn (\<lambda>_. ptn') fb2);
     let fb4 = FastbootPublishVar env ''current-slot'' (Static ''CurrentSlotFB'') fb3;
     let fb5 = FastbootPublishVar env ''has-slot:system''
                 (Const (yes_no (PartitionHasMultiSlot (fb_ptn fb4) ''system''))) fb4;
     Some (FastbootPublishVar env ''has-slot:modem''
             (Const (yes_no (PartitionHasMultiSlot (fb_ptn fb5) ''modem''))) fb5)
   }"

text \<open>Counting the boot partitions and collecting their suffixes.\<close>

fun count_slots :: "ptn_entry list \<Rightarrow> nat \<Rightarrow> string \<Rightarrow> nat \<times> string" where
  "count_slots [] n arr = (n, arr)"
| "count_slots (e # es) n arr =
     (if \<not> StrnCmp (PartitionName e) ''boot'' 4 then
        let Suffix = drop 4 (PartitionName e)
        in count_slots es (n + 1)
             (if StrStr arr Suffix then arr
              else StrnCatS (StrnCatS arr 10 Suffix (length Suffix)) 10 '','' 1)
      else count_slots es n arr)"

definition blank_slot :: slot_info where
  "blank_slot = \<lparr>SlotSuffix = '''', SlotSuccessfulVar = '''', SlotUnbootableVar = '''', SlotRetryCountVar = '''',
     SlotSuccessfulVal = '''', SlotUnbootableVal = '''', SlotRetryCountVal = ''''\<rparr>"

definition PopulateMultislotMetadata :: "fastboot_env \<Rightarrow> fastboot \<Rightarrow> fastboot option" where
  "PopulateMultislotMetadata env fb =
     (if \<not> InitialPopulate fb then
        let (n, arr) = count_slots (PtnEntries (fb_ptn fb)) (SlotCount (fb_flash fb)) (SlotSuffixArray fb);
            fb1 = set_static ''SlotCountVar'' (take 3 (digits 10 n))
                    (upd_flash (\<lambda>st. st\<lparr>SlotCount := n\<rparr>) fb)\<lparr>SlotSuffixArray := arr\<rparr>;
            fb2 = FastbootPublishVar env ''slot-count'' (Static ''SlotCountVar'') fb1
        in if \<not> alloc_slots env n then Some (upd_flash (\<lambda>st. st\<lparr>BootSlotInfo := None\<rparr>) fb2)
           else do {
             fb3 \<leftarrow> FastbootPublishSlotVars env
               (upd_flash (\<lambda>st. st\<lparr>BootSlotInfo := Some (replicate n blank_slot)\<rparr>) fb2);
             Some (fb3\<lparr>InitialPopulate := True\<rparr>)
           }
      else do {
        st \<leftarrow> reset_slot_infos (\<lambda>_. True) (fb_flash fb);
        Some (fb\<lparr>fb_flash := st\<rparr>)
      })"

definition NamePropertyMatches :: "string \<Rightarrow> bool" where
  "NamePropertyMatches Name \<longleftrightarrow> list_ex (\<lambda>p. \<not> AsciiStrnCmp Name p (length p))
     [''has-slot'', ''current-slot'', ''slot-retry-count'', ''slot-unbootable'', ''slot-successful'',
      ''slot-suffixes'', ''partition-type:system'', ''partition-size:system'']"

definition ClearFastbootVarsofAB :: "fastboot \<Rightarrow> fastboot" where
  "ClearFastbootVarsofAB fb = fb\<lparr>Varlist := filter (\<lambda>(Name, _). \<not> NamePropertyMatches Name) (Varlist fb)\<rparr>"

section \<open>Partition size and type\<close>

datatype FS_SIGNATURE = EXT_FS_SIGNATURE | F2FS_FS_SIGNATURE | UNKNOWN_FS_SIGNATURE

abbreviation (input) FS_SUPERBLOCK_OFFSET :: nat where "FS_SUPERBLOCK_OFFSET \<equiv> 0x400"
abbreviation (input) EXT_MAGIC_OFFSET_SB :: nat where "EXT_MAGIC_OFFSET_SB \<equiv> 0x38"

text \<open>The block that holds the superblock; the status of the read is ignored, and a failed read
  leaves the zeroed buffer.\<close>

definition CheckPartitionFsSignature :: "flash_env \<Rightarrow> string \<Rightarrow> flash_state \<Rightarrow> FS_SIGNATURE option" where
  "CheckPartitionFsSignature env PartName st = do {
     found \<leftarrow> PartitionGetInfo env PartName st;
     case found of
       None \<Rightarrow> Some UNKNOWN_FS_SIGNATURE
     | Some hi \<Rightarrow>
         let BlkSz = unat (BlockSize (BlkIo hi)) in
         if \<not> alloc_pool (fl_io env) BlkSz then Some UNKNOWN_FS_SIGNATURE
         else if BlkSz = 0 then None
         else
           let Lba = FS_SUPERBLOCK_OFFSET div BlkSz;
               (s, data) = read_blocks (fl_io env) (fs_log st) (bio_id (BlkIo hi)) (of_nat Lba) BlkSz;
               buf = (if s = EFI_SUCCESS then data else replicate BlkSz 0);
               sb = (if Lba = 0 then drop FS_SUPERBLOCK_OFFSET buf else buf)
           in if length sb < EXT_MAGIC_OFFSET_SB + 2 then None
              else if le16 sb EXT_MAGIC_OFFSET_SB = 0xEF53 then Some EXT_FS_SIGNATURE
              else if le32 sb 0 = 0xF2F52010 then Some F2FS_FS_SIGNATURE
              else Some UNKNOWN_FS_SIGNATURE
   }"

definition part_info :: "(string \<times> string) list" where
  "part_info = [(''system'', ''ext4''), (''userdata'', ''ext4''), (''cache'', ''ext4''), (''metadata'', ''ext4'')]"

fun match_part_info :: "flash_env \<Rightarrow> string \<Rightarrow> flash_state \<Rightarrow> (string \<times> string) list \<Rightarrow> string \<Rightarrow> string option" where
  "match_part_info env PartName st [] PartType = Some PartType"
| "match_part_info env PartName st ((nm, type) # parts) PartType =
     (if \<not> AsciiStrnCmp PartName nm (length nm) then do {
        fs \<leftarrow> CheckPartitionFsSignature env PartName st;
        match_part_info env PartName st parts
          (case fs of EXT_FS_SIGNATURE \<Rightarrow> ''ext4'' | F2FS_FS_SIGNATURE \<Rightarrow> ''f2fs'' | UNKNOWN_FS_SIGNATURE \<Rightarrow> type)
      }
      else match_part_info env PartName st parts PartType)"

text \<open>The name is converted into an array of 32 characters with a bound of 72: a longer name overruns
  it.\<close>

definition GetPartitionType :: "flash_env \<Rightarrow> string \<Rightarrow> flash_state \<Rightarrow> string option" where
  "GetPartitionType env PartName st =
     (if length PartName \<ge> 32 then None else match_part_info env PartName st part_info ''raw'')"

definition GetPartitionSizeViaName :: "flash_env \<Rightarrow> string \<Rightarrow> flash_state \<Rightarrow> (efi_status \<times> string) option" where
  "GetPartitionSizeViaName env PartName st = do {
     found \<leftarrow> PartitionGetInfo env PartName st;
     Some (case found of
        None \<Rightarrow> (EFI_NOT_FOUND, '''')
      | Some hi \<Rightarrow>
          let psize = GetPartitionSize (Some (BlkIo hi)) in
          if psize = 0 then (EFI_BAD_BUFFER_SIZE, '''')
          else (EFI_SUCCESS, '' 0x'' @ digits 16 (unat psize)))
   }"

definition publish_if :: "fastboot_env \<Rightarrow> bool \<Rightarrow> string \<Rightarrow> string \<Rightarrow> efi_status \<times> fastboot \<Rightarrow> efi_status \<times> fastboot" where
  "publish_if env ok Name Value r = (case r of (RetStatus, fb) \<Rightarrow>
     if ok then (RetStatus, FastbootPublishVar env Name (Const Value) fb) else (EFI_INVALID_PARAMETER, fb))"

text \<open>One partition of the loop of \<open>PublishGetVarPartitionInfo\<close>: both variable names have to fit 32
  characters, and the partition's name its array.\<close>

definition publish_partition :: "fastboot_env \<Rightarrow> string \<Rightarrow> efi_status \<times> fastboot \<Rightarrow> (efi_status \<times> fastboot) option" where
  "publish_partition env Name r =
     (if length Name \<ge> 32 then None
      else if length Name + 15 < 32 then do {
        (s, Size) \<leftarrow> GetPartitionSizeViaName (fe_flash env) Name (fb_flash (snd r));
        Type \<leftarrow> GetPartitionType (fe_flash env) Name (fb_flash (snd r));
        Some (publish_if env True (''partition-type:'' @ Name) Type
                (publish_if env (s = EFI_SUCCESS) (''partition-size:'' @ Name) Size r))
      }
      else Some (publish_if env False '''' '''' (publish_if env False '''' '''' r)))"

text \<open>The loop runs from 1 to the number of partitions inclusive; the element past the last partition
  is read from the zeroed rest of the table, which ends after \<open>MAX_PTN\<close> elements.\<close>

fun publish_partitions :: "fastboot_env \<Rightarrow> ptn_entry list \<Rightarrow> nat \<Rightarrow> nat \<Rightarrow> efi_status \<times> fastboot \<Rightarrow>
    (efi_status \<times> fastboot) option" where
  "publish_partitions env es i 0 r = Some r"
| "publish_partitions env es i (Suc n) r =
     (if i \<ge> MAX_PTN then None
      else
        let Name = (if i < length es then PartitionName (es ! i) else '''')
        in if Name = '''' then publish_partitions env es (i + 1) n r
           else do {
             r' \<leftarrow> publish_partition env Name r;
             publish_partitions env es (i + 1) n r'
           })"

definition PublishGetVarPartitionInfo :: "fastboot_env \<Rightarrow> nat \<Rightarrow> fastboot \<Rightarrow> (efi_status \<times> fastboot) option" where
  "PublishGetVarPartitionInfo env NumParts fb =
     publish_partitions env (PtnEntries (fb_ptn fb)) 1 NumParts (EFI_SUCCESS, fb)"

section \<open>The lookup\<close>

lemma replies_upd [simp]:
  "fs_replies (fb_flash (reply_okay r fb)) = fs_replies (fb_flash fb) @ [take 63 (''OKAY'' @ r)]"
  "fs_replies (fb_flash (reply_fail r fb)) = fs_replies (fb_flash fb) @ [take 63 (''FAIL'' @ r)]"
  "fs_replies (fb_flash (reply_info r fb)) = fs_replies (fb_flash fb) @ [take 63 (''INFO'' @ r)]"
  by (simp_all add: reply_okay_def reply_fail_def reply_info_def upd_flash_def FastbootOkay_def FastbootFail_def
      FastbootInfo_def FastbootAck_def)

lemma Update_keeps [simp]:
  "Varlist (UpdateGetVarVariable env fb) = Varlist fb" "fb_flash (UpdateGetVarVariable env fb) = fb_flash fb"
  by (simp_all add: UpdateGetVarVariable_def set_static_def Let_def split: prod.splits)

lemma getvar_slot_keeps [simp]:
  "Varlist (getvar_slot env t fb) = Varlist fb" "fb_static (getvar_slot env t fb) = fb_static fb"
  "BootSlotInfo (fb_flash (getvar_slot env t fb)) = BootSlotInfo (fb_flash fb)"
  "fs_replies (fb_flash (getvar_slot env t fb)) = fs_replies (fb_flash fb)"
  "fs_dev (fb_flash (getvar_slot env t fb)) = fs_dev (fb_flash fb)"
  by (simp_all add: getvar_slot_def upd_ptn_def upd_flash_def Let_def)

lemma var_text_slot [simp]: "var_text (getvar_slot env t fb) v = var_text fb v"
  by (simp add: var_text_def split: var_value.split)

text \<open>A query is answered by one reply: the current text of the variable published last under
  exactly the queried name, or a failure. The slot suffix the routine means to append to a
  partition name never gets there, so \<open>partition-size:boot\<close> fails when only \<open>boot_a\<close> is
  published.\<close>

theorem CmdGetVar_exact:
  assumes "Arg \<noteq> ''all''" "\<And>t. after_char (CHR '':'') Arg = Some t \<Longrightarrow> length t < MAX_GPT_NAME_SIZE"
    and "\<And>v. map_of (Varlist fb) Arg = Some v \<Longrightarrow> var_text (UpdateGetVarVariable env fb) v = Some (txt v)"
  shows "\<exists>fb'. CmdGetVar env Arg fb = Some fb' \<and> fs_replies (fb_flash fb') = fs_replies (fb_flash fb) @
    [take 63 (case map_of (Varlist fb) Arg of
       Some v \<Rightarrow> ''OKAY'' @ txt v | None \<Rightarrow> ''FAIL'' @ ''GetVar Variable Not found'')]"
proof -
  have short: "\<not> MAX_GPT_NAME_SIZE \<le> length t" if "after_char (CHR '':'') Arg = Some t" for t
    using assms(2) [OF that] by simp
  show ?thesis
    using assms(1,3) short by (auto simp: CmdGetVar_def Let_def split: option.splits)
qed

section \<open>A fastboot session on the eMMC device\<close>

definition demo_fb_env :: fastboot_env where
  "demo_fb_env = \<lparr>fe_flash = demo_flash_env, avb_le = False, virtual_ab = False, mt_flash = False,
     parallel_disabled = False, battery_check = True, battery = (True, 4000), alloc_var = (\<lambda>_. True),
     alloc_slots = (\<lambda>_. True), alloc_thread = True, thread_create = EFI_SUCCESS, usb_timer = EFI_SUCCESS,
     cmd_timer = EFI_SUCCESS, refresh_create = EFI_SUCCESS, refresh_signal = EFI_SUCCESS,
     display_supported = False, menu_flag = False, unlock_menu = EFI_SUCCESS, stale_name = '''',
     status_str = (\<lambda>_. ''Error'')\<rparr>"

definition demo_fb :: "flash_state \<Rightarrow> mem_buf \<Rightarrow> u64 \<Rightarrow> fastboot" where
  "demo_fb st m n = \<lparr>fb_flash = st, Varlist = [(''partition-size:boot_a'', Const '' 0x800'')],
     fb_static = (\<lambda>_. ''''), SlotSuffixArray = ''_a,_b,'', InitialPopulate = True, VirtualAbMsg = None,
     mState = ExpectCmdState, mUsbDataBuffer = Some m, mFlashDataBuffer = Some (demo_mem []), mNumDataBytes = n,
     mFlashNumDataBytes = 0, mBytesReceivedSoFar = n, MaxDownLoadSize = 4096, IsFlashComplete = True,
     UsbTimerStarted = False, FlashResult = EFI_SUCCESS, IsAllowUnlock = False, IsFirstEraseFlash = False,
     fb_pending = None, fb_reboots = [], fb_panel = [], Finished = False,
     gpt_glob = \<lparr>FlashingGpt = False, ParseSecondaryGpt = False\<rparr>\<rparr>"

lemma CmdGetVar_exact_example:
  "\<exists>fb fb'. CmdGetVar demo_fb_env ''partition-size:boot_a'' (demo_fb demo_flash_state (demo_mem []) 0) = Some fb \<and>
     fs_replies (fb_flash fb) = [''OKAY 0x800''] \<and>
     CmdGetVar demo_fb_env ''partition-size:boot'' (demo_fb demo_flash_state (demo_mem []) 0) = Some fb' \<and>
     fs_replies (fb_flash fb') = [''FAILGetVar Variable Not found'']"
proof -
  define fb where "fb = demo_fb demo_flash_state (demo_mem []) 0"
  have f: "Varlist fb = [(''partition-size:boot_a'', Const '' 0x800'')]" "fs_replies (fb_flash fb) = []"
    by (simp_all add: fb_def demo_fb_def demo_flash_state_def)
  have t: "after_char (CHR '':'') ''partition-size:boot_a'' = Some ''boot_a''"
    "after_char (CHR '':'') ''partition-size:boot'' = Some ''boot''" by (simp_all add: after_char_def)
  show ?thesis
    using CmdGetVar_exact [of "''partition-size:boot_a''" fb demo_fb_env "\<lambda>_. '' 0x800''"]
      CmdGetVar_exact [of "''partition-size:boot''" fb demo_fb_env "\<lambda>_. ''''"]
    by (simp add: t f var_text_def flip: fb_def)
qed

end
