(* ===== verification/FastbootCommands.thy ===== *)
theory FastbootCommands
  imports FastbootVars
begin

text \<open>
  The commands of \<open>FastbootLib/FastbootCmds.c\<close> that change the device: \<open>CmdFlash\<close>, \<open>CmdErase\<close>,
  \<open>CmdSetActive\<close> and the lock commands, with the guards they share (lock state, critical
  partitions, a snapshot merge in progress), the partition table update and the re-enumeration
  that follows it.

  A command is a function of the environment, its argument and the state of the application;
  \<open>None\<close> is undefined behaviour. A sparse image for a large partition may be flashed by a thread:
  the thread is a value in the state, run by \<open>SparseImgFlashThread\<close>, and everything that waits for
  its lock runs it first.
\<close>

section \<open>Guards\<close>

abbreviation fb_dev :: "fastboot \<Rightarrow> dev_state" where "fb_dev fb \<equiv> fs_dev (fb_flash fb)"

definition TargetBuildVariantUser :: "fastboot_env \<Rightarrow> bool" where
  "TargetBuildVariantUser env = variant_user (fl_ptn (fe_flash env))"

text \<open>The refusal of a locked device, for the verb of the command.\<close>

definition lock_refusal :: "fastboot_env \<Rightarrow> string \<Rightarrow> string \<Rightarrow> fastboot \<Rightarrow> string option" where
  "lock_refusal env verb Name fb =
     (if avb_le env \<or> (\<not> avb_le env \<and> TargetBuildVariantUser env) then
        if \<not> IsUnlocked (fb_dev fb) then Some (verb @ '' is not allowed in Lock State'')
        else if \<not> IsUnlockCritical (fb_dev fb) \<and> IsCriticalPartition Name
        then Some (verb @ '' is not allowed for Critical Partitions'' @ [CHR 0x0A])
        else None
      else None)"

definition snapshot_status :: "fastboot_env \<Rightarrow> fastboot \<Rightarrow> (u8 \<times> fastboot) option" where
  "snapshot_status env fb = do {
     (s, msg) \<leftarrow> GetSnapshotMergeStatus (fl_misc (fe_flash env)) (VirtualAbMsg fb) (fs_log (fb_flash fb));
     Some (s, fb\<lparr>VirtualAbMsg := msg\<rparr>)
   }"

definition merge_pending :: "u8 \<Rightarrow> bool" where
  "merge_pending s \<longleftrightarrow> s = merge_code MERGING \<or> s = merge_code SNAPSHOTTED"

definition VirtualAbCriticalPartitions :: "string list" where
  "VirtualAbCriticalPartitions = [''misc'', ''metadata'', ''userdata'']"

definition CheckVirtualAbCriticalPartition :: "fastboot_env \<Rightarrow> string \<Rightarrow> fastboot \<Rightarrow> (bool \<times> fastboot) option" where
  "CheckVirtualAbCriticalPartition env Name fb = do {
     (s, fb') \<leftarrow> snapshot_status env fb;
     Some (merge_pending s \<and> list_ex (\<lambda>p. \<not> StrnCmp Name p (length p)) VirtualAbCriticalPartitions, fb')
   }"

definition cancel_snapshot :: "fastboot_env \<Rightarrow> fastboot \<Rightarrow> (efi_status \<times> fastboot) option" where
  "cancel_snapshot env fb = do {
     (s, msg, log') \<leftarrow> SetSnapshotMergeStatus (fl_misc (fe_flash env)) CANCELLED (VirtualAbMsg fb) (fs_log (fb_flash fb));
     let fb' = upd_flash (\<lambda>st. st\<lparr>fs_log := log'\<rparr>) fb\<lparr>VirtualAbMsg := msg\<rparr>;
     Some (s, if s \<noteq> EFI_SUCCESS then fb' else set_static ''SnapshotMergeState'' ''none'' fb')
   }"

text \<open>The snapshot guard \<open>CmdFlash\<close> and \<open>CmdErase\<close> share: whether the command goes on.\<close>

definition snapshot_guard :: "fastboot_env \<Rightarrow> string \<Rightarrow> string \<Rightarrow> fastboot \<Rightarrow> (bool \<times> fastboot) option" where
  "snapshot_guard env verb Name fb =
     (if \<not> virtual_ab env then Some (True, fb)
      else do {
        (critical, fb1) \<leftarrow> CheckVirtualAbCriticalPartition env Name fb;
        if critical
        then Some (False, reply_fail (take (MAX_RSP_SIZE - 1) (verb @ '' of '' @ Name @ '' is not allowed in '' @
               fb_static fb1 ''SnapshotMergeState'' @ '' state'')) fb1)
        else do {
          (s, fb2) \<leftarrow> snapshot_status env fb1;
          if merge_pending s \<and> \<not> StrnCmp Name ''super'' 5 then do {
            (s', fb3) \<leftarrow> cancel_snapshot env fb2;
            Some (if s' \<noteq> EFI_SUCCESS
                  then (False, reply_fail ''Failed to update snapshot state to cancel'' fb3) else (True, fb3))
          }
          else Some (True, fb2)
        }
      })"

section \<open>The flashing thread and the buffers\<close>

text \<open>The environment with the answer of \<open>IsFlashSplitNeeded\<close>.\<close>

definition split_env :: "bool \<Rightarrow> fastboot_env \<Rightarrow> flash_env" where
  "split_env b env = (fe_flash env)\<lparr>fl_io := (fl_io (fe_flash env))\<lparr>flash_split := b\<rparr>\<rparr>"

definition SparseImgFlashThread :: "fastboot_env \<Rightarrow> fastboot \<Rightarrow> fastboot option" where
  "SparseImgFlashThread env fb = (case fb_pending fb of
     None \<Rightarrow> Some fb
   | Some (Name, m, n) \<Rightarrow> do {
       (_, st) \<leftarrow> HandleSparseImgFlash (split_env True env) Name m (mem_base m) n (fb_flash fb);
       Some (fb\<lparr>fb_flash := st, fb_pending := None, IsFlashComplete := True\<rparr>)
     })"

definition CreateSparseImgFlashThread :: "fastboot_env \<Rightarrow> string \<Rightarrow> mem_buf \<Rightarrow> u64 \<Rightarrow> fastboot \<Rightarrow>
    efi_status \<times> fastboot" where
  "CreateSparseImgFlashThread env Name m n fb =
     (if thread_create env \<noteq> EFI_SUCCESS then (thread_create env, fb)
      else (EFI_SUCCESS, fb\<lparr>fb_pending := Some (Name, m, n), IsFlashComplete := False\<rparr>))"

definition WaitForFlashFinished :: "fastboot_env \<Rightarrow> fastboot \<Rightarrow> fastboot option" where
  "WaitForFlashFinished env fb =
     (if \<not> IsFlashComplete fb \<and> mt_flash env then SparseImgFlashThread env fb else Some fb)"

text \<open>A reset request waits for the flash in progress; the reset itself does not return.\<close>

definition RebootDevice :: "fastboot_env \<Rightarrow> string \<Rightarrow> fastboot \<Rightarrow> fastboot option" where
  "RebootDevice env RebootReason fb = do {
     fb' \<leftarrow> WaitForFlashFinished env fb;
     Some (fb'\<lparr>fb_reboots := fb_reboots fb' @ [RebootReason]\<rparr>)
   }"

definition ExchangeFlashAndUsbDataBuf :: "fastboot_env \<Rightarrow> fastboot \<Rightarrow> fastboot option" where
  "ExchangeFlashAndUsbDataBuf env fb0 = do {
     fb \<leftarrow> (if mt_flash env then SparseImgFlashThread env fb0 else Some fb0);
     Some (fb\<lparr>mUsbDataBuffer := mFlashDataBuffer fb, mFlashDataBuffer := mUsbDataBuffer fb,
              mFlashNumDataBytes := mNumDataBytes fb\<rparr>)
   }"

definition StopUsbTimer :: "fastboot \<Rightarrow> fastboot" where
  "StopUsbTimer fb = fb\<lparr>UsbTimerStarted := False\<rparr>"

definition HandleUsbEventsInTimer :: "fastboot_env \<Rightarrow> fastboot \<Rightarrow> efi_status" where
  "HandleUsbEventsInTimer env fb = (if UsbTimerStarted fb then EFI_SUCCESS else usb_timer env)"

section \<open>Updating the partition table\<close>

definition IsBootPtnUpdated :: "fastboot_env \<Rightarrow> u32 \<Rightarrow> fastboot \<Rightarrow> bool option" where
  "IsBootPtnUpdated env l fb =
     (let i = (if l = - 1 then 0 else sint l) in
      if i < 0 \<or> i \<ge> int MAX_LUNS then None
      else Some (list_ex (\<lambda>hi. case part_record (fl_ptn (fe_flash env)) (Handle hi) of
             None \<Rightarrow> False | Some PartEntry \<Rightarrow> \<not> StrnCmp (PartitionName PartEntry) ''boot'' 4)
           (lun_handles (fb_ptn fb) (nat i))))"

definition drop_slot_vars :: "fastboot \<Rightarrow> fastboot" where
  "drop_slot_vars fb =
     (if BootSlotInfo (fb_flash fb) = None then fb
      else upd_flash (\<lambda>st. st\<lparr>BootSlotInfo := None\<rparr>) (ClearFastbootVarsofAB fb)
             \<lparr>SlotSuffixArray := '''', InitialPopulate := False\<rparr>)"

definition ReenumeratePartTable :: "fastboot_env \<Rightarrow> fastboot \<Rightarrow> (efi_status \<times> fastboot) option" where
  "ReenumeratePartTable env fb0 =
     (let fb = upd_flash (\<lambda>st. st\<lparr>LunSet := False\<rparr>) fb0; penv = fl_ptn (fe_flash env) in
      if refresh_create env \<noteq> EFI_SUCCESS then Some (refresh_create env, fb)
      else if refresh_signal env \<noteq> EFI_SUCCESS then Some (refresh_signal env, fb)
      else do {
        (s, tab) \<leftarrow> EnumeratePartitions penv (MaxLuns (fb_ptn fb));
        let fb1 = upd_ptn (\<lambda>p. p\<lparr>Ptable := List.map fst (tab_handles tab) @ drop (length (tab_handles tab)) (Ptable p),
                    MaxLuns := tab_luns tab\<rparr>) fb;
        if EFI_ERROR s then Some (s, fb1)
        else do {
          ptn \<leftarrow> UpdatePartitionEntries penv tab (fb_ptn fb1);
          let fb2 = upd_ptn (\<lambda>_. ptn) fb1;
          updated \<leftarrow> IsBootPtnUpdated env (Lun (fb_flash fb2)) fb2;
          if \<not> updated then Some (s, fb2)
          else if PartitionHasMultiSlot (fb_ptn fb2) ''boot'' then do {
            fb3 \<leftarrow> PopulateMultislotMetadata env
              (upd_ptn (\<lambda>p. snd (snd (GetActiveSlot (UpdatePartitionAttributes p) ''''))) fb2);
            Some (s, fb3)
          }
          else Some (s, drop_slot_vars fb2)
        }
      })"

text \<open>The boot LUN is set to 1 before a UFS partition table is written.\<close>

definition ensure_boot_lun :: "ptn_env \<Rightarrow> ptn_state \<Rightarrow> ptn_state option" where
  "ensure_boot_lun penv p =
     (if dev_type penv = UFS then do {
        (_, l, p1) \<leftarrow> UfsGetSetBootLun penv p 0 True;
        if l \<noteq> 1 then do { (_, _, p2) \<leftarrow> UfsGetSetBootLun penv p1 1 False; Some p2 } else Some p1
      }
      else Some p)"

definition flash_table :: "fastboot_env \<Rightarrow> string \<Rightarrow> mem_buf \<Rightarrow> fastboot \<Rightarrow> fastboot option" where
  "flash_table env Name m fb0 = do {
     let penv = fl_ptn (fe_flash env);
     p \<leftarrow> ensure_boot_lun penv (fb_ptn fb0);
     let fb = (let fb' = upd_ptn (\<lambda>_. p) fb0 in
               if dev_type penv = EMMC then upd_flash (\<lambda>st. st\<lparr>Lun := - 1, LunSet := False\<rparr>) fb' else fb');
     let fail = reply_fail (''Error Updating partition Table'' @ [CHR 0x0A]);
     (refused, s, fb1) \<leftarrow>
       (if dev_type penv = NAND then do {
          Ret \<leftarrow> PartitionVerifyMibibImage (mem_bytes m);
          if Ret \<noteq> 0 then Some (True, EFI_SUCCESS, fb)
          else do {
            (s, _, st) \<leftarrow> HandleRawImgFlash (split_env (UsbTimerStarted fb) env) Name m (mem_base m)
                             (mFlashNumDataBytes fb) (fb_flash fb);
            Some (False, s, fb\<lparr>fb_flash := st\<rparr>)
          }
        }
        else do {
          (s, gl, buf, log') \<leftarrow> UpdatePartitionTable (fl_io (fe_flash env)) (handles penv) (gpt_glob fb) (mem_bytes m)
             (ucast (mFlashNumDataBytes fb)) (sint (Lun (fb_flash fb))) (fs_log (fb_flash fb));
          Some (False, s, upd_flash (\<lambda>st. st\<lparr>fs_log := log'\<rparr>) fb
            \<lparr>gpt_glob := gl, mFlashDataBuffer := Some (m\<lparr>mem_bytes := buf\<rparr>)\<rparr>)
        });
     if refused \<or> s \<noteq> EFI_SUCCESS then Some (fail fb1)
     else do {
       (s', fb2) \<leftarrow> ReenumeratePartTable env fb1;
       Some (if s' = EFI_SUCCESS then reply_okay '''' fb2 else fail fb2)
     }
   }"

section \<open>The flash command\<close>

text \<open>\<open>StrDecimalToUintn\<close>: blanks and leading digits; a value that does not fit 64 bits is the
  largest one.\<close>

definition is_digit :: "char \<Rightarrow> bool" where
  "is_digit c \<longleftrightarrow> 48 \<le> (of_char c :: nat) \<and> (of_char c :: nat) \<le> 57"

definition StrDecimalToUintn :: "string \<Rightarrow> nat" where
  "StrDecimalToUintn s =
     min (2 ^ 64 - 1) (foldl (\<lambda>n c. 10 * n + (of_char c - 48)) 0
       (takeWhile is_digit (dropWhile (\<lambda>c. c = CHR '' '' \<or> c = CHR 0x09) s)))"

text \<open>The end of the command: a \<open>system\<close> flash turns verity back on.\<close>

definition flash_out :: "string \<Rightarrow> fastboot \<Rightarrow> fastboot" where
  "flash_out arg fb =
     upd_flash (\<lambda>st. st\<lparr>LunSet := False\<rparr>)
       (if \<not> AsciiStrnCmp arg ''system'' 6 \<and> \<not> IsEnforcing (fb_dev fb) \<and> FlashResult fb = EFI_SUCCESS
        then upd_flash (\<lambda>st. st\<lparr>fs_dev := snd (EnableEnforcingMode True (fs_dev st))\<rparr>) fb else fb)"

definition set_lun :: "string \<Rightarrow> fastboot \<Rightarrow> bool \<times> fastboot" where
  "set_lun Name fb = (case after_char (CHR '':'') Name of
     None \<Rightarrow> (True, fb)
   | Some Token \<Rightarrow>
       let l = of_nat (StrDecimalToUintn Token) :: u32;
           fb1 = upd_flash (\<lambda>st. st\<lparr>Lun := l\<rparr>) fb
       in if sint l \<ge> int MAX_LUNS then (False, reply_fail (''Invalid Lun number passed'' @ [CHR 0x0A]) fb1)
          else (True, upd_flash (\<lambda>st. st\<lparr>LunSet := True\<rparr>) fb1))"

text \<open>The reply of a flash that ran to its end.\<close>

definition flash_reply :: "fastboot_env \<Rightarrow> string \<Rightarrow> fastboot \<Rightarrow> fastboot" where
  "flash_reply env Name fb =
     (if EFI_ERROR (FlashResult fb) then
        reply_fail (take (MAX_RSP_SIZE - 1)
          (if FlashResult fb = EFI_NOT_FOUND then ''('' @ Name @ '') No such partition''
           else ''Error flashing partition : '' @ status_str env (FlashResult fb))) fb\<lparr>FlashResult := EFI_SUCCESS\<rparr>
      else reply_okay '''' fb)"

definition run_sparse :: "fastboot_env \<Rightarrow> string \<Rightarrow> mem_buf \<Rightarrow> fastboot \<Rightarrow> fastboot option" where
  "run_sparse env Name m fb = do {
     (s, st) \<leftarrow> HandleSparseImgFlash (split_env (UsbTimerStarted fb) env) Name m (mem_base m)
                  (mFlashNumDataBytes fb) (fb_flash fb);
     Some (StopUsbTimer (fb\<lparr>fb_flash := st, FlashResult := s, IsFlashComplete := True\<rparr>))
   }"

text \<open>The start of a parallel flash: the thread, or the timer that polls the USB port. \<open>None\<close>: the
  thread's data could not be allocated.\<close>

definition start_parallel :: "fastboot_env \<Rightarrow> string \<Rightarrow> mem_buf \<Rightarrow> fastboot \<Rightarrow> (efi_status \<times> fastboot) option" where
  "start_parallel env Name m fb =
     (if mt_flash env then
        if \<not> alloc_thread env then None
        else Some (CreateSparseImgFlashThread env (StrnCpyS '''' MAX_GPT_NAME_SIZE Name MAX_GPT_NAME_SIZE) m
                     (mFlashNumDataBytes fb) fb)
      else
        let fb1 = fb\<lparr>IsFlashComplete := False\<rparr>; s = HandleUsbEventsInTimer env fb1
        in Some (s, if EFI_ERROR s then StopUsbTimer (fb1\<lparr>IsFlashComplete := True\<rparr>)
                    else fb1\<lparr>UsbTimerStarted := True\<rparr>))"

definition flash_sparse :: "fastboot_env \<Rightarrow> string \<Rightarrow> string \<Rightarrow> mem_buf \<Rightarrow> fastboot \<Rightarrow> fastboot option" where
  "flash_sparse env arg Name0 m fb0 =
     (let (_, Name, _, st) = resolve_slot Name0 (fb_flash fb0); fb = fb0\<lparr>fb_flash := st\<rparr> in do {
        found \<leftarrow> PartitionGetInfo (fe_flash env) Name st;
        case found of
          None \<Rightarrow> Some (flash_out arg (reply_fail ''Partition not found'' fb))
        | Some hi \<Rightarrow>
            let psize = GetPartitionSize (Some (BlkIo hi)) in
            if psize = 0 then Some (flash_out arg (reply_fail ''Partition error size'' fb))
            else
              let large = (psize > MaxDownLoadSize fb \<and> \<not> parallel_disabled env) in
              case (if large then start_parallel env Name m fb else Some (EFI_SUCCESS, fb)) of
                None \<Rightarrow> Some fb
              | Some (s, fb1) \<Rightarrow> do {
                  let fb2 = (if large \<and> \<not> EFI_ERROR s then reply_okay '''' fb1 else fb1);
                  fb3 \<leftarrow> (if EFI_ERROR s \<or> \<not> mt_flash env \<or> psize \<le> MaxDownLoadSize fb2
                          then run_sparse env Name m fb2 else Some fb2);
                  Some (flash_out arg
                    (if psize < MaxDownLoadSize fb3 \<or>
                        psize > MaxDownLoadSize fb3 \<and> (parallel_disabled env \<or> s \<noteq> EFI_SUCCESS)
                     then flash_reply env Name fb3 else fb3))
                }
      })"

text \<open>UBI, meta and raw images.\<close>

definition flash_other :: "fastboot_env \<Rightarrow> string \<Rightarrow> string \<Rightarrow> mem_buf \<Rightarrow> bytes \<Rightarrow> fastboot \<Rightarrow> fastboot option" where
  "flash_other env arg Name m magic4 fb = do {
     let fenv = split_env (UsbTimerStarted fb) env;
     (s, Name', st) \<leftarrow>
       (if magic4 = ascii ''UBI#'' then HandleUbiImgFlash fenv Name m (mem_base m) (mFlashNumDataBytes fb) (fb_flash fb)
        else if le32 magic4 0 = 0xCE1AD63C then
          map_option (\<lambda>(s, st). (s, Name, st))
            (HandleMetaImgFlash fenv Name m (mem_base m) (mFlashNumDataBytes fb) (fb_flash fb))
        else HandleRawImgFlash fenv Name m (mem_base m) (mFlashNumDataBytes fb) (fb_flash fb));
     Some (flash_out arg (flash_reply env Name' (fb\<lparr>fb_flash := st, FlashResult := s\<rparr>)))
   }"

definition flash_image :: "fastboot_env \<Rightarrow> string \<Rightarrow> string \<Rightarrow> mem_buf \<Rightarrow> fastboot \<Rightarrow> fastboot option" where
  "flash_image env arg Name m fb0 =
     (let (go, fb) = set_lun Name fb0; root = dev_type (fl_ptn (fe_flash env)) in
      if \<not> go then Some (flash_out arg fb)
      else if \<not> StrnCmp Name ''partition'' 9 \<or> \<not> StrnCmp Name ''mibib'' 5 \<and> root = NAND
      then map_option (flash_out arg) (flash_table env Name m fb)
      else do {
        magic4 \<leftarrow> mem_read m (mem_base m) 4;
        if le32 magic4 0 = 0xED26FF3A then flash_sparse env arg Name m fb
        else flash_other env arg Name m magic4 fb
      })"

text \<open>The key partition of verified boot.\<close>

definition flash_user_key :: "bytes \<Rightarrow> u32 \<Rightarrow> fastboot \<Rightarrow> fastboot option" where
  "flash_user_key key sz fb = do {
     (s, d) \<leftarrow> StoreUserKey key sz (fb_dev fb);
     let fb' = upd_flash (\<lambda>st. st\<lparr>fs_dev := d\<rparr>) fb;
     Some (if s \<noteq> EFI_SUCCESS then reply_fail ''Flashing avb_custom_key failed'' fb' else reply_okay '''' fb')
   }"

definition CmdFlash :: "fastboot_env \<Rightarrow> string \<Rightarrow> mem_buf option \<Rightarrow> u32 \<Rightarrow> fastboot \<Rightarrow> fastboot option" where
  "CmdFlash env arg data sz fb0 = do {
     fb \<leftarrow> ExchangeFlashAndUsbDataBuf env (upd_flash (\<lambda>st. st\<lparr>LunSet := False\<rparr>) fb0);
     case mFlashDataBuffer fb of
       None \<Rightarrow> Some (reply_fail ''No data to flash'' fb)
     | Some m \<Rightarrow>
         if length arg \<ge> MAX_GPT_NAME_SIZE then Some (reply_fail ''Invalid partition name'' fb)
         else (case lock_refusal env ''Flashing'' arg fb of
           Some msg \<Rightarrow> Some (reply_fail msg fb)
         | None \<Rightarrow> do {
             (go, fb1) \<leftarrow> snapshot_guard env ''Flashing'' arg fb;
             if \<not> go then Some fb1
             else if \<not> StrnCmp arg ''avb_custom_key'' 14
             then (case data of None \<Rightarrow> None | Some k \<Rightarrow> flash_user_key (mem_bytes k) sz fb1)
             else flash_image env arg arg m fb1
           })
   }"

section \<open>The erase command\<close>

text \<open>The part of the command that resolves the slot and erases.\<close>

definition erase_partition :: "fastboot_env \<Rightarrow> bool \<Rightarrow> string \<Rightarrow> fastboot \<Rightarrow> fastboot option" where
  "erase_partition env MultiSlotBoot arg fb =
     (let (HasSlot, Name, Suffix, st) =
            (if MultiSlotBoot then GetPartitionHasSlot arg (fb_flash fb) else (False, arg, '''', fb_flash fb))
      in do {
        (s, st1) \<leftarrow> FastbootErasePartition (fe_flash env) Name st;
        if EFI_ERROR s then Some (reply_fail ''Check device console.'' (fb\<lparr>fb_flash := st1\<rparr>))
        else do {
          st2 \<leftarrow> (if MultiSlotBoot \<and> HasSlot \<and> \<not> StrnCmp Name ''boot'' 4
                  then FastbootUpdateAttr Suffix st1 else Some st1);
          Some (reply_okay '''' (fb\<lparr>fb_flash := st2\<rparr>))
        }
      })"

definition erase_user_key :: "fastboot \<Rightarrow> fastboot" where
  "erase_user_key fb =
     (let (s, d) = EraseUserKey (fb_dev fb); fb' = upd_flash (\<lambda>st. st\<lparr>fs_dev := d\<rparr>) fb
      in if s \<noteq> EFI_SUCCESS then reply_fail ''Erasing avb_custom_key failed'' fb' else reply_okay '''' fb')"

definition CmdErase :: "fastboot_env \<Rightarrow> string \<Rightarrow> fastboot \<Rightarrow> fastboot option" where
  "CmdErase env arg fb0 = do {
     let MultiSlotBoot = PartitionHasMultiSlot (fb_ptn fb0) ''boot'';
     fb \<leftarrow> WaitForFlashFinished env fb0;
     if length arg \<ge> MAX_GPT_NAME_SIZE then Some (reply_fail ''Invalid partition name'' fb)
     else (case lock_refusal env ''Erase'' arg fb of
       Some msg \<Rightarrow> Some (reply_fail msg fb)
     | None \<Rightarrow> do {
         (go, fb1) \<leftarrow> snapshot_guard env ''Erase'' arg fb;
         if \<not> go then Some fb1
         else if \<not> StrnCmp arg ''avb_custom_key'' 14 then Some (erase_user_key fb1)
         else erase_partition env MultiSlotBoot arg fb1
       })
   }"

section \<open>Choosing the active slot\<close>

text \<open>The suffix the command makes of its argument.\<close>

definition input_suffix :: "string \<Rightarrow> string" where
  "input_suffix InputSlot =
     (if \<not> StrStr InputSlot ''_''
      then StrnCatS (StrnCpyS '''' MAX_SLOT_SUFFIX_SZ ''_'' 1) MAX_SLOT_SUFFIX_SZ InputSlot (length InputSlot)
      else InputSlot)"

text \<open>The loop over the slot information has no bound: without a match it leaves the array.\<close>

fun find_slot_info :: "slot_info list \<Rightarrow> string \<Rightarrow> nat \<Rightarrow> nat option" where
  "find_slot_info [] InputSlot j = None"
| "find_slot_info (s # infos) InputSlot j =
     (if StrStr (SlotSuffix s) InputSlot then Some j else find_slot_info infos InputSlot (j + 1))"

definition CmdSetActive :: "fastboot_env \<Rightarrow> string \<Rightarrow> fastboot \<Rightarrow> fastboot option" where
  "CmdSetActive env Arg fb =
     (let MultiSlotBoot = PartitionHasMultiSlot (fb_ptn fb) ''boot'' in
      if TargetBuildVariantUser env \<and> \<not> IsUnlocked (fb_dev fb)
      then Some (reply_fail (''Slot Change is not allowed in Lock State'' @ [CHR 0x0A]) fb)
      else if \<not> MultiSlotBoot then Some (reply_fail ''This Command not supported'' fb)
      else do {
        (s, fb1) \<leftarrow> (if virtual_ab env then snapshot_status env fb else Some (merge_code NONE_MERGE_STATUS, fb));
        if s = merge_code MERGING then Some (reply_fail ''Slot Change is not allowed in merging state'' fb1)
        else (case after_char (CHR '':'') Arg of
          None \<Rightarrow> Some (reply_fail ''set_active _a or _b should be entered'' fb1)
        | Some InputSlot \<Rightarrow>
            if length InputSlot \<ge> MAX_SLOT_SUFFIX_SZ then Some (reply_fail ''Invalid Slot'' fb1)
            else if InputSlot \<noteq> '''' \<and> \<not> StrStr (SlotSuffixArray fb1) InputSlot
            then Some (reply_fail ''Invalid Slot Suffix'' fb1)
            else do {
              (s', p) \<leftarrow> SetActiveSlot (fl_ptn (fe_flash env)) (Some (input_suffix InputSlot)) True (fb_ptn fb1);
              let fb2 = upd_ptn (\<lambda>_. p) fb1;
              if s' \<noteq> EFI_SUCCESS then Some (reply_fail ''set_active failed'' fb2)
              else do {
                let (sfx, p') = GetCurrentSlotSuffix (fb_ptn fb2);
                let fb3 = set_static ''CurrentSlotFB'' (drop 1 sfx) (upd_ptn (\<lambda>_. p') fb2);
                infos \<leftarrow> BootSlotInfo (fb_flash fb3);
                j \<leftarrow> find_slot_info infos InputSlot 0;
                Some (reply_okay '''' (upd_ptn UpdatePartitionAttributes
                  (upd_flash (\<lambda>st. st\<lparr>BootSlotInfo := Some (infos[j := reset_slot_info (infos ! j)])\<rparr>) fb3)))
              }
            })
      })"

section \<open>Locking and unlocking\<close>

definition SetDeviceUnlock :: "fastboot_env \<Rightarrow> u32 \<Rightarrow> bool \<Rightarrow> fastboot \<Rightarrow> fastboot option" where
  "SetDeviceUnlock env Type State fb =
     (let unlocked = (if Type = UNLOCK then IsUnlocked (fb_dev fb)
                      else if Type = UNLOCK_CRITICAL then IsUnlockCritical (fb_dev fb) else False)
      in if State = unlocked
         then Some (reply_fail (take (MAX_RSP_SIZE - 1) (CHR 0x09 # ''Device already : '' @
                (if State then ''unlocked!'' else ''locked!''))) fb)
         else if State \<and> \<not> IsAllowUnlock fb
         then Some (reply_fail (''Flashing Unlock is not allowed'' @ [CHR 0x0A]) fb)
         else if \<not> avb_le env \<and> display_supported env \<and> menu_flag env
         then Some (if unlock_menu env \<noteq> EFI_SUCCESS
                    then reply_fail ''Command not support: the display is not enabled'' fb
                    else reply_okay '''' fb)
         else do {
           (s, d, log') \<leftarrow> SetDeviceUnlockValue (fl_misc (fe_flash env)) (fl_vb (fe_flash env)) Type State (fb_dev fb)
                              (fs_log (fb_flash fb));
           let fb1 = upd_flash (\<lambda>st. st\<lparr>fs_dev := d, fs_log := log'\<rparr>) fb;
           if s \<noteq> EFI_SUCCESS
           then Some (reply_fail (take (MAX_RSP_SIZE - 1) (CHR 0x09 # ''Set device '' @
                  (if State then ''unlocked!'' else ''locked!'') @ '' failed: '' @ status_str env s)) fb1)
           else
             let fb2 = reply_okay '''' fb1
             in if \<not> avb_le env \<and> \<not> menu_flag env then RebootDevice env ''RECOVERY_MODE'' fb2 else Some fb2
         })"

section \<open>Locked devices and critical partitions\<close>

abbreviation fb_log :: "fastboot \<Rightarrow> disk_op list" where "fb_log fb \<equiv> fs_log (fb_flash fb)"

lemma split_env_simps [simp]: "fl_ptn (split_env b env) = fl_ptn (fe_flash env)"
  by (simp add: split_env_def)

lemma fb_flash_upd [simp]:
  "fb_flash (upd_flash f fb) = f (fb_flash fb)" "fb_flash (set_static a b fb) = fb_flash fb"
  "fb_flash (reply_fail r fb) = FastbootFail r (fb_flash fb)"
  "fb_flash (reply_okay r fb) = FastbootOkay r (fb_flash fb)"
  "fb_flash (StopUsbTimer fb) = fb_flash fb" "fb_flash (FastbootPublishVar env n v fb) = fb_flash fb"
  by (simp_all add: upd_flash_def set_static_def reply_fail_def reply_okay_def StopUsbTimer_def FastbootPublishVar_def)

lemma reply_keeps [simp]:
  "fs_log (FastbootFail r st) = fs_log st" "fs_log (FastbootOkay r st) = fs_log st"
  "fs_ptn (FastbootFail r st) = fs_ptn st" "fs_ptn (FastbootOkay r st) = fs_ptn st"
  "fs_dev (FastbootFail r st) = fs_dev st" "fs_dev (FastbootOkay r st) = fs_dev st"
  by (simp_all add: FastbootFail_def FastbootOkay_def FastbootAck_def)

lemma flash_out_keeps [simp]: "fb_log (flash_out arg fb) = fb_log fb"
  by (simp add: flash_out_def)

lemma flash_reply_keeps [simp]: "fb_log (flash_reply env Name fb) = fb_log fb"
  by (simp add: flash_reply_def)

lemma set_lun_keeps:
  "set_lun Name fb = (go, fb') \<Longrightarrow> fb_log fb' = fb_log fb \<and> fb_ptn fb' = fb_ptn fb \<and> fb_dev fb' = fb_dev fb"
  by (auto simp: set_lun_def Let_def split: option.splits if_splits)

lemma exchange_keeps:
  "fb_pending fb = None \<Longrightarrow> \<exists>fb'. ExchangeFlashAndUsbDataBuf env fb = Some fb' \<and> fb_flash fb' = fb_flash fb \<and>
    mFlashDataBuffer fb' = mUsbDataBuffer fb \<and> mFlashNumDataBytes fb' = mNumDataBytes fb"
  by (simp add: ExchangeFlashAndUsbDataBuf_def SparseImgFlashThread_def)

lemma wait_keeps: "fb_pending fb = None \<Longrightarrow> WaitForFlashFinished env fb = Some fb"
  by (simp add: WaitForFlashFinished_def SparseImgFlashThread_def)

lemma lock_refusal_dev: "fb_dev fb = fb_dev fb' \<Longrightarrow> lock_refusal env verb Name fb = lock_refusal env verb Name fb'"
  by (simp add: lock_refusal_def)

lemma locked_CmdFlash:
  assumes lock: "avb_le env \<or> TargetBuildVariantUser env" "\<not> IsUnlocked (fb_dev fb)" and p: "fb_pending fb = None"
  obtains fb' r where "CmdFlash env arg data sz fb = Some fb'"
    "fb_flash fb' = FastbootFail r ((fb_flash fb)\<lparr>LunSet := False\<rparr>)" "fb_pending fb' = None"
proof -
  let ?fb0 = "upd_flash (\<lambda>st. st\<lparr>LunSet := False\<rparr>) fb"
  have "fb_pending ?fb0 = None" using p by (simp add: upd_flash_def)
  then obtain fb1 where e: "ExchangeFlashAndUsbDataBuf env ?fb0 = Some fb1" "fb_flash fb1 = (fb_flash fb)\<lparr>LunSet := False\<rparr>"
    "fb_pending fb1 = None"
    by (simp add: ExchangeFlashAndUsbDataBuf_def SparseImgFlashThread_def)
  have "lock_refusal env verb Name fb1 = Some (verb @ '' is not allowed in Lock State'')" for verb Name
    using lock e(2) by (auto simp: lock_refusal_def)
  then have "\<exists>fb' r. CmdFlash env arg data sz fb = Some fb' \<and> fb_pending fb' = None \<and>
      fb_flash fb' = FastbootFail r ((fb_flash fb)\<lparr>LunSet := False\<rparr>)"
    using e by (cases "mFlashDataBuffer fb1"; cases "length arg \<ge> MAX_GPT_NAME_SIZE")
      (auto simp: CmdFlash_def reply_fail_def upd_flash_def)
  then show ?thesis using that by blast
qed

lemma locked_CmdErase:
  assumes lock: "avb_le env \<or> TargetBuildVariantUser env" "\<not> IsUnlocked (fb_dev fb)" and p: "fb_pending fb = None"
  obtains r where "CmdErase env arg fb = Some (reply_fail r fb)"
proof -
  have "lock_refusal env verb Name fb = Some (verb @ '' is not allowed in Lock State'')" for verb Name
    using lock by (auto simp: lock_refusal_def)
  then have "\<exists>r. CmdErase env arg fb = Some (reply_fail r fb)"
    using wait_keeps [OF p, of env] by (cases "length arg \<ge> MAX_GPT_NAME_SIZE") (auto simp: CmdErase_def)
  then show ?thesis using that by blast
qed


text \<open>Operations a command may issue while critical partitions are locked: on a partition of the
  table that is not critical, or on the misc partition that holds the snapshot message.\<close>

definition misc_op :: "fastboot_env \<Rightarrow> disk_op \<Rightarrow> bool" where
  "misc_op env op \<longleftrightarrow> virtual_ab env \<and> (\<exists>s hi. single_handle (mi_db (fl_misc (fe_flash env))) by_type
     (type_filter gEfiMiscPartitionGuid) = Some (s, Some hi) \<and> op_dev op = bio_id (BlkIo hi))"

definition allowed_op :: "fastboot_env \<Rightarrow> HandleInfo list list \<Rightarrow> disk_op \<Rightarrow> bool" where
  "allowed_op env tab op \<longleftrightarrow> noncritical_op (fe_flash env) tab op \<or> misc_op env op"

abbreviation confined :: "fastboot_env \<Rightarrow> fastboot \<Rightarrow> fastboot \<Rightarrow> bool" where
  "confined env fb fb' \<equiv> grows (allowed_op env (Ptable (fb_ptn fb))) (fb_log fb) (fb_log fb')"

lemma noncritical_split [simp]: "noncritical_op (split_env b env) tab op = noncritical_op (fe_flash env) tab op"
  by (simp add: noncritical_op_def)

lemma confined_noncritical:
  "grows (noncritical_op (fe_flash env) tab) l l' \<Longrightarrow> grows (allowed_op env tab) l l'"
  by (erule grows_mono) (simp add: allowed_op_def)

lemma snapshot_message_device:
  assumes "WriteVirtualABMessage env m log = Some (s, log')"
  shows "grows (\<lambda>op. \<exists>s hi. single_handle (mi_db env) by_type (type_filter gEfiMiscPartitionGuid) = Some (s, Some hi) \<and>
    op_dev op = bio_id (BlkIo hi)) log log'"
  using assms
  by (auto simp: WriteVirtualABMessage_def bind_eq_Some_conv split: if_splits option.splits
      dest!: WriteBlockToPartition_device elim!: grows_mono)

lemma snapshot_status_keeps:
  "snapshot_status env fb = Some (s, fb') \<Longrightarrow> fb_flash fb' = fb_flash fb"
  by (auto simp: snapshot_status_def bind_eq_Some_conv)

lemma cancel_snapshot_confined:
  assumes "cancel_snapshot env fb = Some (s, fb')" "virtual_ab env"
  shows "confined env fb fb' \<and> fb_ptn fb' = fb_ptn fb \<and> fb_dev fb' = fb_dev fb"
proof -
  obtain msg log' where c: "SetSnapshotMergeStatus (fl_misc (fe_flash env)) CANCELLED (VirtualAbMsg fb) (fb_log fb) =
      Some (s, msg, log')"
    and f: "fb_log fb' = log'" "fb_ptn fb' = fb_ptn fb" "fb_dev fb' = fb_dev fb"
    using assms(1) by (auto simp: cancel_snapshot_def Let_def bind_eq_Some_conv)
  have "fb_log fb = log' \<or> (\<exists>m s'. WriteVirtualABMessage (fl_misc (fe_flash env)) m (fb_log fb) = Some (s', log'))"
    using c by (auto simp: SetSnapshotMergeStatus_def Let_def bind_eq_Some_conv split: option.splits)
  then have "grows (allowed_op env (Ptable (fb_ptn fb))) (fb_log fb) log'"
    using assms(2) by (auto dest!: snapshot_message_device elim!: grows_mono simp: allowed_op_def misc_op_def)
  then show ?thesis using f by simp
qed

lemma snapshot_guard_confined:
  assumes "snapshot_guard env verb Name fb = Some (go, fb')"
  shows "confined env fb fb' \<and> fb_ptn fb' = fb_ptn fb \<and> fb_dev fb' = fb_dev fb"
proof (cases "virtual_ab env")
  case False
  then show ?thesis using assms by (simp add: snapshot_guard_def)
next
  case True
  then obtain crit fb1 where c: "CheckVirtualAbCriticalPartition env Name fb = Some (crit, fb1)"
    using assms by (auto simp: snapshot_guard_def bind_eq_Some_conv)
  have f1: "fb_flash fb1 = fb_flash fb"
    using c by (auto simp: CheckVirtualAbCriticalPartition_def bind_eq_Some_conv dest: snapshot_status_keeps)
  show ?thesis
  proof (cases crit)
    case True
    then show ?thesis using assms c f1 \<open>virtual_ab env\<close> by (auto simp: snapshot_guard_def)
  next
    case False
    then obtain s fb2 where s: "snapshot_status env fb1 = Some (s, fb2)"
      using assms c \<open>virtual_ab env\<close> by (auto simp: snapshot_guard_def bind_eq_Some_conv)
    have f2: "fb_flash fb2 = fb_flash fb" using snapshot_status_keeps [OF s] f1 by simp
    show ?thesis
    proof (cases "merge_pending s \<and> \<not> StrnCmp Name ''super'' 5")
      case True
      then obtain s' fb3 where x: "cancel_snapshot env fb2 = Some (s', fb3)"
        and r: "fb' = fb3 \<or> fb' = reply_fail ''Failed to update snapshot state to cancel'' fb3"
        using assms c s False \<open>virtual_ab env\<close> by (auto simp: snapshot_guard_def bind_eq_Some_conv split: if_splits)
      show ?thesis using cancel_snapshot_confined [OF x \<open>virtual_ab env\<close>] r f2 by auto
    next
      case nf: False
      then show ?thesis using assms c s False f2 \<open>virtual_ab env\<close> by (auto simp: snapshot_guard_def)
    qed
  qed
qed

lemma reset_slot_infos_keeps:
  "reset_slot_infos P st = Some st' \<Longrightarrow> fs_log st' = fs_log st \<and> fs_ptn st' = fs_ptn st"
  by (auto simp: reset_slot_infos_def split: if_split_asm option.split_asm)

lemma publish_slots_log: "publish_slots env es j fb = Some fb' \<Longrightarrow> fb_log fb' = fb_log fb"
  by (induction env es j fb rule: publish_slots.induct) (auto simp: Let_def split: if_split_asm option.split_asm)

lemma FastbootPublishSlotVars_log:
  assumes "FastbootPublishSlotVars env fb = Some fb'" shows "fb_log fb' = fb_log fb"
proof -
  obtain fb1 where p: "publish_slots env (PtnEntries (fb_ptn fb)) 0 fb = Some fb1"
    using assms by (auto simp: FastbootPublishSlotVars_def elim: bind_SomeE)
  have "fb_log fb' = fb_log fb1"
    using assms p by (auto simp: FastbootPublishSlotVars_def Let_def upd_ptn_def split: prod.split_asm)
  then show ?thesis using publish_slots_log [OF p] by simp
qed

lemma PopulateMultislotMetadata_log: "PopulateMultislotMetadata env fb = Some fb' \<Longrightarrow> fb_log fb' = fb_log fb"
  by (auto simp: PopulateMultislotMetadata_def Let_def elim!: bind_SomeE split: if_split_asm prod.split_asm
      dest!: FastbootPublishSlotVars_log reset_slot_infos_keeps)

lemma ReenumeratePartTable_log: "ReenumeratePartTable env fb = Some (s, fb') \<Longrightarrow> fb_log fb' = fb_log fb"
  by (auto simp: ReenumeratePartTable_def Let_def upd_ptn_def drop_slot_vars_def ClearFastbootVarsofAB_def
      elim!: bind_SomeE bind2_SomeE split: if_split_asm dest!: PopulateMultislotMetadata_log)

lemma sparse_flash_noncritical:
  assumes run: "HandleSparseImgFlash env Name m Img sz st = Some (s, st')" and nc: "\<not> IsCriticalPartition Name"
  shows "spares_critical env st st'"
proof (cases "CHECK_ADD64 Img sz \<or> PartitionGetInfo env Name st = Some None")
  case True
  then show ?thesis using run by (auto simp: HandleSparseImgFlash_def split: if_split_asm)
next
  case False
  then obtain hi log' where g: "PartitionGetInfo env Name st = Some (Some hi)"
    and w: "sparse_to_device (fl_io env) m (BlkIo hi) Img sz (fs_log st) = Some (s, log')" "st' = st\<lparr>fs_log := log'\<rparr>"
    using run by (auto simp: HandleSparseImgFlash_def elim!: bind_SomeE split: option.split_asm)
  show ?thesis using device_noncritical [OF g nc sparse_to_device_confined [OF w(1)]] w(2) by simp
qed

lemma ubi_flash_log:
  assumes "HandleUbiImgFlash env Name m Img Size st = Some (s, Name', st')"
  shows "fs_log st' = fs_log st"
proof -
  obtain h n sfx st1 where r: "resolve_slot Name st = (h, n, sfx, st1)" by (cases "resolve_slot Name st")
  have "fs_log st' = fs_log st1"
    using assms by (auto simp: HandleUbiImgFlash_def Let_def r elim!: bind_SomeE split: if_split_asm option.split_asm)
  then show ?thesis using resolve_slot_facts(3) [OF r] by simp
qed

lemma flash_other_confined:
  assumes r: "flash_other env arg Name m magic4 fb = Some fb'"
    and c: "\<not> IsUnlockCritical (fb_dev fb)" "\<not> IsCriticalPartition Name"
  shows "confined env fb fb'"
proof -
  let ?env = "split_env (UsbTimerStarted fb) env"
  obtain s nm st where run: "(if magic4 = ascii ''UBI#'' then HandleUbiImgFlash ?env Name m (mem_base m) (mFlashNumDataBytes fb) (fb_flash fb)
      else if le32 magic4 0 = 0xCE1AD63C then
        map_option (\<lambda>(s, st). (s, Name, st)) (HandleMetaImgFlash ?env Name m (mem_base m) (mFlashNumDataBytes fb) (fb_flash fb))
      else HandleRawImgFlash ?env Name m (mem_base m) (mFlashNumDataBytes fb) (fb_flash fb)) = Some (s, nm, st)"
    and log: "fb_log fb' = fs_log st"
    using r unfolding flash_other_def Let_def by (elim bind3_SomeE) auto
  have "spares_critical ?env (fb_flash fb) st"
    using run meta_flash_noncritical [OF _ c(1)] raw_flash_noncritical [OF _ c(2)] ubi_flash_log
    by (auto split: if_splits dest: meta_flash_noncritical [OF _ c(1)])
  then have "grows (noncritical_op (fe_flash env) (Ptable (fb_ptn fb))) (fb_log fb) (fb_log fb')"
    using log by (simp add: noncritical_split [abs_def])
  then show ?thesis by (rule confined_noncritical)
qed

lemma start_parallel_keeps: "start_parallel env Name m fb = Some (s, fb') \<Longrightarrow> fb_flash fb' = fb_flash fb"
  by (auto simp: start_parallel_def CreateSparseImgFlashThread_def Let_def split: if_split_asm)

lemma run_sparse_confined:
  assumes "run_sparse env Name m fb = Some fb'" "\<not> IsCriticalPartition Name"
  shows "confined env fb fb'"
proof -
  obtain s st where r: "HandleSparseImgFlash (split_env (UsbTimerStarted fb) env) Name m (mem_base m)
      (mFlashNumDataBytes fb) (fb_flash fb) = Some (s, st)" and f: "fb_flash fb' = st"
    using assms(1) by (auto simp: run_sparse_def elim!: bind2_SomeE)
  have "grows (noncritical_op (fe_flash env) (Ptable (fb_ptn fb))) (fb_log fb) (fb_log fb')"
    using sparse_flash_noncritical [OF r assms(2)] f by (simp add: noncritical_split [abs_def])
  then show ?thesis by (rule confined_noncritical)
qed

lemma flash_sparse_confined:
  assumes run: "flash_sparse env arg Name m fb = Some fb'" and nc: "\<not> IsCriticalPartition Name"
  shows "confined env fb fb'"
proof -
  obtain h n sfx st where r: "resolve_slot Name (fb_flash fb) = (h, n, sfx, st)" by (cases "resolve_slot Name (fb_flash fb)")
  note f = resolve_slot_facts [OF r]
  have nc1: "\<not> IsCriticalPartition n" using f(1) nc critical_suffix by blast
  let ?fb = "fb\<lparr>fb_flash := st\<rparr>"
  have base: "fb_log ?fb = fb_log fb" "Ptable (fb_ptn ?fb) = Ptable (fb_ptn fb)"
    using f by (simp_all add: flash_frame_def)
  show ?thesis
    using run base r
    by (auto simp: flash_sparse_def Let_def elim!: bind_SomeE split: if_split_asm option.split_asm prod.split_asm
        dest!: start_parallel_keeps run_sparse_confined [OF _ nc1])
qed

lemma flash_table_confined:
  assumes run: "flash_table env Name m fb = Some fb'" and nc: "\<not> IsCriticalPartition Name"
    and nand: "dev_type (fl_ptn (fe_flash env)) = NAND"
  shows "confined env fb fb'"
proof (cases "fb_log fb' = fb_log fb")
  case False
  have p: "upd_ptn (\<lambda>_. fb_ptn fb) fb = fb" by (simp add: upd_ptn_def upd_flash_def)
  obtain s n st where r: "HandleRawImgFlash (split_env (UsbTimerStarted fb) env) Name m (mem_base m)
      (mFlashNumDataBytes fb) (fb_flash fb) = Some (s, n, st)" and f: "fb_log fb' = fs_log st"
    using run nand False
    by (auto simp: flash_table_def ensure_boot_lun_def Let_def p elim!: bind_SomeE bind2_SomeE bind3_SomeE
        split: if_split_asm dest!: ReenumeratePartTable_log)
  have "grows (noncritical_op (fe_flash env) (Ptable (fb_ptn fb))) (fb_log fb) (fb_log fb')"
    using raw_flash_noncritical [OF r nc] f by (simp add: noncritical_split [abs_def])
  then show ?thesis by (rule confined_noncritical)
qed simp

lemma partition_critical:
  assumes "\<not> StrnCmp Name ''partition'' 9"
  shows "IsCriticalPartition Name"
proof -
  have "''partition'' \<in> set CriticalPartitions" by (simp add: CriticalPartitions_def)
  moreover have "\<not> StrnCmp Name ''partition'' (length ''partition'')"
    using assms by (simp add: eval_nat_numeral)
  ultimately show ?thesis unfolding IsCriticalPartition_def list_ex_iff by blast
qed

lemma flash_image_confined:
  assumes run: "flash_image env arg Name m fb = Some fb'"
    and c: "\<not> IsUnlockCritical (fb_dev fb)" "\<not> IsCriticalPartition Name"
  shows "confined env fb fb'"
proof -
  obtain go fb1 where l: "set_lun Name fb = (go, fb1)" by fastforce
  note k = set_lun_keeps [OF l]
  have c1: "\<not> IsUnlockCritical (fb_dev fb1)" using c(1) k by simp
  have np: "StrnCmp Name ''partition'' 9" using partition_critical c(2) by blast
  have t: "confined env fb1 (flash_out arg x)"
    if "flash_table env Name m fb1 = Some x" "dev_type (fl_ptn (fe_flash env)) = NAND" for x
    using flash_table_confined [OF that(1) c(2) that(2)] by simp
  have "confined env fb1 fb'"
    using run np t flash_sparse_confined [OF _ c(2), of env arg m fb1 fb']
      flash_other_confined [OF _ c1 c(2), of env arg m _ fb']
    by (auto simp: flash_image_def l elim!: bind_SomeE split: if_split_asm)
  then show ?thesis using k by simp
qed

lemma flash_user_key_log: "flash_user_key key sz fb = Some fb' \<Longrightarrow> fb_log fb' = fb_log fb"
  by (auto simp: flash_user_key_def Let_def elim!: bind2_SomeE split: if_split_asm)


lemma erase_user_key_log: "fb_log (erase_user_key fb) = fb_log fb"
  by (simp add: erase_user_key_def EraseUserKey_def Let_def split: prod.split)

lemma erase_noncritical:
  assumes x: "FastbootErasePartition env n st = Some (s, st')" and nc: "\<not> IsCriticalPartition n"
  shows "grows (noncritical_op env (Ptable (fs_ptn st))) (fs_log st) (fs_log st')"
proof (cases "PartitionGetInfo env n st = Some None")
  case True
  then show ?thesis using x by (auto simp: FastbootErasePartition_def)
next
  case False
  then obtain hi where gi: "PartitionGetInfo env n st = Some (Some hi)"
    using x by (auto simp: FastbootErasePartition_def elim!: bind_SomeE)
  have "fs_log st' = snd (ErasePartition (fl_io env) (BlkIo hi) (fs_log st))"
    using x gi by (auto simp: FastbootErasePartition_def Let_def split: prod.split_asm if_split_asm)
  moreover have "grows (on_device (bio_id (BlkIo hi))) (fs_log st)
      (snd (ErasePartition (fl_io env) (BlkIo hi) (fs_log st)))"
    by (simp add: ErasePartition_def Let_def issue_def)
  ultimately show ?thesis using device_noncritical [OF gi nc] by simp
qed

lemma erase_partition_confined:
  assumes run: "erase_partition env (PartitionHasMultiSlot (fb_ptn fb) ''boot'') arg fb = Some fb'"
    and nc: "\<not> IsCriticalPartition arg"
  shows "confined env fb fb'"
proof -
  obtain h n sfx st where rs: "resolve_slot arg (fb_flash fb) = (h, n, sfx, st)"
    by (cases "resolve_slot arg (fb_flash fb)")
  then have ru: "(if PartitionHasMultiSlot (fb_ptn fb) ''boot'' then GetPartitionHasSlot arg (fb_flash fb)
        else (False, arg, '''', fb_flash fb)) = (h, n, sfx, st)"
    by (simp add: resolve_slot_def)
  note q = resolve_slot_facts [OF rs]
  have nc1: "\<not> IsCriticalPartition n" using q(1) nc critical_suffix by blast
  obtain s st1 where e1: "FastbootErasePartition (fe_flash env) n st = Some (s, st1)"
    and e2: "fb_log fb' = fs_log st1"
    using run unfolding erase_partition_def Let_def ru
    by (auto elim!: bind2_SomeE bind_SomeE split: if_split_asm dest!: FastbootUpdateAttr_facts(2))
  show ?thesis
    using confined_noncritical [OF erase_noncritical [OF e1 nc1]] e2 q(2,3) by (simp add: flash_frame_def)
qed

text \<open>While the critical partitions are locked, \<open>CmdErase\<close> erases only partitions whose names
  begin with no critical name, besides writing the snapshot message.\<close>

theorem CmdErase_spares_critical:
  assumes lock: "avb_le env \<or> TargetBuildVariantUser env" "\<not> IsUnlockCritical (fb_dev fb)"
    and p: "fb_pending fb = None" and run: "CmdErase env arg fb = Some fb'"
  shows "\<exists>ws. fb_log fb' = fb_log fb @ ws \<and> (\<forall>op\<in>set ws. allowed_op env (Ptable (fb_ptn fb)) op)"
proof -
  have "confined env fb fb'"
  proof (cases "fb_log fb' = fb_log fb")
    case False
    then have l: "length arg < MAX_GPT_NAME_SIZE" and r: "lock_refusal env ''Erase'' arg fb = None"
      using run wait_keeps [OF p, of env] by (auto simp: CmdErase_def Let_def split: option.split_asm if_split_asm)
    have nc: "\<not> IsCriticalPartition arg" using r lock by (auto simp: lock_refusal_def split: if_split_asm)
    obtain go fb1 where g: "snapshot_guard env ''Erase'' arg fb = Some (go, fb1)"
      using run wait_keeps [OF p, of env] l r by (auto simp: CmdErase_def Let_def elim!: bind2_SomeE)
    note f = snapshot_guard_confined [OF g]
    have "PartitionHasMultiSlot (fb_ptn fb) ''boot'' = PartitionHasMultiSlot (fb_ptn fb1) ''boot''" using f by simp
    then have "confined env fb1 fb'"
      using run wait_keeps [OF p, of env] l r g erase_partition_confined [OF _ nc]
      by (auto simp: CmdErase_def erase_user_key_log split: if_split_asm)
    then show ?thesis using f by (auto intro: grows_trans)
  qed simp
  then show ?thesis by (simp add: grows_def)
qed

section \<open>The guards on the example device\<close>

text \<open>The eMMC session of a user who unlocked flashing but not the critical partitions.\<close>

definition demo_half :: flash_state where
  "demo_half = demo_flash_state\<lparr>fs_dev := demo_inited\<lparr>DevInfo := (DevInfo demo_inited)\<lparr>is_unlock_critical := False\<rparr>\<rparr>\<rparr>"

definition demo_avb_env :: fastboot_env where
  "demo_avb_env = demo_fb_env\<lparr>avb_le := True,
     fe_flash := demo_flash_env\<lparr>fl_io := (ram_env EMMC demo_medium)\<lparr>read_blocks := demo_read\<rparr>\<rparr>\<rparr>"

abbreviation demo_image :: mem_buf where "demo_image \<equiv> demo_mem (replicate 600 7)"

lemma demo_half_facts:
  "IsUnlocked (fs_dev demo_half)" "\<not> IsUnlockCritical (fs_dev demo_half)" "\<not> IsUnlocked (fs_dev demo_locked)"
  "fs_ptn demo_half = fs_ptn demo_flash_state" "fs_log demo_half = []" "slot_infos_ready demo_half"
  "fs_replies demo_half = []"
  by (simp_all add: demo_half_def demo_locked_def demo_flash_state_def slot_infos_ready_def IsUnlocked_def
      IsUnlockCritical_def demo_inited_def DeviceInfoInit_def dev_start_def zero_DeviceInfo_def
      first_init_def reset_info_def)


lemma demo_half_resolve:
  "resolve_slot ''boot_a'' (demo_half\<lparr>LunSet := b, fs_replies := rs\<rparr>) =
     (True, ''boot_a'', ''_a'', demo_half\<lparr>LunSet := b, fs_replies := rs\<rparr>)"
proof -
  define p where "p = fs_ptn demo_flash_state"
  have h: "fs_ptn demo_half = p" by (simp add: demo_half_facts p_def)
  have i: "GetPartitionIndex p ''boot_a'' = Some 0"
    by (simp add: p_def demo_flash_state_def GetPartitionIndex_def demo_slots_def demo_entry_def StrnCmp_def)
  have m: "PartitionHasMultiSlot p ''boot''"
    using demo_resolve(2) by (auto simp: resolve_slot_def p_def split: if_split_asm)
  show ?thesis by (simp add: resolve_slot_def GetPartitionHasSlot_def h i m StrnCpyS_def)
qed

lemma demo_half_get_info:
  "PartitionGetInfo (split_env t demo_avb_env) ''boot_a'' (demo_half\<lparr>LunSet := False, fs_replies := rs\<rparr>) = Some (Some (demo_handle 1))"
  "PartitionGetInfo (fe_flash demo_avb_env) ''boot_a'' (demo_half\<lparr>LunSet := False, fs_replies := rs\<rparr>) = Some (Some (demo_handle 1))"
  using demo_get_info(1)
  by (simp_all add: PartitionGetInfo_def demo_half_def demo_avb_env_def split_env_def demo_fb_env_def demo_flash_env_def
      demo_flash_state_def)

lemma demo_half_erase:
  "FastbootErasePartition (fe_flash demo_avb_env) ''boot_a'' demo_half =
     Some (EFI_SUCCESS, demo_half\<lparr>fs_log := [EraseBlocks 1 0 2048]\<rparr>)"
proof -
  have s: "GetPartitionSize (Some ((ram_dev 3)\<lparr>bio_id := 1\<rparr>)) = 2048"
    by (simp add: GetPartitionSize_def CHECK_ADD64_def)
  have e: "ErasePartition (fl_io (fe_flash demo_avb_env)) ((ram_dev 3)\<lparr>bio_id := 1\<rparr>) [] = (EFI_SUCCESS, [EraseBlocks 1 0 2048])"
    unfolding ErasePartition_def s by (simp add: demo_avb_env_def ram_env_def issue_def)
  have h: "BlkIo (demo_handle 1) = (ram_dev 3)\<lparr>bio_id := 1\<rparr>" by (simp add: demo_handle_def)
  have "LunSet demo_half = False" by (simp add: demo_half_def demo_flash_state_def)
  then have "demo_half\<lparr>LunSet := False, fs_replies := []\<rparr> = demo_half" using demo_half_facts(7) by (cases demo_half) simp
  then have "PartitionGetInfo (fe_flash demo_avb_env) ''boot_a'' demo_half = Some (Some (demo_handle 1))"
    using demo_half_get_info(2) [of "[]"] by simp
  then show ?thesis
    unfolding FastbootErasePartition_def using e by (simp only: bind.bind_lunit option.case h demo_half_facts(5)) simp
qed

abbreviation demo_half_fb :: fastboot where "demo_half_fb \<equiv> demo_fb demo_half demo_image 600"

lemma demo_half_fb_facts:
  "fb_flash demo_half_fb = demo_half" "fb_pending demo_half_fb = None" "IsFlashComplete demo_half_fb"
  "lock_refusal demo_avb_env verb ''boot_a'' demo_half_fb = None"
  "virtual_ab demo_avb_env = False" "avb_le demo_avb_env = True" "mt_flash demo_avb_env = False"
proof -
  show f: "fb_flash demo_half_fb = demo_half" by (simp add: demo_fb_def)
  have "\<not> IsCriticalPartition ''boot_a''" by (simp add: IsCriticalPartition_def CriticalPartitions_def StrnCmp_def)
  then show "lock_refusal demo_avb_env verb ''boot_a'' demo_half_fb = None"
    by (simp add: lock_refusal_def f demo_half_facts)
qed (simp_all add: demo_fb_def demo_avb_env_def demo_fb_env_def)

lemma CmdErase_spares_critical_example:
  "\<exists>fb. CmdErase demo_avb_env ''boot_a'' demo_half_fb = Some fb \<and> fb_log fb = [EraseBlocks 1 0 2048] \<and>
     allowed_op demo_avb_env (Ptable (fs_ptn demo_half)) (EraseBlocks 1 0 2048)"
proof -
  let ?st = "demo_half\<lparr>fs_log := [EraseBlocks 1 0 2048]\<rparr>"
  have m: "PartitionHasMultiSlot (fs_ptn demo_half) ''boot''"
    using demo_resolve(2) by (auto simp: resolve_slot_def demo_half_facts split: if_split_asm)
  have "slot_infos_ready ?st" using demo_half_facts(6) by (simp add: slot_infos_ready_def)
  then obtain st where u: "FastbootUpdateAttr ''_a'' ?st = Some st" using FastbootUpdateAttr_returns by blast
  have "demo_half\<lparr>LunSet := LunSet demo_half, fs_replies := fs_replies demo_half\<rparr> = demo_half" by (cases demo_half) simp
  then have r: "GetPartitionHasSlot ''boot_a'' demo_half = (True, ''boot_a'', ''_a'', demo_half)"
    using demo_half_resolve [where b = "LunSet demo_half" and rs = "fs_replies demo_half"] m by (simp add: resolve_slot_def)
  have "CmdErase demo_avb_env ''boot_a'' demo_half_fb = Some (reply_okay '''' (demo_half_fb\<lparr>fb_flash := st\<rparr>))"
    by (simp add: CmdErase_def WaitForFlashFinished_def erase_partition_def snapshot_guard_def demo_half_fb_facts m r
        demo_half_erase u StrnCmp_def del: One_nat_def)
  moreover have "fs_log st = [EraseBlocks 1 0 2048]" using FastbootUpdateAttr_facts(2) [OF u] by simp
  ultimately show ?thesis
    using CmdErase_spares_critical [of demo_avb_env demo_half_fb "''boot_a''"]
    by (auto simp: demo_half_fb_facts demo_half_facts)
qed


section \<open>Unlocking, and images as large as the download buffer\<close>

lemma SetDeviceUnlock_needs_permission:
  assumes "\<not> IsAllowUnlock fb"
  obtains r where "SetDeviceUnlock env Type True fb = Some (reply_fail r fb)"
proof -
  let ?u = "if Type = UNLOCK then IsUnlocked (fb_dev fb)
    else if Type = UNLOCK_CRITICAL then IsUnlockCritical (fb_dev fb) else False"
  have "SetDeviceUnlock env Type True fb = Some (reply_fail
      (if ?u then take (MAX_RSP_SIZE - 1) (CHR 0x09 # ''Device already : '' @ ''unlocked!'')
       else ''Flashing Unlock is not allowed'' @ [CHR 0x0A]) fb)"
    using assms unfolding SetDeviceUnlock_def Let_def by (cases ?u) simp_all
  then show ?thesis by (rule that)
qed

text \<open>A sparse image for a partition exactly as large as the download buffer is flashed, but the
  host gets no reply: the command replies for smaller partitions and for larger ones, and not when
  the two sizes are equal.\<close>

theorem flash_sparse_silent:
  assumes r: "resolve_slot Name (fb_flash fb) = (h, Name', sfx, st)"
    and g: "PartitionGetInfo (fe_flash env) Name' st = Some (Some hi)"
    and sz: "GetPartitionSize (Some (BlkIo hi)) = MaxDownLoadSize fb" "MaxDownLoadSize fb \<noteq> 0"
    and run: "HandleSparseImgFlash (split_env (UsbTimerStarted fb) env) Name' m (mem_base m) (mFlashNumDataBytes fb) st =
      Some (s, st')"
  shows "\<exists>fb'. flash_sparse env arg Name m fb = Some fb' \<and> FlashResult fb' = s \<and>
    fs_log (fb_flash fb') = fs_log st' \<and> fs_replies (fb_flash fb') = fs_replies st'"
proof -
  have "flash_sparse env arg Name m fb = Some (flash_out arg (StopUsbTimer
      (fb\<lparr>fb_flash := st', FlashResult := s, IsFlashComplete := True\<rparr>)))"
    using r g sz run by (simp add: flash_sparse_def run_sparse_def StopUsbTimer_def)
  then show ?thesis by (simp add: flash_out_def StopUsbTimer_def upd_flash_def)
qed

text \<open>An image of no chunks: the header alone.\<close>

definition demo_sparse :: bytes where
  "demo_sparse = [0x3A, 0xFF, 0x26, 0xED, 1, 0, 0, 0, 28, 0, 12, 0, 0, 2, 0, 0, 0, 0, 0, 0, 0, 0, 0, 0, 0, 0, 0, 0]"

lemma demo_sparse_fields:
  "le32 demo_sparse 0 = 0xED26FF3A" "le16 demo_sparse 4 = 1" "le16 demo_sparse 6 = 0" "le16 demo_sparse 8 = 28"
  "le16 demo_sparse 10 = 12" "le32 demo_sparse 12 = 512" "le32 demo_sparse 16 = 0" "le32 demo_sparse 20 = 0"
  "le32 demo_sparse 24 = 0"
  by code_simp+

lemma demo_sparse_to_device:
  "GetPartitionSize (Some b) = 2048 \<Longrightarrow> BlockSize b = 512 \<Longrightarrow>
    sparse_to_device env (demo_mem demo_sparse) b 0x1000 28 log = Some (EFI_SUCCESS, log)"
proof -
  have m: "mem_read (demo_mem demo_sparse) 0x1000 28 = Some demo_sparse"
    by (simp add: mem_read_def mem_at_def demo_mem_def demo_sparse_def)
  have h: "read_sparse_header (demo_mem demo_sparse) 0x1000 = Some \<lparr>magic = 0xED26FF3A, major_version = 1,
      minor_version = 0, file_hdr_sz = 28, chunk_hdr_sz = 12, blk_sz = 512, total_blks = 0, total_chunks = 0,
      image_checksum = 0\<rparr>"
    using demo_sparse_fields m by (simp add: read_sparse_header_def)
  show "GetPartitionSize (Some b) = 2048 \<Longrightarrow> BlockSize b = 512 \<Longrightarrow>
    sparse_to_device env (demo_mem demo_sparse) b 0x1000 28 log = Some (EFI_SUCCESS, log)"
    by (simp add: sparse_to_device_def h)
qed

lemma flash_sparse_silent_example:
  "\<exists>fb'. flash_sparse demo_avb_env ''boot_a'' ''boot_a'' (demo_mem demo_sparse)
       (demo_half_fb\<lparr>fb_flash := demo_half\<lparr>LunSet := False, fs_replies := []\<rparr>, MaxDownLoadSize := 2048, mFlashNumDataBytes := 28\<rparr>) = Some fb' \<and>
     FlashResult fb' = EFI_SUCCESS \<and> fs_replies (fb_flash fb') = []"
proof -
  let ?st = "demo_half\<lparr>LunSet := False, fs_replies := []\<rparr>"
  let ?fb = "demo_half_fb\<lparr>fb_flash := ?st, MaxDownLoadSize := 2048, mFlashNumDataBytes := 28\<rparr>"
  have s: "GetPartitionSize (Some (BlkIo (demo_handle 1))) = 2048"
    by (simp add: GetPartitionSize_def CHECK_ADD64_def demo_handle_def)
  have b: "BlockSize (BlkIo (demo_handle 1)) = 512" by (simp add: demo_handle_def)
  have t: "UsbTimerStarted ?fb = False" by (simp add: demo_fb_def)
  have m: "mem_base (demo_mem demo_sparse) = 0x1000" by (simp add: demo_mem_def)
  have "HandleSparseImgFlash (split_env False demo_avb_env) ''boot_a'' (demo_mem demo_sparse) 0x1000 28 ?st = Some (EFI_SUCCESS, ?st)"
    using demo_half_get_info(1) [where t = False and rs = "[]"] demo_sparse_to_device [OF s b]
    by (simp add: HandleSparseImgFlash_def CHECK_ADD64_def)
  then show ?thesis
    using flash_sparse_silent [of "''boot_a''" ?fb True "''boot_a''" "''_a''" ?st demo_avb_env "demo_handle 1"
        "demo_mem demo_sparse" EFI_SUCCESS ?st "''boot_a''"]
      demo_half_resolve [where b = False and rs = "[]"] demo_half_get_info(2) [where rs = "[]"] s t m
    by auto
qed

end
