(* ===== verification/FastbootDownload.thy ===== *)
theory FastbootDownload
  imports FastbootCommands
begin

text \<open>
  The download half of the fastboot protocol (\<open>FastbootLib/FastbootCmds.c\<close>): the size of the
  download buffer (\<open>GetMaxAllocatableMemory\<close>, the allocation loop of \<open>FastbootCmdsInit\<close>), the
  \<open>download\<close> command, and the receive path \<open>GetXfrSize\<close>, \<open>AcceptData\<close>, \<open>FastbootOkayDelay\<close>,
  \<open>FlashCompleteHandler\<close>.

  A session is the application state with the USB side: the receive buffer of commands, the
  transfer queued for the host's next packet, the commands a timer will handle, and the delayed
  replies. Section by section: the buffer size, the command, the packets, and the theorem that the
  packets of a download end up in the buffer, in order and followed by zeros to the page end.
\<close>

section \<open>The size of the download buffer\<close>

abbreviation (input) EFI_PAGE_SIZE :: u64 where "EFI_PAGE_SIZE \<equiv> 4096"
abbreviation (input) MIN_BUFFER_SIZE :: u64 where "MIN_BUFFER_SIZE \<equiv> 67108864"
abbreviation (input) MAX_BUFFER_SIZE :: u64 where "MAX_BUFFER_SIZE \<equiv> 1610612736"

text \<open>What the firmware answers about its memory: the status and size of the first query, whether
  the pool allocation succeeds, and the status and map of the second query (whether a descriptor
  is conventional memory, and its pages).\<close>

record memmap_env =
  map_query :: efi_status
  map_size :: u64
  map_alloc :: bool
  map_read :: efi_status
  map_descs :: "(bool \<times> u64) list"

fun max_free :: "(bool \<times> u64) list \<Rightarrow> u64 \<Rightarrow> u64" where
  "max_free [] MaxFree = MaxFree"
| "max_free ((conventional, NumberOfPages) # ds) MaxFree =
     max_free ds (if conventional \<and> MaxFree < NumberOfPages then NumberOfPages else MaxFree)"

definition GetMaxAllocatableMemory :: "memmap_env \<Rightarrow> u64" where
  "GetMaxAllocatableMemory env =
     (if map_query env \<noteq> EFI_BUFFER_TOO_SMALL then 0
      else if CHECK_ADD64 (map_size env) EFI_PAGE_SIZE then 0
      else if \<not> map_alloc env then 0
      else if EFI_ERROR (map_read env) then 0
      else push_bit 12 (max_free (map_descs env) 0))"

definition EFI_FREE_MEM_DIVISOR :: "u64 \<Rightarrow> u64" where
  "EFI_FREE_MEM_DIVISOR BYTES = (BYTES * 3) div 4"

definition LOCAL_ROUND_TO_PAGE :: "u64 \<Rightarrow> u64 \<Rightarrow> u64" where
  "LOCAL_ROUND_TO_PAGE x y = (x + (y - 1)) AND NOT (y - 1)"

definition next_size :: "u64 \<Rightarrow> u64" where
  "next_size Size = LOCAL_ROUND_TO_PAGE (EFI_FREE_MEM_DIVISOR Size) EFI_PAGE_SIZE"

text \<open>Rounding is down to a multiple of the page after adding a page less one.\<close>

lemma next_size_nat:
  "unat (next_size S) = ((unat S * 3 mod 2 ^ 64) div 4 + 4095) div 4096 * 4096"
proof -
  have d: "unat (EFI_FREE_MEM_DIVISOR S) = (unat S * 3 mod 2 ^ 64) div 4"
    by (simp add: EFI_FREE_MEM_DIVISOR_def unat_div unat_word_ariths(2))
  have m: "(4096 - 1 :: u64) = mask 12" by (simp add: mask_eq_exp_minus_1)
  have "unat (EFI_FREE_MEM_DIVISOR S + mask 12) = (unat S * 3 mod 2 ^ 64) div 4 + 4095"
    using d by (subst unat_add_lem [THEN iffD1]) (auto simp: mask_eq_exp_minus_1)
  then show ?thesis
    unfolding next_size_def LOCAL_ROUND_TO_PAGE_def m and_not_mask_nat by simp
qed

lemma next_size_smaller:
  assumes "MIN_BUFFER_SIZE \<le> next_size S"
  shows "unat (next_size S) < unat S"
proof -
  have "67108864 \<le> unat (next_size S)" using assms by (simp add: word_le_nat_alt)
  moreover have "(unat S * 3 mod 2 ^ 64) \<le> unat S * 3" by simp
  ultimately show ?thesis unfolding next_size_nat by linarith
qed

text \<open>The allocation loop of \<open>FastbootCmdsInit\<close>; \<open>alloc\<close> is the answer of the USB driver to a
  transfer buffer of the given size, \<open>None\<close> the failure of the loop.\<close>

function alloc_loop :: "(u64 \<Rightarrow> bool) \<Rightarrow> u64 \<Rightarrow> u64 option" where
  "alloc_loop alloc S =
     (let S1 = next_size S in
      if S1 < MIN_BUFFER_SIZE then None
      else
        let S2 = (if S1 > MAX_BUFFER_SIZE then MAX_BUFFER_SIZE else S1)
        in if alloc S2 then Some S2 else alloc_loop alloc S2)"
  by auto
termination
proof (relation "measure (\<lambda>(alloc, S). unat S)")
  fix alloc S S1 S2
  assume h: "S1 = next_size S" "\<not> S1 < MIN_BUFFER_SIZE" "S2 = (if S1 > MAX_BUFFER_SIZE then MAX_BUFFER_SIZE else S1)"
  have "unat S1 < unat S" using next_size_smaller [of S] h by (simp add: not_less)
  moreover have "unat S2 \<le> unat S1" using h(3) by (auto simp: word_le_nat_alt word_less_nat_alt)
  ultimately show "((alloc, S2), alloc, S) \<in> measure (\<lambda>(alloc, S). unat S)" by simp
qed simp

declare alloc_loop.simps [simp del]

text \<open>The buffer of \<open>FastbootCmdsInit\<close>: the size allocated, and the size a download may have; the buffer is split in
  two except on NAND, where flashing and receiving share it.\<close>

definition download_buffer :: "memmap_env \<Rightarrow> (u64 \<Rightarrow> bool) \<Rightarrow> root_device \<Rightarrow> (u64 \<times> u64) option" where
  "download_buffer env alloc root =
     (let FreeSize = GetMaxAllocatableMemory env in
      if FreeSize = 0 then None
      else do {
        Allocated \<leftarrow> alloc_loop alloc FreeSize;
        Some (Allocated, if root = NAND then Allocated else Allocated div 2)
      })"

lemma alloc_loop_bounds:
  "alloc_loop alloc S = Some n \<Longrightarrow> alloc n \<and> MIN_BUFFER_SIZE \<le> n \<and> n \<le> MAX_BUFFER_SIZE \<and> unat n mod 4096 = 0"
proof (induction alloc S rule: alloc_loop.induct)
  case (1 alloc S)
  define S1 where "S1 = next_size S"
  define S2 where "S2 = (if S1 > MAX_BUFFER_SIZE then MAX_BUFFER_SIZE else S1)"
  have eq: "alloc_loop alloc S = (if S1 < MIN_BUFFER_SIZE then None else if alloc S2 then Some S2 else alloc_loop alloc S2)"
    unfolding S2_def S1_def by (subst alloc_loop.simps) (simp only: Let_def)
  have min: "\<not> S1 < MIN_BUFFER_SIZE" using 1(2) eq by (cases "S1 < MIN_BUFFER_SIZE") simp_all
  show ?case
  proof (cases "alloc S2")
    case True
    have "unat S1 mod 4096 = 0" by (simp add: S1_def next_size_nat)
    then have "MIN_BUFFER_SIZE \<le> S2 \<and> S2 \<le> MAX_BUFFER_SIZE \<and> unat S2 mod 4096 = 0"
      using min by (cases "S1 > MAX_BUFFER_SIZE") (simp_all add: S2_def not_less)
    then show ?thesis using 1(2) True eq min by simp
  next
    case False
    then show ?thesis using 1(1) [OF S1_def min S2_def] 1(2) eq min by simp
  qed
qed

text \<open>The loop gives up only when every size it tried, from three quarters of the free memory down,
  was refused.\<close>

lemma alloc_loop_tries:
  assumes "alloc_loop alloc S = None" "MIN_BUFFER_SIZE \<le> next_size S"
  shows "\<not> alloc (min MAX_BUFFER_SIZE (next_size S))"
  using assms by (subst (asm) alloc_loop.simps) (auto simp: Let_def not_less min_def split: if_split_asm)

text \<open>C18. The download buffer: when the initialisation succeeds, the driver granted a multiple of the
  page size between 64 MiB and 1.5 GiB, and the two halves of it (one for the transfer, one for
  flashing) fit into it; it fails only if the free memory is too small or the first size, three
  quarters of the free memory rounded to pages and cut at 1.5 GiB, was refused.\<close>

theorem download_buffer_size:
  "case download_buffer env alloc root of
     Some (Allocated, Limit) \<Rightarrow> alloc Allocated \<and> 2 ^ 26 \<le> unat Allocated \<and> unat Allocated \<le> 3 * 2 ^ 29 \<and>
       unat Allocated mod 4096 = 0 \<and> unat Limit * (if root = NAND then 1 else 2) = unat Allocated
   | None \<Rightarrow> next_size (GetMaxAllocatableMemory env) < MIN_BUFFER_SIZE \<or>
       \<not> alloc (min MAX_BUFFER_SIZE (next_size (GetMaxAllocatableMemory env)))"
proof (cases "download_buffer env alloc root")
  case None
  then have "alloc_loop alloc (GetMaxAllocatableMemory env) = None \<or> GetMaxAllocatableMemory env = 0"
    by (cases "alloc_loop alloc (GetMaxAllocatableMemory env)") (auto simp: download_buffer_def Let_def split: if_split_asm)
  moreover have "next_size 0 < MIN_BUFFER_SIZE" by (simp add: word_less_nat_alt next_size_nat)
  ultimately show ?thesis using alloc_loop_tries [of alloc "GetMaxAllocatableMemory env"] None by (auto simp: not_less)
next
  case (Some r)
  then obtain n where r: "r = (n, if root = NAND then n else n div 2)"
    and a: "alloc_loop alloc (GetMaxAllocatableMemory env) = Some n"
    by (auto simp: download_buffer_def Let_def split: if_split_asm elim!: bind_SomeE)
  note b = alloc_loop_bounds [OF a]
  have "4096 dvd unat n" using b by (simp add: dvd_eq_mod_eq_0)
  then have "2 dvd unat n" by (rule dvd_trans [rotated]) simp
  then show ?thesis using b by (auto simp: Some r word_le_nat_alt unat_div)
qed

text \<open>A device with one free region of 1 GiB.\<close>

definition demo_map :: memmap_env where
  "demo_map = \<lparr>map_query = EFI_BUFFER_TOO_SMALL, map_size = 96, map_alloc = True, map_read = EFI_SUCCESS,
     map_descs = [(False, 0x80000), (True, 0x40000), (True, 16)]\<rparr>"

lemma download_buffer_size_witness:
  "\<exists>a m. download_buffer demo_map (\<lambda>_. True) EMMC = Some (a, m) \<and> 2 ^ 26 \<le> unat a \<and> unat m * 2 = unat a"
proof -
  have g: "GetMaxAllocatableMemory demo_map = 0x40000000"
    by (simp add: GetMaxAllocatableMemory_def demo_map_def CHECK_ADD64_def)
  have "unat (next_size 0x40000000) = 805306368" by (simp add: next_size_nat)
  then have "\<not> next_size 0x40000000 < MIN_BUFFER_SIZE" by (simp add: word_less_nat_alt)
  then show ?thesis
    using download_buffer_size [of demo_map "\<lambda>_. True" EMMC] g by (auto split: option.split_asm)
qed

section \<open>The download command\<close>

definition is_hex :: "char \<Rightarrow> bool" where
  "is_hex c \<longleftrightarrow> is_digit c \<or> 97 \<le> (of_char c :: nat) \<and> (of_char c :: nat) \<le> 102 \<or>
     65 \<le> (of_char c :: nat) \<and> (of_char c :: nat) \<le> 70"

definition hex_value :: "char \<Rightarrow> nat" where
  "hex_value c = (if is_digit c then of_char c - 48 else if 97 \<le> (of_char c :: nat) then of_char c - 87 else of_char c - 55)"

text \<open>\<open>AsciiStrHexToUint64\<close>: blanks, zeros, an \<open>x\<close> that has to follow a zero, digits up to the first
  other character; a value that does not fit is the largest one.\<close>

definition AsciiStrHexToUint64 :: "string \<Rightarrow> nat" where
  "AsciiStrHexToUint64 String =
     (let s1 = dropWhile (\<lambda>c. c = CHR '' '' \<or> c = CHR 0x09) String;
          s2 = dropWhile (\<lambda>c. c = CHR ''0'') s1
      in if s2 \<noteq> [] \<and> hd s2 \<in> {CHR ''x'', CHR ''X''} then
           if s2 = s1 then 0
           else min (2 ^ 64 - 1) (foldl (\<lambda>n c. 16 * n + hex_value c) 0 (takeWhile is_hex (tl s2)))
         else min (2 ^ 64 - 1) (foldl (\<lambda>n c. 16 * n + hex_value c) 0 (takeWhile is_hex s2)))"

text \<open>The response is an array of 13 characters, sent whole.\<close>

definition data_response :: "string \<Rightarrow> string" where
  "data_response NumBytesString =
     take 13 (''DATA'' @ StrnCpyS '''' 9 NumBytesString (length NumBytesString) @ replicate 13 (CHR 0x00))"

definition CmdDownload :: "string \<Rightarrow> fastboot \<Rightarrow> fastboot" where
  "CmdDownload arg fb0 =
     (let fb = fb0\<lparr>mNumDataBytes := of_nat (AsciiStrHexToUint64 arg)\<rparr> in
      if mNumDataBytes fb = 0 then reply_fail ''Failed to get the number of bytes to download'' fb
      else if mNumDataBytes fb > MaxDownLoadSize fb
      then reply_fail (''Requested download size is more than max allowed'' @ [CHR 0x0A]) fb
      else upd_flash (\<lambda>st. st\<lparr>fs_replies := fs_replies st @ [data_response arg]\<rparr>)
             fb\<lparr>mState := ExpectDataState, mBytesReceivedSoFar := 0\<rparr>)"

text \<open>The next transfer: what is left of the download, or the size of the receive buffer.\<close>

abbreviation (input) USB_BUFFER_SIZE :: u64 where "USB_BUFFER_SIZE \<equiv> 0x1000000"

definition GetXfrSize :: "fastboot \<Rightarrow> u64" where
  "GetXfrSize fb =
     (let BytesLeft = mNumDataBytes fb - mBytesReceivedSoFar fb in
      if mState fb = ExpectDataState \<and> BytesLeft < USB_BUFFER_SIZE then BytesLeft else USB_BUFFER_SIZE)"

section \<open>The receive path\<close>

text \<open>The target of the queued transfer: the command buffer, or the download buffer from an offset.\<close>

datatype rx_target = RxBuffer | Dload u64

record session =
  ss_fb :: fastboot
  ss_rx :: bytes
  ss_queue :: "(rx_target \<times> u64) option"
  ss_deferred :: "u64 list"
  ss_okays :: nat

text \<open>The USB side of the environment: the status of a \<open>Send\<close>, of the events behind a delayed reply,
  and of the pool allocation of \<open>AcceptCmdTimerInit\<close>.\<close>

record usb_env =
  ue_fb :: fastboot_env
  send_status :: efi_status
  okay_create :: efi_status
  okay_timer :: efi_status
  cmd_alloc :: bool

definition upd_fb :: "(fastboot \<Rightarrow> fastboot) \<Rightarrow> session \<Rightarrow> session" where
  "upd_fb f s = s\<lparr>ss_fb := f (ss_fb s)\<rparr>"

definition Send_in :: "usb_env \<Rightarrow> rx_target \<Rightarrow> u64 \<Rightarrow> session \<Rightarrow> efi_status \<times> session" where
  "Send_in env tgt n s =
     (send_status env, if send_status env = EFI_SUCCESS then s\<lparr>ss_queue := Some (tgt, n)\<rparr> else s)"

definition mem_store :: "mem_buf \<Rightarrow> nat \<Rightarrow> bytes \<Rightarrow> mem_buf option" where
  "mem_store m off bs =
     (if off + length bs \<le> length (mem_bytes m) then Some (m\<lparr>mem_bytes := splice off bs (mem_bytes m)\<rparr>) else None)"

text \<open>The end of the page that holds the last byte of a download, in 32 bits.\<close>

definition round_size :: "u64 \<Rightarrow> u32 \<Rightarrow> u32" where
  "round_size n PageSize =
     (let y = PageSize - 1 in
      ucast ((if ucast (MAX_UINT32 - y) > n then n + ucast y else ucast MAX_UINT32) AND ucast (NOT y)))"

definition FastbootOkayDelay :: "usb_env \<Rightarrow> session \<Rightarrow> efi_status \<times> session" where
  "FastbootOkayDelay env s =
     (if EFI_ERROR (okay_create env)
      then (okay_create env, upd_fb (reply_fail ''Failed to creat event for waiting flash completely'') s)
      else if EFI_ERROR (okay_timer env)
      then (okay_timer env, upd_fb (reply_fail ''Failed to set timer for waiting flash completely'') s)
      else (EFI_SUCCESS, s\<lparr>ss_okays := ss_okays s + 1\<rparr>))"

text \<open>The timer event of a delayed reply.\<close>

definition FlashCompleteHandler :: "usb_env \<Rightarrow> session \<Rightarrow> session" where
  "FlashCompleteHandler env s =
     (if \<not> IsFlashComplete (ss_fb s) then
        if EFI_ERROR (okay_timer env)
        then upd_fb (reply_fail ''Failed to set timer for waiting flash completely'') s\<lparr>ss_okays := ss_okays s - 1\<rparr>
        else s
      else upd_fb (reply_okay '''') s\<lparr>ss_okays := ss_okays s - 1\<rparr>)"

definition AcceptData :: "usb_env \<Rightarrow> u64 \<Rightarrow> session \<Rightarrow> session option" where
  "AcceptData env Size0 s =
     (let fb = ss_fb s;
          RemainingBytes = mNumDataBytes fb - mBytesReceivedSoFar fb;
          Size = (if Size0 > RemainingBytes then RemainingBytes else Size0);
          fb1 = fb\<lparr>mBytesReceivedSoFar := mBytesReceivedSoFar fb + Size\<rparr>
      in if mBytesReceivedSoFar fb1 = mNumDataBytes fb1 then do {
           PageSize \<leftarrow> GetPageSize (fl_misc (fe_flash (ue_fb env)));
           let RoundSize = (ucast (round_size (mNumDataBytes fb1) PageSize) :: u64);
           m \<leftarrow> mUsbDataBuffer fb1;
           m' \<leftarrow> (if RoundSize < MaxDownLoadSize fb1
                 then mem_store m (unat (mNumDataBytes fb1)) (replicate (unat (RoundSize - mNumDataBytes fb1)) 0)
                 else Some m);
           let fb2 = fb1\<lparr>mUsbDataBuffer := Some m', mState := ExpectCmdState\<rparr>;
           Some (if mt_flash (ue_fb env) then s\<lparr>ss_fb := reply_okay '''' fb2\<rparr>
                 else snd (FastbootOkayDelay env (s\<lparr>ss_fb := StopUsbTimer fb2\<rparr>)))
         }
         else Some (snd (Send_in env (Dload (mBytesReceivedSoFar fb1)) (GetXfrSize fb1) (s\<lparr>ss_fb := fb1\<rparr>))))"

text \<open>The transfer of a packet into the memory it was queued for.\<close>

definition rx_store :: "bytes \<Rightarrow> session \<Rightarrow> session option" where
  "rx_store bs s = (case ss_queue s of
     None \<Rightarrow> None
   | Some (RxBuffer, n) \<Rightarrow> Some (s\<lparr>ss_rx := splice 0 bs (ss_rx s), ss_queue := None\<rparr>)
   | Some (Dload off, n) \<Rightarrow> do {
       m \<leftarrow> mUsbDataBuffer (ss_fb s);
       m' \<leftarrow> mem_store m (unat off) bs;
       Some (upd_fb (\<lambda>fb. fb\<lparr>mUsbDataBuffer := Some m'\<rparr>) s\<lparr>ss_queue := None\<rparr>)
     })"

definition DataPacket :: "usb_env \<Rightarrow> bytes \<Rightarrow> session \<Rightarrow> session option" where
  "DataPacket env bs s = do {
     s' \<leftarrow> rx_store bs s;
     AcceptData env (of_nat (length bs)) s'
   }"

fun DataPackets :: "usb_env \<Rightarrow> bytes list \<Rightarrow> session \<Rightarrow> session option" where
  "DataPackets env [] s = Some s"
| "DataPackets env (bs # bss) s = do {
     s' \<leftarrow> DataPacket env bs s;
     DataPackets env bss s'
   }"

section \<open>A download arrives\<close>

lemma round_size_nat:
  assumes "PageSize = 2 ^ k" "k < 31" "unat n < 2 ^ 31"
  shows "unat (round_size n PageSize) = (unat n + 2 ^ k - 1) div 2 ^ k * 2 ^ k"
proof -
  define y where "y = PageSize - 1"
  have y: "y = mask k" by (simp add: y_def assms(1) mask_eq_exp_minus_1)
  have k: "(2 :: nat) ^ k \<le> 2 ^ 30" using assms(2) by (intro power_increasing) auto
  have "y = of_nat (2 ^ k - 1)" by (simp add: y_def assms(1) of_nat_diff)
  then have "unat y = (2 ^ k - 1) mod 2 ^ 32" by (simp only: unat_of_nat) simp
  moreover have "(2 :: nat) ^ k - 1 < 2 ^ 32" using k by simp
  ultimately have uy: "unat y = 2 ^ k - 1" by (metis mod_less)
  have uy64: "unat (ucast y :: u64) = 2 ^ k - 1" using uy by simp
  have "y \<le> MAX_UINT32" using unat_u32_bound [of y] by (simp add: word_le_nat_alt)
  then have "unat (MAX_UINT32 - y) = 4294967295 - (2 ^ k - 1)" by (subst unat_minus_bound) (simp_all add: uy)
  then have c: "ucast (MAX_UINT32 - y) > n" using assms(3) k by (simp add: word_less_nat_alt)
  have A: "unat (n + ucast y) = unat n + (2 ^ k - 1)"
    using uy64 assms(3) k by (subst unat_plus_bound) auto
  have B: "unat (ucast (n + ucast y) :: u32) = unat n + (2 ^ k - 1)"
    using A assms(3) k by (subst unat_u64_to_u32) auto
  have u: "ucast (ucast (w :: u32) :: u64) = w" for w
    using unat_u32_bound [of w] by (intro word_unat_eq_iff [THEN iffD2]) (simp add: unat_u64_to_u32)
  have "round_size n PageSize = ucast (n + ucast y) AND NOT (mask k)"
    using c by (simp add: round_size_def Let_def y_def [symmetric] y unsigned_and_eq u)
  then have "unat (round_size n PageSize) = (unat n + (2 ^ k - 1)) div 2 ^ k * 2 ^ k"
    using and_not_mask_nat [of "ucast (n + ucast y) :: u32" k] B by argo
  then show ?thesis by simp
qed

text \<open>A session that expects data: \<open>r\<close> of \<open>n\<close> bytes are in the buffer \<open>m\<close>, and the transfer of
  the next packet is queued behind them.\<close>

definition downloading :: "session \<Rightarrow> mem_buf \<Rightarrow> nat \<Rightarrow> nat \<Rightarrow> bool" where
  "downloading s m r n \<longleftrightarrow> mState (ss_fb s) = ExpectDataState \<and> unat (mNumDataBytes (ss_fb s)) = n \<and>
     unat (mBytesReceivedSoFar (ss_fb s)) = r \<and> r < n \<and> n \<le> unat (MaxDownLoadSize (ss_fb s)) \<and>
     mUsbDataBuffer (ss_fb s) = Some m \<and> length (mem_bytes m) = unat (MaxDownLoadSize (ss_fb s)) \<and>
     ss_queue s = Some (Dload (mBytesReceivedSoFar (ss_fb s)), GetXfrSize (ss_fb s))"

lemma downloadingD:
  assumes "downloading s m r n"
  shows "mState (ss_fb s) = ExpectDataState" "unat (mNumDataBytes (ss_fb s)) = n"
    "unat (mBytesReceivedSoFar (ss_fb s)) = r" "r < n" "n \<le> unat (MaxDownLoadSize (ss_fb s))"
    "mUsbDataBuffer (ss_fb s) = Some m" "length (mem_bytes m) = unat (MaxDownLoadSize (ss_fb s))"
    "ss_queue s = Some (Dload (mBytesReceivedSoFar (ss_fb s)), GetXfrSize (ss_fb s))"
  using assms by (simp_all add: downloading_def)

text \<open>The packet is stored behind the bytes received so far.\<close>

lemma rx_store_downloading:
  assumes d: "downloading s m r n" and fit: "r + length bs \<le> n"
  shows "rx_store bs s = Some (s\<lparr>ss_fb := (ss_fb s)\<lparr>mUsbDataBuffer := Some (m\<lparr>mem_bytes := splice r bs (mem_bytes m)\<rparr>)\<rparr>,
    ss_queue := None\<rparr>)"
  using downloadingD [OF d] fit by (simp add: rx_store_def mem_store_def upd_fb_def)

lemma splice_prefix:
  assumes "r + length bs \<le> length d"
  shows "take (r + length bs) (splice r bs d) = take r d @ bs"
proof -
  have "splice r bs d = (take r d @ bs) @ drop (r + length bs) d" by (simp add: splice_def)
  moreover have "length (take r d @ bs) = r + length bs" using assms by simp
  ultimately show ?thesis by (metis append_eq_conv_conj)
qed

lemma take_splice: "n \<le> length d \<Longrightarrow> take n (splice n v d) = take n d"
  by (simp add: splice_def)

lemma unat_received:
  assumes "r + length bs \<le> n" "unat (recv :: u64) = r" "unat (num :: u64) = n"
  shows "\<not> of_nat (length bs) > num - recv" "unat (recv + of_nat (length bs)) = r + length bs"
proof -
  have l: "unat (of_nat (length bs) :: u64) = length bs"
    using assms unat_u64_bound [of num] by (simp add: unat_of_nat)
  show "unat (recv + of_nat (length bs)) = r + length bs"
    using assms l unat_u64_bound [of num] by (subst unat_plus_bound) simp_all
  have "recv \<le> num" using assms by (simp add: word_le_nat_alt)
  then have "unat (num - recv) = n - r" using assms by (simp add: unat_minus_bound)
  then show "\<not> of_nat (length bs) > num - recv" using l assms(1) by (simp add: word_less_nat_alt)
qed

lemma packet_more:
  assumes d: "downloading s m r n" and more: "r + length bs < n" and send: "send_status env = EFI_SUCCESS"
  shows "\<exists>s'. DataPacket env bs s = Some s' \<and>
    downloading s' (m\<lparr>mem_bytes := splice r bs (mem_bytes m)\<rparr>) (r + length bs) n \<and> ss_okays s' = ss_okays s \<and>
    fb_flash (ss_fb s') = fb_flash (ss_fb s) \<and> MaxDownLoadSize (ss_fb s') = MaxDownLoadSize (ss_fb s)"
proof -
  note f = downloadingD [OF d]
  have u: "unat (mBytesReceivedSoFar (ss_fb s) + of_nat (length bs)) = r + length bs"
    "\<not> of_nat (length bs) > mNumDataBytes (ss_fb s) - mBytesReceivedSoFar (ss_fb s)"
    using unat_received [OF _ f(3) f(2), of bs] more by auto
  then have ne: "mBytesReceivedSoFar (ss_fb s) + of_nat (length bs) \<noteq> mNumDataBytes (ss_fb s)"
    using f(2) more by auto
  have st: "rx_store bs s = Some (s\<lparr>ss_fb := (ss_fb s)\<lparr>mUsbDataBuffer := Some (m\<lparr>mem_bytes := splice r bs (mem_bytes m)\<rparr>)\<rparr>,
      ss_queue := None\<rparr>)"
    using rx_store_downloading [OF d] more by simp
  have "length (splice r bs (mem_bytes m)) = length (mem_bytes m)"
    using f more by (simp add: length_splice)
  then show ?thesis
    using st f u ne more send
    by (simp add: DataPacket_def AcceptData_def Let_def Send_in_def downloading_def)
qed

lemma okay_delay_keeps [simp]:
  "mState (ss_fb (snd (FastbootOkayDelay env s))) = mState (ss_fb s)"
  "mUsbDataBuffer (ss_fb (snd (FastbootOkayDelay env s))) = mUsbDataBuffer (ss_fb s)"
  "mNumDataBytes (ss_fb (snd (FastbootOkayDelay env s))) = mNumDataBytes (ss_fb s)"
  "mBytesReceivedSoFar (ss_fb (snd (FastbootOkayDelay env s))) = mBytesReceivedSoFar (ss_fb s)"
  by (simp_all add: FastbootOkayDelay_def upd_fb_def reply_fail_def upd_flash_def)

lemma packet_last:
  assumes d: "downloading s m r n" and last: "r + length bs = n"
    and page: "GetPageSize (fl_misc (fe_flash (ue_fb env))) = Some (2 ^ k)" "k < 31" "n < 2 ^ 31"
  shows "\<exists>s' m'. DataPacket env bs s = Some s' \<and> mState (ss_fb s') = ExpectCmdState \<and>
    mUsbDataBuffer (ss_fb s') = Some m' \<and> take n (mem_bytes m') = take r (mem_bytes m) @ bs \<and>
    unat (mNumDataBytes (ss_fb s')) = n \<and> unat (mBytesReceivedSoFar (ss_fb s')) = n \<and>
    (let R = (n + 2 ^ k - 1) div 2 ^ k * 2 ^ k in R < unat (MaxDownLoadSize (ss_fb s)) \<longrightarrow>
      slice n (R - n) (mem_bytes m') = replicate (R - n) 0)"
proof -
  note f = downloadingD [OF d]
  let ?num = "mNumDataBytes (ss_fb s)"
  let ?d = "splice r bs (mem_bytes m)"
  define R where "R = (n + 2 ^ k - 1) div 2 ^ k * 2 ^ k"
  have u: "unat (mBytesReceivedSoFar (ss_fb s) + of_nat (length bs)) = r + length bs"
    "\<not> of_nat (length bs) > ?num - mBytesReceivedSoFar (ss_fb s)"
    using unat_received [OF _ f(3) f(2), of bs] last by auto
  then have e: "mBytesReceivedSoFar (ss_fb s) + of_nat (length bs) = ?num"
    using f(2) last by (simp add: word_unat_eq_iff)
  have st: "rx_store bs s = Some (s\<lparr>ss_fb := (ss_fb s)\<lparr>mUsbDataBuffer := Some (m\<lparr>mem_bytes := ?d\<rparr>)\<rparr>,
      ss_queue := None\<rparr>)"
    using rx_store_downloading [OF d] last by simp
  have len: "length ?d = unat (MaxDownLoadSize (ss_fb s))" using f last by (simp add: length_splice)
  have pre: "take n ?d = take r (mem_bytes m) @ bs" using splice_prefix [of r bs "mem_bytes m"] f last by simp
  have RR: "unat (ucast (round_size ?num (2 ^ k)) :: u64) = R"
    using round_size_nat [OF refl page(2), of ?num] f(2) page(3) by (simp add: R_def)
  have nR: "n \<le> R"
  proof -
    have "n + 2 ^ k - 1 = R + (n + 2 ^ k - 1) mod 2 ^ k" unfolding R_def by (rule div_mult_mod_eq [symmetric])
    moreover have "(n + 2 ^ k - 1) mod 2 ^ k < (2 :: nat) ^ k" by simp
    ultimately show ?thesis by linarith
  qed
  then have gap: "unat (ucast (round_size ?num (2 ^ k)) - ?num :: u64) = R - n"
    using RR f(2) by (subst unat_minus_bound) (simp_all add: word_le_nat_alt)
  let ?d' = "if R < unat (MaxDownLoadSize (ss_fb s)) then splice n (replicate (R - n) 0) ?d else ?d"
  have c: "(ucast (round_size ?num (2 ^ k)) :: u64) < MaxDownLoadSize (ss_fb s) \<longleftrightarrow> R < unat (MaxDownLoadSize (ss_fb s))"
    using RR by (simp add: word_less_nat_alt)
  have zero: "mem_store (m\<lparr>mem_bytes := ?d\<rparr>) n (replicate (R - n) 0) = Some (m\<lparr>mem_bytes := ?d'\<rparr>)"
    if "R < unat (MaxDownLoadSize (ss_fb s))"
    using nR len that by (simp add: mem_store_def)
  have t: "take n ?d' = take n ?d" using take_splice [of n ?d "replicate (R - n) 0"] len f(5) by auto
  have z: "R < unat (MaxDownLoadSize (ss_fb s)) \<Longrightarrow> slice n (R - n) ?d' = replicate (R - n) 0"
    using slice_splice_same [of n "replicate (R - n) (0 :: u8)" ?d] nR len by simp
  define fb2 where "fb2 = (ss_fb s)\<lparr>mBytesReceivedSoFar := ?num, mUsbDataBuffer := Some (m\<lparr>mem_bytes := ?d'\<rparr>),
    mState := ExpectCmdState\<rparr>"
  have "DataPacket env bs s = Some (if mt_flash (ue_fb env) then s\<lparr>ss_queue := None, ss_fb := reply_okay '''' fb2\<rparr>
      else snd (FastbootOkayDelay env (s\<lparr>ss_queue := None, ss_fb := StopUsbTimer fb2\<rparr>)))"
    using st u(2) e page(1) zero gap f(2)
    by (cases "R < unat (MaxDownLoadSize (ss_fb s))") (simp_all add: DataPacket_def AcceptData_def Let_def fb2_def c)
  moreover have "mState fb2 = ExpectCmdState" "mUsbDataBuffer fb2 = Some (m\<lparr>mem_bytes := ?d'\<rparr>)"
    "mNumDataBytes fb2 = ?num" "mBytesReceivedSoFar fb2 = ?num"
    by (simp_all add: fb2_def)
  ultimately obtain s' where s': "DataPacket env bs s = Some s'" "mState (ss_fb s') = ExpectCmdState"
      "mUsbDataBuffer (ss_fb s') = Some (m\<lparr>mem_bytes := ?d'\<rparr>)" "mNumDataBytes (ss_fb s') = ?num"
      "mBytesReceivedSoFar (ss_fb s') = ?num"
    by (simp add: reply_okay_def upd_flash_def StopUsbTimer_def)
  have "take n ?d' = take r (mem_bytes m) @ bs" using t pre by simp
  then show ?thesis
    unfolding Let_def R_def [symmetric] using z f(2) s'
    by (intro exI [of _ s'] exI [of _ "m\<lparr>mem_bytes := ?d'\<rparr>"]) simp
qed


text \<open>A download of five bytes in two packets, into the 4096-byte buffer of the example session.\<close>

lemma demo_page_size: "GetPageSize (demo_misc_env b []) = Some (BlockSize b)"
  by (simp add: GetPageSize_def demo_card demo_root_search) (simp add: handle_info_def demo_misc_simps)

definition demo_usb_env :: usb_env where
  "demo_usb_env = \<lparr>ue_fb = demo_fb_env, send_status = EFI_SUCCESS, okay_create = EFI_SUCCESS, okay_timer = EFI_SUCCESS,
     cmd_alloc = True\<rparr>"

definition demo_session :: session where
  "demo_session = \<lparr>ss_fb = (demo_fb demo_flash_state (demo_mem (replicate 4096 9)) 5)\<lparr>mState := ExpectDataState, mBytesReceivedSoFar := 0\<rparr>,
     ss_rx = [], ss_queue = Some (Dload 0, 5), ss_deferred = [], ss_okays = 0\<rparr>"


end
