(* ===== verification/FastbootProtocol.thy ===== *)
theory FastbootProtocol
  imports FastbootDownload
begin

text \<open>
  The command loop of the fastboot application: the remaining commands of
  \<open>FastbootLib/FastbootCmds.c\<close> (reboot, oem, lock, snapshot), the command table and its lookup
  (\<open>FastbootRegister\<close>, \<open>AcceptCmd\<close>), \<open>FastbootCommandSetup\<close>, and the USB events of
  \<open>FastbootLib/FastbootMain.c\<close>.

  The events are the steps of a state machine over the sessions of \<open>FastbootDownload\<close>. Two theorems
  are about everything it can reach: a transfer is only ever queued inside the buffer it is for,
  and a locked device without unlock permission stays locked and unwritten.
\<close>

section \<open>Reboot and snapshot commands\<close>

text \<open>Services of the platform the commands of this theory use: the display protocol and variables,
  the image loader behind \<open>continue\<close> and \<open>boot\<close> (not modelled here: its effect on the application
  and its status are a function), the mdtp state.\<close>

record boot_env =
  be_usb :: usb_env
  load_image :: "string \<Rightarrow> fastboot \<Rightarrow> (efi_status \<times> fastboot) option"
  image_size_out :: "fastboot \<Rightarrow> u32"
  mdtp :: "(efi_status \<times> bool) option"
  display_proto :: "nat option"
  proto_get :: "efi_status \<times> string \<times> nat"
  proto_set :: "string \<Rightarrow> efi_status"
  rt_get :: "efi_status \<times> string \<times> nat"
  rt_set :: "string \<Rightarrow> efi_status"
  en_update :: bool
  en_critical :: bool
  en_boot :: bool
  dynamic_partition :: bool
  alloc_cmd :: "string \<Rightarrow> bool"

abbreviation be_fb :: "boot_env \<Rightarrow> fastboot_env" where "be_fb env \<equiv> ue_fb (be_usb env)"
abbreviation be_misc :: "boot_env \<Rightarrow> misc_env" where "be_misc env \<equiv> fl_misc (fe_flash (be_fb env))"

definition CmdReboot :: "boot_env \<Rightarrow> fastboot \<Rightarrow> fastboot option" where
  "CmdReboot env fb = RebootDevice (be_fb env) ''NORMAL_MODE'' (reply_okay '''' fb)"

definition CmdRebootBootloader :: "boot_env \<Rightarrow> fastboot \<Rightarrow> fastboot option" where
  "CmdRebootBootloader env fb = RebootDevice (be_fb env) ''FASTBOOT_MODE'' (reply_okay '''' fb)"

definition reboot_message :: "boot_env \<Rightarrow> string \<Rightarrow> string \<Rightarrow> fastboot \<Rightarrow> fastboot option" where
  "reboot_message env Message mode fb = do {
     (s, log') \<leftarrow> WriteRecoveryMessage (be_misc env) Message (fs_log (fb_flash fb));
     let fb1 = upd_flash (\<lambda>st. st\<lparr>fs_log := log'\<rparr>) fb;
     if s \<noteq> EFI_SUCCESS then Some (reply_fail (''Failed to reboot to '' @ mode @ '' mode'') fb1)
     else RebootDevice (be_fb env) ''NORMAL_MODE'' (reply_okay '''' fb1)
   }"

definition CmdRebootRecovery :: "boot_env \<Rightarrow> fastboot \<Rightarrow> fastboot option" where
  "CmdRebootRecovery env = reboot_message env ''boot-recovery'' ''recovery''"

definition CmdRebootFastboot :: "boot_env \<Rightarrow> fastboot \<Rightarrow> fastboot option" where
  "CmdRebootFastboot env = reboot_message env ''boot-fastboot'' ''fastboot''"

text \<open>The command cancels or completes a merge; a completed reboot does not return to it.\<close>

definition CmdUpdateSnapshot :: "boot_env \<Rightarrow> string \<Rightarrow> fastboot \<Rightarrow> fastboot option" where
  "CmdUpdateSnapshot env Arg fb = (case after_char (CHR '':'') Arg of
     None \<Rightarrow> Some (reply_fail ''Invalid snapshot-update command'' fb)
   | Some Command \<Rightarrow>
       if \<not> AsciiStrnCmp Command ''merge'' 5 then do {
         (s, fb1) \<leftarrow> snapshot_status (be_fb env) fb;
         if s = merge_code MERGING then do {
           fb2 \<leftarrow> CmdRebootFastboot env fb1;
           Some (if fb_reboots fb2 \<noteq> fb_reboots fb1 then fb2 else reply_okay '''' fb2)
         }
         else Some (reply_okay '''' fb1)
       }
       else if \<not> AsciiStrnCmp Command ''cancel'' 6 then
         if \<not> IsUnlocked (fb_dev fb) then Some (reply_fail ''Snapshot Cancel is not allowed in Lock State'' fb)
         else do {
           (s, fb1) \<leftarrow> cancel_snapshot (be_fb env) fb;
           Some (if s \<noteq> EFI_SUCCESS then reply_fail ''Failed to update snapshot state to cancel'' fb1
                 else reply_okay '''' fb1)
         }
       else Some (reply_fail ''Invalid snapshot-update command'' fb))"

section \<open>Continue and boot\<close>

definition CmdContinue :: "boot_env \<Rightarrow> fastboot \<Rightarrow> fastboot option" where
  "CmdContinue env fb = do {
     (s, fb1) \<leftarrow> load_image env ''continue'' fb;
     Some (if s \<noteq> EFI_SUCCESS
           then reply_fail (take (MAX_RSP_SIZE - 1) (''Failed to load image from partition: '' @ status_str (be_fb env) s)) fb1
           else (reply_okay '''' fb1)\<lparr>Finished := True, fb_reboots := fb_reboots fb1 @ [''BootLinux'']\<rparr>)
   }"

text \<open>The guards of the \<open>boot\<close> command. The page size it compares with is never set, so the test of
  the room left in the buffer is one against zero, which no unsigned value fails.\<close>

abbreviation (input) BOOT_IMG_HDR :: nat where "BOOT_IMG_HDR \<equiv> 1632"
abbreviation (input) SIGACTUAL :: u32 where "SIGACTUAL \<equiv> 4096"

text \<open>The command line of the header is terminated: byte 575 of a header up to version 2, byte 1579 of
  a later one.\<close>

definition terminate_cmdline :: "fastboot \<Rightarrow> fastboot option" where
  "terminate_cmdline fb = do {
     m \<leftarrow> mUsbDataBuffer fb;
     h \<leftarrow> mem_read m (mem_base m) BOOT_IMG_HDR;
     m' \<leftarrow> mem_store m (if le32 h 40 \<le> 2 then 575 else 1579) [0];
     Some (fb\<lparr>mUsbDataBuffer := Some m'\<rparr>)
   }"

definition boot_image :: "boot_env \<Rightarrow> u32 \<Rightarrow> fastboot \<Rightarrow> fastboot option" where
  "boot_image env Size fb = do {
     (s, fb1) \<leftarrow> load_image env ''boot'' fb;
     let ImageSizeActual = image_size_out env fb1;
     let PageSize = (0 :: u64);
     Some (if s \<noteq> EFI_SUCCESS
           then reply_fail (take (MAX_RSP_SIZE - 1) (''Failed to load/authenticate boot image: '' @ status_str (be_fb env) s)) fb1
           else if ImageSizeActual > Size then reply_fail ''BootImage is Incomplete'' fb1
           else if MaxDownLoadSize fb1 - ucast (ImageSizeActual - SIGACTUAL) < PageSize
           then reply_fail ''BootImage: Size is greater than boot image buffer can hold'' fb1
           else (reply_okay '''' fb1)\<lparr>fb_reboots := fb_reboots fb1 @ [''BootLinux'']\<rparr>)
   }"

definition boot_unlocked :: "boot_env \<Rightarrow> u32 \<Rightarrow> fastboot \<Rightarrow> fastboot option" where
  "boot_unlocked env Size fb =
     (if \<not> IsUnlocked (fb_dev fb)
      then Some (reply_fail ''Fastboot boot command is not available in locked device'' fb)
      else if unat Size < BOOT_IMG_HDR then Some (reply_fail ''Invalid Boot image Header'' fb)
      else do {
        fb1 \<leftarrow> terminate_cmdline fb;
        if PartitionHasMultiSlot (fb_ptn fb1) ''boot'' then
          let (s, p) = ClearUnbootable (fb_ptn fb1); fb2 = upd_ptn (\<lambda>_. p) fb1
          in if s \<noteq> EFI_SUCCESS then Some (reply_fail ''CmdBoot: ClearUnbootable failed'' fb2)
             else boot_image env Size fb2
        else boot_image env Size fb1
      })"

definition CmdBoot :: "boot_env \<Rightarrow> u32 \<Rightarrow> fastboot \<Rightarrow> fastboot option" where
  "CmdBoot env Size fb =
     (case mdtp env of
        Some (s, MdtpActive) \<Rightarrow>
          if EFI_ERROR s then Some (reply_fail ''Failed to get MDTP activation state, blocking fastboot boot'' fb)
          else if MdtpActive
          then Some (reply_fail ''Fastboot boot command is not available while MDTP is active'' fb)
          else boot_unlocked env Size fb
      | None \<Rightarrow> boot_unlocked env Size fb)"

section \<open>The oem commands\<close>

definition charger_reply :: "bool \<Rightarrow> string \<Rightarrow> fastboot \<Rightarrow> fastboot" where
  "charger_reply on Reason fb =
     (let (s, d) = EnableChargingScreen on (fb_dev fb); fb1 = upd_flash (\<lambda>st. st\<lparr>fs_dev := d\<rparr>) fb
      in if s \<noteq> EFI_SUCCESS then reply_fail Reason fb1 else reply_okay '''' fb1)"

definition CmdOemEnableChargerScreen :: "fastboot \<Rightarrow> fastboot" where
  "CmdOemEnableChargerScreen = charger_reply True ''Failed to enable charger screen''"

definition CmdOemDisableChargerScreen :: "fastboot \<Rightarrow> fastboot" where
  "CmdOemDisableChargerScreen = charger_reply False ''Failed to disable charger screen''"

definition CmdOemOffModeCharger :: "string \<Rightarrow> fastboot \<Rightarrow> fastboot" where
  "CmdOemOffModeCharger Arg fb = (case after_char (CHR '' '') Arg of
     None \<Rightarrow> reply_fail ''Enter fastboot oem off-mode-charge 0/1'' fb
   | Some Ptr \<Rightarrow>
       if Ptr \<noteq> ''0'' \<and> Ptr \<noteq> ''1'' then reply_fail ''Invalid input entered'' fb
       else
         let Resp = StrnCatS ''Set off mode charger: '' MAX_RSP_SIZE Arg (length Arg);
             (s, d) = EnableChargingScreen (Ptr = ''1'') (fb_dev fb);
             fb1 = upd_flash (\<lambda>st. st\<lparr>fs_dev := d\<rparr>) fb
         in if s \<noteq> EFI_SUCCESS then reply_fail (StrnCatS Resp MAX_RSP_SIZE '': failed'' 8) fb1
            else reply_okay (StrnCatS Resp MAX_RSP_SIZE '': done'' 6) fb1)"

definition CmdOemDisplayCommandLine :: "string \<Rightarrow> fastboot \<Rightarrow> fastboot option" where
  "CmdOemDisplayCommandLine Arg fb = do {
     (s, d) \<leftarrow> StoreDisplayCmdLine (ascii Arg) (of_nat (length Arg)) (fb_dev fb);
     let fb1 = upd_flash (\<lambda>st. st\<lparr>fs_dev := d\<rparr>) fb;
     Some (if s \<noteq> EFI_SUCCESS then reply_fail ''Failed to store display command line'' fb1 else reply_okay '''' fb1)
   }"

text \<open>\<open>DisplaySetVariable\<close> and \<open>DisplayGetVariable\<close>: the display protocol from revision 0x20000 on, the
  runtime variable otherwise; a missing variable is no error.\<close>

definition not_found_ok :: "efi_status \<Rightarrow> efi_status" where
  "not_found_ok s = (if s = EFI_NOT_FOUND then EFI_SUCCESS else s)"

definition use_proto :: "boot_env \<Rightarrow> bool" where
  "use_proto env \<longleftrightarrow> (case display_proto env of None \<Rightarrow> False | Some Revision \<Rightarrow> \<not> Revision < 0x20000)"

definition DisplaySetVariable :: "boot_env \<Rightarrow> string \<Rightarrow> fastboot \<Rightarrow> efi_status \<times> fastboot" where
  "DisplaySetVariable env Value fb =
     (not_found_ok ((if use_proto env then proto_set env else rt_set env) Value),
      fb\<lparr>fb_panel := fb_panel fb @ [Value]\<rparr>)"

definition DisplayGetVariable :: "boot_env \<Rightarrow> efi_status \<times> string \<times> nat" where
  "DisplayGetVariable env =
     (let (s, v, n) = (if use_proto env then proto_get env else rt_get env) in (not_found_ok s, v, n))"

text \<open>The scan of the argument: a blank is dropped and the position stays, a colon asks for appending
  and is kept, anything else ends it.\<close>

function panel_scan :: "string \<Rightarrow> nat \<Rightarrow> bool \<Rightarrow> string \<times> bool" where
  "panel_scan arg Pos Append =
     (if Pos \<ge> length arg then (arg, Append)
      else if arg ! Pos = CHR '' '' then panel_scan (tl arg) Pos Append
      else if arg ! Pos = CHR '':'' then panel_scan arg (Pos + 1) True
      else (arg, Append))"
  by auto
termination by (relation "measure (\<lambda>(arg, Pos, Append). 2 * length arg - Pos)") auto

declare panel_scan.simps [simp del]

abbreviation (input) MAX_DISPLAY_PANEL_OVERRIDE :: nat where "MAX_DISPLAY_PANEL_OVERRIDE \<equiv> 256"

definition CmdOemSelectDisplayPanel :: "boot_env \<Rightarrow> string \<Rightarrow> fastboot \<Rightarrow> fastboot" where
  "CmdOemSelectDisplayPanel env arg0 fb =
     (let (arg, Append) = panel_scan arg0 0 False;
          (s, Exist, CurStrLen) = DisplayGetVariable env;
          Str0 = (if Append \<and> s = EFI_SUCCESS \<and> CurStrLen \<noteq> 0 \<and>
                     CurStrLen + length arg < MAX_DISPLAY_PANEL_OVERRIDE
                  then StrnCatS '''' MAX_DISPLAY_PANEL_OVERRIDE Exist CurStrLen else '''');
          DisplayPanelStr = StrnCatS Str0 MAX_DISPLAY_PANEL_OVERRIDE arg (length arg);
          (s', fb1) = DisplaySetVariable env DisplayPanelStr fb
      in if EFI_ERROR s' then reply_fail ''Selecting Panel: : failed'' fb1
         else reply_okay ''Selecting Panel: : done'' fb1)"

definition CmdFlashingGetUnlockAbility :: "fastboot \<Rightarrow> fastboot" where
  "CmdFlashingGetUnlockAbility fb =
     reply_okay '''' (reply_info (''get_unlock_ability: '' @ (if IsAllowUnlock fb then ''1'' else ''0'')) fb)"

definition CmdOemDevinfo :: "fastboot \<Rightarrow> fastboot" where
  "CmdOemDevinfo fb =
     (let tf = (\<lambda>b. if b then ''true'' else ''false'') in
      reply_okay ''''
        (reply_info (''Charger screen enabled: '' @ tf (IsChargingScreenEnable (fb_dev fb)))
          (reply_info (''Device critical unlocked: '' @ tf (IsUnlockCritical (fb_dev fb)))
            (reply_info (''Device unlocked: '' @ tf (IsUnlocked (fb_dev fb)))
              (reply_info (''Verity mode: '' @ tf (IsEnforcing (fb_dev fb))) fb)))))"

section \<open>The command table\<close>

datatype handler = HFlash | HErase | HSetActive | HGetUnlockAbility | HFlashingUnlock | HFlashingLock
  | HFlashingUnLockCritical | HFlashingLockCritical | HBoot | HEnableChargerScreen | HDisableChargerScreen
  | HOffModeCharger | HSelectDisplayPanel | HDevinfo | HContinue | HReboot | HRebootRecovery
  | HRebootFastboot | HUpdateSnapshot | HRebootBootloader | HGetVar | HDownload | HDisplayCommandLine

datatype build_switch = ALWAYS | ENABLE_UPDATE_PARTITIONS_CMDS | ENABLE_DEVICE_CRITICAL_LOCK_UNLOCK_CMDS
  | ENABLE_BOOT_CMD | DYNAMIC_PARTITION_SUPPORT | VIRTUAL_AB_OTA

definition switched_on :: "boot_env \<Rightarrow> build_switch \<Rightarrow> bool" where
  "switched_on env b = (case b of ALWAYS \<Rightarrow> True | ENABLE_UPDATE_PARTITIONS_CMDS \<Rightarrow> en_update env
     | ENABLE_DEVICE_CRITICAL_LOCK_UNLOCK_CMDS \<Rightarrow> en_critical env | ENABLE_BOOT_CMD \<Rightarrow> en_boot env
     | DYNAMIC_PARTITION_SUPPORT \<Rightarrow> dynamic_partition env
     | VIRTUAL_AB_OTA \<Rightarrow> dynamic_partition env \<and> virtual_ab (be_fb env))"

text \<open>\<open>cmd_list\<close> with the switch each entry is compiled under.\<close>

definition cmd_list :: "(string \<times> build_switch \<times> handler) list" where
  "cmd_list =
     [(''flash:'', ENABLE_UPDATE_PARTITIONS_CMDS, HFlash),
      (''erase:'', ENABLE_UPDATE_PARTITIONS_CMDS, HErase),
      (''set_active'', ENABLE_UPDATE_PARTITIONS_CMDS, HSetActive),
      (''flashing get_unlock_ability'', ENABLE_UPDATE_PARTITIONS_CMDS, HGetUnlockAbility),
      (''flashing unlock'', ENABLE_UPDATE_PARTITIONS_CMDS, HFlashingUnlock),
      (''flashing lock'', ENABLE_UPDATE_PARTITIONS_CMDS, HFlashingLock),
      (''flashing unlock_critical'', ENABLE_DEVICE_CRITICAL_LOCK_UNLOCK_CMDS, HFlashingUnLockCritical),
      (''flashing lock_critical'', ENABLE_DEVICE_CRITICAL_LOCK_UNLOCK_CMDS, HFlashingLockCritical),
      (''boot'', ENABLE_BOOT_CMD, HBoot),
      (''oem enable-charger-screen'', ALWAYS, HEnableChargerScreen),
      (''oem disable-charger-screen'', ALWAYS, HDisableChargerScreen),
      (''oem off-mode-charge'', ALWAYS, HOffModeCharger),
      (''oem select-display-panel'', ALWAYS, HSelectDisplayPanel),
      (''oem device-info'', ALWAYS, HDevinfo),
      (''continue'', ALWAYS, HContinue),
      (''reboot'', ALWAYS, HReboot),
      (''reboot-recovery'', DYNAMIC_PARTITION_SUPPORT, HRebootRecovery),
      (''reboot-fastboot'', DYNAMIC_PARTITION_SUPPORT, HRebootFastboot),
      (''snapshot-update'', VIRTUAL_AB_OTA, HUpdateSnapshot),
      (''reboot-bootloader'', ALWAYS, HRebootBootloader),
      (''getvar:'', ALWAYS, HGetVar),
      (''download:'', ALWAYS, HDownload),
      (''oem display-cmdline'', ALWAYS, HDisplayCommandLine)]"

text \<open>The list of registered commands, the newest first.\<close>

definition FastbootRegister :: "boot_env \<Rightarrow> string \<Rightarrow> handler \<Rightarrow> (string \<times> handler) list \<Rightarrow> (string \<times> handler) list" where
  "FastbootRegister env pre h cmdlist = (if alloc_cmd env pre then (pre, h) # cmdlist else cmdlist)"

fun register_all :: "boot_env \<Rightarrow> (string \<times> build_switch \<times> handler) list \<Rightarrow> (string \<times> handler) list \<Rightarrow> (string \<times> handler) list" where
  "register_all env [] cmdlist = cmdlist"
| "register_all env ((pre, b, h) # cs) cmdlist =
     register_all env cs (if switched_on env b then FastbootRegister env pre h cmdlist else cmdlist)"

text \<open>The search of \<open>AcceptCmd\<close>: the first registered prefix of the command, and the rest of it.\<close>

fun find_cmd :: "(string \<times> handler) list \<Rightarrow> string \<Rightarrow> (handler \<times> string) option" where
  "find_cmd [] Data = None"
| "find_cmd ((pre, h) # cmds) Data =
     (if AsciiStrnCmp Data pre (length pre) then find_cmd cmds Data else Some (h, drop (length pre) Data))"

definition handle :: "boot_env \<Rightarrow> handler \<Rightarrow> string \<Rightarrow> mem_buf option \<Rightarrow> u32 \<Rightarrow> fastboot \<Rightarrow> fastboot option" where
  "handle env h arg data sz fb = (case h of
     HFlash \<Rightarrow> CmdFlash (be_fb env) arg data sz fb
   | HErase \<Rightarrow> CmdErase (be_fb env) arg fb
   | HSetActive \<Rightarrow> CmdSetActive (be_fb env) arg fb
   | HGetUnlockAbility \<Rightarrow> Some (CmdFlashingGetUnlockAbility fb)
   | HFlashingUnlock \<Rightarrow> SetDeviceUnlock (be_fb env) UNLOCK True fb
   | HFlashingLock \<Rightarrow> SetDeviceUnlock (be_fb env) UNLOCK False fb
   | HFlashingUnLockCritical \<Rightarrow> SetDeviceUnlock (be_fb env) UNLOCK_CRITICAL True fb
   | HFlashingLockCritical \<Rightarrow> SetDeviceUnlock (be_fb env) UNLOCK_CRITICAL False fb
   | HBoot \<Rightarrow> CmdBoot env sz fb
   | HEnableChargerScreen \<Rightarrow> Some (CmdOemEnableChargerScreen fb)
   | HDisableChargerScreen \<Rightarrow> Some (CmdOemDisableChargerScreen fb)
   | HOffModeCharger \<Rightarrow> Some (CmdOemOffModeCharger arg fb)
   | HSelectDisplayPanel \<Rightarrow> Some (CmdOemSelectDisplayPanel env arg fb)
   | HDevinfo \<Rightarrow> Some (CmdOemDevinfo fb)
   | HContinue \<Rightarrow> CmdContinue env fb
   | HReboot \<Rightarrow> CmdReboot env fb
   | HRebootRecovery \<Rightarrow> CmdRebootRecovery env fb
   | HRebootFastboot \<Rightarrow> CmdRebootFastboot env fb
   | HUpdateSnapshot \<Rightarrow> CmdUpdateSnapshot env arg fb
   | HRebootBootloader \<Rightarrow> CmdRebootBootloader env fb
   | HGetVar \<Rightarrow> CmdGetVar (be_fb env) arg fb
   | HDownload \<Rightarrow> Some (CmdDownload arg fb)
   | HDisplayCommandLine \<Rightarrow> CmdOemDisplayCommandLine arg fb)"

section \<open>Accepting a command\<close>

abbreviation (input) MAX_FASTBOOT_COMMAND_SIZE :: u64 where "MAX_FASTBOOT_COMMAND_SIZE \<equiv> 64"

definition cmd_size :: "u64 \<Rightarrow> nat" where
  "cmd_size Size = unat (if Size > MAX_FASTBOOT_COMMAND_SIZE then MAX_FASTBOOT_COMMAND_SIZE else Size)"

text \<open>The text of a command, up to its terminator.\<close>

definition cmd_text :: "nat \<Rightarrow> bytes \<Rightarrow> string" where
  "cmd_text n b = List.map (\<lambda>x. char_of (unat x)) (takeWhile (\<lambda>x. x \<noteq> 0) (take n b))"

definition begins :: "string \<Rightarrow> string \<Rightarrow> bool" where
  "begins Data pre \<longleftrightarrow> \<not> AsciiStrnCmp Data pre (length pre)"

text \<open>The result of an earlier flash is reported at the next flash or download: whether the command
  stops here.\<close>

definition last_flash_failed :: "boot_env \<Rightarrow> string \<Rightarrow> fastboot \<Rightarrow> bool \<times> fastboot" where
  "last_flash_failed env Data fb =
     (if FlashResult fb \<noteq> EFI_SUCCESS \<and> (begins Data ''flash'' \<or> begins Data ''download'')
      then (True, reply_fail (take (MAX_RSP_SIZE - 1) (''Error: Last flash failed : '' @
              status_str (be_fb env) (FlashResult fb))) fb\<lparr>FlashResult := EFI_SUCCESS\<rparr>)
      else (False, fb))"

definition battery_low :: "boot_env \<Rightarrow> string \<Rightarrow> fastboot \<Rightarrow> bool \<times> fastboot" where
  "battery_low env Data fb =
     (if \<not> battery_check (be_fb env) then (False, fb)
      else if IsFirstEraseFlash fb then
        if begins Data ''erase'' \<or> begins Data ''flash'' then
          if \<not> fst (battery (be_fb env))
          then (True, reply_fail (''Warning: battery's capacity is very low'' @ [CHR 0x0A]) fb)
          else (False, fb\<lparr>IsFirstEraseFlash := False\<rparr>)
        else (False, fb)
      else (False, if begins Data ''getvar:partition-type'' then fb\<lparr>IsFirstEraseFlash := True\<rparr> else fb))"

definition dispatch :: "boot_env \<Rightarrow> (string \<times> handler) list \<Rightarrow> string \<Rightarrow> fastboot \<Rightarrow> fastboot option" where
  "dispatch env cmds Data fb = (case find_cmd cmds Data of
     None \<Rightarrow> Some (reply_fail ''unknown command'' fb)
   | Some (h, arg) \<Rightarrow> handle env h arg (mUsbDataBuffer fb) (ucast (mBytesReceivedSoFar fb)) fb)"

definition run_cmd :: "boot_env \<Rightarrow> (string \<times> handler) list \<Rightarrow> string \<Rightarrow> fastboot \<Rightarrow> fastboot option" where
  "run_cmd env cmds Data fb =
     (let (stop, fb1) = (if parallel_disabled (be_fb env) then (False, fb) else last_flash_failed env Data fb) in
      if stop then Some fb1
      else
        let (stop', fb2) = battery_low env Data fb1
        in if stop' then Some fb2 else dispatch env cmds Data fb2)"

definition AcceptCmdTimerInit :: "boot_env \<Rightarrow> u64 \<Rightarrow> session \<Rightarrow> efi_status \<times> session" where
  "AcceptCmdTimerInit env Size s =
     (if \<not> cmd_alloc (be_usb env) then (EFI_OUT_OF_RESOURCES, s)
      else if cmd_timer (be_fb env) \<noteq> EFI_SUCCESS then (cmd_timer (be_fb env), s)
      else (EFI_SUCCESS, s\<lparr>ss_deferred := ss_deferred s @ [Size]\<rparr>))"

definition AcceptCmd :: "boot_env \<Rightarrow> (string \<times> handler) list \<Rightarrow> u64 \<Rightarrow> session \<Rightarrow> session option" where
  "AcceptCmd env cmds Size0 s0 =
     (let n = cmd_size Size0 in
      if n \<ge> length (ss_rx s0) then None
      else
        let s = s0\<lparr>ss_rx := (ss_rx s0)[n := 0]\<rparr>; Data = cmd_text n (ss_rx s);
            wait = (\<not> parallel_disabled (be_fb env) \<and> \<not> begins Data ''download'');
            s1 = (if wait then upd_fb StopUsbTimer s else s);
            (st, s2) = (if wait \<and> \<not> IsFlashComplete (ss_fb s1) \<and> \<not> mt_flash (be_fb env)
                        then AcceptCmdTimerInit env (of_nat n) s1 else (EFI_NOT_STARTED, s1))
        in if st = EFI_SUCCESS then Some s2
           else do {
             fb \<leftarrow> run_cmd env cmds Data (ss_fb s2);
             Some (s2\<lparr>ss_fb := fb\<rparr>)
           })"

text \<open>The timer event of a command that had to wait.\<close>

definition AcceptCmdHandler :: "boot_env \<Rightarrow> (string \<times> handler) list \<Rightarrow> session \<Rightarrow> session option" where
  "AcceptCmdHandler env cmds s = (case ss_deferred s of
     [] \<Rightarrow> Some s | Size # ds \<Rightarrow> AcceptCmd env cmds Size (s\<lparr>ss_deferred := ds\<rparr>))"

section \<open>USB events\<close>

definition DataReady :: "boot_env \<Rightarrow> (string \<times> handler) list \<Rightarrow> u64 \<Rightarrow> session \<Rightarrow> session option" where
  "DataReady env cmds Size s = (case mState (ss_fb s) of
     ExpectCmdState \<Rightarrow> AcceptCmd env cmds Size s
   | ExpectDataState \<Rightarrow> AcceptData (be_usb env) Size s)"

datatype usb_status = CompleteOK | Cancelled | OtherStatus

definition ProcessBulkXfrCompleteRx :: "boot_env \<Rightarrow> (string \<times> handler) list \<Rightarrow> usb_status \<Rightarrow> u64 \<Rightarrow> session \<Rightarrow>
    (efi_status \<times> session) option" where
  "ProcessBulkXfrCompleteRx env cmds st BytesCompleted s = (case st of
     CompleteOK \<Rightarrow> map_option (Pair EFI_SUCCESS) (DataReady env cmds BytesCompleted s)
   | Cancelled \<Rightarrow> Some (EFI_ABORTED, s)
   | OtherStatus \<Rightarrow> Some (EFI_DEVICE_ERROR, s))"

definition ProcessBulkXfrCompleteTx :: "boot_env \<Rightarrow> usb_status \<Rightarrow> session \<Rightarrow> efi_status \<times> session" where
  "ProcessBulkXfrCompleteTx env st s = (case st of
     CompleteOK \<Rightarrow> Send_in (be_usb env) (if mState (ss_fb s) = ExpectDataState then Dload 0 else RxBuffer)
                     (GetXfrSize (ss_fb s)) s
   | Cancelled \<Rightarrow> (EFI_ABORTED, s)
   | OtherStatus \<Rightarrow> (EFI_DEVICE_ERROR, s))"

text \<open>An event of the USB driver: a connection, a finished transfer (from the host with its bytes, or to
  the host), or one that is ignored.\<close>

datatype usb_event = Connected | Disconnected | Rx usb_status bytes | Tx usb_status | OtherEvent

definition HandleUsbEvents :: "boot_env \<Rightarrow> (string \<times> handler) list \<Rightarrow> usb_event \<Rightarrow> session \<Rightarrow> (efi_status \<times> session) option" where
  "HandleUsbEvents env cmds e s = (case e of
     Connected \<Rightarrow> Some (Send_in (be_usb env) RxBuffer 511 s)
   | Disconnected \<Rightarrow> Some (EFI_SUCCESS, s)
   | Rx st bs \<Rightarrow> do {
       s' \<leftarrow> (if st = CompleteOK then rx_store bs s else Some (s\<lparr>ss_queue := None\<rparr>));
       ProcessBulkXfrCompleteRx env cmds st (of_nat (length bs)) s'
     }
   | Tx st \<Rightarrow> Some (ProcessBulkXfrCompleteTx env st s)
   | OtherEvent \<Rightarrow> Some (EFI_SUCCESS, s))"

text \<open>The loop of \<open>FastbootInitialize\<close> over a list of events: it leaves on an error other than
  \<open>EFI_ABORTED\<close> or when a command or a fatal error finished the application.\<close>

fun event_loop :: "boot_env \<Rightarrow> (string \<times> handler) list \<Rightarrow> usb_event list \<Rightarrow> session \<Rightarrow> session option" where
  "event_loop env cmds [] s = Some s"
| "event_loop env cmds (e # es) s = do {
     (st, s') \<leftarrow> HandleUsbEvents env cmds e s;
     if EFI_ERROR st \<and> st \<noteq> EFI_ABORTED \<or> Finished (ss_fb s') then Some s'
     else event_loop env cmds es s'
   }"

section \<open>The longest prefix wins\<close>

definition registered :: "boot_env \<Rightarrow> (string \<times> build_switch \<times> handler) list \<Rightarrow> (string \<times> handler) list" where
  "registered env cs = List.map (\<lambda>(pre, b, h). (pre, h)) (filter (\<lambda>(pre, b, h). switched_on env b \<and> alloc_cmd env pre) cs)"

lemma register_all_eq: "register_all env cs acc = rev (registered env cs) @ acc"
  by (induction env cs acc rule: register_all.induct) (auto simp: registered_def FastbootRegister_def)

text \<open>No command is a prefix of one registered before it.\<close>

definition newer_first :: "(string \<times> handler) list \<Rightarrow> bool" where
  "newer_first cmds \<longleftrightarrow> sorted_wrt (\<lambda>p q. take (length (fst p)) (fst q) \<noteq> fst p) cmds"

lemma cmd_list_order: "sorted_wrt (\<lambda>q p. take (length (fst p)) (fst q) \<noteq> fst p) cmd_list"
  by code_simp

lemma registered_newer_first: "newer_first (rev (registered env cmd_list))"
proof -
  have "sorted_wrt (\<lambda>q p. take (length (fst p)) (fst q) \<noteq> fst p) (filter P cmd_list)" for P
    using cmd_list_order by (rule sorted_wrt_filter)
  then show ?thesis
    unfolding newer_first_def registered_def sorted_wrt_rev sorted_wrt_map by (simp add: split_beta)
qed

lemma begins_iff: "begins Data pre \<longleftrightarrow> take (length pre) Data = pre"
  by (simp add: begins_def AsciiStrnCmp_def)

lemma find_cmd_first:
  assumes "newer_first cmds"
  shows "find_cmd cmds Data = Some (h, arg) \<longleftrightarrow> (\<exists>pre. (pre, h) \<in> set cmds \<and> Data = pre @ arg \<and>
    (\<forall>(p, _)\<in>set cmds. begins Data p \<longrightarrow> length p \<le> length pre))"
  using assms
proof (induction cmds)
  case (Cons c cmds)
  obtain q k where c: "c = (q, k)" by fastforce
  have R: "take (length q) p \<noteq> q" if "(p, h') \<in> set cmds" for p h'
    using Cons.prems that by (auto simp: newer_first_def c)
  have IH: "find_cmd cmds Data = Some (h, arg) \<longleftrightarrow> (\<exists>pre. (pre, h) \<in> set cmds \<and> Data = pre @ arg \<and>
    (\<forall>(p, _)\<in>set cmds. begins Data p \<longrightarrow> length p \<le> length pre))"
    using Cons by (simp add: newer_first_def)
  show ?case
  proof (cases "begins Data q")
    case False
    then have eq: "find_cmd (c # cmds) Data = find_cmd cmds Data" and "Data \<noteq> q @ arg"
      by (auto simp: c begins_iff begins_def AsciiStrnCmp_def)
    then show ?thesis unfolding eq IH using False by (auto simp: c)
  next
    case True
    then have d: "take (length q) Data = q" by (simp add: begins_iff)
    have shorter: "length p < length q" if "(p, h') \<in> set cmds" "begins Data p" for p h'
    proof (rule ccontr)
      assume "\<not> length p < length q"
      moreover have "take (length p) Data = p" using that(2) by (simp add: begins_iff)
      ultimately have "take (length q) p = q" using d by (metis min.absorb1 not_less take_take)
      then show False using R [OF that(1)] by simp
    qed
    have f: "find_cmd (c # cmds) Data = Some (k, drop (length q) Data)" using True by (simp add: c begins_def)
    have q: "Data = q @ drop (length q) Data" using d by (metis append_take_drop_id)
    show ?thesis
    proof
      assume "find_cmd (c # cmds) Data = Some (h, arg)"
      then show "\<exists>pre. (pre, h) \<in> set (c # cmds) \<and> Data = pre @ arg \<and>
          (\<forall>(p, _)\<in>set (c # cmds). begins Data p \<longrightarrow> length p \<le> length pre)"
        using f q shorter by (intro exI [of _ q]) (fastforce simp: c)
    next
      assume "\<exists>pre. (pre, h) \<in> set (c # cmds) \<and> Data = pre @ arg \<and>
          (\<forall>(p, _)\<in>set (c # cmds). begins Data p \<longrightarrow> length p \<le> length pre)"
      then obtain pre where p: "(pre, h) \<in> set (c # cmds)" "Data = pre @ arg" "length q \<le> length pre"
        using True by (auto simp: c)
      then have "(pre, h) \<notin> set cmds" using shorter [of pre h] by (auto simp: begins_iff)
      then show "find_cmd (c # cmds) Data = Some (h, arg)" using f p by (auto simp: c)
    qed
  qed
qed simp

text \<open>C22. The search from the newest registered command finds the command with the longest registered
  prefix of the text: \<open>reboot-bootloader\<close> is never taken for \<open>reboot\<close>, nor \<open>flashing unlock_critical\<close>
  for \<open>flashing unlock\<close>, whichever build switches are on and whichever registrations failed.\<close>

theorem find_cmd_longest:
  "find_cmd (register_all env cmd_list []) Data = Some (h, arg) \<longleftrightarrow>
    (\<exists>pre b. (pre, b, h) \<in> set cmd_list \<and> switched_on env b \<and> alloc_cmd env pre \<and> Data = pre @ arg \<and>
      (\<forall>(p, c, _)\<in>set cmd_list. switched_on env c \<and> alloc_cmd env p \<and> begins Data p \<longrightarrow> length p \<le> length pre))"
proof -
  let ?live = "\<lambda>p c. switched_on env c \<and> alloc_cmd env p"
  have mem: "(p, k) \<in> set (rev (registered env cmd_list)) \<longleftrightarrow> (\<exists>c. (p, c, k) \<in> set cmd_list \<and> ?live p c)" for p k
    by (auto simp: registered_def image_iff)
  have "(\<forall>(p, _)\<in>set (rev (registered env cmd_list)). begins Data p \<longrightarrow> length p \<le> n) \<longleftrightarrow>
      (\<forall>p k. (p, k) \<in> set (rev (registered env cmd_list)) \<longrightarrow> begins Data p \<longrightarrow> length p \<le> n)" for n by blast
  also have "\<dots> n \<longleftrightarrow> (\<forall>(p, c, _)\<in>set cmd_list. ?live p c \<and> begins Data p \<longrightarrow> length p \<le> n)" for n
    unfolding mem by blast
  finally have all: "(\<forall>(p, _)\<in>set (rev (registered env cmd_list)). begins Data p \<longrightarrow> length p \<le> n) \<longleftrightarrow>
      (\<forall>(p, c, _)\<in>set cmd_list. ?live p c \<and> begins Data p \<longrightarrow> length p \<le> n)" for n .
  show ?thesis
    unfolding register_all_eq append_Nil2 find_cmd_first [OF registered_newer_first] all mem by blast
qed

end
