(* ===== verification/FastbootSafety.thy ===== *)
theory FastbootSafety
  imports FastbootProtocol
begin

text \<open>
  What every event of a fastboot session preserves. The first sections follow the control fields of
  the application (protocol state, download sizes, unlock permission) through each command of
  \<open>FastbootCommands\<close> and \<open>FastbootProtocol\<close>. The state machine over the
  events, in \<open>FastbootMachine\<close>, and its lock, in \<open>FastbootLock\<close>, rest on these lemmas.
\<close>

section \<open>The control fields\<close>

definition control :: "fastboot \<Rightarrow> ANDROID_FASTBOOT_STATE \<times> u64 \<times> u64 \<times> u64 \<times> bool \<times> bool" where
  "control fb = (mState fb, mNumDataBytes fb, mBytesReceivedSoFar fb, MaxDownLoadSize fb, IsAllowUnlock fb, IsFlashComplete fb)"

lemma control_flash [simp]: "control (fb\<lparr>fb_flash := st\<rparr>) = control fb"
  by (simp add: control_def)

lemma control_other [simp]:
  "control (fb\<lparr>VirtualAbMsg := v\<rparr>) = control fb" "control (fb\<lparr>FlashResult := s\<rparr>) = control fb"
  "control (fb\<lparr>Varlist := vs\<rparr>) = control fb" "control (fb\<lparr>SlotSuffixArray := arr\<rparr>) = control fb"
  "control (fb\<lparr>InitialPopulate := b\<rparr>) = control fb" "control (fb\<lparr>IsFirstEraseFlash := b\<rparr>) = control fb"
  "control (fb\<lparr>fb_reboots := rs\<rparr>) = control fb" "control (fb\<lparr>fb_panel := rs\<rparr>) = control fb"
  "control (fb\<lparr>Finished := b\<rparr>) = control fb" "control (fb\<lparr>gpt_glob := g\<rparr>) = control fb"
  "control (fb\<lparr>mFlashDataBuffer := m\<rparr>) = control fb" "control (fb\<lparr>mUsbDataBuffer := m\<rparr>) = control fb"
  "control (fb\<lparr>mFlashNumDataBytes := n\<rparr>) = control fb" "control (fb\<lparr>UsbTimerStarted := b\<rparr>) = control fb"
  "control (fb\<lparr>fb_pending := p\<rparr>) = control fb"
  by (simp_all add: control_def)

lemma control_helpers [simp]:
  "control (upd_flash f fb) = control fb" "control (upd_ptn g fb) = control fb" "control (set_static a b fb) = control fb"
  "control (reply_fail r fb) = control fb" "control (reply_okay r fb) = control fb" "control (reply_info r fb) = control fb"
  "control (FastbootPublishVar env n v fb) = control fb" "control (ClearFastbootVarsofAB fb) = control fb"
  "control (drop_slot_vars fb) = control fb" "control (StopUsbTimer fb) = control fb"
  "control (getvar_slot env t fb) = control fb" "control (UpdateGetVarVariable env fb) = control fb"
  "control (flash_out arg fb) = control fb" "control (flash_reply env Name fb) = control fb"
  "control (erase_user_key fb) = control fb"
  by (simp_all add: control_def upd_flash_def upd_ptn_def set_static_def reply_fail_def reply_okay_def reply_info_def
      FastbootPublishVar_def ClearFastbootVarsofAB_def drop_slot_vars_def StopUsbTimer_def getvar_slot_def
      UpdateGetVarVariable_def Let_def flash_out_def flash_reply_def erase_user_key_def split: prod.split)

lemma control_set_lun: "set_lun Name fb = (go, fb') \<Longrightarrow> control fb' = control fb"
  by (auto simp: set_lun_def Let_def split: option.split_asm if_split_asm)

section \<open>The commands keep them\<close>

lemma control_publish_slots: "publish_slots env es j fb = Some fb' \<Longrightarrow> control fb' = control fb"
  by (induction env es j fb rule: publish_slots.induct) (auto simp: Let_def split: if_split_asm option.split_asm)

lemma control_FastbootPublishSlotVars: "FastbootPublishSlotVars env fb = Some fb' \<Longrightarrow> control fb' = control fb"
  by (auto simp: FastbootPublishSlotVars_def Let_def elim!: bind_SomeE split: prod.split_asm dest!: control_publish_slots)

lemma control_PopulateMultislotMetadata: "PopulateMultislotMetadata env fb = Some fb' \<Longrightarrow> control fb' = control fb"
  by (auto simp: PopulateMultislotMetadata_def Let_def elim!: bind_SomeE split: prod.split_asm if_split_asm
      dest!: control_FastbootPublishSlotVars)

lemma control_ReenumeratePartTable: "ReenumeratePartTable env fb = Some (s, fb') \<Longrightarrow> control fb' = control fb"
  by (auto simp: ReenumeratePartTable_def Let_def elim!: bind_SomeE bind2_SomeE split: if_split_asm
      dest!: control_PopulateMultislotMetadata)

lemma control_snapshot_status: "snapshot_status env fb = Some (s, fb') \<Longrightarrow> control fb' = control fb"
  by (auto simp: snapshot_status_def elim!: bind2_SomeE)

lemma control_cancel_snapshot: "cancel_snapshot env fb = Some (s, fb') \<Longrightarrow> control fb' = control fb"
  by (auto simp: cancel_snapshot_def Let_def elim!: bind3_SomeE split: if_split_asm)

lemma control_CheckVirtualAb: "CheckVirtualAbCriticalPartition env Name fb = Some (c, fb') \<Longrightarrow> control fb' = control fb"
  by (auto simp: CheckVirtualAbCriticalPartition_def elim!: bind2_SomeE dest!: control_snapshot_status)

lemma control_snapshot_guard: "snapshot_guard env verb Name fb = Some (go, fb') \<Longrightarrow> control fb' = control fb"
  by (auto simp: snapshot_guard_def elim!: bind2_SomeE split: if_split_asm
      dest!: control_CheckVirtualAb control_snapshot_status control_cancel_snapshot)

lemma control_flash_table: "flash_table env Name m fb = Some fb' \<Longrightarrow> control fb' = control fb"
  by (auto simp: flash_table_def Let_def elim!: bind_SomeE bind2_SomeE bind3_SomeE split: if_split_asm prod.split_asm
      dest!: control_ReenumeratePartTable)

lemma control_flash_other: "flash_other env arg Name m magic4 fb = Some fb' \<Longrightarrow> control fb' = control fb"
  by (auto simp: flash_other_def Let_def elim!: bind3_SomeE)

lemma control_flash_user_key: "flash_user_key key sz fb = Some fb' \<Longrightarrow> control fb' = control fb"
  by (auto simp: flash_user_key_def Let_def elim!: bind2_SomeE split: if_split_asm)

lemma control_erase_partition: "erase_partition env b arg fb = Some fb' \<Longrightarrow> control fb' = control fb"
  by (auto simp: erase_partition_def Let_def elim!: bind_SomeE bind2_SomeE split: if_split_asm prod.split_asm)

text \<open>The flashing thread may be started, and is run to its end by what waits for it.\<close>

definition kept :: "fastboot_env \<Rightarrow> fastboot \<Rightarrow> fastboot \<Rightarrow> bool" where
  "kept env fb fb' \<longleftrightarrow> mState fb' = mState fb \<and> mNumDataBytes fb' = mNumDataBytes fb \<and>
     mBytesReceivedSoFar fb' = mBytesReceivedSoFar fb \<and> MaxDownLoadSize fb' = MaxDownLoadSize fb \<and>
     IsAllowUnlock fb' = IsAllowUnlock fb \<and>
     (IsFlashComplete fb \<or> mt_flash env \<longrightarrow> IsFlashComplete fb' \<or> mt_flash env)"

lemma kept_control: "control fb' = control fb \<Longrightarrow> kept env fb fb'"
  by (simp add: control_def kept_def)

lemma kept_trans: "kept env fb1 fb2 \<Longrightarrow> kept env fb2 fb3 \<Longrightarrow> kept env fb1 fb3"
  by (auto simp: kept_def)

lemma kept_after: "kept env fb1 fb' \<Longrightarrow> control fb1 = control fb \<Longrightarrow> kept env fb fb'"
  by (simp add: control_def kept_def)

lemma kept_before: "kept env fb fb1 \<Longrightarrow> control fb' = control fb1 \<Longrightarrow> kept env fb fb'"
  by (simp add: control_def kept_def)

lemma kept_thread: "SparseImgFlashThread env fb = Some fb' \<Longrightarrow> kept env fb fb'"
  by (auto simp: SparseImgFlashThread_def kept_def elim!: bind2_SomeE split: option.split_asm)

lemma kept_wait: "WaitForFlashFinished env fb = Some fb' \<Longrightarrow> kept env fb fb'"
  by (auto simp: WaitForFlashFinished_def kept_thread kept_control split: if_split_asm)

lemma kept_exchange: "ExchangeFlashAndUsbDataBuf env fb = Some fb' \<Longrightarrow> kept env fb fb'"
  by (auto simp: ExchangeFlashAndUsbDataBuf_def kept_control elim!: bind_SomeE split: if_split_asm
      dest!: kept_thread intro: kept_trans)

lemma kept_run_sparse: "run_sparse env Name m fb = Some fb' \<Longrightarrow> kept env fb fb' \<and> IsFlashComplete fb'"
  by (auto simp: run_sparse_def kept_def StopUsbTimer_def elim!: bind2_SomeE)

lemma start_parallel_control:
  assumes "start_parallel env Name m fb = Some (s, fb')"
  shows "control (fb'\<lparr>IsFlashComplete := IsFlashComplete fb\<rparr>) = control fb"
    and "mt_flash env \<Longrightarrow> \<not> EFI_ERROR s \<or> IsFlashComplete fb' = IsFlashComplete fb"
  using assms by (auto simp: start_parallel_def CreateSparseImgFlashThread_def Let_def control_def StopUsbTimer_def
      split: if_split_asm)

lemma kept_flash_sparse:
  assumes run: "flash_sparse env arg Name m fb = Some fb'"
  shows "kept env fb fb'"
proof (cases "control fb' = control fb")
  case False
  obtain h n sfx st where rs: "resolve_slot Name (fb_flash fb) = (h, n, sfx, st)" by (cases "resolve_slot Name (fb_flash fb)")
  let ?fb = "fb\<lparr>fb_flash := st\<rparr>"
  obtain hi where gi: "PartitionGetInfo (fe_flash env) n st = Some (Some hi)"
    using run False by (auto simp: flash_sparse_def rs Let_def elim!: bind_SomeE split: option.split_asm)
  let ?size = "GetPartitionSize (Some (BlkIo hi))"
  let ?large = "?size > MaxDownLoadSize fb \<and> \<not> parallel_disabled env"
  have nz: "?size \<noteq> 0" using run False gi by (auto simp: flash_sparse_def rs Let_def)
  obtain s fb1 where st: "(if ?large then start_parallel env n m ?fb else Some (EFI_SUCCESS, ?fb)) = Some (s, fb1)"
    using run False gi nz by (cases "if ?large then start_parallel env n m ?fb else Some (EFI_SUCCESS, ?fb)")
      (auto simp: flash_sparse_def rs Let_def)
  have k1: "control (fb1\<lparr>IsFlashComplete := IsFlashComplete fb\<rparr>) = control fb"
    using st start_parallel_control(1) [of env n m ?fb s fb1] by (auto simp: control_def split: if_split_asm)
  let ?fb2 = "if ?large \<and> \<not> EFI_ERROR s then reply_okay '''' fb1 else fb1"
  have k2: "control (?fb2\<lparr>IsFlashComplete := IsFlashComplete fb\<rparr>) = control fb"
    using k1 by (auto simp: reply_okay_def upd_flash_def control_def)
  let ?again = "EFI_ERROR s \<or> \<not> mt_flash env \<or> ?size \<le> MaxDownLoadSize ?fb2"
  obtain fb3 where f3: "(if ?again then run_sparse env n m ?fb2 else Some ?fb2) = Some fb3"
    and c3: "control fb' = control fb3"
    using run gi nz st by (auto simp: flash_sparse_def rs Let_def elim!: bind_SomeE split: if_split_asm)
  show ?thesis
  proof (cases ?again)
    case True
    then have "kept env ?fb2 fb3 \<and> IsFlashComplete fb3" using f3 kept_run_sparse by simp
    then show ?thesis using k2 c3 by (auto simp: kept_def control_def)
  next
    case False
    then have "fb3 = ?fb2" "mt_flash env" using f3 by auto
    then show ?thesis using k2 c3 by (auto simp: kept_def control_def)
  qed
qed (simp add: kept_control)

lemma kept_flash_image:
  assumes run: "flash_image env arg Name m fb = Some fb'"
  shows "kept env fb fb'"
proof -
  obtain go fb1 where l: "set_lun Name fb = (go, fb1)" by fastforce
  have "kept env fb1 fb'"
    using run
    by (auto simp: flash_image_def l elim!: bind_SomeE split: if_split_asm
        intro: kept_control kept_flash_sparse kept_control [OF control_flash_other] dest!: control_flash_table)
  then show ?thesis by (rule kept_after) (rule control_set_lun [OF l])
qed

lemma kept_CmdFlash:
  assumes "CmdFlash env arg data sz fb = Some fb'"
  shows "kept env fb fb'"
proof -
  obtain fb1 where e: "ExchangeFlashAndUsbDataBuf env (upd_flash (\<lambda>st. st\<lparr>LunSet := False\<rparr>) fb) = Some fb1"
    using assms by (auto simp: CmdFlash_def elim!: bind_SomeE)
  have "kept env fb1 fb'"
  proof (cases "control fb' = control fb1")
    case False
    then obtain go fb2 where g: "snapshot_guard env ''Flashing'' arg fb1 = Some (go, fb2)"
      using assms e by (auto simp: CmdFlash_def elim!: bind2_SomeE split: option.split_asm if_split_asm)
    have "kept env fb2 fb'"
      using assms e g False control_snapshot_guard [OF g] kept_flash_image [of env arg arg _ fb2 fb']
      by (auto simp: CmdFlash_def split: option.split_asm if_split_asm dest!: control_flash_user_key)
    then show ?thesis by (rule kept_after) (rule control_snapshot_guard [OF g])
  qed (rule kept_control)
  with kept_after [OF kept_exchange [OF e], of fb] show ?thesis by (auto intro: kept_trans)
qed

lemma kept_CmdErase:
  assumes "CmdErase env arg fb = Some fb'"
  shows "kept env fb fb'"
proof -
  obtain fb1 where e: "WaitForFlashFinished env fb = Some fb1"
    using assms by (auto simp: CmdErase_def Let_def elim!: bind_SomeE)
  have "kept env fb1 fb'"
    using assms e
    by (auto simp: CmdErase_def Let_def kept_control elim!: bind2_SomeE split: option.split_asm if_split_asm
        dest!: control_snapshot_guard control_erase_partition)
  with kept_wait [OF e] show ?thesis by (rule kept_trans)
qed

lemma control_CmdSetActive:
  assumes run: "CmdSetActive env arg fb = Some fb'"
  shows "control fb' = control fb"
proof (cases "TargetBuildVariantUser env \<and> \<not> IsUnlocked (fb_dev fb) \<or> \<not> PartitionHasMultiSlot (fb_ptn fb) ''boot''")
  case True
  then show ?thesis using run by (auto simp: CmdSetActive_def split: if_split_asm)
next
  case False
  obtain s fb1 where e: "(if virtual_ab env then snapshot_status env fb else Some (merge_code NONE_MERGE_STATUS, fb)) = Some (s, fb1)"
    using run False unfolding CmdSetActive_def Let_def by (auto elim!: bind2_SomeE split: if_split_asm)
  have c: "control fb1 = control fb" using e control_snapshot_status by (auto split: if_split_asm)
  have "control fb' = control fb1"
    using run False unfolding CmdSetActive_def Let_def e
    by (auto elim!: bind_SomeE bind2_SomeE split: option.split_asm if_split_asm prod.split_asm)
  then show ?thesis using c by simp
qed

lemma kept_reboot: "RebootDevice env r fb = Some fb' \<Longrightarrow> kept env fb fb'"
  by (auto simp: RebootDevice_def elim!: bind_SomeE intro: kept_before [OF kept_wait])

lemma kept_SetDeviceUnlock:
  assumes "SetDeviceUnlock env Type State fb = Some fb'"
  shows "kept env fb fb'"
proof (cases "control fb' = control fb")
  case False
  then obtain s d l where "RebootDevice env ''RECOVERY_MODE'' (reply_okay ''''
      (upd_flash (\<lambda>st. st\<lparr>fs_dev := d, fs_log := l\<rparr>) fb)) = Some fb'"
    using assms unfolding SetDeviceUnlock_def Let_def by (auto elim!: bind3_SomeE split: if_split_asm)
  then show ?thesis by (auto dest!: kept_reboot intro: kept_after)
qed (simp add: kept_control)

lemma control_info_lines: "info_lines vs fb = Some fb' \<Longrightarrow> control fb' = control fb"
  by (induction vs fb rule: info_lines.induct) (auto elim!: bind_SomeE)

lemma control_CmdGetVar: "CmdGetVar env arg fb = Some fb' \<Longrightarrow> control fb' = control fb"
  by (auto simp: CmdGetVar_def CmdGetVarAll_def Let_def elim!: bind_SomeE split: if_split_asm option.split_asm
      dest!: control_info_lines)

lemma kept_reboot_message: "reboot_message env msg mode fb = Some fb' \<Longrightarrow> kept (be_fb env) fb fb'"
  by (auto simp: reboot_message_def Let_def kept_control elim!: bind2_SomeE split: if_split_asm
      dest!: kept_reboot elim!: kept_after)

lemma kept_CmdUpdateSnapshot:
  assumes "CmdUpdateSnapshot env arg fb = Some fb'"
  shows "kept (be_fb env) fb fb'"
proof (cases "control fb' = control fb")
  case False
  then obtain s fb1 fb2 where c: "snapshot_status (be_fb env) fb = Some (s, fb1)"
      "CmdRebootFastboot env fb1 = Some fb2" "control fb' = control fb2"
    using assms
    by (auto simp: CmdUpdateSnapshot_def control_snapshot_status control_cancel_snapshot elim!: bind_SomeE bind2_SomeE
        split: option.split_asm if_split_asm)
  have "kept (be_fb env) fb1 fb2" using c(2) kept_reboot_message by (simp add: CmdRebootFastboot_def)
  then show ?thesis using kept_after kept_before control_snapshot_status [OF c(1)] c(3) by blast
qed (rule kept_control)

lemma control_oem [simp]:
  "control (charger_reply on r fb) = control fb" "control (CmdOemOffModeCharger arg fb) = control fb"
  "control (CmdOemSelectDisplayPanel env arg fb) = control fb" "control (CmdFlashingGetUnlockAbility fb) = control fb"
  "control (CmdOemDevinfo fb) = control fb"
  by (simp_all add: charger_reply_def CmdOemOffModeCharger_def CmdOemSelectDisplayPanel_def CmdFlashingGetUnlockAbility_def
      CmdOemDevinfo_def DisplaySetVariable_def Let_def split: prod.split option.split)

lemma control_CmdOemDisplayCommandLine: "CmdOemDisplayCommandLine arg fb = Some fb' \<Longrightarrow> control fb' = control fb"
  by (auto simp: CmdOemDisplayCommandLine_def Let_def elim!: bind2_SomeE split: if_split_asm)

text \<open>The image loader is code outside this development: that it leaves the control fields alone is a
  hypothesis.\<close>

definition loader_keeps :: "boot_env \<Rightarrow> bool" where
  "loader_keeps env \<longleftrightarrow> (\<forall>what fb s fb'. load_image env what fb = Some (s, fb') \<longrightarrow> control fb' = control fb)"

lemma control_CmdContinue: "loader_keeps env \<Longrightarrow> CmdContinue env fb = Some fb' \<Longrightarrow> control fb' = control fb"
  by (auto simp: CmdContinue_def loader_keeps_def elim!: bind2_SomeE split: if_split_asm)

lemma control_boot_image: "loader_keeps env \<Longrightarrow> boot_image env Size fb = Some fb' \<Longrightarrow> control fb' = control fb"
  by (auto simp: boot_image_def loader_keeps_def Let_def elim!: bind2_SomeE split: if_split_asm)

lemma control_terminate_cmdline: "terminate_cmdline fb = Some fb' \<Longrightarrow> control fb' = control fb"
  by (auto simp: terminate_cmdline_def elim!: bind_SomeE)

lemma control_boot_unlocked:
  assumes "loader_keeps env" "boot_unlocked env Size fb = Some fb'"
  shows "control fb' = control fb"
  using assms(2) control_boot_image [OF assms(1)]
  by (auto simp: boot_unlocked_def Let_def elim!: bind_SomeE split: if_split_asm prod.split_asm
      dest!: control_terminate_cmdline)

lemma control_CmdBoot: "loader_keeps env \<Longrightarrow> CmdBoot env Size fb = Some fb' \<Longrightarrow> control fb' = control fb"
  by (auto simp: CmdBoot_def intro: control_boot_unlocked split: option.split_asm if_split_asm prod.split_asm)

text \<open>A download request sets the sizes it asks for; every other command keeps the control fields.\<close>

definition requested :: "fastboot \<Rightarrow> fastboot \<Rightarrow> bool" where
  "requested fb fb' \<longleftrightarrow> MaxDownLoadSize fb' = MaxDownLoadSize fb \<and> IsAllowUnlock fb' = IsAllowUnlock fb \<and>
     IsFlashComplete fb' = IsFlashComplete fb \<and>
     (mState fb' = ExpectDataState \<and> mBytesReceivedSoFar fb' = 0 \<and> 0 < mNumDataBytes fb' \<and>
        mNumDataBytes fb' \<le> MaxDownLoadSize fb \<or> mState fb' = mState fb)"

lemma CmdDownload_requested: "requested fb (CmdDownload arg fb)"
  by (auto simp: requested_def CmdDownload_def Let_def reply_fail_def upd_flash_def word_neq_0_conv)

lemmas handle_simps = handle_def CmdOemEnableChargerScreen_def CmdOemDisableChargerScreen_def CmdReboot_def
  CmdRebootBootloader_def CmdRebootRecovery_def CmdRebootFastboot_def

lemma handle_kept:
  assumes "loader_keeps env" "handle env h arg data sz fb = Some fb'"
  shows "kept (be_fb env) fb fb' \<or> h = HDownload \<and> requested fb fb'"
  using assms
  by (cases h) (auto simp: handle_simps kept_control CmdDownload_requested
      intro: kept_CmdFlash kept_CmdErase kept_SetDeviceUnlock kept_CmdUpdateSnapshot kept_reboot_message
        kept_control control_CmdSetActive control_CmdGetVar control_CmdOemDisplayCommandLine control_CmdContinue
        control_CmdBoot kept_after [OF kept_reboot])

end
