(* ===== verification/FastbootMachine.thy ===== *)
theory FastbootMachine
  imports FastbootSafety
begin

text \<open>
  The fastboot application as a state machine: the events of the USB driver and the timers as an
  inductive step relation over sessions, and what holds in every session they can reach. Queued
  transfers lie inside the buffer they are for, whatever the host asks for.
\<close>

section \<open>Steps\<close>

text \<open>A step is an event of the driver, the timer of a delayed reply, or that of a delayed command. A
  packet is no longer than the transfer it answers. A session that has booted, reset or finished
  makes no step.\<close>

inductive usb_step :: "boot_env \<Rightarrow> (string \<times> handler) list \<Rightarrow> session \<Rightarrow> session \<Rightarrow> bool"
  for env :: boot_env and cmds :: "(string \<times> handler) list"
where
  event: "HandleUsbEvents env cmds e s = Some (st, s') \<Longrightarrow>
    (\<forall>ok bs. e = Rx ok bs \<longrightarrow> (\<exists>tgt n. ss_queue s = Some (tgt, n) \<and> length bs \<le> unat n)) \<Longrightarrow>
    \<not> Finished (ss_fb s) \<Longrightarrow> usb_step env cmds s s'"
| okay: "0 < ss_okays s \<Longrightarrow> \<not> Finished (ss_fb s) \<Longrightarrow> usb_step env cmds s (FlashCompleteHandler (be_usb env) s)"
| command: "ss_deferred s \<noteq> [] \<Longrightarrow> AcceptCmdHandler env cmds s = Some s' \<Longrightarrow> \<not> Finished (ss_fb s) \<Longrightarrow>
    usb_step env cmds s s'"

inductive_cases usb_stepE: "usb_step env cmds s s'"

inductive usb_reachable :: "boot_env \<Rightarrow> (string \<times> handler) list \<Rightarrow> session \<Rightarrow> session \<Rightarrow> bool"
  for env :: boot_env and cmds :: "(string \<times> handler) list" and s0 :: session
where
  start: "usb_reachable env cmds s0 s0"
| step: "usb_reachable env cmds s0 s \<Longrightarrow> usb_step env cmds s s' \<Longrightarrow> usb_reachable env cmds s0 s'"

section \<open>Transfers stay inside their buffers\<close>

text \<open>The control state between events: a download in progress asks for no more than the buffer holds,
  the queued transfer ends inside its buffer, no command waits behind a flash, and the size the
  buffers were allocated with does not change.\<close>

definition session_ok :: "boot_env \<Rightarrow> u64 \<Rightarrow> session \<Rightarrow> bool" where
  "session_ok env bound s \<longleftrightarrow> MaxDownLoadSize (ss_fb s) = bound \<and>
     (mState (ss_fb s) = ExpectDataState \<longrightarrow> mBytesReceivedSoFar (ss_fb s) \<le> mNumDataBytes (ss_fb s) \<and>
        mNumDataBytes (ss_fb s) \<le> bound) \<and>
     (\<forall>tgt n. ss_queue s = Some (tgt, n) \<longrightarrow> (case tgt of
        RxBuffer \<Rightarrow> n \<le> USB_BUFFER_SIZE | Dload off \<Rightarrow> unat off + unat n \<le> unat bound)) \<and>
     ss_deferred s = [] \<and> (IsFlashComplete (ss_fb s) \<or> mt_flash (be_fb env))"

lemma kept_ok:
  assumes "session_ok env bound s" "kept (be_fb env) (ss_fb s) fb"
  shows "session_ok env bound (s\<lparr>ss_fb := fb\<rparr>)"
  using assms by (auto simp: session_ok_def kept_def)

lemma requested_ok:
  assumes "session_ok env bound s" "requested (ss_fb s) fb" "mState (ss_fb s) = ExpectCmdState"
  shows "session_ok env bound (s\<lparr>ss_fb := fb\<rparr>)"
  using assms by (auto simp: session_ok_def requested_def)

lemma control_last_flash_failed: "control (snd (last_flash_failed env Data fb)) = control fb"
  by (simp add: last_flash_failed_def)

lemma control_battery_low: "control (snd (battery_low env Data fb)) = control fb"
  by (simp add: battery_low_def)

lemma run_cmd_kept:
  assumes l: "loader_keeps env" and run: "run_cmd env cmds Data fb = Some fb'"
  shows "kept (be_fb env) fb fb' \<or> requested fb fb'"
proof -
  obtain stop fb1 where 1: "(if parallel_disabled (be_fb env) then (False, fb) else last_flash_failed env Data fb) = (stop, fb1)"
    by fastforce
  obtain stop' fb2 where 2: "battery_low env Data fb1 = (stop', fb2)" by fastforce
  have c1: "control fb1 = control fb"
    using 1 control_last_flash_failed [of env Data fb] by (auto split: if_split_asm)
  have c2: "control fb2 = control fb1" using 2 control_battery_low [of env Data fb1] by simp
  show ?thesis
  proof (cases "stop \<or> stop'")
    case True
    then have "fb' = fb1 \<or> fb' = fb2" using run 1 2 by (cases stop) (auto simp: run_cmd_def)
    then show ?thesis using c1 c2 by (auto intro: kept_control)
  next
    case False
    then have d: "dispatch env cmds Data fb2 = Some fb'" using run 1 2 by (simp add: run_cmd_def)
    have "kept (be_fb env) fb2 fb' \<or> requested fb2 fb'"
    proof (cases "find_cmd cmds Data")
      case None
      then show ?thesis using d by (auto simp: dispatch_def intro: kept_control)
    next
      case (Some r)
      then obtain h arg where "handle env h arg (mUsbDataBuffer fb2) (ucast (mBytesReceivedSoFar fb2)) fb2 = Some fb'"
        using d by (cases r) (auto simp: dispatch_def)
      from handle_kept [OF l this] show ?thesis by blast
    qed
    then show ?thesis using c1 c2 by (auto simp: kept_def requested_def control_def)
  qed
qed

text \<open>No command has to wait when no flash runs: it is handled at once.\<close>

lemma AcceptCmd_now:
  assumes idle: "IsFlashComplete (ss_fb s) \<or> mt_flash (be_fb env)" and run: "AcceptCmd env cmds Size s = Some s'"
  shows "\<exists>rx b fb'. s' = s\<lparr>ss_rx := rx, ss_fb := fb'\<rparr> \<and>
    run_cmd env cmds (cmd_text (cmd_size Size) rx) (if b then StopUsbTimer (ss_fb s) else ss_fb s) = Some fb'"
proof -
  define rx where "rx = (ss_rx s)[cmd_size Size := 0]"
  define b where "b = (\<not> parallel_disabled (be_fb env) \<and> \<not> begins (cmd_text (cmd_size Size) rx) ''download'')"
  have "cmd_size Size < length (ss_rx s)" using run by (auto simp: AcceptCmd_def Let_def split: if_split_asm)
  then have "AcceptCmd env cmds Size s = map_option (\<lambda>fb'. s\<lparr>ss_rx := rx, ss_fb := fb'\<rparr>)
      (run_cmd env cmds (cmd_text (cmd_size Size) rx) (if b then StopUsbTimer (ss_fb s) else ss_fb s))"
    using idle by (cases b; cases "run_cmd env cmds (cmd_text (cmd_size Size) rx) (if b then StopUsbTimer (ss_fb s) else ss_fb s)")
      (auto simp: AcceptCmd_def upd_fb_def rx_def [symmetric] b_def [symmetric] StopUsbTimer_def Let_def)
  then show ?thesis using run [symmetric] by (simp only: option.map_disc_iff eq_commute [of "Some s'"] map_option_eq_Some) blast
qed

lemma AcceptCmd_ok:
  assumes l: "loader_keeps env" and ok: "session_ok env bound s" and c: "mState (ss_fb s) = ExpectCmdState"
    and run: "AcceptCmd env cmds Size s = Some s'"
  shows "session_ok env bound s'"
proof -
  have "IsFlashComplete (ss_fb s) \<or> mt_flash (be_fb env)" using ok by (simp add: session_ok_def)
  from AcceptCmd_now [OF this run] obtain rx b fb' where s: "s' = s\<lparr>ss_rx := rx, ss_fb := fb'\<rparr>"
    "run_cmd env cmds (cmd_text (cmd_size Size) rx) (if b then StopUsbTimer (ss_fb s) else ss_fb s) = Some fb'"
    by blast
  have "kept (be_fb env) (ss_fb s) fb' \<or> requested (ss_fb s) fb'"
    using run_cmd_kept [OF l s(2)]
    by (auto simp: kept_def requested_def StopUsbTimer_def split: if_split_asm)
  then have "session_ok env bound (s\<lparr>ss_fb := fb'\<rparr>)" using kept_ok [OF ok] requested_ok [OF ok _ c] by blast
  then show ?thesis using s(1) by (simp add: session_ok_def)
qed

lemma okay_delay_ok:
  assumes "session_ok env bound s"
  shows "session_ok env bound (snd (FastbootOkayDelay u s))" "session_ok env bound (FlashCompleteHandler u s)"
  using assms by (auto simp: session_ok_def FastbootOkayDelay_def FlashCompleteHandler_def upd_fb_def reply_fail_def
      reply_okay_def upd_flash_def)

lemma xfr_size:
  assumes "unat (mBytesReceivedSoFar fb) \<le> unat (mNumDataBytes fb)" "mState fb = ExpectDataState"
  shows "unat (mBytesReceivedSoFar fb) + unat (GetXfrSize fb) \<le> unat (mNumDataBytes fb)"
proof -
  have "unat (mNumDataBytes fb - mBytesReceivedSoFar fb) = unat (mNumDataBytes fb) - unat (mBytesReceivedSoFar fb)"
    using assms(1) by (simp add: unat_minus_bound word_le_nat_alt)
  moreover have "GetXfrSize fb \<le> mNumDataBytes fb - mBytesReceivedSoFar fb"
    using assms(2) by (auto simp: GetXfrSize_def Let_def not_less)
  ultimately show ?thesis using assms(1) by (simp add: word_le_nat_alt)
qed

lemma xfr_size_cmd: "mState fb \<noteq> ExpectDataState \<Longrightarrow> GetXfrSize fb = USB_BUFFER_SIZE"
  by (simp add: GetXfrSize_def)

lemma Send_in_ok:
  assumes "session_ok env bound s" "case tgt of RxBuffer \<Rightarrow> n \<le> USB_BUFFER_SIZE | Dload off \<Rightarrow> unat off + unat n \<le> unat bound"
  shows "session_ok env bound (snd (Send_in u tgt n s))"
  using assms by (simp add: session_ok_def Send_in_def)

lemma AcceptData_ok:
  assumes ok: "session_ok env bound s" and d: "mState (ss_fb s) = ExpectDataState"
    and run: "AcceptData u Size s = Some s'"
  shows "session_ok env bound s'"
proof -
  let ?fb = "ss_fb s"
  let ?rem = "mNumDataBytes ?fb - mBytesReceivedSoFar ?fb"
  define n where "n = (if Size > ?rem then ?rem else Size)"
  define fb1 where "fb1 = ?fb\<lparr>mBytesReceivedSoFar := mBytesReceivedSoFar ?fb + n\<rparr>"
  have le: "mBytesReceivedSoFar ?fb \<le> mNumDataBytes ?fb" "mNumDataBytes ?fb \<le> bound"
    using ok d by (auto simp: session_ok_def)
  have "n \<le> ?rem" by (auto simp: n_def)
  then have r: "unat (mBytesReceivedSoFar fb1) = unat (mBytesReceivedSoFar ?fb) + unat n"
    "unat (mBytesReceivedSoFar fb1) \<le> unat (mNumDataBytes fb1)"
    using le(1) unat_u64_bound [of "mNumDataBytes ?fb"]
    by (simp_all add: fb1_def word_le_nat_alt unat_minus_bound unat_plus_bound)
  have ok1: "session_ok env bound (s\<lparr>ss_fb := fb1\<rparr>)"
    using ok le r(2) by (simp add: session_ok_def fb1_def word_le_nat_alt)
  show ?thesis
  proof (cases "mBytesReceivedSoFar fb1 = mNumDataBytes fb1")
    case True
    have "session_ok env bound (s\<lparr>ss_fb := StopUsbTimer (fb1\<lparr>mUsbDataBuffer := b, mState := ExpectCmdState\<rparr>)\<rparr>)"
      "session_ok env bound (s\<lparr>ss_fb := reply_okay '''' (fb1\<lparr>mUsbDataBuffer := b, mState := ExpectCmdState\<rparr>)\<rparr>)" for b
      using ok1 by (simp_all add: session_ok_def StopUsbTimer_def reply_okay_def upd_flash_def)
    then show ?thesis
      using run True unfolding AcceptData_def Let_def n_def [symmetric] fb1_def [symmetric]
      by (auto simp: okay_delay_ok(1) elim!: bind_SomeE split: if_split_asm)
  next
    case False
    have "mState fb1 = ExpectDataState" using d by (simp add: fb1_def)
    then have "unat (mBytesReceivedSoFar fb1) + unat (GetXfrSize fb1) \<le> unat bound"
      using xfr_size [OF r(2)] le(2) by (simp add: fb1_def word_le_nat_alt)
    then have "session_ok env bound (snd (Send_in u (Dload (mBytesReceivedSoFar fb1)) (GetXfrSize fb1) (s\<lparr>ss_fb := fb1\<rparr>)))"
      by (intro Send_in_ok [OF ok1]) simp
    then show ?thesis
      using run False unfolding AcceptData_def Let_def n_def [symmetric] fb1_def [symmetric] by simp
  qed
qed

lemma rx_store_ok:
  assumes "session_ok env bound s" "rx_store bs s = Some s'"
  shows "session_ok env bound s' \<and> mState (ss_fb s') = mState (ss_fb s)"
  using assms by (auto simp: rx_store_def session_ok_def upd_fb_def elim!: bind_SomeE split: option.split_asm rx_target.split_asm)

lemma Tx_ok:
  assumes ok: "session_ok env bound s"
  shows "session_ok env bound (snd (ProcessBulkXfrCompleteTx env st s))"
proof (cases "mState (ss_fb s) = ExpectDataState")
  case True
  then have "mBytesReceivedSoFar (ss_fb s) \<le> mNumDataBytes (ss_fb s)" "mNumDataBytes (ss_fb s) \<le> bound"
    using ok by (auto simp: session_ok_def)
  then have "unat (GetXfrSize (ss_fb s)) \<le> unat bound"
    using xfr_size [OF _ True] by (simp add: word_le_nat_alt)
  then show ?thesis
    using True ok by (cases st) (auto simp: ProcessBulkXfrCompleteTx_def intro: Send_in_ok)
next
  case False
  then show ?thesis
    using ok xfr_size_cmd [OF False] by (cases st) (auto simp: ProcessBulkXfrCompleteTx_def intro: Send_in_ok)
qed

lemma HandleUsbEvents_ok:
  assumes l: "loader_keeps env" and ok: "session_ok env bound s" and run: "HandleUsbEvents env cmds e s = Some (st, s')"
  shows "session_ok env bound s'"
proof (cases e)
  case Connected
  then have "s' = snd (Send_in (be_usb env) RxBuffer 511 s)" using run by (simp add: HandleUsbEvents_def)
  then show ?thesis using Send_in_ok [OF ok, where tgt = RxBuffer and n = 511] by simp
next
  case (Rx xst bs)
  then obtain s1 where s1: "(if xst = CompleteOK then rx_store bs s else Some (s\<lparr>ss_queue := None\<rparr>)) = Some s1"
    "ProcessBulkXfrCompleteRx env cmds xst (of_nat (length bs)) s1 = Some (st, s')"
    using run by (auto simp: HandleUsbEvents_def elim!: bind_SomeE)
  have ok1: "session_ok env bound s1"
    using s1(1) ok rx_store_ok [OF ok] by (auto simp: session_ok_def split: if_split_asm)
  show ?thesis
    using s1(2) ok1 AcceptCmd_ok [OF l ok1] AcceptData_ok [OF ok1]
    by (cases xst; cases "mState (ss_fb s1)") (auto simp: ProcessBulkXfrCompleteRx_def DataReady_def)
next
  case (Tx xst)
  then have "s' = snd (ProcessBulkXfrCompleteTx env xst s)" using run by (simp add: HandleUsbEvents_def)
  then show ?thesis using Tx_ok [OF ok] by simp
qed (use run ok in \<open>simp_all add: HandleUsbEvents_def\<close>)

lemma usb_step_ok:
  assumes "loader_keeps env" "usb_step env cmds s s'" "session_ok env bound s"
  shows "session_ok env bound s'"
  using assms(2)
proof cases
  case command
  then show ?thesis using assms(3) by (simp add: session_ok_def)
qed (use assms in \<open>auto intro: HandleUsbEvents_ok okay_delay_ok\<close>)

text \<open>Every reachable session has queued its transfers inside their buffers.\<close>

lemma reachable_ok:
  assumes "loader_keeps env" "session_ok env bound s0" "usb_reachable env cmds s0 s"
  shows "session_ok env bound s"
  using assms(3) by (induction rule: usb_reachable.induct) (auto intro: assms(2) usb_step_ok [OF assms(1)])

lemma session_ok_inside:
  assumes "session_ok env bound s"
  shows "(\<forall>off n. ss_queue s = Some (Dload off, n) \<longrightarrow> unat off + unat n \<le> unat bound) \<and>
    (\<forall>n. ss_queue s = Some (RxBuffer, n) \<longrightarrow> unat n \<le> 2 ^ 24) \<and>
    (mState (ss_fb s) = ExpectDataState \<longrightarrow>
      unat (mBytesReceivedSoFar (ss_fb s)) \<le> unat (mNumDataBytes (ss_fb s)) \<and> unat (mNumDataBytes (ss_fb s)) \<le> unat bound)"
  using assms by (auto simp: session_ok_def word_le_nat_alt)

text \<open>C15. Whatever the host sends and in whatever order the events come, a transfer queued for the
  download buffer lies inside the buffer, a transfer queued for the command buffer is no longer
  than that buffer, and a download in progress has received no more than it asked for, which is no
  more than the buffer holds.\<close>

theorem transfers_inside:
  assumes "loader_keeps env" "session_ok env bound s0" "usb_reachable env cmds s0 s"
  shows "(\<forall>off n. ss_queue s = Some (Dload off, n) \<longrightarrow> unat off + unat n \<le> unat bound) \<and>
    (\<forall>n. ss_queue s = Some (RxBuffer, n) \<longrightarrow> unat n \<le> 2 ^ 24) \<and>
    (mState (ss_fb s) = ExpectDataState \<longrightarrow>
      unat (mBytesReceivedSoFar (ss_fb s)) \<le> unat (mNumDataBytes (ss_fb s)) \<and> unat (mNumDataBytes (ss_fb s)) \<le> unat bound)"
  by (rule session_ok_inside [OF reachable_ok [OF assms]])

definition demo_boot_env :: boot_env where
  "demo_boot_env = \<lparr>be_usb = demo_usb_env, load_image = (\<lambda>_ fb. Some (EFI_NOT_FOUND, fb)), image_size_out = (\<lambda>_. 0),
     mdtp = None, display_proto = None, proto_get = (EFI_NOT_FOUND, '''', 0), proto_set = (\<lambda>_. EFI_NOT_FOUND),
     rt_get = (EFI_NOT_FOUND, '''', 0), rt_set = (\<lambda>_. EFI_SUCCESS), en_update = True, en_critical = True,
     en_boot = True, dynamic_partition = True, alloc_cmd = (\<lambda>_. True)\<rparr>"

lemma demo_loader_keeps: "loader_keeps demo_boot_env"
  by (simp add: loader_keeps_def demo_boot_env_def)

lemma demo_session_ok: "session_ok demo_boot_env 4096 demo_session"
  by (simp add: session_ok_def demo_session_def demo_fb_def)

lemma transfers_inside_witness:
  "\<exists>s. usb_reachable demo_boot_env [] demo_session s \<and> ss_queue s = Some (Dload 2, 3) \<and> unat (2 :: u64) + unat (3 :: u64) \<le> unat (4096 :: u64)"
proof -
  let ?m = "demo_mem (replicate 4096 9)"
  have d: "downloading demo_session ?m 0 5"
    by (simp add: downloading_def demo_session_def demo_fb_def GetXfrSize_def demo_mem_def)
  have send: "send_status (be_usb demo_boot_env) = EFI_SUCCESS" by (simp add: demo_boot_env_def demo_usb_env_def)
  obtain s where s: "DataPacket (be_usb demo_boot_env) [1, 2] demo_session = Some s"
    "downloading s (?m\<lparr>mem_bytes := splice 0 [1, 2] (mem_bytes ?m)\<rparr>) 2 5"
    using packet_more [OF d _ send, of "[1, 2]"] by (auto simp: numeral_2_eq_2)
  have "HandleUsbEvents demo_boot_env [] (Rx CompleteOK [1, 2]) demo_session = Some (EFI_SUCCESS, s)"
    using s(1) by (auto simp: HandleUsbEvents_def ProcessBulkXfrCompleteRx_def DataReady_def DataPacket_def
        demo_session_def demo_fb_def rx_store_def upd_fb_def elim!: bind_SomeE)
  moreover have "ss_queue demo_session = Some (Dload 0, 5)" "\<not> Finished (ss_fb demo_session)"
    by (simp_all add: demo_session_def demo_fb_def)
  ultimately have st: "usb_step demo_boot_env [] demo_session s" by (intro usb_step.event) auto
  have r: "usb_reachable demo_boot_env [] demo_session s"
    using usb_reachable.step [OF usb_reachable.start st] .
  note f = downloadingD [OF s(2)]
  have "mBytesReceivedSoFar (ss_fb s) = 2" "mNumDataBytes (ss_fb s) = 5"
    using f(2,3) by (simp_all add: word_unat_eq_iff)
  then have "ss_queue s = Some (Dload 2, 3)" using f(1,8) by (simp add: GetXfrSize_def)
  then show ?thesis
    using r transfers_inside [OF demo_loader_keeps demo_session_ok r] by auto
qed

lemma find_cmd_longest_witness:
  "find_cmd (register_all demo_boot_env cmd_list []) ''reboot-bootloader'' = Some (HRebootBootloader, '''')"
  unfolding find_cmd_longest
  by (rule exI [of _ "''reboot-bootloader''"], rule exI [of _ ALWAYS])
    (simp add: cmd_list_def switched_on_def demo_boot_env_def, code_simp)

end
