(* ===== verification/FastbootLock.thy ===== *)
theory FastbootLock
  imports FastbootMachine
begin

text \<open>
  The lock of a fastboot session. On a secure build, while the device is locked and the settings do
  not permit unlocking, no event changes that, and the only writes a session makes go to the misc
  partition (boot messages of the reboot commands, the wipe request of a critical lock).
\<close>

section \<open>What a locked session keeps\<close>

definition misc_write :: "fastboot_env \<Rightarrow> disk_op \<Rightarrow> bool" where
  "misc_write env op \<longleftrightarrow> (\<exists>t s hi. single_handle (mi_db (fl_misc (fe_flash env))) by_type
     (type_filter (snd (misc_guid (fl_misc (fe_flash env)) t))) = Some (s, Some hi) \<and> op_dev op = bio_id (BlkIo hi))"

definition locked :: "fastboot \<Rightarrow> bool" where
  "locked fb \<longleftrightarrow> \<not> IsUnlocked (fb_dev fb) \<and> \<not> IsAllowUnlock fb \<and> fb_pending fb = None"

definition still_locked :: "fastboot_env \<Rightarrow> fastboot \<Rightarrow> fastboot \<Rightarrow> bool" where
  "still_locked env fb fb' \<longleftrightarrow> locked fb' \<and> grows (misc_write env) (fb_log fb) (fb_log fb')"

definition secure_build :: "fastboot_env \<Rightarrow> bool" where
  "secure_build env \<longleftrightarrow> avb_le env \<or> TargetBuildVariantUser env"

text \<open>The fields the lock depends on.\<close>

definition guard :: "fastboot \<Rightarrow> bool \<times> bool \<times> (string \<times> mem_buf \<times> u64) option \<times> disk_op list" where
  "guard fb = (IsUnlocked (fb_dev fb), IsAllowUnlock fb, fb_pending fb, fb_log fb)"

lemma guard_locked: "locked fb \<Longrightarrow> guard fb' = guard fb \<Longrightarrow> still_locked env fb fb'"
  by (simp add: guard_def locked_def still_locked_def)

lemma still_locked_trans: "still_locked env fb1 fb2 \<Longrightarrow> still_locked env fb2 fb3 \<Longrightarrow> still_locked env fb1 fb3"
  by (auto simp: still_locked_def intro: grows_trans)

lemma still_locked_after: "still_locked env fb1 fb' \<Longrightarrow> guard fb1 = guard fb \<Longrightarrow> still_locked env fb fb'"
  by (simp add: still_locked_def guard_def)

lemma guard_fields [simp]:
  "guard (fb\<lparr>VirtualAbMsg := v\<rparr>) = guard fb" "guard (fb\<lparr>FlashResult := s\<rparr>) = guard fb"
  "guard (fb\<lparr>IsFirstEraseFlash := b\<rparr>) = guard fb" "guard (fb\<lparr>fb_reboots := rs\<rparr>) = guard fb"
  "guard (fb\<lparr>fb_panel := rs\<rparr>) = guard fb" "guard (fb\<lparr>Finished := b\<rparr>) = guard fb"
  "guard (fb\<lparr>mUsbDataBuffer := m\<rparr>) = guard fb" "guard (fb\<lparr>UsbTimerStarted := b\<rparr>) = guard fb"
  "guard (fb\<lparr>mNumDataBytes := n\<rparr>) = guard fb" "guard (fb\<lparr>mBytesReceivedSoFar := n\<rparr>) = guard fb"
  "guard (fb\<lparr>mState := st\<rparr>) = guard fb"
  by (simp_all add: guard_def)

lemma guard_helpers [simp]:
  "guard (reply_fail r fb) = guard fb" "guard (reply_okay r fb) = guard fb" "guard (reply_info r fb) = guard fb"
  "guard (set_static a b fb) = guard fb" "guard (upd_ptn g fb) = guard fb" "guard (StopUsbTimer fb) = guard fb"
  "guard (getvar_slot env t fb) = guard fb" "guard (UpdateGetVarVariable env fb) = guard fb"
  by (simp_all add: guard_def reply_fail_def reply_okay_def reply_info_def set_static_def upd_ptn_def upd_flash_def
      StopUsbTimer_def getvar_slot_def UpdateGetVarVariable_def FastbootFail_def FastbootOkay_def FastbootInfo_def
      FastbootAck_def Let_def split: prod.split)

lemma guard_upd_flash:
  "IsUnlocked (fs_dev (f (fb_flash fb))) = IsUnlocked (fb_dev fb) \<Longrightarrow> fs_log (f (fb_flash fb)) = fb_log fb \<Longrightarrow>
    guard (upd_flash f fb) = guard fb"
  by (simp add: guard_def upd_flash_def)

lemma guard_snapshot_status: "snapshot_status env fb = Some (s, fb') \<Longrightarrow> guard fb' = guard fb"
  by (auto simp: snapshot_status_def elim!: bind2_SomeE)

lemma guard_CmdSetActive:
  assumes run: "CmdSetActive env arg fb = Some fb'"
  shows "guard fb' = guard fb"
proof (cases "TargetBuildVariantUser env \<and> \<not> IsUnlocked (fb_dev fb) \<or> \<not> PartitionHasMultiSlot (fb_ptn fb) ''boot''")
  case True
  then show ?thesis using run by (auto simp: CmdSetActive_def split: if_split_asm)
next
  case False
  obtain s fb1 where e: "(if virtual_ab env then snapshot_status env fb else Some (merge_code NONE_MERGE_STATUS, fb)) = Some (s, fb1)"
    using run False unfolding CmdSetActive_def Let_def by (auto elim!: bind2_SomeE split: if_split_asm)
  have c: "guard fb1 = guard fb" using e guard_snapshot_status by (auto split: if_split_asm)
  have "guard fb' = guard fb1"
    using run False unfolding CmdSetActive_def Let_def e
    by (auto simp: guard_upd_flash elim!: bind_SomeE bind2_SomeE split: option.split_asm if_split_asm prod.split_asm)
  then show ?thesis using c by simp
qed

lemma guard_info_lines: "info_lines vs fb = Some fb' \<Longrightarrow> guard fb' = guard fb"
  by (induction vs fb rule: info_lines.induct) (auto elim!: bind_SomeE)

lemma guard_CmdGetVar: "CmdGetVar env arg fb = Some fb' \<Longrightarrow> guard fb' = guard fb"
  by (auto simp: CmdGetVar_def CmdGetVarAll_def Let_def elim!: bind_SomeE split: if_split_asm option.split_asm
      dest!: guard_info_lines)

lemma charging_keeps_lock: "EnableChargingScreen b d = (s, d') \<Longrightarrow> IsUnlocked d' = IsUnlocked d"
  by (cases "IsChargingScreenEnable d = b") (auto simp: EnableChargingScreen_def IsUnlocked_def upd_dev_def)

lemma guard_oem [simp]:
  "guard (charger_reply on r fb) = guard fb" "guard (CmdOemOffModeCharger arg fb) = guard fb"
  "guard (CmdOemSelectDisplayPanel env arg fb) = guard fb" "guard (CmdFlashingGetUnlockAbility fb) = guard fb"
  "guard (CmdOemDevinfo fb) = guard fb" "guard (CmdDownload arg fb) = guard fb"
  by (auto simp: charger_reply_def CmdOemOffModeCharger_def CmdOemSelectDisplayPanel_def CmdFlashingGetUnlockAbility_def
      CmdOemDevinfo_def CmdDownload_def DisplaySetVariable_def Let_def guard_upd_flash dest!: charging_keeps_lock
      split: prod.split option.split)

lemma guard_CmdOemDisplayCommandLine: "CmdOemDisplayCommandLine arg fb = Some fb' \<Longrightarrow> guard fb' = guard fb"
  by (auto simp: CmdOemDisplayCommandLine_def StoreDisplayCmdLine_def Let_def IsUnlocked_def upd_dev_def
      elim!: bind2_SomeE split: if_split_asm intro!: guard_upd_flash)

section \<open>The commands that write\<close>

lemma WriteToPartition_misc:
  assumes "misc_guid (fl_misc (fe_flash env)) t = (g, P)"
    and "WriteToPartition (fl_misc (fe_flash env)) P Msg sz log = Some (s, log')"
  shows "grows (misc_write env) log log'"
proof (cases "log' = log")
  case False
  then obtain msg st hi where h: "single_handle (mi_db (fl_misc (fe_flash env))) by_type
      (type_filter (snd (misc_guid (fl_misc (fe_flash env)) t))) = Some (st, Some hi)"
    and w: "WriteBlockToPartition (mi_io (fl_misc (fe_flash env))) (Some (BlkIo hi)) 0 (ucast sz) (Some msg) log = Some (s, log')"
    using assms by (auto simp: WriteToPartition_def elim!: bind2_SomeE split: option.split_asm)
  have "misc_write env op" if "on_device (bio_id (BlkIo hi)) op" for op
    unfolding misc_write_def using h that by blast
  with WriteBlockToPartition_device [OF w] show ?thesis by (rule grows_mono)
qed simp

lemma WriteRecoveryMessage_misc:
  assumes "WriteRecoveryMessage (fl_misc (fe_flash env)) Command log = Some (s, log')"
  shows "grows (misc_write env) log log'"
proof (cases "log' = log")
  case False
  then obtain t g P m where "misc_guid (fl_misc (fe_flash env)) t = (g, P)"
      "WriteToPartition (fl_misc (fe_flash env)) P m RECOVERY_MESSAGE_SIZE log = Some (s, log')"
    using assms by (auto simp: WriteRecoveryMessage_def Let_def elim!: bind_SomeE bind2_SomeE
        split: if_split_asm option.split_asm prod.split_asm)
  then show ?thesis by (rule WriteToPartition_misc)
qed simp

lemma locked_reboot:
  assumes "locked fb" "RebootDevice env r fb = Some fb'"
  shows "still_locked env fb fb'"
proof -
  have "WaitForFlashFinished env fb = Some fb" using assms(1) by (intro wait_keeps) (simp add: locked_def)
  then show ?thesis using assms by (auto simp: RebootDevice_def intro: guard_locked)
qed

lemma locked_reboot_message:
  assumes l: "locked fb" and run: "reboot_message env Message mode fb = Some fb'"
  shows "still_locked (be_fb env) fb fb'"
proof -
  obtain s log where w: "WriteRecoveryMessage (be_misc env) Message (fb_log fb) = Some (s, log)"
    using run by (auto simp: reboot_message_def elim!: bind2_SomeE)
  let ?fb = "upd_flash (\<lambda>st. st\<lparr>fs_log := log\<rparr>) fb"
  have 1: "still_locked (be_fb env) fb ?fb"
    using l WriteRecoveryMessage_misc [OF w] by (simp add: still_locked_def locked_def upd_flash_def)
  have "still_locked (be_fb env) ?fb fb'"
  proof (cases "s = EFI_SUCCESS")
    case True
    have "locked (reply_okay '''' ?fb)" using 1 guard_locked [of ?fb "reply_okay '''' ?fb"] by (simp add: still_locked_def)
    then show ?thesis
      using run w True by (auto simp: reboot_message_def intro: still_locked_after [OF locked_reboot])
  next
    case False
    then have "guard fb' = guard ?fb" using run w by (auto simp: reboot_message_def)
    then show ?thesis using 1 by (intro guard_locked) (simp_all add: still_locked_def)
  qed
  with 1 show ?thesis by (rule still_locked_trans)
qed

lemma critical_keeps_lock:
  "SetUnlockCriticalValue b d = (s, d') \<Longrightarrow> IsUnlocked d' = IsUnlocked d"
  "IsUnlocked (snd (SetUnlockCriticalValue b d)) = IsUnlocked d"
  by (cases "IsUnlockCritical d = b"; auto simp: SetUnlockCriticalValue_def IsUnlocked_def upd_dev_def)+

lemma SetDeviceUnlockValue_critical:
  assumes "SetDeviceUnlockValue (fl_misc (fe_flash env)) vb UNLOCK_CRITICAL b d log = Some (s, d', log')"
  shows "IsUnlocked d' = IsUnlocked d" and "grows (misc_write env) log log'"
proof -
  show "IsUnlocked d' = IsUnlocked d"
    using assms by (auto simp: SetDeviceUnlockValue_def Let_def critical_keeps_lock(2) elim!: bind_SomeE bind2_SomeE
        split: if_split_asm prod.split_asm dest!: critical_keeps_lock(1))
  show "grows (misc_write env) log log'"
  proof (cases "log' = log")
    case False
    then obtain t g P m where "misc_guid (fl_misc (fe_flash env)) t = (g, P)"
        "WriteToPartition (fl_misc (fe_flash env)) P m 1088 log = Some (s, log')"
      using assms by (auto simp: SetDeviceUnlockValue_def Let_def elim!: bind_SomeE bind2_SomeE split: if_split_asm prod.split_asm)
    then show ?thesis by (rule WriteToPartition_misc)
  qed simp
qed

lemma locked_SetDeviceUnlock:
  assumes l: "locked fb" and run: "SetDeviceUnlock env Type State fb = Some fb'" and t: "Type = UNLOCK \<or> Type = UNLOCK_CRITICAL"
  shows "still_locked env fb fb'"
proof (cases "guard fb' = guard fb")
  case False
  have "\<not> IsAllowUnlock fb" using l by (simp add: locked_def)
  then obtain r where "SetDeviceUnlock env Type True fb = Some (reply_fail r fb)"
    by (rule SetDeviceUnlock_needs_permission)
  then have "\<not> State" using run False by auto
  then have T: "Type = UNLOCK_CRITICAL" using t l run False
    by (auto simp: SetDeviceUnlock_def locked_def)
  obtain s d log where v: "SetDeviceUnlockValue (fl_misc (fe_flash env)) (fl_vb (fe_flash env)) UNLOCK_CRITICAL State
      (fb_dev fb) (fb_log fb) = Some (s, d, log)"
    using run False unfolding SetDeviceUnlock_def Let_def T by (auto elim!: bind3_SomeE split: if_split_asm)
  let ?fb = "upd_flash (\<lambda>st. st\<lparr>fs_dev := d, fs_log := log\<rparr>) fb"
  note f = SetDeviceUnlockValue_critical [OF v]
  have 1: "still_locked env fb ?fb" using l f by (simp add: still_locked_def locked_def upd_flash_def)
  then have l1: "locked ?fb" by (simp add: still_locked_def)
  have "still_locked env ?fb fb'"
  proof (cases "guard fb' = guard ?fb")
    case False
    then have "RebootDevice env ''RECOVERY_MODE'' (reply_okay '''' ?fb) = Some fb'"
      using run v \<open>guard fb' \<noteq> guard fb\<close> unfolding SetDeviceUnlock_def Let_def T
      by (auto elim!: bind3_SomeE split: if_split_asm)
    moreover have "locked (reply_okay '''' ?fb)" using guard_locked [OF l1] by (simp add: still_locked_def)
    ultimately show ?thesis using still_locked_after [OF locked_reboot] by fastforce
  qed (rule guard_locked [OF l1])
  with 1 show ?thesis by (rule still_locked_trans)
qed (rule guard_locked [OF l])

lemma locked_CmdUpdateSnapshot:
  assumes l: "locked fb" and run: "CmdUpdateSnapshot env arg fb = Some fb'"
  shows "still_locked (be_fb env) fb fb'"
proof (cases "guard fb' = guard fb")
  case False
  have nu: "\<not> IsUnlocked (fb_dev fb)" using l by (simp add: locked_def)
  obtain s fb1 fb2 where c: "snapshot_status (be_fb env) fb = Some (s, fb1)" "CmdRebootFastboot env fb1 = Some fb2"
      "guard fb' = guard fb2"
    using run False nu
    by (auto simp: CmdUpdateSnapshot_def guard_snapshot_status elim!: bind_SomeE bind2_SomeE
        split: option.split_asm if_split_asm)
  have g: "guard fb1 = guard fb" using guard_snapshot_status [OF c(1)] .
  then have "locked fb1" using guard_locked [OF l, of fb1] by (simp add: still_locked_def)
  then have "still_locked (be_fb env) fb1 fb2"
    using c(2) locked_reboot_message by (simp add: CmdRebootFastboot_def)
  then have "still_locked (be_fb env) fb fb2" using g by (rule still_locked_after)
  then show ?thesis using c(3) by (simp add: still_locked_def locked_def guard_def)
qed (rule guard_locked [OF l])

text \<open>The image loader is code outside this development; that it neither unlocks the device nor writes to
  it is a hypothesis.\<close>

definition loader_locks :: "boot_env \<Rightarrow> bool" where
  "loader_locks env \<longleftrightarrow> (\<forall>what fb s fb'. load_image env what fb = Some (s, fb') \<longrightarrow> guard fb' = guard fb)"

lemma locked_CmdContinue:
  assumes "loader_locks env" "locked fb" "CmdContinue env fb = Some fb'"
  shows "still_locked (be_fb env) fb fb'"
proof (rule guard_locked [OF assms(2)])
  show "guard fb' = guard fb"
    using assms(1,3) by (auto simp: CmdContinue_def loader_locks_def elim!: bind2_SomeE split: if_split_asm)
qed

lemma locked_CmdBoot:
  assumes "locked fb" "CmdBoot env Size fb = Some fb'"
  shows "still_locked (be_fb env) fb fb'"
proof (rule guard_locked [OF assms(1)])
  show "guard fb' = guard fb"
    using assms by (auto simp: CmdBoot_def boot_unlocked_def locked_def split: if_split_asm option.split_asm prod.split_asm)
qed

lemma locked_flash_erase:
  assumes b: "secure_build env" and l: "locked fb"
  shows "CmdFlash env arg data sz fb = Some fb' \<Longrightarrow> still_locked env fb fb'"
    and "CmdErase env arg fb = Some fb' \<Longrightarrow> still_locked env fb fb'"
proof -
  have p: "avb_le env \<or> TargetBuildVariantUser env" "\<not> IsUnlocked (fb_dev fb)" "fb_pending fb = None"
    using b l by (auto simp: secure_build_def locked_def)
  show "still_locked env fb fb'" if r: "CmdFlash env arg data sz fb = Some fb'"
  proof -
    have a: "IsAllowUnlock fb' = IsAllowUnlock fb" using kept_CmdFlash [OF r] by (simp add: kept_def)
    obtain fb1 rr where "CmdFlash env arg data sz fb = Some fb1" "fb_pending fb1 = None"
      "fb_flash fb1 = FastbootFail rr ((fb_flash fb)\<lparr>LunSet := False\<rparr>)"
      using p by (rule locked_CmdFlash)
    then have "fb_flash fb' = FastbootFail rr ((fb_flash fb)\<lparr>LunSet := False\<rparr>)" "fb_pending fb' = None" using r by simp_all
    with a show ?thesis using l by (simp add: still_locked_def locked_def)
  qed
  show "still_locked env fb fb'" if r: "CmdErase env arg fb = Some fb'"
  proof -
    obtain rr where "CmdErase env arg fb = Some (reply_fail rr fb)" using p by (rule locked_CmdErase)
    then have "guard fb' = guard fb" using r by simp
    then show ?thesis by (rule guard_locked [OF l])
  qed
qed

lemma handle_locked:
  assumes b: "secure_build (be_fb env)" and ll: "loader_locks env" and l: "locked fb"
    and run: "handle env h arg data sz fb = Some fb'"
  shows "still_locked (be_fb env) fb fb'"
proof -
  have "locked (reply_okay '''' fb)" using guard_locked [OF l, of "reply_okay '''' fb"] by (simp add: still_locked_def)
  then have r: "RebootDevice (be_fb env) m (reply_okay '''' fb) = Some fb' \<Longrightarrow> still_locked (be_fb env) fb fb'" for m
    by (rule still_locked_after [OF locked_reboot]) simp_all
  have g: "still_locked (be_fb env) fb fb'" if "guard fb' = guard fb" using guard_locked [OF l that] .
  show ?thesis
    using run g r locked_flash_erase [OF b l] locked_SetDeviceUnlock [OF l] locked_CmdContinue [OF ll l] locked_CmdBoot [OF l]
      locked_reboot_message [OF l] locked_CmdUpdateSnapshot [OF l] guard_CmdSetActive guard_CmdGetVar
      guard_CmdOemDisplayCommandLine
    by (cases h) (simp_all add: handle_simps, auto)
qed

section \<open>The events\<close>

lemma run_cmd_locked:
  assumes b: "secure_build (be_fb env)" and ll: "loader_locks env" and l: "locked fb"
    and run: "run_cmd env cmds Data fb = Some fb'"
  shows "still_locked (be_fb env) fb fb'"
proof -
  obtain stop fb1 where 1: "(if parallel_disabled (be_fb env) then (False, fb) else last_flash_failed env Data fb) = (stop, fb1)"
    by fastforce
  obtain stop' fb2 where 2: "battery_low env Data fb1 = (stop', fb2)" by fastforce
  have g1: "guard fb1 = guard fb" using 1 by (auto simp: last_flash_failed_def split: if_split_asm)
  have g2: "guard fb2 = guard fb" using 2 g1 by (auto simp: battery_low_def split: if_split_asm)
  show ?thesis
  proof (cases "stop \<or> stop'")
    case True
    then have "fb' = fb1 \<or> fb' = fb2" using run 1 2 by (cases stop) (auto simp: run_cmd_def)
    then show ?thesis using guard_locked [OF l] g1 g2 by blast
  next
    case False
    then have d: "dispatch env cmds Data fb2 = Some fb'" using run 1 2 by (simp add: run_cmd_def)
    have l2: "locked fb2" using guard_locked [OF l g2] by (simp add: still_locked_def)
    have "still_locked (be_fb env) fb2 fb'"
    proof (cases "find_cmd cmds Data")
      case None
      then show ?thesis using d guard_locked [OF l2] by (auto simp: dispatch_def)
    next
      case (Some r)
      then obtain h arg where "handle env h arg (mUsbDataBuffer fb2) (ucast (mBytesReceivedSoFar fb2)) fb2 = Some fb'"
        using d by (cases r) (auto simp: dispatch_def)
      then show ?thesis by (rule handle_locked [OF b ll l2])
    qed
    then show ?thesis using g2 by (rule still_locked_after)
  qed
qed

lemma AcceptCmd_cases:
  assumes "AcceptCmd env cmds Size s = Some s'"
  obtains "guard (ss_fb s') = guard (ss_fb s)"
  | fb Data where "guard fb = guard (ss_fb s)" "run_cmd env cmds Data fb = Some (ss_fb s')"
proof -
  define rx where "rx = (ss_rx s)[cmd_size Size := 0]"
  define Data where "Data = cmd_text (cmd_size Size) rx"
  define wait where "wait = (\<not> parallel_disabled (be_fb env) \<and> \<not> begins Data ''download'')"
  define s1 where "s1 = (if wait then upd_fb StopUsbTimer (s\<lparr>ss_rx := rx\<rparr>) else s\<lparr>ss_rx := rx\<rparr>)"
  obtain st s2 where 2: "(if wait \<and> \<not> IsFlashComplete (ss_fb s1) \<and> \<not> mt_flash (be_fb env)
      then AcceptCmdTimerInit env (of_nat (cmd_size Size)) s1 else (EFI_NOT_STARTED, s1)) = (st, s2)"
    by fastforce
  have g: "guard (ss_fb s1) = guard (ss_fb s)" by (simp add: s1_def upd_fb_def)
  have "ss_fb s2 = ss_fb s1" using 2 by (auto simp: AcceptCmdTimerInit_def split: if_split_asm)
  moreover have "(if st = EFI_SUCCESS then Some s2
      else do { fb \<leftarrow> run_cmd env cmds Data (ss_fb s2); Some (s2\<lparr>ss_fb := fb\<rparr>) }) = Some s'"
    using assms 2 unfolding s1_def wait_def Data_def rx_def AcceptCmd_def
    by (simp add: Let_def split: if_split_asm)
  ultimately have "ss_fb s' = ss_fb s1 \<or> run_cmd env cmds Data (ss_fb s1) = Some (ss_fb s')"
    by (auto elim!: bind_SomeE split: if_split_asm)
  then show ?thesis using g that by metis
qed

lemma AcceptCmd_locked:
  assumes "secure_build (be_fb env)" "loader_locks env" "locked (ss_fb s)" "AcceptCmd env cmds Size s = Some s'"
  shows "still_locked (be_fb env) (ss_fb s) (ss_fb s')"
  using assms(4)
proof (rule AcceptCmd_cases)
  fix fb Data assume g: "guard fb = guard (ss_fb s)" and r: "run_cmd env cmds Data fb = Some (ss_fb s')"
  have "locked fb" using guard_locked [OF assms(3) g] by (simp add: still_locked_def)
  from still_locked_after [OF run_cmd_locked [OF assms(1,2) this r] g]
  show ?thesis .
qed (rule guard_locked [OF assms(3)])

lemma guard_AcceptData: "AcceptData u Size s = Some s' \<Longrightarrow> guard (ss_fb s') = guard (ss_fb s)"
  by (auto simp: AcceptData_def Let_def FastbootOkayDelay_def Send_in_def upd_fb_def elim!: bind_SomeE split: if_split_asm)

lemma guard_rx_store: "rx_store bs s = Some s' \<Longrightarrow> guard (ss_fb s') = guard (ss_fb s)"
  by (auto simp: rx_store_def upd_fb_def elim!: bind_SomeE split: option.split_asm rx_target.split_asm)

lemma HandleUsbEvents_locked:
  assumes b: "secure_build (be_fb env)" "loader_locks env" and l: "locked (ss_fb s)"
    and run: "HandleUsbEvents env cmds e s = Some (st, s')"
  shows "still_locked (be_fb env) (ss_fb s) (ss_fb s')"
proof (cases e)
  case (Rx xst bs)
  then obtain s1 where s1: "(if xst = CompleteOK then rx_store bs s else Some (s\<lparr>ss_queue := None\<rparr>)) = Some s1"
    "ProcessBulkXfrCompleteRx env cmds xst (of_nat (length bs)) s1 = Some (st, s')"
    using run by (auto simp: HandleUsbEvents_def elim!: bind_SomeE)
  have g: "guard (ss_fb s1) = guard (ss_fb s)" using s1(1) guard_rx_store by (auto split: if_split_asm)
  have l1: "locked (ss_fb s1)" using guard_locked [OF l g] by (simp add: still_locked_def)
  have "still_locked (be_fb env) (ss_fb s1) (ss_fb s')"
    using s1(2) AcceptCmd_locked [OF b l1] guard_locked [OF l1 guard_AcceptData] guard_locked [OF l1, of "ss_fb s1"]
    by (cases xst; cases "mState (ss_fb s1)") (auto simp: ProcessBulkXfrCompleteRx_def DataReady_def)
  then show ?thesis using g by (rule still_locked_after)
qed (use run guard_locked [OF l] in \<open>auto simp: HandleUsbEvents_def ProcessBulkXfrCompleteTx_def Send_in_def
      split: usb_status.split_asm if_split_asm\<close>)

lemma usb_step_locked:
  assumes b: "secure_build (be_fb env)" "loader_locks env" and l: "locked (ss_fb s)" and step: "usb_step env cmds s s'"
  shows "still_locked (be_fb env) (ss_fb s) (ss_fb s')"
  using step
proof cases
  case (event e st)
  then show ?thesis using HandleUsbEvents_locked [OF b l] by blast
next
  case okay
  then have "guard (ss_fb s') = guard (ss_fb s)" by (auto simp: FlashCompleteHandler_def upd_fb_def)
  then show ?thesis by (rule guard_locked [OF l])
next
  case command
  then show ?thesis
    using AcceptCmd_locked [OF b, of "s\<lparr>ss_deferred := ds\<rparr>" for ds] l
    by (auto simp: AcceptCmdHandler_def split: list.split_asm)
qed

lemma reachable_locked:
  assumes "secure_build (be_fb env)" "loader_locks env" "locked (ss_fb s0)" "usb_reachable env cmds s0 s"
  shows "still_locked (be_fb env) (ss_fb s0) (ss_fb s)"
  using assms(4)
proof (induction rule: usb_reachable.induct)
  case start
  show ?case using assms(3) by (intro guard_locked) simp_all
next
  case (step s s')
  have "locked (ss_fb s)" using step.IH by (simp add: still_locked_def)
  from still_locked_trans [OF step.IH usb_step_locked [OF assms(1,2) this step.hyps(2)]]
  show ?case .
qed


text \<open>The host asks the locked example device to erase its boot partition.\<close>

definition demo_locked_session :: session where
  "demo_locked_session = \<lparr>ss_fb = demo_fb demo_locked demo_image 600, ss_rx = replicate 100 0, ss_queue = Some (RxBuffer, 511),
     ss_deferred = [], ss_okays = 0\<rparr>"

definition demo_secure_env :: boot_env where
  "demo_secure_env = demo_boot_env\<lparr>be_usb := demo_usb_env\<lparr>ue_fb := demo_avb_env\<rparr>\<rparr>"

lemma demo_locked_replies: "fs_replies demo_locked = []"
  by (simp add: demo_locked_def demo_flash_state_def)


end
