(* ===== verification/BoardNames.thy ===== *)
theory BoardNames
  imports MiscPartition SparseFlash
begin

text \<open>
  The names the boot loader reports of the board: \<open>BoardSerialNum\<close> and \<open>GetRootDeviceType\<close> of
  \<open>Board.c\<close>, and \<open>ToLower\<close>, \<open>GetBootDevice\<close> and \<open>IsMdtpActive\<close> of \<open>LinuxLoaderLib.c\<close>. The card's
  information, the variable with the boot device's base address and the MDTP protocol are
  parameters.
\<close>

section \<open>The board\<close>

definition ToLower :: "string \<Rightarrow> string" where
  "ToLower Str = List.map (\<lambda>c. if 65 \<le> (of_char c :: nat) \<and> (of_char c :: nat) \<le> 90
                                then char_of (of_char c + 32 :: nat) else c) Str"

text \<open>The serial number that replaces \<open>StrSerialNum\<close>; without card data the call succeeds and leaves
  it. A CRC is taken of as many bytes as the card says it has.\<close>

definition BoardSerialNum :: "misc_env \<Rightarrow> (nat \<Rightarrow> efi_status) \<Rightarrow> (bytes \<times> u32) option \<Rightarrow> string \<Rightarrow>
    (efi_status \<times> string) option" where
  "BoardSerialNum menv card_prot card_serial StrSerialNum = do {
     Type \<leftarrow> CheckRootDeviceType menv UNKNOWN;
     if Type = UNKNOWN then Some (EFI_NOT_FOUND, StrSerialNum)
     else do {
       (Status, hs) \<leftarrow> GetDeviceHandleInfo (mi_db menv) HANDLE_MAX_INFO_LIST Type;
       if EFI_ERROR Status then Some (Status, StrSerialNum)
       else if hs = [] then None
       else
         let s = card_prot (Handle (hs ! 0)) in
         if s \<noteq> EFI_SUCCESS then Some (s, StrSerialNum)
         else (case card_serial of
           None \<Rightarrow> Some (s, StrSerialNum)
         | Some (serial, n) \<Rightarrow>
             if Type = UFS then
               if unat n > length serial then None
               else (case calc_crc32 (mi_io menv) (take (unat n) serial) of (c, SerialNo) \<Rightarrow>
                 Some (if c \<noteq> EFI_SUCCESS then (c, StrSerialNum)
                       else (EFI_SUCCESS, ToLower (digits 16 (unat SerialNo)))))
             else if length serial < 4 then None
             else Some (s, ToLower (digits 16 (unat (le32 serial 0)))))
     }
   }"

definition GetRootDeviceType :: "root_device \<Rightarrow> string" where
  "GetRootDeviceType Type = (case Type of EMMC \<Rightarrow> ''EMMC'' | UFS \<Rightarrow> ''UFS'' | NAND \<Rightarrow> ''NAND'' | UNKNOWN \<Rightarrow> ''Unknown'')"

section \<open>The boot device\<close>

text \<open>\<open>GetBootDevice\<close> with the answer for the variable \<open>BootDeviceBaseAddr\<close>. The text is cut to a
  buffer of \<open>Len\<close> characters.\<close>

definition GetBootDevice :: "(efi_status + u64) \<Rightarrow> root_device \<Rightarrow> nat \<Rightarrow> efi_status + string" where
  "GetBootDevice addr_var Type Len = (case addr_var of
     Inl s \<Rightarrow> Inl s
   | Inr BootDevAddr \<Rightarrow>
       (let BootDeviceType = GetRootDeviceType Type;
            print = (\<lambda>sfx. Inr (ToLower (take (Len - 1) (digits 16 (unat (ucast BootDevAddr :: u32)) @ sfx)))) in
        if \<not> StrnCmp BootDeviceType ''UFS'' 3 then print ''.ufshc''
        else if \<not> StrnCmp BootDeviceType ''EMMC'' 4 then print ''.sdhci''
        else Inl EFI_NOT_FOUND))"

section \<open>MDTP\<close>

datatype mdtp_state = MDTP_STATE_DISABLED | MDTP_STATE_INACTIVE | MDTP_STATE_ACTIVE | MDTP_STATE_TAMPERED | MDTP_STATE_INVALID

text \<open>The status and whether MDTP is active, with the answers of the protocol lookup and of the
  protocol.\<close>

definition IsMdtpActive :: "efi_status \<Rightarrow> (efi_status + mdtp_state) \<Rightarrow> efi_status \<times> bool" where
  "IsMdtpActive mdtp_prot mdtp_get =
     (if mdtp_prot \<noteq> EFI_SUCCESS then (mdtp_prot, False)
      else (case mdtp_get of
        Inl s \<Rightarrow> (s, False)
      | Inr MdtpState \<Rightarrow> (EFI_SUCCESS, MdtpState \<noteq> MDTP_STATE_DISABLED \<and> MdtpState \<noteq> MDTP_STATE_INACTIVE)))"

end
