(* ===== verification/FastbootSetup.thy ===== *)
theory FastbootSetup
  imports FastbootLock BoardNames
begin

text \<open>
  The start of the fastboot application: \<open>BoardHwPlatformName\<close> of \<open>Board.c\<close>, \<open>ReadAllowUnlockValue\<close>,
  \<open>FastbootCommandSetup\<close>, \<open>InitMultiThreadEnv\<close> and \<open>FastbootCmdsInit\<close> of \<open>FastbootCmds.c\<close>, and
  \<open>FastbootUsbDeviceStart\<close> and \<open>FastbootInitialize\<close> of \<open>FastbootMain.c\<close>.

  The theorems join the start with the sessions of \<open>FastbootMachine\<close> and \<open>FastbootLock\<close>: what the
  start leaves is a session those invariants hold of, and the permission to unlock is the one
  stored in the last byte of the \<open>frp\<close> partition.
\<close>

section \<open>The environment of the start\<close>

text \<open>The environment of the sessions, and what the start asks of the firmware besides: the card
  information of a handle, the chip's name and version, memory and transfer buffers, the kernel
  protocol, and the status of each USB service. The build switch is \<open>EnableMultiThreadFlash\<close>.\<close>

record setup_env =
  su_boot :: boot_env
  card_prot :: "nat \<Rightarrow> efi_status"
  card_serial :: "(bytes \<times> u32) option"
  chip_id :: "string option"
  chip_version :: u32
  su_map :: memmap_env
  su_alloc :: "u64 \<Rightarrow> bool"
  su_base :: u64
  send_event :: efi_status
  kernel_proto :: "(efi_status \<times> nat option)"
  multi_thread :: bool
  usb_init :: efi_status
  usb_locate :: efi_status
  usb_start :: efi_status
  usb_rx_alloc :: efi_status
  usb_tx_alloc :: efi_status

abbreviation su_fb :: "setup_env \<Rightarrow> fastboot_env" where "su_fb env \<equiv> be_fb (su_boot env)"
abbreviation su_misc :: "setup_env \<Rightarrow> misc_env" where "su_misc env \<equiv> be_misc (su_boot env)"
abbreviation su_root :: "setup_env \<Rightarrow> root_device" where "su_root env \<equiv> dev_type (fl_ptn (fe_flash (su_fb env)))"

section \<open>The board\<close>

text \<open>The chip's name, cut to three characters.\<close>

definition BoardHwPlatformName :: "setup_env \<Rightarrow> string" where
  "BoardHwPlatformName env = (case chip_id env of None \<Rightarrow> '''' | Some s \<Rightarrow> take 3 s)"

section \<open>The unlock permission\<close>

text \<open>\<open>ReadAllowUnlockValue\<close>: the status, and the value when it was read. A driver that reports success
  fills the buffer.\<close>

definition ReadAllowUnlockValue :: "flash_env \<Rightarrow> flash_state \<Rightarrow> (efi_status \<times> bool option) option" where
  "ReadAllowUnlockValue env st = do {
     found \<leftarrow> PartitionGetInfo env ''frp'' st;
     case found of
       None \<Rightarrow> Some (EFI_NOT_FOUND, None)
     | Some hi \<Rightarrow>
         let n = unat (BlockSize (BlkIo hi)) in
         if \<not> alloc_pool (fl_io env) n then Some (EFI_OUT_OF_RESOURCES, None)
         else (case read_blocks (fl_io env) (fs_log st) (bio_id (BlkIo hi)) (LastBlock (BlkIo hi)) n of (s, Buffer) \<Rightarrow>
           if s \<noteq> EFI_SUCCESS then Some (s, None)
           else if n = 0 \<or> length Buffer \<noteq> n then None
           else Some (s, Some (bit (Buffer ! (n - 1)) 0)))
   }"

section \<open>Commands and variables\<close>

definition publish_static :: "fastboot_env \<Rightarrow> string \<Rightarrow> string \<Rightarrow> string \<Rightarrow> fastboot \<Rightarrow> fastboot" where
  "publish_static env Name buf txt fb =
     FastbootPublishVar env Name (Static buf) (set_static buf (take (MAX_RSP_SIZE - 1) txt) fb)"

text \<open>The name of a snapshot state that is still to be acted on; every other state counts as none.\<close>

definition merge_name :: "u8 \<Rightarrow> string" where
  "merge_name s = (if s = merge_code SNAPSHOTTED then ''snapshotted'' else if s = merge_code MERGING then ''merging''
     else ''none'')"

definition publish_snapshot :: "fastboot_env \<Rightarrow> fastboot \<Rightarrow> fastboot option" where
  "publish_snapshot env fb =
     (if \<not> virtual_ab env then Some fb
      else do {
        (s, fb1) \<leftarrow> snapshot_status env fb;
        Some (publish_static env ''snapshot-update-status'' ''SnapshotMergeState'' (merge_name s) fb1)
      })"

text \<open>The variables from \<open>variant\<close> to \<open>parallel-download-flash\<close>. The erase block of a NAND device has 64
  pages; \<open>off-mode-charge\<close> points to the text of \<open>charger-screen-enabled\<close>.\<close>

definition publish_board :: "setup_env \<Rightarrow> u32 \<Rightarrow> fastboot \<Rightarrow> fastboot" where
  "publish_board env BlkSize fb0 =
     (let fenv = su_fb env; dev = fs_dev (fb_flash fb0); (BatterySocOk, BatteryVoltage) = battery fenv;
          c = (if IsChargingScreenEnable dev then ''1'' else ''0'');
          fb1 = publish_static fenv ''variant'' ''StrVariant''
                  (BoardHwPlatformName env @ '' '' @ GetRootDeviceType (su_root env)) fb0;
          fb2 = publish_static fenv ''logical-block-size'' ''LogicalBlkSizeStr'' ('' 0x'' @ digits 16 (unat BlkSize)) fb1;
          EraseSize = (if su_root env = NAND then 64 * BlkSize else BlkSize);
          fb3 = publish_static fenv ''erase-block-size'' ''EraseBlkSizeStr'' ('' 0x'' @ digits 16 (unat EraseSize)) fb2;
          fb4 = FastbootPublishVar fenv ''version-bootloader'' BootloaderVersion fb3;
          fb5 = FastbootPublishVar fenv ''version-baseband'' BasebandVersion fb4;
          fb6 = publish_static fenv ''battery-voltage'' ''StrBatteryVoltage'' (digits 10 BatteryVoltage) fb5;
          fb7 = publish_static fenv ''battery-soc-ok'' ''StrBatterySocOk'' (yes_no BatterySocOk) fb6;
          fb8 = publish_static fenv ''charger-screen-enabled'' ''ChargeScreenEnable'' c fb7;
          fb9 = FastbootPublishVar fenv ''off-mode-charge'' (Static ''ChargeScreenEnable'') (set_static ''OffModeCharge'' c fb8);
          fb10 = FastbootPublishVar fenv ''unlocked'' (Const (yes_no (IsUnlocked dev))) fb9;
          fb11 = publish_static fenv ''hw-revision'' ''StrSocVersion'' (digits 16 (unat (chip_version env))) fb10
      in FastbootPublishVar fenv ''parallel-download-flash'' (Const (yes_no (\<not> parallel_disabled fenv))) fb11)"

definition publish_product :: "setup_env \<Rightarrow> fastboot \<Rightarrow> fastboot option" where
  "publish_product env fb = do {
     let fenv = su_fb env;
     let fb1 = publish_static fenv ''max-download-size'' ''MaxDownloadSizeStr'' (digits 10 (unat (MaxDownLoadSize fb)))
                 (FastbootPublishVar fenv ''kernel'' (Const ''uefi'') fb);
     fb2 \<leftarrow> publish_snapshot fenv
       (if dynamic_partition (su_boot env) then FastbootPublishVar fenv ''is-userspace'' (Const ''no'') fb1 else fb1);
     let fb3 = publish_static fenv ''product'' ''FullProduct'' (PcdABLProduct (fe_flash fenv)) fb2;
     Some (FastbootPublishVar fenv ''secure'' (Const (yes_no IsSecureBootEnabled))
             (FastbootPublishVar fenv ''serialno'' (Static ''StrSerialNum'') fb3))
   }"

text \<open>The slot variables, after the active slot was looked for.\<close>

definition publish_multislot :: "setup_env \<Rightarrow> bool \<Rightarrow> fastboot \<Rightarrow> fastboot option" where
  "publish_multislot env MultiSlotBoot fb =
     (if MultiSlotBoot
      then PopulateMultislotMetadata (su_fb env) (upd_ptn (\<lambda>p. snd (snd (GetActiveSlot p ''''))) fb) else Some fb)"

definition publish_variables :: "setup_env \<Rightarrow> bool \<Rightarrow> fastboot \<Rightarrow> fastboot option" where
  "publish_variables env MultiSlotBoot fb = do {
     fb1 \<leftarrow> publish_product env fb;
     fb2 \<leftarrow> publish_multislot env MultiSlotBoot fb1;
     (_, fb3) \<leftarrow> PublishGetVarPartitionInfo (su_fb env) (length (PtnEntries (fb_ptn fb2))) fb2;
     BlkSize \<leftarrow> GetPageSize (su_misc env);
     Some (publish_board env BlkSize fb3)
   }"

text \<open>\<open>FastbootCommandSetup\<close>: the status, the registered commands and the state. The halves of the
  buffer are \<open>Base\<close> and \<open>Flash\<close>.\<close>

definition FastbootCommandSetup :: "setup_env \<Rightarrow> mem_buf \<Rightarrow> mem_buf \<Rightarrow> u64 \<Rightarrow> fastboot \<Rightarrow>
    (efi_status \<times> (string \<times> handler) list \<times> fastboot) option" where
  "FastbootCommandSetup env Base Flash Size fb = do {
     let fb1 = fb\<lparr>mUsbDataBuffer := Some Base, mFlashDataBuffer := Some Flash, mNumDataBytes := Size, mFlashNumDataBytes := Size\<rparr>;
     (Status, serial) \<leftarrow> BoardSerialNum (su_misc env) (card_prot env) (card_serial env) (fb_static fb1 ''StrSerialNum'');
     let fb2 = set_static ''StrSerialNum'' serial fb1;
     if Status \<noteq> EFI_SUCCESS then Some (Status, [], fb2)
     else do {
       fb3 \<leftarrow> publish_variables env (PartitionHasMultiSlot (fb_ptn fb) ''boot'') fb2;
       (s, allowed) \<leftarrow> ReadAllowUnlockValue (fe_flash (su_fb env)) (fb_flash fb3);
       Some (s, register_all (su_boot env) cmd_list [],
             case allowed of None \<Rightarrow> fb3 | Some b \<Rightarrow> fb3\<lparr>IsAllowUnlock := b\<rparr>)
     }
   }"

section \<open>The start of the application\<close>

text \<open>Whether flashing may run in a thread: the kernel protocol has to be there in the version with
  unsafe stacks.\<close>

definition InitMultiThreadEnv :: "setup_env \<Rightarrow> bool" where
  "InitMultiThreadEnv env \<longleftrightarrow> \<not> parallel_disabled (su_fb env) \<and>
     (case kernel_proto env of (Status, proto) \<Rightarrow> Status = EFI_SUCCESS \<and>
        (case proto of None \<Rightarrow> False | Some Version \<Rightarrow> Version \<ge> 0x00010006))"

text \<open>The environment of the sessions that follow, with the answer of \<open>IsUseMThreadParallel\<close>.\<close>

definition session_env :: "setup_env \<Rightarrow> boot_env" where
  "session_env env = (su_boot env)\<lparr>be_usb := (be_usb (su_boot env))
     \<lparr>ue_fb := (su_fb env)\<lparr>mt_flash := multi_thread env \<and> InitMultiThreadEnv env\<rparr>\<rparr>\<rparr>"

text \<open>The static variables of the file before the start.\<close>

definition fresh_flash :: "flash_state \<Rightarrow> flash_state" where
  "fresh_flash st = st\<lparr>BootSlotInfo := None, SlotCount := 0, Lun := - 1, LunSet := False\<rparr>"

definition fresh_fastboot :: "flash_state \<Rightarrow> bytes option \<Rightarrow> gpt_globals \<Rightarrow> fastboot" where
  "fresh_fastboot st msg gl = \<lparr>fb_flash = fresh_flash st, Varlist = [],
     fb_static = (\<lambda>_. ''''), SlotSuffixArray = '''', InitialPopulate = False, VirtualAbMsg = msg,
     mState = ExpectCmdState, mUsbDataBuffer = None, mFlashDataBuffer = None, mNumDataBytes = 0,
     mFlashNumDataBytes = 0, mBytesReceivedSoFar = 0, MaxDownLoadSize = 0, IsFlashComplete = True,
     UsbTimerStarted = False, FlashResult = EFI_SUCCESS, IsAllowUnlock = False, IsFirstEraseFlash = False,
     fb_pending = None, fb_reboots = [], fb_panel = [], Finished = False, gpt_glob = gl\<rparr>"

definition zero_buffer :: "u64 \<Rightarrow> u64 \<Rightarrow> mem_buf" where
  "zero_buffer base n = \<lparr>mem_base = base, mem_bytes = replicate (unat n) 0\<rparr>"

text \<open>\<open>FastbootCmdsInit\<close>. The status of the command setup is ignored. On NAND the two buffers are one
  memory, which the state does not represent: \<open>None\<close>.\<close>

definition FastbootCmdsInit :: "setup_env \<Rightarrow> fastboot \<Rightarrow> (efi_status \<times> (string \<times> handler) list \<times> fastboot) option" where
  "FastbootCmdsInit env fb =
     (if EFI_ERROR (send_event env) then Some (send_event env, [], fb)
      else case download_buffer (su_map env) (su_alloc env) (su_root env) of
        None \<Rightarrow> Some (EFI_OUT_OF_RESOURCES, [], fb)
      | Some (Allocated, Limit) \<Rightarrow>
          if su_root env = NAND then None
          else do {
            (_, cmds, fb1) \<leftarrow> FastbootCommandSetup env (zero_buffer (su_base env) Limit)
                                (zero_buffer (su_base env + Limit) Limit) Limit (fb\<lparr>MaxDownLoadSize := Limit\<rparr>);
            Some (EFI_SUCCESS, cmds, fb1)
          })"

definition rx_buffer :: bytes where "rx_buffer = replicate (unat USB_BUFFER_SIZE) 0"

definition FastbootUsbDeviceStart :: "setup_env \<Rightarrow> fastboot \<Rightarrow>
    (efi_status \<times> (string \<times> handler) list \<times> session) option" where
  "FastbootUsbDeviceStart env fb0 =
     (let stop = (\<lambda>s cmds fb. Some (s, cmds,
            \<lparr>ss_fb = fb, ss_rx = rx_buffer, ss_queue = None, ss_deferred = [], ss_okays = 0\<rparr>)) in
      if EFI_ERROR (usb_init env) then stop (usb_init env) [] fb0
      else if usb_locate env \<noteq> EFI_SUCCESS then stop (usb_locate env) [] fb0
      else do {
        (Status, cmds, fb) \<leftarrow> FastbootCmdsInit env fb0;
        if Status \<noteq> EFI_SUCCESS then stop Status cmds fb
        else if EFI_ERROR (usb_start env) then stop EFI_NOT_STARTED cmds fb
        else if EFI_ERROR (usb_rx_alloc env) then stop EFI_OUT_OF_RESOURCES cmds fb
        else if EFI_ERROR (usb_tx_alloc env) then stop EFI_OUT_OF_RESOURCES cmds fb
        else stop EFI_SUCCESS cmds fb
      })"

text \<open>\<open>FastbootInitialize\<close> over the events that arrive, up to the end of its loop.\<close>

definition FastbootInitialize :: "setup_env \<Rightarrow> usb_event list \<Rightarrow> fastboot \<Rightarrow> (efi_status \<times> session) option" where
  "FastbootInitialize env events fb0 = do {
     (Status, cmds, s) \<leftarrow> FastbootUsbDeviceStart env fb0;
     if Status \<noteq> EFI_SUCCESS then Some (Status, s)
     else map_option (Pair EFI_SUCCESS) (event_loop (session_env env) cmds events s)
   }"

section \<open>What the start keeps\<close>

definition luns_view :: "flash_state \<Rightarrow> HandleInfo list list \<times> nat \<times> u32 \<times> bool \<times> disk_op list" where
  "luns_view st = (Ptable (fs_ptn st), MaxLuns (fs_ptn st), Lun st, LunSet st, fs_log st)"

definition start_view :: "fastboot \<Rightarrow> (HandleInfo list list \<times> nat \<times> u32 \<times> bool \<times> disk_op list) \<times> dev_state \<times>
    (string \<times> mem_buf \<times> u64) option \<times> ANDROID_FASTBOOT_STATE \<times> u64 \<times> bool \<times> bool \<times> bool" where
  "start_view fb = (luns_view (fb_flash fb), fb_dev fb, fb_pending fb, mState fb, MaxDownLoadSize fb, IsFlashComplete fb,
     IsAllowUnlock fb, Finished fb)"

lemma find_in_luns_table:
  "Ptable p' = Ptable p \<Longrightarrow> find_in_luns env p' Name i n = find_in_luns env p Name i n"
  by (induction n arbitrary: i) (simp_all add: lun_handles_def split: option.split)

lemma PartitionGetInfo_view:
  assumes "luns_view st' = luns_view st"
  shows "PartitionGetInfo env Name st' = PartitionGetInfo env Name st"
  using assms find_in_luns_table [of "fs_ptn st'" "fs_ptn st"] by (auto simp: PartitionGetInfo_def luns_view_def)

lemma ReadAllowUnlockValue_view:
  assumes "luns_view st' = luns_view st"
  shows "ReadAllowUnlockValue env st' = ReadAllowUnlockValue env st"
proof -
  have log: "fs_log st' = fs_log st" using assms by (simp add: luns_view_def)
  show ?thesis unfolding ReadAllowUnlockValue_def PartitionGetInfo_view [OF assms] log ..
qed

lemma start_view_helpers [simp]:
  "start_view (FastbootPublishVar env n v fb) = start_view fb"
  "start_view (set_static b t fb) = start_view fb"
  "start_view (publish_static env n b t fb) = start_view fb"
  "start_view (fb\<lparr>VirtualAbMsg := m\<rparr>) = start_view fb"
  "start_view (fb\<lparr>Varlist := vs\<rparr>) = start_view fb"
  "start_view (fb\<lparr>InitialPopulate := b'\<rparr>) = start_view fb"
  "start_view (fb\<lparr>SlotSuffixArray := arr\<rparr>) = start_view fb"
  by (simp_all add: start_view_def FastbootPublishVar_def set_static_def publish_static_def)

lemma start_view_flash:
  "start_view (upd_flash f fb) = start_view fb" if "luns_view (f (fb_flash fb)) = luns_view (fb_flash fb)"
    "fs_dev (f (fb_flash fb)) = fb_dev fb"
  using that by (simp add: start_view_def upd_flash_def)

lemma start_view_slots [simp]:
  "start_view (upd_flash (\<lambda>st. st\<lparr>BootSlotInfo := x\<rparr>) fb) = start_view fb"
  "start_view (upd_flash (\<lambda>st. st\<lparr>SlotCount := n\<rparr>) fb) = start_view fb"
  by (rule start_view_flash; simp add: luns_view_def)+

lemma GetActiveSlot_table:
  "Ptable (snd (snd (GetActiveSlot p s))) = Ptable p" "MaxLuns (snd (snd (GetActiveSlot p s))) = MaxLuns p"
  by (simp_all add: GetActiveSlot_def UpdatePartitionAttributes_def upd_attr_def Let_def split: prod.split option.split)

lemma start_view_ptn:
  "start_view (upd_ptn f fb) = start_view fb" if "Ptable (f (fb_ptn fb)) = Ptable (fb_ptn fb)"
    "MaxLuns (f (fb_ptn fb)) = MaxLuns (fb_ptn fb)"
  using that by (simp add: upd_ptn_def start_view_flash luns_view_def)

lemma start_view_publish_slots: "publish_slots env es j fb = Some fb' \<Longrightarrow> start_view fb' = start_view fb"
  by (induction env es j fb rule: publish_slots.induct) (auto simp: Let_def split: if_split_asm option.split_asm)

lemma GetCurrentSlotSuffix_table:
  "GetCurrentSlotSuffix p = (sfx, p') \<Longrightarrow> Ptable p' = Ptable p \<and> MaxLuns p' = MaxLuns p"
  using GetActiveSlot_table [of p "''''"] by (auto simp: GetCurrentSlotSuffix_def split: if_split_asm prod.split_asm)

lemma start_view_FastbootPublishSlotVars:
  assumes "FastbootPublishSlotVars env fb = Some fb'"
  shows "start_view fb' = start_view fb"
proof -
  obtain fb1 where p: "publish_slots env (PtnEntries (fb_ptn fb)) 0 fb = Some fb1"
    using assms by (auto simp: FastbootPublishSlotVars_def elim: bind_SomeE)
  define fb2 where "fb2 = FastbootPublishVar env ''has-slot:boot'' (Const ''yes'') fb1"
  obtain sfx p' where g: "GetCurrentSlotSuffix (fb_ptn fb2) = (sfx, p')" by fastforce
  have "start_view fb' = start_view (upd_ptn (\<lambda>_. p') fb2)"
    using assms p g by (auto simp: FastbootPublishSlotVars_def Let_def fb2_def)
  also have "\<dots> = start_view fb" using GetCurrentSlotSuffix_table [OF g] start_view_publish_slots [OF p]
    by (simp add: start_view_ptn) (simp add: fb2_def)
  finally show ?thesis .
qed

lemma start_view_PopulateMultislotMetadata:
  assumes "PopulateMultislotMetadata env fb = Some fb'" "\<not> InitialPopulate fb"
  shows "start_view fb' = start_view fb"
  using assms start_view_FastbootPublishSlotVars
  by (auto simp: PopulateMultislotMetadata_def Let_def elim!: bind_SomeE split: prod.split_asm if_split_asm)

lemma start_view_publish_if: "start_view (snd (publish_if env ok n v r)) = start_view (snd r)"
  by (simp add: publish_if_def split: prod.split)

lemma start_view_publish_partition: "publish_partition env Name r = Some r' \<Longrightarrow> start_view (snd r') = start_view (snd r)"
  by (auto simp: publish_partition_def start_view_publish_if elim!: bind_SomeE split: if_split_asm simp del: split_paired_Ex)

lemma start_view_publish_partitions:
  "publish_partitions env es i n r = Some r' \<Longrightarrow> start_view (snd r') = start_view (snd r)"
proof (induction env es i n r rule: publish_partitions.induct)
  case (2 env es i n r)
  then show ?case
    using start_view_publish_partition by (fastforce simp: Let_def elim!: bind_SomeE split: if_split_asm)
qed simp

lemma start_view_publish_board: "start_view (publish_board env BlkSize fb) = start_view fb"
  by (simp add: publish_board_def Let_def split: prod.split)

lemma InitialPopulate_publish [simp]:
  "InitialPopulate (FastbootPublishVar env n v fb) = InitialPopulate fb"
  "InitialPopulate (set_static b t fb) = InitialPopulate fb"
  "InitialPopulate (publish_static env n b t fb) = InitialPopulate fb"
  "InitialPopulate (upd_ptn f fb) = InitialPopulate fb"
  by (simp_all add: FastbootPublishVar_def set_static_def publish_static_def upd_ptn_def upd_flash_def)

lemma publish_snapshot_view:
  "publish_snapshot env fb = Some fb' \<Longrightarrow> start_view fb' = start_view fb \<and> InitialPopulate fb' = InitialPopulate fb"
  by (auto simp: publish_snapshot_def snapshot_status_def elim!: bind_SomeE split: if_split_asm)

lemma publish_product_view:
  "publish_product env fb = Some fb' \<Longrightarrow> start_view fb' = start_view fb \<and> InitialPopulate fb' = InitialPopulate fb"
  by (auto simp: publish_product_def Let_def elim!: bind_SomeE split: if_split_asm
      dest!: publish_snapshot_view)

lemma publish_multislot_view:
  assumes "publish_multislot env b fb = Some fb'" "\<not> InitialPopulate fb"
  shows "start_view fb' = start_view fb"
  using assms start_view_PopulateMultislotMetadata start_view_ptn GetActiveSlot_table
  by (fastforce simp: publish_multislot_def split: if_split_asm)

lemma publish_variables_view:
  assumes "publish_variables env b fb = Some fb'" "\<not> InitialPopulate fb"
  shows "start_view fb' = start_view fb"
proof -
  obtain fb1 fb2 n r where "publish_product env fb = Some fb1" and m: "publish_multislot env b fb1 = Some fb2"
    and r: "PublishGetVarPartitionInfo (su_fb env) n fb2 = Some r" and e: "start_view fb' = start_view (snd r)"
    using assms(1) by (auto simp: publish_variables_def start_view_publish_board elim!: bind_SomeE)
  with publish_product_view [of env fb fb1] publish_multislot_view [OF m] assms(2)
    start_view_publish_partitions [OF r [unfolded PublishGetVarPartitionInfo_def]]
  show ?thesis by simp
qed

text \<open>The command setup: nothing but the unlock permission changes, and that is what was read.\<close>

lemma FastbootCommandSetup_view:
  assumes "FastbootCommandSetup env Base Flash Size fb = Some (s, cmds, fb')" "\<not> InitialPopulate fb" "\<not> IsAllowUnlock fb"
  shows "start_view (fb'\<lparr>IsAllowUnlock := False\<rparr>) = start_view fb"
    and "IsAllowUnlock fb' \<Longrightarrow> ReadAllowUnlockValue (fe_flash (su_fb env)) (fb_flash fb) = Some (EFI_SUCCESS, Some True)"
proof -
  define fb2 where "fb2 serial = set_static ''StrSerialNum'' serial
    (fb\<lparr>mUsbDataBuffer := Some Base, mFlashDataBuffer := Some Flash, mNumDataBytes := Size, mFlashNumDataBytes := Size\<rparr>)" for serial
  have v2: "start_view (fb2 serial) = start_view fb" "\<not> InitialPopulate (fb2 serial)" for serial
    using assms(2) by (simp_all add: fb2_def start_view_def set_static_def)
  obtain st serial where st: "BoardSerialNum (su_misc env) (card_prot env) (card_serial env) (fb_static fb ''StrSerialNum'') = Some (st, serial)"
    using assms(1) by (auto simp: FastbootCommandSetup_def Let_def elim!: bind_SomeE)
  have "start_view (fb'\<lparr>IsAllowUnlock := False\<rparr>) = start_view fb \<and>
    (IsAllowUnlock fb' \<longrightarrow> ReadAllowUnlockValue (fe_flash (su_fb env)) (fb_flash fb) = Some (EFI_SUCCESS, Some True))"
  proof (cases "st = EFI_SUCCESS")
    case False
    then have "fb' = fb2 serial" using assms(1) st by (auto simp: FastbootCommandSetup_def Let_def fb2_def)
    then show ?thesis using v2 [of serial] assms(3) by (auto simp: start_view_def)
  next
    case True
    obtain fb3 b allowed where p: "publish_variables env b (fb2 serial) = Some fb3"
      and r: "ReadAllowUnlockValue (fe_flash (su_fb env)) (fb_flash fb3) = Some (s, allowed)"
      and e: "fb' = (case allowed of None \<Rightarrow> fb3 | Some b \<Rightarrow> fb3\<lparr>IsAllowUnlock := b\<rparr>)"
      using assms(1) st True by (auto simp: FastbootCommandSetup_def Let_def fb2_def elim!: bind_SomeE)
    have v: "start_view fb3 = start_view fb" using publish_variables_view [OF p v2(2)] v2(1) by simp
    then have l: "luns_view (fb_flash fb3) = luns_view (fb_flash fb)" by (simp add: start_view_def)
    have "s = EFI_SUCCESS" if "allowed = Some a" for a
      using r that by (auto simp: ReadAllowUnlockValue_def Let_def elim!: bind_SomeE split: option.split_asm if_split_asm prod.split_asm)
    then show ?thesis
      using v e r assms(3) ReadAllowUnlockValue_view [OF l] by (cases allowed) (auto simp: start_view_def)
  qed
  then show "start_view (fb'\<lparr>IsAllowUnlock := False\<rparr>) = start_view fb"
    and "IsAllowUnlock fb' \<Longrightarrow> ReadAllowUnlockValue (fe_flash (su_fb env)) (fb_flash fb) = Some (EFI_SUCCESS, Some True)"
    by simp_all
qed

section \<open>From the start to the sessions\<close>

lemma FastbootUsbDeviceStart_session:
  assumes "FastbootUsbDeviceStart env (fresh_fastboot st msg gl) = Some (EFI_SUCCESS, cmds, s)"
  shows "\<exists>fb Allocated Limit. s = \<lparr>ss_fb = fb, ss_rx = rx_buffer, ss_queue = None, ss_deferred = [], ss_okays = 0\<rparr> \<and>
    download_buffer (su_map env) (su_alloc env) (su_root env) = Some (Allocated, Limit) \<and>
    start_view (fb\<lparr>IsAllowUnlock := False\<rparr>) = start_view ((fresh_fastboot st msg gl)\<lparr>MaxDownLoadSize := Limit\<rparr>) \<and>
    (IsAllowUnlock fb \<longrightarrow> ReadAllowUnlockValue (fe_flash (su_fb env)) (fresh_flash st) = Some (EFI_SUCCESS, Some True))"
proof -
  let ?fb = "fresh_fastboot st msg gl"
  obtain fb where i: "FastbootCmdsInit env ?fb = Some (EFI_SUCCESS, cmds, fb)"
    and s: "s = \<lparr>ss_fb = fb, ss_rx = rx_buffer, ss_queue = None, ss_deferred = [], ss_okays = 0\<rparr>"
    using assms by (auto simp: FastbootUsbDeviceStart_def Let_def elim!: bind_SomeE split: if_split_asm)
  obtain Allocated Limit where d: "download_buffer (su_map env) (su_alloc env) (su_root env) = Some (Allocated, Limit)"
    using i by (auto simp: FastbootCmdsInit_def split: if_split_asm option.split_asm)
  obtain c where "FastbootCommandSetup env (zero_buffer (su_base env) Limit)
      (zero_buffer (su_base env + Limit) Limit) Limit (?fb\<lparr>MaxDownLoadSize := Limit\<rparr>) = Some (c, cmds, fb)"
    using i d by (auto simp: FastbootCmdsInit_def elim!: bind_SomeE split: if_split_asm)
  note v = FastbootCommandSetup_view [OF this]
  have f: "\<not> InitialPopulate ?fb" "\<not> IsAllowUnlock ?fb" "fb_flash ?fb = fresh_flash st"
    by (simp_all add: fresh_fastboot_def)
  show ?thesis using s d v f by auto
qed

lemma started_session_ok:
  assumes "FastbootUsbDeviceStart env (fresh_fastboot st msg gl) = Some (EFI_SUCCESS, cmds, s)"
  shows "session_ok (session_env env) (MaxDownLoadSize (ss_fb s)) s"
proof -
  from FastbootUsbDeviceStart_session [OF assms] obtain fb Limit where
    "s = \<lparr>ss_fb = fb, ss_rx = rx_buffer, ss_queue = None, ss_deferred = [], ss_okays = 0\<rparr>"
    "start_view (fb\<lparr>IsAllowUnlock := False\<rparr>) = start_view ((fresh_fastboot st msg gl)\<lparr>MaxDownLoadSize := Limit\<rparr>)"
    by blast
  then show ?thesis by (simp add: session_ok_def start_view_def fresh_fastboot_def)
qed

text \<open>After a successful start every session, whatever the host sends, keeps its transfers inside
  the two equal halves of the allocated buffer, and never expects more data than one half holds.\<close>

theorem started_transfers_inside:
  assumes "FastbootUsbDeviceStart env (fresh_fastboot st msg gl) = Some (EFI_SUCCESS, cmds, s0)"
    and "loader_keeps (session_env env)" "usb_reachable (session_env env) cmds s0 s"
  shows "\<exists>Allocated Limit. download_buffer (su_map env) (su_alloc env) (su_root env) = Some (Allocated, Limit) \<and>
    MaxDownLoadSize (ss_fb s) = Limit \<and>
    (\<forall>off n. ss_queue s = Some (Dload off, n) \<longrightarrow> unat off + unat n \<le> unat Limit) \<and>
    (\<forall>n. ss_queue s = Some (RxBuffer, n) \<longrightarrow> unat n \<le> length rx_buffer) \<and>
    (mState (ss_fb s) = ExpectDataState \<longrightarrow> unat (mNumDataBytes (ss_fb s)) \<le> unat Limit)"
proof -
  from FastbootUsbDeviceStart_session [OF assms(1)] obtain fb Allocated Limit where
    s0: "s0 = \<lparr>ss_fb = fb, ss_rx = rx_buffer, ss_queue = None, ss_deferred = [], ss_okays = 0\<rparr>"
    and d: "download_buffer (su_map env) (su_alloc env) (su_root env) = Some (Allocated, Limit)"
    and v: "start_view (fb\<lparr>IsAllowUnlock := False\<rparr>) = start_view ((fresh_fastboot st msg gl)\<lparr>MaxDownLoadSize := Limit\<rparr>)"
    by blast
  have m: "MaxDownLoadSize (ss_fb s0) = Limit" using v s0 by (simp add: start_view_def)
  have ok: "session_ok (session_env env) Limit s"
    by (rule reachable_ok [OF assms(2) started_session_ok [OF assms(1), unfolded m] assms(3)])
  have "length rx_buffer = 2 ^ 24" by (simp add: rx_buffer_def)
  then show ?thesis using d ok session_ok_inside [OF ok] by (auto simp: session_ok_def)
qed

lemma started_locked:
  assumes "FastbootUsbDeviceStart env (fresh_fastboot st msg gl) = Some (EFI_SUCCESS, cmds, s0)"
    and "secure_build (be_fb (session_env env))" "loader_locks (session_env env)" "\<not> IsUnlocked (fs_dev st)"
    and "ReadAllowUnlockValue (fe_flash (su_fb env)) (fresh_flash st) \<noteq> Some (EFI_SUCCESS, Some True)"
    and "usb_reachable (session_env env) cmds s0 s"
  shows "\<not> IsUnlocked (fb_dev (ss_fb s)) \<and>
    (\<exists>ws. fb_log (ss_fb s) = fs_log st @ ws \<and> (\<forall>op\<in>set ws. misc_write (be_fb (session_env env)) op))"
proof -
  from FastbootUsbDeviceStart_session [OF assms(1)] assms(5) obtain fb Limit where
    s0: "ss_fb s0 = fb" and a: "\<not> IsAllowUnlock fb"
    and v: "start_view (fb\<lparr>IsAllowUnlock := False\<rparr>) = start_view ((fresh_fastboot st msg gl)\<lparr>MaxDownLoadSize := Limit\<rparr>)"
    by auto
  have "locked (ss_fb s0)" "fb_log (ss_fb s0) = fs_log st"
    using v a assms(4) by (simp_all add: s0 locked_def start_view_def luns_view_def fresh_fastboot_def fresh_flash_def)
  with reachable_locked [OF assms(2,3) this(1) assms(6)] show ?thesis
    by (simp add: still_locked_def locked_def grows_def)
qed


section \<open>A start on the example device\<close>

text \<open>A locked device with one partition, \<open>frp\<close>, whose last byte is zero.\<close>

definition demo_frp_flash :: flash_env where
  "demo_frp_flash = demo_flash_env\<lparr>fl_io := (ram_env UFS [])\<lparr>read_blocks := (\<lambda>log dev lba n. (EFI_SUCCESS, replicate n 0))\<rparr>,
     fl_ptn := demo_env\<lparr>dev_type := UFS, handles := (\<lambda>_. (EFI_SUCCESS, [])), part_record := (\<lambda>h. if h = 1 then Some (demo_entry ''frp'' 1 0) else None)\<rparr>\<rparr>"

definition demo_setup :: setup_env where
  "demo_setup = \<lparr>su_boot = demo_boot_env\<lparr>be_usb := demo_usb_env\<lparr>ue_fb := demo_fb_env\<lparr>avb_le := True, fe_flash := demo_frp_flash\<rparr>\<rparr>\<rparr>,
     card_prot = (\<lambda>_. EFI_SUCCESS), card_serial = Some ([1, 2, 3, 4], 4), chip_id = Some ''SM8150'', chip_version = 2,
     su_map = demo_map, su_alloc = (\<lambda>_. True), su_base = 0x80000000, send_event = EFI_SUCCESS,
     kernel_proto = (EFI_NOT_FOUND, None), multi_thread = False, usb_init = EFI_SUCCESS, usb_locate = EFI_SUCCESS,
     usb_start = EFI_SUCCESS, usb_rx_alloc = EFI_SUCCESS, usb_tx_alloc = EFI_SUCCESS\<rparr>"

definition demo_frp_state :: flash_state where
  "demo_frp_state = demo_locked\<lparr>fs_ptn := demo_slots\<lparr>PtnEntries := [], Ptable := [[demo_handle 1]], MaxLuns := 1\<rparr>\<rparr>"

abbreviation demo_fresh :: fastboot where
  "demo_fresh \<equiv> fresh_fastboot demo_frp_state None \<lparr>FlashingGpt = False, ParseSecondaryGpt = False\<rparr>"

lemma demo_setup_fields [simp]:
  "fe_flash (su_fb demo_setup) = demo_frp_flash" "fl_misc demo_frp_flash = demo_misc_env (demo_dev 4096 3) []"
  "virtual_ab (su_fb demo_setup) = False" "dev_type (fl_ptn demo_frp_flash) = UFS"
  by (simp_all add: demo_setup_def demo_usb_env_def demo_boot_env_def demo_fb_env_def demo_frp_flash_def demo_flash_env_def)

lemma demo_serial: "\<exists>serial. BoardSerialNum (su_misc demo_setup) (card_prot demo_setup) (card_serial demo_setup) s = Some (EFI_SUCCESS, serial)"
  by (simp add: BoardSerialNum_def demo_card demo_root_search)
    (simp add: demo_setup_def demo_misc_env_def ram_env_def)

lemma demo_frp_read:
  "PartitionGetInfo demo_frp_flash ''frp'' (fresh_flash demo_frp_state) = Some (Some (demo_handle 1))"
  "ReadAllowUnlockValue demo_frp_flash (fresh_flash demo_frp_state) = Some (EFI_SUCCESS, Some False)"
proof -
  show g: "PartitionGetInfo demo_frp_flash ''frp'' (fresh_flash demo_frp_state) = Some (Some (demo_handle 1))"
    by (simp add: PartitionGetInfo_def fresh_flash_def demo_frp_state_def demo_frp_flash_def lun_handles_def
        demo_handle_def demo_entry_def)
  show "ReadAllowUnlockValue demo_frp_flash (fresh_flash demo_frp_state) = Some (EFI_SUCCESS, Some False)"
    using g by (simp add: ReadAllowUnlockValue_def demo_frp_flash_def demo_handle_def ram_env_def ram_dev_def)
qed

lemma demo_buffer: "\<exists>a m. download_buffer demo_map (\<lambda>_. True) UFS = Some (a, m)"
proof -
  have g: "GetMaxAllocatableMemory demo_map = 0x40000000"
    by (simp add: GetMaxAllocatableMemory_def demo_map_def CHECK_ADD64_def)
  have "unat (next_size 0x40000000) = 805306368" by (simp add: next_size_nat)
  then have "\<not> next_size 0x40000000 < MIN_BUFFER_SIZE" by (simp add: word_less_nat_alt)
  then show ?thesis by (simp add: download_buffer_def g alloc_loop.simps [of _ "0x40000000"] Let_def)
qed

lemma demo_variables:
  assumes "PtnEntries (fs_ptn (fb_flash fb)) = []"
  shows "\<exists>fb'. publish_variables demo_setup False fb = Some fb'"
  using assms
  by (auto simp: publish_variables_def publish_product_def publish_multislot_def publish_snapshot_def Let_def
      PublishGetVarPartitionInfo_def demo_page_size publish_static_def FastbootPublishVar_def set_static_def)

lemma demo_command_setup:
  assumes "start_view fb = start_view ((fresh_fastboot fl msg gl)\<lparr>MaxDownLoadSize := Limit\<rparr>)"
    "fb_flash fb = fresh_flash fl" "\<not> InitialPopulate fb" "PtnEntries (fs_ptn fl) = []"
    "ReadAllowUnlockValue demo_frp_flash (fresh_flash fl) = Some (s, allowed)"
  shows "\<exists>fb'. FastbootCommandSetup demo_setup Base Flash Size fb =
    Some (s, register_all (su_boot demo_setup) cmd_list [], fb') \<and> \<not> Finished fb'"
proof -
  define fb2 where "fb2 serial = set_static ''StrSerialNum'' serial
    (fb\<lparr>mUsbDataBuffer := Some Base, mFlashDataBuffer := Some Flash, mNumDataBytes := Size, mFlashNumDataBytes := Size\<rparr>)" for serial
  have v2: "start_view (fb2 serial) = start_view fb" "\<not> InitialPopulate (fb2 serial)"
    "PtnEntries (fs_ptn (fb_flash (fb2 serial))) = []" for serial
    using assms by (simp_all add: fb2_def start_view_def set_static_def fresh_flash_def)
  obtain serial where st: "BoardSerialNum (su_misc demo_setup) (card_prot demo_setup) (card_serial demo_setup) (fb_static fb ''StrSerialNum'') = Some (EFI_SUCCESS, serial)"
    using demo_serial by blast
  obtain fb3 where p: "publish_variables demo_setup False (fb2 serial) = Some fb3"
    using demo_variables [OF v2(3)] by blast
  have m: "PartitionHasMultiSlot (fb_ptn fb) ''boot'' = False"
    using assms(2,4) by (simp add: fresh_flash_def PartitionHasMultiSlot_def)
  have v: "start_view fb3 = start_view fb" using publish_variables_view [OF p v2(2)] v2(1) by simp
  then have "luns_view (fb_flash fb3) = luns_view (fresh_flash fl)" "\<not> Finished fb3"
    using assms by (simp_all add: start_view_def fresh_fastboot_def)
  with st p m assms(5) ReadAllowUnlockValue_view [OF this(1)] show ?thesis
    by (auto simp: FastbootCommandSetup_def Let_def fb2_def split: option.split)
qed

lemma demo_start_of:
  assumes "PtnEntries (fs_ptn fl) = []" "ReadAllowUnlockValue demo_frp_flash (fresh_flash fl) = Some (st, allowed)"
  obtains fb where "FastbootUsbDeviceStart demo_setup (fresh_fastboot fl msg gl) =
    Some (EFI_SUCCESS, register_all (su_boot demo_setup) cmd_list [],
      \<lparr>ss_fb = fb, ss_rx = rx_buffer, ss_queue = None, ss_deferred = [], ss_okays = 0\<rparr>)" "\<not> Finished fb"
proof -
  obtain a m where d: "download_buffer demo_map (\<lambda>_. True) UFS = Some (a, m)" using demo_buffer by blast
  have "\<exists>fb'. FastbootCommandSetup demo_setup (zero_buffer 0x80000000 m) (zero_buffer (0x80000000 + m) m) m
      ((fresh_fastboot fl msg gl)\<lparr>MaxDownLoadSize := m\<rparr>) = Some (st, register_all (su_boot demo_setup) cmd_list [], fb') \<and> \<not> Finished fb'"
    by (rule demo_command_setup [OF refl _ _ assms]) (simp_all add: fresh_fastboot_def)
  then obtain fb where c: "FastbootCommandSetup demo_setup (zero_buffer 0x80000000 m) (zero_buffer (0x80000000 + m) m) m
      ((fresh_fastboot fl msg gl)\<lparr>MaxDownLoadSize := m\<rparr>) = Some (st, register_all (su_boot demo_setup) cmd_list [], fb)" and f: "\<not> Finished fb"
    by blast
  have e: "su_base demo_setup = 0x80000000" "su_map demo_setup = demo_map" "su_alloc demo_setup = (\<lambda>_. True)"
    "send_event demo_setup = EFI_SUCCESS" "usb_init demo_setup = EFI_SUCCESS" "usb_locate demo_setup = EFI_SUCCESS"
    "usb_start demo_setup = EFI_SUCCESS" "usb_rx_alloc demo_setup = EFI_SUCCESS" "usb_tx_alloc demo_setup = EFI_SUCCESS"
    by (simp_all add: demo_setup_def)
  have "FastbootCmdsInit demo_setup (fresh_fastboot fl msg gl) = Some (EFI_SUCCESS, register_all (su_boot demo_setup) cmd_list [], fb)"
    using c d by (simp add: FastbootCmdsInit_def e)
  then show thesis using that f by (simp add: FastbootUsbDeviceStart_def e)
qed

lemma demo_start:
  obtains fb where "FastbootUsbDeviceStart demo_setup demo_fresh = Some (EFI_SUCCESS, register_all (su_boot demo_setup) cmd_list [],
    \<lparr>ss_fb = fb, ss_rx = rx_buffer, ss_queue = None, ss_deferred = [], ss_okays = 0\<rparr>)" "\<not> Finished fb"
  by (rule demo_start_of [OF _ demo_frp_read(2)]) (auto simp: demo_frp_state_def)

lemma demo_started_step:
  assumes "\<not> Finished fb"
  shows "usb_reachable (session_env demo_setup) cmds
    \<lparr>ss_fb = fb, ss_rx = rx_buffer, ss_queue = None, ss_deferred = [], ss_okays = 0\<rparr>
    \<lparr>ss_fb = fb, ss_rx = rx_buffer, ss_queue = Some (RxBuffer, 511), ss_deferred = [], ss_okays = 0\<rparr>"
  using assms
  by (intro usb_reachable.step [OF usb_reachable.start] usb_step.event [where e = Connected and st = EFI_SUCCESS])
    (simp_all add: HandleUsbEvents_def Send_in_def session_env_def demo_setup_def demo_usb_env_def)

lemma demo_session_env:
  "loader_keeps (session_env demo_setup)" "loader_locks (session_env demo_setup)"
  "secure_build (be_fb (session_env demo_setup))" "\<not> IsUnlocked (fs_dev demo_frp_state)"
  by (simp_all add: loader_keeps_def loader_locks_def secure_build_def session_env_def demo_setup_def demo_boot_env_def
      demo_frp_state_def demo_half_facts)

lemma started_transfers_inside_example:
  "\<exists>cmds s. usb_reachable (session_env demo_setup) cmds (snd (snd (the (FastbootUsbDeviceStart demo_setup demo_fresh)))) s \<and>
     ss_queue s = Some (RxBuffer, 511) \<and> 511 \<le> length rx_buffer"
proof -
  obtain fb where s: "FastbootUsbDeviceStart demo_setup demo_fresh = Some (EFI_SUCCESS, register_all (su_boot demo_setup) cmd_list [],
    \<lparr>ss_fb = fb, ss_rx = rx_buffer, ss_queue = None, ss_deferred = [], ss_okays = 0\<rparr>)" "\<not> Finished fb" by (rule demo_start)
  from started_transfers_inside [OF s(1) demo_session_env(1) demo_started_step [OF s(2)]] demo_started_step [OF s(2)] s(1)
  show ?thesis by fastforce
qed


end
