(* ===== verification/Board.thy ===== *)
theory Board
  imports Prelude
begin

text \<open>
  The board description of \<open>BootLib/Board.c\<close>: the RAM partitions and the base of memory, the chip,
  platform and PMIC information the device tree selection compares with, and \<open>BoardInit\<close>, which
  collects them. The firmware's protocols are parameters: a protocol that can not be located, or a
  call that fails, gives its error status.

  The state is the cache of RAM partitions and the structure \<open>platform_board_info\<close>.
\<close>

section \<open>What the firmware answers\<close>

record RamPartitionEntry =
  Base :: u64
  AvailableLength :: u64

record ram_protocol =
  ram_query :: efi_status
  ram_count :: u32
  ram_read :: "efi_status + RamPartitionEntry list"
  ram_revision :: u64
  min_pasr :: "efi_status + u32"

record chip_protocol =
  GetChipId :: "efi_status + u32"
  GetChipVersion :: "efi_status + u32"
  GetFoundryId :: "efi_status + u32"
  GetModemSupport :: "efi_status + u32"

record platform_info =
  plat_type :: u32
  plat_version :: u32
  plat_subtype :: u32
  plat_fusion :: bool

record pmic_device =
  PmicModel :: u32
  PmicAllLayerRevision :: u32
  PmicMetalRevision :: u32
  PmicVariantRevision :: u32

record pmic_protocol =
  pmic_revision :: u64
  pmic_info :: "u32 \<Rightarrow> efi_status + pmic_device"
  pmic_info_ext :: "u32 \<Rightarrow> efi_status + pmic_device"

record sku_protocol =
  sku_ta_loaded :: "efi_status + bool"
  sku_query :: "efi_status + u32"

record board_env =
  ram_prot :: "efi_status + ram_protocol"
  chip_prot :: "efi_status + chip_protocol"
  plat_prot :: "efi_status + (efi_status \<times> platform_info)"
  pmic_prot :: "efi_status + pmic_protocol"
  sku_prot :: "efi_status + sku_protocol"
  board_pool :: "nat \<Rightarrow> bool"
  PcdSystemMemoryBase :: u64
  PcdSystemMemorySize :: u64

record BoardInfo =
  PlatformInfo :: platform_info
  RawChipId :: u32
  ChipBaseBand :: string
  ChipVersion :: u32
  FoundryId :: u32
  HlosSubType :: u32
  SoftSkuId :: u32

record board_state =
  RamPartitionEntries :: "RamPartitionEntry list option"
  platform_board_info :: BoardInfo

definition zero_BoardInfo :: BoardInfo where
  "zero_BoardInfo = \<lparr> PlatformInfo = \<lparr> plat_type = 0, plat_version = 0, plat_subtype = 0, plat_fusion = False \<rparr>,
     RawChipId = 0, ChipBaseBand = '''', ChipVersion = 0, FoundryId = 0, HlosSubType = 0, SoftSkuId = 0 \<rparr>"

section \<open>The RAM partitions\<close>

text \<open>\<open>sizeof (RamPartitionEntry)\<close> is 16. The first call, without a buffer, reports the size it needs.\<close>

definition GetRamPartitions :: "board_env \<Rightarrow> efi_status \<times> RamPartitionEntry list" where
  "GetRamPartitions env = (case ram_prot env of
     Inl s \<Rightarrow> (EFI_NOT_FOUND, [])
   | Inr p \<Rightarrow>
       if ram_query p = EFI_BUFFER_TOO_SMALL then
         if \<not> board_pool env (unat (ram_count p) * 16) then (EFI_OUT_OF_RESOURCES, [])
         else (case ram_read p of
           Inl s \<Rightarrow> (EFI_NOT_FOUND, [])
         | Inr es \<Rightarrow> if es = [] then (EFI_NOT_FOUND, []) else (EFI_SUCCESS, es))
       else (EFI_PROTOCOL_ERROR, []))"

text \<open>\<open>ReadRamPartitions\<close> falls back to the configured memory; the single entry is written
  without a look at the allocation, so there is no value when that fails.\<close>

definition ReadRamPartitions :: "board_env \<Rightarrow> board_state \<Rightarrow>
    (efi_status \<times> RamPartitionEntry list \<times> board_state) option" where
  "ReadRamPartitions env st = (case RamPartitionEntries st of
     Some es \<Rightarrow> Some (EFI_SUCCESS, es, st)
   | None \<Rightarrow> (case GetRamPartitions env of (Status, es) \<Rightarrow>
       if EFI_ERROR Status then
         if \<not> board_pool env 16 then None
         else (let fb = [\<lparr> Base = PcdSystemMemoryBase env, AvailableLength = PcdSystemMemorySize env \<rparr>]
               in Some (EFI_SUCCESS, fb, st\<lparr> RamPartitionEntries := Some fb \<rparr>))
       else Some (Status, es, st\<lparr> RamPartitionEntries := Some es \<rparr>)))"

definition GetGranuleSize :: "board_env \<Rightarrow> efi_status \<times> u32 option" where
  "GetGranuleSize env = (case ram_prot env of
     Inl s \<Rightarrow> (s, None)
   | Inr p \<Rightarrow>
       if ram_revision p < 0x10001 then (EFI_UNSUPPORTED, None)
       else (case min_pasr p of Inl s \<Rightarrow> (s, None) | Inr g \<Rightarrow> (EFI_SUCCESS, Some g)))"

fun smallest_base :: "u64 \<Rightarrow> RamPartitionEntry list \<Rightarrow> u64" where
  "smallest_base b [] = b"
| "smallest_base b (e # es) = smallest_base (if Base e < b then Base e else b) es"

definition BaseMem :: "board_env \<Rightarrow> board_state \<Rightarrow> (efi_status \<times> u64 \<times> board_state) option" where
  "BaseMem env st = do {
     (Status, es, st1) \<leftarrow> ReadRamPartitions env st;
     if es = [] then None else Some (Status, smallest_base (Base (hd es)) es, st1)
   }"

definition MB :: u64 where "MB = 1024 * 1024"

fun ddr_size :: "RamPartitionEntry list \<Rightarrow> u64" where
  "ddr_size [] = 0"
| "ddr_size (e # es) = AvailableLength e + ddr_size es"

definition ddr_type :: "u64 \<Rightarrow> u32" where
  "ddr_type DdrSize =
     (if DdrSize \<le> 256 * MB then 1
      else if DdrSize \<le> 512 * MB then 2
      else if DdrSize \<le> 1024 * MB then 3
      else if DdrSize \<le> 2048 * MB then 4
      else 0)"

definition BoardDdrType :: "board_env \<Rightarrow> board_state \<Rightarrow> (efi_status \<times> u32 \<times> board_state) option" where
  "BoardDdrType env st = do {
     (Status, es, st1) \<leftarrow> ReadRamPartitions env st;
     Some (Status, ddr_type (ddr_size es), st1)
   }"

section \<open>Chip, platform, SKU and PMIC\<close>

text \<open>A failed call leaves the fields of the earlier ones set. The modem type is only read on
  success.\<close>

definition GetChipInfo :: "board_env \<Rightarrow> BoardInfo \<Rightarrow> efi_status \<times> u32 \<times> BoardInfo" where
  "GetChipInfo env bi = (case chip_prot env of
     Inl s \<Rightarrow> (s, 0, bi)
   | Inr p \<Rightarrow> (case GetChipId p of
       Inl s \<Rightarrow> (s, 0, bi)
     | Inr cid \<Rightarrow> (case GetChipVersion p of
         Inl s \<Rightarrow> (s, 0, bi\<lparr> RawChipId := cid \<rparr>)
       | Inr ver \<Rightarrow> (case GetFoundryId p of
           Inl s \<Rightarrow> (s, 0, bi\<lparr> RawChipId := cid, ChipVersion := ver \<rparr>)
         | Inr f \<Rightarrow> (case GetModemSupport p of
             Inl s \<Rightarrow> (s, 0, bi\<lparr> RawChipId := cid, ChipVersion := ver, FoundryId := f \<rparr>)
           | Inr ModemType \<Rightarrow>
               (EFI_SUCCESS, ModemType, bi\<lparr> RawChipId := cid, ChipVersion := ver, FoundryId := f \<rparr>))))))"

abbreviation EFI_PLATFORMINFO_NUM_TYPES :: u32 where "EFI_PLATFORMINFO_NUM_TYPES \<equiv> 0x21"

definition GetPlatformInfo :: "board_env \<Rightarrow> BoardInfo \<Rightarrow> efi_status \<times> BoardInfo" where
  "GetPlatformInfo env bi = (case plat_prot env of
     Inl s \<Rightarrow> (s, bi)
   | Inr (s, info) \<Rightarrow>
       if s \<noteq> EFI_SUCCESS then (s, bi)
       else if plat_type info \<ge> EFI_PLATFORMINFO_NUM_TYPES then
         (EFI_PROTOCOL_ERROR, bi\<lparr> PlatformInfo := info \<rparr>)
       else (EFI_SUCCESS, bi\<lparr> PlatformInfo := info \<rparr>))"

definition BoardSoftSku :: "board_env \<Rightarrow> u32" where
  "BoardSoftSku env = (case sku_prot env of
     Inl s \<Rightarrow> 0
   | Inr p \<Rightarrow> (case sku_ta_loaded p of
       Inl s \<Rightarrow> 1
     | Inr loaded \<Rightarrow>
         if loaded then (case sku_query p of Inl s \<Rightarrow> 1 | Inr sku \<Rightarrow> sku)
         else 0))"

text \<open>The accessors of \<open>platform_board_info\<close>.\<close>

definition BoardPlatformRawChipId :: "board_state \<Rightarrow> u32" where
  "BoardPlatformRawChipId st = RawChipId (platform_board_info st)"
definition BoardPlatformChipVersion :: "board_state \<Rightarrow> u32" where
  "BoardPlatformChipVersion st = ChipVersion (platform_board_info st)"
definition BoardPlatformFoundryId :: "board_state \<Rightarrow> u32" where
  "BoardPlatformFoundryId st = FoundryId (platform_board_info st)"
definition BoardPlatformChipBaseBand :: "board_state \<Rightarrow> string" where
  "BoardPlatformChipBaseBand st = ChipBaseBand (platform_board_info st)"
definition BoardPlatformType :: "board_state \<Rightarrow> u32" where
  "BoardPlatformType st = plat_type (PlatformInfo (platform_board_info st))"
definition BoardPlatformVersion :: "board_state \<Rightarrow> u32" where
  "BoardPlatformVersion st = plat_version (PlatformInfo (platform_board_info st))"
definition BoardPlatformSubType :: "board_state \<Rightarrow> u32" where
  "BoardPlatformSubType st = plat_subtype (PlatformInfo (platform_board_info st))"
definition BoardPlatformFusion :: "board_state \<Rightarrow> bool" where
  "BoardPlatformFusion st = plat_fusion (PlatformInfo (platform_board_info st))"
definition BoardPlatformHlosSubType :: "board_state \<Rightarrow> u32" where
  "BoardPlatformHlosSubType st = HlosSubType (platform_board_info st)"
definition BoardSoftSkuId :: "board_state \<Rightarrow> u32" where
  "BoardSoftSkuId st = SoftSkuId (platform_board_info st)"

definition BoardTargetId :: "board_state \<Rightarrow> u32" where
  "BoardTargetId st = (let p = PlatformInfo (platform_board_info st) in
     push_bit 24 (plat_subtype p AND 0xff) OR push_bit 16 (drop_bit 16 (plat_version p) AND 0xff) OR
     push_bit 8 (plat_version p AND 0xff) OR (plat_type p AND 0xff))"

text \<open>\<open>BoardInit\<close>: the DDR type becomes the part of the HLOS subtype the device trees name.\<close>

definition BoardInit :: "board_env \<Rightarrow> board_state \<Rightarrow> (efi_status \<times> board_state) option" where
  "BoardInit env st = (case GetChipInfo env (platform_board_info st) of (s1, ModemType, bi1) \<Rightarrow>
     if EFI_ERROR s1 then Some (s1, st\<lparr> platform_board_info := bi1 \<rparr>)
     else (case GetPlatformInfo env bi1 of (s2, bi2) \<Rightarrow>
       if EFI_ERROR s2 then Some (s2, st\<lparr> platform_board_info := bi2 \<rparr>)
       else do {
         (s3, DdrType, st3) \<leftarrow> BoardDdrType env (st\<lparr> platform_board_info := bi2 \<rparr>);
         if EFI_ERROR s3 then Some (s3, st3)
         else Some (s3, st3\<lparr> platform_board_info := bi2\<lparr>
                HlosSubType := push_bit 8 DdrType,
                SoftSkuId := BoardSoftSku env,
                ChipBaseBand := (if plat_fusion (PlatformInfo bi2) then ''mdm''
                                 else if ModemType = 0 then ''apq'' else ''msm'') \<rparr> \<rparr>)
       }))"

text \<open>PMIC calls: the model of a PMIC whose call fails is an uninitialised structure.\<close>

abbreviation PMIC_VERSION_REVISION :: u64 where "PMIC_VERSION_REVISION \<equiv> 0x10003"

definition GetPmicInfo :: "board_env \<Rightarrow> u32 \<Rightarrow> efi_status + (pmic_device \<times> u64)" where
  "GetPmicInfo env i = (case pmic_prot env of
     Inl s \<Rightarrow> Inl s
   | Inr p \<Rightarrow> (case pmic_info p i of Inl s \<Rightarrow> Inl s | Inr d \<Rightarrow> Inr (d, pmic_revision p)))"

definition GetPmicInfoExt :: "board_env \<Rightarrow> u32 \<Rightarrow> efi_status + pmic_device" where
  "GetPmicInfoExt env i = (case pmic_prot env of Inl s \<Rightarrow> Inl s | Inr p \<Rightarrow> pmic_info_ext p i)"

definition BoardPmicModel :: "board_env \<Rightarrow> u32 \<Rightarrow> u32 option" where
  "BoardPmicModel env i = (case GetPmicInfo env i of Inl s \<Rightarrow> None | Inr (d, r) \<Rightarrow> Some (PmicModel d))"

definition BoardPmicTarget :: "board_env \<Rightarrow> u32 \<Rightarrow> u32 option" where
  "BoardPmicTarget env i = (case GetPmicInfo env i of
     Inl s \<Rightarrow> None
   | Inr (d, Revision) \<Rightarrow>
       if Revision = PMIC_VERSION_REVISION then (case GetPmicInfoExt env i of
           Inl s \<Rightarrow> Some 0
         | Inr x \<Rightarrow> Some (push_bit 24 (PmicVariantRevision x) OR push_bit 16 (PmicAllLayerRevision x) OR
                         push_bit 8 (PmicMetalRevision x) OR PmicModel x))
       else Some (push_bit 16 (PmicAllLayerRevision d) OR push_bit 8 (PmicMetalRevision d) OR PmicModel d))"

section \<open>Lemmas\<close>

lemma smallest_base_le: "smallest_base b es \<le> b"
proof (induction b es rule: smallest_base.induct)
  case (2 b e es)
  then show ?case by (auto split: if_splits)
qed simp

lemma smallest_base_lower: "e \<in> set es \<Longrightarrow> smallest_base b es \<le> Base e"
proof (induction b es rule: smallest_base.induct)
  case (2 b e' es)
  show ?case
  proof (cases "e = e'")
    case True
    have "smallest_base (if Base e' < b then Base e' else b) es \<le> (if Base e' < b then Base e' else b)"
      by (rule smallest_base_le)
    also have "\<dots> \<le> Base e'" by (simp add: not_less)
    finally show ?thesis using True by simp
  next
    case False
    with 2 show ?thesis by simp
  qed
qed simp

lemma smallest_base_in: "smallest_base b es = b \<or> smallest_base b es \<in> Base ` set es"
  by (induction b es rule: smallest_base.induct) (auto split: if_splits)

lemma GetRamPartitions_nonempty: "GetRamPartitions env = (EFI_SUCCESS, es) \<Longrightarrow> es \<noteq> []"
  by (auto simp: GetRamPartitions_def split: sum.splits if_splits)

definition ram_wf :: "board_state \<Rightarrow> bool" where
  "ram_wf st \<longleftrightarrow> RamPartitionEntries st \<noteq> Some []"

lemma ReadRamPartitions_ok:
  assumes "ReadRamPartitions env st = Some (s, es, st1)" "ram_wf st"
  shows "s = EFI_SUCCESS \<and> es \<noteq> [] \<and> RamPartitionEntries st1 = Some es \<and> ram_wf st1 \<and>
    platform_board_info st1 = platform_board_info st"
  using assms
  by (auto simp: ReadRamPartitions_def ram_wf_def Let_def GetRamPartitions_nonempty
      split: option.splits prod.splits if_splits)

lemma ddr_type_range: "ddr_type n \<le> 4"
  by (simp add: ddr_type_def)

lemma ddr_type_mask: "push_bit 8 (ddr_type n) AND 0x700 = push_bit 8 (ddr_type n)"
  by (simp add: ddr_type_def)

text \<open>The board's identity in a device tree's layout: subtype, major and minor version, type.\<close>

lemma BoardTargetId_bytes:
  "bit (BoardTargetId st) n \<longleftrightarrow> (let p = PlatformInfo (platform_board_info st) in
     if n < 8 then bit (plat_type p) n
     else if n < 16 then bit (plat_version p) (n - 8)
     else if n < 24 then bit (plat_version p) n
     else n < 32 \<and> bit (plat_subtype p) (n - 24))"
proof -
  have m: "(0xff :: u32) = mask 8" by (simp add: mask_eq_exp_minus_1)
  show ?thesis unfolding BoardTargetId_def Let_def m
    by (auto simp: bit_simps dest: bit_imp_le_length)
qed

text \<open>\<open>BaseMem\<close> finds the least base address of the memory that is there.\<close>

lemma BaseMem_least:
  assumes "BaseMem env st = Some (s, b, st1)" "ram_wf st"
  shows "s = EFI_SUCCESS \<and> ram_wf st1 \<and>
    (\<exists>es. RamPartitionEntries st1 = Some es \<and> b \<in> Base ` set es \<and> (\<forall>e\<in>set es. b \<le> Base e))"
proof -
  from assms(1) obtain es where es: "ReadRamPartitions env st = Some (s, es, st1)" "es \<noteq> []"
    "b = smallest_base (Base (hd es)) es"
    by (auto simp: BaseMem_def split: bind_splits if_splits)
  have "b \<in> Base ` set es"
    using smallest_base_in [of "Base (hd es)" es] es(2,3) by auto
  then show ?thesis
    using ReadRamPartitions_ok [OF es(1) assms(2)] smallest_base_lower es(3) by auto
qed

text \<open>An answer without a value carries an error status.\<close>

definition answered :: "efi_status + 'a \<Rightarrow> bool" where
  "answered r = (case r of Inl s \<Rightarrow> s \<noteq> EFI_SUCCESS | Inr x \<Rightarrow> True)"

definition board_answers :: "board_env \<Rightarrow> bool" where
  "board_answers env \<longleftrightarrow> answered (plat_prot env) \<and> answered (chip_prot env) \<and>
     (case chip_prot env of Inl s \<Rightarrow> True
      | Inr p \<Rightarrow> answered (GetChipId p) \<and> answered (GetChipVersion p) \<and> answered (GetFoundryId p) \<and>
               answered (GetModemSupport p))"

lemma answered_Inl [simp]: "\<not> answered (Inl EFI_SUCCESS)" "answered (Inr x)"
  by (simp_all add: answered_def)

text \<open>A successful \<open>BoardInit\<close> stores what the protocols answered, a known platform type, and a
  subtype in which only the DDR bits are set.\<close>

lemma BoardInit_collects:
  assumes "BoardInit env st = Some (EFI_SUCCESS, st')" "ram_wf st" "board_answers env"
  shows "ram_wf st' \<and> plat_prot env = Inr (EFI_SUCCESS, PlatformInfo (platform_board_info st')) \<and>
    BoardPlatformType st' < EFI_PLATFORMINFO_NUM_TYPES \<and>
    (\<exists>p. chip_prot env = Inr p \<and> GetChipId p = Inr (BoardPlatformRawChipId st') \<and>
      GetChipVersion p = Inr (BoardPlatformChipVersion st') \<and>
      GetFoundryId p = Inr (BoardPlatformFoundryId st')) \<and>
    BoardPlatformHlosSubType st' AND 0x700 = BoardPlatformHlosSubType st' \<and>
    BoardSoftSkuId st' = BoardSoftSku env \<and>
    BoardPlatformChipBaseBand st' \<in> {''mdm'', ''apq'', ''msm''}"
proof -
  obtain s1 M bi1 where c: "GetChipInfo env (platform_board_info st) = (s1, M, bi1)"
    by (cases "GetChipInfo env (platform_board_info st)")
  obtain s2 bi2 where p: "GetPlatformInfo env bi1 = (s2, bi2)" by (cases "GetPlatformInfo env bi1")
  from assms(1) have ok: "s1 = EFI_SUCCESS" "s2 = EFI_SUCCESS"
    by (auto simp: BoardInit_def c p split: if_splits)
  from assms(1) obtain es st3 where
    r: "ReadRamPartitions env (st\<lparr> platform_board_info := bi2 \<rparr>) = Some (EFI_SUCCESS, es, st3)"
    and st': "st' = st3\<lparr> platform_board_info := bi2\<lparr> HlosSubType := push_bit 8 (ddr_type (ddr_size es)),
                SoftSkuId := BoardSoftSku env,
                ChipBaseBand := (if plat_fusion (PlatformInfo bi2) then ''mdm''
                                 else if M = 0 then ''apq'' else ''msm'') \<rparr> \<rparr>"
    by (auto simp: BoardInit_def c p ok BoardDdrType_def split: bind_splits if_splits)
  have w: "ram_wf (st\<lparr> platform_board_info := bi2 \<rparr>)" using assms(2) by (simp add: ram_wf_def)
  have "ram_wf st'" using ReadRamPartitions_ok [OF r w] by (simp add: st' ram_wf_def)
  moreover have "plat_prot env = Inr (EFI_SUCCESS, PlatformInfo bi2)" "plat_type (PlatformInfo bi2) < 0x21"
    "RawChipId bi2 = RawChipId bi1" "ChipVersion bi2 = ChipVersion bi1" "FoundryId bi2 = FoundryId bi1"
    using p ok(2) assms(3) by (auto simp: GetPlatformInfo_def board_answers_def split: sum.splits if_splits)
  moreover have "\<exists>p. chip_prot env = Inr p \<and> GetChipId p = Inr (RawChipId bi1) \<and>
      GetChipVersion p = Inr (ChipVersion bi1) \<and> GetFoundryId p = Inr (FoundryId bi1)"
    using c ok(1) assms(3) by (auto simp: GetChipInfo_def board_answers_def split: sum.splits)
  ultimately show ?thesis
    by (simp add: st' BoardPlatformType_def BoardPlatformRawChipId_def BoardPlatformChipVersion_def
        BoardPlatformFoundryId_def BoardPlatformHlosSubType_def BoardSoftSkuId_def
        BoardPlatformChipBaseBand_def ddr_type_mask)
qed

end
