(* ===== verification/DeviceTree.thy ===== *)
theory DeviceTree
  imports Board BlockIo LittleEndian
begin

text \<open>
  What the device tree code shares: images and the memory the kernel is placed in, the functions of
  libfdt the boot loader calls (parameters), the additional header check \<open>fdt_check_header_ext\<close>
  (\<open>UpdateDeviceTree.c\<close>), the load addresses kept by \<open>SetandGetLoadAddr\<close> (\<open>BootLinux.c\<close>), the
  notification of the hypervisor (\<open>Rtic.c\<close>) and the overlay list (\<open>LocateDeviceTree.c\<close>).
\<close>

section \<open>Images and memory\<close>

text \<open>A loaded image is a buffer at an address. Reading outside of it has no value.\<close>

record image =
  im_addr :: u64
  im_data :: bytes

definition peek :: "image \<Rightarrow> u64 \<Rightarrow> nat \<Rightarrow> bytes option" where
  "peek im a n = (let o1 = unat (a - im_addr im) in
     if o1 + n \<le> length (im_data im) then Some (slice o1 n (im_data im)) else None)"

definition poke :: "image \<Rightarrow> u64 \<Rightarrow> bytes \<Rightarrow> image option" where
  "poke im a v = (let o1 = unat (a - im_addr im) in
     if o1 + length v \<le> length (im_data im) then Some (im\<lparr> im_data := splice o1 v (im_data im) \<rparr>) else None)"

type_synonym mem = "u64 \<Rightarrow> u8"

definition CopyMem :: "mem \<Rightarrow> u64 \<Rightarrow> bytes \<Rightarrow> mem" where
  "CopyMem m dst src = (\<lambda>a. if unat (a - dst) < length src then src ! unat (a - dst) else m a)"

definition mem_range :: "mem \<Rightarrow> u64 \<Rightarrow> nat \<Rightarrow> bytes" where
  "mem_range m a n = List.map (\<lambda>i. m (a + of_nat i)) [0..<n]"

text \<open>Device trees hold big-endian cells.\<close>

definition be32 :: "bytes \<Rightarrow> nat \<Rightarrow> u32 option" where
  "be32 b i = (if i + 4 \<le> length b then Some (GET_LWORD_FROM_BYTE (rev (slice i 4 b))) else None)"

fun cells :: "bytes \<Rightarrow> u32 list" where
  "cells (a # b # c # d # r) = GET_LWORD_FROM_BYTE [d, c, b, a] # cells r"
| "cells r = []"

section \<open>libfdt\<close>

text \<open>The functions of libfdt, on the bytes a device tree starts at: the header check (true when it
  passes), header fields, whether the root node is found, and a property of the root node.\<close>

record fdt_lib =
  fdt_check_header :: "bytes \<Rightarrow> bool"
  fdt_totalsize :: "bytes \<Rightarrow> u32"
  fdt_off_dt_struct :: "bytes \<Rightarrow> u32"
  fdt_size_dt_struct :: "bytes \<Rightarrow> u32"
  fdt_off_dt_strings :: "bytes \<Rightarrow> u32"
  fdt_size_dt_strings :: "bytes \<Rightarrow> u32"
  fdt_off_mem_rsvmap :: "bytes \<Rightarrow> u32"
  fdt_has_root :: "bytes \<Rightarrow> bool"
  fdt_getprop :: "bytes \<Rightarrow> string \<Rightarrow> bytes option"

definition section_ok :: "u64 \<Rightarrow> u64 \<Rightarrow> u32 \<Rightarrow> u32 \<Rightarrow> bool" where
  "section_ok fdt_start fdt_end off sz = (let sum = ADD_OF off sz in
     sum \<noteq> 0 \<and> \<not> CHECK_ADD64 fdt_start (ucast sum) \<and> \<not> fdt_start + ucast sum > fdt_end)"

definition fdt_check_header_ext :: "fdt_lib \<Rightarrow> u64 \<Rightarrow> bytes \<Rightarrow> bool" where
  "fdt_check_header_ext L fdt_start fdt =
     (\<not> fdt_start + ucast (fdt_totalsize L fdt) \<le> fdt_start \<and>
      (let fdt_end = fdt_start + ucast (fdt_totalsize L fdt) in
        section_ok fdt_start fdt_end (fdt_off_dt_struct L fdt) (fdt_size_dt_struct L fdt) \<and>
        section_ok fdt_start fdt_end (fdt_off_dt_strings L fdt) (fdt_size_dt_strings L fdt) \<and>
        \<not> fdt_start + ucast (fdt_off_mem_rsvmap L fdt) > fdt_end))"

section \<open>State and environment\<close>

text \<open>The static variables of \<open>LocateDeviceTree.c\<close>, \<open>Rtic.c\<close> and \<open>SetandGetLoadAddr\<close>. An index of -1
  means that no device tree was chosen.\<close>

record dt_state =
  DtboNeed :: bool
  DtboIdx :: u32
  DtbIdx :: u32
  DtbCount :: u32
  Hyp_Call_Done :: bool
  hyp_calls :: "(u64 \<times> bytes) list"
  KernelLoad :: u64
  RamdiskLoad :: u64

definition dt_state0 :: dt_state where
  "dt_state0 = \<lparr> DtboNeed = True, DtboIdx = - 1, DtbIdx = - 1, DtbCount = 0, Hyp_Call_Done = False,
     hyp_calls = [], KernelLoad = 0, RamdiskLoad = 0 \<rparr>"

text \<open>The environment: libfdt, the board, whether the secure monitor protocol is there, the address
  of the local copy of a header, and what a freed queue entry still reads as.\<close>

record dt_env =
  de_lib :: fdt_lib
  de_board :: board_env
  de_bst :: board_state
  de_scm :: bool
  de_hdr :: u64
  de_freed :: "u32 \<Rightarrow> u32"

abbreviation de_pool :: "dt_env \<Rightarrow> nat \<Rightarrow> bool" where "de_pool env \<equiv> board_pool (de_board env)"

definition GetDtboNeeded :: "dt_state \<Rightarrow> bool" where "GetDtboNeeded st = DtboNeed st"
definition GetDtboIdx :: "dt_state \<Rightarrow> u32" where "GetDtboIdx st = DtboIdx st"
definition GetDtbIdx :: "dt_state \<Rightarrow> u32" where "GetDtbIdx st = DtbIdx st"

datatype AddrType = LOAD_ADDR_NONE | LOAD_ADDR_KERNEL | LOAD_ADDR_RAMDISK

definition SetandGetLoadAddr :: "(u64 \<times> u64) option \<Rightarrow> AddrType \<Rightarrow> dt_state \<Rightarrow> u64 \<times> dt_state" where
  "SetandGetLoadAddr param Type st = (case param of
     Some (k, r) \<Rightarrow> (0, st\<lparr> KernelLoad := k, RamdiskLoad := r \<rparr>)
   | None \<Rightarrow> (case Type of
       LOAD_ADDR_KERNEL \<Rightarrow> (KernelLoad st, st)
     | LOAD_ADDR_RAMDISK \<Rightarrow> (RamdiskLoad st, st)
     | LOAD_ADDR_NONE \<Rightarrow> (0, st)))"

section \<open>The hypervisor's notification\<close>

definition TxMpdatatoQhee :: "dt_env \<Rightarrow> bytes \<Rightarrow> dt_state \<Rightarrow> dt_state" where
  "TxMpdatatoQhee env MpData st =
     (if Hyp_Call_Done st then st
      else let st1 = st\<lparr> Hyp_Call_Done := True \<rparr> in
        if \<not> de_scm env then st1
        else st1\<lparr> hyp_calls := hyp_calls st1 @ [(fst (SetandGetLoadAddr None LOAD_ADDR_KERNEL st1), MpData)] \<rparr>)"

definition GetRticDtb :: "dt_env \<Rightarrow> bytes \<Rightarrow> dt_state \<Rightarrow> bool \<times> dt_state" where
  "GetRticDtb env Dtb st =
     (if \<not> fdt_has_root (de_lib env) Dtb then (False, st)
      else (case fdt_getprop (de_lib env) Dtb ''qcom,rtic-id'' of
        None \<Rightarrow> (False, st)
      | Some p \<Rightarrow>
          if length p > 0 \<and> length p mod 4 = 0 then
            if be32 p 0 \<noteq> Some 1 then (False, st)
            else (case fdt_getprop (de_lib env) Dtb ''MP_DATA'' of
              None \<Rightarrow> (False, st)
            | Some MpData \<Rightarrow>
                if MpData = [] then (False, st)
                else if \<not> de_pool env (length MpData) then (False, st)
                else (True, TxMpdatatoQhee env MpData st))
          else (False, st)))"

definition GetQrksKernelStartAddress :: "dt_env \<Rightarrow> dt_state \<Rightarrow> dt_state" where
  "GetQrksKernelStartAddress env st = TxMpdatatoQhee env [] st"

section \<open>The overlay list\<close>

text \<open>\<open>sizeof (struct fdt_entry_node)\<close> is 24.\<close>

definition AppendToDtList :: "dt_env \<Rightarrow> (u64 \<times> u64) list \<Rightarrow> u64 \<Rightarrow> u64 \<Rightarrow> bool \<times> (u64 \<times> u64) list" where
  "AppendToDtList env DtList Address Size =
     (if de_pool env 24 then (True, DtList @ [(Address, Size)]) else (False, DtList))"

section \<open>Lemmas\<close>

lemma peek_length: "peek im a n = Some v \<Longrightarrow> length v = n"
  by (auto simp: peek_def Let_def split: if_splits)

lemma length_mem_range [simp]: "length (mem_range m a n) = n"
  by (simp add: mem_range_def)

lemma nth_mem_range: "i < n \<Longrightarrow> mem_range m a n ! i = m (a + of_nat i)"
  by (simp add: mem_range_def)

lemma unat_of_nat_u64: "n < 18446744073709551616 \<Longrightarrow> unat (of_nat n :: u64) = n"
  by (simp add: unsigned_of_nat take_bit_nat_eq_self)

lemma no_wrap_u64: "(a :: u64) \<le> a + b \<Longrightarrow> unat (a + b) = unat a + unat b"
proof -
  assume le: "a \<le> a + b"
  have "unat a + unat b < 2 ^ 64"
  proof (rule ccontr)
    assume "\<not> unat a + unat b < 2 ^ 64"
    then have "unat (a + b) = unat a + unat b - 2 ^ 64"
      using unat_u64_bound [of a] unat_u64_bound [of b]
      by (simp add: unat_word_ariths mod_if)
    then have "unat (a + b) < unat a"
      using unat_u64_bound [of b] \<open>\<not> unat a + unat b < 2 ^ 64\<close> by simp
    then show False using le by (simp add: word_le_nat_alt)
  qed
  then show ?thesis by (intro unat_plus_bound) simp
qed

lemma unat_minus_u64: "x \<noteq> 0 \<Longrightarrow> unat (- x :: u64) = 18446744073709551616 - unat x"
proof -
  assume x: "x \<noteq> 0"
  then have p: "0 < unat x" by (simp add: unat_gt_0)
  have m: "MAX_UINT64 = - 1" by simp
  have "- x = MAX_UINT64 - (x - 1)" unfolding m by (simp only: algebra_simps) simp
  then have "unat (- x) = unat (MAX_UINT64 - (x - 1))" by (simp only:)
  also have "\<dots> = unat MAX_UINT64 - unat (x - 1)"
    by (rule unat_minus_bound) (simp add: word_le_nat_alt, use unat_u64_bound [of "x - 1"] in linarith)
  also have "unat (x - 1) = unat x - 1"
    using p by (subst unat_minus_bound) (simp_all add: word_le_nat_alt Suc_le_eq)
  finally show ?thesis using p by simp
qed

text \<open>A copy of less than the whole address space is read back, and leaves every range apart from
  it alone.\<close>

lemma mem_range_same:
  assumes "length src \<le> 2 ^ 64"
  shows "mem_range (CopyMem m dst src) dst (length src) = src"
proof (rule nth_equalityI)
  fix i assume i: "i < length (mem_range (CopyMem m dst src) dst (length src))"
  then have "i < 18446744073709551616" using assms by simp
  then have "unat (of_nat i :: u64) = i" by (rule unat_of_nat_u64)
  then show "mem_range (CopyMem m dst src) dst (length src) ! i = src ! i"
    using i by (simp add: nth_mem_range CopyMem_def)
qed simp

lemma unat_diff_wrap: "(a :: u64) < b \<Longrightarrow> unat (a - b) = 2 ^ 64 + unat a - unat b"
proof -
  assume ab: "a < b"
  have s: "unat (b - a) = unat b - unat a" using ab by (intro unat_minus_bound) simp
  have nz: "b - a \<noteq> 0" using ab by simp
  have "unat (a - b) = unat (- (b - a))" by simp
  also have "\<dots> = 18446744073709551616 - unat (b - a)" using nz by (rule unat_minus_u64)
  finally show ?thesis using s ab unat_u64_bound [of b] by (simp add: word_less_nat_alt)
qed

lemma mem_range_other:
  assumes "unat a + n \<le> unat dst \<or> unat dst + length src \<le> unat a"
    "unat a + n \<le> 2 ^ 64" "unat dst + length src \<le> 2 ^ 64"
  shows "mem_range (CopyMem m dst src) a n = mem_range m a n"
proof (rule nth_equalityI)
  fix i assume "i < length (mem_range (CopyMem m dst src) a n)"
  then have i: "i < n" by simp
  have "unat (of_nat i :: u64) = i" using assms(2) i by (intro unat_of_nat_u64) simp
  then have u: "unat (a + of_nat i) = unat a + i"
    using assms(2) i by (subst unat_plus_bound) simp_all
  have "\<not> unat (a + of_nat i - dst) < length src"
  proof (cases "dst \<le> a + of_nat i")
    case True
    then show ?thesis using assms i u by (auto simp: unat_minus_bound word_le_nat_alt)
  next
    case False
    then have "unat (a + of_nat i - dst) = 2 ^ 64 + (unat a + i) - unat dst"
      using unat_diff_wrap [of "a + of_nat i" dst] u by simp
    then show ?thesis using assms False u by (auto simp: word_le_nat_alt)
  qed
  then show "mem_range (CopyMem m dst src) a n ! i = mem_range m a n ! i"
    using i by (simp add: nth_mem_range CopyMem_def)
qed simp

text \<open>The header check bounds the sections of a device tree by its total size, whatever the address.\<close>

lemma section_ok_bound:
  assumes "section_ok a (a + ucast sz) off n" "a < a + ucast (sz :: u32)"
  shows "unat off + unat n \<le> unat sz"
proof -
  have w: "unat (a + ucast sz) = unat a + unat sz"
    using no_wrap_u64 [of a "ucast sz"] assms(2) by simp
  have s: "ADD_OF off n = off + n" "MAX_UINT32 - n > off"
    using assms(1) by (auto simp: section_ok_def Let_def ADD_OF_def split: if_splits)
  have so: "unat (off + n) = unat off + unat n"
  proof -
    have "n \<le> MAX_UINT32" by (simp add: word_le_nat_alt) (use unat_u32_bound [of n] in linarith)
    then have "unat off < 4294967295 - unat n"
      using s(2) by (simp add: word_less_nat_alt unat_minus_bound)
    then show ?thesis by (intro unat_plus_bound) simp
  qed
  have c: "\<not> CHECK_ADD64 a (ucast (off + n))" "\<not> a + ucast (off + n) > a + ucast sz"
    using assms(1) s(1) by (auto simp: section_ok_def Let_def)
  have "unat (a + ucast (off + n)) = unat a + (unat off + unat n)"
    using not_CHECK_ADD64_unat [OF c(1)] so by simp
  then show ?thesis using c(2) w by (simp add: word_less_nat_alt)
qed

lemma fdt_check_header_ext_bounds:
  assumes "fdt_check_header_ext L a h"
  shows "fdt_totalsize L h \<noteq> 0"
    "unat (fdt_off_dt_struct L h) + unat (fdt_size_dt_struct L h) \<le> unat (fdt_totalsize L h)"
    "unat (fdt_off_dt_strings L h) + unat (fdt_size_dt_strings L h) \<le> unat (fdt_totalsize L h)"
  using assms
  by (auto simp: fdt_check_header_ext_def Let_def not_le intro: section_ok_bound)

text \<open>The hypervisor is notified at most once.\<close>

definition hyp_once :: "dt_state \<Rightarrow> bool" where
  "hyp_once st \<longleftrightarrow> length (hyp_calls st) \<le> (if Hyp_Call_Done st then 1 else 0)"

lemma hyp_once_start: "hyp_once dt_state0"
  by (simp add: hyp_once_def dt_state0_def)

lemma hyp_once_Tx: "hyp_once st \<Longrightarrow> hyp_once (TxMpdatatoQhee env d st)"
  by (auto simp: hyp_once_def TxMpdatatoQhee_def Let_def split: if_splits)

lemma hyp_once_GetRticDtb: "hyp_once st \<Longrightarrow> hyp_once (snd (GetRticDtb env d st))"
  by (auto simp: GetRticDtb_def hyp_once_Tx split: option.splits)

end
