(* ===== verification/DtbQueue.thy ===== *)
theory DtbQueue
  imports DeviceTree "HOL-Library.List_Lexorder"
begin

text \<open>
  The choice among the device trees appended to a kernel (\<open>LocateDeviceTree.c\<close>): the entries a device
  tree describes (\<open>DeviceTreeCompatible\<close>), the queue of those that suit the board
  (\<open>platform_dt_absolute_match\<close>), the narrowing of the queue to the best entry
  (\<open>platform_dt_match_best\<close>) and the walk over the device trees (\<open>DeviceTreeAppended\<close>).

  The queue is a list in the order of its nodes; deleting a node while the list is walked and going
  on at its predecessor is a filter.
\<close>

section \<open>Entries\<close>

record dt_entry =
  platform_id :: u32
  variant_id :: u32
  board_hw_subtype :: u32
  soc_rev :: u32
  pmic_rev :: "u32 list"
  dt_offset :: u64
  dt_size :: u32
  dt_Idx :: u32
  SkuId :: u32

text \<open>The comparisons with the board's PMICs end at the first that fails.\<close>

fun pmic_le :: "dt_env \<Rightarrow> u32 list \<Rightarrow> u32 \<Rightarrow> bool option" where
  "pmic_le env [] i = Some True"
| "pmic_le env (r # rs) i = do {
     t \<leftarrow> BoardPmicTarget (de_board env) i;
     if r \<le> t then pmic_le env rs (i + 1) else Some False
   }"

text \<open>\<open>sizeof (struct dt_entry_node)\<close> is 24 and \<open>sizeof (struct dt_entry)\<close> 56.\<close>

definition dt_entry_list_init :: "dt_env \<Rightarrow> bool" where
  "dt_entry_list_init env \<longleftrightarrow> de_pool env 24 \<and> de_pool env 56"

definition same_board :: "dt_env \<Rightarrow> dt_entry \<Rightarrow> bool" where
  "same_board env e \<longleftrightarrow> (let b = de_bst env in
     platform_id e AND 0xffff = BoardPlatformRawChipId b AND 0xffff \<and>
     variant_id e AND 0xff = BoardPlatformType b \<and>
     board_hw_subtype e AND 0xff = BoardPlatformSubType b \<and>
     board_hw_subtype e AND 0x700 = BoardPlatformHlosSubType b AND 0x700 \<and>
     SkuId e = BoardSoftSkuId b \<and>
     soc_rev e \<le> BoardPlatformChipVersion b \<and>
     variant_id e AND 0x00ffff00 \<le> BoardTargetId b AND 0x00ffff00)"

definition platform_dt_absolute_match :: "dt_env \<Rightarrow> dt_entry \<Rightarrow> dt_entry list \<Rightarrow> (bool \<times> dt_entry list) option" where
  "platform_dt_absolute_match env e q =
     (if same_board env e then do {
        m \<leftarrow> pmic_le env (pmic_rev e) 0;
        Some (if m \<and> dt_entry_list_init env then (True, q @ [e]) else (False, q))
      } else Some (False, q))"

fun match_entries :: "dt_env \<Rightarrow> dt_entry list \<Rightarrow> dt_entry list \<Rightarrow> dt_entry list option" where
  "match_entries env [] q = Some q"
| "match_entries env (e # es) q = do {
     (_, q1) \<leftarrow> platform_dt_absolute_match env e q;
     match_entries env es q1
   }"

section \<open>The entries of a device tree\<close>

datatype dtb_ver = DEV_TREE_VERSION_V1 | DEV_TREE_VERSION_V2 | DEV_TREE_VERSION_V3

definition has_value :: "bytes option \<Rightarrow> bool" where
  "has_value p = (case p of None \<Rightarrow> False | Some v \<Rightarrow> v \<noteq> [])"

text \<open>The version and the length the \<open>qcom,msm-id\<close> property has to be a multiple of; no value when
  a property has a wrong length.\<close>

definition dtb_version :: "bytes option \<Rightarrow> bytes option \<Rightarrow> (dtb_ver \<times> nat) option" where
  "dtb_version pmic_prop board_prop =
     (if has_value pmic_prop \<and> has_value board_prop then
        if length (the pmic_prop) mod 16 \<noteq> 0 \<or> length (the board_prop) mod 8 \<noteq> 0 then None
        else Some (DEV_TREE_VERSION_V3, 8)
      else if has_value board_prop then
        if length (the board_prop) mod 8 \<noteq> 0 then None else Some (DEV_TREE_VERSION_V2, 8)
      else Some (DEV_TREE_VERSION_V1, 12))"

fun pairs :: "u32 list \<Rightarrow> (u32 \<times> u32) list" where
  "pairs (a # b # r) = (a, b) # pairs r"
| "pairs r = []"

fun quads :: "u32 list \<Rightarrow> u32 list list" where
  "quads (a # b # c # d # r) = [a, b, c, d] # quads r"
| "quads r = []"

definition board_ids :: "bytes \<Rightarrow> (u32 \<times> u32) list" where
  "board_ids p = List.map (\<lambda>(v, s). (v, if s = 0 then drop_bit 24 v else s)) (pairs (cells p))"

definition plat_ids :: "bytes \<Rightarrow> (u32 \<times> u32) list" where
  "plat_ids p = pairs (cells p)"

definition pmic_ids :: "bytes \<Rightarrow> u32 list list" where
  "pmic_ids p = quads (cells p)"

text \<open>The PMIC count of a version 2 device tree is computed from the negative length that libfdt
  reports for a missing property, or from an empty one.\<close>

definition pmic_data_count :: "dtb_ver \<Rightarrow> bytes option \<Rightarrow> u32" where
  "pmic_data_count ver pmic_prop = (case pmic_prop of None \<Rightarrow> 0xFFFFFFFF | Some p \<Rightarrow> of_nat (length p div 16))"

definition board_pmics :: "dt_env \<Rightarrow> u32 list option" where
  "board_pmics env = do {
     a \<leftarrow> BoardPmicTarget (de_board env) 0;
     b \<leftarrow> BoardPmicTarget (de_board env) 1;
     c \<leftarrow> BoardPmicTarget (de_board env) 2;
     d \<leftarrow> BoardPmicTarget (de_board env) 3;
     Some [a, b, c, d]
   }"

text \<open>Every combination of platform, board and, in version 3, PMIC data.\<close>

definition dt_entries :: "(u32 \<times> u32) list \<Rightarrow> (u32 \<times> u32) list \<Rightarrow> u32 list list \<Rightarrow> u64 \<Rightarrow> u32 \<Rightarrow> u32 \<Rightarrow> dt_entry list" where
  "dt_entries plats boards pmics dtb sz idx =
     [\<lparr> platform_id = fst p, variant_id = fst b, board_hw_subtype = snd b, soc_rev = snd p, pmic_rev = m,
        dt_offset = dtb, dt_size = sz, dt_Idx = idx, SkuId = 0 \<rparr>. p \<leftarrow> plats, b \<leftarrow> boards, m \<leftarrow> pmics]"

definition add_entries :: "dt_env \<Rightarrow> dtb_ver \<Rightarrow> bytes \<Rightarrow> bytes \<Rightarrow> bytes option \<Rightarrow> u64 \<Rightarrow> u32 \<Rightarrow>
    dt_entry list \<Rightarrow> dt_state \<Rightarrow> (bool \<times> dt_entry list \<times> dt_state) option" where
  "add_entries env ver plat_prop board_prop pmic_prop dtb sz q st =
     (let nb = length board_prop div 8; np = length plat_prop div 8;
          nm = pmic_data_count ver pmic_prop;
          NumEntries = (if ver = DEV_TREE_VERSION_V3 then of_nat np * of_nat nb * ucast nm
                        else of_nat np * of_nat nb :: u64)
      in if \<not> de_pool env (8 * nb) \<or> \<not> de_pool env (8 * np) \<or>
            ver = DEV_TREE_VERSION_V3 \<and> \<not> de_pool env (length (the pmic_prop)) then Some (False, q, st)
         else if nm \<noteq> 0 \<and> MAX_UINT64 div ucast nm < ucast (of_nat np * of_nat nb :: u32) then Some (False, q, st)
         else if \<not> de_pool env (unat (56 * NumEntries)) then Some (False, q, st)
         else do {
           pmics \<leftarrow> (if ver = DEV_TREE_VERSION_V3 then Some (pmic_ids (the pmic_prop))
                      else do { t \<leftarrow> board_pmics env; Some [t] });
           q1 \<leftarrow> match_entries env
                   (dt_entries (plat_ids plat_prop) (board_ids board_prop) pmics dtb sz (DtbCount st + 1)) q;
           Some (True, q1, st\<lparr> DtbCount := DtbCount st + 1 \<rparr>)
         })"

definition DeviceTreeCompatible :: "dt_env \<Rightarrow> u64 \<Rightarrow> bytes \<Rightarrow> u32 \<Rightarrow> dt_entry list \<Rightarrow> dt_state \<Rightarrow>
    (bool \<times> dt_entry list \<times> dt_state) option" where
  "DeviceTreeCompatible env dtb fdt sz q st =
     (let prop = fdt_getprop (de_lib env) fdt;
          model = prop ''model''; pmic_prop = prop ''qcom,pmic-id''; board_prop = prop ''qcom,board-id'';
          plat_prop = prop ''qcom,msm-id''
      in if \<not> fdt_has_root (de_lib env) fdt then Some (False, q, st)
         else if has_value model \<and> \<not> de_pool env (length (the model)) then Some (False, q, st)
         else (case dtb_version pmic_prop board_prop of
           None \<Rightarrow> Some (False, q, st)
         | Some (ver, min_plat_id_len) \<Rightarrow>
             if \<not> has_value plat_prop then Some (False, q, st)
             else if length (the plat_prop) mod min_plat_id_len \<noteq> 0 then Some (False, q, st)
             else if ver = DEV_TREE_VERSION_V1 then Some (False, q, st)
             else add_entries env ver (the plat_prop) (the board_prop) pmic_prop dtb sz q st))"

section \<open>Narrowing the queue\<close>

datatype dt_entry_info = DTB_FOUNDRY | DTB_DDR | DTB_SOC | DTB_MAJOR_MINOR | DTB_PMIC0 | DTB_PMIC1
  | DTB_PMIC2 | DTB_PMIC3 | DTB_PMIC_MODEL | DTB_PANEL_TYPE | DTB_BOOT_DEVICE

text \<open>The information that has to equal the board's, as the cells that are compared.\<close>

fun compat_info :: "dt_entry_info \<Rightarrow> dt_entry \<Rightarrow> u32 list" where
  "compat_info DTB_FOUNDRY e = [platform_id e AND 0x00ff0000]"
| "compat_info DTB_DDR e = [board_hw_subtype e AND 0x700]"
| "compat_info DTB_PMIC_MODEL e = List.map (\<lambda>r. r AND 0xff) (pmic_rev e)"
| "compat_info i e = []"

fun compat_board :: "dt_env \<Rightarrow> dt_entry_info \<Rightarrow> u32 list option" where
  "compat_board env DTB_FOUNDRY = Some [push_bit 16 (BoardPlatformFoundryId (de_bst env))]"
| "compat_board env DTB_DDR = Some [BoardPlatformHlosSubType (de_bst env) AND 0x700]"
| "compat_board env DTB_PMIC_MODEL = do {
     a \<leftarrow> BoardPmicModel (de_board env) 0;
     b \<leftarrow> BoardPmicModel (de_board env) 1;
     c \<leftarrow> BoardPmicModel (de_board env) 2;
     d \<leftarrow> BoardPmicModel (de_board env) 3;
     Some [a, b, c, d]
   }"
| "compat_board env i = Some []"

definition platform_dt_absolute_compat_match :: "dt_env \<Rightarrow> dt_entry list \<Rightarrow> dt_entry_info \<Rightarrow> (nat \<times> dt_entry list) option" where
  "platform_dt_absolute_compat_match env q info =
     (if q = [] then Some (1, q)
      else if info \<notin> {DTB_FOUNDRY, DTB_DDR, DTB_PMIC_MODEL} then Some (0, q)
      else do {
        board \<leftarrow> compat_board env info;
        let best = (if list_ex (\<lambda>e. compat_info info e = board) q then board else replicate (length board) 0);
        Some (1, [e \<leftarrow> q. compat_info info e = best])
      })"

fun best_info :: "dt_entry_info \<Rightarrow> dt_entry \<Rightarrow> u32" where
  "best_info DTB_SOC e = soc_rev e"
| "best_info DTB_MAJOR_MINOR e = variant_id e AND 0x00ffff00"
| "best_info DTB_PMIC0 e = pmic_rev e ! 0"
| "best_info DTB_PMIC1 e = pmic_rev e ! 1"
| "best_info DTB_PMIC2 e = pmic_rev e ! 2"
| "best_info DTB_PMIC3 e = pmic_rev e ! 3"
| "best_info i e = 0"

fun best_board :: "dt_env \<Rightarrow> dt_entry_info \<Rightarrow> u32 option" where
  "best_board env DTB_SOC = Some (BoardPlatformChipVersion (de_bst env))"
| "best_board env DTB_MAJOR_MINOR = Some (BoardTargetId (de_bst env) AND 0x00ffff00)"
| "best_board env DTB_PMIC0 = BoardPmicTarget (de_board env) 0"
| "best_board env DTB_PMIC1 = BoardPmicTarget (de_board env) 1"
| "best_board env DTB_PMIC2 = BoardPmicTarget (de_board env) 2"
| "best_board env DTB_PMIC3 = BoardPmicTarget (de_board env) 3"
| "best_board env i = Some 0"

text \<open>The first pass of \<open>update_dtb_entry_node\<close> finds the best value not above the board's and
  deletes entries that are already behind it; an entry equal to the board's ends it.\<close>

fun best_pass :: "(dt_entry \<Rightarrow> u32) \<Rightarrow> u32 \<Rightarrow> u32 \<Rightarrow> dt_entry list \<Rightarrow> u32 \<times> dt_entry list" where
  "best_pass cur board best [] = (best, [])"
| "best_pass cur board best (e # es) =
     (if cur e = board then (cur e, e # es)
      else let best1 = (if cur e < board \<and> cur e > best then cur e else best) in
        (case best_pass cur board best1 es of (r, es1) \<Rightarrow>
          (r, if cur e < best1 then es1 else e # es1)))"

definition update_dtb_entry_node :: "dt_env \<Rightarrow> dt_entry list \<Rightarrow> dt_entry_info \<Rightarrow> (nat \<times> dt_entry list) option" where
  "update_dtb_entry_node env q info =
     (if q = [] then Some (1, q)
      else if info \<notin> {DTB_SOC, DTB_MAJOR_MINOR, DTB_PMIC0, DTB_PMIC1, DTB_PMIC2, DTB_PMIC3} then Some (0, q)
      else do {
        board \<leftarrow> best_board env info;
        let (best, q1) = best_pass (best_info info) board 0 q;
        Some (1, [e \<leftarrow> q1. best_info info e = best])
      })"

definition platform_dt_match_best :: "dt_env \<Rightarrow> dt_entry list \<Rightarrow> (dt_entry option \<times> dt_entry list) option" where
  "platform_dt_match_best env q = do {
     (_, q) \<leftarrow> platform_dt_absolute_compat_match env q DTB_FOUNDRY;
     (_, q) \<leftarrow> platform_dt_absolute_compat_match env q DTB_DDR;
     (_, q) \<leftarrow> platform_dt_absolute_compat_match env q DTB_PMIC_MODEL;
     (_, q) \<leftarrow> update_dtb_entry_node env q DTB_SOC;
     (_, q) \<leftarrow> update_dtb_entry_node env q DTB_MAJOR_MINOR;
     (_, q) \<leftarrow> update_dtb_entry_node env q DTB_PMIC0;
     (_, q) \<leftarrow> update_dtb_entry_node env q DTB_PMIC1;
     (_, q) \<leftarrow> update_dtb_entry_node env q DTB_PMIC2;
     (_, q) \<leftarrow> update_dtb_entry_node env q DTB_PMIC3;
     Some (if q = [] then None else Some (hd q), q)
   }"

section \<open>The walk over the device trees\<close>

text \<open>The checks of the header at an address: whether a device tree of the size starts there. The
  header is copied out before it is checked, so the second check is made at the copy's address.\<close>

definition dtb_at :: "dt_env \<Rightarrow> image \<Rightarrow> u64 \<Rightarrow> u64 \<Rightarrow> u32 option option" where
  "dtb_at env im dtb kernel_end = do {
     h \<leftarrow> peek im dtb 40;
     let sz = fdt_totalsize (de_lib env) h;
     Some (if \<not> fdt_check_header (de_lib env) h \<or> \<not> fdt_check_header_ext (de_lib env) (de_hdr env) h \<or>
              dtb + ucast sz < dtb \<or> dtb + ucast sz > kernel_end
           then None else Some sz)
   }"

lemma dtb_at_size:
  "dtb_at env im dtb ke = Some (Some sz) \<Longrightarrow> dtb < dtb + ucast sz \<and> dtb + ucast sz \<le> ke"
proof -
  assume a: "dtb_at env im dtb ke = Some (Some sz)"
  then obtain h where h: "sz = fdt_totalsize (de_lib env) h" "fdt_check_header_ext (de_lib env) (de_hdr env) h"
    "\<not> dtb + ucast sz < dtb" "\<not> dtb + ucast sz > ke"
    by (auto simp: dtb_at_def Let_def split: Option.bind_splits if_splits)
  from h(2) have "sz \<noteq> 0" unfolding h(1) by (rule fdt_check_header_ext_bounds)
  then have "(ucast sz :: u64) \<noteq> 0"
    by (metis unat_ucast_u32_u64 unsigned_0 unsigned_eq_0_iff)
  then have "dtb + ucast sz \<noteq> dtb" by simp
  with h(3,4) show ?thesis by (auto simp: not_less order.strict_iff_order)
qed

function dtb_walk :: "dt_env \<Rightarrow> image \<Rightarrow> u64 \<Rightarrow> u64 \<Rightarrow> dt_entry list \<Rightarrow> dt_state \<Rightarrow>
    (dt_entry list \<times> dt_state) option" where
  "dtb_walk env im ke dtb q st =
     (if dtb + 40 < ke then
        (case dtb_at env im dtb ke of
           None \<Rightarrow> None
         | Some None \<Rightarrow> Some (q, st)
         | Some (Some sz) \<Rightarrow> do {
             fdt \<leftarrow> peek im dtb (unat sz);
             (ok, q1, st1) \<leftarrow> DeviceTreeCompatible env dtb fdt sz q st;
             dtb_walk env im ke (dtb + ucast sz) q1 (if ok then st1 else snd (GetRticDtb env fdt st1))
           })
      else Some (q, st))"
  by pat_completeness auto
termination
proof (relation "measure (\<lambda>(env, im, ke, dtb, q, st). 2 ^ 64 - unat dtb)")
  fix env im ke and dtb :: u64 and q :: "dt_entry list" and st :: dt_state
    and ao and sz :: u32 and fdt :: bytes and r :: "bool \<times> dt_entry list \<times> dt_state" and ok q1s q1 st1
  assume "dtb_at env im dtb ke = Some ao" "ao = Some sz"
  then have "dtb < dtb + ucast sz" using dtb_at_size by blast
  then show "((env, im, ke, dtb + ucast sz, q1, if ok then st1 else snd (GetRticDtb env fdt st1)),
      (env, im, ke, dtb, q, st)) \<in> measure (\<lambda>(env, im, ke, dtb, q, st). 2 ^ 64 - unat dtb)"
    using unat_u64_bound [of dtb] by (simp add: word_less_nat_alt)
qed simp_all

declare dtb_walk.simps [simp del]

text \<open>\<open>DeviceTreeAppended\<close>: the entry is used after the queue is freed, so the index stored is what
  that memory reads as. The result is whether the device tree was copied to \<open>tags\<close>, the memory, the
  image with the first magic cleared, and the state.\<close>

definition place_dtb :: "dt_env \<Rightarrow> image \<Rightarrow> u64 \<Rightarrow> u64 \<Rightarrow> dt_entry \<Rightarrow> mem \<Rightarrow> dt_state \<Rightarrow>
    (bool \<times> mem \<times> image \<times> dt_state) option" where
  "place_dtb env im first tags e m st = do {
     (Status, _, _) \<leftarrow> BaseMem (de_board env) (de_bst env);
     let RamdiskLoadAddr = fst (SetandGetLoadAddr None LOAD_ADDR_RAMDISK st);
     if Status \<noteq> EFI_SUCCESS then Some (False, m, im, st)
     else if RamdiskLoadAddr - tags > RamdiskLoadAddr then Some (False, m, im, st)
     else if RamdiskLoadAddr - tags < ucast (dt_size e) then Some (False, m, im, st)
     else do {
       fdt \<leftarrow> peek im (dt_offset e) (unat (dt_size e));
       im1 \<leftarrow> poke im first [0, 0, 0, 0];
       Some (True, CopyMem m tags fdt, im1, st\<lparr> DtbIdx := de_freed env (dt_Idx e) \<rparr>)
     }
   }"

definition DeviceTreeAppended :: "dt_env \<Rightarrow> image \<Rightarrow> u64 \<Rightarrow> u32 \<Rightarrow> u32 \<Rightarrow> u64 \<Rightarrow> mem \<Rightarrow> dt_state \<Rightarrow>
    (bool \<times> mem \<times> image \<times> dt_state) option" where
  "DeviceTreeAppended env im kern kernel_size dtb_offset tags m st =
     (if \<not> de_pool env 24 then Some (False, m, im, st)
      else if dtb_offset = 0 \<or> kern + ucast dtb_offset < kern then Some (False, m, im, st)
      else do {
        (q, st1) \<leftarrow> dtb_walk env im (kern + ucast kernel_size) (kern + ucast dtb_offset) [] st;
        (best, _) \<leftarrow> platform_dt_match_best env q;
        (case best of
          None \<Rightarrow> Some (False, m, im, st1)
        | Some e \<Rightarrow> place_dtb env im (kern + ucast dtb_offset) tags e m st1)
      })"

section \<open>The table of an older image\<close>

text \<open>\<open>DeviceTreeValidate\<close> with a size to report: the pages of the table's header, or a bad magic
  or version. \<open>EFI_SIZE_TO_PAGES\<close> counts pages of 4096 bytes.\<close>

definition EFI_SIZE_TO_PAGES :: "u64 \<Rightarrow> u64" where
  "EFI_SIZE_TO_PAGES a = drop_bit 12 a + (if a AND 0xfff \<noteq> 0 then 1 else 0)"

definition DeviceTreeValidate :: "bytes \<Rightarrow> u32 option option" where
  "DeviceTreeValidate table = do {
     magic \<leftarrow> get32 table 0;
     version \<leftarrow> get32 table 4;
     num_entries \<leftarrow> get32 table 8;
     let entry = (if version = 1 then Some 20 else if version = 2 then Some 24 else if version = 3 then Some 56 else None);
     Some (if magic \<noteq> 0x54444351 then None
           else (case entry of
             None \<Rightarrow> None
           | Some sz \<Rightarrow> Some (ucast (EFI_SIZE_TO_PAGES (ucast num_entries * sz + 12)))))
   }"

section \<open>Narrowing keeps the lexicographically greatest\<close>

text \<open>\<open>argmax f q\<close>: the entries of \<open>q\<close> with the greatest value, in order.\<close>

definition argmax :: "('a \<Rightarrow> 'b::linorder) \<Rightarrow> 'a list \<Rightarrow> 'a list" where
  "argmax f q = [e \<leftarrow> q. \<forall>e'\<in>set q. f e' \<le> f e]"

lemma set_argmax: "set (argmax f q) = {e \<in> set q. \<forall>e'\<in>set q. f e' \<le> f e}"
  by (simp add: argmax_def)

lemma argmax_nonempty: "q \<noteq> [] \<Longrightarrow> argmax f q \<noteq> []"
proof -
  assume "q \<noteq> []"
  then have "Max (f ` set q) \<in> f ` set q" by (intro Max_in) auto
  then obtain e where e: "e \<in> set q" "f e = Max (f ` set q)" by auto
  then have "\<forall>e'\<in>set q. f e' \<le> f e" by simp
  with e(1) have "e \<in> set (argmax f q)" by (simp add: set_argmax)
  then show ?thesis by auto
qed

lemma argmax_stages: "argmax g (argmax f q) = argmax (\<lambda>e. f e # g e) q"
proof (cases "q = []")
  case False
  then obtain t where "t \<in> set (argmax f q)" using argmax_nonempty by (metis list.set_intros(1) neq_Nil_conv)
  then have t: "t \<in> set q" "\<And>e'. e' \<in> set q \<Longrightarrow> f e' \<le> f t" by (auto simp: set_argmax)
  have "(\<forall>e'\<in>set q. f e' \<le> f e) \<and> (\<forall>e'\<in>set (argmax f q). g e' \<le> g e) \<longleftrightarrow>
        (\<forall>e'\<in>set q. f e' # g e' \<le> f e # g e)" if "e \<in> set q" for e
  proof
    assume l: "(\<forall>e'\<in>set q. f e' \<le> f e) \<and> (\<forall>e'\<in>set (argmax f q). g e' \<le> g e)"
    show "\<forall>e'\<in>set q. f e' # g e' \<le> f e # g e"
    proof
      fix e' assume e': "e' \<in> set q"
      then have "f e' \<le> f e" using l by simp
      then consider "f e' < f e" | "f e' = f e" by fastforce
      then show "f e' # g e' \<le> f e # g e"
      proof cases
        case 2
        then have "e' \<in> set (argmax f q)" using l e' by (auto simp: set_argmax)
        then show ?thesis using l 2 by simp
      qed simp
    qed
  next
    assume r: "\<forall>e'\<in>set q. f e' # g e' \<le> f e # g e"
    have f: "f e' \<le> f e" if "e' \<in> set q" for e' using r that by fastforce
    moreover have "g e' \<le> g e" if "e' \<in> set (argmax f q)" for e'
    proof -
      have "f e' = f e" using that f \<open>e \<in> set q\<close> by (auto simp: set_argmax intro: antisym)
      then show ?thesis using r that by (auto simp: set_argmax)
    qed
    ultimately show "(\<forall>e'\<in>set q. f e' \<le> f e) \<and> (\<forall>e'\<in>set (argmax f q). g e' \<le> g e)" by simp
  qed
  then show ?thesis
    unfolding argmax_def [of g] argmax_def [of "\<lambda>e. f e # g e"]
    by (simp add: argmax_def [of f] conj_commute cong: filter_cong)
qed (simp add: argmax_def)

text \<open>The passes of \<open>update_dtb_entry_node\<close> keep the greatest values when none is above the board's.\<close>

lemma best_pass_greatest:
  assumes "\<forall>e\<in>set q. cur e \<le> board" "best_pass cur board best q = (r, q1)" "best < board \<or> q = []"
  shows "(\<forall>x\<in>insert best (cur ` set q). x \<le> r) \<and> r \<in> insert best (cur ` set q) \<and>
    [e \<leftarrow> q1. cur e = r] = [e \<leftarrow> q. cur e = r]"
  using assms
proof (induction cur board best q arbitrary: r q1 rule: best_pass.induct)
  case (2 cur board best e es)
  show ?case
  proof (cases "cur e = board")
    case True
    then have "r = board" "q1 = e # es" using 2(3) by auto
    then show ?thesis using 2(2,4) True by auto
  next
    case False
    define b1 where "b1 = (if cur e < board \<and> cur e > best then cur e else best)"
    have lt: "cur e < board" using 2(2) False by (simp add: order.strict_iff_order)
    have b1: "best \<le> b1" "cur e \<le> b1" "b1 \<in> {best, cur e}" "b1 < board"
      using lt 2(4) by (auto simp: b1_def not_less)
    obtain q2 where p: "best_pass cur board b1 es = (r, q2)" "q1 = (if cur e < b1 then q2 else e # q2)"
      using 2(3) False by (auto simp: b1_def Let_def split: prod.splits if_splits)
    have ih: "(\<forall>x\<in>insert b1 (cur ` set es). x \<le> r) \<and> r \<in> insert b1 (cur ` set es) \<and>
      [x \<leftarrow> q2. cur x = r] = [x \<leftarrow> es. cur x = r]"
      using 2(1) [OF False b1_def] 2(2) p(1) b1(4) by auto
    then have "best \<le> r" "cur e \<le> r" using b1(1,2) by auto
    moreover have "r \<in> insert best (cur ` set (e # es))" using ih b1(3) by auto
    moreover have "cur e \<noteq> r" if "cur e < b1" using ih that by auto
    ultimately show ?thesis using ih p(2) by auto
  qed
qed simp

lemma update_argmax:
  assumes "info \<in> {DTB_SOC, DTB_MAJOR_MINOR, DTB_PMIC0, DTB_PMIC1, DTB_PMIC2, DTB_PMIC3}"
    "best_board env info = Some board" "\<forall>e\<in>set q. best_info info e \<le> board"
  shows "update_dtb_entry_node env q info = Some (1, argmax (best_info info) q)"
proof (cases "q = []")
  case False
  obtain r q1 where p: "best_pass (best_info info) board 0 q = (r, q1)" by fastforce
  show ?thesis
  proof (cases "board = 0")
    case True
    then have z: "\<forall>e\<in>set q. best_info info e = 0" using assms(3) by simp
    obtain e es where q: "q = e # es" using False by (cases q) auto
    then have "r = 0" "q1 = q" using p z True by auto
    then show ?thesis
      using False assms(1,2) p z by (simp add: update_dtb_entry_node_def argmax_def cong: filter_cong)
  next
    case nz: False
    then have "(0 :: u32) < board" by (simp add: word_neq_0_conv)
    then have g: "\<forall>x\<in>insert 0 (best_info info ` set q). x \<le> r" "r \<in> insert 0 (best_info info ` set q)"
      "[e \<leftarrow> q1. best_info info e = r] = [e \<leftarrow> q. best_info info e = r]"
      using best_pass_greatest [OF assms(3) p] by auto
    have "best_info info e = r \<longleftrightarrow> (\<forall>e'\<in>set q. best_info info e' \<le> best_info info e)" if e: "e \<in> set q" for e
    proof
      assume all: "\<forall>e'\<in>set q. best_info info e' \<le> best_info info e"
      have "best_info info e \<le> r" using g(1) e by simp
      moreover have "r \<le> best_info info e" using g(2) all by auto
      ultimately show "best_info info e = r" by simp
    qed (use g(1) in auto)
    then show ?thesis
      using False assms(1,2) p g(3) by (simp add: update_dtb_entry_node_def argmax_def cong: filter_cong)
  qed
qed (simp add: update_dtb_entry_node_def argmax_def)

section \<open>The chosen entry\<close>

text \<open>Entries the queue holds: they name the board, and no revision is above the board's.\<close>

definition suits :: "dt_env \<Rightarrow> dt_entry \<Rightarrow> bool" where
  "suits env e \<longleftrightarrow> same_board env e \<and> length (pmic_rev e) = 4 \<and> pmic_le env (pmic_rev e) 0 = Some True"

definition exact_or_zero :: "('a \<Rightarrow> u32 list) \<Rightarrow> u32 list \<Rightarrow> 'a list \<Rightarrow> 'a list" where
  "exact_or_zero f board q =
     [e \<leftarrow> q. f e = (if \<exists>e'\<in>set q. f e' = board then board else replicate (length board) 0)]"

definition rank :: "dt_entry \<Rightarrow> u32 list" where
  "rank e = [soc_rev e, variant_id e AND 0x00ffff00] @ pmic_rev e"

lemma compat_exact_or_zero:
  "info \<in> {DTB_FOUNDRY, DTB_DDR, DTB_PMIC_MODEL} \<Longrightarrow> compat_board env info = Some board \<Longrightarrow>
   platform_dt_absolute_compat_match env q info = Some (1, exact_or_zero (compat_info info) board q)"
  by (cases "q = []") (simp_all add: platform_dt_absolute_compat_match_def exact_or_zero_def list_ex_iff)

lemma set_exact_or_zero: "set (exact_or_zero f b q) \<subseteq> set q"
  by (auto simp: exact_or_zero_def)

lemma ddr_stage: "\<forall>e\<in>set q. suits env e \<Longrightarrow>
  exact_or_zero (compat_info DTB_DDR) [BoardPlatformHlosSubType (de_bst env) AND 0x700] q = q"
  by (cases q) (auto simp: exact_or_zero_def suits_def same_board_def Let_def filter_id_conv)

lemma length_4: "length xs = 4 \<longleftrightarrow> (\<exists>a b c d. xs = [a, b, c, d])"
  by (auto simp: length_Suc_conv eval_nat_numeral)

lemma suits_pmic:
  assumes "suits env e" "board_pmics env = Some t" "i < 4"
  shows "pmic_rev e ! i \<le> t ! i"
proof -
  obtain a b c d where "pmic_rev e = [a, b, c, d]"
    using assms(1) by (auto simp: suits_def length_4)
  then show ?thesis
    using assms by (auto simp: suits_def board_pmics_def less_Suc_eq numeral_eq_Suc numeral_2_eq_2
        split: Option.bind_splits if_splits)
qed

lemma rank_stages: "length (pmic_rev e) = 4 \<Longrightarrow>
  rank e = [best_info DTB_SOC e, best_info DTB_MAJOR_MINOR e, best_info DTB_PMIC0 e,
            best_info DTB_PMIC1 e, best_info DTB_PMIC2 e, best_info DTB_PMIC3 e]"
  by (auto simp: rank_def length_4)

lemma argmax_cong: "(\<And>e. e \<in> set q \<Longrightarrow> f e = g e) \<Longrightarrow> argmax f q = argmax g q"
  by (simp add: argmax_def cong: filter_cong)

lemma argmax_single: "argmax f q = argmax (\<lambda>e. [f e]) q"
  by (simp add: argmax_def le_less)

lemma argmax_subset: "e \<in> set (argmax f q) \<Longrightarrow> e \<in> set q"
  by (simp add: set_argmax)

lemma suits_argmax:
  assumes "info \<in> {DTB_SOC, DTB_MAJOR_MINOR, DTB_PMIC0, DTB_PMIC1, DTB_PMIC2, DTB_PMIC3}"
    "board_pmics env = Some t" "\<forall>e\<in>set q. suits env e"
  shows "update_dtb_entry_node env q info = Some (1, argmax (best_info info) q)"
proof -
  have tg: "best_board env DTB_PMIC0 = Some (t ! 0)" "best_board env DTB_PMIC1 = Some (t ! 1)"
    "best_board env DTB_PMIC2 = Some (t ! 2)" "best_board env DTB_PMIC3 = Some (t ! 3)"
    using assms(2) by (auto simp: board_pmics_def split: Option.bind_splits)
  have pm: "pmic_rev e ! i \<le> t ! i" if "e \<in> set q" "i < 4" for e i
    using assms(3) that by (auto intro: suits_pmic [OF _ assms(2)])
  have sm: "soc_rev e \<le> BoardPlatformChipVersion (de_bst env)"
    "variant_id e AND 0x00ffff00 \<le> BoardTargetId (de_bst env) AND 0x00ffff00" if "e \<in> set q" for e
    using assms(3) that by (auto simp: suits_def same_board_def Let_def)
  obtain b where "best_board env info = Some b" "\<forall>e\<in>set q. best_info info e \<le> b"
    using assms(1) tg pm sm by (elim insertE emptyE) (simp_all del: One_nat_def)
  then show ?thesis by (rule update_argmax [OF assms(1)])
qed

text \<open>C24. The device tree entry chosen by \<open>platform_dt_match_best\<close> is the first of those that are
  greatest in the lexicographic order of SoC revision, board version and the four PMIC revisions,
  among the entries whose foundry and PMIC models are the board's where some entry has them, and
  zero where none has. Nothing is chosen only when that leaves no entry.\<close>

theorem platform_dt_match_best_lexicographic:
  assumes "\<forall>e\<in>set q. suits env e" "board_pmics env = Some t" "compat_board env DTB_PMIC_MODEL = Some md"
  shows "\<exists>q'. platform_dt_match_best env q = Some (if q' = [] then None else Some (hd q'), q') \<and>
    q' = argmax rank
      (exact_or_zero (compat_info DTB_PMIC_MODEL) md
        (exact_or_zero (compat_info DTB_FOUNDRY) [push_bit 16 (BoardPlatformFoundryId (de_bst env))] q))"
proof -
  define q1 where "q1 = exact_or_zero (compat_info DTB_FOUNDRY) [push_bit 16 (BoardPlatformFoundryId (de_bst env))] q"
  define q2 where "q2 = exact_or_zero (compat_info DTB_PMIC_MODEL) md q1"
  define s1 where "s1 = argmax (best_info DTB_SOC) q2"
  define s2 where "s2 = argmax (best_info DTB_MAJOR_MINOR) s1"
  define s3 where "s3 = argmax (best_info DTB_PMIC0) s2"
  define s4 where "s4 = argmax (best_info DTB_PMIC1) s3"
  define s5 where "s5 = argmax (best_info DTB_PMIC2) s4"
  define s6 where "s6 = argmax (best_info DTB_PMIC3) s5"
  have su1: "\<forall>e\<in>set q1. suits env e" using assms(1) set_exact_or_zero unfolding q1_def by fastforce
  have su: "\<forall>e\<in>set q2. suits env e" using su1 set_exact_or_zero unfolding q2_def by fastforce
  have sub: "set s1 \<subseteq> set q2" "set s2 \<subseteq> set q2" "set s3 \<subseteq> set q2" "set s4 \<subseteq> set q2" "set s5 \<subseteq> set q2"
    unfolding s1_def s2_def s3_def s4_def s5_def by (auto dest!: argmax_subset)
  have c: "platform_dt_absolute_compat_match env q DTB_FOUNDRY = Some (1, q1)"
    "platform_dt_absolute_compat_match env q1 DTB_DDR = Some (1, q1)"
    "platform_dt_absolute_compat_match env q1 DTB_PMIC_MODEL = Some (1, q2)"
    using compat_exact_or_zero [of DTB_FOUNDRY env _ q] compat_exact_or_zero [of DTB_DDR env _ q1]
      compat_exact_or_zero [OF _ assms(3), of q1] ddr_stage [OF su1]
    by (simp_all add: q1_def q2_def)
  have u: "update_dtb_entry_node env q2 DTB_SOC = Some (1, s1)"
    "update_dtb_entry_node env s1 DTB_MAJOR_MINOR = Some (1, s2)"
    "update_dtb_entry_node env s2 DTB_PMIC0 = Some (1, s3)"
    "update_dtb_entry_node env s3 DTB_PMIC1 = Some (1, s4)"
    "update_dtb_entry_node env s4 DTB_PMIC2 = Some (1, s5)"
    "update_dtb_entry_node env s5 DTB_PMIC3 = Some (1, s6)"
    unfolding s1_def s2_def s3_def s4_def s5_def s6_def
    using su sub unfolding s1_def s2_def s3_def s4_def s5_def
    by (intro suits_argmax [OF _ assms(2)]; blast)+
  have "s6 = argmax rank q2"
    unfolding s6_def argmax_single [of "best_info DTB_PMIC3"] s5_def argmax_stages s4_def s3_def s2_def s1_def
    by (rule argmax_cong) (use su in \<open>auto simp: suits_def rank_stages\<close>)
  then show ?thesis
    by (simp add: platform_dt_match_best_def c u q2_def [symmetric] q1_def [symmetric])
qed

section \<open>What is in the queue\<close>

definition describes :: "dt_env \<Rightarrow> bytes \<Rightarrow> dt_entry \<Rightarrow> bool" where
  "describes env fdt e \<longleftrightarrow>
     (case fdt_getprop (de_lib env) fdt ''qcom,msm-id'' of None \<Rightarrow> False
      | Some p \<Rightarrow> (platform_id e, soc_rev e) \<in> set (plat_ids p)) \<and>
     (case fdt_getprop (de_lib env) fdt ''qcom,board-id'' of None \<Rightarrow> False
      | Some p \<Rightarrow> (variant_id e, board_hw_subtype e) \<in> set (board_ids p))"

definition queued :: "dt_env \<Rightarrow> image \<Rightarrow> u64 \<Rightarrow> dt_entry \<Rightarrow> bool" where
  "queued env im ke e \<longleftrightarrow> suits env e \<and> SkuId e = 0 \<and> dt_offset e + ucast (dt_size e) \<le> ke \<and>
     (\<exists>fdt. peek im (dt_offset e) (unat (dt_size e)) = Some fdt \<and> describes env fdt e)"

lemma match_entries_set:
  "match_entries env es q = Some q1 \<Longrightarrow> e \<in> set q1 \<Longrightarrow>
   e \<in> set q \<or> e \<in> set es \<and> same_board env e \<and> pmic_le env (pmic_rev e) 0 = Some True"
proof (induction env es q rule: match_entries.induct)
  case (2 env x es q)
  obtain b q2 where m: "platform_dt_absolute_match env x q = Some (b, q2)" "match_entries env es q2 = Some q1"
    using 2(2) by (auto split: Option.bind_splits)
  from 2(1) [OF m(1) refl m(2) 2(3)]
  consider "e \<in> set q2" | "e \<in> set es \<and> same_board env e \<and> pmic_le env (pmic_rev e) 0 = Some True" by blast
  then show ?case
  proof cases
    case 1
    then show ?thesis using m(1)
      by (auto simp: platform_dt_absolute_match_def split: Option.bind_splits if_splits)
  qed simp
qed simp

lemma quads_length: "m \<in> set (quads xs) \<Longrightarrow> length m = 4"
  by (induction xs rule: quads.induct) auto

lemma dt_entries_fields:
  assumes "e \<in> set (dt_entries plats boards pmics dtb sz idx)"
  shows "(platform_id e, soc_rev e) \<in> set plats" "(variant_id e, board_hw_subtype e) \<in> set boards"
    "pmic_rev e \<in> set pmics" "dt_offset e = dtb" "dt_size e = sz" "SkuId e = 0"
  using assms by (auto simp: dt_entries_def)

lemma add_entries_queued:
  assumes "add_entries env ver pp bp pmic dtb sz q st = Some (ok, q1, st1)" "e \<in> set q1"
  shows "e \<in> set q \<or> suits env e \<and> SkuId e = 0 \<and> dt_offset e = dtb \<and> dt_size e = sz \<and>
    (platform_id e, soc_rev e) \<in> set (plat_ids pp) \<and> (variant_id e, board_hw_subtype e) \<in> set (board_ids bp)"
proof (cases "q1 = q")
  case False
  then obtain pmics where p: "(if ver = DEV_TREE_VERSION_V3 then Some (pmic_ids (the pmic))
       else do { t \<leftarrow> board_pmics env; Some [t] }) = Some pmics"
    "match_entries env (dt_entries (plat_ids pp) (board_ids bp) pmics dtb sz (DtbCount st + 1)) q = Some q1"
    using assms(1) by (auto simp: add_entries_def Let_def split: if_splits Option.bind_splits)
  have len: "length m = 4" if "m \<in> set pmics" for m
    using p(1) that quads_length
    by (auto simp: pmic_ids_def board_pmics_def split: if_splits Option.bind_splits)
  from match_entries_set [OF p(2) assms(2)] show ?thesis
    using dt_entries_fields len by (auto simp: suits_def)
qed (use assms(2) in simp)

lemma DeviceTreeCompatible_queued:
  assumes "DeviceTreeCompatible env dtb fdt sz q st = Some (ok, q1, st1)" "e \<in> set q1"
  shows "e \<in> set q \<or> suits env e \<and> SkuId e = 0 \<and> dt_offset e = dtb \<and> dt_size e = sz \<and> describes env fdt e"
proof (cases "q1 = q")
  case False
  then obtain ver where a: "add_entries env ver (the (fdt_getprop (de_lib env) fdt ''qcom,msm-id''))
      (the (fdt_getprop (de_lib env) fdt ''qcom,board-id'')) (fdt_getprop (de_lib env) fdt ''qcom,pmic-id'')
      dtb sz q st = Some (ok, q1, st1)" "ver \<noteq> DEV_TREE_VERSION_V1"
    "has_value (fdt_getprop (de_lib env) fdt ''qcom,msm-id'')"
    "has_value (fdt_getprop (de_lib env) fdt ''qcom,board-id'')"
    using assms(1)
    by (auto simp: DeviceTreeCompatible_def Let_def dtb_version_def split: if_splits option.splits)
  from add_entries_queued [OF a(1) assms(2)] a(3,4) show ?thesis
    by (auto simp: describes_def has_value_def split: option.splits)
qed (use assms(2) in simp)

lemma dtb_walk_queued:
  "dtb_walk env im ke dtb q st = Some (q1, st1) \<Longrightarrow> \<forall>e\<in>set q. queued env im ke e \<Longrightarrow>
   (\<forall>e\<in>set q1. queued env im ke e) \<and> KernelLoad st1 = KernelLoad st \<and> RamdiskLoad st1 = RamdiskLoad st"
proof (induction env im ke dtb q st arbitrary: q1 st1 rule: dtb_walk.induct)
  case (1 env im ke dtb q st)
  show ?case
  proof (cases "dtb + 40 < ke \<and> dtb_at env im dtb ke \<noteq> Some None")
    case False
    then show ?thesis using 1(2,3) by (subst (asm) dtb_walk.simps) (auto split: if_splits option.splits)
  next
    case True
    then obtain sz where sz: "dtb_at env im dtb ke = Some (Some sz)"
      using 1(2) by (subst (asm) dtb_walk.simps) (auto split: option.splits)
    obtain fdt ok q2 st2 where s: "peek im dtb (unat sz) = Some fdt"
      "DeviceTreeCompatible env dtb fdt sz q st = Some (ok, q2, st2)"
      "dtb_walk env im ke (dtb + ucast sz) q2 (if ok then st2 else snd (GetRticDtb env fdt st2)) = Some (q1, st1)"
      using 1(2) True sz by (subst (asm) dtb_walk.simps) (auto split: Option.bind_splits)
    have q2: "\<forall>e\<in>set q2. queued env im ke e"
      using DeviceTreeCompatible_queued [OF s(2)] 1(3) s(1) dtb_at_size [OF sz] by (auto simp: queued_def)
    have st2: "KernelLoad st2 = KernelLoad st \<and> RamdiskLoad st2 = RamdiskLoad st"
      using s(2) by (auto simp: DeviceTreeCompatible_def add_entries_def Let_def
          split: if_splits option.splits Option.bind_splits)
    have r: "KernelLoad (snd (GetRticDtb env fdt x)) = KernelLoad x \<and>
             RamdiskLoad (snd (GetRticDtb env fdt x)) = RamdiskLoad x" for x
      by (simp add: GetRticDtb_def TxMpdatatoQhee_def Let_def split: option.splits)
    show ?thesis
      using 1(1) [OF _ sz refl s(1) s(2) refl refl s(3) q2] True st2 r by auto
  qed
qed

lemma best_pass_subset: "best_pass cur board best q = (r, q1) \<Longrightarrow> set q1 \<subseteq> set q"
  by (induction cur board best q arbitrary: r q1 rule: best_pass.induct)
    (fastforce simp: Let_def split: if_splits prod.splits)+

lemma compat_subset: "platform_dt_absolute_compat_match env q i = Some (r, q1) \<Longrightarrow> set q1 \<subseteq> set q"
  by (auto simp: platform_dt_absolute_compat_match_def Let_def split: if_splits Option.bind_splits)

lemma update_subset: "update_dtb_entry_node env q i = Some (r, q1) \<Longrightarrow> set q1 \<subseteq> set q"
  by (auto simp: update_dtb_entry_node_def Let_def dest!: best_pass_subset
      split: if_splits Option.bind_splits prod.splits)

lemma match_best_in: "platform_dt_match_best env q = Some (Some e, q1) \<Longrightarrow> e \<in> set q"
  unfolding platform_dt_match_best_def
  by (auto split: Option.bind_splits if_splits dest!: compat_subset update_subset) (use hd_in_set in blast)

lemma word_diff_le: "\<not> (x - y :: u64) > x \<Longrightarrow> y \<le> x"
  using no_wrap_u64 [of y "x - y"] unat_diff_wrap [of x y] unat_u64_bound [of y]
  by (fastforce simp: not_less word_le_nat_alt word_less_nat_alt)

text \<open>C23. When \<open>DeviceTreeAppended\<close> reports success, the memory at \<open>tags\<close> holds a whole device
  tree of the image: one that lies before the end of the kernel image, whose properties name this
  board, and that ends before the ramdisk's load address; the rest of memory is as before, and the
  image is only changed by clearing the first device tree's magic.\<close>

theorem DeviceTreeAppended_places:
  assumes "DeviceTreeAppended env im kern kernel_size dtb_offset tags m st = Some (True, m1, im1, st1)"
  shows "\<exists>e fdt. queued env im (kern + ucast kernel_size) e \<and> describes env fdt e \<and>
    peek im (dt_offset e) (unat (dt_size e)) = Some fdt \<and> m1 = CopyMem m tags fdt \<and>
    unat tags + length fdt \<le> unat (RamdiskLoad st) \<and>
    poke im (kern + ucast dtb_offset) [0, 0, 0, 0] = Some im1"
proof -
  obtain q st2 e q2 where w: "dtb_walk env im (kern + ucast kernel_size) (kern + ucast dtb_offset) [] st = Some (q, st2)"
    and b: "platform_dt_match_best env q = Some (Some e, q2)"
    and p: "place_dtb env im (kern + ucast dtb_offset) tags e m st2 = Some (True, m1, im1, st1)"
    using assms by (auto simp: DeviceTreeAppended_def split: if_splits Option.bind_splits option.splits)
  have q: "queued env im (kern + ucast kernel_size) e" "RamdiskLoad st2 = RamdiskLoad st"
    using dtb_walk_queued [OF w] match_best_in [OF b] by auto
  obtain fdt where f: "peek im (dt_offset e) (unat (dt_size e)) = Some fdt" "m1 = CopyMem m tags fdt"
    "\<not> RamdiskLoad st - tags > RamdiskLoad st" "\<not> RamdiskLoad st - tags < ucast (dt_size e)"
    "poke im (kern + ucast dtb_offset) [0, 0, 0, 0] = Some im1"
    using p q(2) by (auto simp: place_dtb_def SetandGetLoadAddr_def Let_def split: if_splits Option.bind_splits)
  have le: "tags \<le> RamdiskLoad st" using f(3) by (rule word_diff_le)
  then have "unat (dt_size e) \<le> unat (RamdiskLoad st) - unat tags"
    using f(4) by (simp add: not_less word_le_nat_alt unat_minus_bound)
  then have "unat tags + length fdt \<le> unat (RamdiskLoad st)"
    using peek_length [OF f(1)] le by (simp add: word_le_nat_alt)
  then show ?thesis using q(1) f(1,2,5) by (auto simp: queued_def)
qed

text \<open>The SKU of an entry is never set: on a board with a SKU no appended device tree is found.\<close>

lemma same_board_sku: "same_board env e \<Longrightarrow> SkuId e = BoardSoftSkuId (de_bst env)"
  by (simp add: same_board_def Let_def)

lemma DeviceTreeAppended_without_sku:
  assumes "DeviceTreeAppended env im kern kernel_size dtb_offset tags m st = Some (found, r)"
    "BoardSoftSkuId (de_bst env) \<noteq> 0"
  shows "\<not> found"
proof
  assume found
  then obtain q st2 e q2 where "dtb_walk env im (kern + ucast kernel_size) (kern + ucast dtb_offset) [] st = Some (q, st2)"
    "platform_dt_match_best env q = Some (Some e, q2)"
    using assms(1) by (auto simp: DeviceTreeAppended_def split: if_splits Option.bind_splits option.splits)
  then have "queued env im (kern + ucast kernel_size) e"
    using dtb_walk_queued match_best_in by fastforce
  then show False using assms(2) by (auto simp: queued_def suits_def dest: same_board_sku)
qed

section \<open>Examples\<close>

text \<open>A library that reads device trees of 48 bytes: a magic, the SoC revision, and the board's
  properties; and a board without PMIC revisions.\<close>

definition demo_cells :: "u32 list \<Rightarrow> bytes" where
  "demo_cells cs = concat (List.map (\<lambda>c. rev (PUT_LONG c)) cs)"

definition demo_lib :: fdt_lib where
  "demo_lib = \<lparr> fdt_check_header = (\<lambda>h. h ! 0 = 0xd0), fdt_totalsize = (\<lambda>h. 48),
     fdt_off_dt_struct = (\<lambda>h. 40), fdt_size_dt_struct = (\<lambda>h. 4), fdt_off_dt_strings = (\<lambda>h. 44),
     fdt_size_dt_strings = (\<lambda>h. 4), fdt_off_mem_rsvmap = (\<lambda>h. 40), fdt_has_root = (\<lambda>h. True),
     fdt_getprop = (\<lambda>h n. if n = ''qcom,msm-id'' then Some (demo_cells [0x150, ucast (h ! 1)])
                          else if n = ''qcom,board-id'' then Some (demo_cells [8, 0]) else None) \<rparr>"

definition demo_info :: BoardInfo where
  "demo_info = zero_BoardInfo\<lparr> RawChipId := 0x150, ChipVersion := 2,
     PlatformInfo := \<lparr> plat_type = 8, plat_version = 0, plat_subtype = 0, plat_fusion = False \<rparr> \<rparr>"

definition demo_board :: board_env where
  "demo_board = \<lparr> ram_prot = Inl EFI_NOT_FOUND, chip_prot = Inl EFI_NOT_FOUND, plat_prot = Inl EFI_NOT_FOUND,
     pmic_prot = Inr \<lparr> pmic_revision = 0,
       pmic_info = (\<lambda>i. Inr \<lparr> PmicModel = 0, PmicAllLayerRevision = 0, PmicMetalRevision = 0, PmicVariantRevision = 0 \<rparr>),
       pmic_info_ext = (\<lambda>i. Inl EFI_UNSUPPORTED) \<rparr>,
     sku_prot = Inl EFI_NOT_FOUND, board_pool = (\<lambda>n. n \<le> 65536), PcdSystemMemoryBase = 0x80000000,
     PcdSystemMemorySize = 0x40000000 \<rparr>"

definition demo_dt_env :: dt_env where
  "demo_dt_env = \<lparr> de_lib = demo_lib, de_board = demo_board,
     de_bst = \<lparr> RamPartitionEntries = None, platform_board_info = demo_info \<rparr>,
     de_scm = True, de_hdr = 0x1000, de_freed = (\<lambda>i. i) \<rparr>"

text \<open>Behind eight bytes of kernel: device trees for SoC revisions 1, 2 and 3.\<close>

definition demo_dtb :: "u8 \<Rightarrow> bytes" where
  "demo_dtb r = [0xd0, r] @ replicate 46 r"

definition demo_image :: image where
  "demo_image = \<lparr> im_addr = 0x10000, im_data = replicate 8 0 @ demo_dtb 1 @ demo_dtb 2 @ demo_dtb 3 \<rparr>"

definition demo_queue :: "dt_entry list" where
  "demo_queue = [
     \<lparr> platform_id = 0x150, variant_id = 8, board_hw_subtype = 0, soc_rev = 1, pmic_rev = [0, 0, 0, 0],
       dt_offset = 0x10008, dt_size = 48, dt_Idx = 1, SkuId = 0 \<rparr>,
     \<lparr> platform_id = 0x150, variant_id = 8, board_hw_subtype = 0, soc_rev = 2, pmic_rev = [0, 0, 0, 0],
       dt_offset = 0x10038, dt_size = 48, dt_Idx = 2, SkuId = 0 \<rparr>]"

definition demo_dt_state :: dt_state where
  "demo_dt_state = dt_state0\<lparr> RamdiskLoad := 0x30000 \<rparr>"

lemma cells_append: "length a = 4 \<Longrightarrow> cells (a @ r) = GET_LWORD_FROM_BYTE (rev a) # cells r"
  by (auto dest!: length_4_cases)

lemma cells_demo [simp]: "cells (demo_cells cs) = cs" "length (demo_cells cs) = 4 * length cs"
  by (induction cs) (simp_all add: demo_cells_def cells_append GET_PUT_LONG)

lemma demo_cells_nonempty [simp]: "demo_cells (c # cs) \<noteq> []"
  using cells_demo(2) [of "c # cs"] by (metis list.size(3) mult_is_0 length_Cons nat.distinct(1) zero_neq_numeral)

lemma demo_peek:
  "peek demo_image 0x10008 40 = Some (take 40 (demo_dtb 1))" "peek demo_image 0x10008 48 = Some (demo_dtb 1)"
  "peek demo_image 0x10038 40 = Some (take 40 (demo_dtb 2))" "peek demo_image 0x10038 48 = Some (demo_dtb 2)"
  "peek demo_image 0x10068 40 = Some (take 40 (demo_dtb 3))" "peek demo_image 0x10068 48 = Some (demo_dtb 3)"
  by (simp_all add: peek_def demo_image_def demo_dtb_def slice_def)

lemma demo_dtb_at:
  "dtb_at demo_dt_env demo_image 0x10008 0x10098 = Some (Some 48)"
  "dtb_at demo_dt_env demo_image 0x10038 0x10098 = Some (Some 48)"
  "dtb_at demo_dt_env demo_image 0x10068 0x10098 = Some (Some 48)"
  by (simp_all add: dtb_at_def demo_peek demo_dt_env_def demo_lib_def fdt_check_header_ext_def section_ok_def
      ADD_OF_def CHECK_ADD64_def demo_dtb_def Let_def)

lemma demo_compatible:
  "DeviceTreeCompatible demo_dt_env a (demo_dtb r) 48 q st =
    Some (True, q @ (if (ucast r :: u32) \<le> 2 then
      [\<lparr> platform_id = 0x150, variant_id = 8, board_hw_subtype = 0, soc_rev = ucast r, pmic_rev = [0, 0, 0, 0],
         dt_offset = a, dt_size = 48, dt_Idx = DtbCount st + 1, SkuId = 0 \<rparr>] else []),
     st\<lparr> DtbCount := DtbCount st + 1 \<rparr>)"
  by (simp add: DeviceTreeCompatible_def add_entries_def dt_entries_def Let_def dtb_version_def has_value_def
      demo_dt_env_def demo_lib_def demo_dtb_def plat_ids_def board_ids_def pmic_data_count_def
      board_pmics_def BoardPmicTarget_def GetPmicInfo_def demo_board_def
      platform_dt_absolute_match_def same_board_def dt_entry_list_init_def demo_info_def zero_BoardInfo_def
      BoardPlatformRawChipId_def BoardPlatformType_def BoardPlatformSubType_def BoardPlatformHlosSubType_def
      BoardSoftSkuId_def BoardPlatformChipVersion_def BoardTargetId_def)

lemma demo_walk:
  "dtb_walk demo_dt_env demo_image 0x10098 0x10008 [] demo_dt_state =
     Some (demo_queue, demo_dt_state\<lparr> DtbCount := 3 \<rparr>)"
  by (simp add: dtb_walk.simps demo_peek demo_compatible demo_dtb_at)
    (simp add: demo_queue_def demo_dt_state_def dt_state0_def)

lemma demo_pmics:
  "board_pmics demo_dt_env = Some [0, 0, 0, 0]" "compat_board demo_dt_env DTB_PMIC_MODEL = Some [0, 0, 0, 0]"
  by (simp_all add: board_pmics_def BoardPmicTarget_def BoardPmicModel_def GetPmicInfo_def demo_dt_env_def demo_board_def)

lemma demo_suits: "\<forall>e\<in>set demo_queue. suits demo_dt_env e"
  by (simp add: demo_queue_def suits_def same_board_def demo_dt_env_def demo_board_def demo_info_def
      zero_BoardInfo_def BoardPlatformRawChipId_def BoardPlatformType_def BoardPlatformSubType_def
      BoardPlatformHlosSubType_def BoardSoftSkuId_def BoardPlatformChipVersion_def BoardTargetId_def
      BoardPmicTarget_def GetPmicInfo_def)

text \<open>Of the three device trees the one for revision 2 is chosen, the board's own revision.\<close>

lemma demo_queue_best: "platform_dt_match_best demo_dt_env demo_queue = Some (Some (demo_queue ! 1), [demo_queue ! 1])"
  by (simp add: platform_dt_match_best_def platform_dt_absolute_compat_match_def update_dtb_entry_node_def
      demo_queue_def demo_dt_env_def demo_board_def demo_info_def zero_BoardInfo_def BoardPmicTarget_def
      BoardPmicModel_def GetPmicInfo_def BoardPlatformFoundryId_def BoardPlatformHlosSubType_def
      BoardPlatformChipVersion_def BoardTargetId_def Let_def)

theorem platform_dt_match_best_lexicographic_witness:
  "\<exists>q'. platform_dt_match_best demo_dt_env demo_queue = Some (if q' = [] then None else Some (hd q'), q') \<and>
    q' = argmax rank (exact_or_zero (compat_info DTB_PMIC_MODEL) [0, 0, 0, 0]
      (exact_or_zero (compat_info DTB_FOUNDRY) [push_bit 16 (BoardPlatformFoundryId (de_bst demo_dt_env))] demo_queue))"
  by (rule platform_dt_match_best_lexicographic [OF demo_suits demo_pmics])

definition demo_placed :: image where
  "demo_placed = demo_image\<lparr> im_data := splice 8 [0, 0, 0, 0] (im_data demo_image) \<rparr>"

lemma demo_appended:
  "DeviceTreeAppended demo_dt_env demo_image 0x10000 152 8 0x20000 m demo_dt_state =
     Some (True, CopyMem m 0x20000 (demo_dtb 2), demo_placed, demo_dt_state\<lparr> DtbCount := 3, DtbIdx := 2 \<rparr>)"
proof -
  have b: "BaseMem demo_board \<lparr> RamPartitionEntries = None, platform_board_info = demo_info \<rparr> =
    Some (EFI_SUCCESS, 0x80000000, \<lparr> RamPartitionEntries = Some [\<lparr> Base = 0x80000000, AvailableLength = 0x40000000 \<rparr>],
      platform_board_info = demo_info \<rparr>)"
    by (simp add: BaseMem_def ReadRamPartitions_def GetRamPartitions_def demo_board_def Let_def)
  have p: "poke demo_image 0x10008 [0, 0, 0, 0] = Some demo_placed"
    by (simp add: poke_def demo_placed_def demo_image_def demo_dtb_def)
  have e: "de_bst demo_dt_env = \<lparr> RamPartitionEntries = None, platform_board_info = demo_info \<rparr>"
    "de_board demo_dt_env = demo_board" "de_freed demo_dt_env 2 = 2" "board_pool demo_board 24"
    by (simp_all add: demo_dt_env_def demo_board_def)
  have r: "RamdiskLoad demo_dt_state = 0x30000" by (simp add: demo_dt_state_def)
  have "dt_offset (demo_queue ! 1) = 0x10038" "dt_size (demo_queue ! 1) = 48" "dt_Idx (demo_queue ! 1) = 2"
    by (simp_all add: demo_queue_def)
  then show ?thesis
    using demo_queue_best
    by (simp add: DeviceTreeAppended_def demo_walk place_dtb_def b p e demo_peek SetandGetLoadAddr_def r)
qed

theorem DeviceTreeAppended_places_witness:
  "\<exists>e fdt. queued demo_dt_env demo_image (0x10000 + ucast (152 :: u32)) e \<and> describes demo_dt_env fdt e \<and>
    peek demo_image (dt_offset e) (unat (dt_size e)) = Some fdt \<and>
    CopyMem (\<lambda>_. 0) 0x20000 (demo_dtb 2) = CopyMem (\<lambda>_. 0) 0x20000 fdt \<and>
    unat (0x20000 :: u64) + length fdt \<le> unat (RamdiskLoad demo_dt_state) \<and>
    poke demo_image (0x10000 + ucast (8 :: u32)) [0, 0, 0, 0] = Some demo_placed"
  by (rule DeviceTreeAppended_places [OF demo_appended])

end
