(* ===== verification/DtbMatch.thy ===== *)
theory DtbMatch
  imports DtbQueue MiscPartition "HOL-Library.Signed_Division"
begin

text \<open>
  The choice of the SoC device tree and of the board's overlay (\<open>LocateDeviceTree.c\<close>):
  \<open>ReadDtbFindMatch\<close> scores a device tree against the board in a 64-bit word of match bits and
  keeps the best; \<open>GetSocDtb\<close> walks the device trees of the boot image, \<open>GetBoardDtb\<close> the entries of
  a DTBO image, and \<open>GetOvrdDtb\<close> loads the overlay of the \<open>user_dtbo\<close> partition.

  The PMIC arrays have 15 elements, and the number of PMICs is read from the device tree: an access
  behind them has no value in the model, as has the division by an entry size of zero.
\<close>

section \<open>Match bits\<close>

abbreviation (input) NONE_MATCH :: nat where "NONE_MATCH \<equiv> 0"
abbreviation (input) PMIC_MATCH_BEST_REV_IDX0 :: nat where "PMIC_MATCH_BEST_REV_IDX0 \<equiv> 1"
abbreviation (input) PMIC_MATCH_EXACT_REV_IDX0 :: nat where "PMIC_MATCH_EXACT_REV_IDX0 \<equiv> 2"
abbreviation (input) VARIANT_MINOR_BEST_MATCH :: nat where "VARIANT_MINOR_BEST_MATCH \<equiv> 9"
abbreviation (input) VARIANT_MINOR_EXACT_MATCH :: nat where "VARIANT_MINOR_EXACT_MATCH \<equiv> 10"
abbreviation (input) VARIANT_MAJOR_BEST_MATCH :: nat where "VARIANT_MAJOR_BEST_MATCH \<equiv> 11"
abbreviation (input) VARIANT_MAJOR_EXACT_MATCH :: nat where "VARIANT_MAJOR_EXACT_MATCH \<equiv> 12"
abbreviation (input) VERSION_BEST_MATCH :: nat where "VERSION_BEST_MATCH \<equiv> 13"
abbreviation (input) VERSION_EXACT_MATCH :: nat where "VERSION_EXACT_MATCH \<equiv> 14"
abbreviation (input) FOUNDRYID_DEFAULT_MATCH :: nat where "FOUNDRYID_DEFAULT_MATCH \<equiv> 15"
abbreviation (input) FOUNDRYID_EXACT_MATCH :: nat where "FOUNDRYID_EXACT_MATCH \<equiv> 16"
abbreviation (input) PMIC_MATCH_DEFAULT_MODEL_IDX0 :: nat where "PMIC_MATCH_DEFAULT_MODEL_IDX0 \<equiv> 17"
abbreviation (input) PMIC_MATCH_EXACT_MODEL_IDX0 :: nat where "PMIC_MATCH_EXACT_MODEL_IDX0 \<equiv> 18"
abbreviation (input) PMIC_MATCH_EXACT_MODEL_IDXF :: nat where "PMIC_MATCH_EXACT_MODEL_IDXF \<equiv> 48"
abbreviation (input) SOFTSKU_EXACT_MATCH :: nat where "SOFTSKU_EXACT_MATCH \<equiv> 49"
abbreviation (input) SUBTYPE_DEFAULT_MATCH :: nat where "SUBTYPE_DEFAULT_MATCH \<equiv> 50"
abbreviation (input) SUBTYPE_EXACT_MATCH :: nat where "SUBTYPE_EXACT_MATCH \<equiv> 51"
abbreviation (input) DDR_MATCH :: nat where "DDR_MATCH \<equiv> 52"
abbreviation (input) VARIANT_MATCH :: nat where "VARIANT_MATCH \<equiv> 53"
abbreviation (input) SOC_MATCH :: nat where "SOC_MATCH \<equiv> 54"

definition BIT :: "nat \<Rightarrow> u64" where "BIT x = push_bit x 1"

text \<open>All models exact for sixteen PMICs, and the SKU.\<close>

definition ALL_BITS_SET :: u64 where
  "ALL_BITS_SET = fold (\<lambda>i w. w OR BIT i)
     ([SOC_MATCH, VARIANT_MATCH, SUBTYPE_EXACT_MATCH, FOUNDRYID_EXACT_MATCH, SOFTSKU_EXACT_MATCH] @
      List.map (\<lambda>i. PMIC_MATCH_EXACT_MODEL_IDX0 + 2 * i) [0..<16]) 0"

definition CheckAllBitsSet :: "u64 \<Rightarrow> bool" where
  "CheckAllBitsSet DtMatchVal \<longleftrightarrow> DtMatchVal AND ALL_BITS_SET = ALL_BITS_SET"

text \<open>The scored properties of a device tree. The tree itself is the address it starts at.\<close>

record DtInfo =
  DtPlatformId :: u32
  DtSocRev :: u32
  DtFoundryId :: u32
  DtVariantId :: u32
  DtVariantMajor :: u32
  DtVariantMinor :: u32
  DtPlatformSubtype :: u32
  DtSoftSkuId :: u32
  DtPmicModel :: "u32 list"
  DtPmicRev :: "u32 list"
  DtMatchVal :: u64
  Dtb :: "u64 option"

record PmicIdInfo =
  PmModel :: "u32 list"
  PmRev :: "u32 list"
  PmMatchVal :: u64

abbreviation (input) MAX_PMIC_IDX :: nat where "MAX_PMIC_IDX \<equiv> 15"

definition zero_DtInfo :: DtInfo where
  "zero_DtInfo = \<lparr> DtPlatformId = 0, DtSocRev = 0, DtFoundryId = 0, DtVariantId = 0, DtVariantMajor = 0,
     DtVariantMinor = 0, DtPlatformSubtype = 0, DtSoftSkuId = 0, DtPmicModel = replicate MAX_PMIC_IDX 0,
     DtPmicRev = replicate MAX_PMIC_IDX 0, DtMatchVal = 0, Dtb = None \<rparr>"

definition zero_PmicIdInfo :: PmicIdInfo where
  "zero_PmicIdInfo = \<lparr> PmModel = replicate MAX_PMIC_IDX 0, PmRev = replicate MAX_PMIC_IDX 0, PmMatchVal = 0 \<rparr>"

section \<open>PMICs\<close>

text \<open>The comparison of one entry of \<open>n\<close> PMICs that starts at byte \<open>base\<close> of the property: whether all
  suit, and the information gathered.\<close>

fun pmic_entry :: "dt_env \<Rightarrow> bytes \<Rightarrow> nat \<Rightarrow> nat \<Rightarrow> nat \<Rightarrow> PmicIdInfo \<Rightarrow> (bool \<times> PmicIdInfo) option" where
  "pmic_entry env prop base 0 Idx cur = Some (True, cur)"
| "pmic_entry env prop base (Suc n) Idx cur =
     (if Idx \<ge> MAX_PMIC_IDX then None
      else do {
        w \<leftarrow> be32 prop (base + 4 * Idx);
        let model = w AND 0x000000ff;
        let rv = w AND 0xffffff00;
        let cur1 = cur\<lparr> PmModel := (PmModel cur)[Idx := model], PmRev := (PmRev cur)[Idx := rv] \<rparr>;
        let set1 = (\<lambda>b. cur1\<lparr> PmMatchVal := PmMatchVal cur1 OR BIT (b + 2 * Idx) \<rparr>);
        let revs = (\<lambda>cur2. if Idx < 4 then do {
                t \<leftarrow> BoardPmicTarget (de_board env) (of_nat Idx);
                if rv = t AND 0xffffff00 then
                  pmic_entry env prop base n (Idx + 1)
                    (cur2\<lparr> PmMatchVal := PmMatchVal cur2 OR BIT (PMIC_MATCH_EXACT_REV_IDX0 + 2 * Idx) \<rparr>)
                else if rv < t AND 0xffffff00 then
                  pmic_entry env prop base n (Idx + 1)
                    (cur2\<lparr> PmMatchVal := PmMatchVal cur2 OR BIT (PMIC_MATCH_BEST_REV_IDX0 + 2 * Idx) \<rparr>)
                else Some (False, cur2)
              } else pmic_entry env prop base n (Idx + 1) cur2);
        bm \<leftarrow> BoardPmicModel (de_board env) (of_nat Idx);
        if model = bm then revs (set1 PMIC_MATCH_EXACT_MODEL_IDX0)
        else if model = 0 then revs (set1 PMIC_MATCH_DEFAULT_MODEL_IDX0)
        else Some (False, cur1\<lparr> PmMatchVal := BIT NONE_MATCH \<rparr>)
      })"

definition better_pmic :: "nat \<Rightarrow> PmicIdInfo \<Rightarrow> PmicIdInfo \<Rightarrow> PmicIdInfo" where
  "better_pmic PmicMaxIdx best cur =
     (if PmMatchVal best < PmMatchVal cur then cur
      else if PmMatchVal best = PmMatchVal cur \<and>
              list_ex (\<lambda>i. PmRev best ! i < PmRev cur ! i) [0..<PmicMaxIdx] then cur
      else best)"

fun pmic_entries :: "dt_env \<Rightarrow> bytes \<Rightarrow> nat \<Rightarrow> nat \<Rightarrow> nat \<Rightarrow> PmicIdInfo \<Rightarrow> PmicIdInfo option" where
  "pmic_entries env prop PmicMaxIdx base 0 best = Some best"
| "pmic_entries env prop PmicMaxIdx base (Suc n) best = do {
     (ok, cur) \<leftarrow> pmic_entry env prop base PmicMaxIdx 0 zero_PmicIdInfo;
     pmic_entries env prop PmicMaxIdx (base + 4 * PmicMaxIdx) n
       (if ok then better_pmic PmicMaxIdx best cur else best)
   }"

definition ReadBestPmicMatch :: "dt_env \<Rightarrow> bytes \<Rightarrow> nat \<Rightarrow> nat \<Rightarrow> PmicIdInfo option" where
  "ReadBestPmicMatch env prop PmicMaxIdx PmicEntCount =
     pmic_entries env prop PmicMaxIdx 0 PmicEntCount (zero_PmicIdInfo\<lparr> PmMatchVal := BIT NONE_MATCH \<rparr>)"

section \<open>Platform, board and SKU\<close>

definition upd_match :: "nat \<Rightarrow> DtInfo \<Rightarrow> DtInfo" where
  "upd_match b d = d\<lparr> DtMatchVal := DtMatchVal d OR BIT b \<rparr>"

definition no_match :: "DtInfo \<Rightarrow> DtInfo" where
  "no_match d = d\<lparr> DtMatchVal := BIT NONE_MATCH \<rparr>"

text \<open>\<open>GetPlatformMatchDtb\<close> of one entry of \<open>qcom,msm-id\<close>.\<close>

definition GetPlatformMatchDtb :: "dt_env \<Rightarrow> u32 \<times> u32 \<Rightarrow> DtInfo \<Rightarrow> efi_status \<times> DtInfo" where
  "GetPlatformMatchDtb env plat cur =
     (let b = de_bst env; cur1 = cur\<lparr> DtPlatformId := fst plat \<rparr> in
      if BoardPlatformRawChipId b AND 0xffff \<noteq> fst plat AND 0xffff then (EFI_NOT_FOUND, no_match cur1)
      else
        let cur2 = (upd_match SOC_MATCH cur1)\<lparr> DtSocRev := snd plat \<rparr>;
            cur3 = (if snd plat = BoardPlatformChipVersion b then upd_match VERSION_EXACT_MATCH cur2
                    else if snd plat < BoardPlatformChipVersion b then upd_match VERSION_BEST_MATCH cur2
                    else cur2);
            foundry = fst plat AND 0x00ff0000;
            cur4 = cur3\<lparr> DtFoundryId := foundry \<rparr>
        in if foundry = push_bit 16 (BoardPlatformFoundryId b) then (EFI_SUCCESS, upd_match FOUNDRYID_EXACT_MATCH cur4)
           else if foundry = 0 then (EFI_SUCCESS, upd_match FOUNDRYID_DEFAULT_MATCH cur4)
           else (EFI_NOT_FOUND, no_match cur4))"

text \<open>Every entry is scored from zero, and the best scored one is kept.\<close>

fun plat_search :: "dt_env \<Rightarrow> (u32 \<times> u32) list \<Rightarrow> DtInfo \<Rightarrow> DtInfo \<Rightarrow> DtInfo" where
  "plat_search env [] cur temp = temp"
| "plat_search env (p # ps) cur temp =
     (case GetPlatformMatchDtb env p (cur\<lparr> DtMatchVal := of_nat NONE_MATCH \<rparr>) of (Status, cur1) \<Rightarrow>
       plat_search env ps cur1 (if Status = EFI_SUCCESS \<and> DtMatchVal cur1 > DtMatchVal temp then cur1 else temp))"

text \<open>\<open>GetBoardMatchDtb\<close> reads the first entry of \<open>qcom,board-id\<close>.\<close>

definition variant_bits :: "board_state \<Rightarrow> DtInfo \<Rightarrow> DtInfo" where
  "variant_bits b d =
     (let mj = BoardTargetId b AND 0x00ff0000; mi = BoardTargetId b AND 0x0000ff00;
          d1 = (if DtVariantMajor d = mj then upd_match VARIANT_MAJOR_EXACT_MATCH d
                else if DtVariantMajor d < mj then upd_match VARIANT_MAJOR_BEST_MATCH d else d)
      in if DtVariantMinor d = mi then upd_match VARIANT_MINOR_EXACT_MATCH d1
         else if DtVariantMinor d < mi then upd_match VARIANT_MINOR_BEST_MATCH d1 else d1)"

definition subtype_bits :: "board_state \<Rightarrow> DtInfo \<Rightarrow> efi_status \<times> DtInfo" where
  "subtype_bits b d =
     (let ddr = (\<lambda>x. if DtPlatformSubtype x AND 0x700 = BoardPlatformHlosSubType b AND 0x700
                     then upd_match DDR_MATCH x else x)
      in if DtPlatformSubtype d AND 0xff = BoardPlatformSubType b
         then (EFI_SUCCESS, ddr (upd_match SUBTYPE_EXACT_MATCH d))
         else if DtPlatformSubtype d AND 0xff = 0 then (EFI_SUCCESS, ddr (upd_match SUBTYPE_DEFAULT_MATCH d))
         else (EFI_NOT_FOUND, no_match d))"

definition GetBoardMatchDtb :: "dt_env \<Rightarrow> bytes option \<Rightarrow> DtInfo \<Rightarrow> (efi_status \<times> DtInfo) option" where
  "GetBoardMatchDtb env BoardProp cur = (case BoardProp of
     None \<Rightarrow> Some (EFI_SUCCESS, cur)
   | Some p \<Rightarrow>
       if length p > 0 \<and> length p mod 8 = 0 then do {
         variant \<leftarrow> be32 p 0;
         subtype \<leftarrow> be32 p 4;
         let d = cur\<lparr> DtPlatformSubtype := (if subtype = 0 then drop_bit 24 variant else subtype),
                      DtVariantMajor := variant AND 0x00ff0000, DtVariantMinor := variant AND 0x0000ff00,
                      DtVariantId := variant AND 0x000000ff \<rparr>;
         Some (if DtVariantId d = BoardPlatformType (de_bst env) then
                 subtype_bits (de_bst env) (variant_bits (de_bst env) (upd_match VARIANT_MATCH d))
               else if DtVariantId d \<noteq> 0 then (EFI_NOT_FOUND, no_match d)
               else subtype_bits (de_bst env) (variant_bits (de_bst env) d))
       } else Some (EFI_SUCCESS, cur))"

text \<open>The first cell of \<open>qcom,softsku-id\<close> is read whatever the property's length is.\<close>

definition GetSoftSkuMatchDtb :: "dt_env \<Rightarrow> bytes option \<Rightarrow> DtInfo \<Rightarrow> DtInfo option" where
  "GetSoftSkuMatchDtb env SoftSkuProp cur = do {
     sku \<leftarrow> (case SoftSkuProp of None \<Rightarrow> Some 0 | Some p \<Rightarrow> be32 p 0);
     let d = cur\<lparr> DtSoftSkuId := sku \<rparr>;
     Some (if sku = BoardSoftSkuId (de_bst env) then upd_match SOFTSKU_EXACT_MATCH d else d)
   }"

section \<open>The score of a device tree\<close>

text \<open>The PMIC part. \<open>qcom,pmic-id-size\<close> is the number of PMICs of an entry, four without it; sizes
  are signed 32-bit integers.\<close>

definition score_pmic :: "dt_env \<Rightarrow> bytes \<Rightarrow> DtInfo \<Rightarrow> DtInfo option" where
  "score_pmic env fdt cur =
     (if \<not> has_value (fdt_getprop (de_lib env) fdt ''qcom,pmic-id'') then Some cur
      else let p = the (fdt_getprop (de_lib env) fdt ''qcom,pmic-id'');
               sz = fdt_getprop (de_lib env) fdt ''qcom,pmic-id-size''
           in do {
        PmicMaxIdx \<leftarrow> (if has_value sz then be32 (the sz) 0 else Some 4);
        let PmicEntSz = sint (PmicMaxIdx * 4);
        if PmicEntSz = 0 then None
        else if int (length p) smod PmicEntSz \<noteq> 0 then Some cur
        else do {
          best \<leftarrow> ReadBestPmicMatch env p (unat PmicMaxIdx)
                   (unat (word_of_int (int (length p) sdiv PmicEntSz) :: u32));
          Some (if PmMatchVal best = BIT NONE_MATCH then cur\<lparr> DtMatchVal := of_nat NONE_MATCH \<rparr>
                else cur\<lparr> DtMatchVal := DtMatchVal cur OR PmMatchVal best,
                  DtPmicModel := take (unat PmicMaxIdx) (PmModel best) @ drop (unat PmicMaxIdx) (DtPmicModel cur),
                  DtPmicRev := take (unat PmicMaxIdx) (PmRev best) @ drop (unat PmicMaxIdx) (DtPmicRev cur) \<rparr>)
        }
      })"

definition score_platform :: "dt_env \<Rightarrow> bytes \<Rightarrow> DtInfo \<Rightarrow> bool \<times> DtInfo" where
  "score_platform env fdt cur = (case fdt_getprop (de_lib env) fdt ''qcom,msm-id'' of
     None \<Rightarrow> (True, cur)
   | Some p \<Rightarrow>
       if length p > 0 \<and> length p mod 8 = 0 then
         let c = plat_search env (plat_ids p) cur cur in (DtMatchVal c \<noteq> of_nat NONE_MATCH, c)
       else (True, cur))"

text \<open>The properties in order; a property that rules the device tree out ends the scoring.\<close>

definition score_dtb :: "dt_env \<Rightarrow> bytes \<Rightarrow> DtInfo \<Rightarrow> DtInfo option" where
  "score_dtb env fdt cur = (case score_platform env fdt cur of (go, c1) \<Rightarrow>
     if \<not> go then Some c1
     else do {
       (Status, c2) \<leftarrow> GetBoardMatchDtb env (fdt_getprop (de_lib env) fdt ''qcom,board-id'') c1;
       if Status \<noteq> EFI_SUCCESS then Some c2
       else do {
         c3 \<leftarrow> GetSoftSkuMatchDtb env (fdt_getprop (de_lib env) fdt ''qcom,softsku-id'') c2;
         score_pmic env fdt c3
       }
     })"

definition ranks_higher :: "DtInfo \<Rightarrow> DtInfo \<Rightarrow> bool" where
  "ranks_higher best cur \<longleftrightarrow>
     DtSocRev best < DtSocRev cur \<or> DtVariantMajor best < DtVariantMajor cur \<or>
     DtVariantMinor best < DtVariantMinor cur \<or> DtPmicRev best ! 0 < DtPmicRev cur ! 0 \<or>
     DtPmicRev best ! 1 < DtPmicRev cur ! 1 \<or> DtPmicRev best ! 2 < DtPmicRev cur ! 2 \<or>
     DtPmicRev best ! 3 < DtPmicRev cur ! 3 \<or> DtSoftSkuId best > DtSoftSkuId cur"

definition keep_best :: "nat \<Rightarrow> DtInfo \<Rightarrow> DtInfo \<Rightarrow> bool \<times> DtInfo" where
  "keep_best ExactMatch cur best =
     (if DtMatchVal cur AND BIT ExactMatch \<noteq> 0 then
        if DtMatchVal best < DtMatchVal cur then (True, cur)
        else if DtMatchVal best = DtMatchVal cur \<and> ranks_higher best cur then (True, cur)
        else (False, best)
      else (False, best))"

definition ReadDtbFindMatch :: "dt_env \<Rightarrow> bytes \<Rightarrow> DtInfo \<Rightarrow> DtInfo \<Rightarrow> nat \<Rightarrow> (bool \<times> DtInfo \<times> DtInfo) option" where
  "ReadDtbFindMatch env fdt cur best ExactMatch =
     (let cur0 = cur\<lparr> DtMatchVal := 0 \<rparr>
      in if \<not> fdt_has_root (de_lib env) fdt then Some (False, cur0, best)
         else do {
           cur1 \<leftarrow> score_dtb env fdt cur0;
           (case keep_best ExactMatch cur1 best of (FindBestMatch, best1) \<Rightarrow> Some (FindBestMatch, cur1, best1))
         })"

section \<open>The SoC device tree\<close>

definition soc_update :: "dt_env \<Rightarrow> bytes \<Rightarrow> u32 \<Rightarrow> bool \<Rightarrow> DtInfo \<Rightarrow> dt_state \<Rightarrow> dt_state" where
  "soc_update env fdt DtbCnt found cur st =
     (let st1 = (if found then st\<lparr> DtbIdx := DtbCnt \<rparr> else st)
      in if DtMatchVal cur \<noteq> 0 then
           (if DtMatchVal cur AND BIT SOC_MATCH \<noteq> 0 \<and> CheckAllBitsSet (DtMatchVal cur)
            then st1\<lparr> DtboNeed := False \<rparr> else st1)
         else snd (GetRticDtb env fdt st1))"

function soc_walk :: "dt_env \<Rightarrow> image \<Rightarrow> u64 \<Rightarrow> u64 \<Rightarrow> u32 \<Rightarrow> DtInfo \<Rightarrow> DtInfo \<Rightarrow> dt_state \<Rightarrow>
    (DtInfo \<times> dt_state) option" where
  "soc_walk env im ke dtb DtbCnt cur best st =
     (if dtb + 40 < ke then
        (case dtb_at env im dtb ke of
           None \<Rightarrow> None
         | Some None \<Rightarrow> Some (best, st)
         | Some (Some sz) \<Rightarrow> do {
             fdt \<leftarrow> peek im dtb (unat sz);
             (found, cur1, best1) \<leftarrow> ReadDtbFindMatch env fdt (cur\<lparr> Dtb := Some dtb \<rparr>) best SOC_MATCH;
             soc_walk env im ke (dtb + ucast sz) (DtbCnt + 1) cur1 best1 (soc_update env fdt DtbCnt found cur1 st)
           })
      else Some (best, st))"
  by pat_completeness auto
termination
proof (relation "measure (\<lambda>(env, im, ke, dtb, n, cur, best, st). 2 ^ 64 - unat dtb)")
  fix env im ke and dtb :: u64 and n :: u32 and cur best :: DtInfo and st :: dt_state
    and ao and sz :: u32 and fdt :: bytes and r :: "bool \<times> DtInfo \<times> DtInfo" and found rs cur1 best1
  assume "dtb_at env im dtb ke = Some ao" "ao = Some sz"
  then have "dtb < dtb + ucast sz" using dtb_at_size by blast
  then show "((env, im, ke, dtb + ucast sz, n + 1, cur1, best1, soc_update env fdt n found cur1 st),
      (env, im, ke, dtb, n, cur, best, st)) \<in> measure (\<lambda>(env, im, ke, dtb, n, cur, best, st). 2 ^ 64 - unat dtb)"
    using unat_u64_bound [of dtb] by (simp add: word_less_nat_alt)
qed simp_all

declare soc_walk.simps [simp del]

definition GetSocDtb :: "dt_env \<Rightarrow> image \<Rightarrow> u64 \<Rightarrow> u32 \<Rightarrow> u32 \<Rightarrow> dt_state \<Rightarrow> (u64 option \<times> dt_state) option" where
  "GetSocDtb env im kern KernelSize DtbOffset st =
     (if DtbOffset = 0 \<or> kern + ucast DtbOffset < kern then Some (None, st)
      else do {
        (best, st1) \<leftarrow> soc_walk env im (kern + ucast KernelSize) (kern + ucast DtbOffset) 0 zero_DtInfo zero_DtInfo st;
        Some (Dtb best, st1)
      })"

section \<open>The board's overlay\<close>

text \<open>The entries of the DTBO table from number \<open>n\<close> on: the header of an entry's device tree is
  checked where the entry says it lies, and one that fails ends the search.\<close>

fun board_walk :: "dt_env \<Rightarrow> image \<Rightarrow> u64 \<Rightarrow> u32 \<Rightarrow> nat \<Rightarrow> DtInfo \<Rightarrow> DtInfo \<Rightarrow> dt_state \<Rightarrow>
    (DtInfo option \<times> dt_state) option" where
  "board_walk env im entry DtboCount 0 cur best st = Some (Some best, st)"
| "board_walk env im entry DtboCount (Suc n) cur best st = do {
     cell \<leftarrow> peek im (entry + 4) 4;
     DtOffset \<leftarrow> be32 cell 0;
     if CHECK_ADD64 (im_addr im) (ucast DtOffset) then Some (None, st)
     else do {
       let BoardDtb = im_addr im + ucast DtOffset;
       h \<leftarrow> peek im BoardDtb 40;
       if \<not> fdt_check_header (de_lib env) h \<or> \<not> fdt_check_header_ext (de_lib env) BoardDtb h then Some (Some best, st)
       else do {
         fdt \<leftarrow> peek im BoardDtb (unat (fdt_totalsize (de_lib env) h));
         (found, cur1, best1) \<leftarrow> ReadDtbFindMatch env fdt (cur\<lparr> Dtb := Some BoardDtb \<rparr>) best VARIANT_MATCH;
         board_walk env im (entry + 32) (DtboCount + 1) n cur1 best1
           (if found then st\<lparr> DtboIdx := DtboCount \<rparr> else st)
       }
     }
   }"

definition GetBoardDtb :: "dt_env \<Rightarrow> image option \<Rightarrow> dt_state \<Rightarrow> (u64 option \<times> dt_state) option" where
  "GetBoardDtb env DtboImgBuffer st = (case DtboImgBuffer of
     None \<Rightarrow> Some (None, st)
   | Some im \<Rightarrow> do {
       first \<leftarrow> be32 (im_data im) 20;
       if CHECK_ADD64 (im_addr im) (ucast first) then Some (None, st)
       else do {
         count \<leftarrow> be32 (im_data im) 16;
         (best, st1) \<leftarrow> board_walk env im (im_addr im + ucast first) 0 (unat count) zero_DtInfo zero_DtInfo st;
         Some (Option.bind best Dtb, st1)
       }
     })"

section \<open>The override overlay\<close>

text \<open>\<open>GetOvrdDtb\<close> reads the whole \<open>user_dtbo\<close> partition into a buffer at \<open>buf\<close>. Only a table with
  at most one entry is taken; its offsets are not compared with the size of the partition. The result
  is the status and the device tree's address in the image.\<close>

definition GetOvrdDtb :: "dt_env \<Rightarrow> misc_env \<Rightarrow> u64 \<Rightarrow> disk_op list \<Rightarrow> (efi_status \<times> (image \<times> u64) option) option" where
  "GetOvrdDtb env menv buf log = do {
     let a = BLK_IO_SEL_PARTITIONED_MBR OR BLK_IO_SEL_PARTITIONED_GPT OR BLK_IO_SEL_MEDIA_TYPE_NON_REMOVABLE OR
             BLK_IO_SEL_MATCH_PARTITION_LABEL;
     (s, hs, n) \<leftarrow> GetBlkIOHandles (mi_db menv) a (Some (label_filter ''user_dtbo'')) 1;
     if s \<noteq> EFI_SUCCESS \<or> n \<noteq> 1 then Some (EFI_LOAD_ERROR, None)
     else do {
       let sz = (ucast (GetPartitionSize (Some (BlkIo (hs ! 0)))) :: u32);
       if sz = 0 then Some (EFI_BAD_BUFFER_SIZE, None)
       else if \<not> de_pool env (unat sz) then Some (EFI_OUT_OF_RESOURCES, None)
       else do {
         (s1, d) \<leftarrow> LoadImageFromPartition menv sz ''user_dtbo'' log;
         if s1 \<noteq> EFI_SUCCESS then Some (s1, None)
         else do {
           let im = \<lparr> im_addr = buf, im_data = take (unat sz) d \<rparr>;
           off \<leftarrow> be32 (im_data im) 20;
           if CHECK_ADD64 buf (ucast off) then Some (EFI_INVALID_PARAMETER, None)
           else do {
             count \<leftarrow> be32 (im_data im) 16;
             if count > 1 then Some (EFI_INVALID_PARAMETER, None)
             else do {
               cell \<leftarrow> peek im (buf + ucast off + 4) 4;
               DtOffset \<leftarrow> be32 cell 0;
               let OvrdDtb = buf + ucast DtOffset;
               h \<leftarrow> peek im OvrdDtb 40;
               if \<not> fdt_check_header (de_lib env) h \<or> \<not> fdt_check_header_ext (de_lib env) OvrdDtb h
               then Some (EFI_INVALID_PARAMETER, None)
               else Some (EFI_SUCCESS, Some (im, OvrdDtb))
             }
           }
         }
       }
     }
   }"

section \<open>Bits of a score\<close>

definition bits_of :: "u64 \<Rightarrow> nat set" where "bits_of v = {n. bit v n}"

lemma bits_of_simps [simp]:
  "bits_of 0 = {}" "bits_of (v OR w) = bits_of v \<union> bits_of w" "b < 64 \<Longrightarrow> bits_of (BIT b) = {b}"
  by (auto simp: bits_of_def bit_simps BIT_def)

lemma BIT_test: "b < 64 \<Longrightarrow> v AND BIT b \<noteq> 0 \<longleftrightarrow> b \<in> bits_of v"
proof -
  assume b: "b < 64"
  have "v AND BIT b \<noteq> 0 \<longleftrightarrow> (\<exists>n<64. bit (v AND BIT b) n)"
    by (auto simp: bit_eq_iff bit_simps)
  also have "\<dots> \<longleftrightarrow> b \<in> bits_of v"
    using b by (auto simp: bit_simps BIT_def bits_of_def)
  finally show ?thesis .
qed

lemma ALL_BITS_has: "PMIC_MATCH_EXACT_MODEL_IDXF \<in> bits_of ALL_BITS_SET"
  by (simp add: ALL_BITS_SET_def upt_rec)

lemma CheckAllBitsSet_bit: "CheckAllBitsSet v \<Longrightarrow> PMIC_MATCH_EXACT_MODEL_IDXF \<in> bits_of v"
  using ALL_BITS_has unfolding CheckAllBitsSet_def bits_of_def
  by (metis (mono_tags, lifting) bit_and_iff mem_Collect_eq)

text \<open>PMIC comparisons only set bits below the sixteenth PMIC's, because the arrays end there.\<close>

definition low_bits :: "u64 \<Rightarrow> bool" where "low_bits v \<longleftrightarrow> bits_of v \<subseteq> {0..46}"

lemma low_bits_simps: "low_bits 0" "low_bits (BIT 0)" "low_bits v \<Longrightarrow> b \<le> 46 \<Longrightarrow> low_bits (v OR BIT b)"
  by (simp_all add: low_bits_def)

lemma pmic_entry_bits:
  "pmic_entry env prop base n Idx cur = Some (ok, cur1) \<Longrightarrow> low_bits (PmMatchVal cur) \<Longrightarrow> low_bits (PmMatchVal cur1)"
proof (induction n arbitrary: Idx cur)
  case (Suc n)
  from Suc.prems(1) have "Idx < 15" by (simp split: if_splits)
  with Suc.prems show ?case
    by (simp add: Let_def split: if_splits Option.bind_splits)
      (((elim conjE)?; (erule Suc.IH)?; auto simp: low_bits_simps)+)
qed simp

lemma pmic_entries_bits:
  "pmic_entries env prop k base n best = Some r \<Longrightarrow> low_bits (PmMatchVal best) \<Longrightarrow> low_bits (PmMatchVal r)"
proof (induction n arbitrary: base best)
  case (Suc n)
  obtain ok cur where c: "pmic_entry env prop base k 0 zero_PmicIdInfo = Some (ok, cur)"
    "pmic_entries env prop k (base + 4 * k) n (if ok then better_pmic k best cur else best) = Some r"
    using Suc.prems(1) by (auto split: Option.bind_splits)
  have "low_bits (PmMatchVal cur)"
    using pmic_entry_bits [OF c(1)] by (simp add: zero_PmicIdInfo_def low_bits_simps)
  then have "low_bits (PmMatchVal (if ok then better_pmic k best cur else best))"
    using Suc.prems(2) by (simp add: better_pmic_def)
  then show ?case by (rule Suc.IH [OF c(2)])
qed simp

lemma ReadBestPmicMatch_bits: "ReadBestPmicMatch env p k n = Some r \<Longrightarrow> low_bits (PmMatchVal r)"
  unfolding ReadBestPmicMatch_def by (erule pmic_entries_bits) (simp add: low_bits_simps)

lemma score_pmic_bits:
  "score_pmic env fdt c = Some d \<Longrightarrow> bits_of (DtMatchVal d) \<subseteq> bits_of (DtMatchVal c) \<union> {0..46}"
  by (auto simp: score_pmic_def Let_def low_bits_def split: if_splits Option.bind_splits
      dest!: ReadBestPmicMatch_bits) (drule (1) subsetD, simp)+

lemma match_fields [simp]:
  "DtMatchVal (upd_match b d) = DtMatchVal d OR BIT b" "DtMatchVal (no_match d) = BIT NONE_MATCH"
  "DtVariantMajor (upd_match b d) = DtVariantMajor d" "DtVariantMinor (upd_match b d) = DtVariantMinor d"
  "DtPlatformSubtype (upd_match b d) = DtPlatformSubtype d" "Dtb (upd_match b d) = Dtb d" "Dtb (no_match d) = Dtb d"
  by (simp_all add: upd_match_def no_match_def)

lemma variant_bits_bits: "bits_of (DtMatchVal (variant_bits b d)) \<subseteq> bits_of (DtMatchVal d) \<union> {9, 10, 11, 12}"
  by (auto simp: variant_bits_def Let_def)

lemma subtype_bits_bits:
  "subtype_bits b d = (s, r) \<Longrightarrow> bits_of (DtMatchVal r) \<subseteq> bits_of (DtMatchVal d) \<union> {0, 50, 51, 52}"
  by (auto simp: subtype_bits_def Let_def split: if_splits)

lemma GetBoardMatchDtb_bits:
  assumes "GetBoardMatchDtb env p c = Some (s, d)"
  shows "bits_of (DtMatchVal d) \<subseteq> bits_of (DtMatchVal c) \<union> {0, 9, 10, 11, 12, 50, 51, 52, 53}"
proof (cases "d = c")
  case False
  then obtain e where e: "DtMatchVal e = DtMatchVal c"
    "(s, d) = (if DtVariantId e = BoardPlatformType (de_bst env) then
                 subtype_bits (de_bst env) (variant_bits (de_bst env) (upd_match VARIANT_MATCH e))
               else if DtVariantId e \<noteq> 0 then (EFI_NOT_FOUND, no_match e)
               else subtype_bits (de_bst env) (variant_bits (de_bst env) e))"
  proof -
    from assms False obtain q v t where "p = Some q" "be32 q 0 = Some v" "be32 q 4 = Some t"
      "length q > 0 \<and> length q mod 8 = 0"
      by (auto simp: GetBoardMatchDtb_def split: option.splits if_splits Option.bind_splits)
    then show ?thesis using assms
      by (intro that [of "c\<lparr> DtPlatformSubtype := (if t = 0 then drop_bit 24 v else t),
        DtVariantMajor := v AND 0x00ff0000, DtVariantMinor := v AND 0x0000ff00, DtVariantId := v AND 0x000000ff \<rparr>"])
        (simp_all add: GetBoardMatchDtb_def Let_def)
  qed
  consider (v) "subtype_bits (de_bst env) (variant_bits (de_bst env) (upd_match VARIANT_MATCH e)) = (s, d)"
    | (n) "d = no_match e" | (z) "subtype_bits (de_bst env) (variant_bits (de_bst env) e) = (s, d)"
    using e(2) by (metis prod.inject)
  then show ?thesis
  proof cases
    case v
    show ?thesis
      using subtype_bits_bits [OF v] variant_bits_bits [of "de_bst env" "upd_match VARIANT_MATCH e"] e(1) by auto
  next
    case z
    show ?thesis using subtype_bits_bits [OF z] variant_bits_bits [of "de_bst env" e] e(1) by auto
  qed simp
qed blast

lemma GetSoftSkuMatchDtb_bits:
  "GetSoftSkuMatchDtb env p c = Some d \<Longrightarrow> bits_of (DtMatchVal d) \<subseteq> bits_of (DtMatchVal c) \<union> {49}"
  by (auto simp: GetSoftSkuMatchDtb_def Let_def split: Option.bind_splits if_splits)

lemma GetPlatformMatchDtb_bits:
  assumes "GetPlatformMatchDtb env p c = (s, d)" "DtMatchVal c = 0"
  shows "bits_of (DtMatchVal d) \<subseteq> {0, 13, 14, 15, 16, SOC_MATCH} \<and>
    (SOC_MATCH \<in> bits_of (DtMatchVal d) \<longrightarrow> fst p AND 0xffff = BoardPlatformRawChipId (de_bst env) AND 0xffff)"
  using assms by (auto simp: GetPlatformMatchDtb_def Let_def split: if_splits)

text \<open>The SoC bit is set only by an entry that names the board's SoC.\<close>

definition names_soc :: "dt_env \<Rightarrow> bytes \<Rightarrow> bool" where
  "names_soc env fdt \<longleftrightarrow> (case fdt_getprop (de_lib env) fdt ''qcom,msm-id'' of None \<Rightarrow> False
     | Some p \<Rightarrow> \<exists>e\<in>set (plat_ids p). fst e AND 0xffff = BoardPlatformRawChipId (de_bst env) AND 0xffff)"

definition plat_bits :: "dt_env \<Rightarrow> (u32 \<times> u32) list \<Rightarrow> u64 \<Rightarrow> bool" where
  "plat_bits env ps v \<longleftrightarrow> bits_of v \<subseteq> {0, 13, 14, 15, 16, SOC_MATCH} \<and>
     (SOC_MATCH \<in> bits_of v \<longrightarrow> (\<exists>e\<in>set ps. fst e AND 0xffff = BoardPlatformRawChipId (de_bst env) AND 0xffff))"

lemma plat_search_bits:
  "plat_bits env qs (DtMatchVal temp) \<Longrightarrow> set ps \<subseteq> set qs \<Longrightarrow> plat_bits env qs (DtMatchVal (plat_search env ps cur temp))"
proof (induction ps arbitrary: cur temp)
  case (Cons p ps)
  obtain s d where g: "GetPlatformMatchDtb env p (cur\<lparr> DtMatchVal := of_nat NONE_MATCH \<rparr>) = (s, d)" by fastforce
  have "plat_bits env qs (DtMatchVal d)"
    using GetPlatformMatchDtb_bits [OF g] Cons.prems(2) by (auto simp: plat_bits_def)
  then have "plat_bits env qs (DtMatchVal (if s = EFI_SUCCESS \<and> DtMatchVal d > DtMatchVal temp then d else temp))"
    using Cons.prems(1) by simp
  then show ?case using Cons.IH Cons.prems(2) g by simp
qed simp

lemma score_platform_bits:
  assumes "score_platform env fdt c = (go, d)" "DtMatchVal c = 0"
  shows "bits_of (DtMatchVal d) \<subseteq> {0, 13, 14, 15, 16, SOC_MATCH} \<and> (SOC_MATCH \<in> bits_of (DtMatchVal d) \<longrightarrow> names_soc env fdt)"
proof (cases "fdt_getprop (de_lib env) fdt ''qcom,msm-id''")
  case (Some p)
  have "plat_bits env (plat_ids p) (DtMatchVal c)" using assms(2) by (simp add: plat_bits_def)
  then have "plat_bits env (plat_ids p) (DtMatchVal (plat_search env (plat_ids p) c c))"
    by (rule plat_search_bits) simp
  then show ?thesis
    using assms Some by (auto simp: score_platform_def Let_def plat_bits_def names_soc_def split: if_splits)
qed (use assms in \<open>simp add: score_platform_def\<close>)

lemma score_dtb_bits:
  assumes "score_dtb env fdt c = Some d" "DtMatchVal c = 0"
  shows "PMIC_MATCH_EXACT_MODEL_IDXF \<notin> bits_of (DtMatchVal d)"
    "SOC_MATCH \<in> bits_of (DtMatchVal d) \<Longrightarrow> names_soc env fdt"
proof -
  obtain go c1 where p: "score_platform env fdt c = (go, c1)" by fastforce
  note b1 = score_platform_bits [OF p assms(2)]
  have "bits_of (DtMatchVal d) \<subseteq> bits_of (DtMatchVal c1) \<union> {0..46} \<union> {49, 50, 51, 52, 53}"
  proof (cases go)
    case True
    then obtain s c2 where c2: "GetBoardMatchDtb env (fdt_getprop (de_lib env) fdt ''qcom,board-id'') c1 = Some (s, c2)"
      and r: "s \<noteq> EFI_SUCCESS \<and> d = c2 \<or> (\<exists>c3. GetSoftSkuMatchDtb env (fdt_getprop (de_lib env) fdt ''qcom,softsku-id'') c2 = Some c3 \<and>
         score_pmic env fdt c3 = Some d)"
      using assms(1) by (auto simp: score_dtb_def p split: Option.bind_splits if_splits)
    note b2 = GetBoardMatchDtb_bits [OF c2]
    from r show ?thesis
    proof
      assume "s \<noteq> EFI_SUCCESS \<and> d = c2"
      then show ?thesis using b2 by fastforce
    next
      assume "\<exists>c3. GetSoftSkuMatchDtb env (fdt_getprop (de_lib env) fdt ''qcom,softsku-id'') c2 = Some c3 \<and>
         score_pmic env fdt c3 = Some d"
      then obtain c3 where c3: "GetSoftSkuMatchDtb env (fdt_getprop (de_lib env) fdt ''qcom,softsku-id'') c2 = Some c3"
        "score_pmic env fdt c3 = Some d" by blast
      show ?thesis
        using b2 GetSoftSkuMatchDtb_bits [OF c3(1)] score_pmic_bits [OF c3(2)] by fastforce
    qed
  qed (use assms(1) in \<open>simp add: score_dtb_def p, blast\<close>)
  note h = subsetD [OF this]
  have c1: "b \<in> {0, 13, 14, 15, 16, SOC_MATCH}" if "b \<in> bits_of (DtMatchVal c1)" for b
    using b1 that by blast
  show "PMIC_MATCH_EXACT_MODEL_IDXF \<notin> bits_of (DtMatchVal d)"
    using h [of PMIC_MATCH_EXACT_MODEL_IDXF] c1 [of PMIC_MATCH_EXACT_MODEL_IDXF] by auto
  show "SOC_MATCH \<in> bits_of (DtMatchVal d) \<Longrightarrow> names_soc env fdt"
    using h [of SOC_MATCH] b1 by auto
qed

section \<open>The score depends on the device tree only\<close>

text \<open>The information structure is reused for the next device tree; fields of the last one stay in
  it, but do not reach the score.\<close>

lemma GetPlatformMatchDtb_val:
  assumes "DtMatchVal c = DtMatchVal c'"
  shows "fst (GetPlatformMatchDtb env p c) = fst (GetPlatformMatchDtb env p c') \<and>
    DtMatchVal (snd (GetPlatformMatchDtb env p c)) = DtMatchVal (snd (GetPlatformMatchDtb env p c'))"
  using assms by (simp add: GetPlatformMatchDtb_def Let_def)

lemma plat_search_val:
  "DtMatchVal t = DtMatchVal t' \<Longrightarrow>
   DtMatchVal (plat_search env ps c t) = DtMatchVal (plat_search env ps c' t')"
proof (induction ps arbitrary: c c' t t')
  case (Cons p ps)
  obtain s d where g: "GetPlatformMatchDtb env p (c\<lparr> DtMatchVal := 0 \<rparr>) = (s, d)" by fastforce
  obtain s' d' where g': "GetPlatformMatchDtb env p (c'\<lparr> DtMatchVal := 0 \<rparr>) = (s', d')" by fastforce
  have "s = s'" "DtMatchVal d = DtMatchVal d'"
    using GetPlatformMatchDtb_val [of "c\<lparr> DtMatchVal := 0 \<rparr>" "c'\<lparr> DtMatchVal := 0 \<rparr>" env p] by (simp_all add: g g')
  then show ?case using Cons.IH Cons.prems by (simp add: g g')
qed simp

lemma GetBoardMatchDtb_val:
  assumes "DtMatchVal c = DtMatchVal c'"
  shows "map_option (\<lambda>(s, d). (s, DtMatchVal d)) (GetBoardMatchDtb env p c) =
         map_option (\<lambda>(s, d). (s, DtMatchVal d)) (GetBoardMatchDtb env p c')"
proof -
  have v: "DtMatchVal (variant_bits b x) = DtMatchVal (variant_bits b y) \<and>
      DtPlatformSubtype (variant_bits b x) = DtPlatformSubtype x"
    if "DtMatchVal x = DtMatchVal y" "DtVariantMajor x = DtVariantMajor y" "DtVariantMinor x = DtVariantMinor y"
    for b x y using that by (simp add: variant_bits_def Let_def)
  have s: "fst (subtype_bits b x) = fst (subtype_bits b y) \<and>
      DtMatchVal (snd (subtype_bits b x)) = DtMatchVal (snd (subtype_bits b y))"
    if "DtMatchVal x = DtMatchVal y" "DtPlatformSubtype x = DtPlatformSubtype y" for b x y
    using that by (simp add: subtype_bits_def Let_def)
  have t: "(\<lambda>(s, d). (s, DtMatchVal d)) (subtype_bits b (variant_bits b x)) =
           (\<lambda>(s, d). (s, DtMatchVal d)) (subtype_bits b (variant_bits b y))"
    if "DtMatchVal x = DtMatchVal y" "DtVariantMajor x = DtVariantMajor y" "DtVariantMinor x = DtVariantMinor y"
      "DtPlatformSubtype x = DtPlatformSubtype y" for b x y
    using v [of x y b] v [of y x b] s [of "variant_bits b x" "variant_bits b y" b] that
    by (simp add: case_prod_beta)
  show ?thesis
    using assms
    by (cases p; cases "be32 (the p) 0"; cases "be32 (the p) 4")
      (simp_all add: GetBoardMatchDtb_def Let_def t)
qed

lemma GetSoftSkuMatchDtb_val:
  "DtMatchVal c = DtMatchVal c' \<Longrightarrow>
   map_option DtMatchVal (GetSoftSkuMatchDtb env p c) = map_option DtMatchVal (GetSoftSkuMatchDtb env p c')"
  by (cases p; cases "be32 (the p) 0") (simp_all add: GetSoftSkuMatchDtb_def Let_def)

lemma score_pmic_val:
  "DtMatchVal c = DtMatchVal c' \<Longrightarrow>
   map_option DtMatchVal (score_pmic env fdt c) = map_option DtMatchVal (score_pmic env fdt c')"
  by (auto simp: score_pmic_def Let_def split: option.splits Option.bind_splits)

lemma map_option_eqD:
  "map_option f x = map_option f y \<Longrightarrow> x = Some a \<Longrightarrow> \<exists>b. y = Some b \<and> f a = f b"
  by (cases y) auto

lemma score_dtb_val:
  assumes "DtMatchVal c = DtMatchVal c'"
  shows "map_option DtMatchVal (score_dtb env fdt c) = map_option DtMatchVal (score_dtb env fdt c')"
proof -
  have p: "fst (score_platform env fdt c) = fst (score_platform env fdt c')"
    "DtMatchVal (snd (score_platform env fdt c)) = DtMatchVal (snd (score_platform env fdt c'))"
    using assms plat_search_val [OF assms, of env "plat_ids (the (fdt_getprop (de_lib env) fdt ''qcom,msm-id''))" c c']
    by (cases "fdt_getprop (de_lib env) fdt ''qcom,msm-id''"; simp add: score_platform_def Let_def)+
  obtain go d where d: "score_platform env fdt c = (go, d)" by fastforce
  obtain d' where d': "score_platform env fdt c' = (go, d')" "DtMatchVal d = DtMatchVal d'"
    using p d by (cases "score_platform env fdt c'") auto
  let ?b = "fdt_getprop (de_lib env) fdt ''qcom,board-id''"
  let ?k = "fdt_getprop (de_lib env) fdt ''qcom,softsku-id''"
  note bv = GetBoardMatchDtb_val [OF d'(2), of env ?b]
  show ?thesis
  proof (cases "GetBoardMatchDtb env ?b d")
    case None
    then show ?thesis using bv d d' by (simp add: score_dtb_def)
  next
    case (Some x)
    then obtain s e where e: "GetBoardMatchDtb env ?b d = Some (s, e)" by (cases x) auto
    from map_option_eqD [OF bv e] obtain e' where e': "GetBoardMatchDtb env ?b d' = Some (s, e')"
      "DtMatchVal e = DtMatchVal e'" by auto
    note kv = GetSoftSkuMatchDtb_val [OF e'(2), of env ?k]
    show ?thesis
    proof (cases "GetSoftSkuMatchDtb env ?k e")
      case None
      then show ?thesis using kv d d' e e' by (simp add: score_dtb_def)
    next
      case (Some f)
      from map_option_eqD [OF kv Some] obtain f' where f': "GetSoftSkuMatchDtb env ?k e' = Some f'"
        "DtMatchVal f = DtMatchVal f'" by auto
      show ?thesis
        using score_pmic_val [OF f'(2)] d d' e e' Some f' by (simp add: score_dtb_def)
    qed
  qed
qed

text \<open>The score of a device tree: zero without a root node.\<close>

definition match_val :: "dt_env \<Rightarrow> bytes \<Rightarrow> u64 option" where
  "match_val env fdt =
     (if \<not> fdt_has_root (de_lib env) fdt then Some 0 else map_option DtMatchVal (score_dtb env fdt zero_DtInfo))"

lemma Dtb_GetPlatformMatchDtb: "Dtb (snd (GetPlatformMatchDtb env p c)) = Dtb c"
  by (simp add: GetPlatformMatchDtb_def Let_def)

lemma Dtb_plat_search: "Dtb t = Dtb c \<Longrightarrow> Dtb (plat_search env ps c t) = Dtb c"
proof (induction ps arbitrary: c t)
  case (Cons p ps)
  have "Dtb (snd (GetPlatformMatchDtb env p (c\<lparr> DtMatchVal := 0 \<rparr>))) = Dtb c"
    by (simp add: Dtb_GetPlatformMatchDtb)
  then show ?case using Cons by (simp add: case_prod_beta)
qed simp

lemma Dtb_score_platform: "score_platform env fdt c = (go, d) \<Longrightarrow> Dtb d = Dtb c"
  by (auto simp: score_platform_def Let_def Dtb_plat_search split: option.splits if_splits)

lemma Dtb_subtype_bits: "subtype_bits b (variant_bits b x) = (s, d) \<Longrightarrow> Dtb d = Dtb x"
proof -
  have "Dtb (snd (subtype_bits b (variant_bits b x))) = Dtb x"
    by (simp add: subtype_bits_def variant_bits_def Let_def)
  then show "subtype_bits b (variant_bits b x) = (s, d) \<Longrightarrow> Dtb d = Dtb x" by simp
qed

lemma Dtb_GetBoardMatchDtb: "GetBoardMatchDtb env p c = Some (s, d) \<Longrightarrow> Dtb d = Dtb c"
  by (auto simp: GetBoardMatchDtb_def Let_def split: option.splits if_splits Option.bind_splits
      dest!: Dtb_subtype_bits)

lemma Dtb_score_dtb: "score_dtb env fdt c = Some d \<Longrightarrow> Dtb d = Dtb c"
  by (auto simp: score_dtb_def score_pmic_def GetSoftSkuMatchDtb_def Let_def
      split: Option.bind_splits if_splits prod.splits
      dest!: Dtb_score_platform Dtb_GetBoardMatchDtb)

lemma ReadDtbFindMatch_val:
  assumes "ReadDtbFindMatch env fdt cur best b = Some (found, cur1, best1)"
  shows "match_val env fdt = Some (DtMatchVal cur1) \<and> Dtb cur1 = Dtb cur \<and>
    best1 = snd (keep_best b cur1 best) \<and>
    (b = SOC_MATCH \<longrightarrow> PMIC_MATCH_EXACT_MODEL_IDXF \<notin> bits_of (DtMatchVal cur1) \<and>
      (SOC_MATCH \<in> bits_of (DtMatchVal cur1) \<longrightarrow> names_soc env fdt))"
proof (cases "fdt_has_root (de_lib env) fdt")
  case False
  then show ?thesis using assms by (auto simp: ReadDtbFindMatch_def match_val_def keep_best_def Let_def)
next
  case True
  then have s: "score_dtb env fdt (cur\<lparr> DtMatchVal := 0 \<rparr>) = Some cur1" "best1 = snd (keep_best b cur1 best)"
    using assms by (auto simp: ReadDtbFindMatch_def Let_def split: Option.bind_splits prod.splits)
  have "map_option DtMatchVal (score_dtb env fdt zero_DtInfo) = Some (DtMatchVal cur1)"
    using score_dtb_val [of "cur\<lparr> DtMatchVal := 0 \<rparr>" zero_DtInfo env fdt] s(1) by (simp add: zero_DtInfo_def)
  then show ?thesis
    using True s Dtb_score_dtb [OF s(1)] score_dtb_bits [OF s(1)] by (simp add: match_val_def)
qed

text \<open>The device trees of an image, in order.\<close>

function dtb_list :: "dt_env \<Rightarrow> image \<Rightarrow> u64 \<Rightarrow> u64 \<Rightarrow> (u64 \<times> bytes) list option" where
  "dtb_list env im ke dtb =
     (if dtb + 40 < ke then
        (case dtb_at env im dtb ke of
           None \<Rightarrow> None
         | Some None \<Rightarrow> Some []
         | Some (Some sz) \<Rightarrow> do {
             fdt \<leftarrow> peek im dtb (unat sz);
             rest \<leftarrow> dtb_list env im ke (dtb + ucast sz);
             Some ((dtb, fdt) # rest)
           })
      else Some [])"
  by pat_completeness auto
termination
proof (relation "measure (\<lambda>(env, im, ke, dtb). 2 ^ 64 - unat dtb)")
  fix env im ke and dtb :: u64 and ao and sz :: u32 and fdt :: bytes
  assume "dtb_at env im dtb ke = Some ao" "ao = Some sz"
  then have "dtb < dtb + ucast sz" using dtb_at_size by blast
  then show "((env, im, ke, dtb + ucast sz), (env, im, ke, dtb)) \<in> measure (\<lambda>(env, im, ke, dtb). 2 ^ 64 - unat dtb)"
    using unat_u64_bound [of dtb] by (simp add: word_less_nat_alt)
qed simp_all

declare dtb_list.simps [simp del]

lemma soc_update_need:
  "PMIC_MATCH_EXACT_MODEL_IDXF \<notin> bits_of (DtMatchVal cur) \<Longrightarrow> DtboNeed (soc_update env fdt n found cur st) = DtboNeed st"
  using CheckAllBitsSet_bit
  by (auto simp: soc_update_def Let_def GetRticDtb_def TxMpdatatoQhee_def split: option.splits)

definition soc_candidate :: "dt_env \<Rightarrow> (u64 \<times> bytes) list \<Rightarrow> DtInfo \<Rightarrow> bool" where
  "soc_candidate env l b \<longleftrightarrow> (\<exists>(a, fdt)\<in>set l. Dtb b = Some a \<and> match_val env fdt = Some (DtMatchVal b) \<and>
     SOC_MATCH \<in> bits_of (DtMatchVal b) \<and> names_soc env fdt)"

definition covers :: "dt_env \<Rightarrow> (u64 \<times> bytes) list \<Rightarrow> DtInfo \<Rightarrow> bool" where
  "covers env l b \<longleftrightarrow> (\<forall>(a, fdt)\<in>set l. \<exists>v. match_val env fdt = Some v \<and>
     (SOC_MATCH \<in> bits_of v \<longrightarrow> v \<le> DtMatchVal b))"

lemma soc_walk_best:
  "soc_walk env im ke dtb n cur best st = Some (b, st1) \<Longrightarrow>
   \<exists>l. dtb_list env im ke dtb = Some l \<and> DtMatchVal best \<le> DtMatchVal b \<and> covers env l b \<and>
     (b = best \<or> soc_candidate env l b) \<and> DtboNeed st1 = DtboNeed st"
proof (induction env im ke dtb n cur best st arbitrary: b st1 rule: soc_walk.induct)
  case (1 env im ke dtb n cur best st)
  show ?case
  proof (cases "dtb + 40 < ke \<and> dtb_at env im dtb ke \<noteq> Some None")
    case False
    then show ?thesis using 1(2)
      by (subst (asm) soc_walk.simps, subst dtb_list.simps)
        (auto simp: covers_def split: if_splits option.splits)
  next
    case True
    then obtain sz where sz: "dtb_at env im dtb ke = Some (Some sz)"
      using 1(2) by (subst (asm) soc_walk.simps) (auto split: option.splits)
    obtain fdt found cur1 best1 where s: "peek im dtb (unat sz) = Some fdt"
      "ReadDtbFindMatch env fdt (cur\<lparr> Dtb := Some dtb \<rparr>) best SOC_MATCH = Some (found, cur1, best1)"
      "soc_walk env im ke (dtb + ucast sz) (n + 1) cur1 best1 (soc_update env fdt n found cur1 st) = Some (b, st1)"
      using 1(2) True sz by (subst (asm) soc_walk.simps) (auto split: Option.bind_splits)
    note r = ReadDtbFindMatch_val [OF s(2)]
    obtain l where l: "dtb_list env im ke (dtb + ucast sz) = Some l" "DtMatchVal best1 \<le> DtMatchVal b"
      "covers env l b" "b = best1 \<or> soc_candidate env l b"
      "DtboNeed st1 = DtboNeed (soc_update env fdt n found cur1 st)"
      using 1(1) [OF _ sz refl s(1) s(2) refl refl s(3)] True by blast
    have d: "dtb_list env im ke dtb = Some ((dtb, fdt) # l)"
      using True sz s(1) l(1) by (subst dtb_list.simps) simp
    have k: "DtMatchVal best \<le> DtMatchVal best1" "best1 = best \<or> best1 = cur1 \<and> SOC_MATCH \<in> bits_of (DtMatchVal cur1)"
      "SOC_MATCH \<in> bits_of (DtMatchVal cur1) \<Longrightarrow> DtMatchVal cur1 \<le> DtMatchVal best1"
      using r by (auto simp: keep_best_def BIT_test)
    have "covers env ((dtb, fdt) # l) b" using l(2,3) k(3) r by (auto simp: covers_def)
    moreover have "b = best \<or> soc_candidate env ((dtb, fdt) # l) b"
      using l(4) k(2) r by (auto simp: soc_candidate_def)
    moreover have "DtboNeed st1 = DtboNeed st" using l(5) r soc_update_need by simp
    ultimately show ?thesis using d k(1) l(2) by auto
  qed
qed

text \<open>C25. \<open>GetSocDtb\<close> returns a device tree of the image whose \<open>qcom,msm-id\<close> names the board's SoC and
  whose score is the greatest of all that do; it returns none only if no device tree of the image
  scores the SoC. No device tree ever scores all the bits that would make the board's overlay
  superfluous, since the sixteenth PMIC's bits can not be set: \<open>DtboNeed\<close> stays as it is.\<close>

theorem GetSocDtb_best:
  assumes "GetSocDtb env im kern KernelSize DtbOffset st = Some (r, st1)"
    "DtbOffset \<noteq> 0" "\<not> kern + ucast DtbOffset < kern"
  shows "DtboNeed st1 = DtboNeed st \<and>
    (\<exists>l. dtb_list env im (kern + ucast KernelSize) (kern + ucast DtbOffset) = Some l \<and>
      (case r of
         None \<Rightarrow> \<forall>(a, fdt)\<in>set l. \<exists>v. match_val env fdt = Some v \<and> SOC_MATCH \<notin> bits_of v
       | Some a \<Rightarrow> \<exists>fdt v. (a, fdt) \<in> set l \<and> names_soc env fdt \<and> match_val env fdt = Some v \<and>
           SOC_MATCH \<in> bits_of v \<and>
           (\<forall>(a', fdt')\<in>set l. \<exists>v'. match_val env fdt' = Some v' \<and> (SOC_MATCH \<in> bits_of v' \<longrightarrow> v' \<le> v))))"
proof -
  obtain b where w: "soc_walk env im (kern + ucast KernelSize) (kern + ucast DtbOffset) 0 zero_DtInfo zero_DtInfo st = Some (b, st1)"
    "r = Dtb b"
    using assms by (auto simp: GetSocDtb_def split: Option.bind_splits)
  obtain l where l: "dtb_list env im (kern + ucast KernelSize) (kern + ucast DtbOffset) = Some l"
    "covers env l b" "b = zero_DtInfo \<or> soc_candidate env l b" "DtboNeed st1 = DtboNeed st"
    using soc_walk_best [OF w(1)] by blast
  show ?thesis
  proof (cases "soc_candidate env l b")
    case True
    then obtain a fdt where c: "(a, fdt) \<in> set l" "r = Some a" "match_val env fdt = Some (DtMatchVal b)"
      "SOC_MATCH \<in> bits_of (DtMatchVal b)" "names_soc env fdt"
      using w(2) by (auto simp: soc_candidate_def)
    have "\<exists>fdt v. (a, fdt) \<in> set l \<and> names_soc env fdt \<and> match_val env fdt = Some v \<and> SOC_MATCH \<in> bits_of v \<and>
      (\<forall>(a', fdt')\<in>set l. \<exists>v'. match_val env fdt' = Some v' \<and> (SOC_MATCH \<in> bits_of v' \<longrightarrow> v' \<le> v))"
      by (intro exI [of _ fdt] exI [of _ "DtMatchVal b"] conjI c l(2) [unfolded covers_def])
    then show ?thesis using l(1,4) c(2) by simp
  next
    case False
    then have "r = None" "DtMatchVal b = 0" using l(3) w(2) by (simp_all add: zero_DtInfo_def)
    moreover have "\<forall>(a, fdt)\<in>set l. \<exists>v. match_val env fdt = Some v \<and> SOC_MATCH \<notin> bits_of v"
      using l(2) \<open>DtMatchVal b = 0\<close> by (fastforce simp: covers_def)
    ultimately show ?thesis using l(1,4) by auto
  qed
qed

section \<open>The number of PMICs is not checked\<close>

definition pmic_fits :: "dt_env \<Rightarrow> bytes \<Rightarrow> nat \<Rightarrow> bool" where
  "pmic_fits env prop i \<longleftrightarrow> (case be32 prop (4 * i) of None \<Rightarrow> False
     | Some w \<Rightarrow> BoardPmicModel (de_board env) (of_nat i) = Some (w AND 0x000000ff) \<and>
         (i < 4 \<longrightarrow> (case BoardPmicTarget (de_board env) (of_nat i) of None \<Rightarrow> False
           | Some t \<Rightarrow> w AND 0xffffff00 \<le> t AND 0xffffff00)))"

lemma pmic_entry_overrun:
  "MAX_PMIC_IDX < n + Idx \<Longrightarrow> Idx \<le> MAX_PMIC_IDX \<Longrightarrow> \<forall>i<MAX_PMIC_IDX. pmic_fits env prop i \<Longrightarrow>
   pmic_entry env prop 0 n Idx cur = None"
proof (induction n arbitrary: Idx cur)
  case (Suc n)
  show ?case
  proof (cases "Idx = MAX_PMIC_IDX")
    case False
    then have i: "Idx < MAX_PMIC_IDX" "pmic_fits env prop Idx" using Suc.prems by simp_all
    then obtain w where w: "be32 prop (4 * Idx) = Some w"
      "BoardPmicModel (de_board env) (of_nat Idx) = Some (w AND 0x000000ff)"
      by (auto simp: pmic_fits_def split: option.splits)
    have ih: "pmic_entry env prop 0 n (Suc Idx) c = None" for c
      using Suc.IH [of "Suc Idx" c] Suc.prems i by simp
    show ?thesis
    proof (cases "Idx < 4")
      case True
      then obtain t where "BoardPmicTarget (de_board env) (of_nat Idx) = Some t" "w AND 0xffffff00 \<le> t AND 0xffffff00"
        using i(2) w by (auto simp: pmic_fits_def split: option.splits)
      then show ?thesis using i(1) w True by (simp add: ih Let_def)
    qed (use i(1) w in \<open>simp add: ih Let_def\<close>)
  qed simp
qed simp

lemma sdiv_nat: "int a sdiv int m = int (a div m)"
  by (cases "a = 0"; cases "m = 0") (simp_all add: signed_divide_int_def zdiv_int)

lemma smod_nat: "int a smod int m = int (a mod m)"
  by (simp add: signed_modulo_int_def sdiv_nat) (simp add: zmod_int zdiv_int minus_div_mult_eq_mod)

lemma sint_small: "unat (k :: u32) < 0x20000000 \<Longrightarrow> sint (k * 4) = int (4 * unat k)"
proof -
  assume k: "unat k < 0x20000000"
  have "unat (k * 4) = 4 * unat k" using unat_mult_bound [of k 4] k by simp
  then have u: "uint (k * 4) = int (4 * unat k)" by (metis uint_nat)
  have "4 * unat k < 2147483648" using k by simp
  then have b: "int (4 * unat k) < 2147483648" by (metis of_nat_less_iff of_nat_numeral)
  show ?thesis unfolding sint_uint u
    by (rule signed_take_bit_int_eq_self) (use b in \<open>simp_all del: of_nat_mult\<close>)
qed

text \<open>The number of PMICs of an entry is taken from the device tree unchecked: with a
  \<open>qcom,pmic-id-size\<close> of zero the entry count is a division by zero, and with more than 15 PMICs an
  entry that suits the board is written behind the arrays.\<close>

theorem pmic_size_unchecked:
  assumes "fdt_getprop (de_lib env) fdt ''qcom,pmic-id'' = Some p" "p \<noteq> []" "length p < 2 ^ 31"
    "fdt_getprop (de_lib env) fdt ''qcom,pmic-id-size'' = Some s" "be32 s 0 = Some k"
    "k = 0 \<or> MAX_PMIC_IDX < unat k \<and> unat k < 0x20000000 \<and> length p mod (4 * unat k) = 0 \<and>
       (\<forall>i<MAX_PMIC_IDX. pmic_fits env p i)"
  shows "score_pmic env fdt cur = None"
proof -
  have s: "s \<noteq> []" using assms(5) by (auto simp: be32_def)
  from assms(6) show ?thesis
  proof
    assume "k = 0"
    then show ?thesis using assms(1,2,4,5) s by (simp add: score_pmic_def has_value_def)
  next
    assume k: "MAX_PMIC_IDX < unat k \<and> unat k < 0x20000000 \<and> length p mod (4 * unat k) = 0 \<and>
       (\<forall>i<MAX_PMIC_IDX. pmic_fits env p i)"
    define n where "n = length p div (4 * unat k)"
    have n: "0 < n" "n < 2 ^ 32"
    proof -
      have "4 * unat k * n = length p" using k by (auto simp: n_def mod_eq_0_iff_dvd)
      then show "0 < n" using assms(2) by (cases n) auto
      have "n \<le> length p" by (simp add: n_def)
      then show "n < 2 ^ 32" using assms(3) by simp
    qed
    have sz: "sint (k * 4) = int (4 * unat k)" using k by (intro sint_small) simp
    have "int (length p) sdiv int (4 * unat k) = int n" "int (length p) smod int (4 * unat k) = 0"
      unfolding sdiv_nat smod_nat n_def using k by simp_all
    moreover have "unat (word_of_int (int n) :: u32) = n"
      using n(2) by (simp add: unsigned_of_nat take_bit_nat_eq_self)
    moreover have "ReadBestPmicMatch env p (unat k) n = None"
      using pmic_entry_overrun [of "unat k" 0 env p zero_PmicIdInfo] k n(1)
      by (cases n) (simp_all add: ReadBestPmicMatch_def)
    moreover have "4 * unat k \<noteq> 0" using k by simp
    then have "int (4 * unat k) \<noteq> 0" by (metis of_nat_eq_0_iff)
    ultimately show ?thesis
      using assms(1,2,4,5) s sz by (simp add: score_pmic_def has_value_def Let_def del: of_nat_mult)
  qed
qed

section \<open>Examples\<close>

text \<open>The device tree for the board's own revision is chosen among the three of the demo image.\<close>

definition demo_val :: "u8 \<Rightarrow> u64" where
  "demo_val r = BIT SOC_MATCH OR (if r = 2 then BIT VERSION_EXACT_MATCH else if r < 2 then BIT VERSION_BEST_MATCH else 0) OR
     BIT FOUNDRYID_EXACT_MATCH OR BIT VARIANT_MATCH OR BIT VARIANT_MAJOR_EXACT_MATCH OR BIT VARIANT_MINOR_EXACT_MATCH OR
     BIT SUBTYPE_EXACT_MATCH OR BIT DDR_MATCH OR BIT SOFTSKU_EXACT_MATCH"

definition demo_scored :: "u8 \<Rightarrow> DtInfo \<Rightarrow> DtInfo" where
  "demo_scored r c = c\<lparr> DtPlatformId := 0x150, DtSocRev := ucast r, DtFoundryId := 0, DtVariantId := 8,
     DtVariantMajor := 0, DtVariantMinor := 0, DtPlatformSubtype := 0, DtSoftSkuId := 0, DtMatchVal := demo_val r \<rparr>"

lemma demo_props:
  "fdt_getprop (de_lib demo_dt_env) (demo_dtb r) ''qcom,msm-id'' = Some (demo_cells [0x150, ucast r])"
  "fdt_getprop (de_lib demo_dt_env) (demo_dtb r) ''qcom,board-id'' = Some (demo_cells [8, 0])"
  "fdt_getprop (de_lib demo_dt_env) (demo_dtb r) ''qcom,softsku-id'' = None"
  "fdt_getprop (de_lib demo_dt_env) (demo_dtb r) ''qcom,pmic-id'' = None"
  "fdt_has_root (de_lib demo_dt_env) (demo_dtb r)"
  by (simp_all add: demo_dt_env_def demo_lib_def demo_dtb_def)

lemma demo_be32: "be32 (demo_cells [8, 0]) 0 = Some 8" "be32 (demo_cells [8, 0]) 4 = Some 0"
  by (simp_all add: be32_def demo_cells_def PUT_LONG_def slice_def GET_LWORD_FROM_BYTE_def)

lemma demo_ids:
  "BoardPlatformRawChipId (de_bst demo_dt_env) = 0x150" "BoardPlatformChipVersion (de_bst demo_dt_env) = 2"
  "BoardPlatformFoundryId (de_bst demo_dt_env) = 0" "BoardPlatformType (de_bst demo_dt_env) = 8"
  "BoardTargetId (de_bst demo_dt_env) = 8" "BoardPlatformSubType (de_bst demo_dt_env) = 0"
  "BoardPlatformHlosSubType (de_bst demo_dt_env) = 0" "BoardSoftSkuId (de_bst demo_dt_env) = 0"
  by (simp_all add: demo_dt_env_def demo_info_def zero_BoardInfo_def BoardPlatformRawChipId_def
      BoardPlatformChipVersion_def BoardPlatformFoundryId_def BoardPlatformType_def BoardTargetId_def
      BoardPlatformSubType_def BoardPlatformHlosSubType_def BoardSoftSkuId_def)

lemma demo_score:
  "r \<in> {1, 2, 3} \<Longrightarrow> DtMatchVal c = 0 \<Longrightarrow> score_dtb demo_dt_env (demo_dtb r) c = Some (demo_scored r c)"
  by (elim insertE emptyE)
    (simp_all add: score_dtb_def score_platform_def demo_props plat_ids_def GetPlatformMatchDtb_def Let_def demo_ids
      GetBoardMatchDtb_def demo_be32 GetSoftSkuMatchDtb_def score_pmic_def has_value_def variant_bits_def
      subtype_bits_def upd_match_def demo_scored_def demo_val_def BIT_def)

lemma demo_vals: "demo_val 1 < demo_val 2" "demo_val 3 < demo_val 2" "demo_val 1 AND BIT SOC_MATCH \<noteq> 0"
  "demo_val 2 AND BIT SOC_MATCH \<noteq> 0" "demo_val 3 AND BIT SOC_MATCH \<noteq> 0" "0 < demo_val 1" "demo_val 2 \<noteq> 0" "demo_val 3 \<noteq> 0"
  by (simp_all add: demo_val_def BIT_def)

lemma demo_soc:
  "GetSocDtb demo_dt_env demo_image 0x10000 152 8 demo_dt_state =
     Some (Some 0x10038, demo_dt_state\<lparr> DtbIdx := 1 \<rparr>)"
proof -
  have n: "\<not> CheckAllBitsSet (demo_val r)" for r
    using CheckAllBitsSet_bit [of "demo_val r"] by (auto simp: demo_val_def split: if_splits)
  have f: "DtMatchVal (demo_scored r c) = demo_val r" "Dtb (demo_scored r c) = Dtb c" for r c
    by (simp_all add: demo_scored_def)
  have "\<not> demo_val 2 < demo_val 3" "demo_val 2 \<noteq> demo_val 3" "\<not> 0 \<ge> demo_val 1" "demo_val 1 \<noteq> 0"
    using demo_vals by auto
  then show ?thesis
    by (simp add: GetSocDtb_def soc_walk.simps demo_peek demo_dtb_at ReadDtbFindMatch_def Let_def demo_props
        demo_score keep_best_def f demo_vals soc_update_def n zero_DtInfo_def)
qed

theorem GetSocDtb_best_witness:
  "DtboNeed (demo_dt_state\<lparr> DtbIdx := 1 \<rparr>) = DtboNeed demo_dt_state \<and>
    (\<exists>l. dtb_list demo_dt_env demo_image (0x10000 + ucast (152 :: u32)) (0x10000 + ucast (8 :: u32)) = Some l \<and>
      (case Some 0x10038 of
         None \<Rightarrow> \<forall>(a, fdt)\<in>set l. \<exists>v. match_val demo_dt_env fdt = Some v \<and> SOC_MATCH \<notin> bits_of v
       | Some a \<Rightarrow> \<exists>fdt v. (a, fdt) \<in> set l \<and> names_soc demo_dt_env fdt \<and> match_val demo_dt_env fdt = Some v \<and>
           SOC_MATCH \<in> bits_of v \<and>
           (\<forall>(a', fdt')\<in>set l. \<exists>v'. match_val demo_dt_env fdt' = Some v' \<and> (SOC_MATCH \<in> bits_of v' \<longrightarrow> v' \<le> v))))"
  by (rule GetSocDtb_best [OF demo_soc]) simp_all

text \<open>A device tree with sixteen PMICs, all of them the board's.\<close>

definition wide_lib :: fdt_lib where
  "wide_lib = demo_lib\<lparr> fdt_getprop := (\<lambda>h n. if n = ''qcom,pmic-id'' then Some (replicate 64 0)
     else if n = ''qcom,pmic-id-size'' then Some [0, 0, 0, 16] else None) \<rparr>"

theorem pmic_size_unchecked_example:
  "score_pmic (demo_dt_env\<lparr> de_lib := wide_lib \<rparr>) (demo_dtb 2) zero_DtInfo = None"
proof (rule pmic_size_unchecked [where p = "replicate 64 0" and s = "[0, 0, 0, 16]" and k = 16])
  have z: "be32 (replicate 64 0) (4 * i) = Some 0" if "i < 15" for i
  proof -
    have "min 4 (64 - 4 * i) = 4" using that by simp
    then have "slice (4 * i) 4 (replicate 64 (0 :: u8)) = replicate 4 0"
      by (simp only: slice_def drop_replicate take_replicate min.commute)
    also have "\<dots> = [0, 0, 0, 0]" by (simp add: eval_nat_numeral)
    finally have e: "slice (4 * i) 4 (replicate 64 (0 :: u8)) = [0, 0, 0, 0]" .
    show ?thesis unfolding be32_def e using that by (simp add: GET_LWORD_FROM_BYTE_def)
  qed
  show "(16 :: u32) = 0 \<or> MAX_PMIC_IDX < unat (16 :: u32) \<and> unat (16 :: u32) < 0x20000000 \<and>
    length (replicate 64 (0 :: u8)) mod (4 * unat (16 :: u32)) = 0 \<and>
    (\<forall>i<MAX_PMIC_IDX. pmic_fits (demo_dt_env\<lparr> de_lib := wide_lib \<rparr>) (replicate 64 0) i)"
    by (auto simp: pmic_fits_def z demo_dt_env_def demo_board_def BoardPmicModel_def BoardPmicTarget_def GetPmicInfo_def)
qed (simp_all add: wide_lib_def be32_def slice_def GET_LWORD_FROM_BYTE_def)

end
