(* ===== verification/BootImage.thy ===== *)
theory BootImage
  imports DtbMatch DeviceState
begin

text \<open>
  Android boot images (\<open>BootImage.h\<close>, the second half of \<open>BootLinux.c\<close>) and the DTBO image
  (\<open>GetRecoveryDtboInfo\<close> and \<open>LoadAndValidateDtboImg\<close> of \<open>PartitionTableUpdate.c\<close>): the check of an
  image's header and the size it computes, the loading of the header and of the image from a
  partition, the images the verified boot stage hands over, and the parameters the boot reads from
  the headers.

  A header is the byte list it is read from; a read behind it has no value. Version 0 to 2 headers
  keep their fields at the offsets 8 (kernel size), 16 (ramdisk size), 24 (second size), 36 (page
  size), 40 (version) and 64 (command line); \<open>boot_img_hdr_v1\<close> starts at 1632 and
  \<open>boot_img_hdr_v2\<close> at 1648. Version 3 keeps the sizes at 8 and 12 and the command line at 44, and
  the vendor header has the page size at 12, the ramdisk size at 24, the command line at 28 and the
  size of its device trees at 2100.
\<close>

section \<open>Headers\<close>

abbreviation (input) BOOT_IMG_MAX_PAGE_SIZE :: u32 where "BOOT_IMG_MAX_PAGE_SIZE \<equiv> 4096"
abbreviation (input) DTBO_MAX_SIZE_ALLOWED :: u32 where "DTBO_MAX_SIZE_ALLOWED \<equiv> 0x1800000"

definition magic_at :: "bytes \<Rightarrow> string \<Rightarrow> bool option" where
  "magic_at b s = (if length s \<le> length b then Some (take (length s) b = ascii s) else None)"

record image_sizes =
  is_version :: u32
  is_kernel :: u32
  is_ramdisk :: u32
  is_vendor_ramdisk :: u32
  is_page :: u32
  is_dt :: u32

text \<open>The sizes of the headers, or the status of a bad magic or vendor page size. The results of
  \<open>CheckImageHeader\<close> are only used when it succeeds.\<close>

definition read_sizes_v3 :: "bytes \<Rightarrow> bytes \<Rightarrow> u32 \<Rightarrow> (efi_status + image_sizes) option" where
  "read_sizes_v3 hdr vhdr v = do {
     vm \<leftarrow> magic_at vhdr ''VNDRBOOT'';
     if \<not> vm then Some (Inl EFI_NO_MEDIA)
     else do {
       k \<leftarrow> get32 hdr 8;
       r \<leftarrow> get32 hdr 12;
       vr \<leftarrow> get32 vhdr 24;
       pg \<leftarrow> get32 vhdr 12;
       dt \<leftarrow> get32 vhdr 2100;
       Some (if pg > BOOT_IMG_MAX_PAGE_SIZE then Inl EFI_BAD_BUFFER_SIZE
             else if vr \<noteq> 0 \<and> ROUND_TO_PAGE vr (pg - 1) = 0 then Inl EFI_BAD_BUFFER_SIZE
             else Inr \<lparr> is_version = v, is_kernel = k, is_ramdisk = r, is_vendor_ramdisk = vr,
                        is_page = pg, is_dt = dt \<rparr>)
     }
   }"

definition read_sizes :: "bytes \<Rightarrow> bytes \<Rightarrow> (efi_status + image_sizes) option" where
  "read_sizes hdr vhdr = do {
     m \<leftarrow> magic_at hdr ''ANDROID!'';
     if \<not> m then Some (Inl EFI_NO_MEDIA)
     else do {
       v \<leftarrow> get32 hdr 40;
       if v < 3 then do {
         k \<leftarrow> get32 hdr 8;
         r \<leftarrow> get32 hdr 16;
         pg \<leftarrow> get32 hdr 36;
         Some (Inr \<lparr> is_version = v, is_kernel = k, is_ramdisk = r, is_vendor_ramdisk = 0,
                    is_page = pg, is_dt = 0 \<rparr>)
       } else read_sizes_v3 hdr vhdr v
     }
   }"

text \<open>The size of a recovery DTBO, in recovery boots of version 1 and 2 images.\<close>

definition recovery_dtbo_actual :: "bytes \<Rightarrow> image_sizes \<Rightarrow> (efi_status + u32) option" where
  "recovery_dtbo_actual hdr z = do {
     header_size \<leftarrow> get32 hdr 1644;
     if header_size \<noteq> (if is_version z = 1 then 1648 else 1660) then Some (Inl EFI_BAD_BUFFER_SIZE)
     else do {
       size \<leftarrow> get32 hdr 1632;
       off \<leftarrow> get64 hdr 1636;
       let actual = ROUND_TO_PAGE size (is_page z - 1);
       Some (if actual > DTBO_MAX_SIZE_ALLOWED then Inl EFI_BAD_BUFFER_SIZE
             else if CHECK_ADD64 off (ucast actual) then Inl EFI_BAD_BUFFER_SIZE
             else Inr actual)
     }
   }"

text \<open>\<open>ADD_OF\<close> followed by the test of its result for zero.\<close>

definition add_size :: "u32 \<Rightarrow> u32 \<Rightarrow> efi_status + u32" where
  "add_size a b = (if ADD_OF a b = 0 then Inl EFI_BAD_BUFFER_SIZE else Inr (ADD_OF a b))"

fun add_sizes :: "u32 \<Rightarrow> u32 list \<Rightarrow> efi_status + u32" where
  "add_sizes a [] = Inr a"
| "add_sizes a (b # bs) = (case add_size a b of Inl s \<Rightarrow> Inl s | Inr c \<Rightarrow> add_sizes c bs)"

text \<open>The checks of the sizes, and the actual sizes that are added up after the page of the header:
  kernel, ramdisk, and before version 3 the device trees.\<close>

definition size_parts :: "bytes \<Rightarrow> u32 \<Rightarrow> image_sizes \<Rightarrow> (efi_status + u32 list) option" where
  "size_parts hdr ImageHdrSize z =
     (let pg = is_page z; up = (\<lambda>x. ROUND_TO_PAGE x (pg - 1)) in
      if is_kernel z = 0 \<or> pg = 0 then Some (Inl EFI_BAD_BUFFER_SIZE)
      else if pg \<noteq> ImageHdrSize \<and> pg > BOOT_IMG_MAX_PAGE_SIZE then Some (Inl EFI_BAD_BUFFER_SIZE)
      else if up (is_kernel z) = 0 then Some (Inl EFI_BAD_BUFFER_SIZE)
      else if is_ramdisk z \<noteq> 0 \<and> up (is_ramdisk z) = 0 then Some (Inl EFI_BAD_BUFFER_SIZE)
      else do {
        dt \<leftarrow> (if is_version z = 2 then get32 hdr 1648 else Some (is_dt z));
        let dta = (if is_version z \<ge> 2 then up dt else 0);
        Some (if is_version z \<ge> 2 \<and> dt \<noteq> 0 \<and> dta = 0 then Inl EFI_BAD_BUFFER_SIZE
              else Inr ([up (is_kernel z), up (is_ramdisk z)] @ (if is_version z < 3 then [dta] else [])))
      })"

definition CheckImageHeader :: "bytes \<Rightarrow> u32 \<Rightarrow> bytes \<Rightarrow> bool \<Rightarrow> (efi_status + (u32 \<times> u32)) option" where
  "CheckImageHeader ImageHdr ImageHdrSize VendorImageHdr BootIntoRecovery = do {
     r \<leftarrow> read_sizes ImageHdr VendorImageHdr;
     case r of
       Inl s \<Rightarrow> Some (Inl s)
     | Inr z \<Rightarrow> do {
         p \<leftarrow> size_parts ImageHdr ImageHdrSize z;
         case p of
           Inl s \<Rightarrow> Some (Inl s)
         | Inr parts \<Rightarrow> (case add_sizes (is_page z) parts of
             Inl s \<Rightarrow> Some (Inl s)
           | Inr sz \<Rightarrow>
               if BootIntoRecovery \<and> is_version z > 0 \<and> is_version z < 3 then do {
                 d \<leftarrow> recovery_dtbo_actual ImageHdr z;
                 Some (case d of
                   Inl s \<Rightarrow> Inl s
                 | Inr actual \<Rightarrow> (case add_size sz actual of Inl s \<Rightarrow> Inl s | Inr sz1 \<Rightarrow> Inr (sz1, is_page z)))
               } else Some (Inr (sz, is_page z)))
       }
   }"

section \<open>Loading\<close>

text \<open>The environment of a load: the storage, and the pages allocated for a number of pages of 4096
  bytes, none for zero pages.\<close>

record load_env =
  le_misc :: misc_env
  le_pages :: "u32 \<Rightarrow> image option"

definition ALIGN_PAGES :: "u32 \<Rightarrow> u32" where
  "ALIGN_PAGES x = (x + (4096 - 1)) div 4096"

text \<open>The macro's comparison is not in parentheses: a negated use negates the comparison, not the
  result, and subtracts the mask's two parts one after the other.\<close>

definition not_ADD_OF_4K :: "u32 \<Rightarrow> bool" where
  "not_ADD_OF_4K x = ((if \<not> (MAX_UINT32 - 4096 - 1 > x) then x + 4096 - 1 else 0) \<noteq> 0)"

text \<open>A read into the allocated pages; one that is longer than they are has no value.\<close>

definition load_into :: "load_env \<Rightarrow> image \<Rightarrow> u32 \<Rightarrow> string \<Rightarrow> disk_op list \<Rightarrow> (efi_status \<times> image) option" where
  "load_into env im ImageSize Pname log = do {
     (s, d) \<leftarrow> LoadImageFromPartition (le_misc env) ImageSize Pname log;
     if length d \<le> length (im_data im) then Some (s, im\<lparr> im_data := splice 0 d (im_data im) \<rparr>) else None
   }"

definition LoadImageHeader :: "load_env \<Rightarrow> string \<Rightarrow> disk_op list \<Rightarrow> (efi_status \<times> (image \<times> u32) option) option" where
  "LoadImageHeader env Pname log =
     (if not_ADD_OF_4K BOOT_IMG_MAX_PAGE_SIZE then Some (EFI_BAD_BUFFER_SIZE, None)
      else (case le_pages env (ALIGN_PAGES BOOT_IMG_MAX_PAGE_SIZE) of
        None \<Rightarrow> Some (EFI_BAD_BUFFER_SIZE, None)
      | Some im \<Rightarrow> do {
          (s, im1) \<leftarrow> load_into env im BOOT_IMG_MAX_PAGE_SIZE Pname log;
          Some (s, Some (im1, BOOT_IMG_MAX_PAGE_SIZE))
        }))"

definition LoadImage :: "load_env \<Rightarrow> string \<Rightarrow> u32 \<Rightarrow> u32 \<Rightarrow> disk_op list \<Rightarrow> (efi_status \<times> image option) option" where
  "LoadImage env Pname ImageSizeActual PageSize log =
     (let ImageSize = ADD_OF (ROUND_TO_PAGE ImageSizeActual (PageSize - 1)) PageSize in
      if ImageSize = 0 then Some (EFI_BAD_BUFFER_SIZE, None)
      else if not_ADD_OF_4K ImageSize then Some (EFI_BAD_BUFFER_SIZE, None)
      else (case le_pages env (ALIGN_PAGES ImageSize) of
        None \<Rightarrow> Some (EFI_OUT_OF_RESOURCES, None)
      | Some im \<Rightarrow> do {
          (s, im1) \<leftarrow> load_into env im ImageSize Pname log;
          Some (s, Some im1)
        }))"

section \<open>The images of a boot\<close>

record ImageData =
  Name :: string
  ImgBuf :: "image option"
  ImgSize :: u64

record BootInfo =
  MultiSlotBoot :: bool
  BootIntoRecovery :: bool
  BootReasonAlarm :: bool
  Pname :: string
  Images :: "ImageData list"
  HeaderVersion :: u32
  VBCmdLine :: "bytes option"

text \<open>The build's switches (\<open>DYNAMIC_PARTITION_SUPPORT\<close> and its like) are fields of this record.\<close>

record build_switches =
  IsDynamicPartitionSupport :: bool
  IsBuildUseRecoveryAsBoot :: bool
  IsBuildAsSystemRootImage :: bool
  build_variant_user :: bool
  IsLEVariant :: bool
  IsSystemdBootslotEnabled :: bool

text \<open>\<open>BootParamlist\<close>; the buffers are images, and the command line is the text up to its
  terminator.\<close>

record boot_params =
  BaseMemory :: u64
  ImageBuffer :: image
  ImageSize :: u64
  DtboImgBuffer :: "image option"
  VendorImageBuffer :: "image option"
  VendorImageSize :: u64
  KernelLoadAddr :: u64
  KernelEndAddr :: u64
  RamdiskLoadAddr :: u64
  DeviceTreeLoadAddr :: u64
  HypDtboBaseAddr :: "image option list option"
  PageSize :: u32
  KernelSize :: u32
  SecondSize :: u32
  RamdiskSize :: u32
  RamdiskOffset :: u32
  PatchedKernelHdrSize :: u32
  DtbOffset :: u32
  VendorRamdiskSize :: u32
  KernelSizeActual :: u32
  FinalCmdLine :: bytes
  CmdLine :: bytes
  BootingWith32BitKernel :: bool
  BootingWithPatchedKernel :: bool
  BootingWithGzipPkgKernel :: bool

text \<open>The comparison is with as many characters as the wanted name has.\<close>

definition GetImage :: "BootInfo \<Rightarrow> string \<Rightarrow> ImageData option" where
  "GetImage Info ImageName =
     List.find (\<lambda>d. \<not> StrnCmp (Name d) ImageName (length ImageName)) (Images Info)"

section \<open>Sizes and the command line\<close>

text \<open>A string in a buffer, of which the checked string functions look at no more than \<open>m\<close>
  characters: its characters, without the terminator.\<close>

definition cstring_at :: "bytes \<Rightarrow> nat \<Rightarrow> nat \<Rightarrow> bytes option" where
  "cstring_at b i m = (let r = take m (drop i b) in
     if 0 \<in> set r \<or> length r = m then Some (cstr r) else None)"

definition AsciiStrCpyS :: "'a list \<Rightarrow> nat \<Rightarrow> 'a list \<Rightarrow> 'a list" where
  "AsciiStrCpyS dest m src = (if length src < m then src else dest)"

definition AsciiStrCatS :: "'a list \<Rightarrow> nat \<Rightarrow> 'a list \<Rightarrow> 'a list" where
  "AsciiStrCatS dest m src = (if length dest + length src < m then dest @ src else dest)"

abbreviation (input) MaxCmdLineLen :: nat where "MaxCmdLineLen \<equiv> 3584"

definition CatCmdLine :: "dt_env \<Rightarrow> bytes \<Rightarrow> bytes \<Rightarrow> (efi_status + bytes) option" where
  "CatCmdLine env BootImgHdrV3 VendorBootImgHdrV3 =
     (if \<not> de_pool env MaxCmdLineLen then Some (Inl EFI_OUT_OF_RESOURCES)
      else do {
        v \<leftarrow> cstring_at VendorBootImgHdrV3 28 MaxCmdLineLen;
        b \<leftarrow> cstring_at BootImgHdrV3 44 MaxCmdLineLen;
        let c1 = AsciiStrCpyS [] MaxCmdLineLen v;
        let c2 = AsciiStrCatS c1 MaxCmdLineLen (ascii '' '');
        Some (Inr (AsciiStrCatS c2 MaxCmdLineLen b))
      })"

definition sizes_v0 :: "boot_params \<Rightarrow> boot_params option" where
  "sizes_v0 p = do {
     let hdr = im_data (ImageBuffer p);
     k \<leftarrow> get32 hdr 8;
     r \<leftarrow> get32 hdr 16;
     s \<leftarrow> get32 hdr 24;
     pg \<leftarrow> get32 hdr 36;
     (if 576 \<le> length hdr then
        let hdr1 = splice 575 [0] hdr
        in Some (p\<lparr> KernelSize := k, RamdiskSize := r, SecondSize := s, PageSize := pg,
                    ImageBuffer := (ImageBuffer p)\<lparr> im_data := hdr1 \<rparr>, CmdLine := cstr (slice 64 512 hdr1) \<rparr>)
      else None)
   }"

definition UpdateBootParamsSizeAndCmdLine :: "dt_env \<Rightarrow> BootInfo \<Rightarrow> boot_params \<Rightarrow> (efi_status \<times> boot_params) option" where
  "UpdateBootParamsSizeAndCmdLine env Info p =
     (if HeaderVersion Info < 3 then map_option (Pair EFI_SUCCESS) (sizes_v0 p)
      else (case GetImage Info ''vendor_boot'' of
        None \<Rightarrow> Some (EFI_NOT_FOUND, p)
      | Some d \<Rightarrow> do {
          v \<leftarrow> ImgBuf d;
          k \<leftarrow> get32 (im_data (ImageBuffer p)) 8;
          r \<leftarrow> get32 (im_data (ImageBuffer p)) 12;
          vr \<leftarrow> get32 (im_data v) 24;
          pg \<leftarrow> get32 (im_data v) 12;
          let p1 = p\<lparr> VendorImageBuffer := Some v, VendorImageSize := ImgSize d, KernelSize := k,
                      RamdiskSize := r, VendorRamdiskSize := vr, PageSize := pg, SecondSize := 0 \<rparr>;
          c \<leftarrow> CatCmdLine env (im_data (ImageBuffer p)) (im_data v);
          Some (case c of Inl s \<Rightarrow> (s, p1) | Inr l \<Rightarrow> (EFI_SUCCESS, p1\<lparr> CmdLine := l \<rparr>))
        }))"

section \<open>The DTBO image\<close>

text \<open>The DTBO of a recovery image lies inside the boot image.\<close>

definition GetRecoveryDtboInfo :: "BootInfo \<Rightarrow> boot_params \<Rightarrow> (efi_status + (image \<times> u64)) option" where
  "GetRecoveryDtboInfo Info p = do {
     let hdr = im_data (ImageBuffer p);
     hs \<leftarrow> get32 hdr 1644;
     if HeaderVersion Info = 1 \<and> (hs \<noteq> 1648 \<or> hs > PageSize p) then Some (Inl EFI_BAD_BUFFER_SIZE)
     else do {
       off \<leftarrow> get64 hdr 1636;
       sz \<leftarrow> get32 hdr 1632;
       let actual = (ucast (ROUND_TO_PAGE sz (PageSize p - 1)) :: u64);
       Some (if CHECK_ADD64 off actual then Inl EFI_BAD_BUFFER_SIZE
             else if off + actual > ImageSize p then Inl EFI_BAD_BUFFER_SIZE
             else Inr (\<lparr> im_addr = im_addr (ImageBuffer p) + off, im_data = drop (unat off) hdr \<rparr>, actual))
     }
   }"

definition dtbo_header_ok :: "bytes \<Rightarrow> u64 \<Rightarrow> bool option" where
  "dtbo_header_ok h DtboImgSize = do {
     magic \<leftarrow> be32 h 0;
     if magic \<noteq> 0xD7B7AB1E \<or> DtboImgSize > ucast DTBO_MAX_SIZE_ALLOWED then Some False
     else do {
       total \<leftarrow> be32 h 4;
       hsize \<leftarrow> be32 h 8;
       esize \<leftarrow> be32 h 12;
       count \<leftarrow> be32 h 16;
       off \<leftarrow> be32 h 20;
       Some (\<not> total > DTBO_MAX_SIZE_ALLOWED \<and> total \<noteq> 0 \<and> hsize = 32 \<and> esize = 32 \<and>
         \<not> off > DTBO_MAX_SIZE_ALLOWED \<and> \<not> ucast count * ucast esize > DtboImgSize \<and>
         \<not> ucast off + ucast count * ucast esize > DtboImgSize)
     }
   }"

definition LoadAndValidateDtboImg :: "build_switches \<Rightarrow> BootInfo \<Rightarrow> boot_params \<Rightarrow> (bool \<times> boot_params) option" where
  "LoadAndValidateDtboImg sw Info p = do {
     r \<leftarrow> (if (\<not> MultiSlotBoot Info \<or> IsDynamicPartitionSupport sw) \<and> BootIntoRecovery Info \<and>
              HeaderVersion Info > 0 \<and> HeaderVersion Info < 3
           then map_option (map_sum id (map_prod Some id)) (GetRecoveryDtboInfo Info p)
           else Some (case GetImage Info ''dtbo'' of
                  None \<Rightarrow> Inl EFI_NOT_FOUND | Some d \<Rightarrow> Inr (ImgBuf d, ImgSize d)));
     case r of
       Inl s \<Rightarrow> Some (False, p)
     | Inr (buf, sz) \<Rightarrow> (let p1 = p\<lparr> DtboImgBuffer := buf \<rparr> in
         case buf of
           None \<Rightarrow> Some (False, p1)
         | Some im \<Rightarrow> map_option (\<lambda>ok. (ok, p1)) (dtbo_header_ok (im_data im) sz))
   }"

section \<open>Rounding and sums\<close>

lemma ADD_OF_nonzero:
  "ADD_OF a b \<noteq> 0 \<Longrightarrow> ADD_OF a b = a + b \<and> unat (ADD_OF a b) = unat a + unat b"
proof -
  assume n: "ADD_OF a b \<noteq> 0"
  then have lt: "MAX_UINT32 - b > a" by (auto simp: ADD_OF_def split: if_splits)
  have "b \<le> MAX_UINT32" by (simp add: word_le_nat_alt) (use unat_u32_bound [of b] in linarith)
  then have "unat a < 4294967295 - unat b"
    using lt by (simp add: word_less_nat_alt unat_minus_bound)
  then have "unat (a + b) = unat a + unat b" by (intro unat_plus_bound) simp
  then show ?thesis using lt by (simp add: ADD_OF_def)
qed

lemma unat_max_minus: "unat (MAX_UINT32 - b) = 4294967295 - unat (b :: u32)"
proof -
  have "b \<le> MAX_UINT32" by (simp add: word_le_nat_alt) (use unat_u32_bound [of b] in linarith)
  then show ?thesis by (subst unat_minus_bound) simp_all
qed

lemma ADD_OF_cases:
  "unat a + unat b < 4294967295 \<Longrightarrow> ADD_OF a b = a + b"
  "4294967295 \<le> unat a + unat b \<Longrightarrow> ADD_OF a b = 0"
  using unat_max_minus [of b] unat_u32_bound [of b] by (auto simp: ADD_OF_def word_less_nat_alt)

lemma and_not_ge:
  assumes "unat (x :: u32) + unat y < 2 ^ 32"
  shows "unat x \<le> unat (x + y AND NOT y)" "unat (x + y AND NOT y) \<le> unat x + unat y"
proof -
  have s: "unat (x + y) = unat x + unat y" by (rule unat_plus_bound) (use assms in simp)
  have e: "(x + y AND y) + (x + y AND NOT y) = x + y" 
  proof -
    have "(x + y AND y) AND (x + y AND NOT y) = 0" "(x + y AND y) OR (x + y AND NOT y) = x + y"
      by (rule bit_eqI, auto simp: bit_simps)+
    then show ?thesis by (simp add: disjunctive_add_eq_or)
  qed
  have l: "x + y AND y \<le> y" by (rule word_and_le1)
  have m: "x + y AND NOT y \<le> x + y" by (rule word_and_le2)
  have "x + y AND NOT y = x + y - (x + y AND y)" using e by (simp add: algebra_simps)
  then have "unat (x + y AND NOT y) = unat (x + y) - unat (x + y AND y)"
    by (simp only:) (rule unat_minus_bound, rule word_and_le2)
  moreover have "unat (x + y AND y) \<le> unat y" using l by (simp add: word_le_nat_alt)
  ultimately show "unat x \<le> unat (x + y AND NOT y)" using s by simp
  show "unat (x + y AND NOT y) \<le> unat x + unat y" using m s by (simp add: word_le_nat_alt)
qed

text \<open>Rounding up gives zero or no less than it is given, whatever the mask.\<close>

lemma ROUND_TO_PAGE_ge:
  assumes "ROUND_TO_PAGE x y \<noteq> 0"
  shows "unat x \<le> unat (ROUND_TO_PAGE x y)" "unat (ROUND_TO_PAGE x y) \<le> unat x + unat y"
proof -
  have n: "ADD_OF x y \<noteq> 0" using assms by (auto simp: ROUND_TO_PAGE_def)
  have "unat x + unat y < 4294967296"
    using conjunct2 [OF ADD_OF_nonzero [OF n]] unat_u32_bound [of "ADD_OF x y"] by linarith
  then have b: "unat x + unat y < 2 ^ 32" by simp
  show "unat x \<le> unat (ROUND_TO_PAGE x y)" "unat (ROUND_TO_PAGE x y) \<le> unat x + unat y"
    using and_not_ge [OF b] ADD_OF_nonzero [OF n] by (simp_all add: ROUND_TO_PAGE_def)
qed

lemma add_size_eq: "add_size a b = Inr c \<Longrightarrow> unat c = unat a + unat b"
  using ADD_OF_nonzero [of a b] by (auto simp: add_size_def split: if_splits)

lemma add_sizes_eq: "add_sizes a bs = Inr c \<Longrightarrow> unat c = unat a + (\<Sum>b\<leftarrow>bs. unat b)"
  by (induction bs arbitrary: a) (auto dest: add_size_eq split: sum.splits)

section \<open>The size of an image\<close>

text \<open>The rounded size of a part, and the parts of an image after the page of its header: what
  \<open>CheckImageHeader\<close> accounts for.\<close>

definition rounded :: "u32 \<Rightarrow> u32 \<Rightarrow> nat" where
  "rounded pg x = unat (ROUND_TO_PAGE x (pg - 1))"

definition dtb_part :: "bytes \<Rightarrow> image_sizes \<Rightarrow> nat" where
  "dtb_part hdr z = (if is_version z = 2 then rounded (is_page z) (the (get32 hdr 1648)) else 0)"

definition recovery_part :: "bytes \<Rightarrow> bool \<Rightarrow> image_sizes \<Rightarrow> nat" where
  "recovery_part hdr rec z =
     (if rec \<and> is_version z > 0 \<and> is_version z < 3 then rounded (is_page z) (the (get32 hdr 1632)) else 0)"

lemma size_parts_facts:
  assumes "size_parts hdr hsz z = Some (Inr parts)"
  shows "is_kernel z \<noteq> 0" "is_page z \<noteq> 0" "is_page z = hsz \<or> is_page z \<le> BOOT_IMG_MAX_PAGE_SIZE"
    "unat (is_kernel z) \<le> rounded (is_page z) (is_kernel z)"
    "unat (is_ramdisk z) \<le> rounded (is_page z) (is_ramdisk z)"
    "is_version z = 2 \<Longrightarrow> unat (the (get32 hdr 1648)) \<le> dtb_part hdr z"
    "(\<Sum>b\<leftarrow>parts. unat b) = rounded (is_page z) (is_kernel z) + rounded (is_page z) (is_ramdisk z) + dtb_part hdr z"
proof -
  note d = assms [unfolded size_parts_def Let_def]
  show "is_kernel z \<noteq> 0" "is_page z \<noteq> 0" "is_page z = hsz \<or> is_page z \<le> BOOT_IMG_MAX_PAGE_SIZE"
    using d by (auto split: if_splits)
  show "unat (is_kernel z) \<le> rounded (is_page z) (is_kernel z)"
    using d by (auto simp: rounded_def intro: ROUND_TO_PAGE_ge split: if_splits)
  show "unat (is_ramdisk z) \<le> rounded (is_page z) (is_ramdisk z)"
    using d by (cases "is_ramdisk z = 0") (auto simp: rounded_def intro: ROUND_TO_PAGE_ge split: if_splits)
  show "is_version z = 2 \<Longrightarrow> unat (the (get32 hdr 1648)) \<le> dtb_part hdr z"
    using d by (cases "the (get32 hdr 1648) = 0")
      (auto simp: rounded_def dtb_part_def intro: ROUND_TO_PAGE_ge split: if_splits Option.bind_splits)
  show "(\<Sum>b\<leftarrow>parts. unat b) = rounded (is_page z) (is_kernel z) + rounded (is_page z) (is_ramdisk z) + dtb_part hdr z"
  proof (cases "is_version z = 2")
    case True
    then show ?thesis
      using d by (auto simp: rounded_def dtb_part_def split: if_splits Option.bind_splits)
  next
    case False
    have "\<not> (2 \<le> is_version z \<and> is_version z < 3)"
      using False unat_gt_0 by (auto simp: word_le_nat_alt word_less_nat_alt word_unat_eq_iff)
    then show ?thesis
      using d False by (auto simp: rounded_def dtb_part_def split: if_splits Option.bind_splits)
  qed
qed

lemma recovery_actual_eq:
  assumes "recovery_dtbo_actual hdr z = Some (Inr a)" "is_version z > 0" "is_version z < 3"
  shows "unat a = recovery_part hdr True z" "unat a \<le> 0x1800000"
  using assms
  by (auto simp: recovery_dtbo_actual_def recovery_part_def rounded_def Let_def word_le_nat_alt not_less
      split: Option.bind_splits if_splits)

text \<open>The steps of an accepted header.\<close>

lemma CheckImageHeader_inv:
  assumes "CheckImageHeader hdr hsz vhdr rcv = Some (Inr (sz, pg))"
  obtains z parts sz0 where "read_sizes hdr vhdr = Some (Inr z)" "size_parts hdr hsz z = Some (Inr parts)"
    "add_sizes (is_page z) parts = Inr sz0" "is_page z = pg" "unat sz = unat sz0 + recovery_part hdr rcv z"
proof -
  have rp: "recovery_part hdr rcv z = 0" if "\<not> (rcv \<and> is_version z > 0 \<and> is_version z < 3)" for z
    unfolding recovery_part_def by (rule if_not_P [OF that])
  obtain z where z: "read_sizes hdr vhdr = Some (Inr z)"
    using assms by (auto simp: CheckImageHeader_def split: Option.bind_splits sum.splits)
  then obtain parts where p: "size_parts hdr hsz z = Some (Inr parts)"
    using assms by (auto simp: CheckImageHeader_def split: Option.bind_splits sum.splits)
  then obtain sz0 where a: "add_sizes (is_page z) parts = Inr sz0"
    using assms z by (auto simp: CheckImageHeader_def split: sum.splits)
  show thesis
  proof (cases "rcv \<and> is_version z > 0 \<and> is_version z < 3")
    case True
    then have "is_page z = pg \<and> unat sz = unat sz0 + recovery_part hdr rcv z"
      using assms z p a by (auto simp: CheckImageHeader_def split: Option.bind_splits sum.splits
          dest!: add_size_eq recovery_actual_eq(1))
    then show thesis using that z p a by blast
  next
    case False
    then have "is_page z = pg \<and> unat sz = unat sz0 + recovery_part hdr rcv z"
      using assms z p a by (auto simp: CheckImageHeader_def rp)
    then show thesis using that z p a by blast
  qed
qed

text \<open>C26. When \<open>CheckImageHeader\<close> accepts a boot image, the size it reports is the exact sum, without
  wrap, of the header's page and of the kernel, the ramdisk, the device trees of a version 2 image
  and, in a recovery boot, the recovery DTBO, each rounded up to pages; no part is rounded below its
  size, the kernel and the page are not empty, and the page is the one of the header or at most 4096
  bytes.\<close>

theorem CheckImageHeader_covers:
  assumes "CheckImageHeader hdr hsz vhdr rcv = Some (Inr (sz, pg))"
  shows "\<exists>z. read_sizes hdr vhdr = Some (Inr z) \<and> is_page z = pg \<and> pg \<noteq> 0 \<and> is_kernel z \<noteq> 0 \<and>
    (pg = hsz \<or> pg \<le> BOOT_IMG_MAX_PAGE_SIZE) \<and>
    unat sz = unat pg + rounded pg (is_kernel z) + rounded pg (is_ramdisk z) + dtb_part hdr z + recovery_part hdr rcv z \<and>
    unat (is_kernel z) \<le> rounded pg (is_kernel z) \<and> unat (is_ramdisk z) \<le> rounded pg (is_ramdisk z) \<and>
    (is_version z = 2 \<longrightarrow> unat (the (get32 hdr 1648)) \<le> dtb_part hdr z)"
proof -
  obtain z parts sz0 where z: "read_sizes hdr vhdr = Some (Inr z)" and p: "size_parts hdr hsz z = Some (Inr parts)"
    and a: "add_sizes (is_page z) parts = Inr sz0" and pg: "is_page z = pg"
    and r: "unat sz = unat sz0 + recovery_part hdr rcv z"
    using assms by (rule CheckImageHeader_inv)
  then show ?thesis
    using size_parts_facts [OF p] add_sizes_eq [OF a] by (intro exI [of _ z]) (simp add: pg)
qed

section \<open>The image in memory\<close>

text \<open>The allocator hands out as many pages as it is asked for, and none for zero.\<close>

definition pages_ok :: "load_env \<Rightarrow> bool" where
  "pages_ok env \<longleftrightarrow> le_pages env 0 = None \<and>
     (\<forall>n im. le_pages env n = Some im \<longrightarrow> length (im_data im) = 4096 * unat n)"

text \<open>A read returns no more than it is asked for, and all of it when it succeeds.\<close>

definition reads_fit :: "io_env \<Rightarrow> bool" where
  "reads_fit env \<longleftrightarrow>
     (\<forall>log dev lba n. length (snd (read_blocks env log dev lba n)) \<le> n \<and>
        (fst (read_blocks env log dev lba n) = EFI_SUCCESS \<longrightarrow> length (snd (read_blocks env log dev lba n)) = n))"

text \<open>The partition of a label, and a storage whose blocks divide a page.\<close>

definition labelled :: "load_env \<Rightarrow> string \<Rightarrow> HandleInfo \<Rightarrow> bool" where
  "labelled env Pn hi \<longleftrightarrow>
     single_handle (mi_db (le_misc env))
       (BLK_IO_SEL_PARTITIONED_MBR OR BLK_IO_SEL_PARTITIONED_GPT OR BLK_IO_SEL_MEDIA_TYPE_NON_REMOVABLE OR
        BLK_IO_SEL_MATCH_PARTITION_LABEL) (label_filter Pn) = Some (EFI_SUCCESS, Some hi) \<and>
     (\<exists>k\<le>12. BlockSize (BlkIo hi) = 2 ^ k)"

lemma blocks_up_ge: "0 < B \<Longrightarrow> n \<le> blocks_up B n"
proof (cases "n mod B = 0")
  case False
  assume B: "0 < B"
  have "n div B * B + n mod B = n" by (rule div_mult_mod_eq)
  then have "n \<le> n div B * B + B" using mod_less_divisor [OF B, of n] by linarith
  then show ?thesis using False B by (simp add: blocks_up_tail)
qed (simp add: blocks_up_exact)

lemma unat_mask_u32: "k \<le> 12 \<Longrightarrow> unat (mask k :: u32) = 2 ^ k - 1"
  unfolding mask_eq_exp_minus_1
  by (subst unat_minus_bound) (simp_all add: word_le_nat_alt unat_two_power_u32)

lemma blocks_up_least: "0 < B \<Longrightarrow> n \<le> q * B \<Longrightarrow> blocks_up B n \<le> q * B"
proof -
  assume b: "0 < B" "n \<le> q * B"
  then have "n + (B - 1) < (q + 1) * B" by (simp add: algebra_simps)
  then have "(n + (B - 1)) div B < q + 1" using b(1) by (simp add: div_less_iff_less_mult)
  then have "(n + (B - 1)) div B \<le> q" by simp
  then show ?thesis unfolding blocks_up_def by (rule mult_right_mono) simp
qed

lemma ROUND_TO_PAGE_blocks:
  assumes "ADD_OF x (2 ^ k - 1) \<noteq> 0" "k \<le> 12"
  shows "unat (ROUND_TO_PAGE x (2 ^ k - 1)) = blocks_up (2 ^ k) (unat x)"
proof -
  have m: "(2 ^ k - 1 :: u32) = mask k" by (simp add: mask_eq_exp_minus_1)
  have u: "unat (mask k :: u32) = 2 ^ k - 1"
    using assms(2) by (simp add: unat_mask_u32)
  have "unat (x + mask k) = unat x + (2 ^ k - 1)"
    using ADD_OF_nonzero [OF assms(1) [unfolded m]] u by metis
  moreover have "ADD_OF x (mask k) = x + mask k" using ADD_OF_nonzero [OF assms(1) [unfolded m]] by blast
  ultimately show ?thesis unfolding ROUND_TO_PAGE_def m by (simp only: and_not_mask_nat blocks_up_def)
qed

text \<open>The pages that are allocated for a size hold it, rounded up to any block size that divides a
  page.\<close>

lemma pages_hold:
  assumes "\<not> not_ADD_OF_4K n" "0 < unat n" "ALIGN_PAGES n \<noteq> 0" "k \<le> 12"
  shows "unat (ROUND_TO_PAGE n (2 ^ k - 1)) \<le> 4096 * unat (ALIGN_PAGES n)" "unat n \<le> 4096 * unat (ALIGN_PAGES n)"
    "ROUND_TO_PAGE n (2 ^ k - 1) \<noteq> 0"
proof -
  have lt: "unat n < 4294963198"
  proof (rule ccontr)
    assume c: "\<not> unat n < 4294963198"
    then have "n + 4096 - 1 = 0"
      using assms(1) by (auto simp: not_ADD_OF_4K_def word_less_nat_alt split: if_splits)
    then have "ALIGN_PAGES n = 0" by (simp add: ALIGN_PAGES_def algebra_simps)
    then show False using assms(3) by simp
  qed
  have "unat (n + 4095) = unat n + 4095" using lt by (subst unat_plus_bound) simp_all
  then have al: "4096 * unat (ALIGN_PAGES n) = blocks_up 4096 (unat n)"
    by (simp add: ALIGN_PAGES_def blocks_up_def unat_div)
  show le: "unat n \<le> 4096 * unat (ALIGN_PAGES n)" unfolding al by (rule blocks_up_ge) simp
  have p: "(2 :: nat) ^ k \<le> 2 ^ 12" using assms(4) by (rule power_increasing) simp
  have m: "unat (2 ^ k - 1 :: u32) \<le> 4095"
  proof -
    have "(2 ^ k - 1 :: u32) = mask k" by (simp add: mask_eq_exp_minus_1)
    then show ?thesis using assms(4) p by (simp add: unat_mask_u32)
  qed
  have ad: "ADD_OF n (2 ^ k - 1) \<noteq> 0"
  proof -
    define y :: u32 where "y = 2 ^ k - 1"
    have y: "unat y \<le> 4095" using m by (simp add: y_def)
    then have "y \<le> MAX_UINT32" by (simp add: word_le_nat_alt)
    then have "unat (MAX_UINT32 - y) = 4294967295 - unat y" by (simp add: unat_minus_bound)
    then have c: "MAX_UINT32 - y > n" using lt y by (simp add: word_less_nat_alt)
    have "unat (n + y) = unat n + unat y" using lt y by (subst unat_plus_bound) simp_all
    then have "n + y \<noteq> 0" using assms(2) by (metis add_is_0 less_numeral_extra(3) unat_0)
    then show ?thesis using c by (simp add: ADD_OF_def y_def [symmetric])
  qed
  obtain q where "blocks_up 4096 (unat n) = q * 2 ^ k"
  proof -
    have "(2 :: nat) ^ k dvd 2 ^ 12" using assms(4) by (rule le_imp_power_dvd)
    then have "2 ^ k dvd blocks_up 4096 (unat n)" unfolding blocks_up_def by (intro dvd_mult) simp
    then show thesis using that by (metis dvd_def mult.commute)
  qed
  then show "unat (ROUND_TO_PAGE n (2 ^ k - 1)) \<le> 4096 * unat (ALIGN_PAGES n)"
    using le unfolding ROUND_TO_PAGE_blocks [OF ad assms(4)] al by (metis blocks_up_least zero_less_numeral zero_less_power)
  show "ROUND_TO_PAGE n (2 ^ k - 1) \<noteq> 0"
    using ROUND_TO_PAGE_blocks [OF ad assms(4)] blocks_up_ge [of "2 ^ k" "unat n"] assms(2)
    by (metis le_zero_eq less_numeral_extra(3) unat_0 zero_less_numeral zero_less_power)
qed

lemma labelled_load:
  "labelled env Pn hi \<Longrightarrow> LoadImageFromPartition (le_misc env) n Pn log =
    Some (read_blocks (mi_io (le_misc env)) log (bio_id (BlkIo hi)) 0 (unat (ROUND_TO_PAGE n (BlockSize (BlkIo hi) - 1))))"
  by (simp add: LoadImageFromPartition_def labelled_def Let_def)


text \<open>A size too large to be rounded up is taken for a rounded size of zero: a header is accepted
  whose image is then loaded into a single page, so the image in memory is shorter than the size that
  was reported for it.\<close>

theorem LoadImage_wraps:
  assumes "CheckImageHeader hdr hsz vhdr rcv = Some (Inr (sz, pg))" "2 ^ 32 - 1 \<le> unat sz + unat (pg - 1)"
    and "pages_ok env" "pg \<le> BOOT_IMG_MAX_PAGE_SIZE" "LoadImage env Pn sz pg log = Some (s, Some im)"
  shows "length (im_data im) = 4096 \<and> length (im_data im) < unat sz"
proof -
  have nz: "pg \<noteq> 0" using assms(1) by (rule CheckImageHeader_inv) (auto dest: size_parts_facts(2))
  have y: "unat (pg - 1) = unat pg - 1" using nz by (simp add: unat_minus_one)
  have p: "0 < unat pg" "unat pg \<le> 4096" using nz assms(4) by (simp_all add: unat_gt_0 word_le_nat_alt)
  have r: "ROUND_TO_PAGE sz (pg - 1) = 0"
    using assms(2) by (simp add: ROUND_TO_PAGE_def ADD_OF_cases(2))
  have a: "ADD_OF 0 pg = pg" using p ADD_OF_cases(1) [of 0 pg] by simp
  have "unat (pg + 4095) = unat pg + 4095" using p by (subst unat_plus_bound) simp_all
  then have "unat (ALIGN_PAGES pg) = (unat pg + 4095) div 4096" by (simp add: ALIGN_PAGES_def unat_div)
  also have "\<dots> = 1" using p by (intro div_nat_eqI) simp_all
  finally have al: "unat (ALIGN_PAGES pg) = 1" .
  obtain b d where b: "le_pages env (ALIGN_PAGES pg) = Some b" and d: "length d \<le> length (im_data b)"
    and im: "im_data im = splice 0 d (im_data b)"
    using assms(5) nz by (auto simp: LoadImage_def r a load_into_def Let_def split: if_splits option.splits Option.bind_splits)
  have "length (im_data b) = 4096" using assms(3) b al by (simp add: pages_ok_def)
  then have "length (im_data im) = 4096" using im d by (simp add: length_splice)
  then show ?thesis using assms(2) y p by simp
qed

section \<open>The table of a DTBO image\<close>

lemma be32_of_peek: "im_addr im + of_nat i = a \<Longrightarrow> i + n \<le> length (im_data im) \<Longrightarrow> i < 2 ^ 64 \<Longrightarrow>
  peek im a n = Some (slice i n (im_data im))"
  by (auto simp: peek_def Let_def unat_of_nat_u64)

lemma dtbo_header_ok_bounds:
  assumes "dtbo_header_ok h sz = Some True"
  shows "\<exists>off count. be32 h 20 = Some off \<and> be32 h 16 = Some count \<and>
    unat off + 32 * unat count \<le> unat sz \<and> unat sz \<le> 0x1800000"
proof -
  obtain off count where o: "be32 h 20 = Some off" and c: "be32 h 16 = Some count"
    and s: "unat sz \<le> 0x1800000" and off: "unat off \<le> 0x1800000"
    and g: "\<not> ucast off + ucast count * (32 :: u64) > sz"
    using assms by (auto simp: dtbo_header_ok_def word_less_nat_alt word_le_nat_alt not_less
        split: Option.bind_splits if_splits)
  have m: "unat (ucast count * 32 :: u64) = unat count * 32"
    using unat_u32_bound [of count] by (subst unat_mult_bound) simp_all
  have "unat (ucast off + ucast count * 32 :: u64) = unat off + unat count * 32"
    using m unat_u32_bound [of count] unat_u32_bound [of off] by (subst unat_plus_bound) simp_all
  then have "unat off + unat count * 32 \<le> unat sz" using g by (simp add: not_less word_le_nat_alt)
  then show ?thesis using o c s by (simp add: mult.commute)
qed

text \<open>C28. When \<open>LoadAndValidateDtboImg\<close> accepts a DTBO image, its table of entries ends inside the
  image's size, which is at most 24 MB: every entry that \<open>GetBoardDtb\<close> visits can be read. In a
  recovery boot the image lies inside the boot image.\<close>

theorem LoadAndValidateDtboImg_table:
  assumes "LoadAndValidateDtboImg sw Info p = Some (True, p1)"
  shows "\<exists>im sz off count. DtboImgBuffer p1 = Some im \<and>
    be32 (im_data im) 20 = Some off \<and> be32 (im_data im) 16 = Some count \<and>
    unat off + 32 * unat count \<le> unat sz \<and> unat sz \<le> 0x1800000 \<and>
    ((\<exists>d. GetImage Info ''dtbo'' = Some d \<and> ImgBuf d = Some im \<and> ImgSize d = sz) \<or>
     (\<exists>o1 :: u64. unat o1 + unat sz \<le> unat (ImageSize p) \<and> im_data im = drop (unat o1) (im_data (ImageBuffer p)))) \<and>
    (unat sz \<le> length (im_data im) \<longrightarrow>
       (\<forall>i<unat count. peek im (im_addr im + ucast off + 32 * of_nat i) 32 \<noteq> None))"
proof -
  have m: "map_sum id (map_prod Some id) z = Inr (Some x, b) \<longleftrightarrow> z = Inr (x, b)"
    for z :: "efi_status + (image \<times> u64)" and x b by (cases z) auto
  obtain im sz where b: "DtboImgBuffer p1 = Some im" and ok: "dtbo_header_ok (im_data im) sz = Some True"
    and src: "(\<exists>d. GetImage Info ''dtbo'' = Some d \<and> ImgBuf d = Some im \<and> ImgSize d = sz) \<or>
      GetRecoveryDtboInfo Info p = Some (Inr (im, sz))"
    using assms
    by (auto simp: LoadAndValidateDtboImg_def Let_def m split: Option.bind_splits sum.splits option.splits if_splits)
  obtain off count where o: "be32 (im_data im) 20 = Some off" "be32 (im_data im) 16 = Some count"
    and t: "unat off + 32 * unat count \<le> unat sz" "unat sz \<le> 0x1800000"
    using dtbo_header_ok_bounds [OF ok] by blast
  have rec: "\<exists>o1 :: u64. unat o1 + unat sz \<le> unat (ImageSize p) \<and> im_data im = drop (unat o1) (im_data (ImageBuffer p))"
    if r: "GetRecoveryDtboInfo Info p = Some (Inr (im, sz))"
  proof -
    obtain o1 where o1: "\<not> CHECK_ADD64 o1 sz" "\<not> o1 + sz > ImageSize p" "im_data im = drop (unat o1) (im_data (ImageBuffer p))"
      using r by (auto simp: GetRecoveryDtboInfo_def Let_def split: Option.bind_splits if_splits)
    then show ?thesis using not_CHECK_ADD64_unat [OF o1(1)]
      by (intro exI [of _ o1]) (simp add: not_less word_le_nat_alt)
  qed
  have pk: "peek im (im_addr im + ucast off + 32 * of_nat i) 32 \<noteq> None"
    if "unat sz \<le> length (im_data im)" "i < unat count" for i
  proof -
    have i: "unat off + 32 * i + 32 \<le> length (im_data im)" using that t by linarith
    have e: "im_addr im + of_nat (unat off + 32 * i) = im_addr im + ucast off + 32 * of_nat i"
      by (simp add: algebra_simps)
    have "unat off + 32 * i < 2 ^ 64" using that(2) t by simp
    then show ?thesis using be32_of_peek [OF e i] by simp
  qed
  show ?thesis using b o t src rec pk by (intro exI [of _ im] exI [of _ sz]) auto
qed

section \<open>A boot partition\<close>

text \<open>Headers of version 0 images of 4096-byte pages, and a storage with a partition \<open>boot_a\<close>.\<close>

definition demo_boot_hdr :: "u32 \<Rightarrow> u32 \<Rightarrow> bytes" where
  "demo_boot_hdr k r = ascii ''ANDROID!'' @ concat (List.map PUT_LONG [k, 0, r, 0, 0, 0, 0, 4096, 0])"

definition demo_load :: load_env where
  "demo_load = \<lparr> le_misc = (demo_misc_env (ram_dev 7) [])\<lparr> mi_io := ram_env EMMC [], mi_db := demo_db \<rparr>,
     le_pages = (\<lambda>n. if n = 0 then None else Some \<lparr> im_addr = 0x80000000, im_data = replicate (4096 * unat n) 0 \<rparr>) \<rparr>"

definition demo_boot_hi :: HandleInfo where
  "demo_boot_hi = handle_info demo_part (Some demo_hd_node)"

lemma demo_hdr_fields:
  "magic_at (demo_boot_hdr k r) ''ANDROID!'' = Some True"
  "get32 (demo_boot_hdr k r) 8 = Some k" "get32 (demo_boot_hdr k r) 16 = Some r"
  "get32 (demo_boot_hdr k r) 36 = Some 4096" "get32 (demo_boot_hdr k r) 40 = Some 0"
proof -
  have l: "length (PUT_LONG x) = 4" for x by (simp add: PUT_LONG_def)
  have a: "length (ascii ''ANDROID!'') = 8" by (simp add: ascii_def)
  have g: "get32 (p @ PUT_LONG x @ q) n = Some x" if "n = length p" for p q x n
    using that
    by (simp add: get32_def l slice_def GET_PUT_LONG)
  show "magic_at (demo_boot_hdr k r) ''ANDROID!'' = Some True"
    by (simp add: magic_at_def demo_boot_hdr_def a l)
  show "get32 (demo_boot_hdr k r) 8 = Some k"
    using g [of 8 "ascii ''ANDROID!''" k] by (simp add: demo_boot_hdr_def a)
  show "get32 (demo_boot_hdr k r) 16 = Some r"
    using g [of 16 "ascii ''ANDROID!'' @ PUT_LONG k @ PUT_LONG 0" r] by (simp add: demo_boot_hdr_def a l)
  show "get32 (demo_boot_hdr k r) 36 = Some 4096"
    using g [of 36 "ascii ''ANDROID!'' @ concat (List.map PUT_LONG [k, 0, r, 0, 0, 0, 0])" 4096]
    by (simp add: demo_boot_hdr_def a l)
  show "get32 (demo_boot_hdr k r) 40 = Some 0"
    using g [of 40 "ascii ''ANDROID!'' @ concat (List.map PUT_LONG [k, 0, r, 0, 0, 0, 0, 4096])" 0 "[]"]
    by (simp add: demo_boot_hdr_def a l)
qed

lemma demo_header_checks:
  "CheckImageHeader (demo_boot_hdr 0x1001 0x10) 4096 [] False = Some (Inr (0x4000, 4096))"
  "CheckImageHeader (demo_boot_hdr 0xFFFFE000 0) 4096 [] False = Some (Inr (0xFFFFF000, 4096))"
  by (simp_all add: CheckImageHeader_def read_sizes_def demo_hdr_fields size_parts_def add_size_def
    ROUND_TO_PAGE_def ADD_OF_def Let_def)

lemma demo_labelled: "labelled demo_load ''boot_a'' demo_boot_hi"
proof -
  have "\<exists>k\<le>12. BlockSize (BlkIo demo_boot_hi) = 2 ^ k"
    by (rule exI [of _ 9]) (simp add: demo_boot_hi_def handle_info_def demo_part_def)
  then show ?thesis
    by (simp add: labelled_def single_handle_def GetBlkIOHandles_def demo_load_def demo_db_simps
      adjust_attribs_def sel_def check_handle_def check_devpath_def check_fs_def check_label_def
      FILTERS_NEEDING_DEVICEPATH_def label_filter_def is_root_of_def hard_drive_node_def StrnCmp_def
      demo_boot_hi_def Let_def)
qed

lemma demo_load_ok: "pages_ok demo_load" "reads_fit (mi_io (le_misc demo_load))"
  by (auto simp: pages_ok_def reads_fit_def demo_load_def ram_env_def)

lemma CheckImageHeader_covers_witness:
  "\<exists>z. read_sizes (demo_boot_hdr 0x1001 0x10) [] = Some (Inr z) \<and> is_page z = 4096 \<and> (4096 :: u32) \<noteq> 0 \<and>
    is_kernel z \<noteq> 0 \<and> ((4096 :: u32) = 4096 \<or> 4096 \<le> BOOT_IMG_MAX_PAGE_SIZE) \<and>
    unat (0x4000 :: u32) = unat (4096 :: u32) + rounded 4096 (is_kernel z) + rounded 4096 (is_ramdisk z) +
      dtb_part (demo_boot_hdr 0x1001 0x10) z + recovery_part (demo_boot_hdr 0x1001 0x10) False z \<and>
    unat (is_kernel z) \<le> rounded 4096 (is_kernel z) \<and> unat (is_ramdisk z) \<le> rounded 4096 (is_ramdisk z) \<and>
    (is_version z = 2 \<longrightarrow> unat (the (get32 (demo_boot_hdr 0x1001 0x10) 1648)) \<le> dtb_part (demo_boot_hdr 0x1001 0x10) z)"
  by (rule CheckImageHeader_covers [OF demo_header_checks(1)])


lemma demo_wrapped_load:
  "\<exists>im. LoadImage demo_load ''boot_a'' 0xFFFFF000 4096 [] = Some (EFI_SUCCESS, Some im)"
proof -
  have n: "ADD_OF (ROUND_TO_PAGE 0xFFFFF000 4095) 4096 = 4096" "\<not> not_ADD_OF_4K 4096" "ALIGN_PAGES 4096 = 1"
    by (simp_all add: ROUND_TO_PAGE_def ADD_OF_def not_ADD_OF_4K_def ALIGN_PAGES_def)
  have l: "LoadImageFromPartition (le_misc demo_load) 4096 ''boot_a'' [] =
      Some (EFI_SUCCESS, take 4096 (slice 0 4096 [] @ replicate 4096 0))"
    using labelled_load [OF demo_labelled, of 4096 "[]"]
    by (simp add: demo_boot_hi_def handle_info_def demo_part_def demo_load_def ram_env_def ROUND_TO_PAGE_def
        ADD_OF_def slice_def)
  have "le_pages demo_load 1 = Some \<lparr> im_addr = 0x80000000, im_data = replicate 4096 0 \<rparr>"
    by (simp add: demo_load_def)
  then show ?thesis
    by (simp add: LoadImage_def n load_into_def l Let_def)
qed

lemma LoadImage_wraps_example:
  "\<exists>im. LoadImage demo_load ''boot_a'' 0xFFFFF000 4096 [] = Some (EFI_SUCCESS, Some im) \<and>
     length (im_data im) = 4096 \<and> length (im_data im) < unat (0xFFFFF000 :: u32)"
proof -
  obtain im where im: "LoadImage demo_load ''boot_a'' 0xFFFFF000 4096 [] = Some (EFI_SUCCESS, Some im)"
    using demo_wrapped_load by blast
  show ?thesis
    using im LoadImage_wraps [OF demo_header_checks(2) _ demo_load_ok(1) _ im] by auto
qed

text \<open>A DTBO image with one entry, handed over by the verified boot stage.\<close>

definition demo_dtbo :: image where
  "demo_dtbo = \<lparr> im_addr = 0x90000000, im_data = demo_cells [0xD7B7AB1E, 64, 32, 32, 1, 32, 4096, 0] @ replicate 32 0 \<rparr>"

definition demo_switches :: build_switches where
  "demo_switches = \<lparr> IsDynamicPartitionSupport = True, IsBuildUseRecoveryAsBoot = False,
     IsBuildAsSystemRootImage = False, build_variant_user = False, IsLEVariant = False, IsSystemdBootslotEnabled = False \<rparr>"

definition demo_info_of :: "ImageData list \<Rightarrow> u32 \<Rightarrow> BootInfo" where
  "demo_info_of imgs v = \<lparr> MultiSlotBoot = False, BootIntoRecovery = False, BootReasonAlarm = False,
     Pname = ''boot'', Images = imgs, HeaderVersion = v, VBCmdLine = None \<rparr>"

definition zero_params :: "image \<Rightarrow> boot_params" where
  "zero_params im = \<lparr> BaseMemory = 0, ImageBuffer = im, ImageSize = of_nat (length (im_data im)), DtboImgBuffer = None,
     VendorImageBuffer = None, VendorImageSize = 0, KernelLoadAddr = 0, KernelEndAddr = 0, RamdiskLoadAddr = 0,
     DeviceTreeLoadAddr = 0, HypDtboBaseAddr = None, PageSize = 0, KernelSize = 0, SecondSize = 0, RamdiskSize = 0,
     RamdiskOffset = 0, PatchedKernelHdrSize = 0, DtbOffset = 0, VendorRamdiskSize = 0, KernelSizeActual = 0,
     FinalCmdLine = [], CmdLine = [], BootingWith32BitKernel = False, BootingWithPatchedKernel = False,
     BootingWithGzipPkgKernel = False \<rparr>"

lemma be32_cell: "length (demo_cells p) = n \<Longrightarrow> be32 (demo_cells (p @ x # q) @ t) n = Some x"
  by (auto simp: be32_def slice_def demo_cells_def GET_PUT_LONG)

lemma demo_dtbo_fields:
  "be32 (im_data demo_dtbo) 0 = Some 0xD7B7AB1E" "be32 (im_data demo_dtbo) 4 = Some 64"
  "be32 (im_data demo_dtbo) 8 = Some 32" "be32 (im_data demo_dtbo) 12 = Some 32"
  "be32 (im_data demo_dtbo) 16 = Some 1" "be32 (im_data demo_dtbo) 20 = Some 32"
  unfolding demo_dtbo_def image.select_convs
proof -
  have l: "length (demo_cells cs) = 4 * length cs" for cs
    by (induction cs) (simp_all add: demo_cells_def PUT_LONG_def)
  let ?d = "demo_cells [0xD7B7AB1E, 64, 32, 32, 1, 32, 4096, 0] @ replicate 32 0"
  show "be32 ?d 0 = Some 0xD7B7AB1E" using be32_cell [OF l, of "[]"] by simp
  show "be32 ?d 4 = Some 64" using be32_cell [OF l, of "[0xD7B7AB1E]"] by simp
  show "be32 ?d 8 = Some 32" using be32_cell [OF l, of "[0xD7B7AB1E, 64]"] by simp
  show "be32 ?d 12 = Some 32" using be32_cell [OF l, of "[0xD7B7AB1E, 64, 32]"] by simp
  show "be32 ?d 16 = Some 1" using be32_cell [OF l, of "[0xD7B7AB1E, 64, 32, 32]"] by simp
  show "be32 ?d 20 = Some 32" using be32_cell [OF l, of "[0xD7B7AB1E, 64, 32, 32, 1]"] by simp
qed

lemma demo_dtbo_accepted:
  "LoadAndValidateDtboImg demo_switches (demo_info_of [\<lparr> Name = ''dtbo'', ImgBuf = Some demo_dtbo, ImgSize = 64 \<rparr>] 0)
     (zero_params demo_dtbo) = Some (True, (zero_params demo_dtbo)\<lparr> DtboImgBuffer := Some demo_dtbo \<rparr>)"
  by (simp add: LoadAndValidateDtboImg_def demo_switches_def demo_info_of_def GetImage_def StrnCmp_def
    dtbo_header_ok_def demo_dtbo_fields Let_def)

lemma LoadAndValidateDtboImg_table_witness:
  "\<exists>im sz off count. DtboImgBuffer ((zero_params demo_dtbo)\<lparr> DtboImgBuffer := Some demo_dtbo \<rparr>) = Some im \<and>
    be32 (im_data im) 20 = Some off \<and> be32 (im_data im) 16 = Some count \<and>
    unat off + 32 * unat count \<le> unat sz \<and> unat sz \<le> 0x1800000 \<and>
    ((\<exists>d. GetImage (demo_info_of [\<lparr> Name = ''dtbo'', ImgBuf = Some demo_dtbo, ImgSize = 64 \<rparr>] 0) ''dtbo'' = Some d \<and>
        ImgBuf d = Some im \<and> ImgSize d = sz) \<or>
     (\<exists>o1 :: u64. unat o1 + unat sz \<le> unat (ImageSize (zero_params demo_dtbo)) \<and>
        im_data im = drop (unat o1) (im_data (ImageBuffer (zero_params demo_dtbo))))) \<and>
    (unat sz \<le> length (im_data im) \<longrightarrow>
       (\<forall>i<unat count. peek im (im_addr im + ucast off + 32 * of_nat i) 32 \<noteq> None))"
  by (rule LoadAndValidateDtboImg_table [OF demo_dtbo_accepted])

end
