(* ===== verification/CmdLine.thy ===== *)
theory CmdLine
  imports BootImage BoardNames FlashPartition
begin

text \<open>
  The kernel command line (\<open>UpdateCmdLine.c\<close>, \<open>LECmdLine.c\<close>): \<open>UpdateCmdLine\<close> first adds up the
  lengths of everything it will append to the boot image's command line, then
  \<open>UpdateCmdLineParams\<close> allocates a buffer of that length and appends the parts with checked string
  functions, which leave the buffer as it is when a part does not fit. Also here: the battery checks
  and the path of the system partition.

  Texts are byte lists without their terminators. The theorem of this theory is that nothing is
  left out: the buffer always has room for every part.
\<close>

section \<open>The battery\<close>

record pon_reason =
  HARD_RESET :: bool
  KPDPWR :: bool
  PON1 :: bool
  USB_CHG :: bool

text \<open>The charger protocol: the status of its lookup, whether it is of the newer revision, and the
  answers of its functions and of the PMIC protocol.\<close>

record charger_env =
  chg_locate :: efi_status
  chg_new :: bool
  off_mode :: "efi_status \<times> bool"
  pon_locate :: efi_status
  pon_get :: "efi_status + pon_reason"
  warm_get :: "efi_status + bool"
  present_get :: "efi_status + bool"
  power_ok :: "efi_status + (u32 \<times> bool \<times> u32)"
  batt_present :: "efi_status + bool"
  batt_voltage :: "efi_status + u32"

definition TargetPauseForBatteryCharge :: "charger_env \<Rightarrow> efi_status \<times> bool" where
  "TargetPauseForBatteryCharge c =
     (if chg_locate c = EFI_NOT_FOUND then (EFI_SUCCESS, False)
      else if chg_locate c \<noteq> EFI_SUCCESS then (chg_locate c, False)
      else if chg_new c then off_mode c
      else if pon_locate c \<noteq> EFI_SUCCESS then (pon_locate c, False)
      else (case pon_get c of
        Inl s \<Rightarrow> (s, False)
      | Inr r \<Rightarrow> (case warm_get c of
          Inl s \<Rightarrow> (s, False)
        | Inr WarmRtStatus \<Rightarrow> (case present_get c of
            Inl s \<Rightarrow> (s, False)
          | Inr ChgPresent \<Rightarrow>
              (EFI_SUCCESS, \<not> WarmRtStatus \<and> \<not> HARD_RESET r \<and> \<not> KPDPWR r \<and> (PON1 r \<or> USB_CHG r) \<and> ChgPresent)))))"

text \<open>The status, whether a battery and a charger are present, and the voltage; a failed query leaves
  the defaults.\<close>

definition TargetCheckBatteryStatus :: "charger_env \<Rightarrow> efi_status \<times> bool \<times> bool \<times> u32" where
  "TargetCheckBatteryStatus c =
     (if chg_locate c = EFI_NOT_FOUND then (EFI_SUCCESS, False, False, 0)
      else if chg_locate c \<noteq> EFI_SUCCESS then (EFI_PROTOCOL_ERROR, False, False, 0)
      else (case batt_present c of
        Inl s \<Rightarrow> (s, False, False, 0)
      | Inr p \<Rightarrow> (case batt_voltage c of
          Inl s \<Rightarrow> (s, p, False, 0)
        | Inr v \<Rightarrow> (case present_get c of
            Inl s \<Rightarrow> (s, p, False, v)
          | Inr ch \<Rightarrow> (EFI_SUCCESS, p, ch, v)))))"

definition TargetBatterySocOk :: "charger_env \<Rightarrow> bool \<times> u32" where
  "TargetBatterySocOk c =
     (if chg_locate c = EFI_NOT_FOUND then (True, 0)
      else if chg_locate c \<noteq> EFI_SUCCESS then (False, 0)
      else if chg_new c then (case power_ok c of
          Inl s \<Rightarrow> (s = EFI_UNSUPPORTED, 0)
        | Inr (cur, can_flash, required) \<Rightarrow> (can_flash \<and> \<not> cur < required, cur))
      else (case TargetCheckBatteryStatus c of (s, BatteryPresent, _, v) \<Rightarrow>
        (s = EFI_SUCCESS \<and> (\<not> BatteryPresent \<or> v > 3200) \<or> s = EFI_UNSUPPORTED, v)))"

section \<open>The environment\<close>

record cmd_env =
  ce_sw :: build_switches
  ce_pool :: "nat \<Rightarrow> bool"
  ce_misc :: misc_env
  ce_card_prot :: "nat \<Rightarrow> efi_status"
  ce_card_serial :: "(bytes \<times> u32) option"
  ce_boot_dev :: "efi_status + u64"
  ce_board :: board_state
  ce_charger :: charger_env
  ce_mdtp_support :: bool
  ce_mdtp_prot :: efi_status
  ce_mdtp_get :: "efi_status + mdtp_state"
  ce_panel :: bytes
  ce_verity :: bool
  ce_squashfs :: bool

text \<open>The state the command line is made from: the partition table, the device information, the
  device tree choice and \<open>BootDevImage\<close>.\<close>

record cmd_state =
  cs_ptn :: ptn_state
  cs_dev :: dev_state
  cs_dt :: dt_state
  cs_boot_dev_image :: bool

definition cmd_root :: "cmd_env \<Rightarrow> string option" where
  "cmd_root env = map_option GetRootDeviceType (CheckRootDeviceType (ce_misc env) UNKNOWN)"

text \<open>Numbers as \<open>%d\<close> prints them, and a text cut to a buffer.\<close>

definition print_d :: "u32 \<Rightarrow> bytes" where
  "print_d n = ascii (if sint n < 0 then ''-'' @ digits 10 (nat (- sint n)) else digits 10 (nat (sint n)))"

definition sprint :: "nat \<Rightarrow> bytes list \<Rightarrow> bytes" where
  "sprint sz parts = take (sz - 1) (concat parts)"

section \<open>The path of the system partition\<close>

definition LunCharMapping :: "nat \<Rightarrow> string option" where
  "LunCharMapping n = (if n < 8 then Some [char_of (97 + n)] else None)"



definition system_on_ufs :: "ptn_state \<Rightarrow> string \<Rightarrow> nat \<Rightarrow> bytes option" where
  "system_on_ufs st PName Index = do {
     l \<leftarrow> GetPartitionLunFromIndex st Index;
     c \<leftarrow> LunCharMapping l;
     Some (ascii (''/dev/sd'' @ c) @
       (case GetPartitionIdxInLun st PName l of None \<Rightarrow> print_d (- 1) | Some i \<Rightarrow> print_d (of_nat i)))
   }"

text \<open>\<open>GetSystemPath\<close>: the length of the path and the path, zero when there is none.\<close>

definition system_path :: "cmd_env \<Rightarrow> root_device \<Rightarrow> bool \<Rightarrow> string \<Rightarrow> string \<Rightarrow> nat \<Rightarrow> ptn_state \<Rightarrow> bytes option" where
  "system_path env root multi sfx PName Index st = (case root of
     UNKNOWN \<Rightarrow> Some []
   | EMMC \<Rightarrow> Some (sprint 72 [ascii '' root=/dev/mmcblk0p'', print_d (of_nat Index)])
   | NAND \<Rightarrow> Some (
       if ce_squashfs env then
         let n = (of_nat (length (PtnEntries st)) :: u32);
             MtdBlkIndex = (if multi \<and> \<not> StrnCmp ''_b'' sfx (length sfx) then n else n - 1)
         in sprint 72 [ascii '' rootfstype=squashfs root=/dev/mtdblock'', print_d MtdBlkIndex, ascii '' ubi.mtd='',
              print_d (of_nat Index - 1)]
       else sprint 72 [ascii '' rootfstype=ubifs rootflags=bulk_read root=ubi0:rootfs ubi.mtd='', print_d (of_nat Index - 1)])
   | UFS \<Rightarrow> map_option (\<lambda>d. sprint 72 [ascii '' root='', d]) (system_on_ufs st PName Index))"

definition GetSystemPath :: "cmd_env \<Rightarrow> BootInfo \<Rightarrow> ptn_state \<Rightarrow> ((nat \<times> bytes) \<times> ptn_state) option" where
  "GetSystemPath env Info st = do {
     let (sfx, st1) = GetCurrentSlotSuffix st;
     if \<not> ce_pool env 72 then Some ((0, []), st1)
     else do {
       root \<leftarrow> CheckRootDeviceType (ce_misc env) UNKNOWN;
       let name = (if IsLEVariant (ce_sw env) \<and> BootIntoRecovery Info then ''recoveryfs'' else ''system'');
       let PName = (if MultiSlotBoot Info \<and> root \<noteq> NAND then name @ sfx else name);
       (case GetPartitionIndex st1 PName of
         None \<Rightarrow> Some ((0, []), st1)
       | Some Index \<Rightarrow>
           if Index \<ge> MAX_PTN then Some ((0, []), st1)
           else map_option (\<lambda>p. ((length p, p), st1))
             (system_path env root (MultiSlotBoot Info) sfx PName Index st1))
     }
   }"

section \<open>dm-verity\<close>

text \<open>One word of the verity text, up to a blank or the terminator, and how far it reaches. A word
  longer than the buffer is an error; reading behind the text has no value.\<close>

fun LEVerityWordnCpy :: "nat \<Rightarrow> bytes \<Rightarrow> (efi_status \<times> bytes \<times> nat) option" where
  "LEVerityWordnCpy 0 src = Some (EFI_SUCCESS, [], 0)"
| "LEVerityWordnCpy (Suc n) [] = None"
| "LEVerityWordnCpy (Suc n) (c # src) =
     (if c = 32 \<or> c = 0 then Some (EFI_SUCCESS, [], 1)
      else if n = 0 then Some (EFI_NOT_FOUND, [c], 0)
      else map_option (\<lambda>(s, w, k). (s, c # w, if s = EFI_SUCCESS then k + 1 else 0)) (LEVerityWordnCpy n src))"

text \<open>The path of the device the tree covers.\<close>

definition LEVerityGetSystemPath :: "cmd_env \<Rightarrow> ptn_state \<Rightarrow> ((efi_status + bytes) \<times> ptn_state) option" where
  "LEVerityGetSystemPath env st =
     (if \<not> ce_pool env 20 then Some (Inl EFI_OUT_OF_RESOURCES, st)
      else do {
        let (sfx1, st1) = (if PartitionHasMultiSlot st ''boot'' then GetCurrentSlotSuffix st else ('''', st));
        let (sfx2, st2) = (if PartitionHasMultiSlot st ''boot'' then GetCurrentSlotSuffix st1 else ('''', st1));
        let PName = ''system'' @ take (length sfx2) sfx1;
        (case GetPartitionIndex st2 PName of
          None \<Rightarrow> Some (Inl EFI_DEVICE_ERROR, st2)
        | Some Index \<Rightarrow> do {
            root \<leftarrow> CheckRootDeviceType (ce_misc env) UNKNOWN;
            (case root of
              EMMC \<Rightarrow> Some (Inr (sprint 20 [ascii '' /dev/mmcblk0p'', print_d (of_nat Index)]), st2)
            | UFS \<Rightarrow> do {
                d \<leftarrow> system_on_ufs st2 PName Index;
                Some (Inr (sprint 20 [ascii '' '', d]), st2)
              }
            | _ \<Rightarrow> Some (Inl EFI_DEVICE_ERROR, st2))
          })
      })"

text \<open>\<open>AsciiStrDecimalToUintn\<close> of a word: leading tabs and blanks, then digits.\<close>

definition dec_value :: "bytes \<Rightarrow> nat" where
  "dec_value w = foldl (\<lambda>n c. n * 10 + (unat c - 48)) 0
     (takeWhile (\<lambda>c. 48 \<le> c \<and> c \<le> 57) (dropWhile (\<lambda>c. c = 32 \<or> c = 9) w))"

definition verity_salt :: bytes where
  "verity_salt = ascii ''aee087a5be3b982978c923f566a94613496b417f2af592639bc80d141e34dfe7''"

definition verity_text :: "bytes \<Rightarrow> bytes \<Rightarrow> bytes \<Rightarrow> bytes \<Rightarrow> bytes \<Rightarrow> bytes" where
  "verity_text SectorSize DataSize Hash FecOff Sys =
     (let HashSize = (of_nat (dec_value DataSize + 8) :: u32) in
      sprint 512 [ascii '' root=/dev/dm-0 dm='', [34], ascii ''system none ro,0 '', SectorSize, ascii '' verity 1 '', Sys,
        ascii '' '', Sys, ascii '' 4096 4096 '', DataSize, ascii '' '', print_d HashSize, ascii '' sha256 '', Hash,
        ascii '' '', verity_salt, ascii '' 10 restart_on_corruption ignore_zero_blocks use_fec_from_device '', Sys,
        ascii '' fec_roots 2 fec_blocks '', FecOff, ascii '' fec_start '', FecOff, [34]])"

text \<open>The four words behind the seven characters \<open>verity=\<close> and a quote: each is read where the last
  one ended, its terminator included.\<close>

fun verity_words :: "cmd_env \<Rightarrow> nat list \<Rightarrow> bytes \<Rightarrow> (efi_status + bytes list) option" where
  "verity_words env [] src = Some (Inr [])"
| "verity_words env (m # ms) src =
     (if \<not> ce_pool env m then Some (Inl EFI_OUT_OF_RESOURCES)
      else do {
        (s, w, k) \<leftarrow> LEVerityWordnCpy m src;
        if s \<noteq> EFI_SUCCESS then Some (Inl s)
        else do {
          r \<leftarrow> verity_words env ms (drop k src);
          Some (case r of Inl s \<Rightarrow> Inl s | Inr ws \<Rightarrow> Inr (w # ws))
        }
      })"

definition find_text :: "bytes \<Rightarrow> bytes \<Rightarrow> nat option" where
  "find_text pat txt = List.find (\<lambda>i. take (length pat) (drop i txt) = pat) [0..<length txt]"

text \<open>The end of \<open>GetLEVerityCmdLine\<close>: the text with the length that is reported for it. The format
  used when the error correction offset is \<open>0\<close> asks for two arguments more than it is given and
  prints numbers as texts, so that branch has no value.\<close>

definition verity_copy :: "cmd_env \<Rightarrow> bytes list \<Rightarrow> bytes \<Rightarrow> (efi_status \<times> (bytes \<times> u32) option) option" where
  "verity_copy env ws Sys =
     (if \<not> ce_pool env 512 then Some (EFI_OUT_OF_RESOURCES, None)
      else if ws ! 3 = ascii ''0'' then None
      else let t = verity_text (ws ! 0) (ws ! 1) (ws ! 2) (ws ! 3) Sys in
        Some (if \<not> ce_pool env (length t + 1) then (EFI_OUT_OF_RESOURCES, None)
              else (EFI_SUCCESS, Some (t, of_nat (length t + 1)))))"

text \<open>\<open>GetLEVerityCmdLine\<close>: the status, and the text with its length.\<close>

definition GetLEVerityCmdLine :: "cmd_env \<Rightarrow> bytes \<Rightarrow> ptn_state \<Rightarrow>
    ((efi_status \<times> (bytes \<times> u32) option) \<times> ptn_state) option" where
  "GetLEVerityCmdLine env SourceCmdLine st = (case find_text (ascii ''verity='') SourceCmdLine of
     None \<Rightarrow> Some ((EFI_NOT_FOUND, None), st)
   | Some i \<Rightarrow> do {
       r \<leftarrow> verity_words env [12, 12, 65, 12] (drop (i + 8) (SourceCmdLine @ [0]));
       (case r of
         Inl s \<Rightarrow> Some ((s, None), st)
       | Inr ws \<Rightarrow> do {
           (p, st1) \<leftarrow> LEVerityGetSystemPath env st;
           (case p of
             Inl s \<Rightarrow> Some ((s, None), st1)
           | Inr Sys \<Rightarrow> map_option (\<lambda>r. (r, st1)) (verity_copy env ws Sys))
         })
     })"

section \<open>The display's part\<close>

abbreviation (input) MAX_DISPLAY_CMD_LINE :: nat where "MAX_DISPLAY_CMD_LINE \<equiv> 384"

text \<open>\<open>GetDisplayCmdline\<close>: the panel's variable and behind it the text kept in the device
  information. A kept text without a terminator in its 128 bytes has no value.\<close>

definition GetDisplayCmdline :: "cmd_env \<Rightarrow> dev_state \<Rightarrow> bytes option" where
  "GetDisplayCmdline env d = do {
     panel \<leftarrow> cstring_at (ce_panel env @ replicate (MAX_DISPLAY_CMD_LINE - length (ce_panel env)) 0) 0 MAX_DISPLAY_CMD_LINE;
     let (Status, Src, SrcLen) = ReadDisplayCmdLine d;
     if Status = EFI_SUCCESS
     then (if 0 \<in> set Src then Some (AsciiStrCatS panel MAX_DISPLAY_CMD_LINE (cstr Src)) else None)
     else Some panel
   }"

section \<open>Putting the parts together\<close>

text \<open>\<open>UpdateCmdLineParamList\<close> with the fields that differ between calls; the constant texts are
  written where they are used.\<close>

record cmd_params =
  p_Recovery :: bool
  p_MultiSlotBoot :: bool
  p_AlarmBoot :: bool
  p_MdtpActive :: bool
  p_CmdLineLen :: u32
  p_HaveCmdLine :: bool
  p_PauseAtBootUp :: bool
  p_StrSerialNum :: bytes
  p_DisplayCmdLine :: bytes
  p_CmdLine :: bytes
  p_VBCmdLine :: "bytes option"
  p_BootDevBuf :: "bytes option"
  p_FfbmStr :: bytes
  p_DtboIdxStr :: bytes
  p_DtbIdxStr :: bytes
  p_LEVerityCmdLine :: "bytes option"
  p_FstabSuffix :: bytes
  p_HeaderVersion :: u32
  p_SoftSkuStr :: bytes

definition BootDeviceCmdLine :: bytes where "BootDeviceCmdLine = ascii '' androidboot.bootdevice=''"
definition DynamicBootDeviceCmdLine :: bytes where "DynamicBootDeviceCmdLine = ascii '' androidboot.boot_devices=soc/''"
definition UsbSerialCmdLine :: bytes where "UsbSerialCmdLine = ascii '' androidboot.serialno=''"
definition AndroidBootMode :: bytes where "AndroidBootMode = ascii '' androidboot.mode=''"
definition LogLevel :: bytes where "LogLevel = ascii '' quite''"
definition BatteryChgPause :: bytes where "BatteryChgPause = ascii '' androidboot.mode=charger''"
definition MdtpActiveFlag :: bytes where "MdtpActiveFlag = ascii '' mdtp''"
definition AlarmBootCmdLine :: bytes where "AlarmBootCmdLine = ascii '' androidboot.alarmboot=true''"
definition SystemdSlotEnv :: bytes where
  "SystemdSlotEnv = ascii '' systemd.setenv='' @ [34] @ ascii ''SLOT_SUFFIX=_a'' @ [34]"
definition AndroidSlotSuffix :: bytes where "AndroidSlotSuffix = ascii '' androidboot.slot_suffix=''"
definition RootCmdLine :: bytes where "RootCmdLine = ascii '' rootwait ro init=''"
definition InitCmdline :: bytes where "InitCmdline = ascii ''/init''"
definition SkipRamFs :: bytes where "SkipRamFs = ascii '' skip_initramfs''"
definition AndroidBootDtboIdx :: bytes where "AndroidBootDtboIdx = ascii '' androidboot.dtbo_idx=''"
definition AndroidBootDtbIdx :: bytes where "AndroidBootDtbIdx = ascii '' androidboot.dtb_idx=''"
definition AndroidBootForceNormalBoot :: bytes where "AndroidBootForceNormalBoot = ascii '' androidboot.force_normal_boot=1''"
definition AndroidBootFstabSuffix :: bytes where "AndroidBootFstabSuffix = ascii '' androidboot.fstab_suffix=''"
definition BOOT_BASE_BAND :: bytes where "BOOT_BASE_BAND = ascii '' androidboot.baseband=''"
definition SoftSkuIdxStr :: bytes where "SoftSkuIdxStr = ascii '' socinfo.softsku_idx=''"

text \<open>Appending texts one after another to a buffer of \<open>m\<close> bytes; a text that does not fit is left
  out.\<close>

definition cat_all :: "nat \<Rightarrow> bytes \<Rightarrow> bytes list \<Rightarrow> bytes" where
  "cat_all m = foldl (\<lambda>d s. AsciiStrCatS d m s)"

definition boot_dev_parts :: "build_switches \<Rightarrow> cmd_params \<Rightarrow> bytes list" where
  "boot_dev_parts sw p = (case p_BootDevBuf p of
     None \<Rightarrow> []
   | Some b \<Rightarrow> [BootDeviceCmdLine, b, AndroidBootFstabSuffix, p_FstabSuffix p] @
       (if IsDynamicPartitionSupport sw then [DynamicBootDeviceCmdLine, b] else []))"

definition mode_parts :: "cmd_params \<Rightarrow> bytes list" where
  "mode_parts p = (if p_FfbmStr p \<noteq> [] then [AndroidBootMode, p_FfbmStr p, LogLevel]
     else if p_PauseAtBootUp p then [BatteryChgPause]
     else if p_AlarmBoot p then [AlarmBootCmdLine] else [])"

text \<open>The slot's parts. A slot without a suffix would leave the second character of the suffix array
  as the stack had it.\<close>

definition slot_parts :: "build_switches \<Rightarrow> string \<Rightarrow> bytes list option" where
  "slot_parts sw sfx =
     (if IsSystemdBootslotEnabled sw then
        if length sfx < 2 then None
        else Some [SystemdSlotEnv[length SystemdSlotEnv - 2 := of_char (sfx ! 1)]]
      else Some [AndroidSlotSuffix, ascii sfx])"

definition root_parts :: "build_switches \<Rightarrow> bool \<Rightarrow> bool \<Rightarrow> bool \<Rightarrow> bytes list" where
  "root_parts sw bootdev multi recovery =
     (if IsBuildAsSystemRootImage sw \<and> \<not> multi \<or> multi \<and> \<not> bootdev then
        (if \<not> IsDynamicPartitionSupport sw \<and> \<not> recovery then [SkipRamFs] else []) @ [RootCmdLine, InitCmdline]
      else [])"

definition force_normal :: "build_switches \<Rightarrow> bool \<Rightarrow> bool \<Rightarrow> u32 \<Rightarrow> bool" where
  "force_normal sw multi recovery ver \<longleftrightarrow>
     IsBuildUseRecoveryAsBoot sw \<and> IsDynamicPartitionSupport sw \<and> \<not> recovery \<or>
     \<not> multi \<and> \<not> IsBuildUseRecoveryAsBoot sw \<and> 3 \<le> ver"

text \<open>The texts \<open>UpdateCmdLineParams\<close> appends, in its order.\<close>

definition cmd_parts :: "build_switches \<Rightarrow> bool \<Rightarrow> string \<Rightarrow> bytes list \<Rightarrow> cmd_params \<Rightarrow> bytes list" where
  "cmd_parts sw bootdev baseband slot p =
     (case p_VBCmdLine p of None \<Rightarrow> [] | Some v \<Rightarrow> [v]) @
     boot_dev_parts sw p @
     [UsbSerialCmdLine, p_StrSerialNum p] @
     mode_parts p @
     [BOOT_BASE_BAND, ascii (ToLower (take 3 baseband)), p_DisplayCmdLine p] @
     (if p_MdtpActive p then [MdtpActiveFlag] else []) @
     slot @
     root_parts sw bootdev (p_MultiSlotBoot p) (p_Recovery p) @
     [p_DtboIdxStr p, p_DtbIdxStr p] @
     (if force_normal sw (p_MultiSlotBoot p) (p_Recovery p) (p_HeaderVersion p) then [AndroidBootForceNormalBoot] else []) @
     (case p_LEVerityCmdLine p of None \<Rightarrow> [] | Some v \<Rightarrow> [v]) @
     [p_SoftSkuStr p]"

definition UpdateCmdLineParams :: "cmd_env \<Rightarrow> cmd_params \<Rightarrow> cmd_state \<Rightarrow> ((efi_status + bytes) \<times> cmd_state) option" where
  "UpdateCmdLineParams env p st =
     (let MaxLen = unat (p_CmdLineLen p) in
      if \<not> ce_pool env MaxLen then Some (Inl EFI_OUT_OF_RESOURCES, st)
      else do {
        let sloted = (p_MultiSlotBoot p \<and> \<not> cs_boot_dev_image st);
        let (sfx, ptn) = (if sloted then GetCurrentSlotSuffix (cs_ptn st) else ('''', cs_ptn st));
        slot \<leftarrow> (if sloted then slot_parts (ce_sw env) sfx else Some []);
        let d0 = (if p_HaveCmdLine p then AsciiStrCpyS [] MaxLen (p_CmdLine p) else []);
        let parts = cmd_parts (ce_sw env) (cs_boot_dev_image st) (BoardPlatformChipBaseBand (ce_board env)) slot p;
        Some (Inr (cat_all MaxLen d0 parts), st\<lparr>cs_ptn := ptn\<rparr>)
      })"

text \<open>A text's length as the 32-bit sum counts it.\<close>

definition slen :: "bytes \<Rightarrow> u32" where
  "slen s = of_nat (length s)"

text \<open>\<open>UpdateCmdLine\<close>'s sum, from the parameters it will pass on: \<open>leLen\<close> is the length reported for
  the verity text.\<close>

definition CmdLineLen :: "build_switches \<Rightarrow> bool \<Rightarrow> string \<Rightarrow> u32 \<Rightarrow> cmd_params \<Rightarrow> u32" where
  "CmdLineLen sw bootdev baseband leLen p =
     (if p_HaveCmdLine p then slen (p_CmdLine p) else 0) +
     (case p_VBCmdLine p of None \<Rightarrow> 0 | Some v \<Rightarrow> slen v) +
     leLen +
     (case p_BootDevBuf p of None \<Rightarrow> 0 | Some b \<Rightarrow> slen BootDeviceCmdLine + slen b +
        (if IsDynamicPartitionSupport sw then slen DynamicBootDeviceCmdLine + slen b else 0)) +
     (slen UsbSerialCmdLine + slen (p_StrSerialNum p)) +
     (if p_FfbmStr p \<noteq> [] then slen AndroidBootMode + slen (p_FfbmStr p) + slen LogLevel
      else if p_PauseAtBootUp p then slen BatteryChgPause
      else if p_AlarmBoot p then slen AlarmBootCmdLine else 0) +
     (slen BOOT_BASE_BAND + slen (ascii baseband)) +
     (if p_MdtpActive p then slen MdtpActiveFlag else 0) +
     (if p_MultiSlotBoot p \<and> \<not> bootdev
      then (if IsSystemdBootslotEnabled sw then slen SystemdSlotEnv else slen AndroidSlotSuffix + 3) else 0) +
     (if IsBuildAsSystemRootImage sw \<and> \<not> p_MultiSlotBoot p \<or> p_MultiSlotBoot p \<and> \<not> bootdev
      then slen RootCmdLine + slen InitCmdline +
        (if \<not> IsDynamicPartitionSupport sw \<and> \<not> p_Recovery p then slen SkipRamFs else 0) else 0) +
     slen (p_DisplayCmdLine p) +
     (slen (p_DtboIdxStr p) + slen (p_DtbIdxStr p)) +
     (if force_normal sw (p_MultiSlotBoot p) (p_Recovery p) (p_HeaderVersion p) then slen AndroidBootForceNormalBoot else 0) +
     (slen AndroidBootFstabSuffix + slen (p_FstabSuffix p)) +
     slen (p_SoftSkuStr p) + 1"

text \<open>The index texts: empty when there is no index, and for LE variants.\<close>

definition idx_text :: "cmd_env \<Rightarrow> bytes \<Rightarrow> u32 \<Rightarrow> bytes" where
  "idx_text env label i = (if \<not> IsLEVariant (ce_sw env) \<and> i \<noteq> - 1 then sprint 64 [label, print_d i] else [])"

text \<open>The buffer of 23 bytes holds the label and one more character.\<close>

definition softsku_text :: "u32 \<Rightarrow> bytes" where
  "softsku_text i = (if i \<noteq> 0 then sprint 23 [SoftSkuIdxStr, print_d i] else [])"

definition mdtp_active :: "cmd_env \<Rightarrow> bool" where
  "mdtp_active env = (ce_mdtp_support env \<and>
     (case IsMdtpActive (ce_mdtp_prot env) (ce_mdtp_get env) of (s, a) \<Rightarrow> s = EFI_SUCCESS \<longrightarrow> a))"

definition le_verity :: "cmd_env \<Rightarrow> bytes \<Rightarrow> ptn_state \<Rightarrow> ((bytes \<times> u32) option \<times> ptn_state) option" where
  "le_verity env cl st =
     (if cl \<noteq> [] \<and> ce_verity env then map_option (\<lambda>((s, v), st'). (v, st')) (GetLEVerityCmdLine env cl st)
      else Some (None, st))"

text \<open>The parameters, all but the length and the verity text.\<close>

definition boot_dev_text :: "cmd_env \<Rightarrow> root_device \<Rightarrow> bytes option" where
  "boot_dev_text env root = (case GetBootDevice (ce_boot_dev env) root 32 of Inl s \<Rightarrow> None | Inr b \<Rightarrow> Some (ascii b))"

definition pause_at_boot :: "cmd_env \<Rightarrow> bytes \<Rightarrow> bool \<Rightarrow> dev_state \<Rightarrow> bool" where
  "pause_at_boot env FfbmStr Recovery d =
     (FfbmStr = [] \<and> snd (TargetPauseForBatteryCharge (ce_charger env)) \<and> IsChargingScreenEnable d \<and> \<not> Recovery)"

definition cmd_params_of :: "cmd_env \<Rightarrow> bytes \<Rightarrow> bytes \<Rightarrow> bool \<Rightarrow> bool \<Rightarrow> bytes option \<Rightarrow> u32 \<Rightarrow> root_device \<Rightarrow> bytes \<Rightarrow>
    bytes \<Rightarrow> cmd_state \<Rightarrow> cmd_params" where
  "cmd_params_of env cl FfbmStr Recovery AlarmBoot vb hv root serial display st =
     \<lparr> p_Recovery = Recovery, p_MultiSlotBoot = PartitionHasMultiSlot (cs_ptn st) ''boot'',
       p_AlarmBoot = AlarmBoot, p_MdtpActive = mdtp_active env, p_CmdLineLen = 0, p_HaveCmdLine = (cl \<noteq> []),
       p_PauseAtBootUp = pause_at_boot env FfbmStr Recovery (cs_dev st),
       p_StrSerialNum = serial, p_DisplayCmdLine = display, p_CmdLine = cl, p_VBCmdLine = vb,
       p_BootDevBuf = boot_dev_text env root, p_FfbmStr = FfbmStr,
       p_DtboIdxStr = idx_text env AndroidBootDtboIdx (DtboIdx (cs_dt st)),
       p_DtbIdxStr = idx_text env AndroidBootDtbIdx (DtbIdx (cs_dt st)),
       p_LEVerityCmdLine = None, p_FstabSuffix = ascii (if root = EMMC then ''emmc'' else ''default''),
       p_HeaderVersion = hv, p_SoftSkuStr = softsku_text (BoardSoftSkuId (ce_board env)) \<rparr>"

text \<open>\<open>UpdateCmdLine\<close>. \<open>FfbmStr\<close> is empty when there is none. A serial number \<open>BoardSerialNum\<close> reports
  as found without writing it is what the stack held: no value.\<close>

definition UpdateCmdLine :: "cmd_env \<Rightarrow> bytes \<Rightarrow> bytes \<Rightarrow> bool \<Rightarrow> bool \<Rightarrow> bytes option \<Rightarrow> u32 \<Rightarrow> cmd_state \<Rightarrow>
    ((efi_status + bytes) \<times> cmd_state) option" where
  "UpdateCmdLine env cl FfbmStr Recovery AlarmBoot vb hv st = do {
     (s, serial) \<leftarrow> BoardSerialNum (ce_misc env) (ce_card_prot env) (ce_card_serial env) '''';
     if s \<noteq> EFI_SUCCESS then Some (Inl s, st)
     else if serial = '''' then None
     else do {
       (v, ptn) \<leftarrow> le_verity env cl (cs_ptn st);
       let st1 = st\<lparr>cs_ptn := ptn\<rparr>;
       if \<not> ce_pool env 32 then Some (Inl EFI_OUT_OF_RESOURCES, st1)
       else do {
         root \<leftarrow> CheckRootDeviceType (ce_misc env) UNKNOWN;
         display \<leftarrow> GetDisplayCmdline env (cs_dev st1);
         let p = cmd_params_of env cl FfbmStr Recovery AlarmBoot vb hv root (ascii serial) display st1;
         let len = CmdLineLen (ce_sw env) (cs_boot_dev_image st1) (BoardPlatformChipBaseBand (ce_board env))
                     (case v of None \<Rightarrow> 0 | Some (t, n) \<Rightarrow> n) p;
         UpdateCmdLineParams env (p\<lparr>p_CmdLineLen := len, p_LEVerityCmdLine := map_option fst v\<rparr>) st1
       }
     }
   }"

section \<open>Nothing is left out\<close>

lemma cat_all_fits: "length d + length (concat ps) < m \<Longrightarrow> cat_all m d ps = d @ concat ps"
proof (induction ps arbitrary: d)
  case Nil
  then show ?case by (simp add: cat_all_def)
next
  case (Cons s ps)
  then show ?case using Cons.IH [of "d @ s"] by (simp add: cat_all_def AsciiStrCatS_def)
qed

text \<open>The 32-bit length of a list of texts.\<close>

definition bl :: "bytes list \<Rightarrow> u32" where
  "bl ps = of_nat (length (concat ps))"

lemma bl_simps [simp]: "bl [] = 0" "bl (p # ps) = slen p + bl ps" "bl (ps @ qs) = bl ps + bl qs"
  by (simp_all add: bl_def slen_def)

lemma bl_option: "bl (case v of None \<Rightarrow> [] | Some t \<Rightarrow> [t]) = (case v of None \<Rightarrow> 0 | Some t \<Rightarrow> slen t)"
  by (simp split: option.split)

text \<open>What the sum counts beyond the texts that are appended.\<close>

definition slack :: "build_switches \<Rightarrow> bool \<Rightarrow> string \<Rightarrow> bytes list \<Rightarrow> cmd_params \<Rightarrow> nat" where
  "slack sw bootdev baseband slot p =
     (length baseband - 3) + (if p_BootDevBuf p = None then length AndroidBootFstabSuffix + length (p_FstabSuffix p) else 0) +
     (if p_LEVerityCmdLine p = None then 0 else 1) +
     (if p_MultiSlotBoot p \<and> \<not> bootdev \<and> \<not> IsSystemdBootslotEnabled sw
      then length AndroidSlotSuffix + 3 - length (concat slot) else 0) + 1"

lemma slen_of_nat: "slen t = of_nat (length t)"
  by (simp add: slen_def)

lemma bl_boot_dev:
  "bl (boot_dev_parts sw p) = (case p_BootDevBuf p of None \<Rightarrow> 0 | Some b \<Rightarrow> slen BootDeviceCmdLine + slen b +
      slen AndroidBootFstabSuffix + slen (p_FstabSuffix p) +
      (if IsDynamicPartitionSupport sw then slen DynamicBootDeviceCmdLine + slen b else 0))"
  by (simp add: boot_dev_parts_def split: option.split)

lemma bl_mode:
  "bl (mode_parts p) = (if p_FfbmStr p \<noteq> [] then slen AndroidBootMode + slen (p_FfbmStr p) + slen LogLevel
      else if p_PauseAtBootUp p then slen BatteryChgPause
      else if p_AlarmBoot p then slen AlarmBootCmdLine else 0)"
  by (simp add: mode_parts_def)

lemma bl_root:
  "bl (root_parts sw bootdev multi recovery) =
     (if IsBuildAsSystemRootImage sw \<and> \<not> multi \<or> multi \<and> \<not> bootdev
      then slen RootCmdLine + slen InitCmdline +
        (if \<not> IsDynamicPartitionSupport sw \<and> \<not> recovery then slen SkipRamFs else 0) else 0)"
  by (simp add: root_parts_def)

lemma slen_baseband: "slen (ascii bb) = slen (ascii (ToLower (take 3 bb))) + of_nat (length bb - 3)"
proof -
  have "length bb = length (ToLower (take 3 bb)) + (length bb - 3)" by (simp add: ToLower_def)
  then have "(of_nat (length bb) :: u32) = of_nat (length (ToLower (take 3 bb)) + (length bb - 3))" by simp
  then show ?thesis by (simp add: slen_def ascii_def)
qed

text \<open>The slot's parts are counted with their own length, or with three characters for the suffix.\<close>

lemma slot_counted:
  assumes "slot_parts sw sfx = Some slot" "length sfx \<le> 3"
  shows "(if IsSystemdBootslotEnabled sw then slen SystemdSlotEnv else slen AndroidSlotSuffix + 3) =
    bl slot + of_nat (if IsSystemdBootslotEnabled sw then 0 else length AndroidSlotSuffix + 3 - length (concat slot))"
proof (cases "IsSystemdBootslotEnabled sw")
  case True
  then show ?thesis using assms by (auto simp: slot_parts_def slen_def split: if_splits)
next
  case False
  then have s: "slot = [AndroidSlotSuffix, ascii sfx]" using assms by (simp add: slot_parts_def)
  have "(of_nat (3 - length sfx) :: u32) = 3 - of_nat (length sfx)" using assms(2) by (simp add: of_nat_diff)
  then show ?thesis using False by (simp add: s slen_def ascii_def)
qed

lemma CmdLineLen_counts:
  assumes "if p_MultiSlotBoot p \<and> \<not> bd then slot_parts sw sfx = Some slot \<and> length sfx \<le> 3 else slot = []"
  shows "CmdLineLen sw bd bb (case p_LEVerityCmdLine p of None \<Rightarrow> 0 | Some v \<Rightarrow> of_nat (length v + 1)) p =
    (if p_HaveCmdLine p then slen (p_CmdLine p) else 0) + bl (cmd_parts sw bd bb slot p) + of_nat (slack sw bd bb slot p)"
proof -
  have slot: "(if p_MultiSlotBoot p \<and> \<not> bd
      then (if IsSystemdBootslotEnabled sw then slen SystemdSlotEnv else slen AndroidSlotSuffix + 3) else 0) =
    bl slot + of_nat (if p_MultiSlotBoot p \<and> \<not> bd \<and> \<not> IsSystemdBootslotEnabled sw
      then length AndroidSlotSuffix + 3 - length (concat slot) else 0)"
    using assms slot_counted [of sw sfx slot] by (auto split: if_splits)
  have boot: "(case p_BootDevBuf p of None \<Rightarrow> 0 | Some b \<Rightarrow> slen BootDeviceCmdLine + slen b +
        (if IsDynamicPartitionSupport sw then slen DynamicBootDeviceCmdLine + slen b else 0)) +
      (slen AndroidBootFstabSuffix + slen (p_FstabSuffix p)) =
    bl (boot_dev_parts sw p) +
      of_nat (if p_BootDevBuf p = None then length AndroidBootFstabSuffix + length (p_FstabSuffix p) else 0)"
    by (simp add: bl_boot_dev slen_def split: option.split)
  have le: "(case p_LEVerityCmdLine p of None \<Rightarrow> 0 | Some v \<Rightarrow> of_nat (length v + 1)) =
    bl (case p_LEVerityCmdLine p of None \<Rightarrow> [] | Some v \<Rightarrow> [v]) + of_nat (if p_LEVerityCmdLine p = None then 0 else 1)"
    by (simp add: slen_def split: option.split)
  have mdtp: "bl (if p_MdtpActive p then [MdtpActiveFlag] else []) = (if p_MdtpActive p then slen MdtpActiveFlag else 0)"
    by simp
  have force: "bl (if force_normal sw a b c then [AndroidBootForceNormalBoot] else []) =
      (if force_normal sw a b c then slen AndroidBootForceNormalBoot else 0)" for a b c
    by simp
  have boot': "(case p_BootDevBuf p of None \<Rightarrow> 0 | Some b \<Rightarrow> slen BootDeviceCmdLine + slen b +
        (if IsDynamicPartitionSupport sw then slen DynamicBootDeviceCmdLine + slen b else 0)) =
    bl (boot_dev_parts sw p) +
      of_nat (if p_BootDevBuf p = None then length AndroidBootFstabSuffix + length (p_FstabSuffix p) else 0) -
      (slen AndroidBootFstabSuffix + slen (p_FstabSuffix p))"
    using boot by (simp only: eq_diff_eq)
  show ?thesis
    unfolding CmdLineLen_def slot boot' le slen_baseband [of bb] cmd_parts_def bl_simps mdtp force bl_mode [symmetric]
      bl_root [symmetric] bl_option [symmetric] slack_def of_nat_add of_nat_1
    by (auto simp: algebra_simps slen_def)
qed

lemma digits_length:
  "1 < b \<Longrightarrow> 0 < k \<Longrightarrow> n < b ^ k \<Longrightarrow> length (digits b n) \<le> k"
proof (induction k arbitrary: n)
  case (Suc k)
  show ?case
  proof (cases "n < b")
    case True
    then show ?thesis by (simp add: digits.simps [of b n] Let_def)
  next
    case False
    then have k: "0 < k" using Suc.prems by (cases k) auto
    have "n div b < b ^ k" using Suc.prems by (simp add: less_mult_imp_div_less mult.commute)
    then have "length (digits b (n div b)) \<le> k" using Suc.IH Suc.prems(1) k by blast
    then show ?thesis using False Suc.prems(1) by (simp add: digits.simps [of b n] Let_def)
  qed
qed simp

lemma digits_u32: "length (digits 16 (unat (w :: u32))) \<le> 8"
  using digits_length [of 16 8 "unat w"] unsigned_less [of w] by simp

lemma BoardSerialNum_short:
  "BoardSerialNum menv cp cs '''' = Some (s, serial) \<Longrightarrow> length serial \<le> 8"
  by (auto simp: BoardSerialNum_def ToLower_def digits_u32 Option.bind_eq_Some_conv Let_def
      split: if_splits prod.splits option.splits)

lemma sprint_short: "length (sprint m ps) \<le> m - 1"
  by (simp add: sprint_def)

lemma boot_dev_short: "boot_dev_text env root = Some b \<Longrightarrow> length b \<le> 31"
  by (auto simp: boot_dev_text_def GetBootDevice_def Let_def ToLower_def split: sum.splits if_splits)

lemma cstr_short: "length (cstr r) \<le> length r"
  by (simp add: cstr_def length_takeWhile_le)

lemma display_short: "GetDisplayCmdline env d = Some t \<Longrightarrow> length t \<le> 384"
  using cstr_short [of "take 384 (ce_panel env @ replicate (384 - length (ce_panel env)) 0)"]
  by (auto simp: GetDisplayCmdline_def cstring_at_def AsciiStrCatS_def Let_def Option.bind_eq_Some_conv
      split: if_splits prod.splits)

lemma idx_short: "length (idx_text env l i) \<le> 63"
  using sprint_short [of 64] by (simp add: idx_text_def)

lemma softsku_short: "length (softsku_text i) \<le> 22"
  using sprint_short [of 23] by (simp add: softsku_text_def)

lemma verity_text_short: "length (verity_text a b c d e) \<le> 511"
  using sprint_short [of 512] by (simp add: verity_text_def Let_def)

lemma verity_copy_counted:
  "verity_copy env ws Sys = Some (s, Some (t, n)) \<Longrightarrow> n = of_nat (length t + 1) \<and> length t \<le> 511"
  using verity_text_short by (auto simp: verity_copy_def Let_def split: if_splits)

lemma le_verity_counted:
  assumes "le_verity env cl st = Some (Some (t, n), st')"
  shows "n = of_nat (length t + 1) \<and> length t \<le> 511"
proof -
  obtain s where "GetLEVerityCmdLine env cl st = Some ((s, Some (t, n)), st')"
    using assms by (auto simp: le_verity_def split: if_splits)
  then show ?thesis
    by (auto simp: GetLEVerityCmdLine_def simp del: verity_words.simps dest: verity_copy_counted
        split: option.split_asm Option.bind_split_asm sum.split_asm prod.split_asm)
qed

lemmas texts = BootDeviceCmdLine_def DynamicBootDeviceCmdLine_def UsbSerialCmdLine_def AndroidBootMode_def LogLevel_def
  BatteryChgPause_def MdtpActiveFlag_def AlarmBootCmdLine_def SystemdSlotEnv_def AndroidSlotSuffix_def RootCmdLine_def
  InitCmdline_def SkipRamFs_def AndroidBootDtboIdx_def AndroidBootDtbIdx_def AndroidBootForceNormalBoot_def
  AndroidBootFstabSuffix_def BOOT_BASE_BAND_def SoftSkuIdxStr_def

lemma slot_short: "slot_parts sw sfx = Some slot \<Longrightarrow> length sfx \<le> 3 \<Longrightarrow> length (concat slot) \<le> 36"
  by (auto simp: slot_parts_def texts split: if_splits)

lemma lengths_parts:
  "(\<And>b. p_BootDevBuf p = Some b \<Longrightarrow> length b \<le> 31) \<Longrightarrow> length (p_FstabSuffix p) \<le> 7 \<Longrightarrow>
    length (concat (boot_dev_parts sw p)) \<le> 200"
  "length (concat (mode_parts p)) \<le> length (p_FfbmStr p) + 100"
  "length (concat (root_parts sw bd m r)) \<le> 100"
  "length (concat (case v of None \<Rightarrow> [] | Some t \<Rightarrow> [t])) = (case v of None \<Rightarrow> 0 | Some t \<Rightarrow> length t)"
proof -
  assume b: "\<And>b. p_BootDevBuf p = Some b \<Longrightarrow> length b \<le> 31" and f: "length (p_FstabSuffix p) \<le> 7"
  show "length (concat (boot_dev_parts sw p)) \<le> 200"
    using b f by (cases "p_BootDevBuf p") (auto simp: boot_dev_parts_def texts)
qed (auto simp: mode_parts_def root_parts_def texts split: option.split)

lemma cmd_parts_length:
  assumes "\<And>b. p_BootDevBuf p = Some b \<Longrightarrow> length b \<le> 31" "length (p_FstabSuffix p) \<le> 7"
    and "length (p_StrSerialNum p) \<le> 8" "length (p_DisplayCmdLine p) \<le> 384" "length (p_DtboIdxStr p) \<le> 63"
    and "length (p_DtbIdxStr p) \<le> 63" "length (p_SoftSkuStr p) \<le> 22" "length (concat slot) \<le> 36"
    and "(case p_LEVerityCmdLine p of None \<Rightarrow> 0 | Some t \<Rightarrow> length t) \<le> 511"
  shows "length (concat (cmd_parts sw bd bb slot p)) \<le>
    (case p_VBCmdLine p of None \<Rightarrow> 0 | Some v \<Rightarrow> length v) + length (p_FfbmStr p) + 2000"
proof -
  have u: "length UsbSerialCmdLine = 22" "length BOOT_BASE_BAND = 22" "length MdtpActiveFlag = 5"
    "length AndroidBootForceNormalBoot = 32" "length (ToLower (take 3 bb)) \<le> 3"
    by (simp_all add: texts ToLower_def)
  have i: "length (concat (if c then [t] else [])) \<le> length t" for c and t :: bytes by simp
  have boot: "length (concat (boot_dev_parts sw p)) \<le> 200" using assms(1,2) by (rule lengths_parts(1))
  note parts = boot lengths_parts(2) [of p]
    lengths_parts(3) [of sw bd "p_MultiSlotBoot p" "p_Recovery p"]
    i [of "p_MdtpActive p" MdtpActiveFlag]
    i [of "force_normal sw (p_MultiSlotBoot p) (p_Recovery p) (p_HeaderVersion p)" AndroidBootForceNormalBoot]
  show ?thesis
    using parts u assms(3-9)
    unfolding cmd_parts_def concat_append length_append lengths_parts(4)
    by (simp only: concat.simps length_append list.size length_ascii)
qed

lemma slack_length:
  "length (p_FstabSuffix p) \<le> 7 \<Longrightarrow> slack sw bd bb slot p \<le> length bb + 200"
  by (auto simp: slack_def texts)

lemma nat_u32: "n < 2 ^ 32 \<Longrightarrow> unat (of_nat n :: u32) = n"
  by (simp add: unat_of_nat)

lemma UpdateCmdLineParams_complete:
  assumes "UpdateCmdLineParams env p st = Some (Inr final, st')"
    and "p_CmdLineLen p = CmdLineLen (ce_sw env) (cs_boot_dev_image st) (BoardPlatformChipBaseBand (ce_board env))
      (case p_LEVerityCmdLine p of None \<Rightarrow> 0 | Some v \<Rightarrow> of_nat (length v + 1)) p"
    and "p_HaveCmdLine p \<longleftrightarrow> p_CmdLine p \<noteq> []"
    and "\<And>b. p_BootDevBuf p = Some b \<Longrightarrow> length b \<le> 31" "length (p_FstabSuffix p) \<le> 7"
    and "length (p_StrSerialNum p) \<le> 8" "length (p_DisplayCmdLine p) \<le> 384" "length (p_DtboIdxStr p) \<le> 63"
    and "length (p_DtbIdxStr p) \<le> 63" "length (p_SoftSkuStr p) \<le> 22"
    and "(case p_LEVerityCmdLine p of None \<Rightarrow> 0 | Some t \<Rightarrow> length t) \<le> 511"
    and "length (p_CmdLine p) + (case p_VBCmdLine p of None \<Rightarrow> 0 | Some v \<Rightarrow> length v) + length (p_FfbmStr p) +
      length (BoardPlatformChipBaseBand (ce_board env)) < 2 ^ 31"
  obtains slot where
    "if p_MultiSlotBoot p \<and> \<not> cs_boot_dev_image st
     then slot_parts (ce_sw env) (fst (GetCurrentSlotSuffix (cs_ptn st))) = Some slot else slot = []"
    "final = p_CmdLine p @ concat (cmd_parts (ce_sw env) (cs_boot_dev_image st)
      (BoardPlatformChipBaseBand (ce_board env)) slot p)"
proof -
  let ?bb = "BoardPlatformChipBaseBand (ce_board env)" and ?bd = "cs_boot_dev_image st"
  let ?sloted = "p_MultiSlotBoot p \<and> \<not> ?bd" and ?m = "unat (p_CmdLineLen p)"
  obtain sfx ptn where g: "GetCurrentSlotSuffix (cs_ptn st) = (sfx, ptn)" by fastforce
  then have sfx: "length sfx \<le> 3" using GetCurrentSlotSuffix_facts(1) by fastforce
  obtain slot where slot: "if ?sloted then slot_parts (ce_sw env) sfx = Some slot else slot = []"
    and final: "final = cat_all ?m (if p_HaveCmdLine p then AsciiStrCpyS [] ?m (p_CmdLine p) else [])
      (cmd_parts (ce_sw env) ?bd ?bb slot p)"
    using assms(1) g by (auto simp: UpdateCmdLineParams_def Let_def Option.bind_eq_Some_conv split: if_splits)
  let ?parts = "concat (cmd_parts (ce_sw env) ?bd ?bb slot p)"
  have "length (concat slot) \<le> 36" using slot sfx slot_short by (auto split: if_splits)
  then have len: "length ?parts \<le> (case p_VBCmdLine p of None \<Rightarrow> 0 | Some v \<Rightarrow> length v) + length (p_FfbmStr p) + 2000"
    using assms(4-11) by (intro cmd_parts_length) auto
  define k where "k = slack (ce_sw env) ?bd ?bb slot p"
  have k: "0 < k" "k \<le> length ?bb + 200" using slack_length [OF assms(5)] by (auto simp: k_def slack_def)
  have "p_CmdLineLen p = (if p_HaveCmdLine p then slen (p_CmdLine p) else 0) +
      bl (cmd_parts (ce_sw env) ?bd ?bb slot p) + of_nat k"
    unfolding assms(2) k_def by (rule CmdLineLen_counts [where sfx = sfx]) (use slot sfx in auto)
  then have e: "p_CmdLineLen p = of_nat (length (p_CmdLine p) + length ?parts + k)"
    using assms(3) by (simp add: slen_def bl_def)
  have small: "length (p_CmdLine p) + length ?parts + k < 2 ^ 32" using len k assms(12) by simp
  have m: "?m = length (p_CmdLine p) + length ?parts + k"
    unfolding e by (rule nat_u32) (rule small)
  have "(if p_HaveCmdLine p then AsciiStrCpyS [] ?m (p_CmdLine p) else []) = p_CmdLine p"
    using assms(3) m k by (simp add: AsciiStrCpyS_def)
  then have "final = p_CmdLine p @ ?parts" using final m k cat_all_fits [of "p_CmdLine p" _ ?m] by simp
  then show thesis using that [of slot] slot g by simp
qed

text \<open>The parts and the sum do not look at the length, the sum not at the verity text.\<close>

lemma len_unused:
  "CmdLineLen sw b bb n (q\<lparr>p_CmdLineLen := l, p_LEVerityCmdLine := w\<rparr>) = CmdLineLen sw b bb n q"
  "boot_dev_parts sw (q\<lparr>p_CmdLineLen := l, p_LEVerityCmdLine := w\<rparr>) = boot_dev_parts sw (q\<lparr>p_LEVerityCmdLine := w\<rparr>)"
  "cmd_parts sw b bb slot (q\<lparr>p_CmdLineLen := l, p_LEVerityCmdLine := w\<rparr>) =
    cmd_parts sw b bb slot (q\<lparr>p_LEVerityCmdLine := w\<rparr>)"
proof -
  show "CmdLineLen sw b bb n (q\<lparr>p_CmdLineLen := l, p_LEVerityCmdLine := w\<rparr>) = CmdLineLen sw b bb n q"
    by (simp add: CmdLineLen_def)
  show boot: "boot_dev_parts sw (q\<lparr>p_CmdLineLen := l, p_LEVerityCmdLine := w\<rparr>) =
      boot_dev_parts sw (q\<lparr>p_LEVerityCmdLine := w\<rparr>)"
    by (cases "p_BootDevBuf q") (simp_all add: boot_dev_parts_def)
  show "cmd_parts sw b bb slot (q\<lparr>p_CmdLineLen := l, p_LEVerityCmdLine := w\<rparr>) =
      cmd_parts sw b bb slot (q\<lparr>p_LEVerityCmdLine := w\<rparr>)"
    unfolding cmd_parts_def boot mode_parts_def by simp
qed

text \<open>C29. Nothing is left out of the kernel's command line. When \<open>UpdateCmdLine\<close> succeeds, the text
  is the boot image's command line followed by every part in order: verified boot's text, the boot
  device, the serial number, the boot mode, the base band, the panel, MDTP, the slot, the root, the
  device tree indices, the forced normal boot, the verity text and the SKU. The parts are appended by
  functions that drop silently what does not fit, and the buffer is as long as a separate sum
  over the same conditions says, so the sum covers what is appended whatever the build, the slot and
  the devices are. The texts the caller passes must together stay below 2 GB, since the sum has 32
  bits.\<close>

theorem UpdateCmdLine_complete:
  assumes "UpdateCmdLine env cl ffbm rcv alarm vb hv st = Some (Inr final, st')"
    and "length cl + (case vb of None \<Rightarrow> 0 | Some v \<Rightarrow> length v) + length ffbm +
      length (BoardPlatformChipBaseBand (ce_board env)) < 2 ^ 31"
  shows "\<exists>serial v ptn root display slot.
    BoardSerialNum (ce_misc env) (ce_card_prot env) (ce_card_serial env) '''' = Some (EFI_SUCCESS, serial) \<and>
    le_verity env cl (cs_ptn st) = Some (v, ptn) \<and>
    CheckRootDeviceType (ce_misc env) UNKNOWN = Some root \<and>
    GetDisplayCmdline env (cs_dev st) = Some display \<and>
    (if PartitionHasMultiSlot ptn ''boot'' \<and> \<not> cs_boot_dev_image st
     then slot_parts (ce_sw env) (fst (GetCurrentSlotSuffix ptn)) = Some slot else slot = []) \<and>
    final = cl @ concat (cmd_parts (ce_sw env) (cs_boot_dev_image st) (BoardPlatformChipBaseBand (ce_board env)) slot
      ((cmd_params_of env cl ffbm rcv alarm vb hv root (ascii serial) display (st\<lparr>cs_ptn := ptn\<rparr>))
        \<lparr>p_LEVerityCmdLine := map_option fst v\<rparr>))"
proof -
  let ?bb = "BoardPlatformChipBaseBand (ce_board env)" and ?bd = "cs_boot_dev_image st"
  obtain serial v ptn root display where
    serial: "BoardSerialNum (ce_misc env) (ce_card_prot env) (ce_card_serial env) '''' = Some (EFI_SUCCESS, serial)"
    and v: "le_verity env cl (cs_ptn st) = Some (v, ptn)"
    and root: "CheckRootDeviceType (ce_misc env) UNKNOWN = Some root"
    and display: "GetDisplayCmdline env (cs_dev st) = Some display"
    and call: "UpdateCmdLineParams env ((cmd_params_of env cl ffbm rcv alarm vb hv root (ascii serial) display (st\<lparr>cs_ptn := ptn\<rparr>))
      \<lparr>p_CmdLineLen := CmdLineLen (ce_sw env) ?bd ?bb (case v of None \<Rightarrow> 0 | Some (t, n) \<Rightarrow> n)
         (cmd_params_of env cl ffbm rcv alarm vb hv root (ascii serial) display (st\<lparr>cs_ptn := ptn\<rparr>)),
       p_LEVerityCmdLine := map_option fst v\<rparr>) (st\<lparr>cs_ptn := ptn\<rparr>) = Some (Inr final, st')"
    using assms(1)
    by (auto simp: UpdateCmdLine_def Let_def split: Option.bind_split_asm prod.split_asm if_split_asm)
  let ?q = "cmd_params_of env cl ffbm rcv alarm vb hv root (ascii serial) display (st\<lparr>cs_ptn := ptn\<rparr>)"
  let ?p = "?q\<lparr>p_LEVerityCmdLine := map_option fst v\<rparr>"
  have vn: "(case map_option fst v of None \<Rightarrow> 0 | Some t \<Rightarrow> of_nat (length t + 1)) = (case v of None \<Rightarrow> 0 | Some (t, n) \<Rightarrow> n)"
    and vl: "(case map_option fst v of None \<Rightarrow> 0 | Some t \<Rightarrow> length t) \<le> 511"
    using v le_verity_counted by (auto split: option.splits)
  have q: "p_CmdLine ?q = cl" "p_VBCmdLine ?q = vb" "p_FfbmStr ?q = ffbm" "p_HaveCmdLine ?q \<longleftrightarrow> cl \<noteq> []"
    "p_StrSerialNum ?q = ascii serial" "p_DisplayCmdLine ?q = display" "p_BootDevBuf ?q = boot_dev_text env root"
    "p_DtboIdxStr ?q = idx_text env AndroidBootDtboIdx (DtboIdx (cs_dt st))"
    "p_DtbIdxStr ?q = idx_text env AndroidBootDtbIdx (DtbIdx (cs_dt st))"
    "p_SoftSkuStr ?q = softsku_text (BoardSoftSkuId (ce_board env))"
    "p_MultiSlotBoot ?q = PartitionHasMultiSlot ptn ''boot''" "length (p_FstabSuffix ?q) \<le> 7"
    by (simp_all add: cmd_params_of_def)
  define r where "r = ?q\<lparr>p_CmdLineLen := CmdLineLen (ce_sw env) ?bd ?bb (case v of None \<Rightarrow> 0 | Some (t, n) \<Rightarrow> n) ?q,
    p_LEVerityCmdLine := map_option fst v\<rparr>"
  have len: "p_CmdLineLen r = CmdLineLen (ce_sw env) ?bd ?bb
      (case p_LEVerityCmdLine r of None \<Rightarrow> 0 | Some v \<Rightarrow> of_nat (length v + 1)) r"
    unfolding r_def len_unused(1) using vn by simp
  have parts: "cmd_parts sw bd bb slot r = cmd_parts sw bd bb slot ?p" for sw bd bb slot
    unfolding r_def by (rule len_unused(3))
  have r: "p_CmdLine r = cl" "p_VBCmdLine r = vb" "p_FfbmStr r = ffbm" "p_HaveCmdLine r \<longleftrightarrow> cl \<noteq> []"
    "length (p_StrSerialNum r) \<le> 8" "length (p_DisplayCmdLine r) \<le> 384" "length (p_DtboIdxStr r) \<le> 63"
    "length (p_DtbIdxStr r) \<le> 63" "length (p_SoftSkuStr r) \<le> 22" "length (p_FstabSuffix r) \<le> 7"
    "p_MultiSlotBoot r = PartitionHasMultiSlot ptn ''boot''" "p_LEVerityCmdLine r = map_option fst v"
    using q BoardSerialNum_short [OF serial] display_short [OF display] idx_short softsku_short by (simp_all add: r_def)
  have boot: "length b \<le> 31" if "p_BootDevBuf r = Some b" for b
    using that boot_dev_short q(7) by (simp add: r_def)
  have "\<exists>slot. (if PartitionHasMultiSlot ptn ''boot'' \<and> \<not> ?bd
     then slot_parts (ce_sw env) (fst (GetCurrentSlotSuffix ptn)) = Some slot else slot = []) \<and>
    final = cl @ concat (cmd_parts (ce_sw env) ?bd ?bb slot ?p)"
  proof (rule UpdateCmdLineParams_complete [OF call [folded r_def]])
    fix slot
    assume "if p_MultiSlotBoot r \<and> \<not> cs_boot_dev_image (st\<lparr>cs_ptn := ptn\<rparr>)
        then slot_parts (ce_sw env) (fst (GetCurrentSlotSuffix (cs_ptn (st\<lparr>cs_ptn := ptn\<rparr>)))) = Some slot else slot = []"
      and "final = p_CmdLine r @ concat (cmd_parts (ce_sw env) (cs_boot_dev_image (st\<lparr>cs_ptn := ptn\<rparr>)) ?bb slot r)"
    then show ?thesis using parts r(1,11) by (intro exI [of _ slot]) (auto split: if_split_asm)
  qed (use len r boot assms(2) vl in simp_all)
  then show ?thesis using serial v root display by blast
qed

section \<open>An example\<close>

definition demo_charger :: charger_env where
  "demo_charger = \<lparr>chg_locate = EFI_NOT_FOUND, chg_new = False, off_mode = (EFI_SUCCESS, False), pon_locate = EFI_NOT_FOUND,
     pon_get = Inl EFI_NOT_FOUND, warm_get = Inl EFI_NOT_FOUND, present_get = Inl EFI_NOT_FOUND,
     power_ok = Inl EFI_NOT_FOUND, batt_present = Inl EFI_NOT_FOUND, batt_voltage = Inl EFI_NOT_FOUND\<rparr>"

definition demo_cmd_env :: cmd_env where
  "demo_cmd_env = \<lparr>ce_sw = \<lparr>IsDynamicPartitionSupport = True, IsBuildUseRecoveryAsBoot = True,
       IsBuildAsSystemRootImage = True, build_variant_user = True, IsLEVariant = False, IsSystemdBootslotEnabled = True\<rparr>,
     ce_pool = (\<lambda>_. True), ce_misc = demo_misc_env (demo_dev 4096 3) [], ce_card_prot = (\<lambda>_. EFI_SUCCESS),
     ce_card_serial = Some ([1, 2, 3, 4], 4), ce_boot_dev = Inr 0x1D84000,
     ce_board = \<lparr>RamPartitionEntries = None, platform_board_info = zero_BoardInfo\<lparr>ChipBaseBand := ''MSM'', SoftSkuId := 12\<rparr>\<rparr>,
     ce_charger = demo_charger, ce_mdtp_support = False, ce_mdtp_prot = EFI_NOT_FOUND, ce_mdtp_get = Inl EFI_NOT_FOUND,
     ce_panel = ascii '' panel'', ce_verity = False, ce_squashfs = False\<rparr>"

definition demo_cmd_state :: cmd_state where
  "demo_cmd_state = \<lparr>cs_ptn = demo_slots, cs_dev = dev_start, cs_dt = dt_state0, cs_boot_dev_image = False\<rparr>"

lemma demo_slot: "PartitionHasMultiSlot demo_slots ''boot''" "GetCurrentSlotSuffix demo_slots = (''_a'', demo_slots)"
proof -
  show "PartitionHasMultiSlot demo_slots ''boot''"
    by (simp add: PartitionHasMultiSlot_def demo_slots_def demo_entry_def slot_entry_def StrnCmp_def char_at_def)
  then show "GetCurrentSlotSuffix demo_slots = (''_a'', demo_slots)"
    by (simp add: GetCurrentSlotSuffix_def demo_active)
qed

lemma digits_not_Nil [simp]: "digits b n \<noteq> []"
  by (simp add: digits.simps [of b n] Let_def)

lemma demo_cmd_serial:
  "\<exists>serial. BoardSerialNum (ce_misc demo_cmd_env) (ce_card_prot demo_cmd_env) (ce_card_serial demo_cmd_env) '''' =
     Some (EFI_SUCCESS, serial) \<and> serial \<noteq> ''''"
  by (simp add: BoardSerialNum_def demo_card demo_root_search demo_cmd_env_def)
    (simp add: demo_misc_env_def ram_env_def ToLower_def)

lemma demo_cmd_display: "\<exists>t. GetDisplayCmdline demo_cmd_env dev_start = Some t"
  by (simp add: GetDisplayCmdline_def cstring_at_def ReadDisplayCmdLine_def dev_start_def zero_DeviceInfo_def
      demo_cmd_env_def Let_def)

text \<open>On the example device, booting slot \<open>a\<close>, everything is passed on.\<close>

lemma demo_UpdateCmdLine:
  "\<exists>final st'. UpdateCmdLine demo_cmd_env (ascii ''quiet'') [] False False None 3 demo_cmd_state = Some (Inr final, st')"
proof -
  obtain serial where serial: "BoardSerialNum (ce_misc demo_cmd_env) (ce_card_prot demo_cmd_env) (ce_card_serial demo_cmd_env) '''' =
     Some (EFI_SUCCESS, serial)" "serial \<noteq> ''''" using demo_cmd_serial by blast
  obtain t where t: "GetDisplayCmdline demo_cmd_env dev_start = Some t" using demo_cmd_display by blast
  have v: "le_verity demo_cmd_env c demo_slots = Some (None, demo_slots)" for c
    by (simp add: le_verity_def demo_cmd_env_def)
  have root: "CheckRootDeviceType (ce_misc demo_cmd_env) UNKNOWN = Some UFS"
    by (simp add: demo_cmd_env_def demo_card)
  have st: "cs_ptn demo_cmd_state = demo_slots" "cs_dev demo_cmd_state = dev_start" "\<not> cs_boot_dev_image demo_cmd_state"
    "demo_cmd_state\<lparr>cs_ptn := demo_slots\<rparr> = demo_cmd_state" by (simp_all add: demo_cmd_state_def)
  have pool: "ce_pool demo_cmd_env n" for n by (simp add: demo_cmd_env_def)
  have slot: "\<exists>s. slot_parts (ce_sw demo_cmd_env) ''_a'' = Some s" by (simp add: slot_parts_def demo_cmd_env_def)
  have "\<exists>final st'. UpdateCmdLineParams demo_cmd_env p demo_cmd_state = Some (Inr final, st')" for p
    using slot by (auto simp: UpdateCmdLineParams_def pool st demo_slot(2) Let_def)
  then show ?thesis
    by (simp add: UpdateCmdLine_def serial v st pool root t Let_def)
qed

theorem UpdateCmdLine_complete_witness:
  "\<exists>final st' parts. UpdateCmdLine demo_cmd_env (ascii ''quiet'') [] False False None 3 demo_cmd_state =
      Some (Inr final, st') \<and> SystemdSlotEnv \<in> set parts \<and> final = ascii ''quiet'' @ concat parts"
proof -
  obtain final st' where c: "UpdateCmdLine demo_cmd_env (ascii ''quiet'') [] False False None 3 demo_cmd_state =
    Some (Inr final, st')" using demo_UpdateCmdLine by blast
  have l: "length (ascii ''quiet'') + (case (None :: bytes option) of None \<Rightarrow> 0 | Some v \<Rightarrow> length v) + length ([] :: bytes) +
      length (BoardPlatformChipBaseBand (ce_board demo_cmd_env)) < 2 ^ 31"
    by (simp add: demo_cmd_env_def BoardPlatformChipBaseBand_def)
  have v: "le_verity demo_cmd_env x demo_slots = Some (None, demo_slots)" for x
    by (simp add: le_verity_def demo_cmd_env_def)
  have st: "cs_ptn demo_cmd_state = demo_slots" "\<not> cs_boot_dev_image demo_cmd_state" by (simp_all add: demo_cmd_state_def)
  have s: "slot_parts (ce_sw demo_cmd_env) ''_a'' = Some [SystemdSlotEnv]"
    by (simp add: slot_parts_def demo_cmd_env_def SystemdSlotEnv_def ascii_def)
  from UpdateCmdLine_complete [OF c l] obtain root display serial where
    "final = ascii ''quiet'' @ concat (cmd_parts (ce_sw demo_cmd_env) False (BoardPlatformChipBaseBand (ce_board demo_cmd_env))
      [SystemdSlotEnv] ((cmd_params_of demo_cmd_env (ascii ''quiet'') [] False False None 3 root (ascii serial) display
        (demo_cmd_state\<lparr>cs_ptn := demo_slots\<rparr>))\<lparr>p_LEVerityCmdLine := None\<rparr>))"
    by (auto simp: v st demo_slot s)
  moreover have "SystemdSlotEnv \<in> set (cmd_parts sw b bb [SystemdSlotEnv] p)" for sw b bb p
    by (simp add: cmd_parts_def)
  ultimately show ?thesis using c by blast
qed

end
