(* ===== verification/KernelImage.thy ===== *)
theory KernelImage
  imports BootImage DtbQueue
begin

text \<open>
  Placing the kernel (\<open>BootLinux.c\<close>, \<open>Decompress.c\<close>): which kind of kernel an image holds, the addresses
  for the kernel, the device tree and the ramdisk, and copying or decompressing the kernel to its
  address. zlib is a parameter.

  Memory at the load addresses is a function from addresses to bytes; the loaded images are buffers
  of their own, as they are for the boot loader, which reserves the kernel's region.
\<close>

section \<open>Load addresses\<close>

text \<open>\<open>LOCAL_ROUND_TO_PAGE\<close> on 32 bits.\<close>

definition round_page32 :: "u32 \<Rightarrow> u32 \<Rightarrow> u32" where
  "round_page32 x y = (x + (y - 1)) AND NOT (y - 1)"

abbreviation (input) DT_SIZE_2MB :: u32 where "DT_SIZE_2MB \<equiv> 0x200000"
abbreviation (input) KERNEL_32BIT_LOAD_OFFSET :: u64 where "KERNEL_32BIT_LOAD_OFFSET \<equiv> 0x8000"
abbreviation (input) KERNEL_64BIT_LOAD_OFFSET :: u64 where "KERNEL_64BIT_LOAD_OFFSET \<equiv> 0x80000"
abbreviation (input) KernelLoadAddress32 :: u64 where "KernelLoadAddress32 \<equiv> 0x8000"
abbreviation (input) KernelLoadAddress :: u64 where "KernelLoadAddress \<equiv> 0x80000"
abbreviation (input) RamdiskEndAddress32 :: u64 where "RamdiskEndAddress32 \<equiv> 0x03C00000"
abbreviation (input) RamdiskEndAddress :: u64 where "RamdiskEndAddress \<equiv> 0x05600000"

text \<open>The region of the memory map with the name \<open>Kernel\<close>: its address and its length.\<close>

definition QueryBootParams :: "(efi_status + (u64 \<times> u64)) \<Rightarrow> (u64 \<times> u64) option" where
  "QueryBootParams region = (case region of
     Inl s \<Rightarrow> None
   | Inr r \<Rightarrow> Some r)"

definition kernel_region :: "(efi_status + (u64 \<times> u64)) \<Rightarrow> boot_params \<Rightarrow> boot_params" where
  "kernel_region region p = (case QueryBootParams region of
     Some (a, sz) \<Rightarrow> p\<lparr>
       KernelLoadAddr := a + (if BootingWith32BitKernel p then KERNEL_32BIT_LOAD_OFFSET else KERNEL_64BIT_LOAD_OFFSET),
       KernelEndAddr := a + sz\<rparr>
   | None \<Rightarrow>
       if BootingWith32BitKernel p
       then p\<lparr>KernelLoadAddr := BaseMemory p OR KernelLoadAddress32, KernelEndAddr := BaseMemory p + RamdiskEndAddress32\<rparr>
       else p\<lparr>KernelLoadAddr := BaseMemory p OR KernelLoadAddress, KernelEndAddr := BaseMemory p + RamdiskEndAddress\<rparr>)"

definition UpdateBootParams :: "(efi_status + (u64 \<times> u64)) \<Rightarrow> boot_params \<Rightarrow> efi_status \<times> boot_params" where
  "UpdateBootParams region p =
     (let p1 = kernel_region region p;
          p2 = p1\<lparr>RamdiskLoadAddr := KernelEndAddr p1 -
                 ucast (round_page32 (RamdiskSize p1 + VendorRamdiskSize p1) (PageSize p1) + PageSize p1)\<rparr>;
          p3 = p2\<lparr>DeviceTreeLoadAddr := RamdiskLoadAddr p2 - ucast (DT_SIZE_2MB + PageSize p2)\<rparr>
      in (if DeviceTreeLoadAddr p3 \<le> KernelLoadAddr p3 then EFI_BUFFER_TOO_SMALL else EFI_SUCCESS, p3))"

section \<open>The kind of the kernel\<close>

definition is_gzip_package :: "bytes \<Rightarrow> u32 \<Rightarrow> bool" where
  "is_gzip_package b len \<longleftrightarrow> \<not> len < 10 \<and> take 3 b = [0x1f, 0x8b, 0x08]"

abbreviation (input) PATCHED_KERNEL_MAGIC :: string where "PATCHED_KERNEL_MAGIC \<equiv> ''UNCOMPRESSED_IMG''"
abbreviation (input) PATCHED_KERNEL_HEADER_SIZE :: u32 where "PATCHED_KERNEL_HEADER_SIZE \<equiv> 20"
abbreviation (input) KERNEL64_HDR_MAGIC :: u32 where "KERNEL64_HDR_MAGIC \<equiv> 0x644D5241"

text \<open>The kernel in the boot image, behind the header's page.\<close>

definition kernel_bytes :: "boot_params \<Rightarrow> bytes" where
  "kernel_bytes p = drop (unat (PageSize p)) (im_data (ImageBuffer p))"

definition is_patched :: "bytes \<Rightarrow> bool" where
  "is_patched k = (take 16 k = ascii PATCHED_KERNEL_MAGIC)"

definition UpdateKernelModeAndPkg :: "boot_params \<Rightarrow> boot_params option" where
  "UpdateKernelModeAndPkg p =
     (let p0 = p\<lparr>BootingWith32BitKernel := False\<rparr>; k = kernel_bytes p in
      if is_gzip_package k (KernelSize p) then Some (p0\<lparr>BootingWithGzipPkgKernel := True\<rparr>)
      else let patched = is_patched k; k1 = (if patched then drop 20 k else k) in do {
        m \<leftarrow> get32 k1 56;
        let p1 = (if patched then p0\<lparr>BootingWithPatchedKernel := True\<rparr> else p0);
        Some (if m \<noteq> KERNEL64_HDR_MAGIC then p1\<lparr>BootingWith32BitKernel := True\<rparr> else p1)
      })"

section \<open>Decompression\<close>

text \<open>zlib: whether \<open>inflateInit2\<close> succeeds, and what \<open>inflate\<close> does with an input and the room for its
  output: its result, how many bytes it takes, and the bytes it writes.\<close>

datatype z_result = Z_OK | Z_STREAM_END | Z_OTHER

record zlib =
  z_init :: bool
  z_inflate :: "bytes \<Rightarrow> nat \<Rightarrow> z_result \<times> nat \<times> bytes"

abbreviation (input) GZIP_HEADER_LEN :: nat where "GZIP_HEADER_LEN \<equiv> 10"
abbreviation (input) GZIP_FILENAME_LIMIT :: nat where "GZIP_FILENAME_LIMIT \<equiv> 256"

text \<open>Skipping the file name: the next position and the length that is left, none for a header error.
  The name's terminator is skipped without being counted.\<close>

function skip_name :: "bytes \<Rightarrow> nat \<Rightarrow> nat \<Rightarrow> nat \<Rightarrow> (nat \<times> nat) option option" where
  "skip_name b i pos avail =
     (if GZIP_FILENAME_LIMIT \<le> i then Some (Some (pos, avail))
      else if length b \<le> pos then None
      else if b ! pos = 0 then Some (Some (pos + 1, avail))
      else if avail = 0 then Some None
      else skip_name b (i + 1) (pos + 1) (avail - 1))"
  by pat_completeness auto
termination by (relation "measure (\<lambda>(b, i, pos, avail). GZIP_FILENAME_LIMIT - i)") auto

declare skip_name.simps [simp del]

text \<open>The size of \<open>struct z_stream_s\<close> is 112. The result is none for a failure, and otherwise the end of the
  package and the length of the output; the output is written in both cases.\<close>

definition decompress :: "zlib \<Rightarrow> (nat \<Rightarrow> bool) \<Rightarrow> bytes \<Rightarrow> u32 \<Rightarrow> u64 \<Rightarrow> u32 \<Rightarrow> mem \<Rightarrow> ((u32 \<times> u32) option \<times> mem) option" where
  "decompress z pool in_buf in_len out_buf out_buf_len m =
     (if unat in_len \<le> GZIP_HEADER_LEN then Some (None, m)
      else if out_buf_len \<le> in_len then Some (None, m)
      else if \<not> pool 112 then Some (None, m)
      else if length in_buf < GZIP_HEADER_LEN then None
      else do {
        r \<leftarrow> (if (in_buf ! 3) AND 8 \<noteq> 0 then skip_name in_buf 0 GZIP_HEADER_LEN (unat in_len - GZIP_HEADER_LEN)
              else Some (Some (GZIP_HEADER_LEN, unat in_len - GZIP_HEADER_LEN)));
        (case r of
          None \<Rightarrow> Some (None, m)
        | Some (pos, avail) \<Rightarrow>
            if \<not> z_init z then Some (None, m)
            else (case z_inflate z (slice pos avail in_buf) (unat out_buf_len) of (rc, used, out) \<Rightarrow>
              Some (if rc = Z_STREAM_END then Some (of_nat (pos + used + 8), of_nat (length out)) else None,
                    CopyMem m out_buf out)))
      })"

section \<open>Copying the kernel\<close>

text \<open>Fields of the kernel's header, at an address of the memory.\<close>

definition magic_64 :: "mem \<Rightarrow> u64 \<Rightarrow> u32" where "magic_64 m a = GET_LWORD_FROM_BYTE (mem_range m (a + 56) 4)"
definition kernel_ImageSize :: "mem \<Rightarrow> u64 \<Rightarrow> u64" where "kernel_ImageSize m a = GET_LLWORD_FROM_BYTE (mem_range m (a + 16) 8)"

text \<open>The last check, with the header's magic number and size.\<close>

definition kernel_fits :: "u32 \<Rightarrow> u64 \<Rightarrow> boot_params \<Rightarrow> efi_status \<times> boot_params" where
  "kernel_fits magic isz p =
     (if magic \<noteq> KERNEL64_HDR_MAGIC then (EFI_SUCCESS, p\<lparr>BootingWith32BitKernel := True\<rparr>)
      else if isz > DeviceTreeLoadAddr p - KernelLoadAddr p then (EFI_OUT_OF_RESOURCES, p)
      else (EFI_SUCCESS, p))"

definition unpack_kernel :: "zlib \<Rightarrow> (nat \<Rightarrow> bool) \<Rightarrow> boot_params \<Rightarrow> mem \<Rightarrow> (efi_status \<times> boot_params \<times> mem) option" where
  "unpack_kernel z pool p m =
     (let OutAvaiLen = DeviceTreeLoadAddr p - KernelLoadAddr p in
      if OutAvaiLen > ucast MAX_UINT32 then Some (EFI_BAD_BUFFER_SIZE, p, m)
      else do {
        (r, m1) \<leftarrow> decompress z pool (kernel_bytes p) (KernelSize p) (KernelLoadAddr p) (ucast OutAvaiLen) m;
        (case r of
          None \<Rightarrow> Some (EFI_OUT_OF_RESOURCES, p, m1)
        | Some (pos, OutLen) \<Rightarrow>
            let p1 = p\<lparr>DtbOffset := pos\<rparr> in
            if OutLen \<le> 8 then Some (EFI_OUT_OF_RESOURCES, p1, m1)
            else (case kernel_fits (magic_64 m1 (KernelLoadAddr p)) (kernel_ImageSize m1 (KernelLoadAddr p)) p1 of
              (s, p2) \<Rightarrow> Some (s, p2, m1)))
      })"

definition copy_kernel :: "boot_params \<Rightarrow> mem \<Rightarrow> (efi_status \<times> boot_params \<times> mem) option" where
  "copy_kernel p m = do {
     let k = kernel_bytes p;
     p1 \<leftarrow> (if BootingWithPatchedKernel p
           then map_option (\<lambda>off. p\<lparr>DtbOffset := off, PatchedKernelHdrSize := PATCHED_KERNEL_HEADER_SIZE\<rparr>) (get32 k 16)
           else Some p);
     let k1 = (if BootingWithPatchedKernel p then drop 20 k else k);
     magic \<leftarrow> get32 k1 56;
     if magic \<noteq> KERNEL64_HDR_MAGIC \<and> KernelSize p \<le> 0x2C then Some (EFI_BAD_BUFFER_SIZE, p1, m)
     else do {
       p2 \<leftarrow> (if magic \<noteq> KERNEL64_HDR_MAGIC then map_option (\<lambda>off. p1\<lparr>DtbOffset := off\<rparr>) (get32 k1 0x2C) else Some p1);
       isz \<leftarrow> get64 k1 16;
       if length k1 < unat (KernelSize p) then None
       else (case kernel_fits magic isz p2 of
         (s, p3) \<Rightarrow> Some (s, p3, CopyMem m (KernelLoadAddr p) (take (unat (KernelSize p)) k1)))
     }
   }"

definition GZipPkgCheck :: "zlib \<Rightarrow> (nat \<Rightarrow> bool) \<Rightarrow> boot_params \<Rightarrow> mem \<Rightarrow> (efi_status \<times> boot_params \<times> mem) option" where
  "GZipPkgCheck z pool p m = (if BootingWithGzipPkgKernel p then unpack_kernel z pool p m else copy_kernel p m)"

section \<open>Lemmas\<close>

lemma CopyMem_outside: "length v \<le> unat (a - dst) \<Longrightarrow> CopyMem m dst v a = m a"
  by (simp add: CopyMem_def)

lemma CopyMem_inside: "unat (a - dst) < length v \<Longrightarrow> CopyMem m dst v a = v ! unat (a - dst)"
  by (simp add: CopyMem_def)

text \<open>Rounding up to a power of two, where the sum does not wrap.\<close>

lemma round_page_between:
  fixes x y :: u32
  assumes y: "y = 2 ^ k" "k < 32" and fits: "unat x + 2 ^ k \<le> 2 ^ 32"
  shows "unat x \<le> unat (round_page32 x y)" "unat (round_page32 x y) < unat x + 2 ^ k"
proof -
  have m: "y - 1 = mask k" using y(1) by (simp add: mask_eq_exp_minus_1)
  have um: "unat (mask k :: u32) = 2 ^ k - 1"
    using y(2) by (simp add: mask_eq_exp_minus_1 unat_sub_if_size [symmetric] unat_two_power_u32 unat_minus_one)
  have p: "(1 :: nat) \<le> 2 ^ k" by simp
  have "unat (x + mask k) = unat x + (2 ^ k - 1)"
    unfolding um [symmetric] by (rule unat_add_lem [THEN iffD1]) (use fits um p in simp)
  then have r: "unat (round_page32 x y) = (unat x + (2 ^ k - 1)) div 2 ^ k * 2 ^ k"
    unfolding round_page32_def m and_not_mask_nat by simp
  have "(unat x + (2 ^ k - 1)) div 2 ^ k * 2 ^ k + (unat x + (2 ^ k - 1)) mod 2 ^ k = unat x + (2 ^ k - 1)" by (rule div_mult_mod_eq)
  moreover have "(unat x + (2 ^ k - 1)) mod 2 ^ k < (2 :: nat) ^ k" by simp
  ultimately show "unat x \<le> unat (round_page32 x y)" "unat (round_page32 x y) < unat x + 2 ^ k"
    unfolding r using p by linarith+
qed

text \<open>A name that is skipped up to its terminator: the position moves one byte further than the length
  that is left shrinks.\<close>

lemma skip_name_count:
  assumes "b ! (pos + j) = 0" "i + j < GZIP_FILENAME_LIMIT" "pos + j < length b"
  shows "skip_name b i pos avail = Some (Some (pos1, avail1)) \<Longrightarrow> pos1 + avail1 = pos + avail + 1"
  using assms
proof (induction j arbitrary: i pos avail)
  case 0
  then show ?case by (simp add: skip_name.simps [of b i])
next
  case (Suc j)
  show ?case
  proof (cases "b ! pos = 0")
    case True
    then show ?thesis using Suc.prems by (simp add: skip_name.simps [of b i])
  next
    case False
    then have "avail \<noteq> 0" "skip_name b (i + 1) (pos + 1) (avail - 1) = Some (Some (pos1, avail1))"
      using Suc.prems by (auto simp: skip_name.simps [of b i] split: if_split_asm)
    with Suc.IH [of "i + 1" "pos + 1" "avail - 1"] Suc.prems show ?thesis by simp
  qed
qed

section \<open>The regions\<close>

text \<open>C34. The kernel's memory is divided without overlaps. With a page size that is a power of two, sizes
  of the ramdisks that do not come close to 4 GB, and a region that holds them, the device tree lies
  behind the kernel's address with at least 2 MB before the ramdisk, and both ramdisks together end
  before the region does.\<close>

theorem UpdateBootParams_layout:
  assumes "UpdateBootParams region p = (EFI_SUCCESS, p1)"
    and "PageSize p = 2 ^ k" "k < 31"
    and "unat (RamdiskSize p) + unat (VendorRamdiskSize p) + 2 * 2 ^ k \<le> 2 ^ 32"
    and "unat (RamdiskSize p) + unat (VendorRamdiskSize p) + 3 * 2 ^ k + 0x200000 \<le> unat (KernelEndAddr p1)"
  shows "unat (KernelLoadAddr p1) < unat (DeviceTreeLoadAddr p1) \<and>
    unat (DeviceTreeLoadAddr p1) + 0x200000 < unat (RamdiskLoadAddr p1) \<and>
    unat (RamdiskLoadAddr p1) + unat (RamdiskSize p1) + unat (VendorRamdiskSize p1) < unat (KernelEndAddr p1)"
proof -
  let ?q = "kernel_region region p"
  let ?total = "RamdiskSize p + VendorRamdiskSize p"
  let ?round = "round_page32 ?total (PageSize p)"
  have keep [simp]: "RamdiskSize ?q = RamdiskSize p" "VendorRamdiskSize ?q = VendorRamdiskSize p" "PageSize ?q = PageSize p"
    by (simp_all add: kernel_region_def split: option.split)
  have p1: "DeviceTreeLoadAddr p1 = RamdiskLoadAddr p1 - ucast (DT_SIZE_2MB + PageSize p)"
    "RamdiskLoadAddr p1 = KernelEndAddr p1 - ucast (?round + PageSize p)"
    "\<not> DeviceTreeLoadAddr p1 \<le> KernelLoadAddr p1" "RamdiskSize p1 = RamdiskSize p" "VendorRamdiskSize p1 = VendorRamdiskSize p"
    using assms(1) by (auto simp: UpdateBootParams_def Let_def split: if_split_asm)
  have pg: "unat (PageSize p) = 2 ^ k" "(2 :: nat) ^ k \<le> 2 ^ 30"
    using assms(2,3) power_increasing [of k 30 "2 :: nat"] by (simp_all add: unat_two_power_u32)
  have pos: "(0 :: nat) < 2 ^ k" by simp
  have "unat (RamdiskSize p) + unat (VendorRamdiskSize p) < 2 ^ 32" using assms(4) pos by linarith
  then have t: "unat ?total = unat (RamdiskSize p) + unat (VendorRamdiskSize p)"
    by (intro unat_add_lem [THEN iffD1]) simp
  note r = round_page_between [OF assms(2), of ?total] 
  have r1: "unat ?total \<le> unat ?round" "unat ?round < unat ?total + 2 ^ k"
    using r assms(3,4) t by simp_all
  have ur: "unat (?round + PageSize p) = unat ?round + 2 ^ k"
    using pg r1 t assms(4) by (subst unat_add_lem [THEN iffD1]) auto
  have ud: "unat (DT_SIZE_2MB + PageSize p) = 0x200000 + 2 ^ k"
    using pg by (subst unat_add_lem [THEN iffD1]) auto
  have c: "unat (ucast x :: u64) = unat x" for x :: u32 by simp
  have rd: "unat (RamdiskLoadAddr p1) = unat (KernelEndAddr p1) - (unat ?round + 2 ^ k)"
    unfolding p1(2) using assms(5) r1 t by (subst unat_sub) (simp_all add: word_le_nat_alt c ur)
  have dt: "unat (DeviceTreeLoadAddr p1) = unat (RamdiskLoadAddr p1) - (0x200000 + 2 ^ k)"
    unfolding p1(1) using assms(5) r1 t rd by (subst unat_sub) (simp_all add: word_le_nat_alt c ud)
  have "unat (KernelLoadAddr p1) < unat (DeviceTreeLoadAddr p1)" using p1(3) by (simp add: word_le_nat_alt)
  moreover have "unat (DeviceTreeLoadAddr p1) + 0x200000 < unat (RamdiskLoadAddr p1)"
    using dt rd assms(5) r1 t by simp
  moreover have "unat (RamdiskLoadAddr p1) + unat (RamdiskSize p1) + unat (VendorRamdiskSize p1) < unat (KernelEndAddr p1)"
    using rd assms(5) r1 t unfolding p1(4,5) by simp
  ultimately show ?thesis by blast
qed

text \<open>C35. A compressed kernel is unpacked between its address and the device tree. zlib writes no more
  than the room it is given, and the rest of the memory stays as it was, whether the kernel is accepted
  or not.\<close>

theorem unpack_kernel_bounded:
  assumes "\<forall>b n. length (snd (snd (z_inflate z b n))) \<le> n"
    and "KernelLoadAddr p \<le> DeviceTreeLoadAddr p"
    and "unpack_kernel z pool p m = Some (s, p1, m1)"
    and "a < KernelLoadAddr p \<or> DeviceTreeLoadAddr p \<le> a"
  shows "m1 a = m a"
proof -
  let ?room = "DeviceTreeLoadAddr p - KernelLoadAddr p"
  have far: "unat ?room \<le> unat (a - KernelLoadAddr p)"
    using assms(2,4) by unat_arith
  have d: "m2 a = m a" if "decompress z pool b len (KernelLoadAddr p) (ucast ?room) m = Some (r, m2)" "?room \<le> ucast MAX_UINT32" for b len r m2
  proof -
    have u: "unat (ucast ?room :: u32) = unat ?room"
      using that(2) by (simp add: unsigned_ucast_eq take_bit_nat_eq_self_iff word_le_nat_alt)
    have "CopyMem m (KernelLoadAddr p) out a = m a" if "z_inflate z i (unat ?room) = (rc, used, out)" for i rc used out
      using assms(1) [rule_format, of i "unat ?room"] that far by (simp add: CopyMem_outside)
    then show ?thesis using that(1) unfolding decompress_def u
      by (auto split: if_split_asm Option.bind_split_asm option.split_asm prod.split_asm)
  qed
  show ?thesis using assms(3) d
    by (auto simp: unpack_kernel_def Let_def split: if_split_asm Option.bind_split_asm option.split_asm prod.split_asm)
qed

text \<open>A plain kernel overwrites the device tree's place. The kernel is copied with the size of its
  package before anything is compared, and the comparison is with the size the kernel's own header
  states. A kernel of 64 bits whose header states a size that fits is accepted although its package is
  longer than the room, and its bytes lie where the device tree will be.\<close>

theorem copy_kernel_overruns:
  assumes "\<not> BootingWithGzipPkgKernel p" "\<not> BootingWithPatchedKernel p"
    and "get32 (kernel_bytes p) 56 = Some KERNEL64_HDR_MAGIC"
    and "get64 (kernel_bytes p) 16 = Some isz" "isz \<le> DeviceTreeLoadAddr p - KernelLoadAddr p"
    and "unat (DeviceTreeLoadAddr p - KernelLoadAddr p) < unat (KernelSize p)"
    and "unat (KernelSize p) \<le> length (kernel_bytes p)"
  shows "\<exists>m1. GZipPkgCheck z pool p m = Some (EFI_SUCCESS, p, m1) \<and>
    m1 (DeviceTreeLoadAddr p) = kernel_bytes p ! unat (DeviceTreeLoadAddr p - KernelLoadAddr p)"
  using assms by (simp add: GZipPkgCheck_def copy_kernel_def kernel_fits_def CopyMem_def Let_def)

section \<open>An example\<close>

text \<open>An image with pages of 64 bytes that holds a kernel of 128 bytes, whose header states a size of
  64. The room for it is 96 bytes.\<close>

definition demo_kernel :: bytes where
  "demo_kernel = replicate 16 0 @ [64, 0, 0, 0, 0, 0, 0, 0] @ replicate 32 0 @ [0x41, 0x52, 0x4d, 0x64] @ replicate 68 7"

definition demo_params :: boot_params where
  "demo_params = \<lparr>BaseMemory = 0x80000000, ImageBuffer = \<lparr>im_addr = 0x90000000, im_data = replicate 64 0 @ demo_kernel\<rparr>,
     ImageSize = 192, DtboImgBuffer = None, VendorImageBuffer = None, VendorImageSize = 0,
     KernelLoadAddr = 0x80080000, KernelEndAddr = 0x80400000, RamdiskLoadAddr = 0x80300000,
     DeviceTreeLoadAddr = 0x80080060, HypDtboBaseAddr = None, PageSize = 64, KernelSize = 128, SecondSize = 0,
     RamdiskSize = 5000, RamdiskOffset = 192, PatchedKernelHdrSize = 0, DtbOffset = 0, VendorRamdiskSize = 3000,
     KernelSizeActual = 128, FinalCmdLine = [], CmdLine = [], BootingWith32BitKernel = False,
     BootingWithPatchedKernel = False, BootingWithGzipPkgKernel = False\<rparr>"

lemma copy_kernel_overruns_example:
  "\<exists>m1. GZipPkgCheck \<lparr>z_init = True, z_inflate = (\<lambda>b n. (Z_OTHER, 0, []))\<rparr> (\<lambda>n. True) demo_params (\<lambda>a. 0) =
      Some (EFI_SUCCESS, demo_params, m1) \<and> m1 0x80080060 = 7"
proof -
  have k: "kernel_bytes demo_params = demo_kernel" by (simp add: kernel_bytes_def demo_params_def)
  have "get32 demo_kernel 56 = Some KERNEL64_HDR_MAGIC" "get64 demo_kernel 16 = Some 64"
    by (simp_all add: demo_kernel_def get32_def get64_def slice_def GET_LWORD_FROM_BYTE_def GET_LLWORD_FROM_BYTE_def)
  moreover have "demo_kernel ! 96 = 7" "length demo_kernel = 128" by (simp_all add: demo_kernel_def nth_append)
  ultimately show ?thesis
    using copy_kernel_overruns [of demo_params 64 "\<lparr>z_init = True, z_inflate = (\<lambda>b n. (Z_OTHER, 0, []))\<rparr>" "\<lambda>n. True" "\<lambda>a. 0"]
    by (simp add: k) (simp add: demo_params_def)
qed

text \<open>The region of the memory map is 96 MB long.\<close>

lemma UpdateBootParams_layout_witness:
  "let p1 = snd (UpdateBootParams (Inr (0x80000000, 0x06000000)) (demo_params\<lparr>PageSize := 4096\<rparr>)) in
     unat (KernelLoadAddr p1) < unat (DeviceTreeLoadAddr p1) \<and>
     unat (DeviceTreeLoadAddr p1) + 0x200000 < unat (RamdiskLoadAddr p1) \<and>
     unat (RamdiskLoadAddr p1) + 5000 + 3000 < 0x86000000"
proof -
  let ?p = "demo_params\<lparr>PageSize := 4096\<rparr>"
  obtain s p1 where u: "UpdateBootParams (Inr (0x80000000, 0x06000000)) ?p = (s, p1)" by fastforce
  have "round_page32 8000 4096 = 8192" by (simp add: round_page32_def)
  then have r: "s = EFI_SUCCESS" "KernelEndAddr p1 = 0x86000000" "RamdiskSize p1 = 5000" "VendorRamdiskSize p1 = 3000"
    using u by (auto simp: UpdateBootParams_def kernel_region_def QueryBootParams_def demo_params_def Let_def)
  show ?thesis using UpdateBootParams_layout [OF u [unfolded r(1)], of 12] r u
    by (simp add: Let_def) (simp add: demo_params_def)
qed

text \<open>A decompressor that copies what fits: a compressed package of 20 bytes.\<close>

lemma unpack_kernel_bounded_witness:
  "\<exists>s p1 m1. unpack_kernel \<lparr>z_init = True, z_inflate = (\<lambda>b n. (Z_STREAM_END, length b, take n b))\<rparr> (\<lambda>n. True)
       (demo_params\<lparr>KernelSize := 20\<rparr>) (\<lambda>a. 9) = Some (s, p1, m1) \<and> m1 0x80080060 = 9"
proof -
  let ?z = "\<lparr>z_init = True, z_inflate = (\<lambda>b n. (Z_STREAM_END, length b, take n b))\<rparr>"
  let ?p = "demo_params\<lparr>KernelSize := 20\<rparr>"
  have "\<exists>s p1 m1. unpack_kernel ?z (\<lambda>n. True) ?p (\<lambda>a. 9) = Some (s, p1, m1)"
    by (simp add: unpack_kernel_def demo_params_def decompress_def kernel_bytes_def demo_kernel_def nth_append Let_def split: prod.split)
  then obtain s p1 m1 where u: "unpack_kernel ?z (\<lambda>n. True) ?p (\<lambda>a. 9) = Some (s, p1, m1)" by blast
  have "m1 0x80080060 = 9"
    by (rule unpack_kernel_bounded [OF _ _ u]) (simp_all add: demo_params_def)
  then show ?thesis using u by blast
qed

end
