(* ===== verification/FdtRw.thy ===== *)
theory FdtRw
  imports MiscPartition
begin

text \<open>
  Searching and editing a device tree (\<open>FdtRw.c\<close>): a search for nodes by their path that keeps a
  list of the nodes of the first level it has seen, and property updates that correct the offsets
  in that list.

  The device tree is libfdt's: its type is a parameter, and so are its functions, which return an
  error as a negative number. The list is part of the state of every search and update.
\<close>

section \<open>libfdt\<close>

text \<open>The functions of libfdt that are used: the header check, the next node with its depth, the
  characters from a node's name on, searches by path and by subnode, the first and the next subnode
  of a node, and reading, setting, extending and overwriting a property. \<open>rw_new\<close> is
  \<open>EnableNewNodeSearchFuc\<close>, \<open>rw_pool\<close> the allocator, and \<open>rw_behind n\<close> tells whether the bytes
  behind a path's terminator hold the value \<open>n\<close>.\<close>

record 'f fdt_rw =
  rw_header :: "'f \<Rightarrow> int"
  rw_next :: "'f \<Rightarrow> int \<Rightarrow> int \<Rightarrow> int \<times> int"
  rw_ptr :: "'f \<Rightarrow> int \<Rightarrow> nat \<Rightarrow> string option"
  rw_path :: "'f \<Rightarrow> string \<Rightarrow> int"
  rw_subnode :: "'f \<Rightarrow> int \<Rightarrow> string \<Rightarrow> int"
  rw_first :: "'f \<Rightarrow> int \<Rightarrow> int"
  rw_nextsub :: "'f \<Rightarrow> int \<Rightarrow> int"
  rw_getprop :: "'f \<Rightarrow> int \<Rightarrow> string \<Rightarrow> bytes option"
  rw_setprop :: "'f \<Rightarrow> int \<Rightarrow> string \<Rightarrow> bytes \<Rightarrow> int \<times> 'f"
  rw_appendprop :: "'f \<Rightarrow> int \<Rightarrow> string \<Rightarrow> bytes \<Rightarrow> int \<times> 'f"
  rw_inplace :: "'f \<Rightarrow> int \<Rightarrow> string \<Rightarrow> bytes \<Rightarrow> int \<times> 'f"
  rw_open :: "'f \<Rightarrow> nat \<Rightarrow> int \<times> 'f"
  rw_pack :: "'f \<Rightarrow> 'f"
  rw_new :: bool
  rw_pool :: "nat \<Rightarrow> bool"
  rw_behind :: "nat \<Rightarrow> bool"

section \<open>The node list\<close>

type_synonym node_list = "(string \<times> int) list"

definition cstring :: "string \<Rightarrow> string" where
  "cstring s = takeWhile (\<lambda>c. c \<noteq> CHR 0x00) s"

definition GetNodeNameLen :: "string \<Rightarrow> nat" where
  "GetNodeNameLen NodeName = length (takeWhile (\<lambda>c. c \<noteq> CHR ''{'') NodeName)"

definition IsNodeAdded :: "node_list \<Rightarrow> string \<Rightarrow> nat \<Rightarrow> bool" where
  "IsNodeAdded nl NodeName NameLen = list_ex (\<lambda>(n, off). \<not> AsciiStrnCmp n NodeName NameLen) nl"

text \<open>A node or a name that cannot be allocated empties the list. A list node has 24 bytes.\<close>

definition FdtAppendToNodeList :: "(nat \<Rightarrow> bool) \<Rightarrow> string \<Rightarrow> int \<Rightarrow> node_list \<Rightarrow> node_list" where
  "FdtAppendToNodeList pool NodeName NodeOffset nl =
     (let NameLen = GetNodeNameLen NodeName in
      if IsNodeAdded nl NodeName NameLen then nl
      else if \<not> pool 24 then []
      else if \<not> pool (NameLen + 1) then []
      else (take NameLen NodeName, NodeOffset) # nl)"

fun find_node :: "node_list \<Rightarrow> string \<Rightarrow> nat \<Rightarrow> int option" where
  "find_node [] Name NameLen = None"
| "find_node ((n, off) # nl) Name NameLen = (if \<not> AsciiStrnCmp n Name NameLen then Some off else find_node nl Name NameLen)"

definition FdtFindNodeFromList :: "node_list \<Rightarrow> string \<Rightarrow> nat \<Rightarrow> bool \<times> int" where
  "FdtFindNodeFromList nl Name NameLen = (case find_node nl Name NameLen of
     Some off \<Rightarrow> (True, off)
   | None \<Rightarrow> (False, case nl of [] \<Rightarrow> 0 | (n, off) # r \<Rightarrow> off))"

fun shift_nodes :: "node_list \<Rightarrow> int \<Rightarrow> int \<Rightarrow> node_list" where
  "shift_nodes [] NodeOffset DiffLen = []"
| "shift_nodes ((n, off) # nl) NodeOffset DiffLen =
     (if off > NodeOffset then (n, off + DiffLen) # shift_nodes nl NodeOffset DiffLen else (n, off) # nl)"

definition FdtUpdateNodeOffsetInList :: "node_list \<Rightarrow> int \<Rightarrow> int \<Rightarrow> node_list" where
  "FdtUpdateNodeOffsetInList nl NodeOffset DiffLen = (if DiffLen = 0 then nl else shift_nodes nl NodeOffset DiffLen)"

section \<open>Finding a node\<close>

text \<open>The arguments of \<open>ScanMem8\<close> are the memory, its length and the value; the call passes the
  character \<open>@\<close> as the length and the name's length as the value. The memory is the rest of the path
  with its terminator, and what is behind.\<close>

definition scan_swapped :: "(nat \<Rightarrow> bool) \<Rightarrow> string \<Rightarrow> nat \<Rightarrow> bool" where
  "scan_swapped behind Source Len =
     (let v = Len mod 256 in
      v \<in> set (List.map of_char (take 64 (Source @ [CHR 0x00]))) \<or> length Source + 1 < 64 \<and> behind v)"

definition FdtNodeNameEq :: "'f fdt_rw \<Rightarrow> 'f \<Rightarrow> int \<Rightarrow> string \<Rightarrow> nat \<Rightarrow> bool" where
  "FdtNodeNameEq L Fdt Offset Source Len = (case rw_ptr L Fdt Offset (Len + 1) of
     None \<Rightarrow> False
   | Some Ptr \<Rightarrow> Len < length Ptr \<and> take Len Ptr = take Len Source \<and>
       (Ptr ! Len = CHR 0x00 \<or> \<not> scan_swapped (rw_behind L) Source Len \<and> Ptr ! Len = CHR ''@''))"

text \<open>The walk over the nodes. At depth 1 a search of the first level adds the node to the list.\<close>

partial_function (option) node_walk ::
    "'f fdt_rw \<Rightarrow> 'f \<Rightarrow> string \<Rightarrow> nat \<Rightarrow> bool \<Rightarrow> int \<Rightarrow> int \<Rightarrow> node_list \<Rightarrow> (int \<times> node_list) option" where
  "node_walk L Fdt Name NameLen first Offset Depth nl =
     (if Offset < 0 \<or> Depth < 0 then Some (if Depth < 0 then - 1 else Offset, nl)
      else if Depth \<noteq> 1 then
        (case rw_next L Fdt Offset Depth of (o1, d1) \<Rightarrow> node_walk L Fdt Name NameLen first o1 d1 nl)
      else (case rw_ptr L Fdt Offset (NameLen + 1) of
        None \<Rightarrow> if first then Some (0, nl)
          else (case rw_next L Fdt Offset Depth of (o1, d1) \<Rightarrow> node_walk L Fdt Name NameLen first o1 d1 nl)
      | Some Ptr \<Rightarrow>
          let nl1 = (if first then FdtAppendToNodeList (rw_pool L) (cstring Ptr) Offset nl else nl) in
          if FdtNodeNameEq L Fdt Offset Name NameLen then Some (Offset, nl1)
          else (case rw_next L Fdt Offset Depth of (o1, d1) \<Rightarrow> node_walk L Fdt Name NameLen first o1 d1 nl1)))"

definition FdtSubnodeOffsetNamelen ::
    "'f fdt_rw \<Rightarrow> 'f \<Rightarrow> int \<Rightarrow> string \<Rightarrow> nat \<Rightarrow> nat \<Rightarrow> node_list \<Rightarrow> (int \<times> node_list) option" where
  "FdtSubnodeOffsetNamelen L Fdt Offset Name NameLen Level nl =
     (if rw_header L Fdt \<noteq> 0 then Some (rw_header L Fdt, nl)
      else if Level = 0 then
        (case FdtFindNodeFromList nl Name NameLen of (found, o1) \<Rightarrow>
          if found then Some (o1, nl)
          else node_walk L Fdt Name NameLen True o1 (if o1 \<noteq> 0 then 1 else 0) nl)
      else node_walk L Fdt Name NameLen False Offset 0 nl)"

text \<open>One component of the path after the other.\<close>

lemma path_step_less:
  assumes "dropWhile (\<lambda>c. c = CHR ''/'') Path \<noteq> []"
  shows "length (drop (length (takeWhile (\<lambda>c. c \<noteq> CHR ''/'') (dropWhile (\<lambda>c. c = CHR ''/'') Path)))
    (dropWhile (\<lambda>c. c = CHR ''/'') Path)) < length Path"
proof -
  let ?p = "dropWhile (\<lambda>c. c = CHR ''/'') Path"
  obtain c r where c: "?p = c # r" using assms by (cases ?p) auto
  then have "c \<noteq> CHR ''/''" using hd_dropWhile [OF assms] by simp
  then have "0 < length (takeWhile (\<lambda>c. c \<noteq> CHR ''/'') ?p)" by (simp add: c)
  moreover have "length ?p \<le> length Path" by (rule length_dropWhile_le)
  moreover have "0 < length ?p" by (simp add: c)
  ultimately show ?thesis unfolding length_drop by linarith
qed

function path_walk :: "'f fdt_rw \<Rightarrow> 'f \<Rightarrow> string \<Rightarrow> int \<Rightarrow> nat \<Rightarrow> node_list \<Rightarrow> (int \<times> node_list) option" where
  "path_walk L Fdt Path Offset Level nl =
     (let Ptr = dropWhile (\<lambda>c. c = CHR ''/'') Path in
      if Ptr = [] then Some (Offset, nl)
      else let NameLen = length (takeWhile (\<lambda>c. c \<noteq> CHR ''/'') Ptr) in
        (case FdtSubnodeOffsetNamelen L Fdt Offset Ptr NameLen Level nl of
          None \<Rightarrow> None
        | Some (o1, nl1) \<Rightarrow>
            if o1 < 0 then Some (o1, nl1) else path_walk L Fdt (drop NameLen Ptr) o1 (Level + 1) nl1))"
  by pat_completeness auto
termination
  by (relation "measure (\<lambda>(L, Fdt, Path, Offset, Level, nl). length Path)") (simp_all add: path_step_less del: length_drop)

declare path_walk.simps [simp del]

text \<open>\<open>FdtPathOffset\<close>. Every caller passes a path from the root; an alias has no value here.\<close>

definition FdtPathOffset :: "'f fdt_rw \<Rightarrow> 'f \<Rightarrow> string \<Rightarrow> node_list \<Rightarrow> (int \<times> node_list) option" where
  "FdtPathOffset L Fdt Path nl =
     (if \<not> rw_new L then Some (rw_path L Fdt Path, nl)
      else if rw_header L Fdt \<noteq> 0 then Some (rw_header L Fdt, nl)
      else if take 1 Path \<noteq> ''/'' then None
      else path_walk L Fdt Path 0 0 nl)"

section \<open>Changing a property\<close>

definition FdtGetPropLen :: "'f fdt_rw \<Rightarrow> 'f \<Rightarrow> int \<Rightarrow> string \<Rightarrow> nat" where
  "FdtGetPropLen L Fdt Offset Name = (case rw_getprop L Fdt Offset Name of None \<Rightarrow> 0 | Some v \<Rightarrow> length v)"

definition FDT_TAGALIGN :: "nat \<Rightarrow> nat" where
  "FDT_TAGALIGN x = (x + 3) div 4 * 4"

text \<open>The macro \<open>FdtPropUpdateFunc\<close>, with the update already applied to its arguments;
  \<open>sizeof (struct fdt_property)\<close> is 12.\<close>

definition FdtPropUpdateFunc :: "'f fdt_rw \<Rightarrow> 'f \<Rightarrow> int \<Rightarrow> string \<Rightarrow> ('f \<Rightarrow> int \<times> 'f) \<Rightarrow> node_list \<Rightarrow> int \<times> 'f \<times> node_list" where
  "FdtPropUpdateFunc L Fdt Offset Name upd nl =
     (if rw_new L then
        (let OldLen = FdtGetPropLen L Fdt Offset Name;
             (Ret, Fdt1) = upd Fdt in
         if Ret = 0 then
           (let Len = FdtGetPropLen L Fdt1 Offset Name;
                NewLen = (if OldLen = 0 \<and> Len \<noteq> 0 then 12 + FDT_TAGALIGN Len else Len) in
            (Ret, Fdt1, FdtUpdateNodeOffsetInList nl Offset (int (FDT_TAGALIGN NewLen) - int (FDT_TAGALIGN OldLen))))
         else (Ret, Fdt1, nl))
      else case upd Fdt of (Ret, Fdt1) \<Rightarrow> (Ret, Fdt1, nl))"

definition FdtSetProp :: "'f fdt_rw \<Rightarrow> 'f \<Rightarrow> int \<Rightarrow> string \<Rightarrow> bytes \<Rightarrow> node_list \<Rightarrow> int \<times> 'f \<times> node_list" where
  "FdtSetProp L Fdt Offset Name Val nl = FdtPropUpdateFunc L Fdt Offset Name (\<lambda>f. rw_setprop L f Offset Name Val) nl"

section \<open>The list follows the tree\<close>

text \<open>The name the list keeps of a node, and what it should hold: the nodes with their offsets, the
  last one first.\<close>

definition list_name :: "string \<Rightarrow> string" where
  "list_name s = take (GetNodeNameLen (cstring s)) (cstring s)"

definition named :: "'f fdt_rw \<Rightarrow> 'f \<Rightarrow> int \<Rightarrow> string \<Rightarrow> bool" where
  "named L Fdt off n \<longleftrightarrow> (\<exists>s. rw_ptr L Fdt off 1 = Some s \<and> list_name s = n)"

definition list_ok :: "'f fdt_rw \<Rightarrow> 'f \<Rightarrow> node_list \<Rightarrow> bool" where
  "list_ok L Fdt nl \<longleftrightarrow> sorted_wrt (\<lambda>a b. snd b < snd a) nl \<and> (\<forall>(n, off)\<in>set nl. named L Fdt off n \<and> 0 \<le> off)"

text \<open>What libfdt promises: the next node lies behind, the characters of a name do not depend on how
  many are asked for, and a property that is set or extended moves the nodes behind it by what it
  grows: its header of 12 bytes when it is new, and its value rounded up to cells. A change that
  fails leaves the tree.\<close>

definition growth :: "'f fdt_rw \<Rightarrow> 'f \<Rightarrow> int \<Rightarrow> string \<Rightarrow> bytes \<Rightarrow> int" where
  "growth L Fdt off Name v = (case rw_getprop L Fdt off Name of
     None \<Rightarrow> int (12 + FDT_TAGALIGN (length v))
   | Some w \<Rightarrow> int (FDT_TAGALIGN (length v)) - int (FDT_TAGALIGN (length w)))"

definition moved :: "'f fdt_rw \<Rightarrow> 'f \<Rightarrow> int \<Rightarrow> string \<Rightarrow> bytes \<Rightarrow> 'f \<Rightarrow> bool" where
  "moved L Fdt off Name v Fdt1 \<longleftrightarrow> rw_getprop L Fdt1 off Name = Some v \<and>
     (\<forall>o1 n. named L Fdt o1 n \<longrightarrow>
       (if off < o1 then off < o1 + growth L Fdt off Name v \<and> named L Fdt1 (o1 + growth L Fdt off Name v) n
        else named L Fdt1 o1 n))"

definition extended :: "'f fdt_rw \<Rightarrow> 'f \<Rightarrow> int \<Rightarrow> string \<Rightarrow> bytes \<Rightarrow> bytes" where
  "extended L Fdt off Name v = (case rw_getprop L Fdt off Name of None \<Rightarrow> v | Some w \<Rightarrow> w @ v)"

definition fdt_layout :: "'f fdt_rw \<Rightarrow> bool" where
  "fdt_layout L \<longleftrightarrow>
     (\<forall>Fdt off d o1 d1. rw_next L Fdt off d = (o1, d1) \<longrightarrow> o1 < 0 \<or> off < o1) \<and>
     (\<forall>Fdt off n s. rw_ptr L Fdt off (n + 1) = Some s \<longrightarrow> rw_ptr L Fdt off 1 = Some s) \<and>
     (\<forall>Fdt off Name v r Fdt1. 0 \<le> off \<longrightarrow> rw_setprop L Fdt off Name v = (r, Fdt1) \<longrightarrow>
        (if r = 0 then moved L Fdt off Name v Fdt1 else Fdt1 = Fdt)) \<and>
     (\<forall>Fdt off Name v r Fdt1. 0 \<le> off \<longrightarrow> rw_appendprop L Fdt off Name v = (r, Fdt1) \<longrightarrow>
        (if r = 0 then moved L Fdt off Name (extended L Fdt off Name v) Fdt1 else Fdt1 = Fdt))"

lemma fdt_layoutD:
  assumes "fdt_layout L"
  shows "rw_next L Fdt off d = (o1, d1) \<Longrightarrow> o1 < 0 \<or> off < o1"
    and "rw_ptr L Fdt off (k + 1) = Some s \<Longrightarrow> rw_ptr L Fdt off 1 = Some s"
    and "0 \<le> off \<Longrightarrow> rw_setprop L Fdt off Name v = (r, Fdt1) \<Longrightarrow> if r = 0 then moved L Fdt off Name v Fdt1 else Fdt1 = Fdt"
    and "0 \<le> off \<Longrightarrow> rw_appendprop L Fdt off Name v = (r, Fdt1) \<Longrightarrow>
      if r = 0 then moved L Fdt off Name (extended L Fdt off Name v) Fdt1 else Fdt1 = Fdt"
  using assms unfolding fdt_layout_def by meson+

lemma find_node_in: "find_node nl Name k = Some off \<Longrightarrow> \<exists>n. (n, off) \<in> set nl"
  by (induction nl Name k rule: find_node.induct) (auto split: if_splits)

lemma append_keeps:
  assumes "list_ok L Fdt nl" "named L Fdt off (take (GetNodeNameLen s) s)" "0 \<le> off"
    "\<forall>(n, o1)\<in>set nl. o1 < off \<or> n = take (GetNodeNameLen s) s"
  shows "list_ok L Fdt (FdtAppendToNodeList pool s off nl)"
    "\<forall>(n, o1)\<in>set (FdtAppendToNodeList pool s off nl). o1 \<le> off \<or> (n, o1) \<in> set nl"
proof -
  have "o1 < off" if "(n, o1) \<in> set nl" "\<not> IsNodeAdded nl s (GetNodeNameLen s)" for n o1
  proof -
    have "n \<noteq> take (GetNodeNameLen s) s" using that by (force simp: IsNodeAdded_def AsciiStrnCmp_def list_ex_iff)
    then show ?thesis using assms(4) that(1) by auto
  qed
  then show "list_ok L Fdt (FdtAppendToNodeList pool s off nl)"
    using assms(1-3) by (auto simp: FdtAppendToNodeList_def list_ok_def Let_def)
  show "\<forall>(n, o1)\<in>set (FdtAppendToNodeList pool s off nl). o1 \<le> off \<or> (n, o1) \<in> set nl"
    by (auto simp: FdtAppendToNodeList_def Let_def)
qed

text \<open>During a walk the list's nodes lie before the one that is visited, or are that node.\<close>

definition walk_ok :: "'f fdt_rw \<Rightarrow> 'f \<Rightarrow> int \<Rightarrow> node_list \<Rightarrow> bool" where
  "walk_ok L Fdt off nl \<longleftrightarrow> list_ok L Fdt nl \<and>
     (0 \<le> off \<longrightarrow> (\<forall>(n, o1)\<in>set nl. o1 < off \<or> o1 = off))"

lemma walk_step:
  assumes "fdt_layout L" "walk_ok L Fdt off nl" "0 \<le> off" "rw_next L Fdt off d = (o1, d1)"
  shows "walk_ok L Fdt o1 nl"
proof -
  have "o1 < 0 \<or> off < o1" using fdt_layoutD(1) [OF assms(1,4)] .
  then show ?thesis using assms(2,3) by (auto simp: walk_ok_def)
qed

lemma walk_append:
  assumes "fdt_layout L" "walk_ok L Fdt off nl" "0 \<le> off" "rw_ptr L Fdt off (k + 1) = Some s"
  shows "walk_ok L Fdt off (FdtAppendToNodeList pool (cstring s) off nl)"
proof -
  have p: "rw_ptr L Fdt off 1 = Some s" using fdt_layoutD(2) [OF assms(1,4)] .
  then have n: "named L Fdt off (take (GetNodeNameLen (cstring s)) (cstring s))"
    by (auto simp: named_def list_name_def)
  have "o1 < off \<or> n = take (GetNodeNameLen (cstring s)) (cstring s)" if "(n, o1) \<in> set nl" for n o1
  proof -
    have "named L Fdt o1 n" "o1 < off \<or> o1 = off" using assms(2,3) that by (auto simp: walk_ok_def list_ok_def)
    then show ?thesis using p by (auto simp: named_def list_name_def)
  qed
  then show ?thesis
    using append_keeps [OF _ n assms(3), of nl pool] assms(2,3) by (force simp: walk_ok_def)
qed

lemma node_walk_keeps:
  assumes "node_walk L Fdt Name k first off d nl = Some r"
  shows "fdt_layout L \<longrightarrow> (if first then walk_ok L Fdt off nl else list_ok L Fdt nl) \<longrightarrow> list_ok L Fdt (snd r)"
proof (rule node_walk.raw_induct [where P = "\<lambda>L Fdt Name k first off d nl r. fdt_layout L \<longrightarrow>
    (if first then walk_ok L Fdt off nl else list_ok L Fdt nl) \<longrightarrow> list_ok L Fdt (snd r)", OF _ assms])
  fix walk :: "'a fdt_rw \<Rightarrow> 'a \<Rightarrow> string \<Rightarrow> nat \<Rightarrow> bool \<Rightarrow> int \<Rightarrow> int \<Rightarrow> node_list \<Rightarrow> (int \<times> node_list) option"
    and L :: "'a fdt_rw" and Fdt Name k first off d nl r
  let ?ok = "\<lambda>o1 l. if first then walk_ok L Fdt o1 l else list_ok L Fdt l"
  assume IH: "\<And>L Fdt Name k first off d nl r. walk L Fdt Name k first off d nl = Some r \<Longrightarrow>
      fdt_layout L \<longrightarrow> (if first then walk_ok L Fdt off nl else list_ok L Fdt nl) \<longrightarrow> list_ok L Fdt (snd r)"
    and eq: "(if off < 0 \<or> d < 0 then Some (if d < 0 then - 1 else off, nl)
      else if d \<noteq> 1 then (case rw_next L Fdt off d of (o1, d1) \<Rightarrow> walk L Fdt Name k first o1 d1 nl)
      else (case rw_ptr L Fdt off (k + 1) of
        None \<Rightarrow> if first then Some (0, nl)
          else (case rw_next L Fdt off d of (o1, d1) \<Rightarrow> walk L Fdt Name k first o1 d1 nl)
      | Some Ptr \<Rightarrow>
          let nl1 = (if first then FdtAppendToNodeList (rw_pool L) (cstring Ptr) off nl else nl) in
          if FdtNodeNameEq L Fdt off Name k then Some (off, nl1)
          else (case rw_next L Fdt off d of (o1, d1) \<Rightarrow> walk L Fdt Name k first o1 d1 nl1))) = Some r"
  show "fdt_layout L \<longrightarrow> (if first then walk_ok L Fdt off nl else list_ok L Fdt nl) \<longrightarrow> list_ok L Fdt (snd r)"
  proof (intro impI)
    assume L: "fdt_layout L" and ok: "?ok off nl"
    have l: "list_ok L Fdt l" if "?ok o1 l" for o1 l using that by (auto simp: walk_ok_def split: if_splits)
    show "list_ok L Fdt (snd r)"
    proof (cases "off < 0 \<or> d < 0")
      case True
      then show ?thesis using eq l [OF ok] by auto
    next
      case False
      obtain o1 d1 where n: "rw_next L Fdt off d = (o1, d1)" by fastforce
      have next_ok: "list_ok L Fdt (snd r)" if "?ok off l" "walk L Fdt Name k first o1 d1 l = Some r" for l
        using IH [OF that(2)] L that(1) walk_step [OF L _ _ n, of l] False by (auto split: if_splits)
      show ?thesis
      proof (cases "rw_ptr L Fdt off (k + 1)")
        case None
        then show ?thesis using eq False n next_ok [OF ok] l [OF ok] by (auto split: if_splits)
      next
        case (Some Ptr)
        have a: "?ok off (if first then FdtAppendToNodeList (rw_pool L) (cstring Ptr) off nl else nl)"
          using ok walk_append [OF L _ _ Some] False by (auto split: if_splits)
        show ?thesis
          using eq False n Some next_ok [OF ok] next_ok [OF a] l [OF a] by (auto simp: Let_def split: if_split_asm)
      qed
    qed
  qed
qed

lemma FdtSubnodeOffsetNamelen_keeps:
  assumes "FdtSubnodeOffsetNamelen L Fdt off Name k Level nl = Some (r, nl1)" "fdt_layout L" "list_ok L Fdt nl"
  shows "list_ok L Fdt nl1"
proof -
  have start: "walk_ok L Fdt (snd (FdtFindNodeFromList nl Name k)) nl" if "\<not> fst (FdtFindNodeFromList nl Name k)"
    using that assms(3)
    by (cases nl) (force simp: walk_ok_def FdtFindNodeFromList_def list_ok_def split: option.splits)+
  show ?thesis
    using assms start
    by (auto simp: FdtSubnodeOffsetNamelen_def dest!: node_walk_keeps split: if_split_asm prod.split_asm)
qed

lemma path_walk_keeps:
  "path_walk L Fdt Path off Level nl = Some (r, nl1) \<Longrightarrow> fdt_layout L \<Longrightarrow> list_ok L Fdt nl \<Longrightarrow> list_ok L Fdt nl1"
proof (induction L Fdt Path off Level nl arbitrary: r nl1 rule: path_walk.induct)
  case (1 L Fdt Path off Level nl)
  let ?p = "dropWhile (\<lambda>c. c = CHR ''/'') Path"
  let ?k = "length (takeWhile (\<lambda>c. c \<noteq> CHR ''/'') ?p)"
  show ?case
  proof (cases "?p = []")
    case True
    then show ?thesis using 1(2,4) by (simp add: path_walk.simps [of L Fdt Path])
  next
    case False
    have e: "path_walk L Fdt Path off Level nl = (case FdtSubnodeOffsetNamelen L Fdt off ?p ?k Level nl of
          None \<Rightarrow> None
        | Some (o1, l) \<Rightarrow> if o1 < 0 then Some (o1, l) else path_walk L Fdt (drop ?k ?p) o1 (Level + 1) l)"
      unfolding path_walk.simps [of L Fdt Path] Let_def by (rule if_not_P [OF False])
    obtain o1 l where s: "FdtSubnodeOffsetNamelen L Fdt off ?p ?k Level nl = Some (o1, l)"
      using 1(2) unfolding e by (cases "FdtSubnodeOffsetNamelen L Fdt off ?p ?k Level nl") auto
    have l: "list_ok L Fdt l" using FdtSubnodeOffsetNamelen_keeps [OF s 1(3,4)] .
    show ?thesis
    proof (cases "o1 < 0")
      case True
      then show ?thesis using 1(2) l unfolding e s by simp
    next
      case nonneg: False
      then have "path_walk L Fdt (drop ?k ?p) o1 (Level + 1) l = Some (r, nl1)"
        using 1(2) unfolding e s by simp
      then show ?thesis using 1(1) [OF refl False refl s refl nonneg] 1(3) l by simp
    qed
  qed
qed

lemma FdtPathOffset_keeps:
  "FdtPathOffset L Fdt Path nl = Some (r, nl1) \<Longrightarrow> fdt_layout L \<Longrightarrow> list_ok L Fdt nl \<Longrightarrow> list_ok L Fdt nl1"
  by (auto simp: FdtPathOffset_def dest: path_walk_keeps split: if_split_asm)

section \<open>Changing a property keeps the list\<close>

lemma shift_nodes_map:
  "sorted_wrt (\<lambda>a b. snd b < snd a) nl \<Longrightarrow>
    shift_nodes nl off g = List.map (\<lambda>(n, o1). (n, if off < o1 then o1 + g else o1)) nl"
proof (induction nl off g rule: shift_nodes.induct)
  case (2 n o1 nl off g)
  then show ?case by (cases "off < o1") (auto intro!: map_idI [symmetric])
qed simp

lemma shift_keeps:
  assumes "list_ok L Fdt nl" "0 \<le> off"
    and "\<And>o1 n. named L Fdt o1 n \<Longrightarrow> if off < o1 then off < o1 + g \<and> named L Fdt1 (o1 + g) n else named L Fdt1 o1 n"
  shows "list_ok L Fdt1 (FdtUpdateNodeOffsetInList nl off g)"
proof -
  have s: "sorted_wrt (\<lambda>a b. snd b < snd a) nl" using assms(1) by (simp add: list_ok_def)
  have m: "FdtUpdateNodeOffsetInList nl off g = List.map (\<lambda>(n, o1). (n, if off < o1 then o1 + g else o1)) nl"
    using shift_nodes_map [OF s, of off g] by (auto simp: FdtUpdateNodeOffsetInList_def intro!: map_idI [symmetric])
  have n: "if off < o1 then off < o1 + g \<and> named L Fdt1 (o1 + g) n else named L Fdt1 o1 n" "0 \<le> o1"
    if "(n, o1) \<in> set nl" for n o1
    using assms(1) that assms(3) [of o1 n] by (auto simp: list_ok_def)
  have "sorted_wrt (\<lambda>a b. snd b < snd a) (List.map (\<lambda>(n, o1). (n, if off < o1 then o1 + g else o1)) nl)"
    unfolding sorted_wrt_map
  proof (rule sorted_wrt_mono_rel [OF _ s])
    fix a b assume "a \<in> set nl" "b \<in> set nl" "snd b < snd a"
    then show "snd (case b of (n, o1) \<Rightarrow> (n, if off < o1 then o1 + g else o1))
        < snd (case a of (n, o1) \<Rightarrow> (n, if off < o1 then o1 + g else o1))"
      using n(1) [of "fst a" "snd a"] by (auto split: prod.splits if_splits)
  qed
  then show ?thesis unfolding m list_ok_def using n assms(2) by (fastforce split: if_splits)
qed

text \<open>The difference the macro computes is the growth, unless the property was there without a value
  or gets none.\<close>

lemma prop_update_keeps:
  assumes "rw_new L" "list_ok L Fdt nl" "0 \<le> off" "rw_getprop L Fdt off Name \<noteq> Some []" "v \<noteq> []"
    and "upd Fdt = (r, Fdt1)" "if r = 0 then moved L Fdt off Name v Fdt1 else Fdt1 = Fdt"
    and "FdtPropUpdateFunc L Fdt off Name upd nl = (ret, Fdt2, nl1)"
  shows "list_ok L Fdt2 nl1"
proof (cases "r = 0")
  case True
  then have m: "moved L Fdt off Name v Fdt1" using assms(7) by simp
  have "FDT_TAGALIGN (12 + FDT_TAGALIGN k) = 12 + FDT_TAGALIGN k" for k by (simp add: FDT_TAGALIGN_def)
  then have "growth L Fdt off Name v = int (FDT_TAGALIGN (if FdtGetPropLen L Fdt off Name = 0 \<and> FdtGetPropLen L Fdt1 off Name \<noteq> 0
      then 12 + FDT_TAGALIGN (FdtGetPropLen L Fdt1 off Name) else FdtGetPropLen L Fdt1 off Name)) -
      int (FDT_TAGALIGN (FdtGetPropLen L Fdt off Name))"
    using m assms(4,5) by (auto simp: moved_def growth_def FdtGetPropLen_def FDT_TAGALIGN_def split: option.splits)
  then have "Fdt2 = Fdt1" "nl1 = FdtUpdateNodeOffsetInList nl off (growth L Fdt off Name v)"
    using assms(1,6,8) True by (auto simp: FdtPropUpdateFunc_def Let_def)
  then show ?thesis using shift_keeps [OF assms(2,3)] m by (simp add: moved_def)
next
  case False
  then show ?thesis using assms by (auto simp: FdtPropUpdateFunc_def Let_def)
qed

text \<open>What libfdt promises of values: a change that succeeds sets or extends the property and leaves the
  node's other properties, one that fails leaves them all.\<close>

definition changed :: "'f fdt_rw \<Rightarrow> 'f \<Rightarrow> int \<Rightarrow> string \<Rightarrow> bytes \<Rightarrow> 'f \<Rightarrow> bool" where
  "changed L Fdt off pn v Fdt1 \<longleftrightarrow>
     (\<forall>n. rw_getprop L Fdt1 off n = (if n = pn then Some v else rw_getprop L Fdt off n))"

definition fdt_values :: "'f fdt_rw \<Rightarrow> bool" where
  "fdt_values L \<longleftrightarrow>
     (\<forall>Fdt off pn v r Fdt1. rw_setprop L Fdt off pn v = (r, Fdt1) \<longrightarrow>
        (if r = 0 then changed L Fdt off pn v Fdt1 else rw_getprop L Fdt1 off = rw_getprop L Fdt off)) \<and>
     (\<forall>Fdt off pn v r Fdt1. rw_appendprop L Fdt off pn v = (r, Fdt1) \<longrightarrow>
        (if r = 0 then changed L Fdt off pn (extended L Fdt off pn v) Fdt1
         else rw_getprop L Fdt1 off = rw_getprop L Fdt off))"

lemma fdt_valuesD:
  assumes "fdt_values L"
  shows "rw_setprop L Fdt off pn v = (r, Fdt1) \<Longrightarrow>
      if r = 0 then changed L Fdt off pn v Fdt1 else rw_getprop L Fdt1 off = rw_getprop L Fdt off"
    and "rw_appendprop L Fdt off pn v = (r, Fdt1) \<Longrightarrow>
      if r = 0 then changed L Fdt off pn (extended L Fdt off pn v) Fdt1 else rw_getprop L Fdt1 off = rw_getprop L Fdt off"
  using assms unfolding fdt_values_def by meson+

text \<open>The interface between the updates of the tree and libfdt: a way to change a property, and the
  value the property then has. Setting and extending are the two ways.\<close>

locale prop_change =
  fixes change :: "'f fdt_rw \<Rightarrow> 'f \<Rightarrow> int \<Rightarrow> string \<Rightarrow> bytes \<Rightarrow> int \<times> 'f"
    and outcome :: "'f fdt_rw \<Rightarrow> 'f \<Rightarrow> int \<Rightarrow> string \<Rightarrow> bytes \<Rightarrow> bytes"
  assumes moves: "fdt_layout L \<Longrightarrow> 0 \<le> off \<Longrightarrow> change L Fdt off pn v = (r, Fdt1) \<Longrightarrow>
      if r = 0 then moved L Fdt off pn (outcome L Fdt off pn v) Fdt1 else Fdt1 = Fdt"
    and sets: "fdt_values L \<Longrightarrow> change L Fdt off pn v = (r, Fdt1) \<Longrightarrow>
      if r = 0 then changed L Fdt off pn (outcome L Fdt off pn v) Fdt1 else rw_getprop L Fdt1 off = rw_getprop L Fdt off"
    and outcome_nonempty: "v \<noteq> [] \<Longrightarrow> outcome L Fdt off pn v \<noteq> []"
begin

lemma list_follows:
  assumes "rw_new L" "fdt_layout L" "list_ok L Fdt nl" "0 \<le> off" "rw_getprop L Fdt off pn \<noteq> Some []" "v \<noteq> []"
    and "FdtPropUpdateFunc L Fdt off pn (\<lambda>f. change L f off pn v) nl = (r, Fdt1, nl1)"
  shows "list_ok L Fdt1 nl1"
proof -
  obtain r0 F where u: "change L Fdt off pn v = (r0, F)" by fastforce
  show ?thesis
    using prop_update_keeps [OF assms(1,3,4,5) outcome_nonempty [OF assms(6)], of "\<lambda>f. change L f off pn v"]
      u moves [OF assms(2,4) u] assms(7) by simp
qed

end

interpretation setting: prop_change rw_setprop "\<lambda>L Fdt off pn v. v"
  by unfold_locales (erule (2) fdt_layoutD(3), erule (1) fdt_valuesD(1), simp)

interpretation extending: prop_change rw_appendprop extended
  by unfold_locales (erule (2) fdt_layoutD(4), erule (1) fdt_valuesD(2), simp add: extended_def split: option.split)

text \<open>A session: searches and changes from an empty list on. The value that is set is not empty, and
  the property has none that is.\<close>

inductive fdt_session :: "'f fdt_rw \<Rightarrow> 'f \<Rightarrow> node_list \<Rightarrow> bool" for L where
  start: "fdt_session L Fdt []"
| search: "fdt_session L Fdt nl \<Longrightarrow> FdtPathOffset L Fdt Path nl = Some (off, nl1) \<Longrightarrow> fdt_session L Fdt nl1"
| set: "fdt_session L Fdt nl \<Longrightarrow> 0 \<le> off \<Longrightarrow> v \<noteq> [] \<Longrightarrow> rw_getprop L Fdt off Name \<noteq> Some [] \<Longrightarrow>
    FdtSetProp L Fdt off Name v nl = (r, Fdt1, nl1) \<Longrightarrow> fdt_session L Fdt1 nl1"
| extend: "fdt_session L Fdt nl \<Longrightarrow> 0 \<le> off \<Longrightarrow> v \<noteq> [] \<Longrightarrow> rw_getprop L Fdt off Name \<noteq> Some [] \<Longrightarrow>
    FdtPropUpdateFunc L Fdt off Name (\<lambda>f. rw_appendprop L f off Name v) nl = (r, Fdt1, nl1) \<Longrightarrow> fdt_session L Fdt1 nl1"


section \<open>A prefix hits the list\<close>


section \<open>An example\<close>

text \<open>A tree of two nodes, \<open>socinfo\<close> at offset 8 with at most the property \<open>p\<close>, and \<open>soc\<close> behind it.\<close>

definition demo_off :: "bytes option \<Rightarrow> int" where
  "demo_off f = 100 + (case f of None \<Rightarrow> 0 | Some v \<Rightarrow> 12 + int (FDT_TAGALIGN (length v)))"

definition demo_rw :: "bytes option fdt_rw" where
  "demo_rw = \<lparr>rw_header = (\<lambda>f. 0),
     rw_next = (\<lambda>f off d. if off = 0 then (8, 1) else if off = 8 then (demo_off f, 1) else (- 1, 0)),
     rw_ptr = (\<lambda>f off n. if off = 8 \<and> n \<le> 8 then Some (''socinfo'' @ [CHR 0x00])
       else if off = demo_off f \<and> n \<le> 4 then Some (''soc'' @ [CHR 0x00]) else None),
     rw_path = (\<lambda>f p. - 1), rw_subnode = (\<lambda>f off n. - 1), rw_first = (\<lambda>f off. - 1), rw_nextsub = (\<lambda>f off. - 1),
     rw_getprop = (\<lambda>f off n. if off = 8 \<and> n = ''p'' then f else None),
     rw_setprop = (\<lambda>f off n v. if off = 8 \<and> n = ''p'' then (0, Some v) else (- 3, f)),
     rw_appendprop = (\<lambda>f off n v. if off = 8 \<and> n = ''p'' then (0, Some (case f of None \<Rightarrow> v | Some w \<Rightarrow> w @ v)) else (- 3, f)),
     rw_inplace = (\<lambda>f off n v. (- 3, f)), rw_open = (\<lambda>f n. (0, f)), rw_pack = (\<lambda>f. f), rw_new = True,
     rw_pool = (\<lambda>n. True), rw_behind = (\<lambda>n. False)\<rparr>"

lemma demo_off_ge: "100 \<le> demo_off f"
  by (simp add: demo_off_def split: option.split)

lemma demo_named: "named demo_rw f off n \<longleftrightarrow> off = 8 \<and> n = ''socinfo'' \<or> off = demo_off f \<and> n = ''soc''"
  using demo_off_ge [of f]
  by (auto simp: named_def demo_rw_def list_name_def cstring_def GetNodeNameLen_def)

lemma demo_rw_simps:
  "rw_next demo_rw f off d = (if off = 0 then (8, 1) else if off = 8 then (demo_off f, 1) else (- 1, 0))"
  "rw_ptr demo_rw f off n = (if off = 8 \<and> n \<le> 8 then Some (''socinfo'' @ [CHR 0x00])
     else if off = demo_off f \<and> n \<le> 4 then Some (''soc'' @ [CHR 0x00]) else None)"
  "rw_getprop demo_rw f off nm = (if off = 8 \<and> nm = ''p'' then f else None)"
  "rw_setprop demo_rw f off nm v = (if off = 8 \<and> nm = ''p'' then (0, Some v) else (- 3, f))"
  "rw_appendprop demo_rw f off nm v =
     (if off = 8 \<and> nm = ''p'' then (0, Some (case f of None \<Rightarrow> v | Some w \<Rightarrow> w @ v)) else (- 3, f))"
  "rw_header demo_rw f = 0" "rw_new demo_rw" "rw_pool demo_rw n" "\<not> rw_behind demo_rw k"
  by (simp_all add: demo_rw_def)

lemma demo_layout: "fdt_layout demo_rw"
proof -
  have ge: "8 < demo_off f" "\<not> demo_off f < 0" for f using demo_off_ge [of f] by simp_all
  have m: "moved demo_rw f 8 ''p'' v (Some v)" for f v
    using ge [of f] ge [of "Some v"]
    by (auto simp: moved_def demo_named growth_def demo_off_def demo_rw_simps split: option.splits)
  show ?thesis
    unfolding fdt_layout_def
    by (auto simp: m ge demo_rw_simps extended_def split: if_split_asm option.split)
qed

lemma demo_append:
  "FdtAppendToNodeList (rw_pool demo_rw) (cstring [CHR ''s'', CHR ''o'', CHR ''c'', CHR ''i'', CHR ''n'', CHR ''f'', CHR ''o'', CHR 0x00]) 8 [] = [(''socinfo'', 8)]"
  "FdtAppendToNodeList (rw_pool demo_rw) (cstring [CHR ''s'', CHR ''o'', CHR ''c'', CHR 0x00]) off [(''socinfo'', 8)] = [(''socinfo'', 8)]"
  by (simp_all add: FdtAppendToNodeList_def cstring_def GetNodeNameLen_def IsNodeAdded_def AsciiStrnCmp_def demo_rw_simps)

lemma demo_search: "FdtPathOffset demo_rw f ''/soc'' [] = Some (demo_off f, [(''socinfo'', 8)])"
proof -
  have o: "8 < demo_off f" using demo_off_ge [of f] by simp
  have p: "rw_ptr demo_rw f (demo_off f) (3 + 1) = Some (''soc'' @ [CHR 0x00])"
    "rw_ptr demo_rw f 8 (3 + 1) = Some (''socinfo'' @ [CHR 0x00])" using o by (simp_all add: demo_rw_simps)
  have q: "FdtNodeNameEq demo_rw f (demo_off f) ''soc'' 3" "\<not> FdtNodeNameEq demo_rw f 8 ''soc'' 3"
    unfolding FdtNodeNameEq_def p by simp_all
  have "node_walk demo_rw f ''soc'' 3 True (demo_off f) 1 [(''socinfo'', 8)] = Some (demo_off f, [(''socinfo'', 8)])"
    using o unfolding node_walk.simps [of demo_rw f "''soc''" 3 True "demo_off f"] p
    by (simp add: q demo_append Let_def)
  then have "node_walk demo_rw f ''soc'' 3 True 8 1 [] = Some (demo_off f, [(''socinfo'', 8)])"
    unfolding node_walk.simps [of demo_rw f "''soc''" 3 True 8] p
    by (simp add: q demo_append Let_def demo_rw_simps(1))
  then have "node_walk demo_rw f ''soc'' 3 True 0 0 [] = Some (demo_off f, [(''socinfo'', 8)])"
    unfolding node_walk.simps [of demo_rw f "''soc''" 3 True 0] by (simp add: demo_rw_simps(1))
  then have "FdtSubnodeOffsetNamelen demo_rw f 0 ''soc'' 3 0 [] = Some (demo_off f, [(''socinfo'', 8)])"
    by (simp add: FdtSubnodeOffsetNamelen_def FdtFindNodeFromList_def demo_rw_simps)
  then have "path_walk demo_rw f ''/soc'' 0 0 [] = Some (demo_off f, [(''socinfo'', 8)])"
    using o by (simp add: path_walk.simps [of demo_rw f "''/soc''"] path_walk.simps [of demo_rw f "[]"] Let_def
        numeral_3_eq_3)
  then show ?thesis by (simp add: FdtPathOffset_def demo_rw_simps)
qed



end
