(* ===== verification/PartialGoods.thy ===== *)
theory PartialGoods
  imports FdtRw Board
begin

text \<open>
  Partially good chips (\<open>PartialGoods.c\<close>): the nodes of defective CPUs and multimedia parts are
  disabled in the device tree. The tables of the source are written out; the chip information
  protocol is a parameter.
\<close>

section \<open>The tables\<close>

record part_goods =
  pg_val :: u32
  pg_parent :: string
  pg_sub :: string
  pg_prop :: string
  pg_replace :: string

datatype chip_part = EFICHIPINFO_PART_UNKNOWN | EFICHIPINFO_PART_GPU | EFICHIPINFO_PART_VIDEO | EFICHIPINFO_PART_CAMERA
  | EFICHIPINFO_PART_DISPLAY | EFICHIPINFO_PART_AUDIO | EFICHIPINFO_PART_MODEM | EFICHIPINFO_PART_WLAN
  | EFICHIPINFO_PART_COMP | EFICHIPINFO_PART_SENSORS | EFICHIPINFO_PART_NPU | EFICHIPINFO_PART_SPSS | EFICHIPINFO_PART_NAV

fun part_number :: "chip_part \<Rightarrow> nat" where
  "part_number EFICHIPINFO_PART_UNKNOWN = 0"
| "part_number EFICHIPINFO_PART_GPU = 1"
| "part_number EFICHIPINFO_PART_VIDEO = 2"
| "part_number EFICHIPINFO_PART_CAMERA = 3"
| "part_number EFICHIPINFO_PART_DISPLAY = 4"
| "part_number EFICHIPINFO_PART_AUDIO = 5"
| "part_number EFICHIPINFO_PART_MODEM = 6"
| "part_number EFICHIPINFO_PART_WLAN = 7"
| "part_number EFICHIPINFO_PART_COMP = 8"
| "part_number EFICHIPINFO_PART_SENSORS = 9"
| "part_number EFICHIPINFO_PART_NPU = 10"
| "part_number EFICHIPINFO_PART_SPSS = 11"
| "part_number EFICHIPINFO_PART_NAV = 12"

abbreviation (input) EFICHIPINFO_NUM_PARTS :: nat where "EFICHIPINFO_NUM_PARTS \<equiv> 13"

definition part_bit :: "chip_part \<Rightarrow> u32" where
  "part_bit p = push_bit (part_number p) 1"

definition cpu_goods :: "u32 \<Rightarrow> string \<Rightarrow> part_goods" where
  "cpu_goods v n = \<lparr>pg_val = v, pg_parent = ''/cpus'', pg_sub = n, pg_prop = ''enable-method'', pg_replace = ''none''\<rparr>"

definition mm_goods :: "u32 \<Rightarrow> string list \<Rightarrow> part_goods list" where
  "mm_goods v ns = List.map (\<lambda>n. \<lparr>pg_val = v, pg_parent = ''/soc'', pg_sub = n, pg_prop = ''status'', pg_replace = ''no''\<rparr>) ns"

definition PartialGoodsCpuType0 :: "part_goods list" where
  "PartialGoodsCpuType0 = [cpu_goods 0x1 ''cpu@0'',
     cpu_goods 0x2 ''cpu@100'',
     cpu_goods 0x4 ''cpu@200'',
     cpu_goods 0x8 ''cpu@300'',
     cpu_goods 0x10 ''cpu@400'',
     cpu_goods 0x20 ''cpu@500'',
     cpu_goods 0x40 ''cpu@600'',
     cpu_goods 0x80 ''cpu@700'']"

definition PartialGoodsCpuType1 :: "part_goods list" where
  "PartialGoodsCpuType1 = [cpu_goods 0x1 ''cpu@101'',
     cpu_goods 0x2 ''cpu@102'',
     cpu_goods 0x4 ''cpu@103'',
     cpu_goods 0x8 ''cpu@104'',
     cpu_goods 0x10 ''cpu@105'',
     cpu_goods 0x20 ''cpu@106'',
     cpu_goods 0x30 ''cpu@107'',
     cpu_goods 0x40 ''cpu@108'']"

definition PartialGoodsCpuType2 :: "part_goods list" where
  "PartialGoodsCpuType2 = [cpu_goods 0x1 ''cpu@0'',
     cpu_goods 0x2 ''cpu@1'',
     cpu_goods 0x4 ''cpu@2'',
     cpu_goods 0x8 ''cpu@3'',
     cpu_goods 0x10 ''cpu@100'',
     cpu_goods 0x20 ''cpu@101'',
     cpu_goods 0x40 ''cpu@102'',
     cpu_goods 0x80 ''cpu@103'']"

definition PartialGoodsMmType :: "part_goods list" where
  "PartialGoodsMmType =
     mm_goods (part_bit EFICHIPINFO_PART_GPU) [
       ''qcom,kgsl-3d0'', ''qcom,gmu'', ''kgsl-smmu'', ''qcom,gpucc''] @
     mm_goods (part_bit EFICHIPINFO_PART_VIDEO) [
       ''qcom,vidc'', ''qcom,vidc0'', ''qcom,vidc1'', ''qcom,videocc''] @
     mm_goods (part_bit EFICHIPINFO_PART_CAMERA) [
       ''qcom,cam-req-mgr'', ''qcom,msm-cam'', ''qcom,csiphy'', ''qcom,csiphy0'', ''qcom,csiphy1'',
       ''qcom,csiphy2'', ''qcom,csiphy3'', ''qcom,csiphy4'', ''qcom,csiphy5'', ''qcom,csid0'',
       ''qcom,csid1'', ''qcom,csid-lite0'', ''qcom,csid-lite1'', ''qcom,cam_smmu'', ''qcom,cam-cpas'',
       ''qcom,cam-cdm-intf'', ''qcom,cpas-cdm0'', ''qcom,cpas-cdm1'', ''qcom,cpas-cdm2'',
       ''qcom,cam-cpas'', ''qcom,cam-fd'', ''qcom,fd'', ''qcom,ife0'', ''qcom,ife1'',
       ''qcom,ife-lite0'', ''qcom,ife-lite1'', ''qcom,cci'', ''qcom,cci0'', ''qcom,cci1'',
       ''qcom,jpegenc'', ''qcom,jpegdma'', ''qcom,camera-flash0'', ''qcom,camera-flash1'',
       ''qcom,cam-icp'', ''qcom,cam-isp'', ''qcom,a5'', ''qcom,ipe0'', ''qcom,bps'', ''qcom,cam-jpeg'',
       ''qcom,lrme'', ''qcom,ipe1'', ''qcom,vfe0'', ''qcom,vfe1'', ''qcom,camcc''] @
     mm_goods (part_bit EFICHIPINFO_PART_DISPLAY) [
       ''qcom,mdss_mdp'', ''qcom,mdss_rotator'', ''qcom,mdss_dsi0_ctrl'', ''qcom,mdss_dsi1_ctrl'',
       ''qcom,mdss_dsi_phy0'', ''qcom,mdss_dsi_phy1'', ''qcom,mdss_dsi0_pll'', ''qcom,mdss_dsi1_pll'',
       ''qcom,mdss_dsi_pll'', ''qcom,mdss_dp_pll'', ''qcom,msm-ext-disp'', ''qcom,sde_rscc'',
       ''qcom,dp_display'', ''qcom,dispcc''] @
     mm_goods (part_bit EFICHIPINFO_PART_AUDIO) [
       ''qcom,msm-adsp-loader'', ''qcom,lpass'', ''qcom,msm-adsprpc-mem''] @
     mm_goods (part_bit EFICHIPINFO_PART_MODEM OR part_bit EFICHIPINFO_PART_WLAN OR part_bit EFICHIPINFO_PART_NAV) [
       ''qcom,mss''] @
     mm_goods (part_bit EFICHIPINFO_PART_WLAN) [
       ''qcom,wpss''] @
     mm_goods (part_bit EFICHIPINFO_PART_COMP) [
       ''qcom,turing''] @
     mm_goods (part_bit EFICHIPINFO_PART_SENSORS) [
       ''qcom,ssc''] @
     mm_goods (part_bit EFICHIPINFO_PART_NPU) [
       ''qcom,npucc'', ''qcom,npu'']"

abbreviation (input) MAX_CPU_CLUSTER :: nat where "MAX_CPU_CLUSTER \<equiv> 3"

definition PartialGoodsCpuType :: "part_goods list list" where
  "PartialGoodsCpuType = [PartialGoodsCpuType0, PartialGoodsCpuType1, PartialGoodsCpuType2]"

section \<open>Changing the tree\<close>

text \<open>Whether all nodes of a table are there.\<close>

fun CheckCPUType :: "'f fdt_rw \<Rightarrow> 'f \<Rightarrow> part_goods list \<Rightarrow> efi_status" where
  "CheckCPUType L Fdt [] = EFI_SUCCESS"
| "CheckCPUType L Fdt (e # es) =
     (if rw_path L Fdt (pg_parent e) < 0 then EFI_NOT_FOUND
      else if rw_subnode L Fdt (rw_path L Fdt (pg_parent e)) (pg_sub e) < 0 then EFI_NOT_FOUND
      else CheckCPUType L Fdt es)"

definition modem_val :: u32 where
  "modem_val = part_bit EFICHIPINFO_PART_MODEM OR part_bit EFICHIPINFO_PART_WLAN OR part_bit EFICHIPINFO_PART_NAV"

text \<open>Whether an entry's node is disabled for a value: the entry of the modem needs all its bits.\<close>

definition part_hit :: "u32 \<Rightarrow> part_goods \<Rightarrow> bool" where
  "part_hit v e = (v AND pg_val e \<noteq> 0 \<and>
     (pg_val e = modem_val \<longrightarrow> v AND part_bit EFICHIPINFO_PART_MODEM \<noteq> 0 \<and> v AND part_bit EFICHIPINFO_PART_WLAN \<noteq> 0 \<and>
       v AND part_bit EFICHIPINFO_PART_NAV \<noteq> 0))"

text \<open>A text as a property's value, with its terminator.\<close>

definition text_val :: "string \<Rightarrow> bytes" where
  "text_val s = ascii s @ [0]"

definition disable_node :: "'f fdt_rw \<Rightarrow> part_goods \<Rightarrow> 'f \<Rightarrow> node_list \<Rightarrow> ('f \<times> node_list) option" where
  "disable_node L e Fdt nl = do {
     (parent, nl1) \<leftarrow> FdtPathOffset L Fdt (pg_parent e) nl;
     if parent < 0 then Some (Fdt, nl1)
     else let off = rw_subnode L Fdt parent (pg_sub e) in
       if off < 0 then Some (Fdt, nl1)
       else case FdtSetProp L Fdt off (pg_prop e) (text_val (pg_replace e)) nl1 of (r, Fdt1, nl2) \<Rightarrow>
         if pg_parent e = ''/cpus'' then
           (case FdtSetProp L Fdt1 off ''status'' (text_val ''fail'') nl2 of (r1, Fdt2, nl3) \<Rightarrow> Some (Fdt2, nl3))
         else Some (Fdt1, nl2)
   }"

fun FindNodeAndUpdateProperty ::
    "'f fdt_rw \<Rightarrow> part_goods list \<Rightarrow> u32 \<Rightarrow> 'f \<Rightarrow> node_list \<Rightarrow> ('f \<times> node_list) option" where
  "FindNodeAndUpdateProperty L [] v Fdt nl = Some (Fdt, nl)"
| "FindNodeAndUpdateProperty L (e # es) v Fdt nl =
     (if part_hit v e then do {
        (Fdt1, nl1) \<leftarrow> disable_node L e Fdt nl;
        FindNodeAndUpdateProperty L es v Fdt1 nl1
      } else FindNodeAndUpdateProperty L es v Fdt nl)"

section \<open>What is defective\<close>

text \<open>The chip information protocol: the status of its lookup, whether it has the subset functions,
  and their answers.\<close>

record chip_subset =
  cs_locate :: efi_status
  cs_new :: bool
  GetSubsetCPUs :: "nat \<Rightarrow> efi_status + u32"
  GetSubsetPart :: "nat \<Rightarrow> efi_status + u32"

definition ReadCpuPartialGoods :: "chip_subset \<Rightarrow> efi_status \<times> u32" where
  "ReadCpuPartialGoods c = (case GetSubsetCPUs c 0 of
     Inl s \<Rightarrow> (if s = EFI_NOT_FOUND then EFI_SUCCESS else s, 0)
   | Inr v \<Rightarrow> (EFI_SUCCESS, v))"

fun mm_parts :: "chip_subset \<Rightarrow> nat list \<Rightarrow> efi_status \<Rightarrow> u32 \<Rightarrow> efi_status \<times> u32" where
  "mm_parts c [] Status Value = (Status, Value)"
| "mm_parts c (i # is) Status Value = (case GetSubsetPart c i of
     Inl s \<Rightarrow> mm_parts c is s Value
   | Inr v \<Rightarrow> mm_parts c is EFI_SUCCESS (Value OR push_bit i v))"

definition ReadMMPartialGoods :: "chip_subset \<Rightarrow> efi_status \<times> u32" where
  "ReadMMPartialGoods c = (case mm_parts c [1..<EFICHIPINFO_NUM_PARTS] EFI_SUCCESS 0 of
     (s, v) \<Rightarrow> (if s = EFI_NOT_FOUND then EFI_SUCCESS else s, v))"

text \<open>The first cluster type all of whose nodes are there, or the first type.\<close>

definition cpu_type :: "'f fdt_rw \<Rightarrow> 'f \<Rightarrow> nat" where
  "cpu_type L Fdt = (case List.find (\<lambda>i. CheckCPUType L Fdt (PartialGoodsCpuType ! i) = EFI_SUCCESS) [0..<MAX_CPU_CLUSTER] of
     None \<Rightarrow> 0 | Some i \<Rightarrow> i)"

definition UpdatePartialGoodsNode :: "'f fdt_rw \<Rightarrow> chip_subset \<Rightarrow> board_state \<Rightarrow> 'f \<Rightarrow> node_list \<Rightarrow>
    (efi_status \<times> 'f \<times> node_list) option" where
  "UpdatePartialGoodsNode L c bst Fdt nl =
     (if cs_locate c \<noteq> EFI_SUCCESS then Some (cs_locate c, Fdt, nl)
      else if \<not> cs_new c then Some (EFI_SUCCESS, Fdt, nl)
      else do {
        let mm = snd (ReadMMPartialGoods c);
        (Fdt1, nl1) \<leftarrow> (if mm \<noteq> 0 then FindNodeAndUpdateProperty L PartialGoodsMmType mm Fdt nl else Some (Fdt, nl));
        let v = snd (ReadCpuPartialGoods c);
        let cpu = (if BoardSoftSkuId bst = 1 \<and> v = 0 then v OR 0xc0 else v);
        if cpu = 0 then Some (EFI_SUCCESS, Fdt1, nl1)
        else do {
          (Fdt2, nl2) \<leftarrow> FindNodeAndUpdateProperty L (PartialGoodsCpuType ! cpu_type L Fdt1) cpu Fdt1 nl1;
          Some (EFI_SUCCESS, Fdt2, nl2)
        }
      })"

section \<open>Lemmas\<close>

lemma no_hit_unchanged: "\<forall>e\<in>set es. \<not> part_hit v e \<Longrightarrow> FindNodeAndUpdateProperty L es v Fdt nl = Some (Fdt, nl)"
  by (induction es) auto

text \<open>The masks of the second cluster type skip the bit of the last core.\<close>

lemma type1_misses_last: "e \<in> set PartialGoodsCpuType1 \<Longrightarrow> \<not> part_hit 0x80 e"
  by (auto simp: PartialGoodsCpuType1_def cpu_goods_def part_hit_def)

lemma hits_of_bits:
  "List.map pg_sub (filter (part_hit 0x10) PartialGoodsCpuType1) = [''cpu@105'', ''cpu@107'']"
  "List.map pg_sub (filter (part_hit 0x40) PartialGoodsCpuType1) = [''cpu@108'']"
  by (simp_all add: PartialGoodsCpuType1_def cpu_goods_def part_hit_def modem_val_def part_bit_def)

text \<open>A defective last core of a chip of the second cluster type stays enabled. The masks of that
  type's table should be the powers of two, one for each core as in the other tables; the seventh and
  the eighth are \<open>0x30\<close> and \<open>0x40\<close>, so no entry has the last core's bit: with only this core
  defective the update succeeds and changes nothing.\<close>

theorem last_core_ignored:
  assumes "cs_locate c = EFI_SUCCESS" "cs_new c" "snd (ReadMMPartialGoods c) = 0"
    and "GetSubsetCPUs c 0 = Inr 0x80" "cpu_type L Fdt = 1"
  shows "UpdatePartialGoodsNode L c bst Fdt nl = Some (EFI_SUCCESS, Fdt, nl)"
proof -
  have "FindNodeAndUpdateProperty L (PartialGoodsCpuType ! 1) 0x80 Fdt nl = Some (Fdt, nl)"
    by (rule no_hit_unchanged) (auto simp: PartialGoodsCpuType_def type1_misses_last)
  then show ?thesis using assms by (simp add: UpdatePartialGoodsNode_def ReadCpuPartialGoods_def)
qed

section \<open>An example\<close>

text \<open>A chip of the second cluster type: its nodes are there and no others.\<close>

definition demo_type1 :: "bytes option fdt_rw" where
  "demo_type1 = demo_rw\<lparr>rw_path := (\<lambda>f p. if p = ''/cpus'' then 8 else - 1),
     rw_subnode := (\<lambda>f off n. if n \<in> set (List.map pg_sub PartialGoodsCpuType1) then 16 else - 1)\<rparr>"

definition demo_chip :: chip_subset where
  "demo_chip = \<lparr>cs_locate = EFI_SUCCESS, cs_new = True, GetSubsetCPUs = (\<lambda>i. Inr 0x80), GetSubsetPart = (\<lambda>i. Inl EFI_NOT_FOUND)\<rparr>"

lemma demo_cpu_type: "cpu_type demo_type1 f = 1"
proof -
  have "CheckCPUType demo_type1 f PartialGoodsCpuType0 = EFI_NOT_FOUND"
    by (simp add: PartialGoodsCpuType0_def PartialGoodsCpuType1_def demo_type1_def cpu_goods_def)
  moreover have "CheckCPUType demo_type1 f PartialGoodsCpuType1 = EFI_SUCCESS"
    by (simp add: PartialGoodsCpuType1_def demo_type1_def cpu_goods_def)
  ultimately show ?thesis by (simp add: cpu_type_def PartialGoodsCpuType_def upt_rec)
qed

lemma demo_no_parts: "snd (ReadMMPartialGoods demo_chip) = 0"
proof -
  have "mm_parts demo_chip is s v = (if is = [] then s else EFI_NOT_FOUND, v)" for "is" s v
    by (induction "is" arbitrary: s) (simp_all add: demo_chip_def)
  then show ?thesis by (simp add: ReadMMPartialGoods_def)
qed

lemma last_core_ignored_example:
  "UpdatePartialGoodsNode demo_type1 demo_chip \<lparr>RamPartitionEntries = None, platform_board_info = zero_BoardInfo\<rparr> None [] =
    Some (EFI_SUCCESS, None, [])"
  by (rule last_core_ignored) (simp_all add: demo_cpu_type demo_no_parts, simp_all add: demo_chip_def)

end
