(* ===== verification/DtUpdate.thy ===== *)
theory DtUpdate
  imports PartialGoods CmdLine
begin

text \<open>
  Updating the device tree for the kernel (\<open>UpdateDeviceTree.c\<close>): the memory map and the memory's
  details go into the node \<open>/memory\<close>, the command line, random seeds and the place of the ramdisk
  into \<open>/chosen\<close>, the splash screen's and the display's memory into their reservations, and the boot
  device into the file system table. Trees and their functions are those of \<open>FdtRw\<close>.
\<close>

section \<open>Environment and state\<close>

abbreviation (input) MAX_CHANNELS :: nat where "MAX_CHANNELS \<equiv> 2"
abbreviation (input) MAX_RANKS :: nat where "MAX_RANKS \<equiv> 2"

record ddr_details =
  device_type :: u8
  num_channels :: u8
  num_ranks :: "u8 list"
  hbb :: "u8 list list"

record demura_info =
  dm_version :: u32
  dm_panel :: "u64 list"
  dm_addr :: "u32 list"
  dm_size :: "u32 list"

text \<open>The answers for the DDR protocol (details and revision), the random number generator's calls,
  and the variables with the splash screen and the display correction; \<open>du_bytes\<close> gives the bytes of a
  tree, \<open>du_addr\<close> is its address.\<close>

record 'f du_env =
  du_rw :: "'f fdt_rw"
  du_bytes :: "'f \<Rightarrow> bytes"
  du_addr :: u64
  du_lib :: fdt_lib
  du_board :: board_env
  du_ddr :: "efi_status + (ddr_details \<times> u64)"
  du_rng :: "nat \<Rightarrow> efi_status + u64"
  du_splash :: "efi_status + (u32 \<times> u32)"
  du_demura :: "efi_status + demura_info"
  du_dynamic :: bool
  du_boot_dev :: "efi_status + u64"
  du_root :: root_device
  du_partial :: bool
  du_chip :: chip_subset

abbreviation du_pool :: "'f du_env \<Rightarrow> nat \<Rightarrow> bool" where "du_pool env \<equiv> board_pool (du_board env)"

text \<open>The list of nodes, the board's state, and the two static counters of the memory node, and how often
  the random number generator has been asked.\<close>

record du_state =
  du_nodes :: node_list
  du_bst :: board_state
  mem_info_cnt :: bool
  mem_info_cnt64 :: bool
  rng_calls :: nat

definition be4 :: "u32 \<Rightarrow> bytes" where "be4 x = rev (PUT_LONG x)"
definition be8 :: "u64 \<Rightarrow> bytes" where "be8 x = rev (PUT_LONG_LONG x)"

definition find_node_path :: "'f du_env \<Rightarrow> string \<Rightarrow> 'f \<Rightarrow> du_state \<Rightarrow> (int \<times> du_state) option" where
  "find_node_path env np fdt st =
     map_option (\<lambda>(off, nl). (off, st\<lparr>du_nodes := nl\<rparr>)) (FdtPathOffset (du_rw env) fdt np (du_nodes st))"

definition prop_update :: "'f du_env \<Rightarrow> int \<Rightarrow> string \<Rightarrow> ('f \<Rightarrow> int \<times> 'f) \<Rightarrow> 'f \<Rightarrow> du_state \<Rightarrow> int \<times> 'f \<times> du_state" where
  "prop_update env off pn upd fdt st =
     (case FdtPropUpdateFunc (du_rw env) fdt off pn upd (du_nodes st) of (r, f, nl) \<Rightarrow> (r, f, st\<lparr>du_nodes := nl\<rparr>))"

definition set_val :: "'f du_env \<Rightarrow> int \<Rightarrow> string \<Rightarrow> bytes \<Rightarrow> 'f \<Rightarrow> du_state \<Rightarrow> int \<times> 'f \<times> du_state" where
  "set_val env off pn v = prop_update env off pn (\<lambda>f. rw_setprop (du_rw env) f off pn v)"

definition append_val :: "'f du_env \<Rightarrow> int \<Rightarrow> string \<Rightarrow> bytes \<Rightarrow> 'f \<Rightarrow> du_state \<Rightarrow> int \<times> 'f \<times> du_state" where
  "append_val env off pn v = prop_update env off pn (\<lambda>f. rw_appendprop (du_rw env) f off pn v)"

section \<open>The memory node\<close>

text \<open>The first cell of a property of the root, none when it is missing or empty; a property shorter
  than a cell has no value.\<close>

definition root_cells :: "'f du_env \<Rightarrow> 'f \<Rightarrow> int \<Rightarrow> string \<Rightarrow> u32 option option" where
  "root_cells env Fdt off pn = (case rw_getprop (du_rw env) Fdt off pn of
     None \<Rightarrow> Some None
   | Some v \<Rightarrow> if v = [] then Some None else map_option Some (be32 v 0))"

definition QueryMemoryCellSize :: "'f du_env \<Rightarrow> 'f \<Rightarrow> (efi_status + u32) option" where
  "QueryMemoryCellSize env Fdt =
     (let RootOffset = rw_path (du_rw env) Fdt ''/'' in
      if RootOffset < 0 then Some (Inl EFI_NOT_FOUND)
      else do {
        a \<leftarrow> root_cells env Fdt RootOffset ''#address-cells'';
        (case a of None \<Rightarrow> Some (Inl EFI_NOT_FOUND) | Some AddrCellSize \<Rightarrow> do {
          s \<leftarrow> root_cells env Fdt RootOffset ''#size-cells'';
          (case s of None \<Rightarrow> Some (Inl EFI_NOT_FOUND) | Some SizeCellSize \<Rightarrow>
            Some (if AddrCellSize > 2 \<or> SizeCellSize > 2 \<or> SizeCellSize = 0 \<or> AddrCellSize = 0 then Inl EFI_INVALID_PARAMETER
                  else if AddrCellSize = SizeCellSize then Inr AddrCellSize
                  else Inl EFI_INVALID_PARAMETER))
        })
      })"

definition dev_tree_add_mem_info :: "'f du_env \<Rightarrow> int \<Rightarrow> u32 \<Rightarrow> u32 \<Rightarrow> 'f \<Rightarrow> du_state \<Rightarrow> int \<times> 'f \<times> du_state" where
  "dev_tree_add_mem_info env off addr sz fdt st =
     (case (if \<not> mem_info_cnt st then set_val env off ''reg'' (be4 addr) fdt (st\<lparr>mem_info_cnt := True\<rparr>)
            else append_val env off ''reg'' (be4 addr) fdt st) of
        (r, f1, st1) \<Rightarrow> append_val env off ''reg'' (be4 sz) f1 st1)"

definition dev_tree_add_mem_infoV64 :: "'f du_env \<Rightarrow> int \<Rightarrow> u64 \<Rightarrow> u64 \<Rightarrow> 'f \<Rightarrow> du_state \<Rightarrow> int \<times> 'f \<times> du_state" where
  "dev_tree_add_mem_infoV64 env off addr sz fdt st =
     (case (if \<not> mem_info_cnt64 st then set_val env off ''reg'' (be8 addr) fdt (st\<lparr>mem_info_cnt64 := True\<rparr>)
            else append_val env off ''reg'' (be8 addr) fdt st) of
        (r, f1, st1) \<Rightarrow> append_val env off ''reg'' (be8 sz) f1 st1)"

text \<open>Failures to add a partition are only reported.\<close>

fun add_partitions :: "'f du_env \<Rightarrow> u32 \<Rightarrow> int \<Rightarrow> RamPartitionEntry list \<Rightarrow> 'f \<Rightarrow> du_state \<Rightarrow> 'f \<times> du_state" where
  "add_partitions env n off [] fdt st = (fdt, st)"
| "add_partitions env n off (p # ps) fdt st =
     (case (if n = 1 then dev_tree_add_mem_info env off (ucast (Base p)) (ucast (AvailableLength p)) fdt st
            else dev_tree_add_mem_infoV64 env off (Base p) (AvailableLength p) fdt st) of
        (r, f1, st1) \<Rightarrow> add_partitions env n off ps f1 st1)"

definition AddMemMap :: "'f du_env \<Rightarrow> int \<Rightarrow> 'f \<Rightarrow> du_state \<Rightarrow> (efi_status \<times> 'f \<times> du_state) option" where
  "AddMemMap env off fdt st = do {
     q \<leftarrow> QueryMemoryCellSize env fdt;
     (case q of
       Inl s \<Rightarrow> Some (s, fdt, st)
     | Inr MemoryCellLen \<Rightarrow> do {
         (s, ps, bst) \<leftarrow> ReadRamPartitions (du_board env) (du_bst st);
         if EFI_ERROR s then Some (s, fdt, st\<lparr>du_bst := bst\<rparr>)
         else (case add_partitions env MemoryCellLen off ps fdt (st\<lparr>du_bst := bst\<rparr>) of
           (f1, st1) \<Rightarrow> Some (EFI_SUCCESS, f1, st1\<lparr>du_bst := (du_bst st1)\<lparr>RamPartitionEntries := None\<rparr>\<rparr>))
       })
   }"

definition UpdateGranuleInfo :: "'f du_env \<Rightarrow> 'f \<Rightarrow> du_state \<Rightarrow> ('f \<times> du_state) option" where
  "UpdateGranuleInfo env fdt st = (case GetGranuleSize (du_board env) of
     (s, None) \<Rightarrow> Some (fdt, st)
   | (s, Some GranuleSize) \<Rightarrow> do {
       (off, st1) \<leftarrow> find_node_path env ''/mem-offline'' fdt st;
       if off < 0 then Some (fdt, st1)
       else (case set_val env off ''granule'' (be4 GranuleSize) fdt st1 of (r, f1, st2) \<Rightarrow> Some (f1, st2))
     })"

definition target_dev_tree_mem :: "'f du_env \<Rightarrow> int \<Rightarrow> 'f \<Rightarrow> du_state \<Rightarrow> (efi_status \<times> 'f \<times> du_state) option" where
  "target_dev_tree_mem env off fdt st = do {
     (s, f1, st1) \<leftarrow> AddMemMap env off fdt st;
     if EFI_ERROR s then Some (s, f1, st1)
     else map_option (\<lambda>(f2, st2). (s, f2, st2)) (UpdateGranuleInfo env f1 st1)
   }"

section \<open>The DDR's details\<close>

definition ValidateDdrRankChannel :: "ddr_details \<Rightarrow> bool" where
  "ValidateDdrRankChannel d = (unat (num_channels d) \<le> MAX_CHANNELS \<and>
     list_all (\<lambda>n. unat n \<le> MAX_RANKS) (take (unat (num_channels d)) (num_ranks d)))"

text \<open>The names are cut to their arrays, which have room for one digit each.\<close>

definition rank_name :: "nat \<Rightarrow> string" where
  "rank_name c = take 19 (''ddr_device_rank_ch'' @ digits 10 c)"

definition hbb_name :: "nat \<Rightarrow> nat \<Rightarrow> string" where
  "hbb_name c r = take 24 (''ddr_device_hbb_ch'' @ digits 10 c @ ''_rank'' @ digits 10 r)"

fun add_ranks :: "'f du_env \<Rightarrow> int \<Rightarrow> nat \<Rightarrow> (nat \<times> u8) list \<Rightarrow> 'f \<Rightarrow> du_state \<Rightarrow> 'f \<times> du_state" where
  "add_ranks env off c [] fdt st = (fdt, st)"
| "add_ranks env off c ((r, h) # rs) fdt st =
     (case append_val env off (hbb_name c r) (be4 (ucast h)) fdt st of (_, f1, st1) \<Rightarrow> add_ranks env off c rs f1 st1)"

fun add_channels :: "'f du_env \<Rightarrow> int \<Rightarrow> ddr_details \<Rightarrow> nat list \<Rightarrow> 'f \<Rightarrow> du_state \<Rightarrow> 'f \<times> du_state" where
  "add_channels env off d [] fdt st = (fdt, st)"
| "add_channels env off d (c # cs) fdt st =
     (case append_val env off (rank_name c) (be4 (ucast (num_ranks d ! c))) fdt st of (_, f1, st1) \<Rightarrow>
        (case add_ranks env off c (zip [0..<unat (num_ranks d ! c)] (hbb d ! c)) f1 st1 of (f2, st2) \<Rightarrow>
           add_channels env off d cs f2 st2))"

definition add_ddr :: "'f du_env \<Rightarrow> int \<Rightarrow> 'f \<Rightarrow> du_state \<Rightarrow> 'f \<times> du_state" where
  "add_ddr env off fdt st = (case du_ddr env of
     Inl s \<Rightarrow> (fdt, st)
   | Inr (d, Revision) \<Rightarrow>
       (case append_val env off ''ddr_device_type'' (be4 (ucast (device_type d))) fdt st of (_, f1, st1) \<Rightarrow>
          if Revision < 0x40000 \<or> \<not> ValidateDdrRankChannel d then (f1, st1)
          else add_channels env off d [0..<unat (num_channels d)] f1 st1))"

section \<open>Memory of the display\<close>

text \<open>The values are written through the property's pointer; setting it in place writes the same
  bytes once more.\<close>

definition UpdateSplashMemInfo :: "'f du_env \<Rightarrow> 'f \<Rightarrow> du_state \<Rightarrow> ('f \<times> du_state) option" where
  "UpdateSplashMemInfo env fdt st = (case du_splash env of
     Inl s \<Rightarrow> Some (fdt, st)
   | Inr (addr, sz) \<Rightarrow> do {
       (off, st1) \<leftarrow> find_node_path env ''/reserved-memory/splash_region'' fdt st;
       if off < 0 then Some (fdt, st1)
       else (case rw_getprop (du_rw env) fdt off ''reg'' of
         None \<Rightarrow> Some (fdt, st1)
       | Some v \<Rightarrow>
           if length v \<noteq> 16 then Some (fdt, st1)
           else Some (snd (rw_inplace (du_rw env) fdt off ''reg'' (splice 12 (be4 sz) (splice 4 (be4 addr) v))), st1))
     })"

definition UpdateDemuraRegion :: "'f du_env \<Rightarrow> string \<Rightarrow> u32 \<Rightarrow> u32 \<Rightarrow> 'f \<Rightarrow> du_state \<Rightarrow> ('f \<times> du_state) option" where
  "UpdateDemuraRegion env np HFCAddr HFCSize fdt st = do {
     (off, st1) \<leftarrow> find_node_path env np fdt st;
     if off < 0 then Some (fdt, st1)
     else (case rw_getprop (du_rw env) fdt off ''reg'' of
       None \<Rightarrow> Some (fdt, st1)
     | Some v \<Rightarrow>
         if length v < 16 then Some (fdt, st1)
         else Some (snd (rw_inplace (du_rw env) fdt off ''reg'' (splice 12 (be4 HFCSize) (splice 4 (be4 HFCAddr) v))), st1))
   }"

definition UpdateDemuraPanelID :: "'f du_env \<Rightarrow> string \<Rightarrow> u64 \<Rightarrow> 'f \<Rightarrow> du_state \<Rightarrow> ('f \<times> du_state) option" where
  "UpdateDemuraPanelID env np PanelID fdt st = do {
     (off, st1) \<leftarrow> find_node_path env np fdt st;
     if off < 0 then Some (fdt, st1)
     else (case rw_getprop (du_rw env) fdt off ''qcom,demura-panel-id'' of
       None \<Rightarrow> Some (fdt, st1)
     | Some v \<Rightarrow>
         if length v < 8 then Some (fdt, st1)
         else Some (snd (rw_inplace (du_rw env) fdt off ''qcom,demura-panel-id'' (splice 0 (be8 PanelID) v)), st1))
   }"

text \<open>The two regions and the two panels, each only when it is given.\<close>

definition UpdateDemuraInfo :: "'f du_env \<Rightarrow> 'f \<Rightarrow> du_state \<Rightarrow> ('f \<times> du_state) option" where
  "UpdateDemuraInfo env fdt st = (case du_demura env of
     Inl s \<Rightarrow> Some (fdt, st)
   | Inr d \<Rightarrow>
       if dm_version d = 0 then Some (fdt, st)
       else do {
         let region = (\<lambda>i np (f, s). if dm_addr d ! i \<noteq> 0 \<and> dm_size d ! i \<noteq> 0
                         then UpdateDemuraRegion env np (dm_addr d ! i) (dm_size d ! i) f s else Some (f, s));
         let panel = (\<lambda>i np (f, s). if dm_panel d ! i \<noteq> 0 then UpdateDemuraPanelID env np (dm_panel d ! i) f s
                         else Some (f, s));
         x1 \<leftarrow> region (0 :: nat) ''/reserved-memory/demura_region_0'' (fdt, st);
         x2 \<leftarrow> region 1 ''/reserved-memory/demura_region_1'' x1;
         x3 \<leftarrow> panel (0 :: nat) ''/soc/qcom,dsi-display-primary'' x2;
         panel 1 ''/soc/qcom,dsi-display-secondary'' x3
       })"

section \<open>The file system table\<close>

text \<open>Results: a status, the error of the last change of a property, or a status that was cut to
  32 bits.\<close>

datatype du_result = DuStatus efi_status | DuRet int | DuCut efi_status

fun AsciiStrStr :: "string \<Rightarrow> string \<Rightarrow> nat option" where
  "AsciiStrStr [] p = (if p = [] then Some 0 else None)"
| "AsciiStrStr (c # s) p = (if take (length p) (c # s) = p then Some 0 else map_option Suc (AsciiStrStr s p))"

text \<open>Replacing the boot device in a device path: the part between \<open>/soc/\<close> and the next slash. A path
  without a slash behind it has no value, since the null pointer is used. The text keeps its length,
  blanks fill its end.\<close>

definition replace_boot_dev :: "string \<Rightarrow> string \<Rightarrow> string option" where
  "replace_boot_dev BootDev s = (case AsciiStrStr s ''/soc/'' of
     None \<Rightarrow> Some s
   | Some i \<Rightarrow> (let r = i + 5 in
       if length s \<le> r then None
       else (case AsciiStrStr (drop (r + 1) s) ''/'' of
         None \<Rightarrow> None
       | Some j \<Rightarrow> (let DevNodeBootDevLen = j + 1 in
           if DevNodeBootDevLen \<ge> length BootDev
           then Some (take r s @ BootDev @ drop (r + 1 + j) s @ replicate (DevNodeBootDevLen - length BootDev) CHR '' '')
           else Some s))))"

definition chars :: "bytes \<Rightarrow> string" where "chars v = List.map (\<lambda>b. char_of (unat b)) v"

text \<open>One node of the table. A value without a terminator has no value here.\<close>

definition fstab_entry :: "'f du_env \<Rightarrow> string \<Rightarrow> int \<Rightarrow> 'f \<Rightarrow> du_state \<Rightarrow> du_result \<Rightarrow> ('f \<times> du_state \<times> du_result) option" where
  "fstab_entry env BootDev off fdt st res =
     (let pn = (if du_dynamic env then ''status'' else ''dev'') in
      case rw_getprop (du_rw env) fdt off pn of
        None \<Rightarrow> Some (fdt, st, res)
      | Some v \<Rightarrow>
          if du_dynamic env then
            (case FdtSetProp (du_rw env) fdt off pn (text_val ''disabled'') (du_nodes st) of
               (r, f1, nl) \<Rightarrow> Some (f1, st\<lparr>du_nodes := nl\<rparr>, if r = 0 then DuStatus EFI_SUCCESS else DuRet r))
          else if 0 \<notin> set v then None
          else (let s = chars (takeWhile (\<lambda>b. b \<noteq> 0) v) in
            map_option (\<lambda>s1. (snd (rw_inplace (du_rw env) fdt off pn (splice 0 (ascii s1) v)), st, res)) (replace_boot_dev BootDev s)))"

partial_function (option) fstab_nodes ::
    "'f du_env \<Rightarrow> string \<Rightarrow> int \<Rightarrow> 'f \<Rightarrow> du_state \<Rightarrow> du_result \<Rightarrow> ('f \<times> du_state \<times> du_result) option" where
  "fstab_nodes env BootDev off fdt st res =
     (if off < 0 then Some (fdt, st, res)
      else Option.bind (fstab_entry env BootDev off fdt st res) (\<lambda>(f1, st1, res1).
        fstab_nodes env BootDev (rw_nextsub (du_rw env) f1 off) f1 st1 res1))"

abbreviation (input) BOOT_DEV_MAX_LEN :: nat where "BOOT_DEV_MAX_LEN \<equiv> 32"

definition UpdateFstabNode :: "'f du_env \<Rightarrow> 'f \<Rightarrow> du_state \<Rightarrow> ('f \<times> du_state \<times> du_result) option" where
  "UpdateFstabNode env fdt st = do {
     (parent, st1) \<leftarrow> find_node_path env ''/firmware/android/fstab'' fdt st;
     if parent < 0 then Some (fdt, st1, DuStatus EFI_NOT_FOUND)
     else if du_dynamic env then
       fstab_nodes env [] (rw_first (du_rw env) fdt parent) fdt st1 (DuStatus EFI_SUCCESS)
     else if \<not> du_pool env BOOT_DEV_MAX_LEN then Some (fdt, st1, DuStatus EFI_OUT_OF_RESOURCES)
     else (case GetBootDevice (du_boot_dev env) (du_root env) BOOT_DEV_MAX_LEN of
       Inl s \<Rightarrow> Some (fdt, st1, DuStatus s)
     | Inr BootDevBuf \<Rightarrow> fstab_nodes env BootDevBuf (rw_first (du_rw env) fdt parent) fdt st1 (DuStatus EFI_SUCCESS))
   }"

section \<open>The node of the kernel's parameters\<close>

definition GetRandomSeed :: "'f du_env \<Rightarrow> du_state \<Rightarrow> (efi_status + u64) \<times> du_state" where
  "GetRandomSeed env st = (du_rng env (rng_calls st), st\<lparr>rng_calls := rng_calls st + 1\<rparr>)"

abbreviation (input) NUM_RNG_SEED_WORDS :: nat where "NUM_RNG_SEED_WORDS \<equiv> 512"

text \<open>Seeds until one cannot be had or added; the number is the result of the last change.\<close>

fun add_seeds :: "'f du_env \<Rightarrow> int \<Rightarrow> nat \<Rightarrow> int \<Rightarrow> 'f \<Rightarrow> du_state \<Rightarrow> int \<times> 'f \<times> du_state" where
  "add_seeds env off 0 ret fdt st = (ret, fdt, st)"
| "add_seeds env off (Suc n) ret fdt st = (case GetRandomSeed env st of
     (Inl s, st1) \<Rightarrow> (ret, fdt, st1)
   | (Inr RandomSeed, st1) \<Rightarrow>
       (case append_val env off ''rng-seed'' (be8 RandomSeed) fdt st1 of (r, f1, st2) \<Rightarrow>
          if r \<noteq> 0 then (r, f1, st2) else add_seeds env off n r f1 st2))"

definition add_kaslr :: "'f du_env \<Rightarrow> int \<Rightarrow> int \<Rightarrow> 'f \<Rightarrow> du_state \<Rightarrow> int \<times> 'f \<times> du_state" where
  "add_kaslr env off ret fdt st = (case GetRandomSeed env st of
     (Inl s, st1) \<Rightarrow> (ret, fdt, st1)
   | (Inr RandomSeed, st1) \<Rightarrow> append_val env off ''kaslr-seed'' (be8 RandomSeed) fdt st1)"

definition add_initrd :: "'f du_env \<Rightarrow> int \<Rightarrow> u64 \<Rightarrow> u32 \<Rightarrow> int \<Rightarrow> 'f \<Rightarrow> du_state \<Rightarrow> (efi_status + int) \<times> 'f \<times> du_state" where
  "add_initrd env off ramdisk RamDiskSize ret fdt st =
     (if RamDiskSize = 0 then (Inr ret, fdt, st)
      else (case set_val env off ''linux,initrd-start'' (be8 ramdisk) fdt st of (r, f1, st1) \<Rightarrow>
        if r \<noteq> 0 then (Inl EFI_NOT_FOUND, f1, st1)
        else (case set_val env off ''linux,initrd-end'' (be8 (ramdisk + ucast RamDiskSize)) f1 st1 of (r1, f2, st2) \<Rightarrow>
          if r1 \<noteq> 0 then (Inl EFI_NOT_FOUND, f2, st2) else (Inr 0, f2, st2))))"

definition update_chosen :: "'f du_env \<Rightarrow> int \<Rightarrow> string \<Rightarrow> u64 \<Rightarrow> u32 \<Rightarrow> 'f \<Rightarrow> du_state \<Rightarrow> (efi_status + int) \<times> 'f \<times> du_state" where
  "update_chosen env off cmdline ramdisk RamDiskSize fdt st =
     (case append_val env off ''bootargs'' (text_val cmdline) fdt st of (r, f1, st1) \<Rightarrow>
        if r \<noteq> 0 then (Inl EFI_LOAD_ERROR, f1, st1)
        else (case add_seeds env off (NUM_RNG_SEED_WORDS div 8) r f1 st1 of (r2, f2, st2) \<Rightarrow>
          (case add_kaslr env off r2 f2 st2 of (r3, f3, st3) \<Rightarrow>
            add_initrd env off ramdisk RamDiskSize r3 f3 st3)))"

section \<open>The update\<close>

text \<open>The size with the padding: the macro's argument is a sum without parentheses, so that its limit
  grows with the command line instead of shrinking.\<close>

abbreviation (input) DTB_PAD_SIZE :: u64 where "DTB_PAD_SIZE \<equiv> 2048"

definition padded_size :: "u32 \<Rightarrow> u64 \<Rightarrow> u32" where
  "padded_size a b =
     (if ucast MAX_UINT32 - DTB_PAD_SIZE + b > ucast a then ucast (ucast a + DTB_PAD_SIZE + b) else 0)"

definition update_memory_node :: "'f du_env \<Rightarrow> 'f \<Rightarrow> du_state \<Rightarrow> (efi_status \<times> 'f \<times> du_state) option" where
  "update_memory_node env fdt st = do {
     (off, st1) \<leftarrow> find_node_path env ''/memory'' fdt st;
     if off < 0 then Some (EFI_NOT_FOUND, fdt, st1)
     else do {
       (s, f1, st2) \<leftarrow> target_dev_tree_mem env off fdt st1;
       if s \<noteq> EFI_SUCCESS then Some (s, f1, st2)
       else if \<not> du_pool env 208 then Some (EFI_OUT_OF_RESOURCES, f1, st2)
       else (case add_ddr env off f1 st2 of (f2, st3) \<Rightarrow> Some (EFI_SUCCESS, f2, st3))
     }
   }"

definition partial_goods :: "'f du_env \<Rightarrow> int \<Rightarrow> 'f \<Rightarrow> du_state \<Rightarrow> (du_result \<times> 'f \<times> du_state) option" where
  "partial_goods env ret fdt st =
     (if du_partial env then do {
        (s, f1, nl) \<leftarrow> UpdatePartialGoodsNode (du_rw env) (du_chip env) (du_bst st) fdt (du_nodes st);
        Some (if s \<noteq> EFI_SUCCESS then (DuCut s, f1, st\<lparr>du_nodes := nl\<rparr>)
              else (DuStatus EFI_SUCCESS, rw_pack (du_rw env) f1, st\<lparr>du_nodes := nl\<rparr>))
      } else Some (if ret = 0 then DuStatus EFI_SUCCESS else DuRet ret, rw_pack (du_rw env) fdt, st))"

definition UpdateDeviceTree :: "'f du_env \<Rightarrow> string \<Rightarrow> u64 \<Rightarrow> u32 \<Rightarrow> 'f \<Rightarrow> du_state \<Rightarrow> (du_result \<times> 'f \<times> du_state) option" where
  "UpdateDeviceTree env cmdline ramdisk RamDiskSize fdt st =
     (if rw_header (du_rw env) fdt \<noteq> 0 \<or> \<not> fdt_check_header_ext (du_lib env) (du_addr env) (du_bytes env fdt)
      then Some (DuStatus EFI_NOT_FOUND, fdt, st)
      else let PaddSize = padded_size (fdt_totalsize (du_lib env) (du_bytes env fdt)) (of_nat (length cmdline)) in
        if PaddSize = 0 then Some (DuStatus EFI_BAD_BUFFER_SIZE, fdt, st)
        else (case rw_open (du_rw env) fdt (unat PaddSize) of (r, f1) \<Rightarrow>
          if r \<noteq> 0 then Some (DuStatus EFI_BAD_BUFFER_SIZE, f1, st)
          else do {
            (s, f2, st2) \<leftarrow> update_memory_node env f1 st;
            if s \<noteq> EFI_SUCCESS then Some (DuStatus s, f2, st2)
            else do {
              (f3, st3) \<leftarrow> UpdateSplashMemInfo env f2 st2;
              (f4, st4) \<leftarrow> UpdateDemuraInfo env f3 st3;
              (off, st5) \<leftarrow> find_node_path env ''/chosen'' f4 st4;
              if off < 0 then Some (DuStatus EFI_NOT_FOUND, f4, st5)
              else (case update_chosen env off cmdline ramdisk RamDiskSize f4 st5 of
                (Inl e, f5, st6) \<Rightarrow> Some (DuStatus e, f5, st6)
              | (Inr ret, f5, st6) \<Rightarrow> do {
                  (f6, st7, res) \<leftarrow> UpdateFstabNode env f5 st6;
                  partial_goods env ret f6 st7
                })
            }
          }))"

section \<open>What the nodes hold afterwards\<close>

lemma FdtPropUpdateFunc_tree: "FdtPropUpdateFunc L Fdt off pn upd nl = (r, f1, nl1) \<Longrightarrow> upd Fdt = (r, f1)"
  by (auto simp: FdtPropUpdateFunc_def Let_def split: if_split_asm prod.split_asm)

lemma prop_update_tree: "prop_update env off pn upd fdt st = (r, f1, st1) \<Longrightarrow> upd fdt = (r, f1)"
  by (auto simp: prop_update_def split: prod.split_asm dest!: FdtPropUpdateFunc_tree)

lemma prop_update_cnt: "prop_update env off pn upd fdt st = (r, f1, st1) \<Longrightarrow> mem_info_cnt64 st1 = mem_info_cnt64 st"
  by (auto simp: prop_update_def split: prod.split_asm)

text \<open>Values after an update, for either way to change a property.\<close>

context prop_change
begin

lemma update_other:
  assumes "fdt_values (du_rw env)" "prop_update env off pn (\<lambda>f. change (du_rw env) f off pn v) fdt st = (r, f1, st1)" "n \<noteq> pn"
  shows "rw_getprop (du_rw env) f1 off n = rw_getprop (du_rw env) fdt off n"
  using sets [OF assms(1) prop_update_tree [OF assms(2)]] assms(3) by (auto simp: changed_def split: if_split_asm)

lemma update_get:
  assumes "fdt_values (du_rw env)" "prop_update env off pn (\<lambda>f. change (du_rw env) f off pn v) fdt st = (0, f1, st1)"
  shows "rw_getprop (du_rw env) f1 off n =
    (if n = pn then Some (outcome (du_rw env) fdt off pn v) else rw_getprop (du_rw env) fdt off n)"
  using sets [OF assms(1) prop_update_tree [OF assms(2)]] by (simp add: changed_def)

lemma update_room:
  assumes "fdt_values (du_rw env)" "fst (change (du_rw env) fdt off pn v) = 0"
  shows "\<exists>f1 st1. prop_update env off pn (\<lambda>f. change (du_rw env) f off pn v) fdt st = (0, f1, st1) \<and>
    rw_getprop (du_rw env) f1 off pn = Some (outcome (du_rw env) fdt off pn v) \<and> mem_info_cnt64 st1 = mem_info_cnt64 st"
proof -
  obtain r f1 st1 where u: "prop_update env off pn (\<lambda>f. change (du_rw env) f off pn v) fdt st = (r, f1, st1)" by (metis prod_cases3)
  then have "r = 0" using prop_update_tree [OF u] assms(2) by simp
  then show ?thesis using u update_get [OF assms(1), of off pn v fdt st f1 st1 pn] prop_update_cnt [OF u] by simp
qed

end

lemmas set_val_get = setting.update_get [folded set_val_def]
  and set_val_room = setting.update_room [folded set_val_def]
  and append_val_get = extending.update_get [folded append_val_def]
  and append_val_other = extending.update_other [folded append_val_def]
  and append_val_outcome = extending.update_room [folded append_val_def]

lemma add_seeds_other:
  assumes "fdt_values (du_rw env)" "n \<noteq> ''rng-seed''"
  shows "add_seeds env off k ret fdt st = (r, f1, st1) \<Longrightarrow> rw_getprop (du_rw env) f1 off n = rw_getprop (du_rw env) fdt off n"
proof (induction k arbitrary: ret fdt st)
  case (Suc k)
  obtain g st2 where g: "GetRandomSeed env st = (g, st2)" by fastforce
  show ?case
  proof (cases g)
    case (Inl s)
    then show ?thesis using Suc.prems g by simp
  next
    case (Inr seed)
    obtain r1 f2 st3 where a: "append_val env off ''rng-seed'' (be8 seed) fdt st2 = (r1, f2, st3)"
      by (metis prod_cases3)
    show ?thesis
      using Suc g Inr a append_val_other [OF assms(1) a assms(2)] by (simp split: if_split_asm)
  qed
qed simp

lemma add_kaslr_other:
  assumes "fdt_values (du_rw env)" "add_kaslr env off ret fdt st = (r, f1, st1)" "n \<noteq> ''kaslr-seed''"
  shows "rw_getprop (du_rw env) f1 off n = rw_getprop (du_rw env) fdt off n"
proof -
  obtain g st2 where g: "GetRandomSeed env st = (g, st2)" by fastforce
  show ?thesis
  proof (cases g)
    case (Inl s)
    then show ?thesis using assms(2) g by (simp add: add_kaslr_def)
  next
    case (Inr seed)
    then have "append_val env off ''kaslr-seed'' (be8 seed) fdt st2 = (r, f1, st1)"
      using assms(2) g by (simp add: add_kaslr_def)
    from append_val_other [OF assms(1) this assms(3)] show ?thesis .
  qed
qed

lemma add_initrd_sets:
  assumes "fdt_values (du_rw env)" "add_initrd env off ramdisk RamDiskSize ret fdt st = (Inr r, f1, st1)"
  shows "rw_getprop (du_rw env) f1 off n =
    (if RamDiskSize \<noteq> 0 \<and> n = ''linux,initrd-start'' then Some (be8 ramdisk)
     else if RamDiskSize \<noteq> 0 \<and> n = ''linux,initrd-end'' then Some (be8 (ramdisk + ucast RamDiskSize))
     else rw_getprop (du_rw env) fdt off n)"
proof (cases "RamDiskSize = 0")
  case True
  then show ?thesis using assms(2) by (simp add: add_initrd_def)
next
  case False
  then obtain f2 st2 where a: "set_val env off ''linux,initrd-start'' (be8 ramdisk) fdt st = (0, f2, st2)"
    and b: "set_val env off ''linux,initrd-end'' (be8 (ramdisk + ucast RamDiskSize)) f2 st2 = (0, f1, st1)"
    using assms(2) by (auto simp: add_initrd_def split: prod.split_asm if_split_asm)
  show ?thesis using False set_val_get [OF assms(1) a, of n] set_val_get [OF assms(1) b, of n] by (auto split: if_splits)
qed

text \<open>C32. The kernel finds its command line and its ramdisk. When the update of the node \<open>/chosen\<close>
  goes on without an error, the node holds the command line with its terminator behind the arguments
  it had before, and, when there is a ramdisk, the ramdisk's first address and the address behind its
  last byte as two big-endian cells, whatever the random seeds did. Its other properties, the seeds
  aside, are those it had.\<close>

theorem update_chosen_complete:
  assumes "fdt_values (du_rw env)"
    and "update_chosen env off cmdline ramdisk RamDiskSize fdt st = (Inr ret, f1, st1)"
    and "n \<noteq> ''rng-seed''" "n \<noteq> ''kaslr-seed''"
  shows "rw_getprop (du_rw env) f1 off n =
    (if n = ''bootargs'' then Some (extended (du_rw env) fdt off n (text_val cmdline))
     else if RamDiskSize \<noteq> 0 \<and> n = ''linux,initrd-start'' then Some (be8 ramdisk)
     else if RamDiskSize \<noteq> 0 \<and> n = ''linux,initrd-end'' then Some (be8 (ramdisk + ucast RamDiskSize))
     else rw_getprop (du_rw env) fdt off n)"
proof -
  obtain r2 f2 st2 r3 f3 st3 r4 f4 st4 where
    b: "append_val env off ''bootargs'' (text_val cmdline) fdt st = (0, f2, st2)" and
    s: "add_seeds env off (NUM_RNG_SEED_WORDS div 8) 0 f2 st2 = (r3, f3, st3)" and
    k: "add_kaslr env off r3 f3 st3 = (r4, f4, st4)" and
    i: "add_initrd env off ramdisk RamDiskSize r4 f4 st4 = (Inr ret, f1, st1)"
    using assms(2) by (auto simp: update_chosen_def split: prod.split_asm if_split_asm)
  have "rw_getprop (du_rw env) f4 off n = rw_getprop (du_rw env) f2 off n"
    using add_kaslr_other [OF assms(1) k assms(4)] add_seeds_other [OF assms(1,3) s] by simp
  then show ?thesis
    using add_initrd_sets [OF assms(1) i, of n] append_val_get [OF assms(1) b, of n] by (auto split: if_splits)
qed

text \<open>The memory node. A property has room for a value when setting and extending it succeed up to that
  length.\<close>

definition has_room :: "'f fdt_rw \<Rightarrow> int \<Rightarrow> string \<Rightarrow> nat \<Rightarrow> bool" where
  "has_room L off pn k \<longleftrightarrow> (\<forall>f v. (length v \<le> k \<longrightarrow> fst (rw_setprop L f off pn v) = 0) \<and>
     (length (extended L f off pn v) \<le> k \<longrightarrow> fst (rw_appendprop L f off pn v) = 0))"

lemma has_roomD:
  assumes "has_room L off pn k"
  shows "length v \<le> k \<Longrightarrow> fst (rw_setprop L f off pn v) = 0"
    and "length (extended L f off pn v) \<le> k \<Longrightarrow> fst (rw_appendprop L f off pn v) = 0"
  using assms by (auto simp: has_room_def)

definition memory_reg :: "RamPartitionEntry list \<Rightarrow> bytes" where
  "memory_reg ps = concat (List.map (\<lambda>p. be8 (Base p) @ be8 (AvailableLength p)) ps)"

lemma be_length [simp]: "length (be8 x) = 8" "length (be4 y) = 4"
  by (simp_all add: be8_def be4_def)

lemma append_val_room:
  assumes "fdt_values (du_rw env)" "has_room (du_rw env) off pn k"
    "rw_getprop (du_rw env) fdt off pn = Some w" "length w + length v \<le> k"
  shows "\<exists>f1 st1. append_val env off pn v fdt st = (0, f1, st1) \<and> rw_getprop (du_rw env) f1 off pn = Some (w @ v) \<and>
    mem_info_cnt64 st1 = mem_info_cnt64 st"
  using append_val_outcome [OF assms(1), of fdt off pn v st] has_roomD(2) [OF assms(2), of fdt v] assms(3,4)
  by (simp add: extended_def)

lemma add_first:
  assumes "fdt_values (du_rw env)" "has_room (du_rw env) off ''reg'' k"
    "\<not> mem_info_cnt64 st" "16 \<le> k"
  shows "\<exists>r f1 st1. dev_tree_add_mem_infoV64 env off a s fdt st = (r, f1, st1) \<and>
    rw_getprop (du_rw env) f1 off ''reg'' = Some (be8 a @ be8 s) \<and> mem_info_cnt64 st1"
proof -
  have "fst (rw_setprop (du_rw env) fdt off ''reg'' (be8 a)) = 0" using has_roomD(1) [OF assms(2)] assms(4) by simp
  from set_val_room [OF assms(1) this, of "st\<lparr>mem_info_cnt64 := True\<rparr>"] obtain f1 st1 where
    a: "set_val env off ''reg'' (be8 a) fdt (st\<lparr>mem_info_cnt64 := True\<rparr>) = (0, f1, st1)"
      "rw_getprop (du_rw env) f1 off ''reg'' = Some (be8 a)" "mem_info_cnt64 st1" by auto
  from append_val_room [OF assms(1,2) a(2), of "be8 s" st1] a assms(3,4) show ?thesis
    by (auto simp: dev_tree_add_mem_infoV64_def)
qed

lemma add_next:
  assumes "fdt_values (du_rw env)" "has_room (du_rw env) off ''reg'' k"
    "mem_info_cnt64 st" "rw_getprop (du_rw env) fdt off ''reg'' = Some w" "length w + 16 \<le> k"
  shows "\<exists>r f1 st1. dev_tree_add_mem_infoV64 env off a s fdt st = (r, f1, st1) \<and>
    rw_getprop (du_rw env) f1 off ''reg'' = Some (w @ be8 a @ be8 s) \<and> mem_info_cnt64 st1"
proof -
  from append_val_room [OF assms(1,2,4), of "be8 a" st] assms(3,5) obtain f1 st1 where
    a: "append_val env off ''reg'' (be8 a) fdt st = (0, f1, st1)"
       "rw_getprop (du_rw env) f1 off ''reg'' = Some (w @ be8 a)" "mem_info_cnt64 st1" by auto
  from append_val_room [OF assms(1,2) a(2), of "be8 s" st1] a assms(3,5) show ?thesis
    by (auto simp: dev_tree_add_mem_infoV64_def)
qed

lemma add_partitions_rest:
  assumes "fdt_values (du_rw env)" "has_room (du_rw env) off ''reg'' k"
  shows "mem_info_cnt64 st \<Longrightarrow> rw_getprop (du_rw env) fdt off ''reg'' = Some w \<Longrightarrow> length w + 16 * length ps \<le> k \<Longrightarrow>
    rw_getprop (du_rw env) (fst (add_partitions env 2 off ps fdt st)) off ''reg'' = Some (w @ memory_reg ps)"
proof (induction ps arbitrary: fdt st w)
  case (Cons p ps)
  from add_next [OF assms Cons.prems(1,2), of "Base p" "AvailableLength p"] Cons.prems(3) obtain r f1 st1 where
    "dev_tree_add_mem_infoV64 env off (Base p) (AvailableLength p) fdt st = (r, f1, st1)"
    "rw_getprop (du_rw env) f1 off ''reg'' = Some (w @ be8 (Base p) @ be8 (AvailableLength p))" "mem_info_cnt64 st1" by auto
  with Cons.IH [of st1 f1 "w @ be8 (Base p) @ be8 (AvailableLength p)"] Cons.prems(3) show ?case
    by (simp add: memory_reg_def)
qed (simp add: memory_reg_def)


lemma AsciiStrStr_bound: "AsciiStrStr s p = Some i \<Longrightarrow> i + length p \<le> length s"
proof (induction s p arbitrary: i rule: AsciiStrStr.induct)
  case (2 c s p)
  show ?case
  proof (cases "take (length p) (c # s) = p")
    case True
    then have "length p \<le> length (c # s)" by (metis length_take min.cobounded1)
    then show ?thesis using 2(2) True by simp
  next
    case False
    then show ?thesis using 2 by auto
  qed
qed (auto split: if_split_asm)

text \<open>The file system table is edited in its place. The replaced device path keeps its length, what
  stands before the device's name and the name itself are where they belong, and behind the name comes
  what followed the old one, blanks at the end.\<close>

theorem replace_boot_dev_fits:
  assumes "AsciiStrStr s ''/soc/'' = Some i" "AsciiStrStr (drop (i + 6) s) ''/'' = Some j" "length BootDev \<le> j + 1"
  shows "\<exists>s1. replace_boot_dev BootDev s = Some s1 \<and> length s1 = length s \<and> take (i + 5) s1 = take (i + 5) s \<and>
    take (length BootDev) (drop (i + 5) s1) = BootDev \<and>
    drop (i + 5 + length BootDev) s1 = drop (i + 6 + j) s @ replicate (j + 1 - length BootDev) CHR '' ''"
proof -
  have i: "i + 5 \<le> length s" using AsciiStrStr_bound [OF assms(1)] by simp
  have j: "j + 1 \<le> length s - (i + 6)" using AsciiStrStr_bound [OF assms(2)] by simp
  then have "replace_boot_dev BootDev s =
      Some (take (i + 5) s @ BootDev @ drop (i + 6 + j) s @ replicate (j + 1 - length BootDev) CHR '' '')"
    using assms by (simp add: replace_boot_dev_def Let_def add.commute add.left_commute numeral_eq_Suc)
  then show ?thesis using i j assms(3) by simp
qed

section \<open>An example\<close>

text \<open>A tree with one node, whose properties are a map.\<close>

definition one_node :: "(string \<Rightarrow> bytes option) fdt_rw" where
  "one_node = \<lparr>rw_header = (\<lambda>f. 0), rw_next = (\<lambda>f off d. (- 1, 0)), rw_ptr = (\<lambda>f off n. None),
     rw_path = (\<lambda>f p. 0), rw_subnode = (\<lambda>f off n. - 1), rw_first = (\<lambda>f off. - 1), rw_nextsub = (\<lambda>f off. - 1),
     rw_getprop = (\<lambda>f off n. f n),
     rw_setprop = (\<lambda>f off n v. (0, f(n := Some v))),
     rw_appendprop = (\<lambda>f off n v. (0, f(n := Some (case f n of None \<Rightarrow> v | Some w \<Rightarrow> w @ v)))),
     rw_inplace = (\<lambda>f off n v. (0, f(n := Some v))), rw_open = (\<lambda>f n. (0, f)), rw_pack = (\<lambda>f. f), rw_new = False,
     rw_pool = (\<lambda>n. True), rw_behind = (\<lambda>n. False)\<rparr>"

lemma one_node_simps:
  "rw_getprop one_node f off n = f n" "rw_path one_node f p = 0" "\<not> rw_new one_node"
  "rw_setprop one_node f off n v = (0, f(n := Some v))"
  "rw_appendprop one_node f off n v = (0, f(n := Some (case f n of None \<Rightarrow> v | Some w \<Rightarrow> w @ v)))"
  by (simp_all add: one_node_def)

lemma one_node_values: "fdt_values one_node"
  by (auto simp: fdt_values_def changed_def one_node_simps extended_def)

lemma one_node_room: "has_room one_node off pn k"
  by (simp add: has_room_def one_node_simps)

definition up_env :: "(string \<Rightarrow> bytes option) du_env" where
  "up_env = \<lparr>du_rw = one_node, du_bytes = (\<lambda>f. []), du_addr = 0x83000000,
     du_lib = \<lparr>fdt_check_header = (\<lambda>b. True), fdt_totalsize = (\<lambda>b. 64), fdt_off_dt_struct = (\<lambda>b. 40),
       fdt_size_dt_struct = (\<lambda>b. 8), fdt_off_dt_strings = (\<lambda>b. 48), fdt_size_dt_strings = (\<lambda>b. 8),
       fdt_off_mem_rsvmap = (\<lambda>b. 40), fdt_has_root = (\<lambda>b. True), fdt_getprop = (\<lambda>b n. None)\<rparr>,
     du_board = \<lparr>ram_prot = Inl EFI_NOT_FOUND, chip_prot = Inl EFI_NOT_FOUND, plat_prot = Inl EFI_NOT_FOUND,
       pmic_prot = Inl EFI_NOT_FOUND, sku_prot = Inl EFI_NOT_FOUND, board_pool = (\<lambda>n. True),
       PcdSystemMemoryBase = 0x80000000, PcdSystemMemorySize = 0x40000000\<rparr>,
     du_ddr = Inl EFI_NOT_FOUND, du_rng = (\<lambda>i. if i = 0 then Inr 7 else Inl EFI_DEVICE_ERROR),
     du_splash = Inl EFI_NOT_FOUND, du_demura = Inl EFI_NOT_FOUND, du_dynamic = True, du_boot_dev = Inl EFI_NOT_FOUND,
     du_root = UFS, du_partial = False,
     du_chip = \<lparr>cs_locate = EFI_NOT_FOUND, cs_new = False, GetSubsetCPUs = (\<lambda>i. Inl EFI_NOT_FOUND),
       GetSubsetPart = (\<lambda>i. Inl EFI_NOT_FOUND)\<rparr>\<rparr>"

definition up_state :: du_state where
  "up_state = \<lparr>du_nodes = [], du_bst = \<lparr>RamPartitionEntries = Some [\<lparr>Base = 0x80000000, AvailableLength = 0x40000000\<rparr>,
       \<lparr>Base = 0x100000000, AvailableLength = 0x80000000\<rparr>], platform_board_info = zero_BoardInfo\<rparr>,
     mem_info_cnt = False, mem_info_cnt64 = False, rng_calls = 0\<rparr>"


text \<open>A command line behind the arguments of the tree, a ramdisk of 4096 bytes, and one seed.\<close>

lemma update_chosen_complete_witness:
  "\<exists>f1 st1. update_chosen up_env 8 ''ro'' 0x84000000 4096 [''bootargs'' \<mapsto> [0x61]] up_state = (Inr 0, f1, st1) \<and>
     f1 ''bootargs'' = Some [0x61, 0x72, 0x6f, 0] \<and> f1 ''linux,initrd-start'' = Some (be8 0x84000000) \<and>
     f1 ''linux,initrd-end'' = Some (be8 0x84001000)"
proof -
  have e: "du_rw up_env = one_node" by (simp add: up_env_def)
  note up = append_val_def set_val_def prop_update_def e one_node_simps FdtPropUpdateFunc_def GetRandomSeed_def Let_def
  have r: "du_rng up_env i = (if i = 0 then Inr 7 else Inl EFI_DEVICE_ERROR)" for i by (simp add: up_env_def)
  have "add_seeds up_env 8 (Suc (Suc k)) 0 f up_state =
      (0, f(''rng-seed'' := Some (case f ''rng-seed'' of None \<Rightarrow> be8 7 | Some w \<Rightarrow> w @ be8 7)), up_state\<lparr>rng_calls := 2\<rparr>)" for f k
    by (simp add: up r up_state_def)
  from this [of 62] have s: "add_seeds up_env 8 64 0 f up_state =
      (0, f(''rng-seed'' := Some (case f ''rng-seed'' of None \<Rightarrow> be8 7 | Some w \<Rightarrow> w @ be8 7)), up_state\<lparr>rng_calls := 2\<rparr>)" for f
    by simp
  have "\<exists>f1 st1. update_chosen up_env 8 ''ro'' 0x84000000 4096 [''bootargs'' \<mapsto> [0x61]] up_state = (Inr 0, f1, st1)"
    by (simp add: update_chosen_def up r s add_kaslr_def add_initrd_def)
  then obtain f1 st1 where u: "update_chosen up_env 8 ''ro'' 0x84000000 4096 [''bootargs'' \<mapsto> [0x61]] up_state = (Inr 0, f1, st1)"
    by blast
  note c = update_chosen_complete [OF _ u, unfolded e, OF one_node_values, unfolded one_node_simps]
  have t: "text_val ''ro'' = [0x72, 0x6f, 0]" by (simp add: text_val_def ascii_def)
  show ?thesis using u c [of "''bootargs''"] c [of "''linux,initrd-start''"] c [of "''linux,initrd-end''"]
    by (simp add: extended_def one_node_simps t)
qed

text \<open>The name on this board is shorter than the one of the table.\<close>

lemma replace_boot_dev_fits_example:
  "\<exists>s1. replace_boot_dev ''1d84000.ufshc'' ''/dev/platform/soc/1d84000.ufs_card/by-name/vendor'' = Some s1 \<and>
     length s1 = 49 \<and> s1 = ''/dev/platform/soc/1d84000.ufshc/by-name/vendor   ''"
proof -
  let ?s = "''/dev/platform/soc/1d84000.ufs_card/by-name/vendor''"
  have "AsciiStrStr ?s ''/soc/'' = Some 13" by simp
  moreover have "AsciiStrStr (drop (13 + 6) ?s) ''/'' = Some 15" by simp
  ultimately obtain s1 where s1: "replace_boot_dev ''1d84000.ufshc'' ?s = Some s1" "length s1 = length ?s"
    using replace_boot_dev_fits [of ?s 13 15 "''1d84000.ufshc''"] by auto
  moreover have "replace_boot_dev ''1d84000.ufshc'' ?s = Some ''/dev/platform/soc/1d84000.ufshc/by-name/vendor   ''"
    by (simp add: replace_boot_dev_def Let_def numeral_eq_Suc)
  ultimately show ?thesis by simp
qed

end
