(* ===== verification/LinuxBoot.thy ===== *)
theory LinuxBoot
  imports KernelImage DtUpdate DtbMatch
begin

text \<open>
  Starting the kernel (\<open>BootLinux.c\<close>): the hypervisor's overlays (\<open>HypervisorMvCalls.c\<close>), the check with
  the mobile device theft protection, putting together the device tree, placing the ramdisk, leaving
  the boot services (\<open>ShutdownServices.c\<close>) and the hand-over.

  Parameters are the overlay library, zlib and the tree a place in memory holds; a device tree that was
  updated is written back to its place.
\<close>

section \<open>Environment and state\<close>

record overlay_lib =
  pre_overlay_malloc :: bool
  ufdt_install_blob :: "bytes \<Rightarrow> bytes option"
  ufdt_apply_multi_overlay :: "bytes \<Rightarrow> (u64 \<times> u64) list \<Rightarrow> bytes option"

record hyp_boot_info =
  hyp_bootinfo_magic :: u32
  num_dtbos :: u32
  dtbo_base :: "image option list"

text \<open>The answers of the firmware while the boot services are left: to the numbered calls of
  \<open>GetMemoryMap\<close> and \<open>ExitBootServices\<close>, and whether pages for the map can be had.\<close>

record shutdown_env =
  sd_map :: "nat \<Rightarrow> efi_status"
  sd_exit :: "nat \<Rightarrow> efi_status"
  sd_pages :: "nat \<Rightarrow> bool"

record 'f lb_env =
  lb_dte :: dt_env
  lb_cmde :: cmd_env
  lb_due :: "'f du_env"
  lb_tree :: "mem \<Rightarrow> u64 \<Rightarrow> 'f"
  lb_zlib :: zlib
  lb_region :: "efi_status + (u64 \<times> u64)"
  lb_overlay :: overlay_lib
  lb_ovrd :: u64
  lb_hyp :: "efi_status + hyp_boot_info option"
  MdtpBootState :: "string \<Rightarrow> efi_status"
  lb_switch :: efi_status
  lb_shutdown :: shutdown_env

abbreviation lb_sw :: "'f lb_env \<Rightarrow> build_switches" where "lb_sw env \<equiv> ce_sw (lb_cmde env)"
abbreviation lb_pool :: "'f lb_env \<Rightarrow> nat \<Rightarrow> bool" where "lb_pool env \<equiv> de_pool (lb_dte env)"
abbreviation lb_fdt :: "'f lb_env \<Rightarrow> fdt_lib" where "lb_fdt env \<equiv> de_lib (lb_dte env)"

text \<open>The memory, what the command line and the device tree code keep, and the hypervisor's data once
  they were asked for.\<close>

record lb_state =
  lb_mem :: mem
  lb_cmd :: cmd_state
  lb_du :: du_state
  lb_vm :: "hyp_boot_info option"

abbreviation lb_dt :: "lb_state \<Rightarrow> dt_state" where "lb_dt st \<equiv> cs_dt (lb_cmd st)"

definition set_dt :: "dt_state \<Rightarrow> lb_state \<Rightarrow> lb_state" where
  "set_dt d st = st\<lparr>lb_cmd := (lb_cmd st)\<lparr>cs_dt := d\<rparr>\<rparr>"

section \<open>The hypervisor\<close>

definition IsVmEnabled :: "lb_state \<Rightarrow> bool" where
  "IsVmEnabled st \<longleftrightarrow> lb_vm st \<noteq> None"

text \<open>The call's answer, a null pointer being none.\<close>

definition GetVmData :: "'f lb_env \<Rightarrow> lb_state \<Rightarrow> hyp_boot_info option \<times> lb_state" where
  "GetVmData env st =
     (if IsVmEnabled st then (lb_vm st, st)
      else (case lb_hyp env of
        Inl s \<Rightarrow> (None, st)
      | Inr None \<Rightarrow> (None, st)
      | Inr (Some i) \<Rightarrow> (Some i, st\<lparr>lb_vm := Some i\<rparr>)))"

abbreviation (input) HYP_BOOTINFO_MAGIC :: u32 where "HYP_BOOTINFO_MAGIC \<equiv> 0xC06B0071"
abbreviation (input) HYP_MAX_NUM_DTBOS :: u32 where "HYP_MAX_NUM_DTBOS \<equiv> 4"

definition SetHypInfo :: "'f lb_env \<Rightarrow> hyp_boot_info \<Rightarrow> boot_params \<Rightarrow> efi_status \<times> boot_params" where
  "SetHypInfo env i p =
     (if hyp_bootinfo_magic i \<noteq> HYP_BOOTINFO_MAGIC then (EFI_UNSUPPORTED, p)
      else let NumDtbos = (if num_dtbos i > HYP_MAX_NUM_DTBOS then HYP_MAX_NUM_DTBOS else num_dtbos i) in
        if \<not> lb_pool env (unat NumDtbos * 8) then (EFI_OUT_OF_RESOURCES, p)
        else (EFI_SUCCESS, p\<lparr>HypDtboBaseAddr := Some (take (unat NumDtbos) (dtbo_base i))\<rparr>))"

definition CheckAndSetVmData :: "'f lb_env \<Rightarrow> boot_params \<Rightarrow> lb_state \<Rightarrow> efi_status \<times> boot_params \<times> lb_state" where
  "CheckAndSetVmData env p st = (case GetVmData env st of
     (None, st1) \<Rightarrow> (EFI_UNSUPPORTED, p, st1)
   | (Some i, st1) \<Rightarrow> (case SetHypInfo env i p of (s, p1) \<Rightarrow> (s, p1, st1)))"

section \<open>Theft protection\<close>

definition MdtpBlocks :: "cmd_env \<Rightarrow> dev_state \<Rightarrow> bool" where
  "MdtpBlocks env dev =
     (ce_mdtp_support env \<and>
      (case IsMdtpActive (ce_mdtp_prot env) (ce_mdtp_get env) of (s, act) \<Rightarrow>
         (act \<or> EFI_ERROR s \<and> s \<noteq> EFI_NOT_FOUND) \<and> (\<not> IsEnforcing dev \<or> IsUnlocked dev)))"

text \<open>The name the protection knows a partition by: a slash and the name without its slot. The length is a
  32-bit number; partition names have at most 36 characters.\<close>

definition mdtp_name :: "BootInfo \<Rightarrow> string \<Rightarrow> string" where
  "mdtp_name Info PartName =
     (let n = (of_nat (length PartName) :: u32); k = (if MultiSlotBoot Info then n - 2 else n)
      in ''/'' @ take (unat k) PartName)"

definition CheckMDTPStatus :: "'f lb_env \<Rightarrow> string \<Rightarrow> BootInfo \<Rightarrow> dev_state \<Rightarrow> efi_status" where
  "CheckMDTPStatus env PartName Info dev =
     (if MdtpBlocks (lb_cmde env) dev then EFI_NOT_STARTED
      else if \<not> ce_mdtp_support (lb_cmde env) then EFI_SUCCESS
      else let s = ce_mdtp_prot (lb_cmde env) in
        if s = EFI_NOT_FOUND \<or> EFI_ERROR s then s
        else MdtpBootState env (mdtp_name Info PartName))"

section \<open>The device tree\<close>

definition GetNumberOfPages :: "u32 \<Rightarrow> u32 \<Rightarrow> u32" where
  "GetNumberOfPages ImgSz PgSz = (ImgSz + PgSz - 1) div PgSz"

text \<open>Overlays are applied to a copy of the tree, which is then copied to its place.\<close>

definition overlaid :: "'f lb_env \<Rightarrow> bytes \<Rightarrow> (u64 \<times> u64) list \<Rightarrow> efi_status + bytes" where
  "overlaid env dtb DtsList =
     (if DtsList = [] then Inr dtb
      else if \<not> pre_overlay_malloc (lb_overlay env) then Inl EFI_OUT_OF_RESOURCES
      else (case ufdt_install_blob (lb_overlay env) dtb of
        None \<Rightarrow> Inl EFI_NOT_FOUND
      | Some tmp \<Rightarrow> (case ufdt_apply_multi_overlay (lb_overlay env) tmp DtsList of
          None \<Rightarrow> Inl EFI_NOT_FOUND
        | Some final \<Rightarrow> Inr final)))"

definition ApplyOverlay :: "'f lb_env \<Rightarrow> boot_params \<Rightarrow> bytes \<Rightarrow> (u64 \<times> u64) list \<Rightarrow> mem \<Rightarrow> efi_status \<times> mem" where
  "ApplyOverlay env p dtb DtsList m = (case overlaid env dtb DtsList of
     Inl s \<Rightarrow> (s, m)
   | Inr final \<Rightarrow>
       let sz = fdt_totalsize (lb_fdt env) final in
       if RamdiskLoadAddr p - DeviceTreeLoadAddr p < ucast sz then (EFI_UNSUPPORTED, m)
       else (EFI_SUCCESS, CopyMem m (DeviceTreeLoadAddr p) (take (unat sz) final)))"

text \<open>Where the device trees are looked for: whether in the vendor's image, the address the offset counts
  from, and the size. Offsets and sizes are 32-bit numbers.\<close>

definition dtb_source :: "BootInfo \<Rightarrow> boot_params \<Rightarrow> (bool \<times> u64 \<times> u32 \<times> u32) option" where
  "dtb_source Info p =
     (if HeaderVersion Info \<le> 1
      then Some (False, im_addr (ImageBuffer p) + ucast (PageSize p) + ucast (PatchedKernelHdrSize p), KernelSize p, DtbOffset p)
      else if HeaderVersion Info = 2 then do {
        rec \<leftarrow> get32 (im_data (ImageBuffer p)) 1632;
        dtb \<leftarrow> get32 (im_data (ImageBuffer p)) 1648;
        let off = PageSize p * (1 + GetNumberOfPages (KernelSize p) (PageSize p) + GetNumberOfPages (RamdiskSize p) (PageSize p) +
                   GetNumberOfPages (SecondSize p) (PageSize p) + GetNumberOfPages rec (PageSize p));
        Some (False, im_addr (ImageBuffer p), dtb + off, off)
      }
      else do {
        v \<leftarrow> VendorImageBuffer p;
        dtb \<leftarrow> get32 (im_data v) 2100;
        let off = PageSize p * (1 + GetNumberOfPages (VendorRamdiskSize p) (PageSize p));
        Some (True, im_addr v, dtb + off, off)
      })"

definition dtb_image :: "bool \<Rightarrow> boot_params \<Rightarrow> image option" where
  "dtb_image vendor p = (if vendor then VendorImageBuffer p else Some (ImageBuffer p))"

definition set_dtb_image :: "bool \<Rightarrow> image \<Rightarrow> boot_params \<Rightarrow> boot_params" where
  "set_dtb_image vendor im p = (if vendor then p\<lparr>VendorImageBuffer := Some im\<rparr> else p\<lparr>ImageBuffer := im\<rparr>)"

text \<open>A single device tree, which is looked for at the offset in the boot image, whichever image the
  offset was counted in.\<close>

definition single_dtb :: "'f lb_env \<Rightarrow> boot_params \<Rightarrow> u32 \<Rightarrow> mem \<Rightarrow> (efi_status \<times> mem) option" where
  "single_dtb env p ImgSz m =
     (if DtbOffset p \<ge> ImgSz then Some (EFI_BAD_BUFFER_SIZE, m)
      else do {
        let SingleDtHdr = im_addr (ImageBuffer p) + ucast (DtbOffset p);
        h \<leftarrow> peek (ImageBuffer p) SingleDtHdr 40;
        let sz = fdt_totalsize (lb_fdt env) h;
        if \<not> fdt_check_header (lb_fdt env) h then Some (EFI_NOT_FOUND, m)
        else if ImgSz - DtbOffset p < sz then Some (EFI_BAD_BUFFER_SIZE, m)
        else do {
          nxt \<leftarrow> peek (ImageBuffer p) (SingleDtHdr + ucast sz) 40;
          if fdt_check_header (lb_fdt env) nxt then Some (EFI_NOT_FOUND, m)
          else if CHECK_ADD64 (DeviceTreeLoadAddr p) (ucast sz) then Some (EFI_BAD_BUFFER_SIZE, m)
          else do {
            dtb \<leftarrow> peek (ImageBuffer p) SingleDtHdr (unat sz);
            Some (EFI_SUCCESS, CopyMem m (DeviceTreeLoadAddr p) dtb)
          }
        }
      })"

text \<open>The overlays: the board's, the hypervisor's as far as their headers are right, and the override.
  Each is an address and a size.\<close>

definition add_overlay :: "'f lb_env \<Rightarrow> image \<Rightarrow> u64 \<Rightarrow> (u64 \<times> u64) list \<Rightarrow> (efi_status + (u64 \<times> u64) list) option" where
  "add_overlay env im a DtsList = do {
     h \<leftarrow> peek im a 40;
     Some (case AppendToDtList (lb_dte env) DtsList a (ucast (fdt_totalsize (lb_fdt env) h)) of
       (ok, l) \<Rightarrow> if ok then Inr l else Inl EFI_OUT_OF_RESOURCES)
   }"

definition board_overlay :: "'f lb_env \<Rightarrow> boot_params \<Rightarrow> dt_state \<Rightarrow> ((efi_status + (u64 \<times> u64) list) \<times> dt_state) option" where
  "board_overlay env p d =
     (if \<not> GetDtboNeeded d then Some (Inr [], d)
      else do {
        (b, d1) \<leftarrow> GetBoardDtb (lb_dte env) (DtboImgBuffer p) d;
        (case b of
          None \<Rightarrow> Some (Inl EFI_NOT_FOUND, d1)
        | Some BoardDtb \<Rightarrow> do {
            im \<leftarrow> DtboImgBuffer p;
            l \<leftarrow> add_overlay env im BoardDtb [];
            Some (l, d1)
          })
      })"

fun hyp_overlays :: "'f lb_env \<Rightarrow> image option list \<Rightarrow> (u64 \<times> u64) list \<Rightarrow> (efi_status + (u64 \<times> u64) list) option" where
  "hyp_overlays env [] l = Some (Inr l)"
| "hyp_overlays env (None # is) l = hyp_overlays env is l"
| "hyp_overlays env (Some im # is) l = do {
     h \<leftarrow> peek im (im_addr im) 40;
     if \<not> fdt_check_header (lb_fdt env) h then hyp_overlays env is l
     else do {
       r \<leftarrow> add_overlay env im (im_addr im) l;
       (case r of Inl s \<Rightarrow> Some (Inl s) | Inr l1 \<Rightarrow> hyp_overlays env is l1)
     }
   }"

definition vm_overlays :: "'f lb_env \<Rightarrow> boot_params \<Rightarrow> lb_state \<Rightarrow> (u64 \<times> u64) list \<Rightarrow> (efi_status + (u64 \<times> u64) list) option" where
  "vm_overlays env p st l =
     (if \<not> IsVmEnabled st then Some (Inr l)
      else (case HypDtboBaseAddr p of None \<Rightarrow> Some (Inl EFI_NOT_FOUND) | Some is \<Rightarrow> hyp_overlays env is l))"

definition override_overlay :: "'f lb_env \<Rightarrow> (u64 \<times> u64) list \<Rightarrow> (efi_status + (u64 \<times> u64) list) option" where
  "override_overlay env l =
     (if build_variant_user (lb_sw env) then Some (Inr l)
      else do {
        (s, o1) \<leftarrow> GetOvrdDtb (lb_dte env) (ce_misc (lb_cmde env)) (lb_ovrd env) [];
        (case o1 of
          Some (im, a) \<Rightarrow> if s = EFI_SUCCESS then add_overlay env im a l else Some (Inr l)
        | None \<Rightarrow> Some (Inr l))
      })"

definition overlay_dtb :: "'f lb_env \<Rightarrow> boot_params \<Rightarrow> image \<Rightarrow> u64 \<Rightarrow> u32 \<Rightarrow> lb_state \<Rightarrow> (efi_status \<times> lb_state) option" where
  "overlay_dtb env p im kern ImgSz st = do {
     (soc, d) \<leftarrow> GetSocDtb (lb_dte env) im kern ImgSz (DtbOffset p) (lb_dt st);
     let st1 = set_dt d st;
     (case soc of
       None \<Rightarrow> Some (EFI_NOT_FOUND, st1)
     | Some SocDtb \<Rightarrow> do {
         (b, d1) \<leftarrow> board_overlay env p d;
         let st2 = set_dt d1 st1;
         (case b of
           Inl s \<Rightarrow> Some (s, st2)
         | Inr l1 \<Rightarrow> do {
             v \<leftarrow> vm_overlays env p st2 l1;
             (case v of
               Inl s \<Rightarrow> Some (s, st2)
             | Inr l2 \<Rightarrow> do {
                 r \<leftarrow> override_overlay env l2;
                 (case r of
                   Inl s \<Rightarrow> Some (s, st2)
                 | Inr l3 \<Rightarrow> do {
                     h \<leftarrow> peek im SocDtb 40;
                     dtb \<leftarrow> peek im SocDtb (unat (fdt_totalsize (lb_fdt env) h));
                     Some (case ApplyOverlay env p dtb l3 (lb_mem st2) of (s, m) \<Rightarrow> (s, st2\<lparr>lb_mem := m\<rparr>))
                   })
               })
           })
       })
   }"

text \<open>\<open>LoadAndValidateDtboImg\<close> tells whether there is a DTBO image to use.\<close>

definition DTBImgCheckAndAppendDT :: "'f lb_env \<Rightarrow> BootInfo \<Rightarrow> boot_params \<Rightarrow> lb_state \<Rightarrow>
    (efi_status \<times> boot_params \<times> lb_state) option" where
  "DTBImgCheckAndAppendDT env Info p st = do {
     (vendor, kern, ImgSz, off) \<leftarrow> dtb_source Info p;
     (dtbo, p1) \<leftarrow> LoadAndValidateDtboImg (lb_sw env) Info (p\<lparr>DtbOffset := off\<rparr>);
     im \<leftarrow> dtb_image vendor p1;
     if dtbo then do {
       (s, st1) \<leftarrow> overlay_dtb env p1 im kern ImgSz st;
       Some (s, p1, st1)
     } else do {
       (found, m, im1, d) \<leftarrow> DeviceTreeAppended (lb_dte env) im kern ImgSz off (DeviceTreeLoadAddr p1) (lb_mem st) (lb_dt st);
       let st1 = set_dt d (st\<lparr>lb_mem := m\<rparr>);
       let p2 = set_dtb_image vendor im1 p1;
       if found then Some (EFI_SUCCESS, p2, st1)
       else do {
         (s, m1) \<leftarrow> single_dtb env p2 ImgSz m;
         Some (s, p2, st1\<lparr>lb_mem := m1\<rparr>)
       }
     }
   }"

section \<open>The ramdisk\<close>

text \<open>A part of an image.\<close>

definition part :: "image \<Rightarrow> u32 \<Rightarrow> u32 \<Rightarrow> bytes option" where
  "part im off n = (if unat off + unat n \<le> length (im_data im) then Some (slice (unat off) (unat n) (im_data im)) else None)"

definition place_ramdisk :: "BootInfo \<Rightarrow> boot_params \<Rightarrow> mem \<Rightarrow> mem option" where
  "place_ramdisk Info p m = do {
     r \<leftarrow> part (ImageBuffer p) (RamdiskOffset p) (RamdiskSize p);
     if HeaderVersion Info \<ge> 3 then do {
       v \<leftarrow> VendorImageBuffer p;
       vr \<leftarrow> part v (PageSize p) (VendorRamdiskSize p);
       Some (CopyMem (CopyMem m (RamdiskLoadAddr p) vr) (RamdiskLoadAddr p + ucast (VendorRamdiskSize p)) r)
     } else Some (CopyMem m (RamdiskLoadAddr p) r)
   }"

definition place_kernel32 :: "boot_params \<Rightarrow> mem \<Rightarrow> (efi_status \<times> mem) option" where
  "place_kernel32 p m =
     (if \<not> BootingWith32BitKernel p then Some (EFI_SUCCESS, m)
      else if CHECK_ADD64 (KernelLoadAddr p) (ucast (KernelSizeActual p)) then Some (EFI_BAD_BUFFER_SIZE, m)
      else if KernelLoadAddr p + ucast (KernelSizeActual p) > DeviceTreeLoadAddr p then Some (EFI_INVALID_PARAMETER, m)
      else do {
        k \<leftarrow> part (ImageBuffer p) (PageSize p) (KernelSizeActual p);
        Some (EFI_SUCCESS, CopyMem m (KernelLoadAddr p) k)
      })"

definition update_tree :: "'f lb_env \<Rightarrow> boot_params \<Rightarrow> u32 \<Rightarrow> lb_state \<Rightarrow> (du_result \<times> lb_state) option" where
  "update_tree env p both_sizes st = do {
     let due = (lb_due env)\<lparr>du_addr := DeviceTreeLoadAddr p\<rparr>;
     (r, f, d) \<leftarrow> UpdateDeviceTree due (chars (FinalCmdLine p)) (RamdiskLoadAddr p) both_sizes
                   (lb_tree env (lb_mem st) (DeviceTreeLoadAddr p)) (lb_du st);
     Some (r, st\<lparr>lb_du := d, lb_mem := CopyMem (lb_mem st) (DeviceTreeLoadAddr p) (du_bytes due f)\<rparr>)
   }"

text \<open>\<open>RamdiskEndAddr\<close> is never set, so that the limit is the end of the address space.\<close>

definition LoadAddrAndDTUpdate :: "'f lb_env \<Rightarrow> BootInfo \<Rightarrow> boot_params \<Rightarrow> lb_state \<Rightarrow> (du_result \<times> lb_state) option" where
  "LoadAddrAndDTUpdate env Info p st =
     (let RamdiskEndAddr = 0; both_sizes = RamdiskSize p + VendorRamdiskSize p in
      if RamdiskEndAddr - RamdiskLoadAddr p < ucast both_sizes then Some (DuStatus EFI_BAD_BUFFER_SIZE, st)
      else if CHECK_ADD64 (im_addr (ImageBuffer p)) (ucast (RamdiskOffset p)) then Some (DuStatus EFI_BAD_BUFFER_SIZE, st)
      else do {
        (r, st1) \<leftarrow> update_tree env p both_sizes st;
        if r \<noteq> DuStatus EFI_SUCCESS then Some (r, st1)
        else do {
          m1 \<leftarrow> place_ramdisk Info p (lb_mem st1);
          (s, m2) \<leftarrow> place_kernel32 p m1;
          Some (DuStatus s, st1\<lparr>lb_mem := m2\<rparr>)
        }
      })"

section \<open>Leaving the boot services\<close>

text \<open>The memory map is asked for again, with pages for it, when its size was not known; any error starts
  again. \<open>n\<close> counts the calls. The result is the final status.\<close>

partial_function (option) shutdown_loop :: "shutdown_env \<Rightarrow> nat \<Rightarrow> efi_status option" where
  "shutdown_loop env n =
     (if sd_map env n = EFI_BUFFER_TOO_SMALL then
        if \<not> sd_pages env n then Some EFI_OUT_OF_RESOURCES
        else if EFI_ERROR (sd_map env (n + 1)) then shutdown_loop env (n + 2)
        else if EFI_ERROR (sd_exit env (n + 1)) then shutdown_loop env (n + 2)
        else Some (sd_exit env (n + 1))
      else if EFI_ERROR (sd_map env n) then shutdown_loop env (n + 1)
      else if EFI_ERROR (sd_exit env n) then shutdown_loop env (n + 1)
      else Some (sd_exit env n))"

definition ShutdownUefiBootServices :: "shutdown_env \<Rightarrow> efi_status option" where
  "ShutdownUefiBootServices env = shutdown_loop env 0"

section \<open>The hand-over\<close>

text \<open>How it ends: back with a status, stopped in \<open>CpuDeadLoop\<close>, in a 64-bit or a 32-bit kernel with the
  address of its device tree, or in the secure monitor's switch to a 32-bit kernel. The switch does not
  return to the loader's own jump: every status it reports stops it.\<close>

datatype boot_end =
    Returned du_result
  | Stopped
  | LinuxKernel u64 u64
  | LinuxKernel32 u64 u64
  | Switched u64 u64

definition hand_over :: "'f lb_env \<Rightarrow> boot_params \<Rightarrow> boot_end option" where
  "hand_over env p = do {
     s \<leftarrow> ShutdownUefiBootServices (lb_shutdown env);
     Some (if EFI_ERROR s then Stopped
           else if \<not> BootingWith32BitKernel p then LinuxKernel (KernelLoadAddr p) (DeviceTreeLoadAddr p)
           else if \<not> EFI_ERROR (lb_switch env) then Switched (KernelLoadAddr p) (DeviceTreeLoadAddr p)
           else LinuxKernel32 (KernelLoadAddr p) (DeviceTreeLoadAddr p))
   }"

abbreviation (input) FFBM_MODE_BUF_SIZE :: u32 where "FFBM_MODE_BUF_SIZE \<equiv> 8"

definition ffbm_text :: "'f lb_env \<Rightarrow> string \<Rightarrow> bytes option" where
  "ffbm_text env PartName =
     (if StrnCmp PartName ''boot'' 4 then Some []
      else map_option (\<lambda>(s, b). if s = EFI_SUCCESS then cstr b else [])
             (GetFfbmCommand (ce_misc (lb_cmde env)) (replicate 8 0) FFBM_MODE_BUF_SIZE []))"

definition boot_image_name :: "'f lb_env \<Rightarrow> BootInfo \<Rightarrow> string" where
  "boot_image_name env Info =
     (if (\<not> MultiSlotBoot Info \<or> IsDynamicPartitionSupport (lb_sw env)) \<and> BootIntoRecovery Info \<and>
         \<not> IsBuildUseRecoveryAsBoot (lb_sw env) then ''recovery'' else ''boot'')"

definition zero_params :: "image \<Rightarrow> u64 \<Rightarrow> boot_params" where
  "zero_params im sz = \<lparr>BaseMemory = 0, ImageBuffer = im, ImageSize = sz, DtboImgBuffer = None, VendorImageBuffer = None,
     VendorImageSize = 0, KernelLoadAddr = 0, KernelEndAddr = 0, RamdiskLoadAddr = 0, DeviceTreeLoadAddr = 0,
     HypDtboBaseAddr = None, PageSize = 0, KernelSize = 0, SecondSize = 0, RamdiskSize = 0, RamdiskOffset = 0,
     PatchedKernelHdrSize = 0, DtbOffset = 0, VendorRamdiskSize = 0, KernelSizeActual = 0, FinalCmdLine = [], CmdLine = [],
     BootingWith32BitKernel = False, BootingWithPatchedKernel = False, BootingWithGzipPkgKernel = False\<rparr>"

text \<open>The boot image is read, its header checked and the parameters filled in, up to the copy of the
  kernel.\<close>

definition prepare_kernel :: "'f lb_env \<Rightarrow> BootInfo \<Rightarrow> boot_params \<Rightarrow> lb_state \<Rightarrow>
    (efi_status \<times> boot_params \<times> lb_state) option" where
  "prepare_kernel env Info p st = do {
     (s, p1) \<leftarrow> UpdateBootParamsSizeAndCmdLine (lb_dte env) Info p;
     if s \<noteq> EFI_SUCCESS then Some (s, p1, st)
     else do {
       (s1, base, b) \<leftarrow> BaseMem (du_board (lb_due env)) (du_bst (lb_du st));
       let st1 = st\<lparr>lb_du := (lb_du st)\<lparr>du_bst := b\<rparr>\<rparr>;
       if s1 \<noteq> EFI_SUCCESS then Some (s1, p1, st1)
       else do {
         p2 \<leftarrow> UpdateKernelModeAndPkg (p1\<lparr>BaseMemory := base\<rparr>);
         (case UpdateBootParams (lb_region env) p2 of (s2, p3) \<Rightarrow>
           if s2 \<noteq> EFI_SUCCESS then Some (s2, p3, st1)
           else do {
             let st2 = set_dt (snd (SetandGetLoadAddr (Some (KernelLoadAddr p3, RamdiskLoadAddr p3)) LOAD_ADDR_NONE (lb_dt st1))) st1;
             (s3, p4, m) \<leftarrow> GZipPkgCheck (lb_zlib env) (lb_pool env) p3 (lb_mem st2);
             Some (s3, p4, st2\<lparr>lb_mem := m\<rparr>)
           })
       }
     }
   }"

text \<open>The rest: the ramdisk's place in the image, the device tree, the command line and the hand-over.\<close>

definition finish_boot :: "'f lb_env \<Rightarrow> BootInfo \<Rightarrow> bytes \<Rightarrow> boot_params \<Rightarrow> lb_state \<Rightarrow> (boot_end \<times> lb_state) option" where
  "finish_boot env Info FfbmStr p st =
     (let p1 = p\<lparr>KernelSizeActual := round_page32 (KernelSize p) (PageSize p)\<rparr>;
          p2 = p1\<lparr>RamdiskOffset := ADD_OF (PageSize p1) (KernelSizeActual p1)\<rparr>;
          st1 = (if AsciiStrStr (chars (CmdLine p2)) ''root='' \<noteq> None
                 then st\<lparr>lb_cmd := (lb_cmd st)\<lparr>cs_boot_dev_image := True\<rparr>\<rparr> else st) in
      if RamdiskOffset p2 = 0 then Some (Returned (DuStatus EFI_BAD_BUFFER_SIZE), st)
      else do {
        (s, p3, st2) \<leftarrow> DTBImgCheckAndAppendDT env Info p2 st1;
        if s \<noteq> EFI_SUCCESS then Some (Returned (DuStatus s), st2)
        else do {
          let st3 = set_dt (GetQrksKernelStartAddress (lb_dte env) (lb_dt st2)) st2;
          (c, cs) \<leftarrow> UpdateCmdLine (lb_cmde env) (CmdLine p3) FfbmStr (BootIntoRecovery Info) (BootReasonAlarm Info)
                       (VBCmdLine Info) (HeaderVersion Info) (lb_cmd st3);
          let st4 = st3\<lparr>lb_cmd := cs\<rparr>;
          (case c of
            Inl s1 \<Rightarrow> Some (Returned (DuStatus s1), st4)
          | Inr final \<Rightarrow> do {
              let p4 = p3\<lparr>FinalCmdLine := final\<rparr>;
              (r, st5) \<leftarrow> LoadAddrAndDTUpdate env Info p4 st4;
              if r \<noteq> DuStatus EFI_SUCCESS then Some (Returned r, st5)
              else map_option (\<lambda>e. (e, st5)) (hand_over env p4)
            })
        }
      })"

definition BootLinux :: "'f lb_env \<Rightarrow> BootInfo \<Rightarrow> lb_state \<Rightarrow> (boot_end \<times> lb_state) option" where
  "BootLinux env Info st = do {
     let z = zero_params \<lparr>im_addr = 0, im_data = []\<rparr> 0;
     let (s, p, st1) = (if IsVmEnabled st then CheckAndSetVmData env z st else (EFI_SUCCESS, z, st));
     if s \<noteq> EFI_SUCCESS then Some (Returned (DuStatus s), st1)
     else do {
       FfbmStr \<leftarrow> ffbm_text env (Pname Info);
       (case GetImage Info (boot_image_name env Info) of
         None \<Rightarrow> Some (Returned (DuStatus EFI_NOT_STARTED), st1)
       | Some d \<Rightarrow> (case ImgBuf d of
           None \<Rightarrow> Some (Returned (DuStatus EFI_NOT_STARTED), st1)
         | Some im \<Rightarrow>
             if ImgSize d = 0 then Some (Returned (DuStatus EFI_NOT_STARTED), st1)
             else let ms = CheckMDTPStatus env (Pname Info) Info (cs_dev (lb_cmd st1)) in
               if ms \<noteq> EFI_SUCCESS then Some (Returned (DuStatus ms), st1)
               else do {
                 hv \<leftarrow> get32 (im_data im) 40;
                 let Info1 = Info\<lparr>HeaderVersion := hv\<rparr>;
                 (s1, p1, st2) \<leftarrow> prepare_kernel env Info1 (p\<lparr>ImageBuffer := im, ImageSize := ImgSize d\<rparr>) st1;
                 if s1 \<noteq> EFI_SUCCESS then Some (Returned (DuStatus s1), st2)
                 else finish_boot env Info1 FfbmStr p1 st2
               }))
     }
   }"

section \<open>Lemmas\<close>

lemma part_length: "part im off n = Some v \<Longrightarrow> length v = unat n"
  by (auto simp: part_def slice_def split: if_split_asm)

text \<open>Two copies behind each other lie in memory as one.\<close>

lemma CopyMem_nth:
  assumes "i < length v" "length v \<le> 2 ^ 64"
  shows "CopyMem m a v (a + of_nat i) = v ! i"
proof -
  have "unat (of_nat i :: u64) = i" using assms by (simp add: unsigned_of_nat take_bit_nat_eq_self_iff)
  then show ?thesis using assms(1) by (simp add: CopyMem_def)
qed

lemma mem_range_CopyMem: "length v \<le> 2 ^ 64 \<Longrightarrow> mem_range (CopyMem m a v) a (length v) = v"
  by (rule nth_equalityI) (simp_all add: nth_mem_range CopyMem_nth)

lemma mem_range_two:
  assumes "length v + length w < 2 ^ 64"
  shows "mem_range (CopyMem (CopyMem m a v) (a + of_nat (length v)) w) a (length v + length w) = v @ w"
proof (rule nth_equalityI)
  fix i assume "i < length (mem_range (CopyMem (CopyMem m a v) (a + of_nat (length v)) w) a (length v + length w))"
  then have i: "i < length v + length w" by simp
  show "mem_range (CopyMem (CopyMem m a v) (a + of_nat (length v)) w) a (length v + length w) ! i = (v @ w) ! i"
  proof (cases "i < length v")
    case True
    have "length w \<le> unat (of_nat i - of_nat (length v) :: u64)"
    proof -
      have "unat (of_nat i :: u64) = i" "unat (of_nat (length v) :: u64) = length v"
        using assms True by (simp_all add: unsigned_of_nat take_bit_nat_eq_self_iff)
      then show ?thesis using True assms by (simp add: unat_sub_if_size word_size)
    qed
    then show ?thesis using True i CopyMem_nth [OF True, of m a] assms
      by (simp add: nth_mem_range nth_append CopyMem_outside [of w])
  next
    case False
    have e: "a + of_nat i = a + of_nat (length v) + of_nat (i - length v)" using False by (simp add: of_nat_diff)
    have "i - length v < length w" using i False by simp
    from CopyMem_nth [OF this, of "CopyMem m a v" "a + of_nat (length v)", folded e] show ?thesis
      using assms i False by (simp add: nth_mem_range nth_append)
  qed
qed simp

section \<open>Properties\<close>

text \<open>C36. The ramdisk the kernel is told about is the one it finds. When the load addresses are used up to
  the end for a 64-bit kernel, memory from the ramdisk's address on holds the vendor's ramdisk, from
  version 3 of the image on, followed by the image's own, byte for byte.\<close>

theorem LoadAddrAndDTUpdate_ramdisk:
  assumes "LoadAddrAndDTUpdate env Info p st = Some (DuStatus EFI_SUCCESS, st1)" "\<not> BootingWith32BitKernel p"
    and "part (ImageBuffer p) (RamdiskOffset p) (RamdiskSize p) = Some r"
    and "if HeaderVersion Info \<ge> 3 then Option.bind (VendorImageBuffer p) (\<lambda>v. part v (PageSize p) (VendorRamdiskSize p)) = Some vr
      else vr = []"
  shows "mem_range (lb_mem st1) (RamdiskLoadAddr p) (length vr + length r) = vr @ r"
proof -
  have "\<exists>m0. place_ramdisk Info p m0 = Some (lb_mem st1)"
    using assms(1,2)
    by (auto simp: LoadAddrAndDTUpdate_def Let_def place_kernel32_def split: if_split_asm Option.bind_split_asm) blast
  then obtain m0 where m: "place_ramdisk Info p m0 = Some (lb_mem st1)" by blast
  have r: "length r < 4294967296" using part_length [OF assms(3)] unat_u32_bound [of "RamdiskSize p"] by simp
  show ?thesis
  proof (cases "HeaderVersion Info \<ge> 3")
    case True
    then obtain v where v: "VendorImageBuffer p = Some v" "part v (PageSize p) (VendorRamdiskSize p) = Some vr"
      using assms(4) by (auto split: Option.bind_split_asm)
    have l: "length vr = unat (VendorRamdiskSize p)" using part_length [OF v(2)] .
    then have "ucast (VendorRamdiskSize p) = (of_nat (length vr) :: u64)" by simp
    then have "lb_mem st1 = CopyMem (CopyMem m0 (RamdiskLoadAddr p) vr) (RamdiskLoadAddr p + of_nat (length vr)) r"
      using m True v assms(3) by (simp add: place_ramdisk_def)
    moreover have "length vr + length r < 2 ^ 64" using l r unat_u32_bound [of "VendorRamdiskSize p"] by simp
    ultimately show ?thesis using mem_range_two by simp
  next
    case False
    then have "lb_mem st1 = CopyMem m0 (RamdiskLoadAddr p) r" "vr = []"
      using m assms(3,4) by (simp_all add: place_ramdisk_def)
    then show ?thesis using r mem_range_CopyMem [of r] by simp
  qed
qed


text \<open>C38. Theft protection stops the start. When the protection is active, or its state cannot be read, and
  the device is unlocked or does not enforce verification, starting a kernel ends with a status, before
  anything is written to the memory for the kernel.\<close>

theorem BootLinux_mdtp_blocks:
  assumes "ce_mdtp_support (lb_cmde env)"
    and "IsMdtpActive (ce_mdtp_prot (lb_cmde env)) (ce_mdtp_get (lb_cmde env)) = (ms, act)"
    and "act \<or> EFI_ERROR ms \<and> ms \<noteq> EFI_NOT_FOUND"
    and "IsUnlocked (cs_dev (lb_cmd st)) \<or> \<not> IsEnforcing (cs_dev (lb_cmd st))"
    and "BootLinux env Info st = Some (e, st1)"
  shows "\<exists>s. e = Returned (DuStatus s) \<and> s \<noteq> EFI_SUCCESS \<and> lb_mem st1 = lb_mem st"
proof -
  obtain s p st2 where v: "(if IsVmEnabled st then CheckAndSetVmData env (zero_params \<lparr>im_addr = 0, im_data = []\<rparr> 0) st
      else (EFI_SUCCESS, zero_params \<lparr>im_addr = 0, im_data = []\<rparr> 0, st)) = (s, p, st2)"
    by (metis prod_cases3)
  then have same: "lb_mem st2 = lb_mem st" "lb_cmd st2 = lb_cmd st"
    by (auto simp: CheckAndSetVmData_def GetVmData_def split: if_split_asm prod.split_asm option.split_asm sum.split_asm)
  have "CheckMDTPStatus env (Pname Info) Info (cs_dev (lb_cmd st2)) = EFI_NOT_STARTED"
    using assms(1-4) same(2) by (auto simp: CheckMDTPStatus_def MdtpBlocks_def)
  then show ?thesis using assms(5) same
    unfolding BootLinux_def v Let_def
    by (auto split: if_split_asm Option.bind_split_asm option.split_asm)
qed

text \<open>C39. Leaving the boot services ends. When the firmware answers from some call on with success, and
  pages for the map can always be had, the loop ends without an error, however the calls before failed
  and however the size of the map changed between them.\<close>

theorem ShutdownUefiBootServices_ends:
  assumes "\<forall>i. sd_pages env i" "\<forall>i\<ge>n. sd_map env i = EFI_SUCCESS \<and> sd_exit env i = EFI_SUCCESS"
  shows "\<exists>s. ShutdownUefiBootServices env = Some s \<and> \<not> EFI_ERROR s"
proof -
  have late: "shutdown_loop env i = Some EFI_SUCCESS" if "n \<le> i" for i
    using assms(2) that by (simp add: shutdown_loop.simps [of env i])
  have "\<exists>s. shutdown_loop env i = Some s \<and> \<not> EFI_ERROR s" for i
  proof (induction "n - i" arbitrary: i rule: less_induct)
    case less
    show ?case
    proof (cases "n \<le> i")
      case True
      then show ?thesis using late by simp
    next
      case False
      then have "\<exists>s. shutdown_loop env (i + 1) = Some s \<and> \<not> EFI_ERROR s" "\<exists>s. shutdown_loop env (i + 2) = Some s \<and> \<not> EFI_ERROR s"
        using less [of "i + 1"] less [of "i + 2"] by simp_all
      then show ?thesis using assms(1) by (subst shutdown_loop.simps) simp
    qed
  qed
  then show ?thesis by (simp add: ShutdownUefiBootServices_def)
qed

section \<open>An example\<close>

text \<open>The tree with one node, as in \<open>DtUpdate\<close>, without random seeds; a kernel of 64 bytes behind a page
  of 64 bytes, and a ramdisk of three bytes behind it.\<close>

definition boot_due :: "(string \<Rightarrow> bytes option) du_env" where
  "boot_due = up_env\<lparr>du_rng := (\<lambda>i. Inl EFI_DEVICE_ERROR), du_bytes := (\<lambda>f. [1, 2, 3])\<rparr>"

definition demo_lb :: "(string \<Rightarrow> bytes option) lb_env" where
  "demo_lb = \<lparr>lb_dte = demo_dt_env, lb_cmde = demo_cmd_env, lb_due = boot_due,
     lb_tree = (\<lambda>m a. [''#address-cells'' \<mapsto> [0, 0, 0, 2], ''#size-cells'' \<mapsto> [0, 0, 0, 2]]),
     lb_zlib = \<lparr>z_init = True, z_inflate = (\<lambda>b n. (Z_OTHER, 0, []))\<rparr>, lb_region = Inl EFI_NOT_FOUND,
     lb_overlay = \<lparr>pre_overlay_malloc = True, ufdt_install_blob = Some, ufdt_apply_multi_overlay = (\<lambda>b l. Some b)\<rparr>,
     lb_ovrd = 0, lb_hyp = Inl EFI_NOT_FOUND, MdtpBootState = (\<lambda>n. EFI_SUCCESS), lb_switch = EFI_NOT_FOUND,
     lb_shutdown = \<lparr>sd_map = (\<lambda>i. if i = 0 then EFI_BUFFER_TOO_SMALL else EFI_SUCCESS), sd_exit = (\<lambda>i. EFI_SUCCESS),
       sd_pages = (\<lambda>i. True)\<rparr>\<rparr>"

definition demo_lb_state :: lb_state where
  "demo_lb_state = \<lparr>lb_mem = (\<lambda>a. 0), lb_cmd = demo_cmd_state, lb_du = up_state, lb_vm = None\<rparr>"

definition demo_boot_params :: boot_params where
  "demo_boot_params = demo_params\<lparr>ImageBuffer := \<lparr>im_addr = 0x90000000, im_data = replicate 64 0 @ replicate 64 1 @ [7, 8, 9]\<rparr>,
     VendorImageBuffer := Some \<lparr>im_addr = 0x91000000, im_data = replicate 64 0 @ [4, 5]\<rparr>,
     DeviceTreeLoadAddr := 0x80200000, RamdiskOffset := 128, RamdiskSize := 3, VendorRamdiskSize := 2,
     KernelSize := 64, KernelSizeActual := 64\<rparr>"

definition demo_boot_info :: BootInfo where
  "demo_boot_info = \<lparr>MultiSlotBoot = True, BootIntoRecovery = False, BootReasonAlarm = False, Pname = ''recovery_a'',
     Images = [\<lparr>Name = ''boot'', ImgBuf = Some (ImageBuffer demo_boot_params), ImgSize = 131\<rparr>], HeaderVersion = 3,
     VBCmdLine = None\<rparr>"

text \<open>The steps of the tree's update on this tree.\<close>

abbreviation due1 :: "(string \<Rightarrow> bytes option) du_env" where "due1 \<equiv> boot_due\<lparr>du_addr := 0x80200000\<rparr>"

lemma due1_simps:
  "du_rw due1 = one_node" "du_rng boot_due i = Inl EFI_DEVICE_ERROR" "du_board due1 = du_board up_env" "du_ddr due1 = Inl EFI_NOT_FOUND"
  "du_splash due1 = Inl EFI_NOT_FOUND" "du_demura due1 = Inl EFI_NOT_FOUND" "du_dynamic due1" "\<not> du_partial due1"
  "du_addr due1 = 0x80200000" "du_lib due1 = du_lib up_env" "du_bytes due1 = (\<lambda>f. [1, 2, 3])"
  by (simp_all add: boot_due_def up_env_def)

lemma due1_path: "find_node_path due1 p f st = Some (0, st)"
  by (simp add: find_node_path_def due1_simps FdtPathOffset_def one_node_simps)

lemma due1_vals:
  "set_val due1 off n v f st = (0, f(n := Some v), st)"
  "append_val due1 off n v f st = (0, f(n := Some (case f n of None \<Rightarrow> v | Some w \<Rightarrow> w @ v)), st)"
  by (simp_all add: set_val_def append_val_def prop_update_def due1_simps FdtPropUpdateFunc_def one_node_simps)

lemma due1_seeds: "\<exists>st1. add_seeds due1 off (NUM_RNG_SEED_WORDS div 8) ret f st = (ret, f, st1)"
proof -
  have "\<exists>st1. add_seeds due1 off k ret f st = (ret, f, st1)" for k
    by (cases k) (simp_all add: due1_simps GetRandomSeed_def)
  then show ?thesis .
qed

lemma due1_chosen: "\<exists>f1 st1. update_chosen due1 off cl a n f st = (Inr 0, f1, st1)"
proof -
  from due1_seeds [of off 0 "f(''bootargs'' := Some (case f ''bootargs'' of None \<Rightarrow> text_val cl | Some w \<Rightarrow> w @ text_val cl))" st]
  obtain st1 where s: "add_seeds due1 off (NUM_RNG_SEED_WORDS div 8) 0
      (f(''bootargs'' := Some (case f ''bootargs'' of None \<Rightarrow> text_val cl | Some w \<Rightarrow> w @ text_val cl))) st =
    (0, f(''bootargs'' := Some (case f ''bootargs'' of None \<Rightarrow> text_val cl | Some w \<Rightarrow> w @ text_val cl)), st1)" by blast
  show ?thesis
    by (simp only: update_chosen_def due1_vals s prod.case)
      (simp add: add_kaslr_def add_initrd_def due1_vals GetRandomSeed_def due1_simps)
qed

lemma due1_memory:
  assumes "f ''#address-cells'' = Some [0, 0, 0, 2]" "f ''#size-cells'' = Some [0, 0, 0, 2]"
  shows "\<exists>f1 st1. update_memory_node due1 f up_state = Some (EFI_SUCCESS, f1, st1)"
proof -
  have q: "QueryMemoryCellSize due1 f = Some (Inr 2)"
    using assms by (simp add: QueryMemoryCellSize_def root_cells_def due1_simps one_node_simps be32_def slice_def
        GET_LWORD_FROM_BYTE_def Let_def)
  obtain ps where r: "ReadRamPartitions (du_board up_env) (du_bst up_state) = Some (EFI_SUCCESS, ps, du_bst up_state)"
    by (simp add: ReadRamPartitions_def up_state_def)
  have g: "UpdateGranuleInfo due1 g st = Some (g, st)" for g st
    by (simp add: UpdateGranuleInfo_def due1_simps GetGranuleSize_def up_env_def)
  have p: "du_pool up_env k" for k by (simp add: up_env_def)
  show ?thesis
    by (auto simp: update_memory_node_def due1_path target_dev_tree_mem_def AddMemMap_def q r g p due1_simps add_ddr_def
        split: prod.split)
qed

lemma due1_updated:
  assumes "f ''#address-cells'' = Some [0, 0, 0, 2]" "f ''#size-cells'' = Some [0, 0, 0, 2]"
  shows "\<exists>f1 d. UpdateDeviceTree due1 [] a n f up_state = Some (DuStatus EFI_SUCCESS, f1, d)"
proof -
  have h: "fdt_check_header_ext (du_lib up_env) 0x80200000 b" "fdt_totalsize (du_lib up_env) b = 64" for b
    by (simp_all add: fdt_check_header_ext_def section_ok_def up_env_def ADD_OF_def CHECK_ADD64_def Let_def)
  have z: "padded_size 64 0 \<noteq> 0" by (simp add: padded_size_def)
  have o: "rw_open one_node f k = (0, f)" "rw_header one_node f = 0" for k by (simp_all add: one_node_def)
  obtain f1 st1 where m: "update_memory_node due1 f up_state = Some (EFI_SUCCESS, f1, st1)"
    using due1_memory [OF assms] by blast
  obtain f2 st2 where c: "update_chosen due1 0 [] a n f1 st1 = (Inr 0, f2, st2)" using due1_chosen by blast
  have fs: "UpdateFstabNode due1 f2 st2 = Some (f2, st2, DuStatus EFI_SUCCESS)"
    by (simp add: UpdateFstabNode_def due1_path due1_simps fstab_nodes.simps [of due1] one_node_def)
  show ?thesis
    by (simp add: UpdateDeviceTree_def due1_simps h z o m UpdateSplashMemInfo_def UpdateDemuraInfo_def due1_path c fs
        partial_goods_def Let_def)
qed

lemma demo_boot_updated:
  "\<exists>st1. LoadAddrAndDTUpdate demo_lb demo_boot_info demo_boot_params demo_lb_state = Some (DuStatus EFI_SUCCESS, st1)"
proof -
  let ?f = "[''#address-cells'' \<mapsto> [0, 0, 0, 2], ''#size-cells'' \<mapsto> [0, 0, 0, 2]] :: string \<Rightarrow> bytes option"
  obtain f d where u: "UpdateDeviceTree due1 [] 0x80300000 5 ?f up_state = Some (DuStatus EFI_SUCCESS, f, d)"
    using due1_updated [of ?f] by fastforce
  have p: "DeviceTreeLoadAddr demo_boot_params = 0x80200000" "FinalCmdLine demo_boot_params = []"
    "RamdiskLoadAddr demo_boot_params = 0x80300000" "RamdiskSize demo_boot_params = 3" "VendorRamdiskSize demo_boot_params = 2"
    "RamdiskOffset demo_boot_params = 128" "im_addr (ImageBuffer demo_boot_params) = 0x90000000"
    "\<not> BootingWith32BitKernel demo_boot_params"
    by (simp_all add: demo_boot_params_def demo_params_def)
  have l: "lb_due demo_lb = boot_due" "lb_tree demo_lb = (\<lambda>m a. ?f)" by (simp_all add: demo_lb_def)
  have d: "lb_du demo_lb_state = up_state" by (simp add: demo_lb_state_def)
  obtain st1 where t: "update_tree demo_lb demo_boot_params 5 demo_lb_state = Some (DuStatus EFI_SUCCESS, st1)"
    by (simp add: update_tree_def p l d u chars_def Let_def)
  obtain m1 where m: "place_ramdisk demo_boot_info demo_boot_params (lb_mem st1) = Some m1"
    by (simp add: place_ramdisk_def part_def demo_boot_info_def demo_boot_params_def demo_params_def)
  show ?thesis
    by (simp add: LoadAddrAndDTUpdate_def p CHECK_ADD64_def place_kernel32_def Let_def t m)
qed

lemma LoadAddrAndDTUpdate_ramdisk_witness:
  "\<exists>st1. LoadAddrAndDTUpdate demo_lb demo_boot_info demo_boot_params demo_lb_state = Some (DuStatus EFI_SUCCESS, st1) \<and>
     mem_range (lb_mem st1) 0x80300000 5 = [4, 5, 7, 8, 9]"
proof -
  obtain st1 where u: "LoadAddrAndDTUpdate demo_lb demo_boot_info demo_boot_params demo_lb_state = Some (DuStatus EFI_SUCCESS, st1)"
    using demo_boot_updated by blast
  have r: "part (ImageBuffer demo_boot_params) (RamdiskOffset demo_boot_params) (RamdiskSize demo_boot_params) = Some [7, 8, 9]"
    and v: "part \<lparr>im_addr = 0x91000000, im_data = replicate 64 0 @ [4, 5]\<rparr> (PageSize demo_boot_params) (VendorRamdiskSize demo_boot_params) = Some [4, 5]"
    by (simp_all add: demo_boot_params_def demo_params_def part_def slice_def)
  have i: "VendorImageBuffer demo_boot_params = Some \<lparr>im_addr = 0x91000000, im_data = replicate 64 0 @ [4, 5]\<rparr>"
    "RamdiskLoadAddr demo_boot_params = 0x80300000" "\<not> BootingWith32BitKernel demo_boot_params" "HeaderVersion demo_boot_info = 3"
    by (simp_all add: demo_boot_params_def demo_params_def demo_boot_info_def)
  have "mem_range (lb_mem st1) (RamdiskLoadAddr demo_boot_params) (length [4, 5 :: u8] + length [7, 8, 9 :: u8]) = [4, 5] @ [7, 8, 9]"
    by (rule LoadAddrAndDTUpdate_ramdisk [OF u _ r]) (simp_all only: i v Option.bind.simps if_True order_refl simp_thms)
  then show ?thesis using u by (simp add: i numeral_eq_Suc)
qed


text \<open>An active protection and an unlocked device.\<close>

lemma BootLinux_mdtp_blocks_witness:
  "\<exists>s st1. BootLinux (demo_lb\<lparr>lb_cmde := demo_cmd_env\<lparr>ce_mdtp_support := True, ce_mdtp_prot := EFI_SUCCESS,
       ce_mdtp_get := Inr MDTP_STATE_ACTIVE\<rparr>\<rparr>) demo_boot_info demo_lb_state = Some (Returned (DuStatus s), st1) \<and>
     s \<noteq> EFI_SUCCESS \<and> lb_mem st1 = lb_mem demo_lb_state"
proof -
  let ?env = "demo_lb\<lparr>lb_cmde := demo_cmd_env\<lparr>ce_mdtp_support := True, ce_mdtp_prot := EFI_SUCCESS,
       ce_mdtp_get := Inr MDTP_STATE_ACTIVE\<rparr>\<rparr>"
  have b: "ce_mdtp_support (lb_cmde ?env)" "IsMdtpActive (ce_mdtp_prot (lb_cmde ?env)) (ce_mdtp_get (lb_cmde ?env)) = (EFI_SUCCESS, True)"
    "IsUnlocked (cs_dev (lb_cmd demo_lb_state)) \<or> \<not> IsEnforcing (cs_dev (lb_cmd demo_lb_state))"
    by (simp_all add: IsMdtpActive_def demo_lb_state_def demo_cmd_state_def IsEnforcing_def dev_start_def zero_DeviceInfo_def)
  then have c: "CheckMDTPStatus ?env n Info (cs_dev (lb_cmd demo_lb_state)) = EFI_NOT_STARTED" for n Info
    by (auto simp: CheckMDTPStatus_def MdtpBlocks_def)
  have f: "ffbm_text ?env (Pname demo_boot_info) = Some []"
    by (simp add: ffbm_text_def demo_boot_info_def StrnCmp_def char_at_def)
  have g: "GetImage demo_boot_info (boot_image_name ?env demo_boot_info) =
      Some \<lparr>Name = ''boot'', ImgBuf = Some (ImageBuffer demo_boot_params), ImgSize = 131\<rparr>"
    by (simp add: GetImage_def boot_image_name_def demo_boot_info_def StrnCmp_def char_at_def)
  have v: "\<not> IsVmEnabled demo_lb_state" by (simp add: IsVmEnabled_def demo_lb_state_def)
  obtain e st1 where "BootLinux ?env demo_boot_info demo_lb_state = Some (e, st1)"
    by (simp add: BootLinux_def v f g c Let_def)
  with BootLinux_mdtp_blocks [OF b(1,2) _ b(3) this] show ?thesis by blast
qed

lemma ShutdownUefiBootServices_ends_witness:
  "\<exists>s. ShutdownUefiBootServices \<lparr>sd_map = (\<lambda>i. if i = 0 then EFI_BUFFER_TOO_SMALL else EFI_SUCCESS),
      sd_exit = (\<lambda>i. if i = 1 then EFI_INVALID_PARAMETER else EFI_SUCCESS), sd_pages = (\<lambda>i. True)\<rparr> = Some s \<and> \<not> EFI_ERROR s"
  by (rule ShutdownUefiBootServices_ends [of _ 2]) simp_all

end
