(* ===== verification/LinuxLoader.thy ===== *)
theory LinuxLoader
  imports LinuxBoot FastbootSetup
begin

text \<open>
  The application (\<open>LinuxLoader.c\<close>): reading the device information, the partitions and the reboot
  reason, and going on to the kernel or to fastboot. It composes the start of \<open>FastbootSetup\<close> with the
  hand-over of \<open>LinuxBoot\<close>; loading and authenticating images (\<open>LoadImageAndAuth\<close>) is a parameter.
\<close>

section \<open>Environment and state\<close>

text \<open>The status of the stack's allocation, the reboot reason protocol (its lookup and the reason it
  gives), the theft protection's deactivation, and the events at the USB port.\<close>

record 'f ll_env =
  ll_lb :: "'f lb_env"
  ll_setup :: setup_env
  ll_stack :: efi_status
  ll_reason :: "efi_status + u32"
  MdtpDeactivate :: efi_status
  LoadImageAndAuth :: "BootInfo \<Rightarrow> flash_state \<Rightarrow> efi_status \<times> BootInfo \<times> flash_state"
  ll_events :: "usb_event list"

abbreviation ll_ptn :: "'f ll_env \<Rightarrow> ptn_env" where "ll_ptn env \<equiv> fl_ptn (fe_flash (su_fb (ll_setup env)))"
abbreviation ll_cmd :: "'f ll_env \<Rightarrow> cmd_env" where "ll_cmd env \<equiv> lb_cmde (ll_lb env)"

text \<open>The state: what the partitions and the device information are, what the kernel's start keeps, and
  the static variables of the application and of fastboot's GPT code.\<close>

record ll_state =
  ll_flash :: flash_state
  ll_boot :: lb_state
  BootReasonAlarmFlag :: bool
  BootIntoFastboot :: bool
  BootIntoRecoveryFlag :: bool
  ll_msg :: "bytes option"
  ll_gpt :: gpt_globals

definition set_dev :: "dev_state \<Rightarrow> ll_state \<Rightarrow> ll_state" where
  "set_dev d st = st\<lparr>ll_flash := (ll_flash st)\<lparr>fs_dev := d\<rparr>\<rparr>"

definition set_ptn :: "ptn_state \<Rightarrow> ll_state \<Rightarrow> ll_state" where
  "set_ptn p st = st\<lparr>ll_flash := (ll_flash st)\<lparr>fs_ptn := p\<rparr>\<rparr>"

text \<open>How the application ends: with a status, with a status that was cut to a byte on its way, or in the
  kernel's start, which did not come back.\<close>

datatype loader_end = LoaderStatus efi_status | LoaderByte efi_status | LoaderKernel boot_end

section \<open>Operations\<close>

definition MdtpDisable :: "'f ll_env \<Rightarrow> efi_status" where
  "MdtpDisable env =
     (if \<not> ce_mdtp_support (ll_cmd env) then EFI_SUCCESS
      else (case IsMdtpActive (ce_mdtp_prot (ll_cmd env)) (ce_mdtp_get (ll_cmd env)) of (s, act) \<Rightarrow>
        if EFI_ERROR s then s
        else if \<not> act then s
        else if EFI_ERROR (ce_mdtp_prot (ll_cmd env)) then ce_mdtp_prot (ll_cmd env)
        else MdtpDeactivate env))"

text \<open>The reboot reason keeps its value when the protocol is missing; the caller sees the status's low
  byte, which is not zero for an error.\<close>

definition GetRebootReason :: "'f ll_env \<Rightarrow> u32 \<Rightarrow> efi_status \<times> u32" where
  "GetRebootReason env ResetReason = (case ll_reason env of
     Inl s \<Rightarrow> (s, ResetReason)
   | Inr r \<Rightarrow> (EFI_SUCCESS, r))"

definition IsABRetryCountUpdateRequired :: "'f ll_env \<Rightarrow> ll_state \<Rightarrow> bool" where
  "IsABRetryCountUpdateRequired env st =
     (let BatteryStatus = snd (TargetPauseForBatteryCharge (ce_charger (ll_cmd env))) in
      \<not> (BatteryStatus \<and> IsChargingScreenEnable (fs_dev (ll_flash st)) \<or> BootIntoFastboot st \<or> BootIntoRecoveryFlag st))"

text \<open>The reboot reasons; a status that is not success ends the application.\<close>

definition handle_reason :: "'f ll_env \<Rightarrow> u32 \<Rightarrow> ll_state \<Rightarrow> efi_status \<times> ll_state" where
  "handle_reason env BootReason st =
     (if BootReason = 2 then (EFI_SUCCESS, st\<lparr>BootIntoFastboot := True\<rparr>)
      else if BootReason = 1 then (EFI_SUCCESS, st\<lparr>BootIntoRecoveryFlag := True\<rparr>)
      else if BootReason = 3 then (EFI_SUCCESS, st\<lparr>BootReasonAlarmFlag := True\<rparr>)
      else if BootReason = 5 then
        (case EnableEnforcingMode True (fs_dev (ll_flash st)) of (s, d) \<Rightarrow> (s, set_dev d st))
      else if BootReason = 4 then
        (let s = MdtpDisable env in
         if EFI_ERROR s \<and> s \<noteq> EFI_NOT_FOUND then (s, st)
         else (case EnableEnforcingMode False (fs_dev (ll_flash st)) of (s1, d) \<Rightarrow> (s1, set_dev d st)))
      else if BootReason = 6 then (ResetDeviceState (fl_vb (fe_flash (su_fb (ll_setup env)))), st)
      else (EFI_SUCCESS, st))"

text \<open>Up to the partition table and its slots.\<close>

definition load_partitions :: "'f ll_env \<Rightarrow> ll_state \<Rightarrow> (efi_status \<times> bool \<times> ll_state) option" where
  "load_partitions env st = do {
     (s, tab) \<leftarrow> EnumeratePartitions (ll_ptn env) (MaxLuns (fs_ptn (ll_flash st)));
     let p = fs_ptn (ll_flash st);
     let p1 = p\<lparr>Ptable := List.map fst (tab_handles tab) @ drop (length (tab_handles tab)) (Ptable p), MaxLuns := tab_luns tab\<rparr>;
     if EFI_ERROR s then Some (s, False, set_ptn p1 st)
     else do {
       p2 \<leftarrow> UpdatePartitionEntries (ll_ptn env) tab p1;
       let multi = PartitionHasMultiSlot p2 ''boot'';
       Some (EFI_SUCCESS, multi, set_ptn (if multi then snd (snd (GetActiveSlot p2 '''')) else p2) st)
     }
   }"

definition launch_fastboot :: "'f ll_env \<Rightarrow> ll_state \<Rightarrow> (loader_end \<times> ll_state \<times> session option) option" where
  "launch_fastboot env st = do {
     (s, ses) \<leftarrow> FastbootInitialize (ll_setup env) (ll_events env) (fresh_fastboot (ll_flash st) (ll_msg st) (ll_gpt st));
     Some (LoaderStatus s, st, Some ses)
   }"

text \<open>The kernel's start, when no fastboot is wanted. It works on the same partitions and device
  information; when it returns, fastboot follows.\<close>

definition start_kernel :: "'f ll_env \<Rightarrow> bool \<Rightarrow> ll_state \<Rightarrow> (loader_end \<times> ll_state \<times> session option) option" where
  "start_kernel env multi st =
     (let Info = \<lparr>MultiSlotBoot = multi, BootIntoRecovery = BootIntoRecoveryFlag st, BootReasonAlarm = BootReasonAlarmFlag st,
            Pname = '''', Images = [], HeaderVersion = 0, VBCmdLine = None\<rparr> in
      (case LoadImageAndAuth env Info (ll_flash st) of (s, Info1, fl) \<Rightarrow>
        let st1 = st\<lparr>ll_flash := fl\<rparr> in
        if s \<noteq> EFI_SUCCESS then launch_fastboot env st1
        else do {
          let lb = ll_boot st1;
          (e, lb1) \<leftarrow> BootLinux (ll_lb env) Info1
            (lb\<lparr>lb_cmd := (lb_cmd lb)\<lparr>cs_ptn := fs_ptn fl, cs_dev := fs_dev fl\<rparr>\<rparr>);
          let st2 = set_ptn (cs_ptn (lb_cmd lb1)) (st1\<lparr>ll_boot := lb1\<rparr>);
          (case e of
            Returned r \<Rightarrow> launch_fastboot env st2
          | _ \<Rightarrow> Some (LoaderKernel e, st2, None))
        }))"

text \<open>The entry. The keys are not read any more: fastboot is always chosen.\<close>

definition LinuxLoaderEntry :: "'f ll_env \<Rightarrow> ll_state \<Rightarrow> (loader_end \<times> ll_state \<times> session option) option" where
  "LinuxLoaderEntry env st =
     (if ll_stack env \<noteq> EFI_SUCCESS then Some (LoaderStatus (ll_stack env), st, None)
      else (case DeviceInfoInit (fs_dev (ll_flash st)) of (s0, d) \<Rightarrow>
        let st0 = set_dev d st in
        if s0 \<noteq> EFI_SUCCESS then Some (LoaderStatus s0, st0, None)
        else do {
          (s1, multi, st1) \<leftarrow> load_partitions env st0;
          if EFI_ERROR s1 then Some (LoaderStatus s1, st1, None)
          else let st2 = st1\<lparr>BootIntoFastboot := True\<rparr> in
            (case GetRebootReason env 0 of (s2, BootReason) \<Rightarrow>
              if s2 \<noteq> EFI_SUCCESS then Some (LoaderByte s2, st2, None)
              else (case handle_reason env BootReason st2 of (s3, st3) \<Rightarrow>
                if s3 \<noteq> EFI_SUCCESS then Some (LoaderStatus s3, st3, None)
                else do {
                  (s4, rec) \<leftarrow> RecoveryInit (ce_misc (ll_cmd env)) (BootIntoRecoveryFlag st3) [];
                  let st4 = st3\<lparr>BootIntoRecoveryFlag := rec\<rparr>;
                  (s5, b) \<leftarrow> BoardInit (du_board (lb_due (ll_lb env))) (du_bst (lb_du (ll_boot st4)));
                  let st5 = st4\<lparr>ll_boot := (ll_boot st4)\<lparr>lb_du := (lb_du (ll_boot st4))\<lparr>du_bst := b\<rparr>\<rparr>\<rparr>;
                  if s5 \<noteq> EFI_SUCCESS then Some (LoaderStatus s5, st5, None)
                  else let st6 = st5\<lparr>ll_boot := snd (GetVmData (ll_lb env) (ll_boot st5))\<rparr> in
                    if \<not> BootIntoFastboot st6 then start_kernel env multi st6 else launch_fastboot env st6
                }))
        }))"

section \<open>What the stages keep\<close>

lemma handle_reason_keeps:
  assumes "handle_reason env r st = (s, st1)"
  shows "BootIntoFastboot st \<Longrightarrow> BootIntoFastboot st1" "ll_boot st1 = ll_boot st"
    "fs_ptn (ll_flash st1) = fs_ptn (ll_flash st)" "fs_log (ll_flash st1) = fs_log (ll_flash st)"
    "IsUnlocked (fs_dev (ll_flash st1)) = IsUnlocked (fs_dev (ll_flash st))"
  using assms
  by (auto simp: handle_reason_def set_dev_def EnableEnforcingMode_def upd_dev_def IsUnlocked_def Let_def split: if_split_asm)

lemma load_partitions_keeps:
  assumes "load_partitions env st = Some (s, multi, st1)"
  shows "ll_boot st1 = ll_boot st" "fs_dev (ll_flash st1) = fs_dev (ll_flash st)" "fs_log (ll_flash st1) = fs_log (ll_flash st)"
  using assms
  by (auto simp: load_partitions_def set_ptn_def Let_def split: if_split_asm Option.bind_split_asm)

lemma GetVmData_mem: "lb_mem (snd (GetVmData env st)) = lb_mem st"
  by (auto simp: GetVmData_def split: sum.split option.split)

text \<open>What a run goes through that ends in fastboot or behind it.\<close>

lemma LinuxLoaderEntry_stages:
  assumes "LinuxLoaderEntry env st = Some (e, st1, ses)"
  shows "(ses = None \<and> (\<exists>s. e = LoaderStatus s \<or> e = LoaderByte s) \<and> lb_mem (ll_boot st1) = lb_mem (ll_boot st)) \<or>
    (\<exists>st0 st2 st3 multi r rec. load_partitions env (set_dev (snd (DeviceInfoInit (fs_dev (ll_flash st)))) st) = Some (st0, multi, st2) \<and>
       handle_reason env r (st2\<lparr>BootIntoFastboot := True\<rparr>) = (EFI_SUCCESS, st3) \<and>
       launch_fastboot env (st3\<lparr>BootIntoRecoveryFlag := rec, ll_boot := ll_boot st1\<rparr>) = Some (e, st1, ses) \<and>
       lb_mem (ll_boot st1) = lb_mem (ll_boot st))"
proof (cases "ll_stack env = EFI_SUCCESS")
  case False
  then show ?thesis using assms by (auto simp: LinuxLoaderEntry_def)
next
  case stack: True
  obtain d where d: "DeviceInfoInit (fs_dev (ll_flash st)) = (EFI_SUCCESS, d)" by (simp add: DeviceInfoInit_def Let_def)
  obtain s1 multi st2 where l: "load_partitions env (set_dev d st) = Some (s1, multi, st2)"
    using assms stack by (auto simp: LinuxLoaderEntry_def d split: Option.bind_split_asm)
  have b2: "ll_boot st2 = ll_boot st" using load_partitions_keeps(1) [OF l] by (simp add: set_dev_def)
  obtain s2 r where r: "GetRebootReason env 0 = (s2, r)" by fastforce
  obtain s3 st3 where h: "handle_reason env r (st2\<lparr>BootIntoFastboot := True\<rparr>) = (s3, st3)" by fastforce
  have b3: "ll_boot st3 = ll_boot st" "BootIntoFastboot st3" using handle_reason_keeps(1,2) [OF h] b2 by simp_all
  show ?thesis
  proof (cases "EFI_ERROR s1 \<or> s2 \<noteq> EFI_SUCCESS \<or> s3 \<noteq> EFI_SUCCESS")
    case True
    then show ?thesis using assms stack b2 b3 by (auto simp: LinuxLoaderEntry_def d l r h Let_def split: if_split_asm)
  next
    case False
    obtain s4 rec where i: "RecoveryInit (ce_misc (ll_cmd env)) (BootIntoRecoveryFlag st3) [] = Some (s4, rec)"
      using assms stack False by (auto simp: LinuxLoaderEntry_def d l r h Let_def split: Option.bind_split_asm)
    obtain s5 b where b: "BoardInit (du_board (lb_due (ll_lb env))) (du_bst (lb_du (ll_boot st3))) = Some (s5, b)"
      using assms stack False i by (auto simp: LinuxLoaderEntry_def d l r h Let_def split: Option.bind_split_asm)
    let ?lb = "(ll_boot st3)\<lparr>lb_du := (lb_du (ll_boot st3))\<lparr>du_bst := b\<rparr>\<rparr>"
    let ?vm = "snd (GetVmData (ll_lb env) ?lb)"
    show ?thesis
    proof (cases "s5 = EFI_SUCCESS")
      case s5: False
      then show ?thesis using assms stack False i b b3 by (auto simp: LinuxLoaderEntry_def d l r h Let_def)
    next
      case True
      then have f: "launch_fastboot env (st3\<lparr>BootIntoRecoveryFlag := rec, ll_boot := ?vm\<rparr>) = Some (e, st1, ses)"
        using assms stack False i b b3 by (simp add: LinuxLoaderEntry_def d l r h Let_def)
      then have "ll_boot st1 = ?vm" by (auto simp: launch_fastboot_def split: Option.bind_split_asm)
      then show ?thesis using f l h False d b3 GetVmData_mem [of "ll_lb env" ?lb] by auto
    qed
  qed
qed


section \<open>An example\<close>

text \<open>A device whose partitions cannot be told apart, with a chip and a platform that answer, and the
  reboot reason of verification in logging mode; the host connects.\<close>

definition demo_ll :: "(string \<Rightarrow> bytes option) ll_env" where
  "demo_ll = \<lparr>ll_lb = demo_lb\<lparr>
       lb_cmde := demo_cmd_env\<lparr>ce_misc := (demo_misc_env (demo_dev 4096 3) [])\<lparr>mi_db := (\<lambda>_. (EFI_NOT_FOUND, []))\<rparr>\<rparr>,
       lb_due := boot_due\<lparr>du_board := (du_board up_env)\<lparr>
         chip_prot := Inr \<lparr>GetChipId = (Inr 339), GetChipVersion = (Inr 0x20000), GetFoundryId = (Inr 0), GetModemSupport = (Inr 1)\<rparr>,
         plat_prot := Inr (EFI_SUCCESS, \<lparr>plat_type = 8, plat_version = 0x10000, plat_subtype = 0, plat_fusion = False\<rparr>)\<rparr>\<rparr>\<rparr>,
     ll_setup = demo_setup, ll_stack = EFI_SUCCESS, ll_reason = Inr 4, MdtpDeactivate = EFI_SUCCESS,
     LoadImageAndAuth = (\<lambda>i f. (EFI_NOT_FOUND, i, f)), ll_events = [Connected]\<rparr>"

definition demo_ll_state :: ll_state where
  "demo_ll_state = \<lparr>ll_flash = demo_frp_state, ll_boot = demo_lb_state, BootReasonAlarmFlag = False,
     BootIntoFastboot = False, BootIntoRecoveryFlag = False, ll_msg = None,
     ll_gpt = \<lparr>FlashingGpt = False, ParseSecondaryGpt = False\<rparr>\<rparr>"

lemma demo_ll_partitions:
  "load_partitions demo_ll st = Some (EFI_SUCCESS, False, set_ptn ((fs_ptn (ll_flash st))\<lparr>Ptable := replicate 8 [] @ drop 8 (Ptable (fs_ptn (ll_flash st))),
     MaxLuns := 8, PtnEntries := [], PtnEntriesBak := []\<rparr>) st)"
proof -
  have p: "handles (ll_ptn demo_ll) = (\<lambda>_. (EFI_SUCCESS, []))" "dev_type (ll_ptn demo_ll) = UFS"
    by (simp_all add: demo_ll_def demo_frp_flash_def)
  have r: "root_search (ll_ptn demo_ll) g = Some (EFI_SUCCESS, [], 0)" for g
    by (simp add: root_search_def GetBlkIOHandles_def p Let_def)
  show ?thesis
    by (simp add: load_partitions_def EnumeratePartitions_def r LunGuids_def UpdatePartitionEntries_def p PartitionHasMultiSlot_def
        Let_def set_ptn_def numeral_eq_Suc)
qed

lemma demo_ll_recovery: "\<exists>s. RecoveryInit (ce_misc (ll_cmd demo_ll)) b [] = Some (s, b)"
proof -
  let ?env = "ce_misc (ll_cmd demo_ll)"
  have m: "mi_db ?env = (\<lambda>_. (EFI_NOT_FOUND, []))" "mi_card ?env = Some ''UFS''" by (simp_all add: demo_ll_def demo_misc_env_def)
  have c: "CheckRootDeviceType ?env UNKNOWN = Some UFS"
    by (simp add: CheckRootDeviceType_def m AsciiStrnCmp_def)
  have p: "\<exists>n. GetPageSize ?env = Some n"
    by (simp add: GetPageSize_def c GetDeviceHandleInfo_def GetBlkIOHandles_def m Let_def LunGuids_def)
  have r: "\<exists>s. ReadFromPartition ?env g n [] = Some (s, None) \<and> s \<noteq> EFI_SUCCESS" for g n
    by (simp add: ReadFromPartition_def ReadFromPartitionOffset_def single_handle_def GetBlkIOHandles_def m Let_def)
  obtain n where n: "GetPageSize ?env = Some n" using p by blast
  obtain s where "ReadFromPartition ?env gEfiMiscPartitionGuid (n * 2) [] = Some (s, None)" "s \<noteq> EFI_SUCCESS" using r by blast
  then show ?thesis by (simp add: RecoveryInit_def c misc_guid_def n)
qed

lemma demo_ll_board: "\<exists>b. BoardInit (du_board (lb_due (ll_lb demo_ll))) (du_bst (lb_du demo_lb_state)) = Some (EFI_SUCCESS, b)"
proof -
  obtain r where "RamPartitionEntries (du_bst (lb_du demo_lb_state)) = Some r"
    by (simp add: demo_lb_state_def up_state_def)
  then show ?thesis
    by (simp add: BoardInit_def GetChipInfo_def GetPlatformInfo_def BoardDdrType_def ReadRamPartitions_def demo_ll_def)
qed

lemma find_in_no_luns:
  "Ptable st = replicate k [] \<Longrightarrow> i + n \<le> 8 \<Longrightarrow> find_in_luns env st pn i n = Some None"
  by (induction n arbitrary: i) (simp_all add: lun_handles_def)


end
